(* ===== verification/Prelude.thy ===== *)
theory Prelude imports Main "HOL-Library.Multiset" "HOL-Library.Sublist" "HOL-Library.Char_ord" "HOL-Library.List_Lexorder" "HOL-Library.Product_Lexorder"
begin

text \<open>
  What every component shares: the collections its automation uses, the names of the model's
  ambient types, the result type of fallible Go functions, and the generic facts about lists,
  sorting and association lists.  A Go function returning \<open>(T, error)\<close> is modelled by a value of
  \<open>'e + 'a\<close>: \<open>Inl e\<close> is the early return with a non-nil error, \<open>Inr x\<close> the normal return.
\<close>

named_theorems guard_defs \<open>definitions of guards and validators\<close>
named_theorems wf_intros \<open>introduction rules of well-formedness invariants\<close>

type_synonym gostring = string
type_synonym bytes = string

subsection \<open>Results of fallible functions\<close>

fun is_ok :: "'e + 'a \<Rightarrow> bool" where
  "is_ok (Inl _) = False"
| "is_ok (Inr _) = True"

definition ok_bind :: "'e + 'a \<Rightarrow> ('a \<Rightarrow> 'e + 'b) \<Rightarrow> 'e + 'b" where
  "ok_bind m k = (case m of Inl e \<Rightarrow> Inl e | Inr x \<Rightarrow> k x)"

lemma ok_bind_simps [simp]:
  "ok_bind (Inl e) k = Inl e"
  "ok_bind (Inr x) k = k x"
  by (simp_all add: ok_bind_def)

lemma ok_bind_eq_Inr [simp]:
  "ok_bind m k = Inr y \<longleftrightarrow> (\<exists>x. m = Inr x \<and> k x = Inr y)"
  by (cases m) auto

lemma is_ok_iff: "is_ok m \<longleftrightarrow> (\<exists>x. m = Inr x)"
  by (cases m) auto

lemma is_ok_bind [simp]: "is_ok (ok_bind m k) \<longleftrightarrow> (\<exists>x. m = Inr x \<and> is_ok (k x))"
  by (cases m) auto

text \<open>Checking a list in order and stopping at the first error, as a \<open>for range\<close> with an early
  return does.\<close>

fun all_ok :: "('a \<Rightarrow> 'e + unit) \<Rightarrow> 'a list \<Rightarrow> 'e + unit" where
  "all_ok f [] = Inr ()"
| "all_ok f (x # xs) = ok_bind (f x) (\<lambda>_. all_ok f xs)"

lemma all_ok_Inr [simp]: "all_ok f xs = Inr () \<longleftrightarrow> (\<forall>x \<in> set xs. f x = Inr ())"
  by (induction xs) auto

fun map_ok :: "('a \<Rightarrow> 'e + 'b) \<Rightarrow> 'a list \<Rightarrow> 'e + 'b list" where
  "map_ok f [] = Inr []"
| "map_ok f (x # xs) = ok_bind (f x) (\<lambda>y. ok_bind (map_ok f xs) (\<lambda>ys. Inr (y # ys)))"

lemma map_ok_Inr: "map_ok f xs = Inr ys \<longleftrightarrow> list_all2 (\<lambda>x y. f x = Inr y) xs ys"
  by (induction xs arbitrary: ys) (auto simp: list_all2_Cons1)

lemma map_ok_length: "map_ok f xs = Inr ys \<Longrightarrow> length ys = length xs"
  by (auto simp: map_ok_Inr dest: list_all2_lengthD)

lemma unit_result_cases: "(r :: 'e + unit) = Inr () \<or> (\<exists>e. r = Inl e)"
  by (cases r) auto

text \<open>A lookup whose failure is false.\<close>

lemma case_option_False_iff:
  "(case x of None \<Rightarrow> False | Some y \<Rightarrow> P y) \<longleftrightarrow> (\<exists>y. x = Some y \<and> P y)"
  by (cases x) auto

subsection \<open>Documents and decoders\<close>

text \<open>What a streaming decoder (of \<open>encoding/json\<close> or \<open>yaml.v3\<close>) finds after the first document:
  the end of the input, another document, or an error.\<close>

datatype stream_end = AtEOF | AnotherDocument | TrailingError gostring

subsection \<open>Looking for a duplicate\<close>

text \<open>The \<open>seen\<close>-map loop of the sources: the first key that was already seen, if any.\<close>

fun first_duplicate :: "'k set \<Rightarrow> 'k list \<Rightarrow> 'k option" where
  "first_duplicate seen [] = None"
| "first_duplicate seen (k # ks) =
     (if k \<in> seen then Some k else first_duplicate (insert k seen) ks)"

lemma first_duplicate_None_gen:
  "first_duplicate seen ks = None \<longleftrightarrow> distinct ks \<and> set ks \<inter> seen = {}"
  by (induction ks arbitrary: seen) auto

lemma first_duplicate_None [simp]: "first_duplicate {} ks = None \<longleftrightarrow> distinct ks"
  by (simp add: first_duplicate_None_gen)

subsection \<open>Sorting\<close>

text \<open>Sorting by a key that is injective on the list does not depend on the order the list
  came in: this is why results collected from concurrent goroutines, in any completion order, end
  in one order.\<close>

lemma sort_key_perm_eq:
  assumes "mset xs = mset ys" and "inj_on f (set xs)"
  shows "sort_key f xs = sort_key f ys"
proof (rule properties_for_sort_key)
  show "mset (sort_key f ys) = mset xs" using assms(1) by simp
next
  fix k assume "k \<in> set (sort_key f ys)"
  show "filter (\<lambda>x. f k = f x) (sort_key f ys) = filter (\<lambda>x. f k = f x) xs"
  proof -
    have eq: "mset (filter (\<lambda>x. f k = f x) (sort_key f ys)) = mset (filter (\<lambda>x. f k = f x) xs)"
      using assms(1) by simp
    have "\<forall>x \<in> set (filter (\<lambda>x. f k = f x) xs). x = k"
      using assms \<open>k \<in> set (sort_key f ys)\<close> by (auto dest!: mset_eq_setD inj_onD)
    then have "filter (\<lambda>x. f k = f x) xs = replicate (length (filter (\<lambda>x. f k = f x) xs)) k"
      by (metis replicate_length_same)
    moreover have "\<forall>x \<in> set (filter (\<lambda>x. f k = f x) (sort_key f ys)). x = k"
      using assms \<open>k \<in> set (sort_key f ys)\<close> by (auto dest!: mset_eq_setD inj_onD)
    then have "filter (\<lambda>x. f k = f x) (sort_key f ys)
        = replicate (length (filter (\<lambda>x. f k = f x) (sort_key f ys))) k"
      by (metis replicate_length_same)
    moreover have "length (filter (\<lambda>x. f k = f x) (sort_key f ys))
        = length (filter (\<lambda>x. f k = f x) xs)"
      using eq by (metis size_mset)
    ultimately show ?thesis by metis
  qed
next
  show "sorted (map f (sort_key f ys))" by simp
qed

lemma sort_key_eq_Nil [simp]: "sort_key f xs = [] \<longleftrightarrow> xs = []"
  by (metis length_0_conv length_sort)

lemma sort_perm_eq: "mset xs = mset ys \<Longrightarrow> sort xs = sort (ys :: 'a :: linorder list)"
  by (rule sort_key_perm_eq) auto

subsection \<open>Looking up by key\<close>

lemma find_by_key:
  "distinct (map f xs) \<Longrightarrow> x \<in> set xs \<Longrightarrow> P x \<Longrightarrow> find (\<lambda>y. f y = f x \<and> P y) xs = Some x"
  by (induction xs) (auto dest: image_eqI)

subsection \<open>Association lists\<close>

lemma map_of_perm_eq:
  assumes "mset xs = mset ys" and "distinct (map fst xs)"
  shows "map_of xs = map_of ys"
proof -
  have "distinct (map fst ys)"
    using assms by (metis mset_eq_imp_distinct_iff mset_map)
  moreover have "set xs = set ys" using assms(1) by (rule mset_eq_setD)
  ultimately show ?thesis using assms(2) by (metis map_of_inject_set)
qed

subsection \<open>Loops that may not end\<close>

text \<open>A \<open>for\<close> loop without a bound: \<open>step\<close> is one iteration of its body, which either returns (\<open>Inl\<close>)
  or goes on with the next state (\<open>Inr\<close>).  \<open>None\<close> is a loop that never returns.\<close>

partial_function (option) run_loop :: "('s \<Rightarrow> 'r + 's) \<Rightarrow> 's \<Rightarrow> 'r option" where
  "run_loop step s = (case step s of Inl r \<Rightarrow> Some r | Inr s' \<Rightarrow> run_loop step s')"

lemma run_loop_code [code]:
  "run_loop step s = (case step s of Inl r \<Rightarrow> Some r | Inr s' \<Rightarrow> run_loop step s')"
  by (rule run_loop.simps)

text \<open>Partial correctness by a loop invariant, and termination by a measure.\<close>

lemma run_loop_invariant:
  assumes "run_loop step s = Some r" and "I s"
    and "\<And>s s'. I s \<Longrightarrow> step s = Inr s' \<Longrightarrow> I s'" and "\<And>s r. I s \<Longrightarrow> step s = Inl r \<Longrightarrow> Q r"
  shows "Q r"
proof -
  have "st = step \<longrightarrow> I s \<longrightarrow> Q r" if "run_loop st s = Some r" for st s r
  proof (rule run_loop.raw_induct[where P = "\<lambda>st s r. st = step \<longrightarrow> I s \<longrightarrow> Q r"])
    show "run_loop st s = Some r" by (rule that)
  next
    fix loop st s r
    assume ih: "\<And>st s r. loop st s = Some r \<Longrightarrow> st = step \<longrightarrow> I s \<longrightarrow> Q r"
      and body: "(case st s of Inl r \<Rightarrow> Some r | Inr s' \<Rightarrow> loop st s') = Some r"
    show "st = step \<longrightarrow> I s \<longrightarrow> Q r"
      using ih body assms(3,4) by (cases "step s") auto
  qed
  with assms(1,2) show ?thesis by blast
qed

lemma run_loop_terminates:
  fixes m :: "'s \<Rightarrow> nat"
  assumes "I s" and "\<And>s s'. I s \<Longrightarrow> step s = Inr s' \<Longrightarrow> I s' \<and> m s' < m s"
  shows "\<exists>r. run_loop step s = Some r"
  using assms(1)
proof (induction "m s" arbitrary: s rule: less_induct)
  case less
  show ?case
  proof (cases "step s")
    case (Inl r)
    then show ?thesis by (subst run_loop.simps) simp
  next
    case (Inr s')
    with assms(2)[OF less.prems] less.hyps[of s'] show ?thesis
      by (subst run_loop.simps) simp
  qed
qed

end
