(* ===== verification/Go_Time.thy ===== *)
theory Go_Time imports Prelude
begin

text \<open>
  Go's \<open>time.Time\<close> and \<open>time.Duration\<close>, as far as the program uses them.  An instant is the
  number of nanoseconds since the zero \<open>time.Time\<close> (January 1 of year 1, UTC), so \<open>IsZero\<close> is
  equality with that instant, as in Go.  One clock is modelled: \<open>UTC()\<close>, which only drops the
  monotonic reading, is the identity on instants.  Durations are signed 64-bit nanosecond counts:
  \<open>Sub\<close> saturates and products wrap around.
\<close>

datatype gotime = Instant (ns: int)

instantiation gotime :: linorder
begin

definition less_eq_gotime :: "gotime \<Rightarrow> gotime \<Rightarrow> bool" where
  "less_eq_gotime t u \<longleftrightarrow> ns t \<le> ns u"

definition less_gotime :: "gotime \<Rightarrow> gotime \<Rightarrow> bool" where
  "less_gotime t u \<longleftrightarrow> ns t < ns u"

instance
  by standard (auto simp: less_eq_gotime_def less_gotime_def gotime.expand)

end

lemma Instant_less [simp, code]: "Instant a < Instant b \<longleftrightarrow> a < b"
  by (simp add: less_gotime_def)

lemma Instant_less_eq [simp, code]: "Instant a \<le> Instant b \<longleftrightarrow> a \<le> b"
  by (simp add: less_eq_gotime_def)

instantiation gotime :: zero
begin

definition zero_gotime :: gotime where
  "zero_gotime = Instant 0"

instance ..

end

abbreviation is_zero :: "gotime \<Rightarrow> bool" where
  "is_zero t \<equiv> t = 0"

lemma is_zero_iff: "t = 0 \<longleftrightarrow> ns t = 0"
  by (cases t) (simp add: zero_gotime_def)

lemma Instant_eq_zero [simp]: "Instant a = 0 \<longleftrightarrow> a = 0"
  by (simp add: zero_gotime_def)

type_synonym duration = int

definition max_duration :: duration where
  "max_duration = 2 ^ 63 - 1"

definition min_duration :: duration where
  "min_duration = - (2 ^ 63)"

definition time_sub :: "gotime \<Rightarrow> gotime \<Rightarrow> duration" where
  "time_sub t u = max min_duration (min max_duration (ns t - ns u))"

definition time_add :: "gotime \<Rightarrow> duration \<Rightarrow> gotime" where
  "time_add t d = Instant (ns t + d)"

text \<open>Multiplication of durations wraps around at 64 bits.\<close>

definition wrap64 :: "int \<Rightarrow> int" where
  "wrap64 x = (x + 2 ^ 63) mod 2 ^ 64 - 2 ^ 63"

definition duration_times :: "duration \<Rightarrow> duration \<Rightarrow> duration" where
  "duration_times a b = wrap64 (a * b)"

abbreviation millisecond :: duration where "millisecond \<equiv> 1000000"
abbreviation second :: duration where "second \<equiv> 1000000000"
abbreviation minute :: duration where "minute \<equiv> 60000000000"
abbreviation hour :: duration where "hour \<equiv> 3600000000000"

text \<open>\<open>Unix()\<close>: seconds since 1970, rounded down; an instant counts nanoseconds since year 1.\<close>

definition unix_seconds :: "gotime \<Rightarrow> int" where
  "unix_seconds t = ns t div second - 62135596800"

lemma ns_time_add [simp]: "ns (time_add t d) = ns t + d"
  by (simp add: time_add_def)

lemma wrap64_bounds: "min_duration \<le> wrap64 x" "wrap64 x \<le> max_duration"
proof -
  have "0 \<le> (x + 2 ^ 63) mod 2 ^ 64" "(x + 2 ^ 63) mod 2 ^ 64 < (2 :: int) ^ 64"
    by simp_all
  then show "min_duration \<le> wrap64 x" "wrap64 x \<le> max_duration"
    by (simp_all add: wrap64_def min_duration_def max_duration_def)
qed

lemma wrap64_id: "min_duration \<le> x \<Longrightarrow> x \<le> max_duration \<Longrightarrow> wrap64 x = x"
  by (simp add: wrap64_def min_duration_def max_duration_def)

text \<open>Within 292 years \<open>Sub\<close> is the exact difference; and it never changes the sign.\<close>

lemma time_sub_exact:
  "min_duration \<le> ns t - ns u \<Longrightarrow> ns t - ns u \<le> max_duration \<Longrightarrow> time_sub t u = ns t - ns u"
  by (simp add: time_sub_def)

lemma time_sub_nonpos: "time_sub t u \<le> 0 \<longleftrightarrow> t \<le> u"
  by (auto simp: time_sub_def min_duration_def max_duration_def less_eq_gotime_def)

lemma time_sub_nonneg: "0 \<le> time_sub t u \<longleftrightarrow> u \<le> t"
  by (auto simp: time_sub_def min_duration_def max_duration_def less_eq_gotime_def)

lemma time_sub_mono: "t \<le> t' \<Longrightarrow> time_sub t u \<le> time_sub t' u"
  by (auto simp: time_sub_def less_eq_gotime_def)

text \<open>For a bound below the saturation point, comparing the saturated difference is comparing
  instants.\<close>

lemma time_sub_le_iff:
  assumes "min_duration \<le> d" "d < max_duration"
  shows "time_sub t u \<le> d \<longleftrightarrow> ns t \<le> ns u + d"
  using assms by (auto simp: time_sub_def)

end
