(* ===== verification/Domain.thy ===== *)
theory Domain imports Go_Time
begin

text \<open>
  The assurance domain model of \<open>internal/profiles/profile.go\<close>.  The Go enumerations are string
  types; each is a datatype with the source's constants and one constructor for any other text
  (the empty text is Go's zero value), with \<open>to_<enum>\<close> for the conversion from a string and
  \<open><enum>_text\<close> for the conversion back.  A profile's \<open>Probe\<close> function is behaviour outside the
  model: the operations that call it take its answers from their environment.
\<close>

subsection \<open>Roles, methods, decisions and reasons\<close>

datatype role = RoleStatusOracle | RoleClientExecutor | RoleText gostring

fun role_text :: "role \<Rightarrow> gostring" where
  "role_text RoleStatusOracle = ''status_oracle''"
| "role_text RoleClientExecutor = ''client_executor''"
| "role_text (RoleText s) = s"

datatype decision = DecisionAccept | DecisionReject | DecisionInconclusive | DecisionHarnessError
  | DecisionText gostring

fun decision_text :: "decision \<Rightarrow> gostring" where
  "decision_text DecisionAccept = ''ACCEPT''"
| "decision_text DecisionReject = ''REJECT''"
| "decision_text DecisionInconclusive = ''INCONCLUSIVE''"
| "decision_text DecisionHarnessError = ''HARNESS_ERROR''"
| "decision_text (DecisionText s) = s"

definition to_decision :: "gostring \<Rightarrow> decision" where
  "to_decision s = (case find (\<lambda>d. decision_text d = s)
      [DecisionAccept, DecisionReject, DecisionInconclusive, DecisionHarnessError] of
      Some d \<Rightarrow> d | None \<Rightarrow> DecisionText s)"

datatype reason = ReasonStatusGood | ReasonRevoked | ReasonExpired | ReasonMissingStatus
  | ReasonInvalidStatus | ReasonStaleStatus | ReasonFutureStatus | ReasonMissingFreshness
  | ReasonUnknownStatus | ReasonNoRevocationCheck | ReasonNetworkFailure | ReasonTLSFailure
  | ReasonClientPolicy | ReasonHarnessFailure | ReasonText gostring

fun reason_text :: "reason \<Rightarrow> gostring" where
  "reason_text ReasonStatusGood = ''STATUS_GOOD''"
| "reason_text ReasonRevoked = ''REVOKED''"
| "reason_text ReasonExpired = ''EXPIRED''"
| "reason_text ReasonMissingStatus = ''MISSING_STATUS''"
| "reason_text ReasonInvalidStatus = ''INVALID_STATUS''"
| "reason_text ReasonStaleStatus = ''STALE_STATUS''"
| "reason_text ReasonFutureStatus = ''FUTURE_STATUS''"
| "reason_text ReasonMissingFreshness = ''MISSING_FRESHNESS_BOUND''"
| "reason_text ReasonUnknownStatus = ''UNKNOWN_STATUS''"
| "reason_text ReasonNoRevocationCheck = ''NO_REVOCATION_CHECK''"
| "reason_text ReasonNetworkFailure = ''NETWORK_FAILURE''"
| "reason_text ReasonTLSFailure = ''TLS_FAILURE''"
| "reason_text ReasonClientPolicy = ''CLIENT_POLICY''"
| "reason_text ReasonHarnessFailure = ''HARNESS_FAILURE''"
| "reason_text (ReasonText s) = s"

definition known_reasons :: "reason list" where
  "known_reasons = [ReasonStatusGood, ReasonRevoked, ReasonExpired, ReasonMissingStatus,
     ReasonInvalidStatus, ReasonStaleStatus, ReasonFutureStatus, ReasonMissingFreshness,
     ReasonUnknownStatus, ReasonNoRevocationCheck, ReasonNetworkFailure, ReasonTLSFailure,
     ReasonClientPolicy, ReasonHarnessFailure]"

definition to_reason :: "gostring \<Rightarrow> reason" where
  "to_reason s = (case find (\<lambda>r. reason_text r = s) known_reasons of
      Some r \<Rightarrow> r | None \<Rightarrow> ReasonText s)"

datatype check_method = MethodOCSPDirect | MethodOCSPStapled | MethodCRL | MethodNone
  | MethodText gostring

fun method_text :: "check_method \<Rightarrow> gostring" where
  "method_text MethodOCSPDirect = ''ocsp_direct''"
| "method_text MethodOCSPStapled = ''ocsp_stapled''"
| "method_text MethodCRL = ''crl''"
| "method_text MethodNone = ''none''"
| "method_text (MethodText s) = s"

type_synonym scenario = gostring

lemma decision_text_to_decision [simp]: "decision_text (to_decision s) = s"
  by (auto simp: to_decision_def find_Some_iff split: option.split)

lemma reason_text_to_reason [simp]: "reason_text (to_reason s) = s"
  by (auto simp: to_reason_def find_Some_iff split: option.split)

lemma known_reasons_iff: "r \<in> set known_reasons \<longleftrightarrow> (\<forall>s. r \<noteq> ReasonText s)"
  by (cases r) (auto simp: known_reasons_def)

lemma inj_on_reason_text: "inj_on reason_text (set known_reasons)"
  by (auto simp: inj_on_def known_reasons_def)

subsection \<open>Freshness policies\<close>

record status_freshness_policy =
  max_clock_skew :: duration

definition status_with_defaults :: "status_freshness_policy \<Rightarrow> status_freshness_policy" where
  "status_with_defaults p =
     (if max_clock_skew p \<le> 0 then p\<lparr>max_clock_skew := 5 * minute\<rparr> else p)"

record ocsp_freshness_policy =
  ocsp_require_next_update :: bool
  max_age_without_next_update :: duration

definition ocsp_with_defaults :: "ocsp_freshness_policy \<Rightarrow> ocsp_freshness_policy" where
  "ocsp_with_defaults p =
     (if max_age_without_next_update p \<le> 0 then p\<lparr>max_age_without_next_update := hour\<rparr> else p)"

record crl_freshness_policy =
  crl_require_next_update :: bool
  crl_max_age :: duration

definition crl_with_defaults :: "crl_freshness_policy \<Rightarrow> crl_freshness_policy" where
  "crl_with_defaults p = (if crl_max_age p \<le> 0 then p\<lparr>crl_max_age := hour\<rparr> else p)"

lemma skew_default_pos [simp]: "0 < max_clock_skew (status_with_defaults p)"
  by (simp add: status_with_defaults_def)

lemma ocsp_age_default_pos [simp]: "0 < max_age_without_next_update (ocsp_with_defaults p)"
  by (simp add: ocsp_with_defaults_def)

lemma crl_age_default_pos [simp]: "0 < crl_max_age (crl_with_defaults p)"
  by (simp add: crl_with_defaults_def)

lemma ocsp_default_require [simp]:
  "ocsp_require_next_update (ocsp_with_defaults p) = ocsp_require_next_update p"
  by (simp add: ocsp_with_defaults_def)

lemma crl_default_require [simp]:
  "crl_require_next_update (crl_with_defaults p) = crl_require_next_update p"
  by (simp add: crl_with_defaults_def)

subsection \<open>Targets, evidence and observations\<close>

record target =
  tgt_host :: gostring
  tgt_connect_host :: gostring
  tgt_port :: int
  tgt_ca_chain_pem :: gostring
  tgt_issuer_pem :: gostring
  tgt_ocsp_url :: gostring
  tgt_crl_url :: gostring
  tgt_certificate_serial :: gostring
  tgt_issued_leaf_sha256 :: gostring
  tgt_scenario :: scenario
  tgt_status_freshness :: status_freshness_policy
  tgt_ocsp_freshness :: ocsp_freshness_policy
  tgt_crl_freshness :: crl_freshness_policy
  tgt_probe_timeout :: duration

record artifact =
  art_path :: gostring
  art_sha256 :: gostring
  art_media_type :: gostring

record raw_artifact =
  raw_name :: gostring
  raw_media_type :: gostring
  raw_encoding :: gostring
  raw_data :: gostring

record command_evidence =
  ev_client :: gostring
  ev_executor :: gostring
  ev_client_version :: gostring
  ev_tls_backend :: gostring
  ev_presented_leaf_sha256 :: gostring
  ev_exit_code :: "int option"
  ev_stdout_sha256 :: gostring
  ev_stderr_sha256 :: gostring
  ev_artifacts :: "artifact list"
  ev_raw_artifacts :: "raw_artifact list"

definition no_evidence :: command_evidence where
  "no_evidence = \<lparr>ev_client = [], ev_executor = [], ev_client_version = [], ev_tls_backend = [],
     ev_presented_leaf_sha256 = [], ev_exit_code = None, ev_stdout_sha256 = [],
     ev_stderr_sha256 = [], ev_artifacts = [], ev_raw_artifacts = []\<rparr>"

record observation =
  obs_decision :: decision
  obs_reason :: reason
  obs_evidence :: command_evidence
  obs_harness_error :: gostring

record preflight_result =
  pf_profile :: gostring
  pf_role :: role
  pf_method :: check_method
  pf_scenario :: scenario
  pf_decision :: decision
  pf_reason :: reason
  pf_expected_decision :: decision
  pf_expected_reasons :: "reason list"
  pf_expectation_met :: bool
  pf_probe_started_at :: gotime
  pf_observed_at :: gotime
  pf_age_at_revoke :: duration
  pf_evidence :: command_evidence
  pf_err :: gostring

subsection \<open>Expectations\<close>

record expectation =
  exp_before :: decision
  exp_before_reasons :: "reason list"
  exp_after :: decision
  exp_after_reasons :: "reason list"

fun reason_allowed :: "reason \<Rightarrow> reason list \<Rightarrow> bool" where
  "reason_allowed r [] = True"
| "reason_allowed r (a # as) = (\<exists>candidate \<in> set (a # as). r = candidate)"

definition matches_before :: "expectation \<Rightarrow> observation \<Rightarrow> bool" where
  "matches_before e o' \<longleftrightarrow>
     obs_decision o' = exp_before e \<and> reason_allowed (obs_reason o') (exp_before_reasons e)"

definition matches_after :: "expectation \<Rightarrow> observation \<Rightarrow> bool" where
  "matches_after e o' \<longleftrightarrow>
     obs_decision o' = exp_after e \<and> reason_allowed (obs_reason o') (exp_after_reasons e)"

lemma reason_allowed_iff: "reason_allowed r as \<longleftrightarrow> as = [] \<or> r \<in> set as"
  by (cases as) auto

subsection \<open>Profiles and results\<close>

record profile =
  prof_name :: gostring
  prof_role :: role
  prof_method :: check_method
  prof_description :: gostring

record result =
  res_profile :: gostring
  res_role :: role
  res_method :: check_method
  res_scenario :: scenario
  res_decision :: decision
  res_reason :: reason
  res_expected_decision :: decision
  res_expected_reasons :: "reason list"
  res_expectation_met :: bool
  res_policy_decision :: decision
  res_policy_reasons :: "reason list"
  res_policy_met :: bool
  res_certificate_serial :: gostring
  res_revoke_ack_at :: gotime
  res_decision_at :: gotime
  res_client_attempt_at :: gotime
  res_required_evidence :: "gostring list"
  res_evidence_satisfied_at :: "gostring \<rightharpoonup> gotime"
  res_decision_latency :: duration
  res_enforcement_latency :: duration
  res_attempts :: nat
  res_evidence :: command_evidence
  res_err :: gostring

definition zero_result :: result where
  "zero_result = \<lparr>res_profile = [], res_role = RoleText [], res_method = MethodText [],
     res_scenario = [], res_decision = DecisionText [], res_reason = ReasonText [],
     res_expected_decision = DecisionText [], res_expected_reasons = [],
     res_expectation_met = False, res_policy_decision = DecisionText [], res_policy_reasons = [],
     res_policy_met = False, res_certificate_serial = [], res_revoke_ack_at = 0,
     res_decision_at = 0, res_client_attempt_at = 0, res_required_evidence = [],
     res_evidence_satisfied_at = Map.empty, res_decision_latency = 0,
     res_enforcement_latency = 0, res_attempts = 0, res_evidence = no_evidence, res_err = []\<rparr>"

end
