(* ===== verification/Probe_Config.thy ===== *)
theory Probe_Config imports Domain
begin

text \<open>
  \<open>internal/config/config.go\<close>: the probe configuration, its defaults and validation, and the
  queries the runner makes of it.  Reading the file and the YAML decoder are parameters: \<open>read\<close>
  maps a path to its bytes, \<open>decode\<close> the bytes to the first document and \<open>trailing\<close> to what
  follows it.
\<close>

record profile_config =
  pc_name :: gostring
  pc_enabled :: bool
  pc_timeout :: duration

record status_freshness_config =
  sf_max_clock_skew :: duration

record ocsp_freshness_config =
  of_require_next_update :: bool
  of_max_age_without_next_update :: duration

record crl_freshness_config =
  cf_require_next_update :: bool
  cf_max_age :: duration

record policy_config =
  pol_enforce :: bool

record config =
  poll_interval :: duration
  max_wait :: duration
  max_attempts :: int
  preflight_max_age :: duration
  cfg_profiles :: "profile_config list"
  status_freshness :: status_freshness_config
  ocsp_freshness :: ocsp_freshness_config
  crl_freshness :: crl_freshness_config
  policy :: policy_config

datatype config_error = ReadError gostring | ParseError gostring | MultipleDocuments
  | IntervalsNotPositive | NegativeFreshness | EmptyProfileName | DuplicateProfile gostring
  | TimeoutNotPositive gostring | NoProfileEnabled | NotImplemented gostring

subsection \<open>Loading\<close>

definition apply_interval_defaults :: "config \<Rightarrow> config" where
  "apply_interval_defaults c =
     (let c = (if poll_interval c = 0 then c\<lparr>poll_interval := 2 * second\<rparr> else c);
          c = (if max_wait c = 0 then c\<lparr>max_wait := 180 * second\<rparr> else c);
          c = (if max_attempts c = 0 then c\<lparr>max_attempts := 90\<rparr> else c)
      in if preflight_max_age c = 0 then c\<lparr>preflight_max_age := 2 * second\<rparr> else c)"

definition apply_freshness_defaults :: "config \<Rightarrow> config" where
  "apply_freshness_defaults c =
     (let c = (if sf_max_clock_skew (status_freshness c) = 0
               then c\<lparr>status_freshness := (status_freshness c)\<lparr>sf_max_clock_skew := 5 * minute\<rparr>\<rparr>
               else c);
          c = (if of_max_age_without_next_update (ocsp_freshness c) = 0
               then c\<lparr>ocsp_freshness :=
                      (ocsp_freshness c)\<lparr>of_max_age_without_next_update := hour\<rparr>\<rparr>
               else c)
      in if cf_max_age (crl_freshness c) = 0
         then c\<lparr>crl_freshness := (crl_freshness c)\<lparr>cf_max_age := hour\<rparr>\<rparr> else c)"

text \<open>The loop over the profiles: names non-empty and not seen before, timeouts of enabled
  profiles positive; it returns the number of enabled profiles.\<close>

fun check_profiles :: "gostring set \<Rightarrow> nat \<Rightarrow> profile_config list \<Rightarrow> config_error + nat" where
  "check_profiles seen enabled [] = Inr enabled"
| "check_profiles seen enabled (p # ps) =
     (if pc_name p = [] then Inl EmptyProfileName
      else if pc_name p \<in> seen then Inl (DuplicateProfile (pc_name p))
      else if pc_enabled p then
        (if pc_timeout p \<le> 0 then Inl (TimeoutNotPositive (pc_name p))
         else check_profiles (insert (pc_name p) seen) (Suc enabled) ps)
      else check_profiles (insert (pc_name p) seen) enabled ps)"

definition finish_load :: "config \<Rightarrow> config_error + config" where
  "finish_load c0 =
     (let c = apply_interval_defaults c0 in
      if poll_interval c < 0 \<or> max_wait c < 0 \<or> max_attempts c < 0 \<or> preflight_max_age c \<le> 0
      then Inl IntervalsNotPositive
      else if sf_max_clock_skew (status_freshness c) < 0
        \<or> of_max_age_without_next_update (ocsp_freshness c) < 0
        \<or> cf_max_age (crl_freshness c) < 0
      then Inl NegativeFreshness
      else let c = apply_freshness_defaults c in
        ok_bind (check_profiles {} 0 (cfg_profiles c)) (\<lambda>enabled.
          if enabled = 0 then Inl NoProfileEnabled else Inr c))"

definition load_config ::
  "(gostring \<Rightarrow> gostring + bytes) \<Rightarrow> (bytes \<Rightarrow> gostring + config) \<Rightarrow> (bytes \<Rightarrow> stream_end)
   \<Rightarrow> gostring \<Rightarrow> config_error + config" where
  "load_config read decode trailing path =
     (case read path of Inl e \<Rightarrow> Inl (ReadError e)
      | Inr data \<Rightarrow>
        (case decode data of Inl e \<Rightarrow> Inl (ParseError e)
         | Inr c \<Rightarrow>
           (case trailing data of
              AnotherDocument \<Rightarrow> Inl MultipleDocuments
            | TrailingError e \<Rightarrow> Inl (ParseError e)
            | AtEOF \<Rightarrow> finish_load c)))"

subsection \<open>Queries\<close>

definition canonical_config :: "config \<Rightarrow> config" where
  "canonical_config c = c\<lparr>cfg_profiles := filter pc_enabled (cfg_profiles c)\<rparr>"

definition config_digest :: "(config \<Rightarrow> bytes) \<Rightarrow> (bytes \<Rightarrow> gostring) \<Rightarrow> config \<Rightarrow> gostring" where
  "config_digest marshal sha256_hex c = ''sha256:'' @ sha256_hex (marshal (canonical_config c))"

definition validate_enabled_config :: "config \<Rightarrow> gostring list \<Rightarrow> config_error + unit" where
  "validate_enabled_config c known_names =
     all_ok (\<lambda>p. if \<not> pc_enabled p then Inr ()
                 else if pc_name p \<notin> set known_names then Inl (NotImplemented (pc_name p))
                 else Inr ()) (cfg_profiles c)"

definition timeout_for :: "config \<Rightarrow> gostring \<Rightarrow> duration" where
  "timeout_for c name = (case find (\<lambda>p. pc_name p = name \<and> 0 < pc_timeout p) (cfg_profiles c) of
      Some p \<Rightarrow> pc_timeout p | None \<Rightarrow> 5 * second)"

definition enabled_names :: "config \<Rightarrow> gostring list" where
  "enabled_names c = map pc_name (filter pc_enabled (cfg_profiles c))"

definition is_enabled :: "config \<Rightarrow> gostring \<Rightarrow> bool" where
  "is_enabled c name \<longleftrightarrow> (\<exists>p \<in> set (cfg_profiles c). pc_name p = name \<and> pc_enabled p)"

subsection \<open>What a loaded configuration satisfies\<close>

definition wf_profiles :: "profile_config list \<Rightarrow> bool" where
  "wf_profiles ps \<longleftrightarrow> distinct (map pc_name ps) \<and> [] \<notin> set (map pc_name ps)
     \<and> (\<forall>p \<in> set ps. pc_enabled p \<longrightarrow> 0 < pc_timeout p)"

definition wf_config :: "config \<Rightarrow> bool" where
  "wf_config c \<longleftrightarrow> 0 < poll_interval c \<and> 0 < max_wait c \<and> 0 < max_attempts c
     \<and> 0 < preflight_max_age c \<and> 0 < sf_max_clock_skew (status_freshness c)
     \<and> 0 < of_max_age_without_next_update (ocsp_freshness c) \<and> 0 < cf_max_age (crl_freshness c)
     \<and> wf_profiles (cfg_profiles c) \<and> enabled_names c \<noteq> []"

lemma check_profiles_Inr:
  "check_profiles seen k ps = Inr n \<longleftrightarrow>
     wf_profiles ps \<and> set (map pc_name ps) \<inter> seen = {} \<and> n = k + length (filter pc_enabled ps)"
  by (induction ps arbitrary: seen k) (auto simp: wf_profiles_def)

lemma enabled_names_empty [simp]: "enabled_names c = [] \<longleftrightarrow> filter pc_enabled (cfg_profiles c) = []"
  by (simp add: enabled_names_def)

lemma cfg_profiles_defaults [simp]:
  "cfg_profiles (apply_interval_defaults c) = cfg_profiles c"
  "cfg_profiles (apply_freshness_defaults c) = cfg_profiles c"
  by (simp_all add: apply_interval_defaults_def apply_freshness_defaults_def Let_def)

lemma interval_defaults_fields [simp]:
  "poll_interval (apply_interval_defaults c)
     = (if poll_interval c = 0 then 2 * second else poll_interval c)"
  "max_wait (apply_interval_defaults c) = (if max_wait c = 0 then 180 * second else max_wait c)"
  "max_attempts (apply_interval_defaults c) = (if max_attempts c = 0 then 90 else max_attempts c)"
  "preflight_max_age (apply_interval_defaults c)
     = (if preflight_max_age c = 0 then 2 * second else preflight_max_age c)"
  "status_freshness (apply_interval_defaults c) = status_freshness c"
  "ocsp_freshness (apply_interval_defaults c) = ocsp_freshness c"
  "crl_freshness (apply_interval_defaults c) = crl_freshness c"
  by (simp_all add: apply_interval_defaults_def Let_def)

lemma freshness_defaults_fields [simp]:
  "poll_interval (apply_freshness_defaults c) = poll_interval c"
  "max_wait (apply_freshness_defaults c) = max_wait c"
  "max_attempts (apply_freshness_defaults c) = max_attempts c"
  "preflight_max_age (apply_freshness_defaults c) = preflight_max_age c"
  "sf_max_clock_skew (status_freshness (apply_freshness_defaults c))
     = (if sf_max_clock_skew (status_freshness c) = 0 then 5 * minute
        else sf_max_clock_skew (status_freshness c))"
  "of_max_age_without_next_update (ocsp_freshness (apply_freshness_defaults c))
     = (if of_max_age_without_next_update (ocsp_freshness c) = 0 then hour
        else of_max_age_without_next_update (ocsp_freshness c))"
  "cf_max_age (crl_freshness (apply_freshness_defaults c))
     = (if cf_max_age (crl_freshness c) = 0 then hour else cf_max_age (crl_freshness c))"
  by (simp_all add: apply_freshness_defaults_def Let_def)

lemma finish_load_wf:
  assumes "finish_load c = Inr c'"
  shows "wf_config c'"
proof -
  define d where "d = apply_interval_defaults c"
  from assms have pos: "\<not> (poll_interval d < 0 \<or> max_wait d < 0 \<or> max_attempts d < 0
      \<or> preflight_max_age d \<le> 0)"
    and fresh: "\<not> (sf_max_clock_skew (status_freshness d) < 0
      \<or> of_max_age_without_next_update (ocsp_freshness d) < 0 \<or> cf_max_age (crl_freshness d) < 0)"
    and c': "c' = apply_freshness_defaults d"
    and profs: "\<exists>n. check_profiles {} 0 (cfg_profiles d) = Inr n \<and> n \<noteq> 0"
    unfolding finish_load_def Let_def d_def[symmetric]
    by (simp_all split: if_splits) auto
  have nonzero: "poll_interval d \<noteq> 0" "max_wait d \<noteq> 0" "max_attempts d \<noteq> 0"
    by (simp_all add: d_def)
  show ?thesis unfolding wf_config_def c'
    using pos fresh nonzero profs by (auto simp: check_profiles_Inr)
qed

lemma finish_load_fixed: "wf_config c \<Longrightarrow> finish_load c = Inr c"
proof -
  assume wf: "wf_config c"
  then have "apply_interval_defaults c = c" "apply_freshness_defaults c = c"
    by (auto simp: wf_config_def apply_interval_defaults_def apply_freshness_defaults_def Let_def)
  moreover from wf have "check_profiles {} 0 (cfg_profiles c) = Inr (length (enabled_names c))"
    by (simp add: check_profiles_Inr wf_config_def enabled_names_def)
  ultimately show ?thesis using wf
    by (auto simp: finish_load_def wf_config_def Let_def)
qed

lemma timeout_for_pos: "0 < timeout_for c name"
  by (auto simp: timeout_for_def find_Some_iff split: option.split)

lemma is_enabled_iff: "is_enabled c name \<longleftrightarrow> name \<in> set (enabled_names c)"
  by (auto simp: is_enabled_def enabled_names_def)

lemma timeout_for_enabled:
  assumes "wf_profiles (cfg_profiles c)" "p \<in> set (cfg_profiles c)" "pc_enabled p"
  shows "timeout_for c (pc_name p) = pc_timeout p"
  using find_by_key[of pc_name "cfg_profiles c" p "\<lambda>q. 0 < pc_timeout q"] assms
  by (simp add: timeout_for_def wf_profiles_def)

end
