(* ===== verification/Scenarios.thy ===== *)
theory Scenarios imports Domain "HOL-Library.AList"
begin

text \<open>
  \<open>internal/scenarios/registry.go\<close>: scenario manifests as read from YAML, their validation and
  normalisation into typed contracts, and the registry of loaded manifests.  A Go map is an
  association list whose order stands for the iteration order the runtime happens to choose; the
  lemmas show what does not depend on it.  The YAML decoder, \<open>json.Marshal\<close> and SHA-256 are
  parameters; that \<open>json.Marshal\<close> writes map keys in sorted order is modelled
  (\<open>sort_map_keys\<close>).
\<close>

subsection \<open>Stapling modes and evidence dependencies\<close>

datatype stapling_mode = StaplingOn | StaplingOff | StaplingStale | StaplingText gostring

fun stapling_text :: "stapling_mode \<Rightarrow> gostring" where
  "stapling_text StaplingOn = ''on''"
| "stapling_text StaplingOff = ''off''"
| "stapling_text StaplingStale = ''stale''"
| "stapling_text (StaplingText s) = s"

datatype evidence_dependency = EvidenceIssuerAck | EvidenceOCSPPublished | EvidenceCRLPublished
  | EvidenceStaplePublished | EvidenceText gostring

fun dependency_text :: "evidence_dependency \<Rightarrow> gostring" where
  "dependency_text EvidenceIssuerAck = ''issuer_ack''"
| "dependency_text EvidenceOCSPPublished = ''ocsp_published''"
| "dependency_text EvidenceCRLPublished = ''crl_published''"
| "dependency_text EvidenceStaplePublished = ''staple_published''"
| "dependency_text (EvidenceText s) = s"

definition known_evidence :: "evidence_dependency set" where
  "known_evidence =
     {EvidenceIssuerAck, EvidenceOCSPPublished, EvidenceCRLPublished, EvidenceStaplePublished}"

subsection \<open>The YAML document\<close>

record yaml_expectation =
  ye_decision :: gostring
  ye_reasons :: "gostring list"

record yaml_baseline =
  yb_before :: yaml_expectation
  yb_after :: yaml_expectation

record yaml_policy =
  yp_after :: yaml_expectation

record yaml_profile_contract =
  yc_baseline :: yaml_baseline
  yc_policy :: yaml_policy

record yaml_execution =
  yx_stapling :: stapling_mode

record yaml_manifest =
  ym_id :: gostring
  ym_version :: int
  ym_dependencies :: "(gostring \<times> evidence_dependency list) list"
  ym_profiles :: "(gostring \<times> yaml_profile_contract) list"
  ym_execution :: yaml_execution

record contract =
  con_baseline :: expectation
  con_policy :: expectation

record manifest =
  man_id :: scenario
  man_version :: int
  man_digest :: gostring
  man_canonical_json :: bytes
  man_dependencies :: "(gostring \<times> evidence_dependency list) list"
  man_profiles :: "(gostring \<times> contract) list"
  man_stapling :: stapling_mode

text \<open>\<open>Registry\<close>: the loaded manifests by ID and the implementations they refer to.\<close>

record registry =
  reg_manifests :: "(scenario \<times> manifest) list"
  reg_implementations :: "gostring \<rightharpoonup> profile"

text \<open>Error fields name the place of the offending value: the scenario, the profile, and the
  path of the expectation inside its contract.\<close>

datatype scenario_error =
    UnknownDecision "gostring list" gostring
  | NoReasons "gostring list"
  | UnknownReason "gostring list" gostring
  | RepeatedReason "gostring list" gostring
  | IncompatibleReason "gostring list" decision reason
  | IdRequired | UnsupportedVersion gostring int | NoProfiles gostring
  | InvalidStapling gostring gostring
  | UnknownProfile gostring gostring
  | NoDependencies gostring gostring
  | DependenciesForUnknownProfile gostring gostring
  | DependenciesWithoutContract gostring gostring
  | EmptyDependencies gostring gostring
  | UnknownDependency gostring gostring gostring
  | RepeatedDependency gostring gostring gostring
  | OracleWaits gostring gostring gostring
  | StapleNotServed gostring gostring gostring
  | ReadFailed gostring | DecodeFailed gostring | MultipleYamlDocuments
  | GlobFailed gostring | NoManifests | DuplicateScenario gostring
  | NoContract gostring gostring
  | NoOCSPProducer gostring gostring | NoCRLProducer gostring gostring

subsection \<open>Expectations\<close>

definition valid_decision :: "gostring \<Rightarrow> decision option" where
  "valid_decision value = (let d = to_decision value in
     if d = DecisionAccept \<or> d = DecisionReject \<or> d = DecisionInconclusive
        \<or> d = DecisionHarnessError
     then Some d else None)"

definition valid_reason :: "gostring \<Rightarrow> reason option" where
  "valid_reason value = (let r = to_reason value in
     if r \<in> set known_reasons then Some r else None)"

definition reason_compatible :: "decision \<Rightarrow> reason \<Rightarrow> bool" where
  "reason_compatible d r =
     (if r \<in> {ReasonStatusGood, ReasonNoRevocationCheck} then d = DecisionAccept
      else if r \<in> {ReasonNetworkFailure, ReasonTLSFailure} then d = DecisionInconclusive
      else if r = ReasonHarnessFailure then d = DecisionHarnessError
      else if r \<in> {ReasonRevoked, ReasonExpired, ReasonMissingStatus, ReasonInvalidStatus,
        ReasonStaleStatus, ReasonFutureStatus, ReasonMissingFreshness, ReasonUnknownStatus,
        ReasonClientPolicy} then d = DecisionReject
      else False)"

definition zero_expectation :: expectation where
  "zero_expectation = \<lparr>exp_before = DecisionText [], exp_before_reasons = [],
     exp_after = DecisionText [], exp_after_reasons = []\<rparr>"

fun parse_reasons ::
  "gostring list \<Rightarrow> decision \<Rightarrow> reason set \<Rightarrow> gostring list \<Rightarrow> scenario_error + reason list" where
  "parse_reasons field d seen [] = Inr []"
| "parse_reasons field d seen (raw # raws) =
     (case valid_reason raw of None \<Rightarrow> Inl (UnknownReason field raw)
      | Some r \<Rightarrow>
        if r \<in> seen then Inl (RepeatedReason field raw)
        else if \<not> reason_compatible d r then Inl (IncompatibleReason field d r)
        else ok_bind (parse_reasons field d (insert r seen) raws) (\<lambda>rs. Inr (r # rs)))"

definition parse_expectation ::
  "yaml_expectation \<Rightarrow> bool \<Rightarrow> gostring list \<Rightarrow> scenario_error + expectation" where
  "parse_expectation value required field =
     (if ye_decision value = [] \<and> \<not> required then Inr zero_expectation
      else case valid_decision (ye_decision value) of
          None \<Rightarrow> Inl (UnknownDecision field (ye_decision value))
        | Some d \<Rightarrow>
          if ye_reasons value = [] then Inl (NoReasons field)
          else ok_bind (parse_reasons field d {} (ye_reasons value)) (\<lambda>reasons.
            Inr (zero_expectation\<lparr>exp_after := d,
                   exp_after_reasons := sort_key reason_text reasons\<rparr>)))"

definition parse_baseline ::
  "yaml_baseline \<Rightarrow> gostring list \<Rightarrow> scenario_error + expectation" where
  "parse_baseline value field =
     ok_bind (parse_expectation (yb_before value) True (field @ [''before''])) (\<lambda>before.
     ok_bind (parse_expectation (yb_after value) True (field @ [''after''])) (\<lambda>after.
       Inr \<lparr>exp_before = exp_after before, exp_before_reasons = exp_after_reasons before,
            exp_after = exp_after after, exp_after_reasons = exp_after_reasons after\<rparr>))"

definition parse_policy ::
  "yaml_policy \<Rightarrow> gostring list \<Rightarrow> scenario_error + expectation" where
  "parse_policy value field =
     ok_bind (parse_expectation (yp_after value) True (field @ [''after''])) (\<lambda>after.
       Inr (zero_expectation\<lparr>exp_after := exp_after after,
              exp_after_reasons := exp_after_reasons after\<rparr>))"

subsection \<open>Normalisation and the canonical artifact\<close>

definition sort_reasons :: "yaml_expectation \<Rightarrow> yaml_expectation" where
  "sort_reasons e = e\<lparr>ye_reasons := sort (ye_reasons e)\<rparr>"

definition normalize_contract :: "yaml_profile_contract \<Rightarrow> yaml_profile_contract" where
  "normalize_contract c = \<lparr>
     yc_baseline = \<lparr>yb_before = sort_reasons (yb_before (yc_baseline c)),
                    yb_after = sort_reasons (yb_after (yc_baseline c))\<rparr>,
     yc_policy = \<lparr>yp_after = sort_reasons (yp_after (yc_policy c))\<rparr>\<rparr>"

definition normalize_manifest :: "yaml_manifest \<Rightarrow> yaml_manifest" where
  "normalize_manifest raw = raw\<lparr>
     ym_dependencies := map (\<lambda>(p, ds). (p, sort_key dependency_text ds)) (ym_dependencies raw),
     ym_profiles := map (\<lambda>(p, c). (p, normalize_contract c)) (ym_profiles raw)\<rparr>"

definition sort_map_keys :: "yaml_manifest \<Rightarrow> yaml_manifest" where
  "sort_map_keys m = m\<lparr>ym_dependencies := sort_key fst (ym_dependencies m),
                       ym_profiles := sort_key fst (ym_profiles m)\<rparr>"

definition canonical_manifest ::
  "(yaml_manifest \<Rightarrow> bytes) \<Rightarrow> (bytes \<Rightarrow> gostring) \<Rightarrow> yaml_manifest \<Rightarrow> bytes \<times> gostring" where
  "canonical_manifest marshal sha256_hex m =
     (let canonical = marshal (sort_map_keys m)
      in (canonical, ''sha256:'' @ sha256_hex canonical))"

definition known_profiles :: "profile list \<Rightarrow> (gostring \<rightharpoonup> profile)" where
  "known_profiles values = map_of (rev (map (\<lambda>p. (prof_name p, p)) values))"

subsection \<open>Building a manifest\<close>

definition valid_stapling :: "stapling_mode \<Rightarrow> bool" where
  "valid_stapling m \<longleftrightarrow> m \<in> {StaplingOn, StaplingOff, StaplingStale}"

definition build_contract ::
  "gostring \<Rightarrow> (gostring \<rightharpoonup> profile) \<Rightarrow> gostring \<times> yaml_profile_contract
   \<Rightarrow> scenario_error + (gostring \<times> contract)" where
  "build_contract sid known nc = (case nc of (name, raw) \<Rightarrow>
     if known name = None then Inl (UnknownProfile sid name)
     else ok_bind (parse_baseline (yc_baseline raw) [sid, name, ''baseline'']) (\<lambda>baseline.
       ok_bind (parse_policy (yc_policy raw) [sid, name, ''policy'']) (\<lambda>policy.
         Inr (name, \<lparr>con_baseline = baseline, con_policy = policy\<rparr>))))"

fun check_dependency_list ::
  "gostring \<Rightarrow> gostring \<Rightarrow> role \<Rightarrow> evidence_dependency set \<Rightarrow> evidence_dependency list
   \<Rightarrow> scenario_error + unit" where
  "check_dependency_list sid name r seen [] = Inr ()"
| "check_dependency_list sid name r seen (d # ds) =
     (if d \<notin> known_evidence then Inl (UnknownDependency sid name (dependency_text d))
      else if d \<in> seen then Inl (RepeatedDependency sid name (dependency_text d))
      else if r = RoleStatusOracle \<and> d \<noteq> EvidenceIssuerAck
      then Inl (OracleWaits sid name (dependency_text d))
      else check_dependency_list sid name r (insert d seen) ds)"

definition check_dependencies ::
  "yaml_manifest \<Rightarrow> (gostring \<rightharpoonup> profile) \<Rightarrow> gostring \<times> evidence_dependency list
   \<Rightarrow> scenario_error + unit" where
  "check_dependencies raw known nd = (case nd of (name, deps) \<Rightarrow>
     (case known name of None \<Rightarrow> Inl (DependenciesForUnknownProfile (ym_id raw) name)
      | Some impl \<Rightarrow>
        if name \<notin> fst ` set (ym_profiles raw)
        then Inl (DependenciesWithoutContract (ym_id raw) name)
        else if deps = [] then Inl (EmptyDependencies (ym_id raw) name)
        else ok_bind (check_dependency_list (ym_id raw) name (prof_role impl) {} deps) (\<lambda>_.
          if EvidenceStaplePublished \<in> set deps \<and> yx_stapling (ym_execution raw) \<noteq> StaplingOn
          then Inl (StapleNotServed (ym_id raw) name (stapling_text (yx_stapling (ym_execution raw))))
          else Inr ())))"

definition build ::
  "(yaml_manifest \<Rightarrow> bytes) \<Rightarrow> (bytes \<Rightarrow> gostring) \<Rightarrow> yaml_manifest \<Rightarrow> (gostring \<rightharpoonup> profile)
   \<Rightarrow> scenario_error + manifest" where
  "build marshal sha256_hex raw0 known =
     (if ym_id raw0 = [] then Inl IdRequired
      else if ym_version raw0 \<noteq> 1 then Inl (UnsupportedVersion (ym_id raw0) (ym_version raw0))
      else if ym_profiles raw0 = [] then Inl (NoProfiles (ym_id raw0))
      else if \<not> valid_stapling (yx_stapling (ym_execution raw0))
      then Inl (InvalidStapling (ym_id raw0) (stapling_text (yx_stapling (ym_execution raw0))))
      else
        let raw = normalize_manifest raw0;
            (canonical, digest) = canonical_manifest marshal sha256_hex raw
        in ok_bind (map_ok (build_contract (ym_id raw) known) (ym_profiles raw)) (\<lambda>contracts.
           ok_bind (all_ok (\<lambda>(name, _).
             if name \<notin> fst ` set (ym_dependencies raw) then Inl (NoDependencies (ym_id raw) name)
             else Inr ()) (ym_profiles raw)) (\<lambda>_.
           ok_bind (all_ok (check_dependencies raw known) (ym_dependencies raw)) (\<lambda>_.
             Inr \<lparr>man_id = ym_id raw, man_version = ym_version raw, man_digest = digest,
                  man_canonical_json = canonical, man_dependencies = ym_dependencies raw,
                  man_profiles = contracts, man_stapling = yx_stapling (ym_execution raw)\<rparr>))))"

subsection \<open>Loading a directory\<close>

definition decode_manifest ::
  "(gostring \<Rightarrow> gostring + bytes) \<Rightarrow> (bytes \<Rightarrow> gostring + yaml_manifest) \<Rightarrow> (bytes \<Rightarrow> stream_end)
   \<Rightarrow> gostring \<Rightarrow> scenario_error + yaml_manifest" where
  "decode_manifest read decode trailing path =
     (case read path of Inl e \<Rightarrow> Inl (ReadFailed e)
      | Inr data \<Rightarrow>
        (case decode data of Inl e \<Rightarrow> Inl (DecodeFailed e)
         | Inr m \<Rightarrow>
           (case trailing data of
              AnotherDocument \<Rightarrow> Inl MultipleYamlDocuments
            | TrailingError e \<Rightarrow> Inl (DecodeFailed e)
            | AtEOF \<Rightarrow> Inr m)))"

fun load_paths ::
  "(gostring \<Rightarrow> scenario_error + yaml_manifest)
   \<Rightarrow> (yaml_manifest \<Rightarrow> scenario_error + manifest)
   \<Rightarrow> (scenario \<times> manifest) list \<Rightarrow> gostring list \<Rightarrow> scenario_error + (scenario \<times> manifest) list"
where
  "load_paths dec bld ms [] = Inr ms"
| "load_paths dec bld ms (p # ps) =
     ok_bind (dec p) (\<lambda>raw. ok_bind (bld raw) (\<lambda>m.
       if man_id m \<in> fst ` set ms then Inl (DuplicateScenario (man_id m))
       else load_paths dec bld (ms @ [(man_id m, m)]) ps))"

definition load_dir ::
  "(gostring \<Rightarrow> scenario_error + yaml_manifest) \<Rightarrow> (yaml_manifest \<Rightarrow> bytes) \<Rightarrow> (bytes \<Rightarrow> gostring)
   \<Rightarrow> gostring + gostring list \<Rightarrow> profile list \<Rightarrow> scenario_error + registry" where
  "load_dir dec marshal sha256_hex globbed implementations =
     (case globbed of Inl e \<Rightarrow> Inl (GlobFailed e)
      | Inr found \<Rightarrow>
        let paths = sort found in
        if paths = [] then Inl NoManifests
        else let known = known_profiles implementations in
          ok_bind (load_paths dec (\<lambda>raw. build marshal sha256_hex raw known) [] paths) (\<lambda>ms.
            Inr \<lparr>reg_manifests = ms, reg_implementations = known\<rparr>))"

text \<open>\<open>New\<close>, a registry of given manifests: a later one replaces one of the same ID, and an empty canonical form
  becomes that of the ID and version.\<close>

definition with_canonical :: "(scenario \<Rightarrow> int \<Rightarrow> bytes) \<Rightarrow> manifest \<Rightarrow> manifest" where
  "with_canonical marshal m =
     (if man_canonical_json m = [] then m\<lparr>man_canonical_json := marshal (man_id m) (man_version m)\<rparr> else m)"

definition new_registry :: "(scenario \<Rightarrow> int \<Rightarrow> bytes) \<Rightarrow> manifest list \<Rightarrow> registry" where
  "new_registry marshal ms = \<lparr>reg_manifests = foldl (\<lambda>reg m. AList.update (man_id m) (with_canonical marshal m) reg) [] ms,
     reg_implementations = Map.empty\<rparr>"

subsection \<open>Queries of the registry\<close>

text \<open>The receiver of the queries may be a nil pointer (\<open>None\<close>).\<close>

definition registry_manifest :: "registry option \<Rightarrow> scenario \<Rightarrow> manifest option" where
  "registry_manifest r s = (case r of None \<Rightarrow> None | Some reg \<Rightarrow> map_of (reg_manifests reg) s)"

definition registry_contract :: "registry option \<Rightarrow> scenario \<Rightarrow> gostring \<Rightarrow> contract option" where
  "registry_contract r s name = (case r of None \<Rightarrow> None
     | Some reg \<Rightarrow> (case map_of (reg_manifests reg) s of None \<Rightarrow> None
         | Some m \<Rightarrow> map_of (man_profiles m) name))"

definition registry_digest :: "registry option \<Rightarrow> scenario \<Rightarrow> gostring option" where
  "registry_digest r s = (case r of None \<Rightarrow> None
     | Some reg \<Rightarrow> map_option man_digest (map_of (reg_manifests reg) s))"

definition registry_dependencies ::
  "registry option \<Rightarrow> scenario \<Rightarrow> gostring \<Rightarrow> evidence_dependency list option" where
  "registry_dependencies r s name = (case registry_manifest r s of None \<Rightarrow> None
     | Some m \<Rightarrow> map_of (man_dependencies m) name)"

definition has_enabled_producer ::
  "registry \<Rightarrow> manifest \<Rightarrow> gostring list \<Rightarrow> check_method \<Rightarrow> bool" where
  "has_enabled_producer r m enabled method \<longleftrightarrow>
     (\<exists>(name, _) \<in> set (man_profiles m). name \<in> set enabled
        \<and> (case reg_implementations r name of None \<Rightarrow> False
           | Some impl \<Rightarrow> prof_role impl = RoleStatusOracle \<and> prof_method impl = method))"

definition check_producer ::
  "registry \<Rightarrow> scenario \<Rightarrow> manifest \<Rightarrow> gostring list \<Rightarrow> gostring \<Rightarrow> evidence_dependency
   \<Rightarrow> scenario_error + unit" where
  "check_producer r s m enabled name d =
     (case d of
        EvidenceOCSPPublished \<Rightarrow>
          if \<not> has_enabled_producer r m enabled MethodOCSPDirect
          then Inl (NoOCSPProducer s name) else Inr ()
      | EvidenceCRLPublished \<Rightarrow>
          if \<not> has_enabled_producer r m enabled MethodCRL
          then Inl (NoCRLProducer s name) else Inr ()
      | _ \<Rightarrow> Inr ())"

definition validate_enabled_profiles ::
  "registry \<Rightarrow> gostring list \<Rightarrow> scenario_error + unit" where
  "validate_enabled_profiles r enabled =
     all_ok (\<lambda>(s, m). all_ok (\<lambda>name.
       if map_of (man_profiles m) name = None then Inl (NoContract s name)
       else all_ok (check_producer r s m enabled name)
         (case map_of (man_dependencies m) name of None \<Rightarrow> [] | Some ds \<Rightarrow> ds))
       enabled) (reg_manifests r)"

end
