(* ===== verification/Go_Strings.thy ===== *)
theory Go_Strings imports Prelude
begin

text \<open>
  The string functions of Go's \<open>strings\<close> and \<open>fmt\<close> packages that the program uses, on byte strings:
  decimal output (\<open>%d\<close>), \<open>ToLower\<close>, \<open>EqualFold\<close>, \<open>Contains\<close>, \<open>HasPrefix\<close>, \<open>TrimPrefix\<close>, \<open>TrimSpace\<close>,
  \<open>Fields\<close>, \<open>Split\<close> at one byte, \<open>Join\<close>, and hexadecimal digits.  Case and white space are those of
  ASCII.
\<close>

subsection \<open>Decimal numbers\<close>

definition digit :: "nat \<Rightarrow> char" where
  "digit n = char_of (48 + n)"

fun nat_text :: "nat \<Rightarrow> gostring" where
  "nat_text n = (if n < 10 then [digit n] else nat_text (n div 10) @ [digit (n mod 10)])"

declare nat_text.simps [simp del]

definition int_text :: "int \<Rightarrow> gostring" where
  "int_text i = (if i < 0 then ''-'' @ nat_text (nat (- i)) else nat_text (nat i))"

definition is_digit :: "char \<Rightarrow> bool" where
  "is_digit c = (let n = (of_char c :: nat) in 48 \<le> n \<and> n \<le> 57)"

definition digit_value :: "char \<Rightarrow> nat" where
  "digit_value c = of_char c - 48"

text \<open>Reading decimal digits, most significant first.\<close>

fun read_digits :: "nat \<Rightarrow> gostring \<Rightarrow> nat option" where
  "read_digits acc [] = Some acc"
| "read_digits acc (c # cs) =
     (if is_digit c then read_digits (10 * acc + digit_value c) cs else None)"

lemma is_digit_digit: "n < 10 \<Longrightarrow> is_digit (digit n)"
  by (simp add: is_digit_def digit_def Let_def)

lemma digit_value_digit: "n < 10 \<Longrightarrow> digit_value (digit n) = n"
  by (simp add: digit_value_def digit_def)

lemma read_digits_append:
  "read_digits acc (xs @ ys) = Option.bind (read_digits acc xs) (\<lambda>a. read_digits a ys)"
  by (induction xs arbitrary: acc) auto

lemma read_digits_nat_text: "read_digits 0 (nat_text n) = Some n"
proof (induction n rule: nat_text.induct)
  case (1 n)
  show ?case
  proof (cases "n < 10")
    case True
    then show ?thesis
      by (subst nat_text.simps) (simp add: is_digit_digit digit_value_digit)
  next
    case False
    then show ?thesis
      by (subst nat_text.simps)
        (simp add: 1 read_digits_append is_digit_digit digit_value_digit)
  qed
qed

lemma nat_text_inj: "nat_text m = nat_text n \<longleftrightarrow> m = n"
  by (metis option.inject read_digits_nat_text)

subsection \<open>Case\<close>

definition lower_char :: "char \<Rightarrow> char" where
  "lower_char c = (let n = (of_char c :: nat) in
     if 65 \<le> n \<and> n \<le> 90 then char_of (n + 32) else c)"

definition to_lower :: "gostring \<Rightarrow> gostring" where
  "to_lower = map lower_char"

definition equal_fold :: "gostring \<Rightarrow> gostring \<Rightarrow> bool" where
  "equal_fold s t \<longleftrightarrow> to_lower s = to_lower t"

lemma equal_fold_refl [simp]: "equal_fold s s"
  by (simp add: equal_fold_def)

subsection \<open>Substrings\<close>

definition contains :: "gostring \<Rightarrow> gostring \<Rightarrow> bool" where
  "contains s sub \<longleftrightarrow> sublist sub s"

definition trim_prefix :: "gostring \<Rightarrow> gostring \<Rightarrow> gostring" where
  "trim_prefix s p = (if prefix p s then drop (length p) s else s)"

definition is_space :: "char \<Rightarrow> bool" where
  "is_space c \<longleftrightarrow> (of_char c :: nat) \<in> {9, 10, 11, 12, 13, 32}"

definition trim_space :: "gostring \<Rightarrow> gostring" where
  "trim_space s = rev (dropWhile is_space (rev (dropWhile is_space s)))"

text \<open>\<open>strings.Fields\<close>: the maximal runs of non-space bytes.  \<open>word\<close> is the run being read.\<close>

fun string_fields_from :: "gostring \<Rightarrow> gostring \<Rightarrow> gostring list" where
  "string_fields_from word [] = (if word = [] then [] else [word])"
| "string_fields_from word (c # cs) =
     (if is_space c then (if word = [] then string_fields_from [] cs else word # string_fields_from [] cs)
      else string_fields_from (word @ [c]) cs)"

definition string_fields :: "gostring \<Rightarrow> gostring list" where
  "string_fields = string_fields_from []"

text \<open>\<open>strings.Split\<close> at one byte: \<open>n\<close> separators give \<open>n + 1\<close> parts.\<close>

fun split_on :: "char \<Rightarrow> gostring \<Rightarrow> gostring list" where
  "split_on sep [] = [[]]"
| "split_on sep (c # cs) = (if c = sep then [] # split_on sep cs
     else (case split_on sep cs of [] \<Rightarrow> [[c]] | w # ws \<Rightarrow> (c # w) # ws))"

fun join_with :: "gostring \<Rightarrow> gostring list \<Rightarrow> gostring" where
  "join_with sep [] = []"
| "join_with sep [w] = w"
| "join_with sep (w # v # ws) = w @ sep @ join_with sep (v # ws)"

lemma split_on_ne [simp]: "split_on sep s \<noteq> []"
  by (cases s) (auto split: list.split)

lemma join_with_char: "join_with sep ((c # a) # ws) = c # join_with sep (a # ws)"
  by (cases ws) auto

lemma join_split: "join_with [sep] (split_on sep s) = s"
proof (induction s)
  case (Cons c s)
  then show ?case
    by (cases "split_on sep s") (auto simp: join_with_char)
qed simp

lemma split_on_parts: "w \<in> set (split_on sep s) \<Longrightarrow> sep \<notin> set w"
  by (induction s arbitrary: w) (fastforce split: if_splits list.splits)+

lemma split_on_plain: "sep \<notin> set s \<Longrightarrow> split_on sep s = [s]"
  by (induction s) auto

lemma split_on_append:
  "sep \<notin> set w \<Longrightarrow> split_on sep (w @ sep # s) = w # split_on sep s"
  by (induction w) auto

lemma split_join:
  "ws \<noteq> [] \<Longrightarrow> \<forall>w \<in> set ws. sep \<notin> set w \<Longrightarrow> split_on sep (join_with [sep] ws) = ws"
  by (induction "[sep]" ws rule: join_with.induct) (auto simp: split_on_plain split_on_append)

subsection \<open>Hexadecimal digits\<close>

definition is_hex_digit :: "char \<Rightarrow> bool" where
  "is_hex_digit c = (let n = (of_char c :: nat) in
     48 \<le> n \<and> n \<le> 57 \<or> 65 \<le> n \<and> n \<le> 70 \<or> 97 \<le> n \<and> n \<le> 102)"

text \<open>\<open>hex.DecodeString\<close> succeeds, with half as many bytes, exactly on an even number of hex digits.\<close>

definition is_hex_text :: "gostring \<Rightarrow> bool" where
  "is_hex_text s \<longleftrightarrow> even (length s) \<and> list_all is_hex_digit s"

subsection \<open>Quoting\<close>

text \<open>\<open>strconv.Quote\<close> (\<open>%q\<close>) on bytes: control characters are escaped, and so are the quote and the
  backslash; bytes above ASCII are taken to belong to printable characters.\<close>

definition hex_digit :: "nat \<Rightarrow> char" where
  "hex_digit n = ''0123456789abcdef'' ! n"

definition quote_char :: "char \<Rightarrow> gostring" where
  "quote_char c = (let n = (of_char c :: nat) in
     if n = 34 \<or> n = 92 then [CHR 0x5C, c]
     else if n = 7 then [CHR 0x5C, CHR ''a''] else if n = 8 then [CHR 0x5C, CHR ''b'']
     else if n = 12 then [CHR 0x5C, CHR ''f''] else if n = 10 then [CHR 0x5C, CHR ''n'']
     else if n = 13 then [CHR 0x5C, CHR ''r''] else if n = 9 then [CHR 0x5C, CHR ''t'']
     else if n = 11 then [CHR 0x5C, CHR ''v'']
     else if n < 32 \<or> n = 127 then [CHR 0x5C, CHR ''x'', hex_digit (n div 16), hex_digit (n mod 16)]
     else [c])"

definition quote_text :: "gostring \<Rightarrow> gostring" where
  "quote_text s = [CHR 0x22] @ concat (map quote_char s) @ [CHR 0x22]"

end
