(* ===== verification/Status_Policy.thy ===== *)
theory Status_Policy imports Domain Go_Strings
begin

text \<open>
  The status rules of \<open>internal/profiles/registry.go\<close>: temporal validation of OCSP responses and
  CRLs, the binding of a CRL to its issuer and of a presented leaf to the issued one, and the
  classification of curl's and OpenSSL's outcomes.  An empty \<open>Reason\<close> (no objection) is \<open>None\<close>.
  Parsed responses, CRLs and certificates carry the fields the code reads; parsing and signature
  checking are library calls whose answers the probes take from their environment.
\<close>

subsection \<open>Parsed status objects\<close>

datatype ocsp_status = OcspGood | OcspRevoked | OcspUnknown | OcspOther int

record ocsp_response =
  or_status :: ocsp_status
  or_this_update :: gotime
  or_next_update :: gotime
  or_produced_at :: gotime
  or_revoked_at :: gotime

record certificate =
  cert_raw :: bytes
  cert_serial :: int
  cert_not_before :: gotime
  cert_not_after :: gotime
  cert_raw_subject :: bytes
  cert_subject_key_id :: bytes

record revocation_list =
  crl_this_update :: gotime
  crl_next_update :: gotime
  crl_raw_issuer :: bytes
  crl_authority_key_id :: bytes
  crl_entries :: "(int \<times> gotime) list"

subsection \<open>Temporal rules\<close>

definition check_ocsp_freshness ::
  "ocsp_response \<Rightarrow> gotime \<Rightarrow> status_freshness_policy \<Rightarrow> ocsp_freshness_policy \<Rightarrow> reason option"
where
  "check_ocsp_freshness response now configured_status configured_ocsp =
     (let status = status_with_defaults configured_status;
          pol = ocsp_with_defaults configured_ocsp in
      if time_add now (max_clock_skew status) < or_this_update response
         \<or> time_add now (max_clock_skew status) < or_produced_at response
      then Some ReasonFutureStatus
      else if is_zero (or_next_update response) then
        (if ocsp_require_next_update pol then Some ReasonMissingFreshness
         else if max_age_without_next_update pol < time_sub now (or_this_update response)
         then Some ReasonStaleStatus
         else None)
      else if or_next_update response < now then Some ReasonStaleStatus
      else None)"

definition check_revocation_time ::
  "gotime \<Rightarrow> gotime \<Rightarrow> gotime \<Rightarrow> status_freshness_policy \<Rightarrow> reason option" where
  "check_revocation_time revoked_at not_before now configured =
     (let pol = status_with_defaults configured in
      if is_zero revoked_at \<or> revoked_at < time_add not_before (- max_clock_skew pol)
      then Some ReasonInvalidStatus
      else if time_add now (max_clock_skew pol) < revoked_at then Some ReasonFutureStatus
      else None)"

definition validate_ocsp_temporal ::
  "ocsp_response option \<Rightarrow> certificate option \<Rightarrow> gotime \<Rightarrow> status_freshness_policy
   \<Rightarrow> ocsp_freshness_policy \<Rightarrow> reason option" where
  "validate_ocsp_temporal response leaf now configured_status configured_ocsp =
     (case (response, leaf) of
        (Some r, Some l) \<Rightarrow>
          (case check_ocsp_freshness r now configured_status configured_ocsp of
             Some reason \<Rightarrow> Some reason
           | None \<Rightarrow>
             if or_status r = OcspRevoked
             then check_revocation_time (or_revoked_at r) (cert_not_before l) now configured_status
             else None)
      | _ \<Rightarrow> Some ReasonInvalidStatus)"

definition validate_crl_issuer ::
  "revocation_list option \<Rightarrow> certificate option \<Rightarrow> reason option" where
  "validate_crl_issuer crl issuer =
     (case (crl, issuer) of
        (Some c, Some i) \<Rightarrow>
          if crl_raw_issuer c \<noteq> cert_raw_subject i then Some ReasonInvalidStatus
          else if crl_authority_key_id c \<noteq> [] \<and> cert_subject_key_id i \<noteq> []
                  \<and> crl_authority_key_id c \<noteq> cert_subject_key_id i
          then Some ReasonInvalidStatus
          else None
      | _ \<Rightarrow> Some ReasonInvalidStatus)"

definition check_crl_freshness ::
  "revocation_list \<Rightarrow> gotime \<Rightarrow> status_freshness_policy \<Rightarrow> crl_freshness_policy \<Rightarrow> reason option"
where
  "check_crl_freshness crl now configured_status configured_crl =
     (let status = status_with_defaults configured_status;
          pol = crl_with_defaults configured_crl in
      if time_add now (max_clock_skew status) < crl_this_update crl then Some ReasonFutureStatus
      else if crl_max_age pol < time_sub now (crl_this_update crl) then Some ReasonStaleStatus
      else if is_zero (crl_next_update crl) then
        (if crl_require_next_update pol then Some ReasonMissingFreshness else None)
      else if crl_next_update crl < now then Some ReasonStaleStatus
      else None)"

subsection \<open>Outcomes of the command-line clients\<close>

text \<open>The error of \<open>cmd.Run\<close>: the process ran and exited non-zero, or it could not be run.\<close>

datatype command_error = ExitError int | ExecError gostring | OtherError gostring

fun exit_code :: "command_error option \<Rightarrow> int" where
  "exit_code None = 0"
| "exit_code (Some (ExitError n)) = n"
| "exit_code (Some _) = -1"

fun is_exec_error :: "command_error option \<Rightarrow> bool" where
  "is_exec_error (Some (ExecError e)) = True"
| "is_exec_error _ = False"

definition classify_curl_cert_status :: "gostring \<Rightarrow> int \<Rightarrow> bool \<Rightarrow> decision \<times> reason" where
  "classify_curl_cert_status stderr code failed =
     (if \<not> failed then (DecisionAccept, ReasonStatusGood)
      else if code = 91 then
        (let lower = to_lower stderr in
         if contains lower ''no ocsp response'' then (DecisionReject, ReasonMissingStatus)
         else if contains lower ''revoked'' then (DecisionReject, ReasonRevoked)
         else (DecisionReject, ReasonInvalidStatus))
      else if code = 28 \<or> contains (to_lower stderr) ''timed out''
      then (DecisionInconclusive, ReasonNetworkFailure)
      else (DecisionHarnessError, ReasonHarnessFailure))"

definition looks_like_network_failure :: "gostring \<Rightarrow> bool" where
  "looks_like_network_failure stderr =
     (let lower = to_lower stderr in
      \<exists>marker \<in> set [''connection refused'', ''connection timed out'', ''timed out'',
        ''no route to host'', ''temporary failure'', ''name or service not known'', ''getaddrinfo'',
        ''connect error'']. contains lower marker)"

subsection \<open>Binding the presented leaf\<close>

definition verify_presented_leaf ::
  "(bytes \<Rightarrow> gostring) \<Rightarrow> target \<Rightarrow> certificate option \<Rightarrow> gostring \<times> gostring option" where
  "verify_presented_leaf sha256_hex tgt leaf =
     (case leaf of None \<Rightarrow> ([], Some ''peer leaf is nil'')
      | Some l \<Rightarrow>
        let presented = sha256_hex (cert_raw l) in
        if tgt_issued_leaf_sha256 tgt = [] then (presented, Some ''issued leaf SHA-256 is required'')
        else if \<not> equal_fold presented (tgt_issued_leaf_sha256 tgt)
        then (presented, Some (''peer leaf SHA-256 '' @ presented @ '' does not match issued canary ''
                @ tgt_issued_leaf_sha256 tgt))
        else (presented, None))"

definition target_connect_host :: "target \<Rightarrow> gostring" where
  "target_connect_host tgt =
     (if tgt_connect_host tgt \<noteq> [] then tgt_connect_host tgt else ''127.0.0.1'')"

subsection \<open>What the rules say\<close>

text \<open>The declarative reading of a fresh OCSP response and of a fresh CRL.\<close>

definition ocsp_fresh ::
  "ocsp_response \<Rightarrow> gotime \<Rightarrow> status_freshness_policy \<Rightarrow> ocsp_freshness_policy \<Rightarrow> bool" where
  "ocsp_fresh r now st oc \<longleftrightarrow>
     (let horizon = time_add now (max_clock_skew (status_with_defaults st)) in
      or_this_update r \<le> horizon \<and> or_produced_at r \<le> horizon
      \<and> (if is_zero (or_next_update r)
         then \<not> ocsp_require_next_update oc
           \<and> time_sub now (or_this_update r) \<le> max_age_without_next_update (ocsp_with_defaults oc)
         else now \<le> or_next_update r))"

definition crl_fresh ::
  "revocation_list \<Rightarrow> gotime \<Rightarrow> status_freshness_policy \<Rightarrow> crl_freshness_policy \<Rightarrow> bool" where
  "crl_fresh c now st cr \<longleftrightarrow>
     crl_this_update c \<le> time_add now (max_clock_skew (status_with_defaults st))
     \<and> time_sub now (crl_this_update c) \<le> crl_max_age (crl_with_defaults cr)
     \<and> (if is_zero (crl_next_update c) then \<not> crl_require_next_update cr
        else now \<le> crl_next_update c)"

definition plausible_revocation ::
  "gotime \<Rightarrow> gotime \<Rightarrow> gotime \<Rightarrow> status_freshness_policy \<Rightarrow> bool" where
  "plausible_revocation revoked_at not_before now st \<longleftrightarrow> revoked_at \<noteq> 0
     \<and> time_add not_before (- max_clock_skew (status_with_defaults st)) \<le> revoked_at
     \<and> revoked_at \<le> time_add now (max_clock_skew (status_with_defaults st))"

lemma check_ocsp_freshness_None:
  "check_ocsp_freshness r now st oc = None \<longleftrightarrow> ocsp_fresh r now st oc"
  by (auto simp: check_ocsp_freshness_def ocsp_fresh_def Let_def not_less)

lemma check_revocation_time_None:
  "check_revocation_time t nb now st = None \<longleftrightarrow> plausible_revocation t nb now st"
  by (auto simp: check_revocation_time_def plausible_revocation_def Let_def not_less)

lemma check_crl_freshness_None:
  "check_crl_freshness c now st cr = None \<longleftrightarrow> crl_fresh c now st cr"
  by (auto simp: check_crl_freshness_def crl_fresh_def Let_def not_less)

lemma validate_ocsp_temporal_None:
  "validate_ocsp_temporal (Some r) (Some l) now st oc = None \<longleftrightarrow>
     ocsp_fresh r now st oc
     \<and> (or_status r = OcspRevoked
          \<longrightarrow> plausible_revocation (or_revoked_at r) (cert_not_before l) now st)"
  by (simp add: validate_ocsp_temporal_def check_ocsp_freshness_None[symmetric]
      check_revocation_time_None[symmetric] split: option.split)

lemma validate_crl_issuer_None:
  "validate_crl_issuer (Some c) (Some i) = None \<longleftrightarrow>
     crl_raw_issuer c = cert_raw_subject i
     \<and> (crl_authority_key_id c = [] \<or> cert_subject_key_id i = []
        \<or> crl_authority_key_id c = cert_subject_key_id i)"
  by (auto simp: validate_crl_issuer_def)

text \<open>The objections are never a decision about the certificate itself: they are reasons for
  distrusting the status.\<close>

lemma validate_ocsp_temporal_reasons:
  "validate_ocsp_temporal r l now st oc = Some reason \<Longrightarrow>
     reason \<in> {ReasonFutureStatus, ReasonMissingFreshness, ReasonStaleStatus, ReasonInvalidStatus}"
  by (auto simp: validate_ocsp_temporal_def check_ocsp_freshness_def check_revocation_time_def
      Let_def split: option.splits if_splits)

lemma check_crl_freshness_reasons:
  "check_crl_freshness c now st cr = Some reason \<Longrightarrow>
     reason \<in> {ReasonFutureStatus, ReasonMissingFreshness, ReasonStaleStatus}"
  by (auto simp: check_crl_freshness_def Let_def split: if_splits)

lemma check_revocation_time_reasons:
  "check_revocation_time t nb now st = Some reason \<Longrightarrow>
     reason \<in> {ReasonFutureStatus, ReasonInvalidStatus}"
  by (auto simp: check_revocation_time_def Let_def split: if_splits)

lemma validate_crl_issuer_reasons:
  "validate_crl_issuer c i = Some reason \<Longrightarrow> reason = ReasonInvalidStatus"
  by (auto simp: validate_crl_issuer_def split: option.splits if_splits)

text \<open>Ageing: a status that is fresh now was fresh at every earlier instant at which it was not
  yet in the future.\<close>

lemma ocsp_fresh_antimono:
  assumes "ocsp_fresh r now st oc" and "now' \<le> now"
    and "or_this_update r \<le> time_add now' (max_clock_skew (status_with_defaults st))"
    and "or_produced_at r \<le> time_add now' (max_clock_skew (status_with_defaults st))"
  shows "ocsp_fresh r now' st oc"
  using assms time_sub_mono[OF assms(2), of "or_this_update r"]
  by (auto simp: ocsp_fresh_def Let_def split: if_splits)

lemma classify_curl_accept:
  "fst (classify_curl_cert_status stderr code failed) = DecisionAccept \<longleftrightarrow> \<not> failed"
  by (simp add: classify_curl_cert_status_def Let_def)

lemma classify_curl_revoked:
  "snd (classify_curl_cert_status stderr code failed) = ReasonRevoked \<longleftrightarrow>
     failed \<and> code = 91 \<and> \<not> contains (to_lower stderr) ''no ocsp response''
     \<and> contains (to_lower stderr) ''revoked''"
  by (simp add: classify_curl_cert_status_def Let_def)

end
