(* ===== verification/Probes.thy ===== *)
theory Probes imports Status_Policy
begin

text \<open>
  The client profiles of \<open>internal/profiles/registry.go\<close>: the \<open>Probe\<close> function of each, as a function
  of what its calls return.  A \<open>probe_env\<close> holds those answers: processes, files, TLS and HTTP
  connections, parsers and the clock.  A probe returns its observation, its error, and the metrics
  it sets, in order.  Deferred clean-ups (removing temporary files, closing connections) have no
  effect on any of them.
\<close>

subsection \<open>The environment of a probe\<close>

text \<open>A connection: whether it is a TLS connection, the peer's certificates, the stapled response.\<close>

record connection =
  conn_is_tls :: bool
  conn_peer_certificates :: "certificate list"
  conn_ocsp_response :: bytes

record http_response =
  http_status :: int
  http_body :: bytes
  http_body_error :: "gostring option"

text \<open>\<open>env_dial\<close> takes the root certificates (\<open>None\<close>: \<open>InsecureSkipVerify\<close>), the server name and the
  address.  \<open>env_run\<close> takes a command line and returns stdout, stderr and the error.\<close>

record probe_env =
  env_sha256_hex :: "bytes \<Rightarrow> gostring"
  env_base64 :: "bytes \<Rightarrow> gostring"
  env_quote :: "gostring \<Rightarrow> gostring"
  env_error_text :: "command_error \<Rightarrow> gostring"
  env_go_version :: gostring
  env_create_temp :: "gostring \<Rightarrow> gostring + gostring"
  env_write_file :: "gostring \<Rightarrow> bytes \<Rightarrow> gostring option"
  env_close_file :: "gostring \<Rightarrow> gostring option"
  env_read_file :: "gostring \<Rightarrow> bytes \<times> gostring option"
  env_run :: "gostring list \<Rightarrow> gostring \<times> gostring \<times> command_error option"
  env_ctx_done :: bool
  env_dial :: "gostring option \<Rightarrow> gostring \<Rightarrow> gostring \<Rightarrow> gostring + connection"
  env_http :: "gostring \<Rightarrow> gostring + http_response"
  env_pem_decode :: "gostring \<Rightarrow> bytes option"
  env_pem_encode :: "bytes \<Rightarrow> gostring"
  env_parse_certificate :: "bytes \<Rightarrow> gostring + certificate"
  env_parse_ocsp :: "bytes \<Rightarrow> certificate \<Rightarrow> certificate \<Rightarrow> gostring + ocsp_response"
  env_parse_crl :: "bytes \<Rightarrow> gostring + revocation_list"
  env_crl_signed_by :: "revocation_list \<Rightarrow> certificate \<Rightarrow> bool"
  env_now :: gotime

datatype status_metric = OCSPResponderUp bool | OCSPResponderLatency | CRLAge duration
  | CRLEntryCount nat

record probe_result =
  pr_observation :: observation
  pr_error :: "gostring option"
  pr_metrics :: "status_metric list"

definition probed :: "observation \<Rightarrow> probe_result" where
  "probed o' = \<lparr>pr_observation = o', pr_error = None, pr_metrics = []\<rparr>"

definition probe_failed :: "observation \<Rightarrow> gostring \<Rightarrow> probe_result" where
  "probe_failed o' e = \<lparr>pr_observation = o', pr_error = Some e, pr_metrics = []\<rparr>"

subsection \<open>Observations and their evidence\<close>

definition observe :: "decision \<Rightarrow> reason \<Rightarrow> observation" where
  "observe d r = \<lparr>obs_decision = d, obs_reason = r, obs_evidence = no_evidence,
     obs_harness_error = []\<rparr>"

definition harness_failure :: observation where
  "harness_failure = observe DecisionHarnessError ReasonHarnessFailure"

definition write_temp :: "probe_env \<Rightarrow> gostring \<Rightarrow> bytes \<Rightarrow> gostring + gostring" where
  "write_temp env pattern data =
     (case env_create_temp env pattern of Inl e \<Rightarrow> Inl e
      | Inr path \<Rightarrow> (case env_write_file env path data of Some e \<Rightarrow> Inl e | None \<Rightarrow> Inr path))"

definition curl_backend_field :: "gostring \<Rightarrow> bool" where
  "curl_backend_field field \<longleftrightarrow> contains field ''/''
     \<and> (contains (to_lower field) ''ssl'' \<or> contains (to_lower field) ''gnutls'')"

text \<open>What \<open>clientFingerprint\<close> computes when nothing is cached: version and TLS backend.\<close>

definition compute_fingerprint :: "probe_env \<Rightarrow> gostring \<Rightarrow> gostring \<times> gostring" where
  "compute_fingerprint env client =
     (if client = ''curl'' then
        (case env_run env [''curl'', ''--version''] of
           (out, _, None) \<Rightarrow>
             let fs = string_fields (hd (split_on (CHR 0x0A) (trim_space out)))
             in (if 1 < length fs then fs ! 1 else [],
                 case find curl_backend_field fs of Some f \<Rightarrow> f | None \<Rightarrow> [])
         | _ \<Rightarrow> ([], []))
      else if client = ''openssl'' then
        (case env_run env [''openssl'', ''version''] of
           (out, _, None) \<Rightarrow> (trim_space out, trim_space out)
         | _ \<Rightarrow> ([], []))
      else if client = ''python-requests'' then
        (case env_run env [''python3'', ''-c'',
            ''import requests,ssl;print(requests.__version__);print(ssl.OPENSSL_VERSION)''] of
           (out, _, None) \<Rightarrow>
             let lines = split_on (CHR 0x0A) (trim_space out)
             in (hd lines, if 1 < length lines then lines ! 1 else [])
         | _ \<Rightarrow> ([], []))
      else if client = ''go'' then
        (''go'' @ trim_prefix (trim_space (env_go_version env)) ''go'', ''crypto/tls'')
      else ([], []))"

text \<open>\<open>clientFingerprint\<close> with its cache, a state of the process.\<close>

type_synonym fingerprint_cache = "gostring \<rightharpoonup> gostring \<times> gostring"

definition client_fingerprint ::
  "probe_env \<Rightarrow> gostring \<Rightarrow> fingerprint_cache \<Rightarrow> (gostring \<times> gostring) \<times> fingerprint_cache" where
  "client_fingerprint env client cache =
     (case cache client of Some parts \<Rightarrow> (parts, cache)
      | None \<Rightarrow> let result = compute_fingerprint env client in (result, cache(client \<mapsto> result)))"

text \<open>A cache that was filled in this environment does not change any answer, so the probes below
  use the computed fingerprint.\<close>

definition cache_agrees :: "probe_env \<Rightarrow> fingerprint_cache \<Rightarrow> bool" where
  "cache_agrees env cache \<longleftrightarrow>
     (\<forall>client fp. cache client = Some fp \<longrightarrow> fp = compute_fingerprint env client)"

lemma client_fingerprint_cached:
  assumes "cache_agrees env cache" and "client_fingerprint env client cache = (fp, cache')"
  shows "fp = compute_fingerprint env client" and "cache_agrees env cache'"
  using assms by (auto simp: client_fingerprint_def cache_agrees_def Let_def
      simp del: split_paired_All split: option.splits if_splits)

definition in_process_observation ::
  "probe_env \<Rightarrow> gostring \<Rightarrow> decision \<Rightarrow> reason \<Rightarrow> observation" where
  "in_process_observation env client d r =
     (let (version, backend) = compute_fingerprint env ''go'' in
      (observe d r)\<lparr>obs_evidence := no_evidence\<lparr>ev_client := client, ev_client_version := version,
         ev_tls_backend := backend\<rparr>\<rparr>)"

definition command_evidence_of ::
  "probe_env \<Rightarrow> gostring \<Rightarrow> gostring \<Rightarrow> gostring \<Rightarrow> command_error option \<Rightarrow> command_evidence" where
  "command_evidence_of env client out err cmd_err =
     (let (version, backend) = compute_fingerprint env client in
      no_evidence\<lparr>ev_client := client, ev_stdout_sha256 := env_sha256_hex env out,
        ev_stderr_sha256 := env_sha256_hex env err,
        ev_exit_code := (case cmd_err of Some (ExitError code) \<Rightarrow> Some code
          | None \<Rightarrow> Some 0 | _ \<Rightarrow> None),
        ev_client_version := version, ev_tls_backend := backend\<rparr>)"

definition with_command_evidence ::
  "probe_env \<Rightarrow> observation \<Rightarrow> gostring \<Rightarrow> gostring \<Rightarrow> gostring \<Rightarrow> command_error option \<Rightarrow> observation"
where
  "with_command_evidence env o' client out err cmd_err =
     o'\<lparr>obs_evidence := (command_evidence_of env client out err cmd_err)\<lparr>ev_raw_artifacts := [
       \<lparr>raw_name = ''stdout.txt'', raw_media_type = ''text/plain; charset=utf-8'',
        raw_encoding = [], raw_data = out\<rparr>,
       \<lparr>raw_name = ''stderr.txt'', raw_media_type = ''text/plain; charset=utf-8'',
        raw_encoding = [], raw_data = err\<rparr>]\<rparr>\<rparr>"

definition binary_artifact :: "probe_env \<Rightarrow> gostring \<Rightarrow> gostring \<Rightarrow> bytes \<Rightarrow> raw_artifact" where
  "binary_artifact env name media data = \<lparr>raw_name = name, raw_media_type = media,
     raw_encoding = ''base64'', raw_data = env_base64 env data\<rparr>"

definition with_binary_evidence ::
  "probe_env \<Rightarrow> observation \<Rightarrow> gostring \<Rightarrow> gostring \<Rightarrow> bytes \<Rightarrow> observation" where
  "with_binary_evidence env o' name media contents =
     o'\<lparr>obs_evidence := (obs_evidence o')\<lparr>ev_raw_artifacts :=
       ev_raw_artifacts (obs_evidence o') @ [binary_artifact env name media contents]\<rparr>\<rparr>"

definition with_presented_leaf :: "gostring \<Rightarrow> observation \<Rightarrow> observation" where
  "with_presented_leaf presented o' =
     o'\<lparr>obs_evidence := (obs_evidence o')\<lparr>ev_presented_leaf_sha256 := presented\<rparr>\<rparr>"

lemma observation_outcomes [simp]:
  "obs_decision (observe d r) = d" "obs_reason (observe d r) = r"
  "obs_decision harness_failure = DecisionHarnessError"
  "obs_reason harness_failure = ReasonHarnessFailure"
  "obs_decision (in_process_observation env client d r) = d"
  "obs_reason (in_process_observation env client d r) = r"
  "obs_decision (with_command_evidence env o' client out err ce) = obs_decision o'"
  "obs_reason (with_command_evidence env o' client out err ce) = obs_reason o'"
  "obs_decision (with_binary_evidence env o' nm media contents) = obs_decision o'"
  "obs_reason (with_binary_evidence env o' nm media contents) = obs_reason o'"
  "obs_decision (with_presented_leaf presented o') = obs_decision o'"
  "obs_reason (with_presented_leaf presented o') = obs_reason o'"
  by (simp_all add: observe_def harness_failure_def in_process_observation_def split_beta
      with_command_evidence_def with_binary_evidence_def with_presented_leaf_def)

lemma probe_result_fields [simp]:
  "pr_observation (probed o') = o'" "pr_error (probed o') = None" "pr_metrics (probed o') = []"
  "pr_observation (probe_failed o' e) = o'" "pr_error (probe_failed o' e) = Some e"
  "pr_metrics (probe_failed o' e) = []"
  by (simp_all add: probed_def probe_failed_def)

subsection \<open>Shared helpers\<close>

definition host_port :: "gostring \<Rightarrow> int \<Rightarrow> gostring" where
  "host_port host port = host @ '':'' @ int_text port"

definition target_address :: "target \<Rightarrow> gostring" where
  "target_address tgt = host_port (target_connect_host tgt) (tgt_port tgt)"

text \<open>\<open>fetchPresentedLeaf\<close>: the leaf, its fingerprint, and the error.\<close>

definition fetch_presented_leaf ::
  "probe_env \<Rightarrow> target \<Rightarrow> gostring \<times> (gostring + certificate)" where
  "fetch_presented_leaf env tgt =
     (case env_dial env None (tgt_host tgt) (target_address tgt) of
        Inl e \<Rightarrow> ([], Inl (''fetchPresentedLeaf: dial: '' @ e))
      | Inr conn \<Rightarrow>
        if \<not> conn_is_tls conn
        then ([], Inl ''fetchPresentedLeaf: dial did not return a TLS connection'')
        else (case conn_peer_certificates conn of
            [] \<Rightarrow> ([], Inl ''fetchPresentedLeaf: no peer certificates'')
          | leaf # _ \<Rightarrow>
            (case verify_presented_leaf (env_sha256_hex env) tgt (Some leaf) of
               (presented, Some e) \<Rightarrow> (presented, Inl (''fetchPresentedLeaf: '' @ e))
             | (presented, None) \<Rightarrow> (presented, Inr leaf))))"

abbreviation max_status_body_bytes :: nat where "max_status_body_bytes \<equiv> 4194304"

text \<open>\<open>io.ReadAll\<close> of an \<open>io.LimitReader\<close>: an error behind the limit is not reached.\<close>

definition read_limited :: "nat \<Rightarrow> bytes \<Rightarrow> gostring option \<Rightarrow> gostring + bytes" where
  "read_limited limit body err =
     (if limit \<le> length body then Inr (take limit body)
      else case err of Some e \<Rightarrow> Inl e | None \<Rightarrow> Inr body)"

definition http_get :: "probe_env \<Rightarrow> gostring \<Rightarrow> gostring + bytes" where
  "http_get env url =
     (case env_http env url of Inl e \<Rightarrow> Inl e
      | Inr resp \<Rightarrow>
        if http_status resp < 200 \<or> 300 \<le> http_status resp
        then Inl (''GET '' @ url @ '': HTTP '' @ int_text (http_status resp))
        else ok_bind (read_limited (max_status_body_bytes + 1) (http_body resp) (http_body_error resp))
          (\<lambda>body. if max_status_body_bytes < length body
             then Inl (''GET '' @ url @ '': response exceeds '' @ nat_text max_status_body_bytes
                       @ '' bytes'')
             else Inr body))"

definition parse_issuer :: "probe_env \<Rightarrow> gostring \<Rightarrow> gostring \<Rightarrow> target \<Rightarrow> gostring + certificate" where
  "parse_issuer env probe verb tgt =
     (case env_pem_decode env (tgt_issuer_pem tgt) of
        None \<Rightarrow> Inl (probe @ '': invalid issuer PEM'')
      | Some der \<Rightarrow>
        (case env_parse_certificate env der of
           Inl e \<Rightarrow> Inl (probe @ '': '' @ verb @ '' issuer: '' @ e)
         | Inr cert \<Rightarrow> Inr cert))"

subsection \<open>openssl-ocsp-direct\<close>

definition ocsp_oracle_command ::
  "gostring \<Rightarrow> gostring \<Rightarrow> gostring \<Rightarrow> gostring \<Rightarrow> target \<Rightarrow> gostring list" where
  "ocsp_oracle_command issuer_path chain_path leaf_path response_path tgt =
     [''openssl'', ''ocsp'', ''-issuer'', issuer_path, ''-cert'', leaf_path, ''-url'',
      tgt_ocsp_url tgt, ''-CAfile'', chain_path, ''-no_nonce'', ''-respout'', response_path]"

text \<open>The temporary files of the oracle: issuer, chain, leaf, and the file for the response.\<close>

definition ocsp_oracle_files ::
  "probe_env \<Rightarrow> target \<Rightarrow> certificate \<Rightarrow> gostring + gostring \<times> gostring \<times> gostring \<times> gostring" where
  "ocsp_oracle_files env tgt leaf =
     ok_bind (write_temp env ''issuer-*.pem'' (tgt_issuer_pem tgt)) (\<lambda>issuer_path.
     ok_bind (write_temp env ''chain-*.pem'' (tgt_ca_chain_pem tgt)) (\<lambda>chain_path.
     ok_bind (write_temp env ''leaf-*.pem'' (env_pem_encode env (cert_raw leaf))) (\<lambda>leaf_path.
     (case env_create_temp env ''ocsp-response-*.der'' of
        Inl e \<Rightarrow> Inl (''create OCSP response artifact: '' @ e)
      | Inr response_path \<Rightarrow>
        (case env_close_file env response_path of
           Some e \<Rightarrow> Inl (''close OCSP response artifact: '' @ e)
         | None \<Rightarrow> Inr (issuer_path, chain_path, leaf_path, response_path))))))"

definition command_error_text :: "probe_env \<Rightarrow> command_error option \<Rightarrow> gostring" where
  "command_error_text env e = (case e of None \<Rightarrow> ''<nil>'' | Some err \<Rightarrow> env_error_text env err)"

definition read_error_text :: "gostring option \<Rightarrow> gostring" where
  "read_error_text e = (case e of None \<Rightarrow> ''<nil>'' | Some text' \<Rightarrow> text')"

text \<open>The status switch after the temporal checks have passed.\<close>

fun ocsp_oracle_decision :: "ocsp_status \<Rightarrow> decision \<times> reason" where
  "ocsp_oracle_decision OcspRevoked = (DecisionReject, ReasonRevoked)"
| "ocsp_oracle_decision OcspGood = (DecisionAccept, ReasonStatusGood)"
| "ocsp_oracle_decision OcspUnknown = (DecisionReject, ReasonUnknownStatus)"
| "ocsp_oracle_decision (OcspOther n) = (DecisionReject, ReasonInvalidStatus)"

definition openssl_ocsp_direct_steps :: "probe_env \<Rightarrow> target \<Rightarrow> probe_result" where
  "openssl_ocsp_direct_steps env tgt =
     (case fetch_presented_leaf env tgt of
        (presented, Inl e) \<Rightarrow> probe_failed (with_presented_leaf presented harness_failure) e
      | (presented, Inr leaf) \<Rightarrow>
        (case parse_issuer env ''openssl-ocsp-direct'' ''parse'' tgt of
           Inl e \<Rightarrow> probe_failed harness_failure e
         | Inr issuer \<Rightarrow>
           (case ocsp_oracle_files env tgt leaf of
              Inl e \<Rightarrow> probe_failed harness_failure e
            | Inr (issuer_path, chain_path, leaf_path, response_path) \<Rightarrow>
              let (out, err, cmd_err) = env_run env
                    (ocsp_oracle_command issuer_path chain_path leaf_path response_path tgt);
                  (response_der, read_err) = env_read_file env response_path;
                  with_evidence = (\<lambda>d r.
                    let o' = with_presented_leaf presented
                          (with_command_evidence env (observe d r) ''openssl'' out err cmd_err)
                    in if read_err = None \<and> response_der \<noteq> []
                       then with_binary_evidence env o' ''ocsp-response.der''
                              ''application/ocsp-response'' response_der
                       else o')
              in if response_der = [] then
                   (if env_ctx_done env \<or> looks_like_network_failure err
                    then probed (with_evidence DecisionInconclusive ReasonNetworkFailure)
                    else if is_exec_error cmd_err \<or> read_err \<noteq> None
                    then probe_failed (with_evidence DecisionHarnessError ReasonHarnessFailure)
                      (''openssl ocsp transport failed without a response: command=''
                       @ command_error_text env cmd_err @ '' read='' @ read_error_text read_err)
                    else probed (with_evidence DecisionReject ReasonInvalidStatus))
                 else (case env_parse_ocsp env response_der leaf issuer of
                     Inl _ \<Rightarrow> probed (with_evidence DecisionReject ReasonInvalidStatus)
                   | Inr resp \<Rightarrow>
                     (case validate_ocsp_temporal (Some resp) (Some leaf) (env_now env)
                             (tgt_status_freshness tgt) (tgt_ocsp_freshness tgt) of
                        Some reason \<Rightarrow>
                          (probed (with_evidence DecisionReject reason))
                            \<lparr>pr_metrics := [OCSPResponderUp True]\<rparr>
                      | None \<Rightarrow>
                          (probed (case ocsp_oracle_decision (or_status resp) of (d, r) \<Rightarrow>
                             with_evidence d r))\<lparr>pr_metrics := [OCSPResponderUp True]\<rparr>)))))"

definition openssl_ocsp_direct :: "probe_env \<Rightarrow> target \<Rightarrow> probe_result" where
  "openssl_ocsp_direct env tgt = (let r = openssl_ocsp_direct_steps env tgt in
     r\<lparr>pr_metrics := [OCSPResponderUp False] @ pr_metrics r @ [OCSPResponderLatency]\<rparr>)"

subsection \<open>curl\<close>

definition target_url :: "target \<Rightarrow> gostring" where
  "target_url tgt = ''https://'' @ host_port (tgt_host tgt) (tgt_port tgt) @ ''/''"

definition curl_connect_to :: "target \<Rightarrow> gostring" where
  "curl_connect_to tgt = host_port (tgt_host tgt) (tgt_port tgt) @ '':''
     @ host_port (target_connect_host tgt) (tgt_port tgt)"

definition curl_cert_status :: "probe_env \<Rightarrow> target \<Rightarrow> probe_result" where
  "curl_cert_status env tgt =
     (case write_temp env ''chain-*.pem'' (tgt_ca_chain_pem tgt) of
        Inl e \<Rightarrow> probe_failed harness_failure e
      | Inr chain_path \<Rightarrow>
        let (out, stderr, err) = env_run env [''curl'', ''-sS'', ''--max-time'', ''5'', ''--cacert'',
              chain_path, ''--cert-status'', ''--connect-to'', curl_connect_to tgt, target_url tgt];
            (d, r) = classify_curl_cert_status stderr (exit_code err) (err \<noteq> None);
            o' = with_command_evidence env (observe d r) ''curl'' out stderr err
        in if d = DecisionHarnessError
           then probe_failed o' (''curl --cert-status: '' @ command_error_text env err
                  @ '' ('' @ stderr @ '')'')
           else probed o')"

definition curl_default :: "probe_env \<Rightarrow> target \<Rightarrow> probe_result" where
  "curl_default env tgt =
     (case write_temp env ''chain-*.pem'' (tgt_ca_chain_pem tgt) of
        Inl e \<Rightarrow> probe_failed harness_failure e
      | Inr chain_path \<Rightarrow>
        let (out, stderr, err) = env_run env [''curl'', ''-sS'', ''--max-time'', ''5'', ''--cacert'',
              chain_path, ''--connect-to'', curl_connect_to tgt, target_url tgt]
        in if err \<noteq> None then
             probed (with_command_evidence env
               (observe DecisionInconclusive
                 (if exit_code err = 28 then ReasonNetworkFailure else ReasonTLSFailure))
               ''curl'' out stderr err)
           else probed (with_command_evidence env (observe DecisionAccept ReasonNoRevocationCheck)
               ''curl'' out stderr err))"

subsection \<open>In-process TLS clients\<close>

definition go_tls_default :: "probe_env \<Rightarrow> target \<Rightarrow> probe_result" where
  "go_tls_default env tgt =
     (case env_dial env (Some (tgt_ca_chain_pem tgt)) (tgt_host tgt) (target_address tgt) of
        Inl _ \<Rightarrow> probed (in_process_observation env ''go-default-tls'' DecisionInconclusive
                     ReasonTLSFailure)
      | Inr _ \<Rightarrow> probed (in_process_observation env ''go-default-tls'' DecisionAccept
                     ReasonNoRevocationCheck))"

text \<open>The hard-fail client's verdict on a response that passed the temporal checks: it rejects the
  two statuses it names and accepts any other.\<close>

definition hardfail_decision :: "ocsp_status \<Rightarrow> decision \<times> reason" where
  "hardfail_decision status =
     (if status = OcspRevoked then (DecisionReject, ReasonRevoked)
      else if status = OcspUnknown then (DecisionReject, ReasonUnknownStatus)
      else (DecisionAccept, ReasonStatusGood))"

definition go_tls_ocsp :: "probe_env \<Rightarrow> target \<Rightarrow> probe_result" where
  "go_tls_ocsp env tgt =
     (let observed = in_process_observation env ''go-hardfail-ocsp'';
          stapled = (\<lambda>staple d r. with_binary_evidence env (observed d r) ''stapled-ocsp.der''
                       ''application/ocsp-response'' staple)
      in case env_dial env (Some (tgt_ca_chain_pem tgt)) (tgt_host tgt) (target_address tgt) of
        Inl _ \<Rightarrow> probed (observed DecisionInconclusive ReasonTLSFailure)
      | Inr conn \<Rightarrow>
        if \<not> conn_is_tls conn
        then probe_failed harness_failure ''go-hardfail-ocsp: not a *tls.Conn''
        else let staple = conn_ocsp_response conn in
          if staple = [] then probed (observed DecisionReject ReasonMissingStatus)
          else (case conn_peer_certificates conn of
              [] \<Rightarrow> probe_failed harness_failure ''go-hardfail-ocsp: TLS peer sent no certificate''
            | leaf # _ \<Rightarrow>
              (case parse_issuer env ''go-hardfail-ocsp'' ''parsing'' tgt of
                 Inl e \<Rightarrow> probe_failed harness_failure e
               | Inr issuer \<Rightarrow>
                 (case env_parse_ocsp env staple leaf issuer of
                    Inl _ \<Rightarrow> probed (stapled staple DecisionReject ReasonInvalidStatus)
                  | Inr resp \<Rightarrow>
                    (case validate_ocsp_temporal (Some resp) (Some leaf) (env_now env)
                            (tgt_status_freshness tgt) (tgt_ocsp_freshness tgt) of
                       Some reason \<Rightarrow> probed (stapled staple DecisionReject reason)
                     | None \<Rightarrow> probed (case hardfail_decision (or_status resp) of (d, r) \<Rightarrow>
                         stapled staple d r))))))"

subsection \<open>python-requests\<close>

definition newline :: gostring where "newline = [CHR 0x0A]"

definition python_script :: "probe_env \<Rightarrow> target \<Rightarrow> gostring \<Rightarrow> gostring" where
  "python_script env tgt chain_path = concat
     [newline, ''import requests'', newline, ''import socket'', newline,
      ''real_getaddrinfo = socket.getaddrinfo'', newline,
      ''socket.getaddrinfo = lambda host, port, *args, **kwargs: real_getaddrinfo('',
      env_quote env (target_connect_host tgt), '' if host == '', env_quote env (tgt_host tgt),
      '' else host, port, *args, **kwargs)'', newline,
      ''s = requests.Session()'', newline, ''s.trust_env = False'', newline,
      ''r = s.get(\"'', target_url tgt, ''\", verify='', env_quote env chain_path, '', timeout=5)'',
      newline, ''print(r.status_code)'', newline]"

definition python_requests :: "probe_env \<Rightarrow> target \<Rightarrow> probe_result" where
  "python_requests env tgt =
     (case write_temp env ''chain-*.pem'' (tgt_ca_chain_pem tgt) of
        Inl e \<Rightarrow> probe_failed harness_failure e
      | Inr chain_path \<Rightarrow>
        let (out, stderr, err) = env_run env [''python3'', ''-c'', python_script env tgt chain_path];
            evidence = (\<lambda>d r. with_command_evidence env (observe d r) ''python-requests'' out stderr err)
        in if err \<noteq> None then probed (evidence DecisionInconclusive ReasonTLSFailure)
           else if \<not> contains out ''200''
           then probe_failed (evidence DecisionHarnessError ReasonHarnessFailure)
                  (''python-requests: unexpected output: '' @ out)
           else probed (evidence DecisionAccept ReasonNoRevocationCheck))"

subsection \<open>crl-check\<close>

definition crl_check :: "probe_env \<Rightarrow> target \<Rightarrow> probe_result" where
  "crl_check env tgt =
     (case fetch_presented_leaf env tgt of
        (presented, Inl e) \<Rightarrow> probe_failed (with_presented_leaf presented harness_failure) e
      | (presented, Inr leaf) \<Rightarrow>
        let with_leaf = (\<lambda>d r. with_presented_leaf presented
                           (in_process_observation env ''go-crl-oracle'' d r))
        in case http_get env (tgt_crl_url tgt) of
          Inl _ \<Rightarrow> probed (with_leaf DecisionInconclusive ReasonNetworkFailure)
        | Inr crl_bytes \<Rightarrow>
          let with_crl = (\<lambda>d r. with_binary_evidence env (with_leaf d r) ''crl.der''
                            ''application/pkix-crl'' crl_bytes)
          in case env_parse_crl env crl_bytes of
            Inl _ \<Rightarrow> probed (with_crl DecisionReject ReasonInvalidStatus)
          | Inr crl \<Rightarrow>
            (case parse_issuer env ''crl-check'' ''parsing'' tgt of
               Inl e \<Rightarrow> probe_failed harness_failure e
             | Inr issuer \<Rightarrow>
               if \<not> env_crl_signed_by env crl issuer
               then probed (with_crl DecisionReject ReasonInvalidStatus)
               else (case validate_crl_issuer (Some crl) (Some issuer) of
                   Some reason \<Rightarrow> probed (with_crl DecisionReject reason)
                 | None \<Rightarrow>
                   let now = env_now env in
                   (case check_crl_freshness crl now (tgt_status_freshness tgt)
                           (tgt_crl_freshness tgt) of
                      Some reason \<Rightarrow> probed (with_crl DecisionReject reason)
                    | None \<Rightarrow>
                      (case find (\<lambda>(serial, _). serial = cert_serial leaf) (crl_entries crl) of
                         Some (_, revoked_at) \<Rightarrow>
                           (case check_revocation_time revoked_at (cert_not_before leaf) now
                                   (tgt_status_freshness tgt) of
                              Some reason \<Rightarrow> probed (with_crl DecisionReject reason)
                            | None \<Rightarrow> probed (with_crl DecisionReject ReasonRevoked))
                       | None \<Rightarrow> probed (with_crl DecisionAccept ReasonStatusGood))
                      \<lparr>pr_metrics := [CRLAge (time_sub now (crl_this_update crl)),
                                   CRLEntryCount (length (crl_entries crl))]\<rparr>))))"

subsection \<open>The registry of profiles\<close>

definition openssl_ocsp_direct_profile :: profile where
  "openssl_ocsp_direct_profile = \<lparr>prof_name = ''openssl-ocsp-direct'',
     prof_role = RoleStatusOracle, prof_method = MethodOCSPDirect,
     prof_description =
       ''OpenSSL OCSP transport with Sentinel signature, subject, and freshness classification''\<rparr>"

definition curl_cert_status_profile :: profile where
  "curl_cert_status_profile = \<lparr>prof_name = ''curl-cert-status'', prof_role = RoleClientExecutor,
     prof_method = MethodOCSPStapled,
     prof_description = ''curl --cacert chain.pem --cert-status https://<host>/''\<rparr>"

definition curl_default_profile :: profile where
  "curl_default_profile = \<lparr>prof_name = ''curl-default'', prof_role = RoleClientExecutor,
     prof_method = MethodNone,
     prof_description = ''curl --cacert chain.pem https://<host>/''\<rparr>"

definition go_tls_default_profile :: profile where
  "go_tls_default_profile = \<lparr>prof_name = ''go-tls-default'', prof_role = RoleClientExecutor,
     prof_method = MethodNone,
     prof_description = ''in-process crypto/tls dial with RootCAs''\<rparr>"

definition go_tls_ocsp_profile :: profile where
  "go_tls_ocsp_profile = \<lparr>prof_name = ''go-hardfail-ocsp'', prof_role = RoleClientExecutor,
     prof_method = MethodOCSPStapled,
     prof_description = ''custom hard-fail validator over crypto/tls OCSPResponse''\<rparr>"

definition python_requests_profile :: profile where
  "python_requests_profile = \<lparr>prof_name = ''python-requests'', prof_role = RoleClientExecutor,
     prof_method = MethodNone, prof_description = ''python3 -c script with verify=chain.pem''\<rparr>"

definition crl_check_profile :: profile where
  "crl_check_profile = \<lparr>prof_name = ''crl-check'', prof_role = RoleStatusOracle,
     prof_method = MethodCRL, prof_description =
       ''download full CRL, verify issuer signature/freshness, and check the exact issued canary serial''\<rparr>"

text \<open>\<open>Registry()\<close>: each profile with its probe.\<close>

definition profile_registry :: "(profile \<times> (probe_env \<Rightarrow> target \<Rightarrow> probe_result)) list" where
  "profile_registry =
     [(openssl_ocsp_direct_profile, openssl_ocsp_direct),
      (curl_cert_status_profile, curl_cert_status),
      (curl_default_profile, curl_default),
      (go_tls_default_profile, go_tls_default),
      (go_tls_ocsp_profile, go_tls_ocsp),
      (python_requests_profile, python_requests),
      (crl_check_profile, crl_check)]"

definition standard_profiles :: "profile list" where
  "standard_profiles = map fst profile_registry"

lemma standard_profiles_code [code]:
  "standard_profiles = [openssl_ocsp_direct_profile, curl_cert_status_profile, curl_default_profile,
     go_tls_default_profile, go_tls_ocsp_profile, python_requests_profile, crl_check_profile]"
  by (simp add: standard_profiles_def profile_registry_def)

end
