(* ===== verification/Scenario_Laws.thy ===== *)
theory Scenario_Laws imports Scenarios Probes
begin

text \<open>
  What the validation of scenario manifests establishes: a declarative description of the
  documents that \<open>build\<close> accepts, the well-formedness of the manifests it returns, and the
  independence of both from map iteration order and from the order of the lists in the document.
\<close>

subsection \<open>Expectations\<close>

definition valid_expectation :: "yaml_expectation \<Rightarrow> bool" where
  "valid_expectation e \<longleftrightarrow> (case valid_decision (ye_decision e) of None \<Rightarrow> False
     | Some d \<Rightarrow> ye_reasons e \<noteq> [] \<and> distinct (ye_reasons e)
         \<and> (\<forall>raw \<in> set (ye_reasons e).
              to_reason raw \<in> set known_reasons \<and> reason_compatible d (to_reason raw)))"

definition wf_outcome :: "decision \<Rightarrow> reason list \<Rightarrow> bool" where
  "wf_outcome d rs \<longleftrightarrow>
     d \<in> {DecisionAccept, DecisionReject, DecisionInconclusive, DecisionHarnessError}
     \<and> rs \<noteq> [] \<and> distinct rs \<and> sorted (map reason_text rs) \<and> set rs \<subseteq> set known_reasons
     \<and> (\<forall>r \<in> set rs. reason_compatible d r)"

lemma valid_reason_Some:
  "valid_reason raw = Some r \<longleftrightarrow> r = to_reason raw \<and> to_reason raw \<in> set known_reasons"
  by (auto simp: valid_reason_def Let_def)

lemma valid_decision_Some:
  "valid_decision raw = Some d \<longleftrightarrow> d = to_decision raw
     \<and> d \<in> {DecisionAccept, DecisionReject, DecisionInconclusive, DecisionHarnessError}"
  by (auto simp: valid_decision_def Let_def)

lemma inj_to_reason: "inj to_reason"
  by (metis injI reason_text_to_reason)

lemma parse_reasons_Inr:
  "parse_reasons field d seen raws = Inr rs \<longleftrightarrow>
     rs = map to_reason raws \<and> distinct raws \<and> set rs \<inter> seen = {}
     \<and> (\<forall>raw \<in> set raws. to_reason raw \<in> set known_reasons \<and> reason_compatible d (to_reason raw))"
proof (induction raws arbitrary: seen rs)
  case Nil
  then show ?case by auto
next
  case (Cons raw raws)
  have mem: "to_reason raw \<in> to_reason ` set raws \<longleftrightarrow> raw \<in> set raws"
    by (simp add: inj_image_mem_iff inj_to_reason)
  show ?case
  proof (cases "to_reason raw \<in> set known_reasons")
    case False
    then have "valid_reason raw = None" by (simp add: valid_reason_def)
    with False show ?thesis by simp
  next
    case True
    then have "valid_reason raw = Some (to_reason raw)" by (simp add: valid_reason_def)
    then show ?thesis using True mem by (auto simp: Cons.IH disjoint_iff inj_eq[OF inj_to_reason])
  qed
qed

lemma parse_expectation_Inr:
  "parse_expectation e True field = Inr x \<longleftrightarrow> valid_expectation e
     \<and> x = zero_expectation\<lparr>exp_after := to_decision (ye_decision e),
            exp_after_reasons := sort_key reason_text (map to_reason (ye_reasons e))\<rparr>"
proof (cases "valid_decision (ye_decision e)")
  case None
  then show ?thesis by (simp add: parse_expectation_def valid_expectation_def)
next
  case (Some d)
  then have "d = to_decision (ye_decision e)" by (simp add: valid_decision_Some)
  with Some show ?thesis
    by (auto simp: parse_expectation_def valid_expectation_def parse_reasons_Inr)
qed

lemma valid_expectation_wf:
  assumes "valid_expectation e"
  shows "wf_outcome (to_decision (ye_decision e))
    (sort_key reason_text (map to_reason (ye_reasons e)))"
proof -
  have "inj_on to_reason (set (ye_reasons e))"
    using inj_to_reason by (rule inj_on_subset) simp
  then show ?thesis using assms
    by (auto simp: valid_expectation_def wf_outcome_def valid_decision_Some distinct_map
        split: option.splits)
qed

subsection \<open>Contracts\<close>

definition valid_contract :: "yaml_profile_contract \<Rightarrow> bool" where
  "valid_contract c \<longleftrightarrow> valid_expectation (yb_before (yc_baseline c))
     \<and> valid_expectation (yb_after (yc_baseline c)) \<and> valid_expectation (yp_after (yc_policy c))"

definition wf_contract :: "contract \<Rightarrow> bool" where
  "wf_contract c \<longleftrightarrow>
     wf_outcome (exp_before (con_baseline c)) (exp_before_reasons (con_baseline c))
     \<and> wf_outcome (exp_after (con_baseline c)) (exp_after_reasons (con_baseline c))
     \<and> wf_outcome (exp_after (con_policy c)) (exp_after_reasons (con_policy c))"

text \<open>The contract that a valid raw contract denotes.\<close>

definition outcome_of :: "yaml_expectation \<Rightarrow> decision \<times> reason list" where
  "outcome_of e = (to_decision (ye_decision e),
     sort_key reason_text (map to_reason (ye_reasons e)))"

definition contract_of :: "yaml_profile_contract \<Rightarrow> contract" where
  "contract_of c = \<lparr>
     con_baseline = \<lparr>
       exp_before = fst (outcome_of (yb_before (yc_baseline c))),
       exp_before_reasons = snd (outcome_of (yb_before (yc_baseline c))),
       exp_after = fst (outcome_of (yb_after (yc_baseline c))),
       exp_after_reasons = snd (outcome_of (yb_after (yc_baseline c)))\<rparr>,
     con_policy = zero_expectation\<lparr>
       exp_after := fst (outcome_of (yp_after (yc_policy c))),
       exp_after_reasons := snd (outcome_of (yp_after (yc_policy c)))\<rparr>\<rparr>"

lemma build_contract_Inr:
  "build_contract sid known (name, c) = Inr y \<longleftrightarrow>
     known name \<noteq> None \<and> valid_contract c \<and> y = (name, contract_of c)"
  by (auto simp: build_contract_def parse_baseline_def parse_policy_def parse_expectation_Inr
      valid_contract_def contract_of_def outcome_of_def)

lemma wf_contract_of: "valid_contract c \<Longrightarrow> wf_contract (contract_of c)"
  by (auto simp: valid_contract_def wf_contract_def contract_of_def outcome_of_def
      intro: valid_expectation_wf)

lemma sort_reasons_valid [simp]: "valid_expectation (sort_reasons e) = valid_expectation e"
  by (auto simp: valid_expectation_def sort_reasons_def split: option.split)

lemma normalize_contract_valid [simp]: "valid_contract (normalize_contract c) = valid_contract c"
  by (simp add: valid_contract_def normalize_contract_def)

subsection \<open>Evidence dependencies\<close>

definition valid_dependencies :: "stapling_mode \<Rightarrow> role \<Rightarrow> evidence_dependency list \<Rightarrow> bool" where
  "valid_dependencies stapling r ds \<longleftrightarrow> ds \<noteq> [] \<and> distinct ds \<and> set ds \<subseteq> known_evidence
     \<and> (r = RoleStatusOracle \<longrightarrow> set ds \<subseteq> {EvidenceIssuerAck})
     \<and> (EvidenceStaplePublished \<in> set ds \<longrightarrow> stapling = StaplingOn)"

lemma check_dependency_list_Inr:
  "check_dependency_list sid name r seen ds = Inr () \<longleftrightarrow>
     distinct ds \<and> set ds \<inter> seen = {} \<and> set ds \<subseteq> known_evidence
     \<and> (r = RoleStatusOracle \<longrightarrow> set ds \<subseteq> {EvidenceIssuerAck})"
  by (induction ds arbitrary: seen) auto

lemma check_dependencies_Inr:
  "check_dependencies raw known (name, ds) = Inr () \<longleftrightarrow>
     (\<exists>impl. known name = Some impl \<and> name \<in> fst ` set (ym_profiles raw)
        \<and> valid_dependencies (yx_stapling (ym_execution raw)) (prof_role impl) ds)"
  by (auto simp: check_dependencies_def valid_dependencies_def check_dependency_list_Inr
      split: option.split)

lemma inj_on_dependency_text: "inj_on dependency_text known_evidence"
  by (auto simp: inj_on_def known_evidence_def)

lemma valid_dependencies_sorted [simp]:
  "valid_dependencies st r (sort_key dependency_text ds) = valid_dependencies st r ds"
  by (simp add: valid_dependencies_def)

subsection \<open>Manifests\<close>

definition valid_manifest :: "(gostring \<rightharpoonup> profile) \<Rightarrow> yaml_manifest \<Rightarrow> bool" where
  "valid_manifest known raw \<longleftrightarrow> ym_id raw \<noteq> [] \<and> ym_version raw = 1 \<and> ym_profiles raw \<noteq> []
     \<and> valid_stapling (yx_stapling (ym_execution raw))
     \<and> (\<forall>(name, c) \<in> set (ym_profiles raw).
          known name \<noteq> None \<and> valid_contract c \<and> name \<in> fst ` set (ym_dependencies raw))
     \<and> (\<forall>(name, ds) \<in> set (ym_dependencies raw).
          \<exists>impl. known name = Some impl \<and> name \<in> fst ` set (ym_profiles raw)
            \<and> valid_dependencies (yx_stapling (ym_execution raw)) (prof_role impl) ds)"

definition wf_manifest :: "(gostring \<rightharpoonup> profile) \<Rightarrow> manifest \<Rightarrow> bool" where
  "wf_manifest known m \<longleftrightarrow> man_id m \<noteq> [] \<and> man_version m = 1 \<and> man_profiles m \<noteq> []
     \<and> valid_stapling (man_stapling m)
     \<and> fst ` set (man_profiles m) = fst ` set (man_dependencies m)
     \<and> (\<forall>(name, c) \<in> set (man_profiles m). known name \<noteq> None \<and> wf_contract c)
     \<and> (\<forall>(name, ds) \<in> set (man_dependencies m).
          \<exists>impl. known name = Some impl
            \<and> valid_dependencies (man_stapling m) (prof_role impl) ds)"

text \<open>The manifest that a valid document denotes.\<close>

definition manifest_of ::
  "(yaml_manifest \<Rightarrow> bytes) \<Rightarrow> (bytes \<Rightarrow> gostring) \<Rightarrow> yaml_manifest \<Rightarrow> manifest" where
  "manifest_of marshal sha256_hex raw =
     (let n = normalize_manifest raw; (canonical, digest) = canonical_manifest marshal sha256_hex n
      in \<lparr>man_id = ym_id raw, man_version = ym_version raw, man_digest = digest,
          man_canonical_json = canonical, man_dependencies = ym_dependencies n,
          man_profiles = map (\<lambda>(name, c). (name, contract_of c)) (ym_profiles n),
          man_stapling = yx_stapling (ym_execution raw)\<rparr>)"

lemma normalize_fields [simp]:
  "ym_id (normalize_manifest raw) = ym_id raw"
  "ym_version (normalize_manifest raw) = ym_version raw"
  "ym_execution (normalize_manifest raw) = ym_execution raw"
  "fst ` set (ym_dependencies (normalize_manifest raw)) = fst ` set (ym_dependencies raw)"
  "fst ` set (ym_profiles (normalize_manifest raw)) = fst ` set (ym_profiles raw)"
  by (auto simp: normalize_manifest_def image_image split_beta)

lemma map_build_contract_Inr:
  "map_ok (build_contract sid known) ncs = Inr ys \<longleftrightarrow>
     (\<forall>(name, c) \<in> set ncs. known name \<noteq> None \<and> valid_contract c)
     \<and> ys = map (\<lambda>(name, c). (name, contract_of c)) ncs"
  by (induction ncs arbitrary: ys) (auto simp: build_contract_Inr)

lemma build_Inr:
  "build marshal sha256_hex raw known = Inr m \<longleftrightarrow>
     valid_manifest known raw \<and> m = manifest_of marshal sha256_hex raw"
proof -
  have profs: "(\<forall>(name, c) \<in> set (ym_profiles (normalize_manifest raw)).
        known name \<noteq> None \<and> valid_contract c)
      \<longleftrightarrow> (\<forall>(name, c) \<in> set (ym_profiles raw). known name \<noteq> None \<and> valid_contract c)"
    by (auto simp: normalize_manifest_def)
  have deps: "(\<forall>nd \<in> set (ym_dependencies (normalize_manifest raw)).
        check_dependencies (normalize_manifest raw) known nd = Inr ())
      \<longleftrightarrow> (\<forall>(name, ds) \<in> set (ym_dependencies raw).
        \<exists>impl. known name = Some impl \<and> name \<in> fst ` set (ym_profiles raw)
            \<and> valid_dependencies (yx_stapling (ym_execution raw)) (prof_role impl) ds)"
    unfolding normalize_manifest_def
    by (auto simp: check_dependencies_Inr image_image split_beta; fastforce)
  have covered: "(\<forall>x \<in> set (ym_profiles (normalize_manifest raw)). fst x \<in> D)
      \<longleftrightarrow> (\<forall>x \<in> set (ym_profiles raw). fst x \<in> D)" for D
    by (auto simp: normalize_manifest_def)
  let ?guards = "ym_id raw \<noteq> [] \<and> ym_version raw = 1 \<and> ym_profiles raw \<noteq> []
      \<and> valid_stapling (yx_stapling (ym_execution raw))"
  show ?thesis
  proof (cases ?guards)
    case False
    then show ?thesis by (auto simp: build_def valid_manifest_def)
  next
    case True
    let ?n = "normalize_manifest raw"
    have "build marshal sha256_hex raw known = Inr m \<longleftrightarrow>
        (\<exists>cs. map_ok (build_contract (ym_id raw) known) (ym_profiles ?n) = Inr cs
          \<and> (\<forall>x \<in> set (ym_profiles ?n). fst x \<in> fst ` set (ym_dependencies raw))
          \<and> (\<forall>nd \<in> set (ym_dependencies ?n). check_dependencies ?n known nd = Inr ())
          \<and> m = (manifest_of marshal sha256_hex raw)\<lparr>man_profiles := cs\<rparr>)"
      using True by (simp add: build_def manifest_of_def canonical_manifest_def Let_def split_beta)
        blast
    also have "\<dots> \<longleftrightarrow> valid_manifest known raw \<and> m = manifest_of marshal sha256_hex raw"
      unfolding deps covered map_build_contract_Inr profs using True
      by (auto simp: valid_manifest_def manifest_of_def canonical_manifest_def Let_def split_beta)
    finally show ?thesis .
  qed
qed

lemma wf_manifest_of:
  assumes "valid_manifest known raw"
  shows "wf_manifest known (manifest_of marshal sha256_hex raw)"
proof -
  have "fst ` set (ym_profiles raw) = fst ` set (ym_dependencies raw)"
    using assms by (force simp: valid_manifest_def)
  moreover have "\<forall>(name, c) \<in> set (ym_profiles raw). known name \<noteq> None \<and> valid_contract c"
    using assms by (auto simp: valid_manifest_def)
  moreover have "\<forall>(name, ds) \<in> set (ym_dependencies raw). \<exists>impl. known name = Some impl
      \<and> valid_dependencies (yx_stapling (ym_execution raw)) (prof_role impl) ds"
    using assms unfolding valid_manifest_def by fast
  ultimately show ?thesis using assms
    by (auto simp: valid_manifest_def wf_manifest_def manifest_of_def canonical_manifest_def
        normalize_manifest_def Let_def image_image split_beta wf_contract_of)
qed

subsection \<open>Independence of every order\<close>

text \<open>Two readings of one document: the same keys with the same contents, in any map iteration
  order, with the lists of reasons and dependencies in any order.\<close>

definition same_expectation :: "yaml_expectation \<Rightarrow> yaml_expectation \<Rightarrow> bool" where
  "same_expectation e e' \<longleftrightarrow>
     ye_decision e = ye_decision e' \<and> mset (ye_reasons e) = mset (ye_reasons e')"

definition same_contract :: "yaml_profile_contract \<Rightarrow> yaml_profile_contract \<Rightarrow> bool" where
  "same_contract c c' \<longleftrightarrow>
     same_expectation (yb_before (yc_baseline c)) (yb_before (yc_baseline c'))
     \<and> same_expectation (yb_after (yc_baseline c)) (yb_after (yc_baseline c'))
     \<and> same_expectation (yp_after (yc_policy c)) (yp_after (yc_policy c'))"

definition same_map ::
  "('v \<Rightarrow> 'v \<Rightarrow> bool) \<Rightarrow> (gostring \<times> 'v) list \<Rightarrow> (gostring \<times> 'v) list \<Rightarrow> bool" where
  "same_map eq xs ys \<longleftrightarrow> distinct (map fst xs)
     \<and> (\<exists>zs. mset zs = mset ys \<and> list_all2 (\<lambda>(n, v) (n', v'). n = n' \<and> eq v v') xs zs)"

definition same_document :: "yaml_manifest \<Rightarrow> yaml_manifest \<Rightarrow> bool" where
  "same_document raw raw' \<longleftrightarrow> ym_id raw = ym_id raw' \<and> ym_version raw = ym_version raw'
     \<and> ym_execution raw = ym_execution raw'
     \<and> same_map same_contract (ym_profiles raw) (ym_profiles raw')
     \<and> same_map (\<lambda>ds ds'. mset ds = mset ds') (ym_dependencies raw) (ym_dependencies raw')"

lemma same_map_normalized:
  assumes "same_map eq xs ys" and "\<And>n v v'. (n, v) \<in> set xs \<Longrightarrow> eq v v' \<Longrightarrow> f v = f v'"
  shows "mset (map (\<lambda>(n, v). (n, f v)) xs) = mset (map (\<lambda>(n, v). (n, f v)) ys)"
proof -
  obtain zs where zs: "mset zs = mset ys" "list_all2 (\<lambda>(n, v) (n', v'). n = n' \<and> eq v v') xs zs"
    using assms(1) by (auto simp: same_map_def)
  have "map (\<lambda>(n, v). (n, f v)) xs = map (\<lambda>(n, v). (n, f v)) zs"
    using zs(2) assms(2) by (induction rule: list_all2_induct) fastforce+
  then show ?thesis using zs(1) by (metis mset_map)
qed

lemma same_expectation_sorted: "same_expectation e e' \<Longrightarrow> sort_reasons e = sort_reasons e'"
  by (cases e; cases e') (auto simp: same_expectation_def sort_reasons_def intro: sort_perm_eq)

lemma normalize_contract_same: "same_contract c c' \<Longrightarrow> normalize_contract c = normalize_contract c'"
  by (simp add: same_contract_def normalize_contract_def same_expectation_sorted)

lemma valid_manifest_normalize [simp]:
  "valid_manifest known (normalize_manifest raw) = valid_manifest known raw"
proof -
  have profs: "(\<forall>(name, c) \<in> set (ym_profiles (normalize_manifest raw)).
        P name \<and> valid_contract c \<and> Q name)
      \<longleftrightarrow> (\<forall>(name, c) \<in> set (ym_profiles raw). P name \<and> valid_contract c \<and> Q name)" for P Q
    by (auto simp: normalize_manifest_def)
  have deps: "(\<forall>(name, ds) \<in> set (ym_dependencies (normalize_manifest raw)).
        \<exists>impl. R name impl \<and> P name \<and> valid_dependencies st (role impl) ds)
      \<longleftrightarrow> (\<forall>(name, ds) \<in> set (ym_dependencies raw).
        \<exists>impl. R name impl \<and> P name \<and> valid_dependencies st (role impl) ds)"
    for R :: "gostring \<Rightarrow> profile \<Rightarrow> bool" and P st role
    by (simp add: normalize_manifest_def split_beta)
  have "ym_profiles (normalize_manifest raw) = [] \<longleftrightarrow> ym_profiles raw = []"
    by (simp add: normalize_manifest_def)
  then show ?thesis unfolding valid_manifest_def normalize_fields profs deps by simp
qed

lemma valid_manifest_sets:
  assumes "ym_id raw = ym_id raw'" "ym_version raw = ym_version raw'"
    "ym_execution raw = ym_execution raw'"
    "mset (ym_profiles raw) = mset (ym_profiles raw')"
    "mset (ym_dependencies raw) = mset (ym_dependencies raw')"
  shows "valid_manifest known raw = valid_manifest known raw'"
proof -
  have sets: "set (ym_profiles raw) = set (ym_profiles raw')"
    "set (ym_dependencies raw) = set (ym_dependencies raw')"
    using assms(4,5) by (auto dest: mset_eq_setD)
  moreover from sets(1) have "ym_profiles raw = [] \<longleftrightarrow> ym_profiles raw' = []"
    by (metis set_empty)
  ultimately show ?thesis unfolding valid_manifest_def by (simp only: assms(1,2,3))
qed

lemma same_document_normalized:
  assumes "same_document raw raw'" and "valid_manifest known raw"
  shows "mset (ym_profiles (normalize_manifest raw)) = mset (ym_profiles (normalize_manifest raw'))"
    and "mset (ym_dependencies (normalize_manifest raw))
           = mset (ym_dependencies (normalize_manifest raw'))"
proof -
  show "mset (ym_profiles (normalize_manifest raw)) = mset (ym_profiles (normalize_manifest raw'))"
    unfolding normalize_manifest_def using assms(1)
    by (auto simp: same_document_def intro!: same_map_normalized normalize_contract_same
        simp del: mset_map)
  have "sort_key dependency_text ds = sort_key dependency_text ds'"
    if "(n, ds) \<in> set (ym_dependencies raw)" "mset ds = mset ds'" for n ds ds'
  proof (rule sort_key_perm_eq)
    show "inj_on dependency_text (set ds)"
      using that(1) assms(2) inj_on_dependency_text
      by (fastforce simp: valid_manifest_def valid_dependencies_def intro: inj_on_subset)
  qed (rule that(2))
  then show "mset (ym_dependencies (normalize_manifest raw))
           = mset (ym_dependencies (normalize_manifest raw'))"
    unfolding normalize_manifest_def using assms(1)
    by (auto simp: same_document_def intro!: same_map_normalized simp del: mset_map)
qed

lemma distinct_keys_map [simp]: "map (fst \<circ> (\<lambda>(n, v). (n, f v))) xs = map fst xs"
  by (induction xs) auto

lemma same_document_distinct:
  assumes "same_document raw raw'"
  shows "distinct (map fst (ym_profiles (normalize_manifest raw)))"
    and "distinct (map fst (ym_dependencies (normalize_manifest raw)))"
  using assms by (simp_all add: same_document_def same_map_def normalize_manifest_def split_beta
      comp_def)

lemma canonical_same:
  assumes "same_document raw raw'" and "valid_manifest known raw"
  shows "canonical_manifest marshal sha256_hex (normalize_manifest raw)
       = canonical_manifest marshal sha256_hex (normalize_manifest raw')"
proof -
  let ?n = "normalize_manifest raw" and ?n' = "normalize_manifest raw'"
  have "sort_key fst (ym_profiles ?n) = sort_key fst (ym_profiles ?n')"
    "sort_key fst (ym_dependencies ?n) = sort_key fst (ym_dependencies ?n')"
    using same_document_normalized[OF assms] same_document_distinct[OF assms(1)]
    by (auto intro!: sort_key_perm_eq simp: distinct_map)
  moreover have "ym_id ?n = ym_id ?n'" "ym_version ?n = ym_version ?n'"
    "ym_execution ?n = ym_execution ?n'"
    using assms(1) by (simp_all add: same_document_def)
  ultimately have "sort_map_keys ?n = sort_map_keys ?n'"
    by (cases ?n; cases ?n') (simp add: sort_map_keys_def)
  then show ?thesis by (simp add: canonical_manifest_def)
qed

subsection \<open>Registries\<close>

lemma load_paths_distinct:
  "load_paths dec bld ms ps = Inr ms' \<Longrightarrow> distinct (map fst ms) \<Longrightarrow> distinct (map fst ms')"
  by (induction ps arbitrary: ms) (auto split: if_splits)

lemma load_paths_sources:
  "load_paths dec bld ms ps = Inr ms' \<Longrightarrow> (s, m) \<in> set ms' \<Longrightarrow>
     (s, m) \<in> set ms \<or> (s = man_id m \<and> (\<exists>p \<in> set ps. \<exists>raw. dec p = Inr raw \<and> bld raw = Inr m))"
  by (induction ps arbitrary: ms) (fastforce split: if_splits)+

definition wf_registry :: "registry \<Rightarrow> bool" where
  "wf_registry r \<longleftrightarrow> distinct (map fst (reg_manifests r))
     \<and> (\<forall>(s, m) \<in> set (reg_manifests r). s = man_id m \<and> wf_manifest (reg_implementations r) m)"

lemma load_dir_wf:
  assumes "load_dir dec marshal sha256_hex globbed impls = Inr r"
  shows "wf_registry r"
proof -
  obtain paths ms where ms: "load_paths dec (\<lambda>raw. build marshal sha256_hex raw (known_profiles impls))
      [] paths = Inr ms" and r: "r = \<lparr>reg_manifests = ms, reg_implementations = known_profiles impls\<rparr>"
    using assms by (auto simp: load_dir_def Let_def split: sum.splits if_splits)
  have "distinct (map fst ms)" using load_paths_distinct[OF ms] by simp
  moreover have "s = man_id m \<and> wf_manifest (known_profiles impls) m" if "(s, m) \<in> set ms" for s m
    using load_paths_sources[OF ms that] by (auto simp: build_Inr wf_manifest_of)
  ultimately show ?thesis by (auto simp: wf_registry_def r)
qed

text \<open>Every enabled profile has a contract in every scenario, and what it waits for has an
  enabled status oracle that can publish it.\<close>

definition producible :: "registry \<Rightarrow> manifest \<Rightarrow> gostring list \<Rightarrow> evidence_dependency \<Rightarrow> bool" where
  "producible r m enabled d \<longleftrightarrow>
     (d = EvidenceOCSPPublished \<longrightarrow> has_enabled_producer r m enabled MethodOCSPDirect)
     \<and> (d = EvidenceCRLPublished \<longrightarrow> has_enabled_producer r m enabled MethodCRL)"

lemma check_producer_Inr:
  "check_producer r s m enabled name d = Inr () \<longleftrightarrow> producible r m enabled d"
  by (cases d) (auto simp: check_producer_def producible_def)

lemma validate_enabled_Inr:
  "validate_enabled_profiles r enabled = Inr () \<longleftrightarrow>
     (\<forall>(s, m) \<in> set (reg_manifests r). \<forall>name \<in> set enabled.
        map_of (man_profiles m) name \<noteq> None
        \<and> (\<forall>ds d. map_of (man_dependencies m) name = Some ds \<longrightarrow> d \<in> set ds
             \<longrightarrow> producible r m enabled d))"
proof -
  have "(if map_of (man_profiles m) name = None then Inl (NoContract s name)
         else all_ok (check_producer r s m enabled name)
           (case map_of (man_dependencies m) name of None \<Rightarrow> [] | Some ds \<Rightarrow> ds)) = Inr ()
      \<longleftrightarrow> map_of (man_profiles m) name \<noteq> None
        \<and> (\<forall>ds d. map_of (man_dependencies m) name = Some ds \<longrightarrow> d \<in> set ds
             \<longrightarrow> producible r m enabled d)" for s m name
    by (cases "map_of (man_dependencies m) name") (auto simp: check_producer_Inr)
  then show ?thesis by (simp add: validate_enabled_profiles_def split_beta)
qed

subsection \<open>Properties\<close>

text \<open>C11: \<open>build\<close> accepts exactly the valid documents: ID and version set, stapling mode known, every
  profile implemented and with decisions and reasons that are known, not repeated and compatible,
  evidence dependencies for exactly the contracted profiles, non-empty, known, not repeated,
  \<open>issuer_ack\<close> only for status oracles, and \<open>staple_published\<close> only where a staple is served; and the
  manifest it returns is the normalised document.\<close>

theorem build_accepts_exactly:
  "build marshal sha256_hex raw known = Inr m \<longleftrightarrow>
     valid_manifest known raw \<and> m = manifest_of marshal sha256_hex raw"
  by (rule build_Inr)

text \<open>The order in which the runtime iterates over the maps of a document, and the order of its
  reason and dependency lists, change neither whether the document is accepted nor the digest,
  the canonical artifact, the contracts or the dependency lists it is registered with.\<close>

theorem build_order_independent:
  assumes "same_document raw raw'" and "build marshal sha256_hex raw known = Inr m"
  shows "\<exists>m'. build marshal sha256_hex raw' known = Inr m' \<and> man_digest m' = man_digest m
    \<and> man_canonical_json m' = man_canonical_json m \<and> man_id m' = man_id m
    \<and> man_stapling m' = man_stapling m
    \<and> map_of (man_profiles m') = map_of (man_profiles m)
    \<and> map_of (man_dependencies m') = map_of (man_dependencies m)"
proof -
  let ?n = "normalize_manifest raw" and ?n' = "normalize_manifest raw'"
  have valid: "valid_manifest known raw" and m: "m = manifest_of marshal sha256_hex raw"
    using assms(2) by (simp_all add: build_Inr)
  note perm = same_document_normalized[OF assms(1) valid]
    and dist = same_document_distinct[OF assms(1)]
  have same: "ym_id raw = ym_id raw'" "ym_version raw = ym_version raw'"
    "ym_execution raw = ym_execution raw'"
    using assms(1) by (simp_all add: same_document_def)
  have "valid_manifest known ?n = valid_manifest known ?n'"
    by (rule valid_manifest_sets) (simp_all add: same perm)
  then have "build marshal sha256_hex raw' known = Inr (manifest_of marshal sha256_hex raw')"
    using valid by (simp add: build_Inr)
  moreover have "map_of (map (\<lambda>(name, c). (name, contract_of c)) (ym_profiles ?n'))
      = map_of (map (\<lambda>(name, c). (name, contract_of c)) (ym_profiles ?n))"
    by (rule map_of_perm_eq[symmetric]) (simp_all add: perm(1) dist(1))
  moreover have "map_of (ym_dependencies ?n') = map_of (ym_dependencies ?n)"
    by (rule map_of_perm_eq[symmetric]) (simp_all add: perm(2) dist(2))
  ultimately show ?thesis
    using canonical_same[OF assms(1) valid, of marshal sha256_hex] same
    by (auto simp: m manifest_of_def Let_def split_beta)
qed

text \<open>A directory that loads gives a registry with one manifest per scenario ID, each stored under
  its own ID and well formed: contracts with non-empty, sorted, compatible reasons, and
  dependencies that a profile of that role may wait for.\<close>

theorem load_dir_registry_wf:
  assumes "load_dir dec marshal sha256_hex globbed impls = Inr r"
  shows "wf_registry r"
  using assms by (rule load_dir_wf)

text \<open>After \<open>ValidateEnabledProfiles\<close> succeeds, whatever an enabled profile of a loaded scenario
  waits for can be published: for \<open>ocsp_published\<close> and \<open>crl_published\<close> an enabled status oracle
  of the right method has a contract, and \<open>staple_published\<close> occurs only where the scenario
  serves a live staple.\<close>

theorem enabled_dependencies_producible:
  assumes "load_dir dec marshal sha256_hex globbed impls = Inr r"
    and "validate_enabled_profiles r enabled = Inr ()"
    and "registry_dependencies (Some r) s name = Some ds"
    and "name \<in> set enabled" and "d \<in> set ds"
  shows "d = EvidenceIssuerAck
    \<or> (d = EvidenceStaplePublished
         \<and> map_option man_stapling (registry_manifest (Some r) s) = Some StaplingOn)
    \<or> (d \<in> {EvidenceOCSPPublished, EvidenceCRLPublished}
         \<and> (\<exists>m pub impl. registry_manifest (Some r) s = Some m \<and> pub \<in> set enabled
         \<and> registry_contract (Some r) s pub \<noteq> None
         \<and> reg_implementations r pub = Some impl \<and> prof_role impl = RoleStatusOracle
         \<and> prof_method impl = (if d = EvidenceOCSPPublished then MethodOCSPDirect else MethodCRL)))"
proof -
  obtain m where m: "map_of (reg_manifests r) s = Some m" "map_of (man_dependencies m) name = Some ds"
    using assms(3) by (auto simp: registry_dependencies_def registry_manifest_def split: option.splits)
  have sm: "(s, m) \<in> set (reg_manifests r)" and nd: "(name, ds) \<in> set (man_dependencies m)"
    using m by (auto dest: map_of_SomeD)
  have "wf_manifest (reg_implementations r) m"
    using load_dir_wf[OF assms(1)] sm by (auto simp: wf_registry_def)
  then have "\<forall>(name, ds) \<in> set (man_dependencies m). \<exists>impl. reg_implementations r name = Some impl
      \<and> valid_dependencies (man_stapling m) (prof_role impl) ds"
    by (simp add: wf_manifest_def)
  from bspec[OF this nd] obtain impl :: profile where
    "valid_dependencies (man_stapling m) (prof_role impl) ds"
    by auto
  then have d: "d \<in> known_evidence" "d = EvidenceStaplePublished \<longrightarrow> man_stapling m = StaplingOn"
    using assms(5) unfolding valid_dependencies_def by blast+
  have "producible r m enabled d"
    using assms(2,4,5) sm m(2) by (auto simp: validate_enabled_Inr)
  have producer: "\<exists>pub impl. pub \<in> set enabled \<and> registry_contract (Some r) s pub \<noteq> None
      \<and> reg_implementations r pub = Some impl \<and> prof_role impl = RoleStatusOracle
      \<and> prof_method impl = meth" if hp: "has_enabled_producer r m enabled meth" for meth
  proof -
    obtain x and impl :: profile where pub: "x \<in> set (man_profiles m)" "fst x \<in> set enabled"
      "reg_implementations r (fst x) = Some impl" "prof_role impl = RoleStatusOracle"
      "prof_method impl = meth"
      using hp unfolding has_enabled_producer_def case_option_False_iff split_beta by blast
    from pub(1) have "map_of (man_profiles m) (fst x) \<noteq> None"
      by (metis map_of_eq_None_iff imageI)
    then have "registry_contract (Some r) s (fst x) \<noteq> None"
      using m(1) by (simp add: registry_contract_def)
    with pub(2-) show ?thesis by blast
  qed
  from d(1) consider "d = EvidenceIssuerAck" | "d = EvidenceOCSPPublished"
    | "d = EvidenceCRLPublished" | "d = EvidenceStaplePublished"
    by (auto simp: known_evidence_def)
  then show ?thesis
  proof cases
    case 2
    with \<open>producible r m enabled d\<close> have "has_enabled_producer r m enabled MethodOCSPDirect"
      by (simp add: producible_def)
    from producer[OF this] 2 m(1) show ?thesis by (auto simp: registry_manifest_def)
  next
    case 3
    with \<open>producible r m enabled d\<close> have "has_enabled_producer r m enabled MethodCRL"
      by (simp add: producible_def)
    from producer[OF this] 3 m(1) show ?thesis by (auto simp: registry_manifest_def)
  qed (use d(2) m(1) in \<open>auto simp: registry_manifest_def\<close>)
qed

subsection \<open>A shipped scenario\<close>

text \<open>\<open>scenarios/revoked-staple-v1.yaml\<close> as the decoder reads it.\<close>

definition reject_policy :: yaml_policy where
  "reject_policy = \<lparr>yp_after = \<lparr>ye_decision = ''REJECT'', ye_reasons = [''REVOKED'',
     ''MISSING_STATUS'', ''INVALID_STATUS'', ''STALE_STATUS'', ''FUTURE_STATUS'', ''UNKNOWN_STATUS'',
     ''MISSING_FRESHNESS_BOUND'']\<rparr>\<rparr>"

definition checking_contract :: "gostring list \<Rightarrow> yaml_profile_contract" where
  "checking_contract reasons = \<lparr>
     yc_baseline = \<lparr>yb_before = \<lparr>ye_decision = ''ACCEPT'', ye_reasons = [''STATUS_GOOD'']\<rparr>,
                    yb_after = \<lparr>ye_decision = ''REJECT'', ye_reasons = reasons\<rparr>\<rparr>,
     yc_policy = reject_policy\<rparr>"

definition blind_contract :: yaml_profile_contract where
  "blind_contract = \<lparr>
     yc_baseline = \<lparr>yb_before = \<lparr>ye_decision = ''ACCEPT'', ye_reasons = [''NO_REVOCATION_CHECK'']\<rparr>,
                    yb_after = \<lparr>ye_decision = ''ACCEPT'', ye_reasons = [''NO_REVOCATION_CHECK'']\<rparr>\<rparr>,
     yc_policy = reject_policy\<rparr>"

definition revoked_staple_doc :: yaml_manifest where
  "revoked_staple_doc = \<lparr>ym_id = ''revoked_staple'', ym_version = 1,
     ym_dependencies = [(''openssl-ocsp-direct'', [EvidenceIssuerAck]),
       (''crl-check'', [EvidenceIssuerAck]), (''curl-cert-status'', [EvidenceStaplePublished]),
       (''go-hardfail-ocsp'', [EvidenceStaplePublished]), (''curl-default'', [EvidenceIssuerAck]),
       (''go-tls-default'', [EvidenceIssuerAck]), (''python-requests'', [EvidenceIssuerAck])],
     ym_profiles = [(''openssl-ocsp-direct'', checking_contract [''REVOKED'']),
       (''crl-check'', checking_contract [''REVOKED'']),
       (''curl-cert-status'', checking_contract [''REVOKED'', ''INVALID_STATUS'']),
       (''go-hardfail-ocsp'', checking_contract [''REVOKED'']), (''curl-default'', blind_contract),
       (''go-tls-default'', blind_contract), (''python-requests'', blind_contract)],
     ym_execution = \<lparr>yx_stapling = StaplingOn\<rparr>\<rparr>"

definition reordered_doc :: yaml_manifest where
  "reordered_doc = revoked_staple_doc\<lparr>ym_profiles := rev (ym_profiles revoked_staple_doc)\<rparr>"

abbreviation shipped_registry :: "scenario_error + registry" where
  "shipped_registry \<equiv> load_dir (\<lambda>_. Inr revoked_staple_doc) ym_id (\<lambda>b. b)
     (Inr [''revoked-staple-v1.yaml'']) standard_profiles"

lemma shipped_enabled:
  "case shipped_registry of Inl _ \<Rightarrow> False
   | Inr r \<Rightarrow> is_ok (validate_enabled_profiles r (map prof_name standard_profiles))
       \<and> registry_dependencies (Some r) ''revoked_staple'' ''go-hardfail-ocsp''
           = Some [EvidenceStaplePublished]"
  by code_simp

lemma shipped_loads: "is_ok shipped_registry"
  using shipped_enabled by (simp add: is_ok_iff split: sum.splits)

theorem load_dir_registry_wf_witness:
  "\<exists>r. shipped_registry = Inr r \<and> wf_registry r"
  using shipped_loads load_dir_registry_wf by (metis is_ok_iff)

theorem build_order_independent_witness:
  "\<exists>m. build ym_id (\<lambda>b. b) reordered_doc (known_profiles standard_profiles) = Inr m
     \<and> man_id m = ''revoked_staple''"
proof -
  have "is_ok (build ym_id (\<lambda>b. b) revoked_staple_doc (known_profiles standard_profiles))"
    by code_simp
  then obtain m where m: "build ym_id (\<lambda>b. b) revoked_staple_doc (known_profiles standard_profiles)
      = Inr m" by (auto simp: is_ok_iff)
  have "list_all2 (\<lambda>(n, v) (n', v'). n = n' \<and> same_contract v v') xs xs"
    for xs :: "(gostring \<times> yaml_profile_contract) list"
    by (rule list_all2_refl) (auto simp: same_contract_def same_expectation_def)
  moreover have "list_all2 (\<lambda>(n, v) (n', v'). n = n' \<and> mset v = mset v') xs xs"
    for xs :: "(gostring \<times> evidence_dependency list) list"
    by (rule list_all2_refl) auto
  moreover have "distinct (map fst (ym_profiles revoked_staple_doc))"
    "distinct (map fst (ym_dependencies revoked_staple_doc))" by code_simp+
  ultimately have "same_document revoked_staple_doc reordered_doc"
    by (auto simp: same_document_def same_map_def reordered_doc_def
        intro!: exI[of _ "ym_profiles revoked_staple_doc"]
          exI[of _ "ym_dependencies revoked_staple_doc"])
  from build_order_independent[OF this m] m show ?thesis
    by (auto simp: build_Inr manifest_of_def Let_def split_beta revoked_staple_doc_def)
qed

theorem enabled_dependencies_producible_witness:
  "\<exists>r. shipped_registry = Inr r
     \<and> map_option man_stapling (registry_manifest (Some r) ''revoked_staple'') = Some StaplingOn"
proof -
  obtain r where r: "shipped_registry = Inr r"
    "validate_enabled_profiles r (map prof_name standard_profiles) = Inr ()"
    "registry_dependencies (Some r) ''revoked_staple'' ''go-hardfail-ocsp''
       = Some [EvidenceStaplePublished]"
    using shipped_enabled by (auto simp: is_ok_iff split: sum.splits)
  have "''go-hardfail-ocsp'' \<in> set (map prof_name standard_profiles)" by code_simp
  from enabled_dependencies_producible[OF r this, of EvidenceStaplePublished] r(1)
  show ?thesis by simp
qed

end
