(* ===== verification/Probe_Laws.thy ===== *)
theory Probe_Laws imports Probes Scenarios
begin

text \<open>
  What a probe's answer means: the evidence each status oracle must have seen before it accepts or
  reports a revocation, the agreement of the oracle with the hard-fail client, and the admissible
  outcomes of every profile.
\<close>

subsection \<open>The certificate under test\<close>

text \<open>\<open>leaf\<close> is what the target presented, and it is the issued certificate.\<close>

definition presents_issued_leaf :: "probe_env \<Rightarrow> target \<Rightarrow> certificate \<Rightarrow> bool" where
  "presents_issued_leaf env tgt leaf \<longleftrightarrow>
     (\<exists>conn rest. env_dial env None (tgt_host tgt) (target_address tgt) = Inr conn
        \<and> conn_is_tls conn \<and> conn_peer_certificates conn = leaf # rest)
     \<and> tgt_issued_leaf_sha256 tgt \<noteq> []
     \<and> equal_fold (env_sha256_hex env (cert_raw leaf)) (tgt_issued_leaf_sha256 tgt)"

lemma verify_presented_leaf_ok:
  "verify_presented_leaf h tgt (Some leaf) = (p, None) \<longleftrightarrow>
     p = h (cert_raw leaf) \<and> tgt_issued_leaf_sha256 tgt \<noteq> []
     \<and> equal_fold (h (cert_raw leaf)) (tgt_issued_leaf_sha256 tgt)"
  by (auto simp: verify_presented_leaf_def Let_def)

lemma verify_presented_leaf_fails:
  "verify_presented_leaf h tgt (Some leaf) = (p, Some e) \<Longrightarrow>
     \<not> (tgt_issued_leaf_sha256 tgt \<noteq> []
        \<and> equal_fold (h (cert_raw leaf)) (tgt_issued_leaf_sha256 tgt))"
  by (auto simp: verify_presented_leaf_def Let_def split: if_splits)

lemma fetch_presented_leaf_ok:
  "fetch_presented_leaf env tgt = (p, Inr leaf) \<longleftrightarrow>
     presents_issued_leaf env tgt leaf \<and> p = env_sha256_hex env (cert_raw leaf)"
  by (auto simp: fetch_presented_leaf_def presents_issued_leaf_def verify_presented_leaf_ok
      dest: verify_presented_leaf_fails
      split: sum.splits list.splits prod.splits option.splits)

lemma fetch_presented_leaf_cases:
  obtains (failed) p e where "fetch_presented_leaf env tgt = (p, Inl e)"
    "\<nexists>leaf. presents_issued_leaf env tgt leaf"
  | (presented) p leaf where "fetch_presented_leaf env tgt = (p, Inr leaf)"
    "presents_issued_leaf env tgt leaf" "\<And>l. presents_issued_leaf env tgt l \<longleftrightarrow> l = leaf"
proof (cases "fetch_presented_leaf env tgt")
  case (Pair p r)
  show ?thesis
  proof (cases r)
    case (Inl e)
    with Pair have "\<nexists>leaf. presents_issued_leaf env tgt leaf"
      by (metis fetch_presented_leaf_ok old.prod.inject sum.distinct(1))
    with Pair Inl show ?thesis by (intro failed) auto
  next
    case (Inr leaf)
    with Pair have leaf: "presents_issued_leaf env tgt leaf"
      by (simp add: fetch_presented_leaf_ok)
    moreover have "presents_issued_leaf env tgt l \<longleftrightarrow> l = leaf" for l
      using leaf by (auto simp: presents_issued_leaf_def)
    ultimately show ?thesis using Pair Inr by (intro presented) auto
  qed
qed

lemma presents_issued_leaf_unique:
  "presents_issued_leaf env tgt l \<Longrightarrow> presents_issued_leaf env tgt l' \<Longrightarrow> l = l'"
  by (auto simp: presents_issued_leaf_def)

subsection \<open>The CRL oracle\<close>

text \<open>\<open>crl\<close> was downloaded, names and is signed by the target's issuer, and is fresh.\<close>

definition authentic_crl :: "probe_env \<Rightarrow> target \<Rightarrow> revocation_list \<Rightarrow> bool" where
  "authentic_crl env tgt crl \<longleftrightarrow>
     (\<exists>body issuer. http_get env (tgt_crl_url tgt) = Inr body \<and> env_parse_crl env body = Inr crl
        \<and> parse_issuer env ''crl-check'' ''parsing'' tgt = Inr issuer
        \<and> env_crl_signed_by env crl issuer
        \<and> validate_crl_issuer (Some crl) (Some issuer) = None)
     \<and> crl_fresh crl (env_now env) (tgt_status_freshness tgt) (tgt_crl_freshness tgt)"

lemma authentic_crl_unique:
  "authentic_crl env tgt c \<Longrightarrow> authentic_crl env tgt c' \<Longrightarrow> c = c'"
  by (auto simp: authentic_crl_def)

lemma find_serial: "find (\<lambda>(serial, _). serial = n) es = map_option (Pair n) (map_of es n)"
  by (induction es) auto

text \<open>With an authentic CRL and the issued leaf the oracle only looks the serial up.\<close>

definition crl_lookup :: "probe_env \<Rightarrow> target \<Rightarrow> certificate \<Rightarrow> revocation_list \<Rightarrow> decision \<times> reason"
where
  "crl_lookup env tgt leaf crl = (case map_of (crl_entries crl) (cert_serial leaf) of
       None \<Rightarrow> (DecisionAccept, ReasonStatusGood)
     | Some t \<Rightarrow> (DecisionReject, case check_revocation_time t (cert_not_before leaf) (env_now env)
                     (tgt_status_freshness tgt) of None \<Rightarrow> ReasonRevoked | Some r \<Rightarrow> r))"

definition outcome :: "probe_result \<Rightarrow> decision \<times> reason" where
  "outcome r = (obs_decision (pr_observation r), obs_reason (pr_observation r))"

lemma outcome_simps [simp]:
  "outcome (probed o') = (obs_decision o', obs_reason o')"
  "outcome (probe_failed o' e) = (obs_decision o', obs_reason o')"
  "outcome (r\<lparr>pr_metrics := ms\<rparr>) = outcome r"
  "outcome (case b of None \<Rightarrow> r1 | Some y \<Rightarrow> r2 y)
     = (case b of None \<Rightarrow> outcome r1 | Some y \<Rightarrow> outcome (r2 y))"
  by (simp_all add: outcome_def split: option.split)

lemma crl_check_authentic:
  assumes "presents_issued_leaf env tgt leaf" and "authentic_crl env tgt crl"
  shows "outcome (crl_check env tgt) = crl_lookup env tgt leaf crl"
proof -
  obtain body issuer where
    crl: "http_get env (tgt_crl_url tgt) = Inr body" "env_parse_crl env body = Inr crl"
      "parse_issuer env ''crl-check'' ''parsing'' tgt = Inr issuer"
      "env_crl_signed_by env crl issuer" "validate_crl_issuer (Some crl) (Some issuer) = None"
      "check_crl_freshness crl (env_now env) (tgt_status_freshness tgt) (tgt_crl_freshness tgt)
         = None"
    using assms(2) by (auto simp: authentic_crl_def check_crl_freshness_None)
  have "fetch_presented_leaf env tgt = (env_sha256_hex env (cert_raw leaf), Inr leaf)"
    using assms(1) by (simp add: fetch_presented_leaf_ok)
  with crl show ?thesis
    by (simp add: crl_check_def Let_def find_serial crl_lookup_def split: option.split)
qed

lemma crl_check_otherwise:
  assumes "\<nexists>leaf crl. presents_issued_leaf env tgt leaf \<and> authentic_crl env tgt crl"
  shows "outcome (crl_check env tgt) \<in> {(DecisionHarnessError, ReasonHarnessFailure),
    (DecisionInconclusive, ReasonNetworkFailure), (DecisionReject, ReasonInvalidStatus),
    (DecisionReject, ReasonFutureStatus), (DecisionReject, ReasonStaleStatus),
    (DecisionReject, ReasonMissingFreshness)}"
proof (cases env tgt rule: fetch_presented_leaf_cases)
  case (failed p e)
  then show ?thesis by (simp add: crl_check_def)
next
  case (presented p leaf)
  then have no_crl: "\<not> authentic_crl env tgt crl" for crl using assms by blast
  show ?thesis
  proof (cases "http_get env (tgt_crl_url tgt)")
    case (Inl e)
    with presented show ?thesis by (simp add: crl_check_def Let_def)
  next
    case body: (Inr body)
    show ?thesis
    proof (cases "env_parse_crl env body")
      case (Inl e)
      with presented body show ?thesis by (simp add: crl_check_def Let_def)
    next
      case crl: (Inr crl)
      show ?thesis
        using no_crl[of crl] presented(1) body crl
        by (auto simp: crl_check_def Let_def authentic_crl_def check_crl_freshness_None[symmetric]
            split: sum.split option.splits
            dest: validate_crl_issuer_reasons check_crl_freshness_reasons)
    qed
  qed
qed

subsection \<open>The OCSP oracle and the hard-fail client\<close>

text \<open>The classification both make of a response to a leaf, up to their status switch.\<close>

definition judge_response ::
  "(ocsp_status \<Rightarrow> decision \<times> reason) \<Rightarrow> probe_env \<Rightarrow> target \<Rightarrow> certificate \<Rightarrow> certificate \<Rightarrow> bytes
   \<Rightarrow> decision \<times> reason" where
  "judge_response switch env tgt leaf issuer der =
     (case env_parse_ocsp env der leaf issuer of
        Inl _ \<Rightarrow> (DecisionReject, ReasonInvalidStatus)
      | Inr resp \<Rightarrow>
        (case validate_ocsp_temporal (Some resp) (Some leaf) (env_now env)
                (tgt_status_freshness tgt) (tgt_ocsp_freshness tgt) of
           Some reason \<Rightarrow> (DecisionReject, reason)
         | None \<Rightarrow> switch (or_status resp)))"

text \<open>The response the oracle fetched, and the one the TLS handshake stapled.\<close>

definition fetched_response :: "probe_env \<Rightarrow> target \<Rightarrow> certificate \<Rightarrow> bytes \<Rightarrow> bool" where
  "fetched_response env tgt leaf der \<longleftrightarrow> der \<noteq> []
     \<and> (\<exists>i c l path err. ocsp_oracle_files env tgt leaf = Inr (i, c, l, path)
          \<and> env_read_file env path = (der, err))"

definition stapled_response :: "probe_env \<Rightarrow> target \<Rightarrow> certificate \<Rightarrow> bytes \<Rightarrow> bool" where
  "stapled_response env tgt leaf staple \<longleftrightarrow> staple \<noteq> []
     \<and> (\<exists>conn rest.
          env_dial env (Some (tgt_ca_chain_pem tgt)) (tgt_host tgt) (target_address tgt) = Inr conn
          \<and> conn_is_tls conn \<and> conn_ocsp_response conn = staple
          \<and> conn_peer_certificates conn = leaf # rest)"

lemma outcome_direct: "outcome (openssl_ocsp_direct env tgt)
    = outcome (openssl_ocsp_direct_steps env tgt)"
  by (simp add: openssl_ocsp_direct_def Let_def)

lemma ocsp_direct_judges:
  assumes "presents_issued_leaf env tgt leaf"
    and "parse_issuer env ''openssl-ocsp-direct'' ''parse'' tgt = Inr issuer"
    and "fetched_response env tgt leaf der"
  shows "outcome (openssl_ocsp_direct env tgt)
    = judge_response ocsp_oracle_decision env tgt leaf issuer der"
proof -
  obtain i c l path err where files: "ocsp_oracle_files env tgt leaf = Inr (i, c, l, path)"
    "env_read_file env path = (der, err)" "der \<noteq> []"
    using assms(3) by (auto simp: fetched_response_def)
  have "fetch_presented_leaf env tgt = (env_sha256_hex env (cert_raw leaf), Inr leaf)"
    using assms(1) by (simp add: fetch_presented_leaf_ok)
  with assms(2) files show ?thesis
    by (simp add: outcome_direct openssl_ocsp_direct_steps_def judge_response_def Let_def
        split: sum.split prod.split option.split)
qed

lemma hardfail_judges:
  assumes "stapled_response env tgt leaf staple"
    and "parse_issuer env ''go-hardfail-ocsp'' ''parsing'' tgt = Inr issuer"
  shows "outcome (go_tls_ocsp env tgt) = judge_response hardfail_decision env tgt leaf issuer staple"
  using assms
  by (auto simp: stapled_response_def go_tls_ocsp_def judge_response_def Let_def
      split: sum.split prod.split option.split)

text \<open>The verified answer about the issued leaf.\<close>

definition fetched_verified :: "probe_env \<Rightarrow> target \<Rightarrow> certificate \<Rightarrow> ocsp_response \<Rightarrow> bool" where
  "fetched_verified env tgt leaf resp \<longleftrightarrow> presents_issued_leaf env tgt leaf
     \<and> (\<exists>issuer der. parse_issuer env ''openssl-ocsp-direct'' ''parse'' tgt = Inr issuer
          \<and> fetched_response env tgt leaf der \<and> env_parse_ocsp env der leaf issuer = Inr resp)
     \<and> ocsp_fresh resp (env_now env) (tgt_status_freshness tgt) (tgt_ocsp_freshness tgt)"

lemma fetched_response_unique:
  "fetched_response env tgt leaf der \<Longrightarrow> fetched_response env tgt leaf der' \<Longrightarrow> der = der'"
  by (auto simp: fetched_response_def)

text \<open>Without such a response neither accepts nor reports a revocation.\<close>

definition no_verdict :: "(decision \<times> reason) set" where
  "no_verdict = {(DecisionHarnessError, ReasonHarnessFailure),
     (DecisionInconclusive, ReasonNetworkFailure), (DecisionInconclusive, ReasonTLSFailure),
     (DecisionReject, ReasonInvalidStatus), (DecisionReject, ReasonMissingStatus)}"

lemma parse_issuer_other:
  "parse_issuer env probe verb tgt = Inr issuer \<Longrightarrow> parse_issuer env probe' verb' tgt = Inr issuer"
  by (auto simp: parse_issuer_def split: option.splits sum.splits)

lemma ocsp_direct_otherwise:
  assumes "\<nexists>leaf issuer der. presents_issued_leaf env tgt leaf
      \<and> parse_issuer env ''openssl-ocsp-direct'' ''parse'' tgt = Inr issuer
      \<and> fetched_response env tgt leaf der"
  shows "outcome (openssl_ocsp_direct env tgt) \<in> no_verdict"
proof (cases env tgt rule: fetch_presented_leaf_cases)
  case (failed p e)
  then show ?thesis by (simp add: outcome_direct openssl_ocsp_direct_steps_def no_verdict_def)
next
  case (presented p leaf)
  show ?thesis
  proof (cases "parse_issuer env ''openssl-ocsp-direct'' ''parse'' tgt")
    case (Inl e)
    with presented show ?thesis
      by (simp add: outcome_direct openssl_ocsp_direct_steps_def no_verdict_def)
  next
    case (Inr issuer)
    then have none: "\<not> fetched_response env tgt leaf der" for der
      using assms presented by blast
    show ?thesis
    proof (cases "ocsp_oracle_files env tgt leaf")
      case (Inl e)
      with presented Inr show ?thesis
        by (simp add: outcome_direct openssl_ocsp_direct_steps_def no_verdict_def)
    next
      case files: (Inr paths)
      obtain i c l path where paths: "paths = (i, c, l, path)" by (cases paths)
      obtain der err where read: "env_read_file env path = (der, err)" by fastforce
      have "der = []" using none[of der] files paths read by (auto simp: fetched_response_def)
      with presented Inr files paths read show ?thesis
        by (simp add: outcome_direct openssl_ocsp_direct_steps_def no_verdict_def Let_def
            split: prod.split)
    qed
  qed
qed

lemma hardfail_otherwise:
  assumes "\<nexists>leaf issuer staple. stapled_response env tgt leaf staple
      \<and> parse_issuer env ''go-hardfail-ocsp'' ''parsing'' tgt = Inr issuer"
  shows "outcome (go_tls_ocsp env tgt) \<in> no_verdict"
proof (cases "env_dial env (Some (tgt_ca_chain_pem tgt)) (tgt_host tgt) (target_address tgt)")
  case (Inl e)
  then show ?thesis by (simp add: go_tls_ocsp_def no_verdict_def Let_def)
next
  case (Inr conn)
  with assms show ?thesis
    by (auto simp: go_tls_ocsp_def no_verdict_def Let_def stapled_response_def
        split: list.split sum.split)
qed

text \<open>A judgement accepts, or reports a revocation, only through the switch.\<close>

lemma judge_fst:
  assumes "d \<noteq> DecisionReject"
  shows "fst (judge_response switch env tgt leaf issuer der) = d \<longleftrightarrow>
    (\<exists>resp. env_parse_ocsp env der leaf issuer = Inr resp
      \<and> ocsp_fresh resp (env_now env) (tgt_status_freshness tgt) (tgt_ocsp_freshness tgt)
      \<and> (or_status resp = OcspRevoked \<longrightarrow> plausible_revocation (or_revoked_at resp)
            (cert_not_before leaf) (env_now env) (tgt_status_freshness tgt))
      \<and> fst (switch (or_status resp)) = d)"
proof (cases "env_parse_ocsp env der leaf issuer")
  case (Inr resp)
  then show ?thesis using assms
    validate_ocsp_temporal_None[of resp leaf "env_now env" "tgt_status_freshness tgt"
      "tgt_ocsp_freshness tgt"]
    by (cases "validate_ocsp_temporal (Some resp) (Some leaf) (env_now env)
          (tgt_status_freshness tgt) (tgt_ocsp_freshness tgt)") (auto simp: judge_response_def)
qed (use assms in \<open>simp add: judge_response_def\<close>)

lemma judge_snd:
  assumes "r \<notin> {ReasonFutureStatus, ReasonMissingFreshness, ReasonStaleStatus, ReasonInvalidStatus}"
  shows "snd (judge_response switch env tgt leaf issuer der) = r \<longleftrightarrow>
    (\<exists>resp. env_parse_ocsp env der leaf issuer = Inr resp
      \<and> ocsp_fresh resp (env_now env) (tgt_status_freshness tgt) (tgt_ocsp_freshness tgt)
      \<and> (or_status resp = OcspRevoked \<longrightarrow> plausible_revocation (or_revoked_at resp)
            (cert_not_before leaf) (env_now env) (tgt_status_freshness tgt))
      \<and> snd (switch (or_status resp)) = r)"
proof (cases "env_parse_ocsp env der leaf issuer")
  case (Inr resp)
  show ?thesis
  proof (cases "validate_ocsp_temporal (Some resp) (Some leaf) (env_now env)
      (tgt_status_freshness tgt) (tgt_ocsp_freshness tgt)")
    case None
    with Inr None[unfolded validate_ocsp_temporal_None] show ?thesis
      by (simp add: judge_response_def)
  next
    case (Some reason)
    then have "\<not> (ocsp_fresh resp (env_now env) (tgt_status_freshness tgt) (tgt_ocsp_freshness tgt)
      \<and> (or_status resp = OcspRevoked \<longrightarrow> plausible_revocation (or_revoked_at resp)
            (cert_not_before leaf) (env_now env) (tgt_status_freshness tgt)))"
      by (metis validate_ocsp_temporal_None option.distinct(1))
    moreover have "reason \<noteq> r" using assms validate_ocsp_temporal_reasons[OF Some] by auto
    ultimately show ?thesis using Inr Some by (auto simp: judge_response_def)
  qed
qed (use assms in \<open>auto simp: judge_response_def\<close>)

lemma switch_verdicts:
  "fst (ocsp_oracle_decision st) = DecisionAccept \<longleftrightarrow> st = OcspGood"
  "snd (ocsp_oracle_decision st) = ReasonRevoked \<longleftrightarrow> st = OcspRevoked"
  "fst (hardfail_decision st) = DecisionAccept \<longleftrightarrow> st \<noteq> OcspRevoked \<and> st \<noteq> OcspUnknown"
  "snd (hardfail_decision st) = ReasonRevoked \<longleftrightarrow> st = OcspRevoked"
  by (cases st; simp add: hardfail_decision_def)+

subsection \<open>Admissible outcomes\<close>

text \<open>The decision and the reason belong together, and the probe returns an error exactly when it
  reports a harness error.\<close>

definition admissible_result :: "probe_result \<Rightarrow> bool" where
  "admissible_result r \<longleftrightarrow> reason_compatible (fst (outcome r)) (snd (outcome r))
     \<and> (pr_error r \<noteq> None \<longleftrightarrow> fst (outcome r) = DecisionHarnessError)"

text \<open>A client that checks no status never rejects and never claims a good status; one that does
  check never claims the absence of a check.\<close>

definition method_honest :: "check_method \<Rightarrow> probe_result \<Rightarrow> bool" where
  "method_honest m r \<longleftrightarrow>
     (if m = MethodNone then fst (outcome r) \<noteq> DecisionReject \<and> snd (outcome r) \<noteq> ReasonStatusGood
      else snd (outcome r) \<noteq> ReasonNoRevocationCheck)"

lemma status_reasons_compatible:
  "validate_ocsp_temporal resp l now st oc = Some reason \<Longrightarrow> reason_compatible DecisionReject reason"
  "check_crl_freshness c now st cr = Some reason \<Longrightarrow> reason_compatible DecisionReject reason"
  "check_revocation_time t nb now st = Some reason \<Longrightarrow> reason_compatible DecisionReject reason"
  "validate_crl_issuer mc mi = Some reason \<Longrightarrow> reason_compatible DecisionReject reason"
  by (auto dest!: validate_ocsp_temporal_reasons check_crl_freshness_reasons
      check_revocation_time_reasons validate_crl_issuer_reasons simp: reason_compatible_def)

lemma compatible_reject: "reason_compatible DecisionReject r \<Longrightarrow> r \<noteq> ReasonNoRevocationCheck"
  by (auto simp: reason_compatible_def)

lemma fixed_outcomes_compatible [simp]:
  "reason_compatible DecisionHarnessError ReasonHarnessFailure"
  "reason_compatible DecisionInconclusive ReasonNetworkFailure"
  "reason_compatible DecisionInconclusive ReasonTLSFailure"
  "reason_compatible DecisionReject ReasonInvalidStatus"
  "reason_compatible DecisionReject ReasonMissingStatus"
  "reason_compatible DecisionReject ReasonUnknownStatus"
  "reason_compatible DecisionReject ReasonRevoked"
  "reason_compatible DecisionAccept ReasonStatusGood"
  "reason_compatible DecisionAccept ReasonNoRevocationCheck"
  by (simp_all add: reason_compatible_def)

definition sound_result :: "check_method \<Rightarrow> probe_result \<Rightarrow> bool" where
  "sound_result m r \<longleftrightarrow> admissible_result r \<and> method_honest m r"

lemma sound_probed:
  "sound_result m (probed o') \<longleftrightarrow> reason_compatible (obs_decision o') (obs_reason o')
     \<and> obs_decision o' \<noteq> DecisionHarnessError
     \<and> (if m = MethodNone then obs_decision o' \<noteq> DecisionReject \<and> obs_reason o' \<noteq> ReasonStatusGood
        else obs_reason o' \<noteq> ReasonNoRevocationCheck)"
  by (simp add: sound_result_def admissible_result_def method_honest_def)

lemma sound_failed:
  "sound_result m (probe_failed o' e) \<longleftrightarrow> reason_compatible (obs_decision o') (obs_reason o')
     \<and> obs_decision o' = DecisionHarnessError"
  by (auto simp: sound_result_def admissible_result_def method_honest_def reason_compatible_def)

lemma sound_metrics: "sound_result m (r\<lparr>pr_metrics := ms\<rparr>) = sound_result m r"
  by (simp add: sound_result_def admissible_result_def method_honest_def outcome_def)

lemma sound_option:
  "sound_result m (case x of None \<Rightarrow> r1 | Some y \<Rightarrow> r2 y) \<longleftrightarrow>
     (x = None \<longrightarrow> sound_result m r1) \<and> (\<forall>y. x = Some y \<longrightarrow> sound_result m (r2 y))"
  by (cases x) auto

lemma evidence_if:
  "obs_decision (if b then o1 else o2) = (if b then obs_decision o1 else obs_decision o2)"
  "obs_reason (if b then o1 else o2) = (if b then obs_reason o1 else obs_reason o2)"
  by simp_all

lemmas sound_simps = sound_probed sound_failed sound_metrics sound_option evidence_if
lemmas sound_dests = status_reasons_compatible status_reasons_compatible[THEN compatible_reject]

lemma crl_check_sound: "sound_result MethodCRL (crl_check env tgt)"
  unfolding crl_check_def Let_def
  by (simp add: sound_simps split: prod.split sum.split) (auto dest: sound_dests)

lemma go_tls_ocsp_sound: "sound_result MethodOCSPStapled (go_tls_ocsp env tgt)"
  unfolding go_tls_ocsp_def Let_def hardfail_decision_def
  by (simp add: sound_simps split: prod.split sum.split list.split) (auto dest: sound_dests)

lemma switch_sound:
  "ocsp_oracle_decision st = (d, r) \<Longrightarrow> reason_compatible d r \<and> d \<noteq> DecisionHarnessError
     \<and> r \<noteq> ReasonNoRevocationCheck"
  by (cases st) auto

lemma openssl_ocsp_direct_sound: "sound_result MethodOCSPDirect (openssl_ocsp_direct env tgt)"
proof -
  have "sound_result MethodOCSPDirect (openssl_ocsp_direct_steps env tgt)"
    unfolding openssl_ocsp_direct_steps_def Let_def
    by (simp add: sound_simps split: prod.split sum.split) (auto dest: sound_dests switch_sound)
  then show ?thesis by (simp add: openssl_ocsp_direct_def Let_def sound_metrics)
qed

lemma classify_curl_sound:
  "classify_curl_cert_status err code failed = (d, r) \<Longrightarrow> reason_compatible d r
     \<and> r \<noteq> ReasonNoRevocationCheck"
  by (auto simp: classify_curl_cert_status_def Let_def split: if_splits)

lemma curl_sound: "sound_result MethodOCSPStapled (curl_cert_status env tgt)"
  unfolding curl_cert_status_def Let_def
  by (simp add: sound_simps split: prod.split sum.split) (auto dest: classify_curl_sound)

lemma blind_clients_sound:
  "sound_result MethodNone (curl_default env tgt)"
  "sound_result MethodNone (go_tls_default env tgt)"
  "sound_result MethodNone (python_requests env tgt)"
  by (auto simp: curl_default_def go_tls_default_def python_requests_def Let_def sound_result_def
      admissible_result_def method_honest_def split: sum.split prod.split)

subsection \<open>Properties\<close>

text \<open>C5: The CRL oracle is exact.  It accepts if and only if the target presented the issued leaf, an
  authentic fresh CRL of the leaf's issuer was downloaded, and the leaf's serial is not on it; it
  reports a revocation if and only if such a CRL lists the serial with a plausible revocation time.
  A stale, future, foreign, unsigned or unparsable CRL never accepts and never counts as a
  revocation.\<close>

theorem crl_oracle_exact:
  "(fst (outcome (crl_check env tgt)) = DecisionAccept \<longleftrightarrow>
      (\<exists>leaf crl. presents_issued_leaf env tgt leaf \<and> authentic_crl env tgt crl
         \<and> map_of (crl_entries crl) (cert_serial leaf) = None))
   \<and> (snd (outcome (crl_check env tgt)) = ReasonRevoked \<longleftrightarrow>
      (\<exists>leaf crl. presents_issued_leaf env tgt leaf \<and> authentic_crl env tgt crl
         \<and> (\<exists>t. map_of (crl_entries crl) (cert_serial leaf) = Some t \<and> plausible_revocation t
               (cert_not_before leaf) (env_now env) (tgt_status_freshness tgt))))"
proof (cases "\<exists>leaf crl. presents_issued_leaf env tgt leaf \<and> authentic_crl env tgt crl")
  case False
  from crl_check_otherwise[OF this] False show ?thesis by auto
next
  case True
  then obtain leaf crl where lc: "presents_issued_leaf env tgt leaf" "authentic_crl env tgt crl"
    by blast
  have only: "(\<exists>l c. presents_issued_leaf env tgt l \<and> authentic_crl env tgt c \<and> P l c) \<longleftrightarrow> P leaf crl"
    for P
    using lc by (metis presents_issued_leaf_unique authentic_crl_unique)
  have "snd (crl_lookup env tgt leaf crl) = ReasonRevoked \<longleftrightarrow>
      (\<exists>t. map_of (crl_entries crl) (cert_serial leaf) = Some t
         \<and> plausible_revocation t (cert_not_before leaf) (env_now env) (tgt_status_freshness tgt))"
    by (auto simp: crl_lookup_def check_revocation_time_None[symmetric]
        dest: check_revocation_time_reasons split: option.split)
  moreover have "fst (crl_lookup env tgt leaf crl) = DecisionAccept \<longleftrightarrow>
      map_of (crl_entries crl) (cert_serial leaf) = None"
    by (simp add: crl_lookup_def split: option.split)
  ultimately show ?thesis unfolding crl_check_authentic[OF lc] only by simp
qed

text \<open>C6: The direct OCSP oracle is exact.  It accepts if and only if the issued leaf was presented
  and the responder's answer parses for that leaf and issuer, is fresh, and says good; it reports a
  revocation if and only if that answer says revoked at a plausible time.\<close>

theorem ocsp_oracle_exact:
  "(fst (outcome (openssl_ocsp_direct env tgt)) = DecisionAccept \<longleftrightarrow>
      (\<exists>leaf resp. fetched_verified env tgt leaf resp \<and> or_status resp = OcspGood))
   \<and> (snd (outcome (openssl_ocsp_direct env tgt)) = ReasonRevoked \<longleftrightarrow>
      (\<exists>leaf resp. fetched_verified env tgt leaf resp \<and> or_status resp = OcspRevoked
         \<and> plausible_revocation (or_revoked_at resp) (cert_not_before leaf) (env_now env)
              (tgt_status_freshness tgt)))"
proof (cases "\<exists>leaf issuer der. presents_issued_leaf env tgt leaf
      \<and> parse_issuer env ''openssl-ocsp-direct'' ''parse'' tgt = Inr issuer
      \<and> fetched_response env tgt leaf der")
  case False
  from ocsp_direct_otherwise[OF this] False show ?thesis
    by (auto simp: no_verdict_def fetched_verified_def)
next
  case True
  then obtain leaf issuer der where lid: "presents_issued_leaf env tgt leaf"
    "parse_issuer env ''openssl-ocsp-direct'' ''parse'' tgt = Inr issuer"
    "fetched_response env tgt leaf der" by blast
  have leaf_iff: "presents_issued_leaf env tgt l \<longleftrightarrow> l = leaf" for l
    using lid(1) presents_issued_leaf_unique by blast
  have der_iff: "fetched_response env tgt leaf d \<longleftrightarrow> d = der" for d
    using lid(3) fetched_response_unique by blast
  have only: "fetched_verified env tgt l r \<longleftrightarrow> l = leaf
      \<and> env_parse_ocsp env der leaf issuer = Inr r
      \<and> ocsp_fresh r (env_now env) (tgt_status_freshness tgt) (tgt_ocsp_freshness tgt)" for l r
    unfolding fetched_verified_def leaf_iff by (auto simp: der_iff lid(2))
  show ?thesis unfolding ocsp_direct_judges[OF lid] only
    by (subst judge_fst, simp, subst judge_snd, simp) (auto simp: switch_verdicts)
qed

text \<open>C39: On one response for the issued leaf, the direct OCSP oracle and the hard-fail TLS client give
  the same decision for the same reason, whatever that is: unparsable, stale, future, implausible,
  revoked, unknown or good.  The one exception is a status outside these three, which the oracle
  rejects as invalid and the client's fall-through accepts.\<close>

theorem oracle_and_hardfail_agree:
  assumes "presents_issued_leaf env tgt leaf"
    and "fetched_response env tgt leaf der" and "stapled_response env tgt leaf der"
    and "parse_issuer env ''go-hardfail-ocsp'' ''parsing'' tgt = Inr issuer"
  shows "outcome (go_tls_ocsp env tgt) = outcome (openssl_ocsp_direct env tgt)
    \<or> (\<exists>resp n. env_parse_ocsp env der leaf issuer = Inr resp \<and> or_status resp = OcspOther n
         \<and> outcome (openssl_ocsp_direct env tgt) = (DecisionReject, ReasonInvalidStatus)
         \<and> outcome (go_tls_ocsp env tgt) = (DecisionAccept, ReasonStatusGood))"
proof -
  have direct: "outcome (openssl_ocsp_direct env tgt)
      = judge_response ocsp_oracle_decision env tgt leaf issuer der"
    using ocsp_direct_judges[OF assms(1) parse_issuer_other[OF assms(4)] assms(2)] .
  show ?thesis
  proof (cases "\<exists>resp n. env_parse_ocsp env der leaf issuer = Inr resp \<and> or_status resp = OcspOther n")
    case True
    then obtain resp n where resp: "env_parse_ocsp env der leaf issuer = Inr resp"
      "or_status resp = OcspOther n" by blast
    then show ?thesis unfolding direct hardfail_judges[OF assms(3,4)]
      by (cases "validate_ocsp_temporal (Some resp) (Some leaf) (env_now env)
            (tgt_status_freshness tgt) (tgt_ocsp_freshness tgt)")
        (auto simp: judge_response_def hardfail_decision_def)
  next
    case False
    have "hardfail_decision st = ocsp_oracle_decision st" if "\<nexists>n. st = OcspOther n" for st
      using that by (cases st) (auto simp: hardfail_decision_def)
    with False show ?thesis unfolding direct hardfail_judges[OF assms(3,4)]
      by (simp add: judge_response_def split: sum.split option.split)
  qed
qed

text \<open>C40: Every registered profile, in every environment and on every target, answers with a decision
  and a reason that belong together, returns an error exactly when its decision is
  \<open>HARNESS_ERROR\<close>, and is honest about its method: a profile that checks no status never rejects
  the certificate, and one that checks never reports an unchecked acceptance.\<close>

theorem registered_probes_sound:
  "list_all (\<lambda>(p, probe). \<forall>env tgt. sound_result (prof_method p) (probe env tgt)) profile_registry"
  by (simp add: profile_registry_def openssl_ocsp_direct_profile_def curl_cert_status_profile_def
      curl_default_profile_def go_tls_default_profile_def go_tls_ocsp_profile_def
      python_requests_profile_def crl_check_profile_def openssl_ocsp_direct_sound curl_sound
      blind_clients_sound go_tls_ocsp_sound crl_check_sound)

subsection \<open>A concrete environment\<close>

definition sample_leaf :: certificate where
  "sample_leaf = \<lparr>cert_raw = ''leaf'', cert_serial = 7, cert_not_before = Instant (1000 * second),
     cert_not_after = Instant (9000 * second), cert_raw_subject = ''CN=canary'',
     cert_subject_key_id = []\<rparr>"

definition sample_issuer :: certificate where
  "sample_issuer = \<lparr>cert_raw = ''issuer'', cert_serial = 1, cert_not_before = Instant second,
     cert_not_after = Instant (90000 * second), cert_raw_subject = ''CN=ca'',
     cert_subject_key_id = []\<rparr>"

definition sample_response :: "ocsp_status \<Rightarrow> ocsp_response" where
  "sample_response st = \<lparr>or_status = st, or_this_update = Instant (1900 * second),
     or_next_update = Instant (3000 * second), or_produced_at = Instant (1900 * second),
     or_revoked_at = Instant (1800 * second)\<rparr>"

definition sample_crl :: revocation_list where
  "sample_crl = \<lparr>crl_this_update = Instant (1900 * second),
     crl_next_update = Instant (3000 * second), crl_raw_issuer = ''CN=ca'',
     crl_authority_key_id = [], crl_entries = [(7, Instant (1800 * second))]\<rparr>"

definition sample_target :: target where
  "sample_target = \<lparr>tgt_host = ''canary'', tgt_connect_host = [], tgt_port = 443,
     tgt_ca_chain_pem = ''chain'', tgt_issuer_pem = ''issuer'', tgt_ocsp_url = ''ocsp'',
     tgt_crl_url = ''crl'', tgt_certificate_serial = ''07'', tgt_issued_leaf_sha256 = ''LEAF'',
     tgt_scenario = ''live'', tgt_status_freshness = \<lparr>max_clock_skew = 0\<rparr>,
     tgt_ocsp_freshness = \<lparr>ocsp_require_next_update = True, max_age_without_next_update = 0\<rparr>,
     tgt_crl_freshness = \<lparr>crl_require_next_update = True, crl_max_age = 0\<rparr>,
     tgt_probe_timeout = second\<rparr>"

definition sample_env :: "ocsp_status \<Rightarrow> probe_env" where
  "sample_env st = \<lparr>env_sha256_hex = (\<lambda>b. b), env_base64 = (\<lambda>b. b), env_quote = (\<lambda>s. s),
     env_error_text = (\<lambda>_. ''error''), env_go_version = ''go1'', env_create_temp = Inr,
     env_write_file = (\<lambda>_ _. None), env_close_file = (\<lambda>_. None),
     env_read_file = (\<lambda>_. (''response'', None)), env_run = (\<lambda>_. ([], [], None)),
     env_ctx_done = False,
     env_dial = (\<lambda>_ _ _. Inr \<lparr>conn_is_tls = True, conn_peer_certificates = [sample_leaf],
        conn_ocsp_response = ''response''\<rparr>),
     env_http = (\<lambda>_. Inr \<lparr>http_status = 200, http_body = ''crl'', http_body_error = None\<rparr>),
     env_pem_decode = Some, env_pem_encode = (\<lambda>b. b),
     env_parse_certificate = (\<lambda>_. Inr sample_issuer),
     env_parse_ocsp = (\<lambda>_ _ _. Inr (sample_response st)),
     env_parse_crl = (\<lambda>_. Inr sample_crl), env_crl_signed_by = (\<lambda>_ _. True),
     env_now = Instant (2000 * second)\<rparr>"

lemma sample_fold: "equal_fold ''leaf'' ''LEAF''"
  by code_simp

lemma sample_presents: "presents_issued_leaf (sample_env st) sample_target sample_leaf"
  using sample_fold
  by (simp add: presents_issued_leaf_def sample_env_def sample_target_def sample_leaf_def)

lemma sample_responses:
  "fetched_response (sample_env st) sample_target sample_leaf ''response''"
  "stapled_response (sample_env st) sample_target sample_leaf ''response''"
  by (simp_all add: fetched_response_def stapled_response_def sample_env_def ocsp_oracle_files_def
      write_temp_def)

lemma sample_parses:
  "parse_issuer (sample_env st) ''go-hardfail-ocsp'' ''parsing'' sample_target = Inr sample_issuer"
  by (simp add: parse_issuer_def sample_env_def sample_target_def)

theorem oracle_and_hardfail_agree_witness:
  "outcome (go_tls_ocsp (sample_env OcspRevoked) sample_target)
     = outcome (openssl_ocsp_direct (sample_env OcspRevoked) sample_target)"
  using oracle_and_hardfail_agree[OF sample_presents sample_responses sample_parses,
      of OcspRevoked]
  by (auto simp: sample_env_def sample_response_def)

end
