(* ===== verification/Executor.thy ===== *)
theory Executor imports Probe_Laws
begin

text \<open>
  \<open>internal/executor/executor.go\<close>: the HTTP API that runs one profile in its own container, and the
  controller's side of it.  JSON coding, URL parsing and the HTTP round trip are parameters;
  \<open>executor_env\<close> holds the environment variables the code reads.
\<close>

record executor_env =
  probe_executor_token :: gostring
  allow_unauthenticated_executor :: gostring
  executor_id_var :: gostring
  executor_allowed_connect_host :: gostring
  executor_allowed_status_host :: gostring

definition required_executor_token :: "executor_env \<Rightarrow> gostring + gostring" where
  "required_executor_token env =
     (let token = trim_space (probe_executor_token env) in
      if token \<noteq> [] then Inr token
      else if allow_unauthenticated_executor env = ''1'' then Inr []
      else Inl ''PROBE_EXECUTOR_TOKEN is required; set ALLOW_UNAUTHENTICATED_EXECUTOR=1 only for an isolated local test'')"

subsection \<open>Strict decoding and the checks of both sides\<close>

abbreviation max_request_bytes :: nat where "max_request_bytes \<equiv> 1048576"

text \<open>\<open>decode\<close> is the decoder's first value with unknown fields disallowed, \<open>trailing\<close> what follows.\<close>

definition decode_strict_json ::
  "(bytes \<Rightarrow> gostring + 'a) \<Rightarrow> (bytes \<Rightarrow> stream_end) \<Rightarrow> bytes \<Rightarrow> gostring option \<Rightarrow> gostring + 'a" where
  "decode_strict_json decode trailing body body_err =
     (case read_limited (max_request_bytes + 1) body body_err of Inl e \<Rightarrow> Inl e
      | Inr contents \<Rightarrow>
        if max_request_bytes < length contents
        then Inl (''json body exceeds '' @ nat_text max_request_bytes @ '' bytes'')
        else let trimmed = trim_space contents in
          if trimmed = [] \<or> hd trimmed \<noteq> CHR ''{'' then Inl ''json body must be an object''
          else (case decode trimmed of Inl e \<Rightarrow> Inl e
            | Inr value \<Rightarrow>
              (case trailing trimmed of
                 AtEOF \<Rightarrow> Inr value
               | AnotherDocument \<Rightarrow> Inl ''json body contains multiple values''
               | TrailingError e \<Rightarrow> Inl (''trailing json data: '' @ e))))"

datatype observation_error = PersistedArtifacts | UnknownObsDecision decision
  | UnknownObsReason reason | InconsistentHarness | HarnessErrorOnClient

definition validate_observation :: "observation \<Rightarrow> observation_error + unit" where
  "validate_observation o' =
     (if ev_artifacts (obs_evidence o') \<noteq> [] then Inl PersistedArtifacts
      else if obs_decision o' \<notin> {DecisionAccept, DecisionReject, DecisionInconclusive,
        DecisionHarnessError} then Inl (UnknownObsDecision (obs_decision o'))
      else if obs_reason o' \<notin> set known_reasons then Inl (UnknownObsReason (obs_reason o'))
      else if (obs_decision o' = DecisionHarnessError) \<noteq> (obs_reason o' = ReasonHarnessFailure)
      then Inl InconsistentHarness
      else if obs_harness_error o' \<noteq> [] \<and> obs_decision o' \<noteq> DecisionHarnessError
      then Inl HarnessErrorOnClient
      else Inr ())"

text \<open>\<open>net/url\<close>'s parse of a URL.\<close>

record parsed_url =
  url_scheme :: gostring
  url_host :: gostring
  url_hostname :: gostring
  url_has_user :: bool
  url_raw_query :: gostring
  url_fragment :: gostring
  url_path :: gostring

datatype target_error = ConnectHostNotAllowed gostring | InvalidStatusURL | StatusHostNotAllowed gostring

definition check_status_url ::
  "executor_env \<Rightarrow> (gostring \<Rightarrow> parsed_url option) \<Rightarrow> gostring \<Rightarrow> target_error + unit" where
  "check_status_url env parse_url raw =
     (case parse_url raw of None \<Rightarrow> Inl InvalidStatusURL
      | Some u \<Rightarrow>
        if url_scheme u \<noteq> ''http'' \<or> url_host u = [] then Inl InvalidStatusURL
        else if executor_allowed_status_host env \<noteq> []
          \<and> url_hostname u \<noteq> executor_allowed_status_host env
        then Inl (StatusHostNotAllowed (url_hostname u))
        else Inr ())"

definition validate_target ::
  "executor_env \<Rightarrow> (gostring \<Rightarrow> parsed_url option) \<Rightarrow> target \<Rightarrow> target_error + unit" where
  "validate_target env parse_url tgt =
     (if executor_allowed_connect_host env \<noteq> []
         \<and> tgt_connect_host tgt \<noteq> executor_allowed_connect_host env
      then Inl (ConnectHostNotAllowed (tgt_connect_host tgt))
      else all_ok (check_status_url env parse_url) [tgt_ocsp_url tgt, tgt_crl_url tgt])"

subsection \<open>The server\<close>

record http_request =
  req_method :: gostring
  req_path :: gostring
  req_authorization :: gostring
  req_body :: bytes
  req_body_error :: "gostring option"

text \<open>A response: the status, and the encoded observation of a 200.  The second component of the
  handler's result is the call it makes of the probe, if any.\<close>

record executor_response =
  resp_status :: nat
  resp_body :: bytes

definition status_only :: "nat \<Rightarrow> executor_response" where
  "status_only n = \<lparr>resp_status = n, resp_body = []\<rparr>"

definition mark_harness_error :: "observation \<Rightarrow> gostring \<Rightarrow> observation" where
  "mark_harness_error o' e = o'\<lparr>obs_decision := DecisionHarnessError,
     obs_reason := ReasonHarnessFailure, obs_harness_error := e\<rparr>"

text \<open>What the server sends for a probe's result: an error turns the observation into a harness error,
  and the executor signs with its name.\<close>

definition sent_observation :: "gostring \<Rightarrow> probe_result \<Rightarrow> observation" where
  "sent_observation executor_id r =
     (let o' = (case pr_error r of None \<Rightarrow> pr_observation r
                | Some e \<Rightarrow> mark_harness_error (pr_observation r) e)
      in o'\<lparr>obs_evidence := (obs_evidence o')\<lparr>ev_executor := executor_id\<rparr>\<rparr>)"

definition probe_handler ::
  "executor_env \<Rightarrow> (gostring \<Rightarrow> parsed_url option) \<Rightarrow> (bytes \<Rightarrow> gostring + target)
   \<Rightarrow> (bytes \<Rightarrow> stream_end) \<Rightarrow> (observation \<Rightarrow> bytes) \<Rightarrow> gostring \<Rightarrow> gostring
   \<Rightarrow> (target \<Rightarrow> probe_result) \<Rightarrow> http_request \<Rightarrow> executor_response \<times> target option" where
  "probe_handler env parse_url decode trailing encode token executor_id probe req =
     (if req_method req \<noteq> ''POST'' then (status_only 405, None)
      else if token \<noteq> [] \<and> req_authorization req \<noteq> ''Bearer '' @ token then (status_only 401, None)
      else case decode_strict_json decode trailing (req_body req) (req_body_error req) of
          Inl _ \<Rightarrow> (status_only 400, None)
        | Inr tgt \<Rightarrow>
          if \<not> is_ok (validate_target env parse_url tgt) then (status_only 403, None)
          else if tgt_probe_timeout tgt \<le> 0 then (status_only 400, None)
          else (\<lparr>resp_status = 200, resp_body = encode (sent_observation executor_id (probe tgt))\<rparr>,
                Some tgt))"

text \<open>The two routes of the server.\<close>

definition executor_mux ::
  "(http_request \<Rightarrow> executor_response \<times> target option) \<Rightarrow> http_request
   \<Rightarrow> executor_response \<times> target option" where
  "executor_mux handler req =
     (if req_path req = ''/healthz'' then (status_only 204, None)
      else if req_path req = ''/v1/probe'' then handler req
      else (status_only 404, None))"

text \<open>\<open>Serve\<close> up to listening: the selected probe, the token and the executor's name.\<close>

definition select_executor ::
  "executor_env \<Rightarrow> gostring
   \<Rightarrow> gostring + (profile \<times> (probe_env \<Rightarrow> target \<Rightarrow> probe_result)) \<times> gostring \<times> gostring" where
  "select_executor env name =
     (case find (\<lambda>(p, _). prof_name p = name) profile_registry of
        None \<Rightarrow> Inl (''unknown executor profile '' @ quote_text name)
      | Some selected \<Rightarrow>
        (case required_executor_token env of
           Inl e \<Rightarrow> Inl (''executor '' @ name @ '': '' @ e)
         | Inr token \<Rightarrow>
           Inr (selected, token, if executor_id_var env = [] then name else executor_id_var env)))"

subsection \<open>The client\<close>

definition zero_observation :: observation where
  "zero_observation = \<lparr>obs_decision = DecisionText [], obs_reason = ReasonText [],
     obs_evidence = no_evidence, obs_harness_error = []\<rparr>"

definition trim_right_slash :: "gostring \<Rightarrow> gostring" where
  "trim_right_slash s = rev (dropWhile (\<lambda>c. c = CHR ''/'') (rev s))"

text \<open>\<open>marshal\<close> encodes the target; \<open>bad_url\<close> is the error of \<open>http.NewRequestWithContext\<close>; \<open>exchange\<close> is the HTTP round trip; \<open>show_err\<close> formats a validation
  error.\<close>

definition remote_probe ::
  "executor_env \<Rightarrow> (target \<Rightarrow> gostring + bytes) \<Rightarrow> (gostring \<Rightarrow> gostring option)
   \<Rightarrow> (gostring \<Rightarrow> http_request \<Rightarrow> gostring + executor_response \<times> gostring option)
   \<Rightarrow> (bytes \<Rightarrow> gostring + observation) \<Rightarrow> (bytes \<Rightarrow> stream_end) \<Rightarrow> (observation_error \<Rightarrow> gostring)
   \<Rightarrow> gostring \<Rightarrow> gostring \<Rightarrow> target \<Rightarrow> probe_result" where
  "remote_probe env marshal bad_url exchange decode trailing show_err name base_url tgt =
     (case marshal tgt of
        Inl e \<Rightarrow> probe_failed zero_observation (''encode executor target: '' @ e)
      | Inr payload \<Rightarrow>
        (case (bad_url (trim_right_slash base_url @ ''/v1/probe''), required_executor_token env) of
           (Some e, _) \<Rightarrow> probe_failed zero_observation (''create executor request: '' @ e)
         | (None, Inl e) \<Rightarrow> probe_failed zero_observation e
         | (None, Inr token) \<Rightarrow>
           let req = \<lparr>req_method = ''POST'', req_path = ''/v1/probe'',
                      req_authorization = (if token \<noteq> [] then ''Bearer '' @ token else []),
                      req_body = payload, req_body_error = None\<rparr>
           in case exchange (trim_right_slash base_url @ ''/v1/probe'') req of
                Inl e \<Rightarrow> probe_failed zero_observation (''call executor '' @ name @ '': '' @ e)
              | Inr (resp, body_err) \<Rightarrow>
                if resp_status resp \<noteq> 200
                then probe_failed zero_observation
                  (''executor '' @ name @ '' returned HTTP '' @ nat_text (resp_status resp))
                else case decode_strict_json decode trailing (resp_body resp) body_err of
                    Inl e \<Rightarrow> probe_failed zero_observation (''decode executor response: '' @ e)
                  | Inr o' \<Rightarrow>
                    (case validate_observation o' of
                       Inl e \<Rightarrow> probe_failed zero_observation
                                  (''invalid executor response: '' @ show_err e)
                     | Inr _ \<Rightarrow>
                       if obs_harness_error o' \<noteq> []
                       then probe_failed o' (''executor '' @ name @ '': '' @ obs_harness_error o')
                       else probed o')))"

subsection \<open>Configuring remote executors\<close>

datatype 'p placed = Local 'p | RemoteAt 'p gostring

fun placed_profile :: "'p placed \<Rightarrow> 'p" where
  "placed_profile (Local p) = p"
| "placed_profile (RemoteAt p url) = p"

datatype remote_error = TokenRequired gostring | EmptyURL gostring | UnknownExecutor gostring

fun place_profiles ::
  "(gostring \<rightharpoonup> gostring) \<Rightarrow> profile list \<Rightarrow> remote_error + profile placed list" where
  "place_profiles urls [] = Inr []"
| "place_profiles urls (p # ps) =
     (case urls (prof_name p) of
        None \<Rightarrow> ok_bind (place_profiles urls ps) (\<lambda>rest. Inr (Local p # rest))
      | Some url \<Rightarrow>
        if url = [] then Inl (EmptyURL (prof_name p))
        else ok_bind (place_profiles urls ps) (\<lambda>rest. Inr (RemoteAt p url # rest)))"

definition apply_remote ::
  "executor_env \<Rightarrow> profile list \<Rightarrow> (gostring \<times> gostring) list
   \<Rightarrow> remote_error + profile placed list" where
  "apply_remote env ps urls =
     ok_bind (case required_executor_token env of
                Inl e \<Rightarrow> if urls \<noteq> [] then Inl (TokenRequired e) else Inr ()
              | Inr _ \<Rightarrow> Inr ()) (\<lambda>_.
     ok_bind (place_profiles (map_of urls) ps) (\<lambda>placed.
     ok_bind (all_ok (\<lambda>(name, _). if name \<notin> prof_name ` set ps then Inl (UnknownExecutor name)
                                 else Inr ()) urls) (\<lambda>_. Inr placed)))"

datatype urls_error = InvalidEntry gostring | DuplicateExecutor gostring | InvalidURL gostring

text \<open>\<open>strings.Cut\<close> at one byte.\<close>

fun cut_at :: "char \<Rightarrow> gostring \<Rightarrow> (gostring \<times> gostring) option" where
  "cut_at sep [] = None"
| "cut_at sep (c # cs) = (if c = sep then Some ([], cs)
     else map_option (\<lambda>(a, b). (c # a, b)) (cut_at sep cs))"

definition acceptable_executor_url :: "parsed_url option \<Rightarrow> bool" where
  "acceptable_executor_url pu = (case pu of None \<Rightarrow> False
     | Some u \<Rightarrow> (url_scheme u = ''http'' \<or> url_scheme u = ''https'') \<and> url_host u \<noteq> []
         \<and> \<not> url_has_user u \<and> url_raw_query u = [] \<and> url_fragment u = []
         \<and> (url_path u = [] \<or> url_path u = ''/''))"

fun parse_entries ::
  "(gostring \<Rightarrow> parsed_url option) \<Rightarrow> (gostring \<times> gostring) list \<Rightarrow> gostring list
   \<Rightarrow> urls_error + (gostring \<times> gostring) list" where
  "parse_entries parse_url acc [] = Inr acc"
| "parse_entries parse_url acc (item # items) =
     (case cut_at (CHR ''='') (trim_space item) of
        None \<Rightarrow> Inl (InvalidEntry item)
      | Some (name, url) \<Rightarrow>
        if trim_space name = [] \<or> trim_space url = [] then Inl (InvalidEntry item)
        else if name \<in> fst ` set acc then Inl (DuplicateExecutor name)
        else if \<not> acceptable_executor_url (parse_url url) then Inl (InvalidURL name)
        else parse_entries parse_url (acc @ [(name, trim_right_slash url)]) items)"

definition parse_urls ::
  "(gostring \<Rightarrow> parsed_url option) \<Rightarrow> gostring \<Rightarrow> urls_error + (gostring \<times> gostring) list" where
  "parse_urls parse_url value =
     (if trim_space value = [] then Inr []
      else parse_entries parse_url [] (split_on (CHR '','') value))"

subsection \<open>What the server runs\<close>

definition status_url_allowed :: "executor_env \<Rightarrow> (gostring \<Rightarrow> parsed_url option) \<Rightarrow> gostring \<Rightarrow> bool"
where
  "status_url_allowed env parse_url raw \<longleftrightarrow> (\<exists>u. parse_url raw = Some u \<and> url_scheme u = ''http''
     \<and> url_host u \<noteq> []
     \<and> (executor_allowed_status_host env = [] \<or> url_hostname u = executor_allowed_status_host env))"

lemma check_status_url_Inr:
  "check_status_url env parse_url raw = Inr () \<longleftrightarrow> status_url_allowed env parse_url raw"
  by (auto simp: check_status_url_def status_url_allowed_def split: option.split)

lemma validate_target_Inr:
  "validate_target env parse_url tgt = Inr () \<longleftrightarrow>
     (executor_allowed_connect_host env = []
       \<or> tgt_connect_host tgt = executor_allowed_connect_host env)
     \<and> status_url_allowed env parse_url (tgt_ocsp_url tgt)
     \<and> status_url_allowed env parse_url (tgt_crl_url tgt)"
  by (auto simp: validate_target_def check_status_url_Inr)

lemma is_ok_unit [simp]: "is_ok (r :: 'e + unit) \<longleftrightarrow> r = Inr ()"
  by (cases r) auto

lemma validate_observation_Inr:
  "validate_observation o' = Inr () \<longleftrightarrow> ev_artifacts (obs_evidence o') = []
     \<and> (\<forall>s. obs_decision o' \<noteq> DecisionText s) \<and> (\<forall>s. obs_reason o' \<noteq> ReasonText s)
     \<and> (obs_decision o' = DecisionHarnessError \<longleftrightarrow> obs_reason o' = ReasonHarnessFailure)
     \<and> (obs_harness_error o' \<noteq> [] \<longrightarrow> obs_decision o' = DecisionHarnessError)"
  by (cases "obs_decision o'"; cases "obs_reason o'")
    (auto simp: validate_observation_def known_reasons_def)

lemma place_profiles_Inr:
  "place_profiles urls ps = Inr placed \<longleftrightarrow> (\<forall>p \<in> set ps. urls (prof_name p) \<noteq> Some [])
     \<and> placed = map (\<lambda>p. case urls (prof_name p) of None \<Rightarrow> Local p | Some u \<Rightarrow> RemoteAt p u) ps"
  by (induction ps arbitrary: placed) (auto split: option.splits)

subsection \<open>The observations of local probes\<close>

text \<open>A local probe reports raw evidence only: no persisted references and no remote error text.\<close>

definition raw_observation :: "observation \<Rightarrow> bool" where
  "raw_observation o' \<longleftrightarrow> ev_artifacts (obs_evidence o') = [] \<and> obs_harness_error o' = []"

lemma raw_evidence [simp]:
  "raw_observation (observe d r)"
  "raw_observation harness_failure"
  "raw_observation (in_process_observation env client d r)"
  "raw_observation (with_command_evidence env o' client out err ce) \<longleftrightarrow> obs_harness_error o' = []"
  "raw_observation (with_binary_evidence env o' nm media contents) = raw_observation o'"
  "raw_observation (with_presented_leaf presented o') = raw_observation o'"
  "obs_harness_error (observe d r) = []"
  by (simp_all add: raw_observation_def observe_def harness_failure_def no_evidence_def
      in_process_observation_def with_command_evidence_def command_evidence_of_def
      with_binary_evidence_def with_presented_leaf_def split_beta)

lemma raw_results [simp]:
  "raw_observation (pr_observation (r\<lparr>pr_metrics := ms\<rparr>)) = raw_observation (pr_observation r)"
  "raw_observation (if b then o1 else o2)
     = (if b then raw_observation o1 else raw_observation o2)"
  "raw_observation (pr_observation (case x of None \<Rightarrow> r1 | Some y \<Rightarrow> r2 y))
     \<longleftrightarrow> (x = None \<longrightarrow> raw_observation (pr_observation r1))
         \<and> (\<forall>y. x = Some y \<longrightarrow> raw_observation (pr_observation (r2 y)))"
  by (auto split: option.split)

lemma probes_raw:
  "raw_observation (pr_observation (openssl_ocsp_direct env tgt))"
  "raw_observation (pr_observation (curl_cert_status env tgt))"
  "raw_observation (pr_observation (curl_default env tgt))"
  "raw_observation (pr_observation (go_tls_default env tgt))"
  "raw_observation (pr_observation (go_tls_ocsp env tgt))"
  "raw_observation (pr_observation (python_requests env tgt))"
  "raw_observation (pr_observation (crl_check env tgt))"
  unfolding openssl_ocsp_direct_def openssl_ocsp_direct_steps_def curl_cert_status_def
    curl_default_def go_tls_default_def go_tls_ocsp_def python_requests_def crl_check_def Let_def
  by (simp split: prod.split sum.split list.split)+

lemma registered_raw:
  "(p, probe) \<in> set profile_registry \<Longrightarrow> raw_observation (pr_observation (probe env tgt))"
  by (auto simp: profile_registry_def probes_raw)

lemma registered_sound:
  "(p, probe) \<in> set profile_registry \<Longrightarrow> sound_result (prof_method p) (probe env tgt)"
  by (auto simp: profile_registry_def openssl_ocsp_direct_profile_def curl_cert_status_profile_def
      curl_default_profile_def go_tls_default_profile_def go_tls_ocsp_profile_def
      python_requests_profile_def crl_check_profile_def openssl_ocsp_direct_sound curl_sound
      blind_clients_sound go_tls_ocsp_sound crl_check_sound)

lemma compatible_known:
  "reason_compatible d r \<Longrightarrow> r \<in> set known_reasons
     \<and> d \<in> {DecisionAccept, DecisionReject, DecisionInconclusive, DecisionHarnessError}
     \<and> (d = DecisionHarnessError \<longleftrightarrow> r = ReasonHarnessFailure)"
  by (auto simp: reason_compatible_def known_reasons_def split: if_splits)

lemma sound_outcomes:
  assumes "sound_result m r" and "pr_error r \<noteq> None"
  shows "obs_decision (pr_observation r) = DecisionHarnessError"
    and "obs_reason (pr_observation r) = ReasonHarnessFailure"
  using assms compatible_known[of "fst (outcome r)" "snd (outcome r)"]
  by (auto simp: sound_result_def admissible_result_def outcome_def)

lemma sent_fields:
  "obs_harness_error (sent_observation x r) = (case pr_error r of
     None \<Rightarrow> obs_harness_error (pr_observation r) | Some e \<Rightarrow> e)"
  "ev_artifacts (obs_evidence (sent_observation x r)) = ev_artifacts (obs_evidence (pr_observation r))"
  by (simp_all add: sent_observation_def mark_harness_error_def Let_def split: option.split)

lemma sent_outcome:
  assumes "sound_result m r"
  shows "obs_decision (sent_observation x r) = obs_decision (pr_observation r)"
    and "obs_reason (sent_observation x r) = obs_reason (pr_observation r)"
  using sound_outcomes[OF assms]
  by (simp_all add: sent_observation_def mark_harness_error_def Let_def split: option.split)

lemma sent_validates:
  assumes "sound_result m r" and "raw_observation (pr_observation r)"
  shows "validate_observation (sent_observation x r) = Inr ()"
proof -
  have "reason_compatible (obs_decision (pr_observation r)) (obs_reason (pr_observation r))"
    using assms(1) by (simp add: sound_result_def admissible_result_def outcome_def)
  from compatible_known[OF this] show ?thesis
    using assms sound_outcomes(1)[OF assms(1)]
    by (auto simp: validate_observation_def sent_fields sent_outcome[OF assms(1)]
        raw_observation_def split: option.splits)
qed

lemma sent_without_error:
  "pr_error r = None \<Longrightarrow> sent_observation x r = (pr_observation r)
     \<lparr>obs_evidence := (obs_evidence (pr_observation r))\<lparr>ev_executor := x\<rparr>\<rparr>"
  by (simp add: sent_observation_def Let_def)

lemma sent_with_error:
  assumes "sound_result m r" and "pr_error r = Some e"
  shows "sent_observation x r = (pr_observation r)
     \<lparr>obs_evidence := (obs_evidence (pr_observation r))\<lparr>ev_executor := x\<rparr>, obs_harness_error := e\<rparr>"
  using sound_outcomes[OF assms(1)] assms(2)
  by (cases "pr_observation r") (simp add: sent_observation_def mark_harness_error_def Let_def)

subsection \<open>Properties\<close>

text \<open>C10: The executor runs its probe exactly for a POST that carries the configured token, decodes
  strictly to a target whose connect host and status hosts are allowed and whose status URLs are
  plain HTTP, with a positive timeout; and it answers 200 exactly when it ran the probe.\<close>

theorem executor_guards:
  "(snd (probe_handler env parse_url decode trailing encode token xid probe req) = Some tgt \<longleftrightarrow>
      req_method req = ''POST'' \<and> (token = [] \<or> req_authorization req = ''Bearer '' @ token)
      \<and> decode_strict_json decode trailing (req_body req) (req_body_error req) = Inr tgt
      \<and> (executor_allowed_connect_host env = []
           \<or> tgt_connect_host tgt = executor_allowed_connect_host env)
      \<and> status_url_allowed env parse_url (tgt_ocsp_url tgt)
      \<and> status_url_allowed env parse_url (tgt_crl_url tgt)
      \<and> 0 < tgt_probe_timeout tgt)
   \<and> (resp_status (fst (probe_handler env parse_url decode trailing encode token xid probe req)) = 200
        \<longleftrightarrow> snd (probe_handler env parse_url decode trailing encode token xid probe req) \<noteq> None)"
  by (auto simp: probe_handler_def status_only_def validate_target_Inr split: sum.split)

text \<open>C35: Running a profile in its own container is transparent.  For every registered profile, when
  the HTTP exchange delivers the request to the executor's handler and its answer back unchanged, the
  controller and the executor share the token, the target is allowed there and the two encodings
  round-trip, then the controller's result is the local one, up to the executor's name: a probe without an
  error gives the very observation, a failed one its observation with its error, which is also the error
  of the result behind the name of the executor; decision and reason are the local ones in any case.\<close>

theorem remote_execution_transparent:
  assumes registered: "(p, probe) \<in> set profile_registry"
    and local: "r = probe penv tgt" "pr_error r \<noteq> Some []"
    and token: "required_executor_token cenv = Inr token"
    and sent: "marshal tgt = Inr payload" "bad_url (trim_right_slash url @ ''/v1/probe'') = None"
    and received: "decode_strict_json dec_t trail_t payload None = Inr tgt"
      "validate_target senv parse_url tgt = Inr ()" "0 < tgt_probe_timeout tgt"
    and http: "exchange = (\<lambda>_ req. Inr (fst (probe_handler senv parse_url dec_t trail_t enc token xid
        (probe penv) req), None))"
    and answer: "decode_strict_json dec_o trail_o (enc (sent_observation xid r)) None
        = Inr (sent_observation xid r)"
  shows "let res = remote_probe cenv marshal bad_url exchange dec_o trail_o show_err name url tgt;
      seen = (pr_observation r)\<lparr>obs_evidence := (obs_evidence (pr_observation r))\<lparr>ev_executor := xid\<rparr>\<rparr>
    in res = (case pr_error r of None \<Rightarrow> probed seen
          | Some e \<Rightarrow> probe_failed (seen\<lparr>obs_harness_error := e\<rparr>) (''executor '' @ name @ '': '' @ e))
      \<and> outcome res = outcome r"
proof -
  have sound: "sound_result (prof_method p) r" and raw: "raw_observation (pr_observation r)"
    using registered_sound[OF registered] registered_raw[OF registered] local(1) by simp_all
  let ?o = "sent_observation xid r"
  have "remote_probe cenv marshal bad_url exchange dec_o trail_o show_err name url tgt =
      (if obs_harness_error ?o \<noteq> []
       then probe_failed ?o (''executor '' @ name @ '': '' @ obs_harness_error ?o) else probed ?o)"
    using token sent received answer http local(1) sent_validates[OF sound raw]
    by (auto simp: remote_probe_def probe_handler_def Let_def)
  moreover have "obs_harness_error ?o = (case pr_error r of None \<Rightarrow> [] | Some e \<Rightarrow> e)"
    using raw by (auto simp: sent_fields raw_observation_def split: option.splits)
  moreover have "outcome (probe_failed ?o e) = outcome r" "outcome (probed ?o) = outcome r" for e
    using sent_outcome[OF sound] by (simp_all add: outcome_def probe_failed_def probed_def)
  ultimately show ?thesis
    using local(2) sent_without_error[of r xid] sent_with_error[OF sound, of _ xid]
    by (cases "pr_error r") (auto simp: Let_def)
qed

definition sample_executor_env :: executor_env where
  "sample_executor_env = \<lparr>probe_executor_token = ''secret'', allow_unauthenticated_executor = [],
     executor_id_var = [], executor_allowed_connect_host = [], executor_allowed_status_host = ''ca''\<rparr>"

definition sample_url :: parsed_url where
  "sample_url = \<lparr>url_scheme = ''http'', url_host = ''ca:80'', url_hostname = ''ca'', url_has_user = False,
     url_raw_query = [], url_fragment = [], url_path = []\<rparr>"

lemma sample_token: "required_executor_token sample_executor_env = Inr ''secret''"
  by code_simp

lemma decode_braces: "trail ''{}'' = AtEOF \<Longrightarrow> dec ''{}'' = Inr v \<Longrightarrow>
    decode_strict_json dec trail ''{}'' None = Inr v"
proof -
  assume d: "trail ''{}'' = AtEOF" "dec ''{}'' = Inr v"
  have "trim_space ''{}'' = ''{}''" by code_simp
  with d show ?thesis by (simp add: decode_strict_json_def read_limited_def Let_def)
qed

theorem remote_execution_transparent_witness:
  "\<exists>dec_o. outcome (remote_probe sample_executor_env (\<lambda>_. Inr ''{}'') (\<lambda>_. None)
      (\<lambda>_ req. Inr (fst (probe_handler sample_executor_env (\<lambda>_. Some sample_url)
         (\<lambda>_. Inr sample_target) (\<lambda>_. AtEOF) (\<lambda>_. ''{}'') ''secret'' ''x''
         (go_tls_default (sample_env OcspGood)) req), None))
      dec_o (\<lambda>_. AtEOF) (\<lambda>_. ''invalid'') ''go-tls-default'' ''http://x'' sample_target)
    = (DecisionAccept, ReasonNoRevocationCheck)"
proof -
  let ?r = "go_tls_default (sample_env OcspGood) sample_target"
  have r: "pr_error ?r \<noteq> Some []" "outcome ?r = (DecisionAccept, ReasonNoRevocationCheck)"
    by (simp_all add: go_tls_default_def sample_env_def)
  have registered: "(go_tls_default_profile, go_tls_default) \<in> set profile_registry"
    by (simp add: profile_registry_def)
  have target: "validate_target sample_executor_env (\<lambda>_. Some sample_url) sample_target = Inr ()"
    "0 < tgt_probe_timeout sample_target"
    by (simp_all add: validate_target_Inr status_url_allowed_def sample_url_def
        sample_executor_env_def sample_target_def)
  have answer: "decode_strict_json (\<lambda>_. Inr (sent_observation ''x'' ?r)) (\<lambda>_. AtEOF)
      ((\<lambda>_. ''{}'') (sent_observation ''x'' ?r)) None = Inr (sent_observation ''x'' ?r)"
    by (simp add: decode_braces)
  show ?thesis
    by (rule exI, rule trans, rule conjunct2, rule remote_execution_transparent[unfolded Let_def, OF registered refl
          r(1) sample_token refl refl decode_braces[OF refl refl] target refl answer], rule r(2))
qed

text \<open>Configuring remote executors either fails or places every profile, in order, at exactly the
  executor configured for it: no configured profile falls back to local execution, none is placed
  without a token decision, and no entry names an unknown profile or an empty URL.\<close>

theorem apply_remote_exact:
  "apply_remote env ps urls = Inr placed \<longleftrightarrow>
     (urls = [] \<or> is_ok (required_executor_token env))
     \<and> fst ` set urls \<subseteq> prof_name ` set ps
     \<and> (\<nexists>p. p \<in> set ps \<and> map_of urls (prof_name p) = Some [])
     \<and> placed = map (\<lambda>p. case map_of urls (prof_name p) of
          None \<Rightarrow> Local p | Some url \<Rightarrow> RemoteAt p url) ps"
proof -
  have "(case required_executor_token env of Inl e \<Rightarrow> if urls \<noteq> [] then Inl (TokenRequired e) else Inr ()
      | Inr _ \<Rightarrow> Inr ()) = Inr () \<longleftrightarrow> urls = [] \<or> is_ok (required_executor_token env)"
    by (cases "required_executor_token env") auto
  moreover have "(\<forall>x \<in> set urls. (if fst x \<notin> prof_name ` set ps
      then Inl (UnknownExecutor (fst x)) else Inr ()) = Inr ()) \<longleftrightarrow> fst ` set urls \<subseteq> prof_name ` set ps"
    by (auto split: if_splits)
  ultimately show ?thesis
    unfolding apply_remote_def ok_bind_eq_Inr all_ok_Inr place_profiles_Inr split_beta by auto
qed

end
