(* ===== verification/Effects.thy ===== *)
theory Effects imports Prelude
begin

text \<open>
  Operations with a state and an error: a Go function that works on shared state and returns an
  error.  Unlike a transaction, a failed operation keeps the state it has reached.
\<close>

type_synonym ('s, 'e, 'a) op = "'s \<Rightarrow> ('e + 'a) \<times> 's"

definition op_return :: "'a \<Rightarrow> ('s, 'e, 'a) op" where
  "op_return x = (\<lambda>s. (Inr x, s))"

definition op_fail :: "'e \<Rightarrow> ('s, 'e, 'a) op" where
  "op_fail e = (\<lambda>s. (Inl e, s))"

definition op_bind :: "('s, 'e, 'a) op \<Rightarrow> ('a \<Rightarrow> ('s, 'e, 'b) op) \<Rightarrow> ('s, 'e, 'b) op" where
  "op_bind m k = (\<lambda>s. case m s of (Inl e, s') \<Rightarrow> (Inl e, s') | (Inr x, s') \<Rightarrow> k x s')"

text \<open>\<open>op_on_error m c\<close>: on an error of \<open>m\<close>, run \<open>c\<close> and keep \<open>m\<close>'s error; \<open>op_ignore\<close> drops the error
  (\<open>_ = f()\<close>); \<open>op_wrap\<close> rewrites it.\<close>

definition op_on_error :: "('s, 'e, 'a) op \<Rightarrow> ('s, 'e, unit) op \<Rightarrow> ('s, 'e, 'a) op" where
  "op_on_error m c = (\<lambda>s. case m s of (Inl e, s') \<Rightarrow> (Inl e, snd (c s')) | r \<Rightarrow> r)"

definition op_ignore :: "('s, 'e, 'a) op \<Rightarrow> ('s, 'e, unit) op" where
  "op_ignore m = (\<lambda>s. (Inr (), snd (m s)))"

definition op_wrap :: "('e \<Rightarrow> 'f) \<Rightarrow> ('s, 'e, 'a) op \<Rightarrow> ('s, 'f, 'a) op" where
  "op_wrap f m = (\<lambda>s. case m s of (Inl e, s') \<Rightarrow> (Inl (f e), s') | (Inr x, s') \<Rightarrow> (Inr x, s'))"

definition op_of :: "'e + 'a \<Rightarrow> ('s, 'e, 'a) op" where
  "op_of r = (\<lambda>s. (r, s))"

text \<open>\<open>op_finally m c\<close>: a deferred call, whose error is dropped.\<close>

definition op_finally :: "('s, 'e, 'a) op \<Rightarrow> ('s, 'e, unit) op \<Rightarrow> ('s, 'e, 'a) op" where
  "op_finally m c = (\<lambda>s. case m s of (r, s') \<Rightarrow> (r, snd (c s')))"

text \<open>A \<open>for range\<close> loop with an early return.\<close>

fun op_each :: "('x \<Rightarrow> ('s, 'e, unit) op) \<Rightarrow> 'x list \<Rightarrow> ('s, 'e, unit) op" where
  "op_each f [] = op_return ()"
| "op_each f (x # xs) = op_bind (f x) (\<lambda>_. op_each f xs)"

text \<open>An operation on a part of the state.\<close>

definition op_snd :: "('s, 'e, 'a) op \<Rightarrow> ('t \<times> 's, 'e, 'a) op" where
  "op_snd m = (\<lambda>(t, s). case m s of (r, s') \<Rightarrow> (r, t, s'))"

subsection \<open>Successful runs\<close>

definition runs :: "('s, 'e, 'a) op \<Rightarrow> 's \<Rightarrow> 'a \<Rightarrow> 's \<Rightarrow> bool" where
  "runs m s x s' \<longleftrightarrow> m s = (Inr x, s')"

lemma runs_return [simp]: "runs (op_return x) s y s' \<longleftrightarrow> y = x \<and> s' = s"
  by (auto simp: runs_def op_return_def)

lemma runs_fail [simp]: "\<not> runs (op_fail e) s y s'"
  by (simp add: runs_def op_fail_def)

lemma runs_bind [simp]:
  "runs (op_bind m k) s y s' \<longleftrightarrow> (\<exists>x s1. runs m s x s1 \<and> runs (k x) s1 y s')"
  by (auto simp: runs_def op_bind_def split: prod.splits sum.splits)

lemma runs_on_error [simp]: "runs (op_on_error m c) s y s' = runs m s y s'"
  by (auto simp: runs_def op_on_error_def split: prod.splits sum.splits)

lemma runs_wrap [simp]: "runs (op_wrap f m) s y s' = runs m s y s'"
  by (auto simp: runs_def op_wrap_def split: prod.splits sum.splits)

lemma runs_finally [simp]: "runs (op_finally m c) s y s' \<longleftrightarrow> (\<exists>s1. runs m s y s1 \<and> s' = snd (c s1))"
  by (auto simp: runs_def op_finally_def split: prod.splits)

lemma runs_of [simp]: "runs (op_of r) s y s' \<longleftrightarrow> r = Inr y \<and> s' = s"
  by (auto simp: runs_def op_of_def)

lemma runs_snd [simp]: "runs (op_snd m) (t, s) y ts' \<longleftrightarrow> (\<exists>s'. ts' = (t, s') \<and> runs m s y s')"
  by (auto simp: runs_def op_snd_def split: prod.splits)

subsection \<open>Relations every run respects\<close>

text \<open>\<open>preserves R m\<close>: whatever happens, the state after \<open>m\<close> is related to the state before.\<close>

definition preserves :: "('s \<Rightarrow> 's \<Rightarrow> bool) \<Rightarrow> ('s, 'e, 'a) op \<Rightarrow> bool" where
  "preserves R m \<longleftrightarrow> (\<forall>s. R s (snd (m s)))"

lemma preservesD: "preserves R m \<Longrightarrow> m s = (r, s') \<Longrightarrow> R s s'"
  unfolding preserves_def by (metis snd_conv)

lemma preserves_runs: "preserves R m \<Longrightarrow> runs m s x s' \<Longrightarrow> R s s'"
  by (auto simp: runs_def dest: preservesD)

locale run_relation =
  fixes R :: "'s \<Rightarrow> 's \<Rightarrow> bool"
  assumes refl: "R s s" and trans: "R s t \<Longrightarrow> R t u \<Longrightarrow> R s u"
begin

lemma keep_return: "preserves R (op_return x)"
  by (simp add: preserves_def op_return_def refl)

lemma keep_fail: "preserves R (op_fail e)"
  by (simp add: preserves_def op_fail_def refl)

lemma keep_of: "preserves R (op_of r)"
  by (simp add: preserves_def op_of_def refl)

lemma keep_bind: "preserves R m \<Longrightarrow> (\<And>x. preserves R (k x)) \<Longrightarrow> preserves R (op_bind m k)"
  unfolding preserves_def op_bind_def by (auto split: prod.split sum.split) (metis snd_conv trans)+

lemma keep_on_error: "preserves R m \<Longrightarrow> preserves R c \<Longrightarrow> preserves R (op_on_error m c)"
  unfolding preserves_def op_on_error_def by (auto split: prod.split sum.split) (metis snd_conv trans)+

lemma keep_ignore: "preserves R m \<Longrightarrow> preserves R (op_ignore m)"
  by (simp add: preserves_def op_ignore_def)

lemma keep_wrap: "preserves R m \<Longrightarrow> preserves R (op_wrap f m)"
  unfolding preserves_def op_wrap_def by (auto split: prod.split sum.split) (metis snd_conv)+

lemma keep_finally: "preserves R m \<Longrightarrow> preserves R c \<Longrightarrow> preserves R (op_finally m c)"
  unfolding preserves_def op_finally_def by (auto split: prod.split) (metis snd_conv trans)+

lemma keep_each: "(\<And>x. preserves R (f x)) \<Longrightarrow> preserves R (op_each f xs)"
  by (induction xs) (simp_all add: keep_return keep_bind)

lemma keep_if: "(b \<Longrightarrow> preserves R m) \<Longrightarrow> (\<not> b \<Longrightarrow> preserves R m') \<Longrightarrow> preserves R (if b then m else m')"
  by simp

lemma keep_sum: "(\<And>e. preserves R (f e)) \<Longrightarrow> (\<And>x. preserves R (g x)) \<Longrightarrow>
    preserves R (case r of Inl e \<Rightarrow> f e | Inr x \<Rightarrow> g x)"
  by (cases r) auto

lemma keep_option: "preserves R m \<Longrightarrow> (\<And>x. preserves R (g x)) \<Longrightarrow>
    preserves R (case r of None \<Rightarrow> m | Some x \<Rightarrow> g x)"
  by (cases r) auto

lemmas keep_intros = keep_return keep_fail keep_of keep_bind keep_on_error keep_ignore keep_wrap keep_finally
  keep_each keep_if keep_sum keep_option

end

subsection \<open>Operations with two exits\<close>

text \<open>\<open>exits N E m\<close>: a normal return relates the states by \<open>N\<close>, an early return with \<open>e\<close> by \<open>E e\<close>.\<close>

definition exits :: "('s \<Rightarrow> 's \<Rightarrow> bool) \<Rightarrow> ('e \<Rightarrow> 's \<Rightarrow> 's \<Rightarrow> bool) \<Rightarrow> ('s, 'e, 'a) op \<Rightarrow> bool" where
  "exits N E m \<longleftrightarrow> (\<forall>s. case m s of (Inl e, s') \<Rightarrow> E e s s' | (Inr x, s') \<Rightarrow> N s s')"

lemma exitsD:
  "exits N E m \<Longrightarrow> m s = (Inl e, s') \<Longrightarrow> E e s s'"
  "exits N E m \<Longrightarrow> m s = (Inr x, s') \<Longrightarrow> N s s'"
  unfolding exits_def by (metis (mono_tags) case_prod_conv sum.case(1), metis (mono_tags) case_prod_conv sum.case(2))

lemma exits_runs: "exits N E m \<Longrightarrow> runs m s x s' \<Longrightarrow> N s s'"
  by (auto simp: runs_def dest: exitsD)

locale exit_relations =
  fixes N :: "'s \<Rightarrow> 's \<Rightarrow> bool" and E :: "'e \<Rightarrow> 's \<Rightarrow> 's \<Rightarrow> bool"
  assumes N_refl: "N s s" and N_trans: "N s t \<Longrightarrow> N t u \<Longrightarrow> N s u"
    and E_after: "N s t \<Longrightarrow> E e t u \<Longrightarrow> E e s u"
begin

lemma exit_return: "exits N E (op_return x)"
  by (simp add: exits_def op_return_def N_refl)

lemma exit_bind: "exits N E m \<Longrightarrow> (\<And>x. exits N E (k x)) \<Longrightarrow> exits N E (op_bind m k)"
  unfolding exits_def op_bind_def
  by (fastforce split: prod.splits sum.splits intro: N_trans E_after)

lemma exit_if: "(b \<Longrightarrow> exits N E m) \<Longrightarrow> (\<not> b \<Longrightarrow> exits N E m') \<Longrightarrow> exits N E (if b then m else m')"
  by simp

lemma exit_sum: "(\<And>e. exits N E (f e)) \<Longrightarrow> (\<And>x. exits N E (g x)) \<Longrightarrow>
    exits N E (case r of Inl e \<Rightarrow> f e | Inr x \<Rightarrow> g x)"
  by (cases r) auto

lemma exit_option: "exits N E m \<Longrightarrow> (\<And>x. exits N E (g x)) \<Longrightarrow>
    exits N E (case r of None \<Rightarrow> m | Some x \<Rightarrow> g x)"
  by (cases r) auto

lemma exit_prod: "(\<And>x y. exits N E (f x y)) \<Longrightarrow> exits N E (case p of (x, y) \<Rightarrow> f x y)"
  by (cases p) auto

lemmas exit_intros = exit_return exit_bind exit_if exit_sum exit_option exit_prod

end

end
