(* ===== verification/Paths.thy ===== *)
theory Paths imports Go_Strings
begin

text \<open>
  Lexical path processing: \<open>path/filepath\<close> on Unix as far as the evidence store uses it (\<open>Clean\<close>, \<open>Join\<close>,
  \<open>Dir\<close>, \<open>Base\<close>), and the store's own \<open>cleanEvidenceRelativePath\<close> and \<open>safeArtifactName\<close> of
  \<open>internal/runner/evidence.go\<close>.
\<close>

abbreviation slash :: char where "slash \<equiv> CHR ''/''"

subsection \<open>filepath\<close>

definition is_abs :: "gostring \<Rightarrow> bool" where
  "is_abs p \<longleftrightarrow> p \<noteq> [] \<and> hd p = slash"

text \<open>One component of \<open>Clean\<close>; \<open>out\<close> holds the components kept so far, last first.\<close>

definition clean_component :: "bool \<Rightarrow> gostring \<Rightarrow> gostring list \<Rightarrow> gostring list" where
  "clean_component rooted w out =
     (if w = [] \<or> w = ''.'' then out
      else if w = ''..'' then
        (if out \<noteq> [] \<and> hd out \<noteq> ''..'' then tl out
         else if rooted then out else ''..'' # out)
      else w # out)"

definition clean_components :: "gostring \<Rightarrow> gostring list" where
  "clean_components p = rev (fold (clean_component (is_abs p)) (split_on slash p) [])"

definition clean :: "gostring \<Rightarrow> gostring" where
  "clean p = (let body = join_with [slash] (clean_components p) in
     if is_abs p then slash # body else if body = [] then ''.'' else body)"

definition join_paths :: "gostring list \<Rightarrow> gostring" where
  "join_paths ps = (let nonempty = filter (\<lambda>p. p \<noteq> []) ps in
     if nonempty = [] then [] else clean (join_with [slash] nonempty))"

definition up_to_last_slash :: "gostring \<Rightarrow> gostring" where
  "up_to_last_slash p = rev (dropWhile (\<lambda>c. c \<noteq> slash) (rev p))"

definition path_dir :: "gostring \<Rightarrow> gostring" where
  "path_dir p = clean (up_to_last_slash p)"

definition path_base :: "gostring \<Rightarrow> gostring" where
  "path_base p =
     (if p = [] then ''.''
      else let stripped = rev (dropWhile (\<lambda>c. c = slash) (rev p));
               name = rev (takeWhile (\<lambda>c. c \<noteq> slash) (rev stripped))
           in if name = [] then ''/'' else name)"

subsection \<open>The evidence store's names\<close>

definition clean_evidence_relative_path :: "gostring \<Rightarrow> gostring + gostring" where
  "clean_evidence_relative_path p =
     (let cleaned = clean p in
      if is_abs cleaned \<or> cleaned = ''..'' \<or> prefix ''../'' cleaned
      then Inl (''evidence path '' @ quote_text p @ '' escapes evidence root'')
      else Inr cleaned)"

text \<open>\<open>strings.ReplaceAll(name, "..", "_")\<close>.\<close>

fun replace_dots :: "gostring \<Rightarrow> gostring" where
  "replace_dots (a # b # cs) =
     (if a = CHR ''.'' \<and> b = CHR ''.'' then CHR ''_'' # replace_dots cs
      else a # replace_dots (b # cs))"
| "replace_dots s = s"

definition safe_artifact_name :: "gostring \<Rightarrow> gostring" where
  "safe_artifact_name name = (let n = replace_dots (path_base name) in
     if n = ''.'' \<or> n = [] then ''artifact'' else n)"

subsection \<open>Clean paths\<close>

definition plain_component :: "gostring \<Rightarrow> bool" where
  "plain_component w \<longleftrightarrow> w \<noteq> [] \<and> w \<noteq> ''.'' \<and> w \<noteq> ''..'' \<and> slash \<notin> set w"

text \<open>The kept components: some \<open>..\<close> that lead out, then plain ones; none lead out of a rooted path.\<close>

definition climbing :: "gostring list \<Rightarrow> bool" where
  "climbing out \<longleftrightarrow> (\<exists>ws k. out = ws @ replicate k ''..'' \<and> list_all plain_component ws)"

lemma climbing_component:
  assumes "climbing out" and "slash \<notin> set w"
  shows "climbing (clean_component rooted w out)"
proof -
  obtain ws k where out: "out = ws @ replicate k ''..''" "list_all plain_component ws"
    using assms(1) by (auto simp: climbing_def)
  consider "w = [] \<or> w = ''.''" | "w = ''..''" "ws = []" | v vs where "w = ''..''" "ws = v # vs"
    | "plain_component w"
    using assms(2) by (cases ws) (auto simp: plain_component_def)
  then show ?thesis
  proof cases
    case 1
    then show ?thesis using assms(1) by (simp add: clean_component_def)
  next
    case 2
    have "clean_component rooted w out = out \<or> clean_component rooted w out = replicate (Suc k) ''..''"
      using 2 out by (cases k) (auto simp: clean_component_def)
    moreover have "climbing (replicate n ''..'')" for n
      unfolding climbing_def by (intro exI[of _ "[]"] exI[of _ n]) simp
    ultimately show ?thesis using assms(1) by metis
  next
    case (3 v vs)
    then have "clean_component rooted w out = vs @ replicate k ''..''"
      using out by (simp add: clean_component_def plain_component_def)
    with 3 out show ?thesis by (auto simp: climbing_def)
  next
    case 4
    then have "clean_component rooted w out = (w # ws) @ replicate k ''..''"
      using out by (simp add: clean_component_def plain_component_def)
    moreover have "list_all plain_component (w # ws)" using 4 out by simp
    ultimately show ?thesis unfolding climbing_def by blast
  qed
qed

lemma climbing_fold:
  "climbing out \<Longrightarrow> \<forall>w \<in> set cs. slash \<notin> set w \<Longrightarrow> climbing (fold (clean_component rooted) cs out)"
  by (induction cs arbitrary: out) (auto intro: climbing_component)

lemma clean_components_shape:
  "\<exists>k ws. clean_components p = replicate k ''..'' @ ws \<and> list_all plain_component ws"
proof -
  have "climbing []" by (auto simp: climbing_def)
  then have "climbing (fold (clean_component (is_abs p)) (split_on slash p) [])"
    by (rule climbing_fold) (simp add: split_on_parts)
  then obtain ws k where "fold (clean_component (is_abs p)) (split_on slash p) [] = ws @ replicate k ''..''"
    "list_all plain_component ws" by (auto simp: climbing_def)
  then have "clean_components p = replicate k ''..'' @ rev ws" "list_all plain_component (rev ws)"
    by (simp_all add: clean_components_def list_all_rev)
  then show ?thesis by blast
qed

lemma join_with_two: "ws \<noteq> [] \<Longrightarrow> join_with sep (w # ws) = w @ sep @ join_with sep ws"
  by (cases ws) auto

text \<open>A path that the evidence store accepts stays inside: it is the root itself or a sequence of plain
  components, none of which is empty, a dot or a double dot.\<close>

lemma confined_components:
  assumes "clean_evidence_relative_path p = Inr q"
  shows "q = ''.'' \<or> (q = join_with [slash] (clean_components p) \<and> clean_components p \<noteq> []
    \<and> list_all plain_component (clean_components p))"
proof -
  have q: "q = clean p" "\<not> is_abs q" "q \<noteq> ''..''" "\<not> prefix ''../'' q"
    using assms by (auto simp: clean_evidence_relative_path_def Let_def split: if_splits)
  have "\<not> is_abs p" using q by (auto simp: clean_def is_abs_def Let_def split: if_splits)
  then have body: "q = (if join_with [slash] (clean_components p) = [] then ''.''
      else join_with [slash] (clean_components p))" using q(1) by (simp add: clean_def Let_def)
  obtain k ws where shape: "clean_components p = replicate k ''..'' @ ws" "list_all plain_component ws"
    using clean_components_shape by blast
  show ?thesis
  proof (cases k)
    case 0
    then show ?thesis using body shape by (cases "clean_components p = []") auto
  next
    case (Suc j)
    show ?thesis
    proof (cases "replicate j ''..'' @ ws = []")
      case True
      then show ?thesis using Suc shape body q(3) by simp
    next
      case False
      then have "join_with [slash] (clean_components p)
          = ''..'' @ [slash] @ join_with [slash] (replicate j ''..'' @ ws)"
        using Suc shape by (simp add: join_with_two)
      then have "prefix ''../'' q" using body by simp
      with q(4) show ?thesis by contradiction
    qed
  qed
qed

lemma confined_split:
  assumes "clean_evidence_relative_path p = Inr q" and "q \<noteq> ''.''"
  shows "list_all plain_component (split_on slash q)"
proof -
  have c: "q = join_with [slash] (clean_components p)" "clean_components p \<noteq> []"
    "list_all plain_component (clean_components p)"
    using confined_components[OF assms(1)] assms(2) by auto
  have "split_on slash q = clean_components p"
    unfolding c(1) by (rule split_join[OF c(2)]) (use c(3) in \<open>auto simp: list_all_iff plain_component_def\<close>)
  with c(3) show ?thesis by simp
qed

text \<open>Plain components are already clean, and joining extends them.\<close>

lemma fold_clean_plain:
  "list_all plain_component ws \<Longrightarrow> fold (clean_component rooted) ws out = rev ws @ out"
  by (induction ws arbitrary: out) (auto simp: clean_component_def plain_component_def)

lemma split_plain: "ws \<noteq> [] \<Longrightarrow> list_all plain_component ws \<Longrightarrow>
    split_on slash (join_with [slash] ws) = ws"
  by (rule split_join) (auto simp: list_all_iff plain_component_def)

lemma plain_hd: "ws \<noteq> [] \<Longrightarrow> list_all plain_component ws \<Longrightarrow>
    join_with [slash] ws \<noteq> [] \<and> hd (join_with [slash] ws) \<noteq> slash"
  by (cases ws; cases "hd ws"; cases "tl ws") (auto simp: plain_component_def)

lemma clean_plain:
  assumes "ws \<noteq> []" and "list_all plain_component ws"
  shows "clean (join_with [slash] ws) = join_with [slash] ws"
  using plain_hd[OF assms] split_plain[OF assms] assms(2)
  by (simp add: clean_def clean_components_def is_abs_def fold_clean_plain Let_def)

lemma join_with_snoc: "ws \<noteq> [] \<Longrightarrow> join_with sep (ws @ [c]) = join_with sep ws @ sep @ c"
  by (induction sep ws rule: join_with.induct) auto

lemma join_paths_plain:
  assumes "ws \<noteq> []" and "list_all plain_component (ws @ [c])"
  shows "join_paths [join_with [slash] ws, c] = join_with [slash] (ws @ [c])"
proof -
  have "c \<noteq> []" "join_with [slash] ws \<noteq> []"
    using assms plain_hd[OF assms(1)] by (auto simp: plain_component_def)
  then show ?thesis using clean_plain[OF _ assms(2)] assms(1)
    by (simp add: join_paths_def join_with_snoc)
qed

subsection \<open>Artifact names\<close>

lemma replace_dots_set: "set (replace_dots s) \<subseteq> insert (CHR ''_'') (set s)"
  by (induction s rule: replace_dots.induct) auto

lemma replace_dots_no_dots: "\<not> sublist ''..'' (replace_dots s)"
proof (induction s rule: replace_dots.induct)
  case (1 a b cs)
  show ?case
  proof (cases "a = CHR ''.'' \<and> b = CHR ''.''")
    case True
    with 1 show ?thesis by (auto simp: sublist_Cons_right)
  next
    case False
    have "\<exists>d ds. replace_dots (b # cs) = d # ds \<and> (d = b \<or> d = CHR ''_'')"
      by (cases cs) auto
    then obtain d ds where "replace_dots (b # cs) = d # ds" "d = b \<or> d = CHR ''_''" by blast
    with 1(2)[OF False] False show ?thesis by (auto simp: sublist_Cons_right)
  qed
qed (auto simp: sublist_Cons_right)

lemma path_base_slash: "slash \<in> set (path_base p) \<Longrightarrow> path_base p = ''/''"
  by (auto simp: path_base_def Let_def dest: set_takeWhileD split: if_splits)

lemma safe_artifact_name_shape:
  "safe_artifact_name name \<noteq> [] \<and> safe_artifact_name name \<noteq> ''.''
     \<and> \<not> sublist ''..'' (safe_artifact_name name)
     \<and> (slash \<notin> set (safe_artifact_name name) \<or> safe_artifact_name name = ''/'')"
proof -
  let ?n = "replace_dots (path_base name)"
  have "slash \<notin> set ?n \<or> ?n = ''/''"
  proof (cases "slash \<in> set (path_base name)")
    case True
    then show ?thesis by (simp add: path_base_slash)
  next
    case False
    then show ?thesis using replace_dots_set[of "path_base name"] by auto
  qed
  moreover have "\<not> sublist ''..'' ''artifact''" by (simp add: sublist_Cons_right)
  ultimately show ?thesis using replace_dots_no_dots by (auto simp: safe_artifact_name_def Let_def)
qed

text \<open>A plain artifact name is kept as it is.\<close>

lemma replace_dots_id: "\<not> sublist ''..'' s \<Longrightarrow> replace_dots s = s"
  by (induction s rule: replace_dots.induct) (auto simp: sublist_Cons_right)

end
