(* ===== verification/Evidence_Store.thy ===== *)
theory Evidence_Store imports Effects Paths Domain
begin

text \<open>
  The evidence store of \<open>internal/runner/evidence.go\<close> over a model of the evidence root (\<open>os.Root\<close>): nodes
  by clean relative path, and an oracle for faults, so that every system call may fail at any point.
  A failed operation leaves the state it has reached, as in the code.
\<close>

subsection \<open>The evidence root\<close>

datatype node = DirNode nat | FileNode bytes | LinkNode

text \<open>\<open>fs_root\<close> is the root itself, by its host path; \<open>fs_fault n\<close> is the error of the \<open>n\<close>th system call, if
  it fails.\<close>

record fs =
  fs_root :: "node option"
  fs_nodes :: "gostring \<rightharpoonup> node"
  fs_tick :: nat
  fs_fault :: "nat \<Rightarrow> gostring option"

type_synonym 'a fs_op = "(fs, gostring, 'a) op"

text \<open>One system call: it fails by a fault, or does \<open>f\<close>.\<close>

definition syscall :: "'a fs_op \<Rightarrow> 'a fs_op" where
  "syscall f = (\<lambda>s. let s' = s\<lparr>fs_tick := Suc (fs_tick s)\<rparr> in
     case fs_fault s (fs_tick s) of Some e \<Rightarrow> (Inl e, s') | None \<Rightarrow> f s')"

definition is_dir_node :: "node option \<Rightarrow> bool" where
  "is_dir_node n = (case n of Some (DirNode perm) \<Rightarrow> True | _ \<Rightarrow> False)"

definition is_directory :: "fs \<Rightarrow> gostring \<Rightarrow> bool" where
  "is_directory s p \<longleftrightarrow> p = ''.'' \<or> is_dir_node (fs_nodes s p)"

definition set_node :: "gostring \<Rightarrow> node option \<Rightarrow> fs \<Rightarrow> fs" where
  "set_node p n s = s\<lparr>fs_nodes := (fs_nodes s)(p := n)\<rparr>"

text \<open>\<open>Lstat\<close>; a missing file is a result of its own (\<open>os.IsNotExist\<close>).\<close>

definition fs_lstat :: "gostring \<Rightarrow> node option fs_op" where
  "fs_lstat p = syscall (\<lambda>s. (Inr (fs_nodes s p), s))"

definition fs_mkdir :: "gostring \<Rightarrow> nat \<Rightarrow> unit fs_op" where
  "fs_mkdir p perm = syscall (\<lambda>s.
     if fs_nodes s p \<noteq> None then (Inl ''file exists'', s)
     else if \<not> is_directory s (path_dir p) then (Inl ''no such file or directory'', s)
     else (Inr (), set_node p (Some (DirNode perm)) s))"

definition fs_chmod :: "gostring \<Rightarrow> nat \<Rightarrow> unit fs_op" where
  "fs_chmod p perm = syscall (\<lambda>s. (Inr (), if is_dir_node (fs_nodes s p)
     then set_node p (Some (DirNode perm)) s else s))"

text \<open>\<open>O_CREATE | O_EXCL\<close>.\<close>

definition fs_create :: "gostring \<Rightarrow> unit fs_op" where
  "fs_create p = syscall (\<lambda>s.
     if p = ''.'' \<or> fs_nodes s p \<noteq> None then (Inl ''file exists'', s)
     else if \<not> is_directory s (path_dir p) then (Inl ''no such file or directory'', s)
     else (Inr (), set_node p (Some (FileNode [])) s))"

text \<open>Writing to the descriptor that \<open>fs_create\<close> returned for \<open>p\<close>.\<close>

definition fs_write :: "gostring \<Rightarrow> bytes \<Rightarrow> unit fs_op" where
  "fs_write p contents = syscall (\<lambda>s. (Inr (), set_node p (Some (FileNode contents)) s))"

definition fs_sync :: "gostring \<Rightarrow> unit fs_op" where
  "fs_sync p = syscall (\<lambda>s. (Inr (), s))"

definition fs_close :: "gostring \<Rightarrow> unit fs_op" where
  "fs_close p = syscall (\<lambda>s. (Inr (), s))"

definition fs_remove :: "gostring \<Rightarrow> unit fs_op" where
  "fs_remove p = syscall (\<lambda>s. (Inr (), set_node p None s))"

definition fs_rename :: "gostring \<Rightarrow> gostring \<Rightarrow> unit fs_op" where
  "fs_rename a b = syscall (\<lambda>s.
     if fs_nodes s a = None then (Inl ''no such file or directory'', s)
     else if is_directory s b then (Inl ''file exists'', s)
     else (Inr (), set_node a None (set_node b (fs_nodes s a) s)))"

definition fs_open_dir :: "gostring \<Rightarrow> unit fs_op" where
  "fs_open_dir p = syscall (\<lambda>s. if is_directory s p then (Inr (), s)
     else (Inl ''no such file or directory'', s))"

abbreviation private_dir :: nat where "private_dir \<equiv> 448"

subsection \<open>Opening the root and its directories\<close>

text \<open>\<open>os.MkdirAll\<close>, \<open>os.Lstat\<close>, \<open>os.Chmod\<close> and \<open>os.OpenRoot\<close> on the host path of the root.\<close>

text \<open>\<open>os.MkdirAll\<close> accepts a directory and a link to one and refuses a file, so that what the check of the mode
  can still find is a link.\<close>

definition open_evidence_root :: "gostring \<Rightarrow> unit fs_op" where
  "open_evidence_root path =
     (if path = [] then op_fail ''evidence directory is required''
      else op_bind (op_wrap (\<lambda>e. ''create evidence root: '' @ e) (syscall (\<lambda>s.
             case fs_root s of
               None \<Rightarrow> (Inr (), s\<lparr>fs_root := Some (DirNode private_dir)\<rparr>)
             | Some (FileNode _) \<Rightarrow> (Inl (''mkdir '' @ path @ '': not a directory''), s)
             | _ \<Rightarrow> (Inr (), s)))) (\<lambda>_.
           op_bind (op_wrap (\<lambda>e. ''stat evidence root: '' @ e) (syscall (\<lambda>s. (Inr (fs_root s), s))))
             (\<lambda>info.
           if \<not> is_dir_node info then op_fail ''evidence root must be a real directory, got Lrwxrwxrwx''
           else op_bind (op_wrap (\<lambda>e. ''restrict evidence root permissions: '' @ e)
                  (syscall (\<lambda>s. (Inr (), s\<lparr>fs_root := Some (DirNode private_dir)\<rparr>)))) (\<lambda>_.
                op_wrap (\<lambda>e. ''open evidence root: '' @ e) (syscall (\<lambda>s. (Inr (), s)))))))"

definition sync_root_dir :: "gostring \<Rightarrow> unit fs_op" where
  "sync_root_dir p = op_bind (fs_open_dir p) (\<lambda>_. fs_sync p)"

text \<open>One component of the loop of \<open>ensurePrivateRootDir\<close>: create it if it is missing, refuse links and
  files, make it private, and sync the parent of a new one.\<close>

definition ensure_component :: "gostring \<Rightarrow> gostring \<Rightarrow> unit fs_op" where
  "ensure_component parent current =
     op_bind (fs_lstat current) (\<lambda>info.
       let restrict = (\<lambda>perm. if perm \<noteq> private_dir
             then op_wrap (\<lambda>e. ''restrict evidence directory '' @ quote_text current @ '' permissions: '' @ e)
                    (fs_chmod current private_dir)
             else op_return ())
       in case info of
          Some LinkNode \<Rightarrow> op_fail (''evidence directory component '' @ quote_text current @ '' is a symbolic link'')
        | Some (FileNode c) \<Rightarrow> op_fail (''evidence directory component '' @ quote_text current @ '' is not a directory'')
        | Some (DirNode perm) \<Rightarrow> restrict perm
        | None \<Rightarrow>
            op_bind (fs_mkdir current private_dir) (\<lambda>_.
            op_bind (fs_lstat current) (\<lambda>info'.
            op_bind (case info' of Some (DirNode perm) \<Rightarrow> restrict perm | _ \<Rightarrow> restrict 0) (\<lambda>_.
              op_wrap (\<lambda>e. ''sync parent evidence directory '' @ quote_text parent @ '': '' @ e)
                (sync_root_dir parent)))))"

fun ensure_components :: "gostring \<Rightarrow> gostring list \<Rightarrow> unit fs_op" where
  "ensure_components parent [] = op_return ()"
| "ensure_components parent (c # cs) =
     (let current = (if parent = ''.'' then c else join_paths [parent, c])
      in op_bind (ensure_component parent current) (\<lambda>_. ensure_components current cs))"

definition ensure_private_root_dir :: "gostring \<Rightarrow> unit fs_op" where
  "ensure_private_root_dir path =
     (case clean_evidence_relative_path path of Inl e \<Rightarrow> op_fail e
      | Inr cleaned \<Rightarrow>
        if cleaned = ''.'' then sync_root_dir ''.''
        else op_bind (ensure_components ''.'' (split_on slash cleaned)) (\<lambda>_. sync_root_dir cleaned))"

subsection \<open>Writing files\<close>

definition write_new_private_root_file :: "gostring \<Rightarrow> bytes \<Rightarrow> unit fs_op" where
  "write_new_private_root_file path contents =
     (case clean_evidence_relative_path path of Inl e \<Rightarrow> op_fail e
      | Inr cleaned \<Rightarrow>
        let parent = path_dir cleaned;
            cleanup = op_bind (op_ignore (fs_close cleaned)) (\<lambda>_. op_ignore (fs_remove cleaned))
        in op_bind (fs_create cleaned) (\<lambda>_.
           op_bind (op_on_error (fs_write cleaned contents) cleanup) (\<lambda>_.
           op_bind (op_on_error (fs_sync cleaned) cleanup) (\<lambda>_.
           op_bind (op_on_error (fs_close cleaned) (op_ignore (fs_remove cleaned))) (\<lambda>_.
             op_on_error (op_wrap (\<lambda>e. ''sync evidence directory: '' @ e) (sync_root_dir parent))
               (op_bind (op_ignore (fs_remove cleaned)) (\<lambda>_. op_ignore (sync_root_dir parent))))))))"

text \<open>\<open>random_name\<close> is the random name of the temporary file, or the error of the generator.\<close>

definition write_atomic_private_root_file ::
  "gostring + gostring \<Rightarrow> gostring \<Rightarrow> bytes \<Rightarrow> bool \<Rightarrow> unit fs_op" where
  "write_atomic_private_root_file random_name path contents replace =
     (case clean_evidence_relative_path path of Inl e \<Rightarrow> op_fail e
      | Inr cleaned \<Rightarrow>
        if \<not> replace then write_new_private_root_file cleaned contents
        else case random_name of Inl e \<Rightarrow> op_fail (''generate evidence temporary name: '' @ e)
        | Inr hex \<Rightarrow>
          let parent = path_dir cleaned; temporary = join_paths [parent, ''.evidence-'' @ hex];
              body = op_bind (op_on_error (fs_write temporary contents) (op_ignore (fs_close temporary)))
                (\<lambda>_. op_bind (op_on_error (fs_sync temporary) (op_ignore (fs_close temporary))) (\<lambda>_.
                 op_bind (fs_close temporary) (\<lambda>_.
                 op_bind (fs_rename temporary cleaned) (\<lambda>_. sync_root_dir parent))))
          in op_bind (fs_create temporary) (\<lambda>_. op_finally body (op_ignore (fs_remove temporary))))"

subsection \<open>Evidence of a profile\<close>

definition raw_artifact_bytes :: "(gostring \<Rightarrow> gostring + bytes) \<Rightarrow> raw_artifact \<Rightarrow> gostring + bytes" where
  "raw_artifact_bytes b64 raw =
     (if raw_encoding raw = [] \<or> raw_encoding raw = ''utf-8'' then Inr (raw_data raw)
      else if raw_encoding raw = ''base64''
      then (case b64 (raw_data raw) of Inl e \<Rightarrow> Inl (''base64: '' @ e) | Inr b \<Rightarrow> Inr b)
      else Inl (''unsupported encoding '' @ quote_text (raw_encoding raw)))"

text \<open>The loop over the raw artifacts works on the evidence it is given and on the store: an error
  leaves the references appended so far.\<close>

definition append_artifact :: "artifact \<Rightarrow> (command_evidence \<times> fs, gostring, unit) op" where
  "append_artifact a = (\<lambda>(ev, s). (Inr (), ev\<lparr>ev_artifacts := ev_artifacts ev @ [a]\<rparr>, s))"

definition persist_raw_artifact ::
  "(gostring \<Rightarrow> gostring + bytes) \<Rightarrow> (bytes \<Rightarrow> gostring) \<Rightarrow> gostring \<Rightarrow> gostring \<Rightarrow> gostring \<Rightarrow> raw_artifact
   \<Rightarrow> (command_evidence \<times> fs, gostring, unit) op" where
  "persist_raw_artifact b64 sha256_hex evidence_dir profile' directory raw =
     op_bind (op_of (case raw_artifact_bytes b64 raw of
         Inl e \<Rightarrow> Inl (''decode '' @ profile' @ ''/'' @ raw_name raw @ '': '' @ e)
       | Inr b \<Rightarrow> Inr b)) (\<lambda>contents.
     let rel_path = join_paths [directory, safe_artifact_name (raw_name raw)] in
     op_bind (op_snd (op_wrap (\<lambda>e. ''write evidence '' @ join_paths [evidence_dir, rel_path] @ '': '' @ e)
         (write_new_private_root_file rel_path contents))) (\<lambda>_.
       append_artifact \<lparr>art_path = rel_path, art_sha256 = sha256_hex contents,
          art_media_type = raw_media_type raw\<rparr>))"

definition finish_evidence :: "(command_evidence \<times> fs, gostring, unit) op" where
  "finish_evidence = (\<lambda>(ev, s). (Inr (), ev\<lparr>ev_artifacts := sort_key art_path (ev_artifacts ev),
     ev_raw_artifacts := []\<rparr>, s))"

definition persist_command_evidence ::
  "(gostring \<Rightarrow> gostring + bytes) \<Rightarrow> (bytes \<Rightarrow> gostring) \<Rightarrow> gostring \<Rightarrow> gostring \<Rightarrow> gostring \<Rightarrow> gostring
   \<Rightarrow> (command_evidence \<times> fs, gostring, unit) op" where
  "persist_command_evidence b64 sha256_hex evidence_dir cycle_id profile' phase = (\<lambda>(ev, s).
     (case first_duplicate {} (map (\<lambda>raw. safe_artifact_name (raw_name raw)) (ev_raw_artifacts ev)) of
        Some name \<Rightarrow> op_fail (''profile '' @ profile' @ '' '' @ phase
           @ '' evidence has colliding artifact name '' @ quote_text name)
      | None \<Rightarrow>
        let directory = join_paths [cycle_id, profile', phase] in
        op_bind (op_snd (open_evidence_root evidence_dir)) (\<lambda>_.
        op_bind (op_snd (op_wrap (\<lambda>e. ''create evidence directory: '' @ e)
            (ensure_private_root_dir directory))) (\<lambda>_.
        op_bind (op_each (persist_raw_artifact b64 sha256_hex evidence_dir profile' directory)
            (ev_raw_artifacts ev)) (\<lambda>_. finish_evidence)))) (ev, s))"

text \<open>\<open>persistEvidence\<close> and \<open>persistPreflightEvidence\<close>: the records in order, each updated in place; an
  error leaves the remaining ones as they are.\<close>

fun persist_all ::
  "('r \<Rightarrow> (command_evidence \<times> fs, gostring, unit) op) \<Rightarrow> ('r \<Rightarrow> command_evidence)
   \<Rightarrow> (command_evidence \<Rightarrow> 'r \<Rightarrow> 'r) \<Rightarrow> 'r list \<Rightarrow> fs \<Rightarrow> (gostring + unit) \<times> 'r list \<times> fs" where
  "persist_all f get put [] s = (Inr (), [], s)"
| "persist_all f get put (r # rs) s =
     (case f r (get r, s) of
        (Inl e, ev, s') \<Rightarrow> (Inl e, put ev r # rs, s')
      | (Inr _, ev, s') \<Rightarrow>
        (case persist_all f get put rs s' of (res, rs', s'') \<Rightarrow> (res, put ev r # rs', s'')))"

definition persist_evidence ::
  "(gostring \<Rightarrow> gostring + bytes) \<Rightarrow> (bytes \<Rightarrow> gostring) \<Rightarrow> gostring \<Rightarrow> gostring \<Rightarrow> result list \<Rightarrow> fs
   \<Rightarrow> (gostring + unit) \<times> result list \<times> fs" where
  "persist_evidence b64 sha256_hex evidence_dir cycle_id results s =
     (if evidence_dir = [] then (Inl ''evidence directory is required'', results, s)
      else persist_all (\<lambda>r. persist_command_evidence b64 sha256_hex evidence_dir cycle_id (res_profile r)
             ''post_revocation'') res_evidence (\<lambda>ev r. r\<lparr>res_evidence := ev\<rparr>) results s)"

definition persist_preflight_evidence ::
  "(gostring \<Rightarrow> gostring + bytes) \<Rightarrow> (bytes \<Rightarrow> gostring) \<Rightarrow> gostring \<Rightarrow> gostring \<Rightarrow> preflight_result list
   \<Rightarrow> fs \<Rightarrow> (gostring + unit) \<times> preflight_result list \<times> fs" where
  "persist_preflight_evidence b64 sha256_hex evidence_dir cycle_id results s =
     (if evidence_dir = [] then (Inl ''evidence directory is required'', results, s)
      else persist_all (\<lambda>r. persist_command_evidence b64 sha256_hex evidence_dir cycle_id (pf_profile r)
             ''pre_revocation'') pf_evidence (\<lambda>ev r. r\<lparr>pf_evidence := ev\<rparr>) results s)"

subsection \<open>Evidence of a cycle\<close>

record cycle_artifact =
  ca_media_type :: gostring
  ca_contents :: bytes

fun write_cycle_artifacts ::
  "(bytes \<Rightarrow> gostring) \<Rightarrow> gostring \<Rightarrow> gostring set \<Rightarrow> (gostring \<times> cycle_artifact) list
   \<Rightarrow> artifact list fs_op" where
  "write_cycle_artifacts sha256_hex cycle_id seen [] = op_return []"
| "write_cycle_artifacts sha256_hex cycle_id seen ((raw, a) # as) =
     (let name = safe_artifact_name raw; path = join_paths [cycle_id, name] in
      if name \<in> seen then op_fail (''cycle evidence has colliding artifact name '' @ quote_text name)
      else op_bind (op_wrap (\<lambda>e. ''write cycle artifact '' @ name @ '': '' @ e)
             (write_new_private_root_file path (ca_contents a))) (\<lambda>_.
           op_bind (write_cycle_artifacts sha256_hex cycle_id (insert name seen) as) (\<lambda>rest.
             op_return (\<lparr>art_path = path, art_sha256 = sha256_hex (ca_contents a),
                        art_media_type = ca_media_type a\<rparr> # rest))))"

definition persist_cycle_artifacts ::
  "(bytes \<Rightarrow> gostring) \<Rightarrow> gostring \<Rightarrow> gostring \<Rightarrow> (gostring \<times> cycle_artifact) list \<Rightarrow> artifact list fs_op"
where
  "persist_cycle_artifacts sha256_hex evidence_dir cycle_id artifacts =
     (if evidence_dir = [] then op_fail ''evidence directory is required''
      else op_bind (open_evidence_root evidence_dir) (\<lambda>_.
           op_bind (op_wrap (\<lambda>e. ''create cycle evidence directory: '' @ e)
             (ensure_private_root_dir cycle_id)) (\<lambda>_.
           op_bind (write_cycle_artifacts sha256_hex cycle_id {} (sort_key fst artifacts)) (\<lambda>refs.
             op_return (sort_key art_path refs)))))"

definition archive_cycle_file ::
  "gostring \<Rightarrow> gostring \<Rightarrow> gostring \<Rightarrow> bytes \<Rightarrow> unit fs_op" where
  "archive_cycle_file evidence_dir cycle_id name contents =
     (if evidence_dir = [] then op_fail ''evidence directory is required''
      else op_bind (open_evidence_root evidence_dir) (\<lambda>_.
           op_bind (op_wrap (\<lambda>e. ''create cycle evidence directory: '' @ e)
             (ensure_private_root_dir cycle_id)) (\<lambda>_.
             write_atomic_private_root_file (Inl []) (join_paths [cycle_id, safe_artifact_name name])
               contents False)))"

definition archive_cycle_report :: "gostring \<Rightarrow> gostring \<Rightarrow> bytes \<Rightarrow> unit fs_op" where
  "archive_cycle_report evidence_dir cycle_id = archive_cycle_file evidence_dir cycle_id ''report.json''"

definition archive_cycle_attestation :: "gostring \<Rightarrow> gostring \<Rightarrow> bytes \<Rightarrow> unit fs_op" where
  "archive_cycle_attestation evidence_dir cycle_id =
     archive_cycle_file evidence_dir cycle_id ''attestation.json''"

definition update_latest_cycle_file ::
  "gostring + gostring \<Rightarrow> gostring \<Rightarrow> gostring \<Rightarrow> bytes \<Rightarrow> unit fs_op" where
  "update_latest_cycle_file random_name evidence_dir name contents =
     (if evidence_dir = [] then op_fail ''evidence directory is required''
      else op_bind (open_evidence_root evidence_dir) (\<lambda>_.
             write_atomic_private_root_file random_name (safe_artifact_name name) contents True))"

definition update_latest_cycle_report :: "gostring + gostring \<Rightarrow> gostring \<Rightarrow> bytes \<Rightarrow> unit fs_op" where
  "update_latest_cycle_report random_name evidence_dir =
     update_latest_cycle_file random_name evidence_dir ''last-cycle.json''"

definition update_latest_cycle_attestation :: "gostring + gostring \<Rightarrow> gostring \<Rightarrow> bytes \<Rightarrow> unit fs_op"
where
  "update_latest_cycle_attestation random_name evidence_dir =
     update_latest_cycle_file random_name evidence_dir ''last-cycle.attestation.json''"

end
