(* ===== verification/Evidence_Laws.thy ===== *)
theory Evidence_Laws imports Evidence_Store
begin

text \<open>
  What the evidence store promises, whatever system calls fail: files that exist are never changed, a
  reported success means the contents are stored under the recorded digest, and nothing is created
  outside the evidence root.
\<close>

subsection \<open>Write-once stores\<close>

text \<open>The contract: what is stored stays, a successful \<open>put\<close> stores, and an existing key is refused.\<close>

locale write_once_store =
  fixes put :: "'k \<Rightarrow> 'v \<Rightarrow> ('s, 'e, unit) op"
    and get :: "'s \<Rightarrow> 'k \<Rightarrow> 'v option"
  assumes put_stores: "runs (put k v) s u s' \<Longrightarrow> get s' k = Some v"
    and put_keeps: "get s j = Some w \<Longrightarrow> get (snd (put k v s)) j = Some w"
    and put_refuses: "get s k = Some w \<Longrightarrow> \<not> runs (put k v) s u s'"
begin

lemma put_keeps_run: "runs (put k v) s u s' \<Longrightarrow> get s j = Some w \<Longrightarrow> get s' j = Some w"
  using put_keeps[of s j w k v] by (simp add: runs_def)

lemma puts_keep: "get s j = Some w \<Longrightarrow> get (snd (op_each (\<lambda>(k, v). put k v) kvs s)) j = Some w"
proof (induction kvs arbitrary: s)
  case (Cons kv kvs)
  obtain k v where kv: "kv = (k, v)" by (cases kv)
  obtain r s' where put: "put k v s = (r, s')" by fastforce
  with put_keeps[OF Cons.prems, of k v] have "get s' j = Some w" by simp
  then show ?case using Cons.IH by (auto simp: kv op_bind_def put split: sum.split)
qed (simp add: op_return_def)

lemma puts_store:
  "runs (op_each (\<lambda>(k, v). put k v) kvs) s u s' \<Longrightarrow>
     distinct (map fst kvs) \<and> (\<forall>(k, v) \<in> set kvs. get s' k = Some v)"
proof (induction kvs arbitrary: s)
  case (Cons kv kvs)
  obtain k v where kv: "kv = (k, v)" by (cases kv)
  from Cons.prems obtain s1 where put: "runs (put k v) s () s1"
    and rest: "runs (op_each (\<lambda>(k, v). put k v) kvs) s1 u s'" by (auto simp: kv)
  have kept: "get s' j = Some w" if "get s1 j = Some w" for j w
    using puts_keep[OF that, of kvs] rest by (simp add: runs_def)
  have stored: "get s1 k = Some v" using put by (rule put_stores)
  have "\<not> (runs (op_each (\<lambda>(k, v). put k v) kvs) s2 u s')" if "k \<in> fst ` set kvs" "get s2 k = Some v" for s2
    using that
  proof (induction kvs arbitrary: s2)
    case (Cons a kvs)
    show ?case
    proof
      assume run: "runs (op_each (\<lambda>(k, v). put k v) (a # kvs)) s2 u s'"
      obtain k' v' where a: "a = (k', v')" by (cases a)
      from run obtain s3 where s3: "runs (put k' v') s2 () s3"
        "runs (op_each (\<lambda>(k, v). put k v) kvs) s3 u s'" by (auto simp: a)
      then have "k' \<noteq> k" using put_refuses[OF Cons.prems(2)] by blast
      moreover have "get s3 k = Some v" using put_keeps_run[OF s3(1) Cons.prems(2)] .
      ultimately show False using Cons.IH[of s3] Cons.prems(1) s3(2) a by auto
    qed
  qed simp
  with stored rest have "k \<notin> fst ` set kvs" by blast
  with Cons.IH[OF rest] kept[OF stored] show ?case by (simp add: kv)
qed simp

end

subsection \<open>Relations between states\<close>

text \<open>Every file keeps its contents; only the node of \<open>p\<close> changes; every new node lies inside the root.\<close>

definition keeps_files :: "fs \<Rightarrow> fs \<Rightarrow> bool" where
  "keeps_files s s' \<longleftrightarrow>
     (\<forall>p c. fs_nodes s p = Some (FileNode c) \<longrightarrow> fs_nodes s' p = Some (FileNode c))"

definition touches :: "gostring \<Rightarrow> fs \<Rightarrow> fs \<Rightarrow> bool" where
  "touches p s s' \<longleftrightarrow> (\<forall>q. q \<noteq> p \<longrightarrow> fs_nodes s' q = fs_nodes s q)"

definition confined :: "gostring \<Rightarrow> bool" where
  "confined p \<longleftrightarrow> list_all plain_component (split_on slash p)"

definition grows_inside :: "fs \<Rightarrow> fs \<Rightarrow> bool" where
  "grows_inside s s' \<longleftrightarrow> (\<forall>p. fs_nodes s p = None \<longrightarrow> fs_nodes s' p \<noteq> None \<longrightarrow> confined p)"

interpretation keeps: run_relation keeps_files
  by unfold_locales (auto simp: keeps_files_def)

interpretation touch: run_relation "touches p"
  by unfold_locales (auto simp: touches_def)

interpretation inside: run_relation grows_inside
  by unfold_locales (unfold grows_inside_def, blast+)

text \<open>The two guarantees every operation gives.\<close>

definition careful :: "fs \<Rightarrow> fs \<Rightarrow> bool" where
  "careful s s' \<longleftrightarrow> keeps_files s s' \<and> grows_inside s s'"

interpretation care: run_relation careful
proof unfold_locales
  show "careful s s" for s by (simp add: careful_def keeps.refl inside.refl)
  show "careful s u" if "careful s t" "careful t u" for s t u
    using that by (meson careful_def keeps.trans inside.trans)
qed

lemma syscall_nodes:
  "fs_nodes (snd (syscall f s)) = (case fs_fault s (fs_tick s) of Some e \<Rightarrow> fs_nodes s
     | None \<Rightarrow> fs_nodes (snd (f (s\<lparr>fs_tick := Suc (fs_tick s)\<rparr>))))"
  by (simp add: syscall_def Let_def split: option.split)

lemma runs_syscall [simp]:
  "runs (syscall f) s x s' \<longleftrightarrow>
     fs_fault s (fs_tick s) = None \<and> runs f (s\<lparr>fs_tick := Suc (fs_tick s)\<rparr>) x s'"
  by (auto simp: runs_def syscall_def Let_def split: option.split)

lemma set_node_simps [simp]:
  "fs_nodes (set_node p n s) = (fs_nodes s)(p := n)" "fs_root (set_node p n s) = fs_root s"
  by (simp_all add: set_node_def)

lemma preserves_syscall:
  assumes "\<And>s s'. fs_nodes s = fs_nodes s' \<Longrightarrow> R s s'"
    and "\<And>s. R s (snd (f (s\<lparr>fs_tick := Suc (fs_tick s)\<rparr>)))"
  shows "preserves R (syscall f)"
  unfolding preserves_def syscall_def Let_def
  using assms by (auto split: option.split)

lemma touches_calls:
  "preserves (touches p) (fs_write p c)" "preserves (touches p) (fs_sync q)"
  "preserves (touches p) (fs_close q)" "preserves (touches p) (fs_remove p)"
  "preserves (touches p) (fs_open_dir q)" "preserves (touches p) (fs_create p)"
  by (auto simp: fs_write_def fs_sync_def fs_close_def fs_remove_def fs_open_dir_def fs_create_def
      touches_def intro!: preserves_syscall)

lemma touches_sync_root_dir: "preserves (touches p) (sync_root_dir q)"
  unfolding sync_root_dir_def by (intro touch.keep_intros touches_calls)

lemma careful_calls:
  "preserves careful (fs_lstat q)" "preserves careful (fs_sync q)" "preserves careful (fs_close q)"
  "preserves careful (fs_open_dir q)" "preserves careful (fs_chmod q perm)"
  by (auto simp: fs_lstat_def fs_sync_def fs_close_def fs_open_dir_def fs_chmod_def careful_def
      keeps_files_def grows_inside_def is_dir_node_def intro!: preserves_syscall
      split: option.splits node.splits)

lemma careful_mkdir: "confined q \<Longrightarrow> preserves careful (fs_mkdir q perm)"
  by (auto simp: fs_mkdir_def careful_def keeps_files_def grows_inside_def intro!: preserves_syscall)

lemma careful_sync_root_dir: "preserves careful (sync_root_dir q)"
  unfolding sync_root_dir_def by (intro care.keep_intros careful_calls)

lemma careful_open_root: "preserves careful (open_evidence_root path)"
  unfolding open_evidence_root_def
  by (intro care.keep_intros) (auto simp: careful_def keeps_files_def grows_inside_def
      intro!: preserves_syscall split: option.splits node.splits)

subsection \<open>Creating a file\<close>

lemma create_cases:
  obtains (created) s1 where "fs_create p s = (Inr (), s1)" "fs_nodes s p = None" "p \<noteq> ''.''"
      "fs_nodes s1 = (fs_nodes s)(p \<mapsto> FileNode [])"
  | (refused) e s1 where "fs_create p s = (Inl e, s1)" "fs_nodes s1 = fs_nodes s"
proof -
  obtain r s1 where c: "fs_create p s = (r, s1)" by fastforce
  show ?thesis
  proof (cases r)
    case (Inl e)
    have "fs_nodes s1 = fs_nodes s"
      using c Inl by (auto simp: fs_create_def syscall_def Let_def split: option.splits if_splits)
    with c Inl show ?thesis by (intro refused[of e s1]) simp_all
  next
    case (Inr u)
    with c show ?thesis
      by (intro created) (auto simp: fs_create_def syscall_def Let_def split: option.splits if_splits)
  qed
qed

text \<open>Whatever follows the creation of \<open>p\<close> and touches only \<open>p\<close> is careful.\<close>

lemma careful_after_create:
  assumes "confined p \<or> p = ''.''" and "\<And>x. preserves (touches p) (k x)"
  shows "preserves careful (op_bind (fs_create p) k)"
  unfolding preserves_def
proof
  fix s
  show "careful s (snd (op_bind (fs_create p) k s))"
  proof (cases rule: create_cases[of p s])
    case (created s1)
    then have "touches p s1 (snd (k () s1))" using assms(2) by (simp add: preserves_def)
    with created assms(1) show ?thesis
      by (auto simp: op_bind_def careful_def keeps_files_def grows_inside_def touches_def)
        (metis option.distinct(1))+
  next
    case (refused e s1)
    then show ?thesis by (simp add: op_bind_def careful_def keeps_files_def grows_inside_def)
  qed
qed

lemma clean_relative_confined:
  "clean_evidence_relative_path p = Inr q \<Longrightarrow> confined q \<or> q = ''.''"
  by (auto simp: confined_def dest: confined_split)

lemmas touch_intros = touch.keep_intros touches_calls touches_sync_root_dir

lemma careful_write_new: "preserves careful (write_new_private_root_file path contents)"
proof (cases "clean_evidence_relative_path path")
  case (Inl e)
  then show ?thesis by (simp add: write_new_private_root_file_def care.keep_fail)
next
  case (Inr cleaned)
  show ?thesis
    unfolding write_new_private_root_file_def Inr sum.case Let_def
    by (rule careful_after_create[OF clean_relative_confined[OF Inr]]) (intro touch_intros)
qed

lemma runs_calls:
  "runs (fs_write p c) s u s' \<Longrightarrow> fs_nodes s' = (fs_nodes s)(p \<mapsto> FileNode c)"
  "runs (fs_sync p) s u s' \<Longrightarrow> fs_nodes s' = fs_nodes s"
  "runs (fs_close p) s u s' \<Longrightarrow> fs_nodes s' = fs_nodes s"
  "runs (fs_open_dir p) s u s' \<Longrightarrow> fs_nodes s' = fs_nodes s"
  "runs (fs_create p) s u s' \<Longrightarrow>
     fs_nodes s p = None \<and> fs_nodes s' = (fs_nodes s)(p \<mapsto> FileNode [])"
  by (auto simp: fs_write_def fs_sync_def fs_close_def fs_open_dir_def fs_create_def)
    (auto simp: runs_def split: if_splits)

lemma runs_sync_root_dir: "runs (sync_root_dir p) s u s' \<Longrightarrow> fs_nodes s' = fs_nodes s"
  by (auto simp: sync_root_dir_def dest!: runs_calls)

text \<open>A success stores the contents under a path that did not exist.\<close>

lemma write_new_stores:
  assumes "runs (write_new_private_root_file path contents) s u s'"
  obtains cleaned where "clean_evidence_relative_path path = Inr cleaned"
    "fs_nodes s cleaned = None" "fs_nodes s' = (fs_nodes s)(cleaned \<mapsto> FileNode contents)"
proof (cases "clean_evidence_relative_path path")
  case (Inl e)
  with assms show ?thesis by (simp add: write_new_private_root_file_def)
next
  case (Inr cleaned)
  from assms obtain s1 s2 s3 s4 where "runs (fs_create cleaned) s () s1"
    "runs (fs_write cleaned contents) s1 () s2" "runs (fs_sync cleaned) s2 () s3"
    "runs (fs_close cleaned) s3 () s4" "runs (sync_root_dir (path_dir cleaned)) s4 u s'"
    by (auto simp: write_new_private_root_file_def Inr Let_def)
  then show ?thesis
    by (intro that[OF Inr]) (auto dest!: runs_calls runs_sync_root_dir)
qed

subsection \<open>The store\<close>

text \<open>Reading the file at a path.\<close>

definition stored_file :: "fs \<Rightarrow> gostring \<Rightarrow> bytes option" where
  "stored_file s path = (case clean_evidence_relative_path path of Inl _ \<Rightarrow> None
     | Inr q \<Rightarrow> (case fs_nodes s q of Some (FileNode c) \<Rightarrow> Some c | _ \<Rightarrow> None))"

lemma stored_file_Some:
  "stored_file s path = Some c \<longleftrightarrow>
     (\<exists>q. clean_evidence_relative_path path = Inr q \<and> fs_nodes s q = Some (FileNode c))"
  by (auto simp: stored_file_def split: sum.split option.split node.split)

lemma keeps_stored: "keeps_files s s' \<Longrightarrow> stored_file s path = Some c \<Longrightarrow> stored_file s' path = Some c"
  by (auto simp: keeps_files_def stored_file_Some)

interpretation evidence: write_once_store write_new_private_root_file stored_file
proof unfold_locales
  show "stored_file s' k = Some v" if "runs (write_new_private_root_file k v) s u s'" for k v s u s'
    by (rule write_new_stores[OF that]) (auto simp: stored_file_Some)
  show "stored_file (snd (write_new_private_root_file k v s)) j = Some w"
    if "stored_file s j = Some w" for s j w k v
    using careful_write_new[of k v, unfolded preserves_def careful_def] keeps_stored[OF _ that] by blast
  show "\<not> runs (write_new_private_root_file k v) s u s'" if "stored_file s k = Some w" for k v s u s' w
    using that by (auto simp: stored_file_Some elim: write_new_stores)
qed

subsection \<open>Every operation is careful\<close>

lemma careful_ensure_component:
  assumes "confined current"
  shows "preserves careful (ensure_component parent current)"
  unfolding ensure_component_def Let_def
  by (intro care.keep_bind careful_calls careful_mkdir assms)
    (auto intro!: care.keep_intros careful_calls careful_mkdir careful_sync_root_dir assms
      split: option.split node.split)

lemma careful_ensure_components:
  assumes "parent = ''.'' \<and> ws = [] \<or> ws \<noteq> [] \<and> parent = join_with [slash] ws"
    and "list_all plain_component (ws @ cs)"
  shows "preserves careful (ensure_components parent cs)"
  using assms
proof (induction cs arbitrary: parent ws)
  case Nil
  then show ?case by (simp add: care.keep_return)
next
  case (Cons c cs)
  let ?current = "if parent = ''.'' then c else join_paths [parent, c]"
  have plain: "list_all plain_component (ws @ [c])" using Cons.prems(2) by simp
  have "parent \<noteq> ''.''" if "ws \<noteq> []"
  proof
    assume "parent = ''.''"
    with that Cons.prems(1) have "split_on slash ''.'' = ws"
      using split_plain[of ws] Cons.prems(2) by auto
    with Cons.prems(2) show False by (auto simp: plain_component_def)
  qed
  then have current: "?current = join_with [slash] (ws @ [c])"
    using Cons.prems(1) join_paths_plain[OF _ plain] by auto
  have "confined ?current"
    unfolding current confined_def using split_plain[OF _ plain] plain by simp
  then have "preserves careful (ensure_component parent ?current)" by (rule careful_ensure_component)
  moreover have "preserves careful (ensure_components ?current cs)"
    by (rule Cons.IH[where ws = "ws @ [c]"]) (use current Cons.prems(2) in auto)
  ultimately show ?case by (simp only: ensure_components.simps Let_def care.keep_bind)
qed

lemma careful_ensure_private_root_dir: "preserves careful (ensure_private_root_dir path)"
proof (cases "clean_evidence_relative_path path")
  case (Inl e)
  then show ?thesis by (simp add: ensure_private_root_dir_def care.keep_fail)
next
  case (Inr cleaned)
  have "preserves careful (ensure_components ''.'' (split_on slash cleaned))" if "cleaned \<noteq> ''.''"
    by (rule careful_ensure_components[where ws = "[]"])
      (use confined_split[OF Inr that] in auto)
  then show ?thesis
    by (auto simp: ensure_private_root_dir_def Inr intro!: care.keep_intros careful_sync_root_dir)
qed

text \<open>Operations on evidence and store: the store part is careful.\<close>

definition careful_snd :: "command_evidence \<times> fs \<Rightarrow> command_evidence \<times> fs \<Rightarrow> bool" where
  "careful_snd es es' \<longleftrightarrow> careful (snd es) (snd es')"

interpretation care_snd: run_relation careful_snd
  by unfold_locales (auto simp: careful_snd_def care.refl intro: care.trans)

lemma careful_op_snd: "preserves careful m \<Longrightarrow> preserves careful_snd (op_snd m)"
  by (auto simp: preserves_def careful_snd_def op_snd_def split: prod.split) (metis snd_conv)

lemma careful_local:
  "preserves careful_snd (append_artifact a)" "preserves careful_snd finish_evidence"
  by (auto simp: preserves_def careful_snd_def append_artifact_def finish_evidence_def care.refl)

lemma careful_persist_raw:
  "preserves careful_snd (persist_raw_artifact b64 h dir profile' directory raw)"
  unfolding persist_raw_artifact_def Let_def
  by (intro care_snd.keep_intros careful_op_snd care.keep_wrap careful_write_new careful_local)

lemma preserves_split:
  "(\<And>ev. preserves careful_snd (m ev)) \<Longrightarrow> preserves careful_snd (\<lambda>(ev, s). (m ev) (ev, s))"
  by (auto simp: preserves_def)

lemma careful_persist_command_evidence:
  "preserves careful_snd (persist_command_evidence b64 h dir cycle_id profile' phase)"
  unfolding persist_command_evidence_def Let_def
  by (rule preserves_split) (intro care_snd.keep_intros careful_op_snd care.keep_wrap
      careful_open_root careful_ensure_private_root_dir careful_persist_raw careful_local)

lemma careful_write_cycle_artifacts:
  "preserves careful (write_cycle_artifacts h cycle_id seen as)"
proof (induction as arbitrary: seen)
  case (Cons x as)
  obtain raw a where x: "x = (raw, a)" by (cases x)
  show ?case unfolding x write_cycle_artifacts.simps Let_def
    by (intro care.keep_intros careful_write_new Cons.IH)
qed (simp add: care.keep_return)

lemma careful_persist_cycle_artifacts:
  "preserves careful (persist_cycle_artifacts h dir cycle_id artifacts)"
  unfolding persist_cycle_artifacts_def
  by (intro care.keep_intros careful_open_root careful_ensure_private_root_dir
      careful_write_cycle_artifacts)

lemma careful_archive: "preserves careful (archive_cycle_file dir cycle_id name contents)"
proof -
  have "preserves careful (write_atomic_private_root_file r path contents False)" for r path
    unfolding write_atomic_private_root_file_def
    by (auto intro!: care.keep_intros careful_write_new split: sum.split)
  then show ?thesis unfolding archive_cycle_file_def
    by (intro care.keep_intros careful_open_root careful_ensure_private_root_dir)
qed

subsection \<open>What a success has stored\<close>

definition stored_as ::
  "(gostring \<Rightarrow> gostring + bytes) \<Rightarrow> (bytes \<Rightarrow> gostring) \<Rightarrow> fs \<Rightarrow> raw_artifact \<Rightarrow> artifact \<Rightarrow> bool" where
  "stored_as b64 h s raw a \<longleftrightarrow> (\<exists>c. raw_artifact_bytes b64 raw = Inr c \<and> art_sha256 a = h c
     \<and> art_media_type a = raw_media_type raw \<and> stored_file s (art_path a) = Some c)"

lemma stored_as_keeps: "keeps_files s s' \<Longrightarrow> stored_as b64 h s raw a \<Longrightarrow> stored_as b64 h s' raw a"
  by (auto simp: stored_as_def dest: keeps_stored)

lemma runs_append_artifact [simp]:
  "runs (append_artifact a) (ev, s) u es' \<longleftrightarrow>
     u = () \<and> es' = (ev\<lparr>ev_artifacts := ev_artifacts ev @ [a]\<rparr>, s)"
  by (auto simp: runs_def append_artifact_def)

lemma runs_finish_evidence [simp]:
  "runs finish_evidence (ev, s) u es' \<longleftrightarrow>
     u = () \<and> es' = (ev\<lparr>ev_artifacts := sort_key art_path (ev_artifacts ev), ev_raw_artifacts := []\<rparr>, s)"
  by (auto simp: runs_def finish_evidence_def)

lemma persist_raw_stores:
  assumes "runs (persist_raw_artifact b64 h dir profile' directory raw) (ev, s) u (ev', s')"
  shows "\<exists>a. ev' = ev\<lparr>ev_artifacts := ev_artifacts ev @ [a]\<rparr> \<and> stored_as b64 h s' raw a"
proof -
  from assms obtain c where c: "raw_artifact_bytes b64 raw = Inr c"
    and w: "runs (write_new_private_root_file (join_paths [directory, safe_artifact_name (raw_name raw)])
       c) s () s'"
    and ev': "ev' = ev\<lparr>ev_artifacts := ev_artifacts ev @
       [\<lparr>art_path = join_paths [directory, safe_artifact_name (raw_name raw)], art_sha256 = h c,
         art_media_type = raw_media_type raw\<rparr>]\<rparr>"
    by (cases "raw_artifact_bytes b64 raw") (auto simp: persist_raw_artifact_def Let_def)
  have "stored_file s' (join_paths [directory, safe_artifact_name (raw_name raw)]) = Some c"
    using w by (rule evidence.put_stores)
  with c ev' show ?thesis by (auto simp: stored_as_def)
qed

lemma persist_raws_store:
  assumes "runs (op_each (persist_raw_artifact b64 h dir profile' directory) raws) (ev, s) u (ev', s')"
  shows "\<exists>as. ev' = ev\<lparr>ev_artifacts := ev_artifacts ev @ as\<rparr> \<and> list_all2 (stored_as b64 h s') raws as"
  using assms
proof (induction raws arbitrary: ev s)
  case (Cons raw raws)
  then obtain es1 where first: "runs (persist_raw_artifact b64 h dir profile' directory raw) (ev, s) () es1"
    and rest: "runs (op_each (persist_raw_artifact b64 h dir profile' directory) raws) es1 u (ev', s')"
    by auto
  obtain ev1 s1 where es1: "es1 = (ev1, s1)" by (cases es1)
  obtain a where a: "ev1 = ev\<lparr>ev_artifacts := ev_artifacts ev @ [a]\<rparr>" "stored_as b64 h s1 raw a"
    using persist_raw_stores[OF first[unfolded es1]] by blast
  obtain as where as: "ev' = ev1\<lparr>ev_artifacts := ev_artifacts ev1 @ as\<rparr>"
    "list_all2 (stored_as b64 h s') raws as"
    using Cons.IH rest es1 by blast
  have "keeps_files s1 s'"
    using preserves_runs[OF care_snd.keep_each[OF careful_persist_raw] rest] es1
    by (simp add: careful_snd_def careful_def)
  then have "stored_as b64 h s' raw a" using a(2) by (rule stored_as_keeps)
  with a as show ?case by (intro exI[of _ "a # as"]) simp
qed auto

subsection \<open>Properties\<close>

text \<open>Evidence is never overwritten and never escapes.  Whatever system calls fail, persisting a
  profile's evidence, persisting a cycle's artifacts and archiving a report keep every existing file
  as it is, and every path they create consists of plain components below the evidence root.\<close>

theorem evidence_operations_careful:
  "careful s (snd (snd (persist_command_evidence b64 h dir cycle_id name phase (ev, s))))
   \<and> careful s (snd (persist_cycle_artifacts h dir cycle_id artifacts s))
   \<and> careful s (snd (archive_cycle_file dir cycle_id file contents s))"
  using careful_persist_command_evidence careful_persist_cycle_artifacts careful_archive
  by (force simp: preserves_def careful_snd_def)

text \<open>C34: When persisting a profile's evidence succeeds, the report carries no raw data any more, and
  exactly one reference per raw artifact, under which the decoded contents are stored with the
  digest and media type the reference records; they are still there after the whole run.\<close>

theorem persisted_evidence_is_stored:
  assumes "runs (persist_command_evidence b64 h dir cycle_id name phase) (ev, s) u (ev', s')"
    and "ev_artifacts ev = []"
  shows "ev_raw_artifacts ev' = []
    \<and> (\<exists>as. mset as = mset (ev_artifacts ev') \<and> list_all2 (stored_as b64 h s') (ev_raw_artifacts ev) as)"
proof -
  let ?d = "join_paths [cycle_id, name, phase]"
  from assms(1) have "runs (case first_duplicate {} (map (\<lambda>raw. safe_artifact_name (raw_name raw))
        (ev_raw_artifacts ev)) of
      Some x \<Rightarrow> op_fail (''profile '' @ name @ '' '' @ phase @ '' evidence has colliding artifact name '' @ quote_text x)
    | None \<Rightarrow> op_bind (op_snd (open_evidence_root dir)) (\<lambda>_.
        op_bind (op_snd (op_wrap (\<lambda>e. ''create evidence directory: '' @ e) (ensure_private_root_dir ?d)))
        (\<lambda>_. op_bind (op_each (persist_raw_artifact b64 h dir name ?d) (ev_raw_artifacts ev))
          (\<lambda>_. finish_evidence)))) (ev, s) u (ev', s')"
    unfolding persist_command_evidence_def runs_def Let_def prod.case .
  then obtain s1 es2 where
    raws: "runs (op_each (persist_raw_artifact b64 h dir name ?d) (ev_raw_artifacts ev)) (ev, s1) () es2"
    and fin: "runs finish_evidence es2 u (ev', s')"
    by (auto split: option.splits)
  obtain ev2 s2 where es2: "es2 = (ev2, s2)" by (cases es2)
  obtain as where as: "ev2 = ev\<lparr>ev_artifacts := as\<rparr>" "list_all2 (stored_as b64 h s2) (ev_raw_artifacts ev) as"
    using persist_raws_store[OF raws[unfolded es2]] assms(2) by auto
  from fin es2 have "s' = s2" "ev_raw_artifacts ev' = []"
    "ev_artifacts ev' = sort_key art_path (ev_artifacts ev2)" by simp_all
  with as show ?thesis by auto
qed

definition sample_evidence :: command_evidence where
  "sample_evidence = no_evidence\<lparr>ev_raw_artifacts := [\<lparr>raw_name = ''o'',
     raw_media_type = ''t'', raw_encoding = [], raw_data = ''d''\<rparr>]\<rparr>"

definition sample_fs :: fs where
  "sample_fs = \<lparr>fs_root = None, fs_nodes = Map.empty, fs_tick = 0, fs_fault = (\<lambda>_. None)\<rparr>"

lemma sample_persist_ok:
  "is_ok (fst (persist_command_evidence Inr (\<lambda>b. b) ''e'' ''c'' []
     [] (sample_evidence, sample_fs)))"
  by code_simp

theorem persisted_evidence_is_stored_witness:
  "\<exists>ev' s'. runs (persist_command_evidence Inr (\<lambda>b. b) ''e'' ''c'' []
     []) (sample_evidence, sample_fs) () (ev', s') \<and> ev_raw_artifacts ev' = []"
proof -
  obtain ev' s' where run: "runs (persist_command_evidence Inr (\<lambda>b. b) ''e'' ''c''
      [] []) (sample_evidence, sample_fs) () (ev', s')"
    using sample_persist_ok unfolding is_ok_iff runs_def by (metis prod.collapse old.unit.exhaust)
  have "ev_artifacts sample_evidence = []" by (simp add: sample_evidence_def no_evidence_def)
  from persisted_evidence_is_stored[OF run this] run show ?thesis by blast
qed

end
