(* ===== verification/Runner_State.thy ===== *)
theory Runner_State imports Executor Probe_Config Scenario_Laws
begin

text \<open>
  The data of \<open>internal/runner\<close>: the \<open>Runner\<close>, the run configuration it signs, the timeline of a
  cycle, and its report; with the metrics the runner emits, as values.  A \<open>time.Time\<close> carries its
  monotonic reading, so the report's UTC instants and the private monotonic copies of the timeline
  are the same instants here (\<open>Go_Time\<close>); both fields are kept as the code has them.
\<close>

subsection \<open>The runner\<close>

record runner =
  rn_config :: "config option"
  rn_profiles :: "profile list"
  rn_scenarios :: "registry option"
  rn_scenario :: scenario
  rn_ocsp_url :: gostring
  rn_crl_url :: gostring
  rn_domain :: gostring
  rn_issuer_endpoint :: gostring
  rn_canary_bind_host :: gostring
  rn_canary_connect_host :: gostring
  rn_evidence_dir :: gostring
  rn_executor_urls :: "gostring \<rightharpoonup> gostring"

subsection \<open>The signed run configuration (\<open>runconfig.go\<close>)\<close>

record run_profile_snapshot =
  rp_name :: gostring
  rp_role :: role
  rp_method :: check_method
  rp_timeout_ns :: int
  rp_executor_url :: gostring

record network_snapshot =
  net_issuer_endpoint :: gostring
  net_ocsp_endpoint :: gostring
  net_crl_endpoint :: gostring
  net_pki_domain :: gostring
  net_canary_bind_host :: gostring
  net_canary_connect_host :: gostring

record build_identity =
  bld_go_version :: gostring
  bld_goos :: gostring
  bld_goarch :: gostring
  bld_binary_sha256 :: gostring
  bld_os_release_sha256 :: gostring
  bld_vcs_revision :: gostring
  bld_vcs_modified :: gostring
  bld_image_digest :: gostring

text \<open>\<open>profileConfigSnapshot\<close>: the part of the snapshot that its digest covers.\<close>

record profile_config_snapshot =
  pcs_poll_interval_ns :: int
  pcs_max_wait_ns :: int
  pcs_max_attempts :: int
  pcs_preflight_max_age_ns :: int
  pcs_status_freshness :: status_freshness_config
  pcs_ocsp_freshness :: ocsp_freshness_config
  pcs_crl_freshness :: crl_freshness_config
  pcs_policy :: policy_config
  pcs_enabled_profiles :: "run_profile_snapshot list"

record run_config_snapshot =
  rcs_profile_config_digest :: gostring
  rcs_profile_config :: profile_config_snapshot
  rcs_network :: network_snapshot
  rcs_build :: build_identity

text \<open>What \<open>currentBuildIdentity\<close> reads: the runtime's constants, the environment, the executable and
  its build settings.\<close>

record build_env =
  be_go_version :: gostring
  be_goos :: gostring
  be_goarch :: gostring
  be_image_digest :: gostring
  be_build_revision :: gostring
  be_executable :: "gostring option"
  be_read_file :: "gostring \<Rightarrow> gostring + bytes"
  be_build_info :: "(gostring \<times> gostring) list option"

definition file_sha256 :: "(gostring \<Rightarrow> gostring + bytes) \<Rightarrow> (bytes \<Rightarrow> gostring) \<Rightarrow> gostring \<Rightarrow> gostring"
where
  "file_sha256 read sha256_hex path = (case read path of Inl _ \<Rightarrow> []
     | Inr contents \<Rightarrow> ''sha256:'' @ sha256_hex contents)"

fun apply_build_settings :: "build_identity \<Rightarrow> (gostring \<times> gostring) list \<Rightarrow> build_identity" where
  "apply_build_settings b [] = b"
| "apply_build_settings b ((key, val) # settings) = apply_build_settings
     (if key = ''vcs.revision'' then b\<lparr>bld_vcs_revision := val\<rparr>
      else if key = ''vcs.modified'' then b\<lparr>bld_vcs_modified := val\<rparr> else b) settings"

definition current_build_identity :: "build_env \<Rightarrow> (bytes \<Rightarrow> gostring) \<Rightarrow> build_identity" where
  "current_build_identity env sha256_hex =
     (let b = \<lparr>bld_go_version = be_go_version env, bld_goos = be_goos env, bld_goarch = be_goarch env,
            bld_binary_sha256 = (case be_executable env of None \<Rightarrow> []
              | Some path \<Rightarrow> file_sha256 (be_read_file env) sha256_hex path),
            bld_os_release_sha256 = file_sha256 (be_read_file env) sha256_hex ''/etc/os-release'',
            bld_vcs_revision = [], bld_vcs_modified = [], bld_image_digest = be_image_digest env\<rparr>;
          b = (case be_build_info env of None \<Rightarrow> b | Some settings \<Rightarrow> apply_build_settings b settings)
      in if be_build_revision env \<noteq> [] then b\<lparr>bld_vcs_revision := be_build_revision env\<rparr> else b)"

text \<open>\<open>digestJSON\<close>; \<open>json.Marshal\<close> can fail.\<close>

definition digest_json :: "('a \<Rightarrow> gostring + bytes) \<Rightarrow> (bytes \<Rightarrow> gostring) \<Rightarrow> 'a \<Rightarrow> gostring + gostring" where
  "digest_json marshal sha256_hex v = ok_bind (marshal v) (\<lambda>b. Inr (''sha256:'' @ sha256_hex b))"

text \<open>The last profile of a name wins in \<open>profilesByName\<close>.\<close>

definition profile_by_name :: "runner \<Rightarrow> gostring \<rightharpoonup> profile" where
  "profile_by_name r = known_profiles (rn_profiles r)"

definition snapshot_profile :: "runner \<Rightarrow> config \<Rightarrow> gostring \<Rightarrow> run_profile_snapshot option" where
  "snapshot_profile r c name = map_option (\<lambda>p. \<lparr>rp_name = name, rp_role = prof_role p,
       rp_method = prof_method p, rp_timeout_ns = timeout_for c name,
       rp_executor_url = (case rn_executor_urls r name of None \<Rightarrow> [] | Some url \<Rightarrow> url)\<rparr>)
     (profile_by_name r name)"

definition profile_config_snapshot_of :: "runner \<Rightarrow> config \<Rightarrow> profile_config_snapshot" where
  "profile_config_snapshot_of r c = \<lparr>
     pcs_poll_interval_ns = poll_interval c, pcs_max_wait_ns = max_wait c,
     pcs_max_attempts = max_attempts c, pcs_preflight_max_age_ns = preflight_max_age c,
     pcs_status_freshness = status_freshness c, pcs_ocsp_freshness = ocsp_freshness c,
     pcs_crl_freshness = crl_freshness c, pcs_policy = policy c,
     pcs_enabled_profiles = sort_key rp_name
       (List.map_filter (snapshot_profile r c) (enabled_names c))\<rparr>"

text \<open>The digest inside the snapshot ignores a marshalling error and is then empty.\<close>

definition run_config_snapshot_of ::
  "(profile_config_snapshot \<Rightarrow> gostring + bytes) \<Rightarrow> (bytes \<Rightarrow> gostring) \<Rightarrow> build_env \<Rightarrow> runner \<Rightarrow> config
   \<Rightarrow> run_config_snapshot" where
  "run_config_snapshot_of marshal sha256_hex env r c =
     (let pc = profile_config_snapshot_of r c in
      \<lparr>rcs_profile_config_digest = (case digest_json marshal sha256_hex pc of Inl _ \<Rightarrow> [] | Inr d \<Rightarrow> d),
       rcs_profile_config = pc,
       rcs_network = \<lparr>net_issuer_endpoint = rn_issuer_endpoint r, net_ocsp_endpoint = rn_ocsp_url r,
         net_crl_endpoint = rn_crl_url r, net_pki_domain = rn_domain r,
         net_canary_bind_host = rn_canary_bind_host r,
         net_canary_connect_host = rn_canary_connect_host r\<rparr>,
       rcs_build = current_build_identity env sha256_hex\<rparr>)"

subsection \<open>Timeline and report\<close>

record timeline =
  tl_revoke_request_at :: gotime
  tl_revoke_ack_at :: gotime
  tl_ocsp_oracle_first_revoked_at :: gotime
  tl_crl_oracle_first_revoked_at :: gotime
  tl_staple_source_first_revoked_at :: gotime
  tl_staple_published_at :: gotime
  tl_ocsp_oracle_propagation_latency :: duration
  tl_crl_oracle_propagation_latency :: duration
  tl_staple_source_propagation_latency :: duration
  tl_staple_distribution_latency :: duration
  tl_revoke_request_mono :: gotime
  tl_revoke_ack_mono :: gotime
  tl_ocsp_oracle_first_revoked_mono :: gotime
  tl_crl_oracle_first_revoked_mono :: gotime
  tl_staple_source_first_revoked_mono :: gotime
  tl_staple_published_mono :: gotime

definition zero_timeline :: timeline where
  "zero_timeline = \<lparr>tl_revoke_request_at = 0, tl_revoke_ack_at = 0,
     tl_ocsp_oracle_first_revoked_at = 0, tl_crl_oracle_first_revoked_at = 0,
     tl_staple_source_first_revoked_at = 0, tl_staple_published_at = 0,
     tl_ocsp_oracle_propagation_latency = 0, tl_crl_oracle_propagation_latency = 0,
     tl_staple_source_propagation_latency = 0, tl_staple_distribution_latency = 0,
     tl_revoke_request_mono = 0, tl_revoke_ack_mono = 0, tl_ocsp_oracle_first_revoked_mono = 0,
     tl_crl_oracle_first_revoked_mono = 0, tl_staple_source_first_revoked_mono = 0,
     tl_staple_published_mono = 0\<rparr>"

datatype cycle_phase = PhaseIssue | PhaseCanary | PhasePreflight | PhaseRevoke | PhaseObserve
  | PhasePersistEvidence | PhaseEvaluate | PhaseComplete

record cleanup_status =
  cl_attempted :: bool
  cl_revoked :: bool
  cl_error :: gostring

record cycle_report =
  rep_cycle_id :: gostring
  rep_scenario :: scenario
  rep_scenario_digest :: gostring
  rep_run_config :: run_config_snapshot
  rep_run_config_digest :: gostring
  rep_issued_leaf_sha256 :: gostring
  rep_valid :: bool
  rep_phase :: cycle_phase
  rep_revoke_ack_at :: gotime
  rep_cleanup :: cleanup_status
  rep_timeline :: timeline
  rep_artifacts :: "artifact list"
  rep_preflight :: "preflight_result list"
  rep_results :: "result list"
  rep_error :: gostring

text \<open>\<open>CanonicalJSON\<close>, whose receiver may be nil.\<close>

definition canonical_json ::
  "(cycle_report \<Rightarrow> gostring + bytes) \<Rightarrow> cycle_report option \<Rightarrow> gostring + bytes" where
  "canonical_json marshal rep = (case rep of
       None \<Rightarrow> Inl ''runner: cannot serialize a nil cycle report''
     | Some r \<Rightarrow> (case marshal r of Inl e \<Rightarrow> Inl (''runner: marshal cycle report: '' @ e)
         | Inr contents \<Rightarrow> Inr contents))"

subsection \<open>Metrics\<close>

datatype cycle_result = CycleOk | CycleError | CycleRegression | CyclePolicyViolation

datatype metric_event =
    RecordObservation gostring role check_method scenario decision reason
  | DetectionSeconds gostring check_method stapling_mode duration
  | DetectedTotal gostring check_method stapling_mode
  | SoftfailTotal gostring check_method stapling_mode
  | CycleTotal cycle_result
  | PolicyViolation gostring check_method scenario decision reason
  | CertNotAfter gotime
  | LastCycleTimestamp

subsection \<open>Enabled profiles\<close>

definition enabled_profiles :: "runner \<Rightarrow> config \<Rightarrow> profile list" where
  "enabled_profiles r c = filter (\<lambda>p. is_enabled c (prof_name p)) (rn_profiles r)"

definition validate_enabled_roles :: "runner \<Rightarrow> config \<Rightarrow> gostring + unit" where
  "validate_enabled_roles r c =
     (let oracles = length (filter (\<lambda>p. prof_role p = RoleStatusOracle) (enabled_profiles r c));
          clients = length (filter (\<lambda>p. prof_role p = RoleClientExecutor) (enabled_profiles r c))
      in if oracles = 0 \<or> clients = 0
         then Inl (''runner: enabled profiles must include at least one status oracle and one client executor (oracles=''
            @ nat_text oracles @ '' clients='' @ nat_text clients @ '')'')
         else Inr ())"

lemma validate_enabled_roles_Inr:
  "validate_enabled_roles r c = Inr () \<longleftrightarrow>
     (\<exists>p \<in> set (enabled_profiles r c). prof_role p = RoleStatusOracle)
     \<and> (\<exists>p \<in> set (enabled_profiles r c). prof_role p = RoleClientExecutor)"
  by (auto simp: validate_enabled_roles_def Let_def filter_empty_conv)

end
