(* ===== verification/Poll.thy ===== *)
theory Poll imports Runner_State
begin

text \<open>
  Polling one profile after the revocation: \<open>pollOne\<close>, \<open>exhaustedResult\<close>, \<open>applyPolicy\<close> and
  \<open>harnessResult\<close> of \<open>runner.go\<close>.  The world of a poll is a script: what the clock and the probe say in
  each iteration.  The loop is \<open>run_loop\<close> of one iteration of its body, so that not returning would
  be \<open>None\<close>.
\<close>

subsection \<open>The script of a poll\<close>

text \<open>One iteration: the clock at its head (and, should the deadline have passed, at the return), at
  the first attempt, the probe's answer, the clock after it, at the deadline check and before the
  wait, and whether the context was cancelled during the wait.\<close>

record poll_step =
  ps_head :: gotime
  ps_exhausted_at :: gotime
  ps_attempt_at :: gotime
  ps_probe :: "target \<Rightarrow> observation \<times> gostring option"
  ps_now :: gotime
  ps_check :: gotime
  ps_wait :: gotime
  ps_cancelled :: "gostring option"

record poll_script =
  script_start :: gotime
  script_step :: "nat \<Rightarrow> poll_step"

definition stapling_for :: "runner \<Rightarrow> scenario \<Rightarrow> stapling_mode" where
  "stapling_for r s = (case registry_manifest (rn_scenarios r) s of None \<Rightarrow> StaplingText []
     | Some m \<Rightarrow> man_stapling m)"

definition apply_policy :: "runner \<Rightarrow> profile \<Rightarrow> scenario \<Rightarrow> result \<Rightarrow> result" where
  "apply_policy r p s res =
     (case registry_contract (rn_scenarios r) s (prof_name p) of
        None \<Rightarrow> res\<lparr>res_policy_met := False\<rparr>
      | Some c \<Rightarrow>
        let pol = con_policy c in
        res\<lparr>res_policy_decision := exp_after pol, res_policy_reasons := exp_after_reasons pol,
            res_policy_met := matches_after pol
              \<lparr>obs_decision = res_decision res, obs_reason = res_reason res,
               obs_evidence = no_evidence, obs_harness_error = []\<rparr>\<rparr>)"

text \<open>The fields every result of a poll shares.\<close>

definition poll_result :: "profile \<Rightarrow> target \<Rightarrow> gotime \<Rightarrow> result" where
  "poll_result p tgt revoked_at = zero_result\<lparr>
     res_profile := prof_name p, res_role := prof_role p, res_method := prof_method p,
     res_scenario := tgt_scenario tgt, res_certificate_serial := tgt_certificate_serial tgt,
     res_revoke_ack_at := revoked_at\<rparr>"

definition harness_result ::
  "runner \<Rightarrow> profile \<Rightarrow> target \<Rightarrow> gotime \<Rightarrow> gostring list \<Rightarrow> (gostring \<rightharpoonup> gotime) \<Rightarrow> gostring \<Rightarrow> result"
where
  "harness_result r p tgt revoked_at required satisfied err =
     (let expn = (case registry_contract (rn_scenarios r) (tgt_scenario tgt) (prof_name p) of
            None \<Rightarrow> zero_expectation | Some c \<Rightarrow> con_baseline c)
      in (poll_result p tgt revoked_at)\<lparr>
           res_decision := DecisionHarnessError, res_reason := ReasonHarnessFailure,
           res_expected_decision := exp_after expn, res_expected_reasons := exp_after_reasons expn,
           res_required_evidence := required, res_evidence_satisfied_at := satisfied,
           res_err := err\<rparr>)"

text \<open>A result with the metrics it records, in order.\<close>

definition record_observation :: "profile \<Rightarrow> target \<Rightarrow> observation \<Rightarrow> metric_event" where
  "record_observation p tgt o' = RecordObservation (prof_name p) (prof_role p) (prof_method p)
     (tgt_scenario tgt) (obs_decision o') (obs_reason o')"

definition exhausted_result ::
  "profile \<Rightarrow> target \<Rightarrow> gotime \<Rightarrow> expectation \<Rightarrow> observation \<Rightarrow> gostring option \<Rightarrow> nat \<Rightarrow> gotime
   \<Rightarrow> stapling_mode \<Rightarrow> result \<times> metric_event list" where
  "exhausted_result p tgt revoked_at expn o' last_err attempts now stapling =
     (let res = (poll_result p tgt revoked_at)\<lparr>
            res_decision := obs_decision o', res_reason := obs_reason o',
            res_expected_decision := exp_after expn, res_expected_reasons := exp_after_reasons expn,
            res_expectation_met := False, res_decision_at := now,
            res_decision_latency := time_sub now revoked_at, res_attempts := attempts,
            res_evidence := obs_evidence o'\<rparr>
      in if obs_decision o' = DecisionHarnessError then
           (res\<lparr>res_err := (case last_err of Some e \<Rightarrow> e
              | None \<Rightarrow> ''profile returned an error outcome'')\<rparr>, [record_observation p tgt o'])
         else if exp_after expn = DecisionReject \<and> obs_decision o' = DecisionAccept then
           (res, [record_observation p tgt o', SoftfailTotal (prof_name p) (prof_method p) stapling])
         else (res, [record_observation p tgt o']))"

definition detected_result ::
  "profile \<Rightarrow> target \<Rightarrow> gotime \<Rightarrow> expectation \<Rightarrow> observation \<Rightarrow> nat \<Rightarrow> gotime \<Rightarrow> stapling_mode
   \<Rightarrow> result \<times> metric_event list" where
  "detected_result p tgt revoked_at expn o' attempts now stapling =
     (let dur = time_sub now revoked_at in
      ((poll_result p tgt revoked_at)\<lparr>
         res_decision := obs_decision o', res_reason := obs_reason o',
         res_expected_decision := exp_after expn, res_expected_reasons := exp_after_reasons expn,
         res_expectation_met := True, res_decision_at := now, res_decision_latency := dur,
         res_attempts := attempts, res_evidence := obs_evidence o'\<rparr>,
       [record_observation p tgt o'] @
         (if obs_decision o' = DecisionReject \<and> obs_reason o' = ReasonRevoked
          then [DetectionSeconds (prof_name p) (prof_method p) stapling dur,
                DetectedTotal (prof_name p) (prof_method p) stapling] else [])))"

definition cancelled_result ::
  "profile \<Rightarrow> target \<Rightarrow> gotime \<Rightarrow> expectation \<Rightarrow> observation \<Rightarrow> nat \<Rightarrow> gostring \<Rightarrow> result" where
  "cancelled_result p tgt revoked_at expn o' attempts err =
     (poll_result p tgt revoked_at)\<lparr>
       res_decision := DecisionHarnessError, res_reason := ReasonHarnessFailure,
       res_expected_decision := exp_after expn, res_expected_reasons := exp_after_reasons expn,
       res_expectation_met := False, res_attempts := attempts,
       res_evidence := obs_evidence o', res_err := err\<rparr>"

subsection \<open>The loop\<close>

record poll_context =
  pctx_config :: config
  pctx_profile :: profile
  pctx_target :: target
  pctx_revoked_at :: gotime
  pctx_expectation :: expectation
  pctx_stapling :: stapling_mode
  pctx_deadline :: gotime
  pctx_script :: "nat \<Rightarrow> poll_step"

record poll_state =
  pst_attempts :: nat
  pst_first_attempt :: gotime
  pst_last_err :: "gostring option"
  pst_last_observation :: observation

text \<open>The budget of one attempt: the profile's timeout, cut at the deadline.\<close>

definition attempt_timeout :: "config \<Rightarrow> gostring \<Rightarrow> duration \<Rightarrow> duration" where
  "attempt_timeout c name remaining =
     (if remaining < timeout_for c name then remaining else timeout_for c name)"

definition attempt_observation :: "poll_context \<Rightarrow> poll_step \<Rightarrow> observation \<times> gostring option" where
  "attempt_observation ctx st =
     (let remaining = time_sub (pctx_deadline ctx) (ps_head st);
          tgt = (pctx_target ctx)\<lparr>tgt_probe_timeout := attempt_timeout (pctx_config ctx)
                  (prof_name (pctx_profile ctx)) remaining\<rparr>;
          (o', err) = ps_probe st tgt
      in (case err of None \<Rightarrow> o'
          | Some _ \<Rightarrow> o'\<lparr>obs_decision := DecisionHarnessError,
                          obs_reason := ReasonHarnessFailure\<rparr>, err))"

text \<open>One iteration: the returned result with the first attempt's instant and the metrics, or the
  next state.\<close>

definition poll_iteration ::
  "poll_context \<Rightarrow> poll_state \<Rightarrow> ((result \<times> metric_event list) \<times> gotime) + poll_state" where
  "poll_iteration ctx s =
     (let st = pctx_script ctx (pst_attempts s);
          p = pctx_profile ctx; tgt = pctx_target ctx; revoked_at = pctx_revoked_at ctx;
          expn = pctx_expectation ctx; stapling = pctx_stapling ctx
      in if time_sub (pctx_deadline ctx) (ps_head st) \<le> 0 then
           Inl (exhausted_result p tgt revoked_at expn (pst_last_observation s) (pst_last_err s)
                  (pst_attempts s) (ps_exhausted_at st) stapling, pst_first_attempt s)
         else
           let attempts = Suc (pst_attempts s);
               first_attempt = (if is_zero (pst_first_attempt s) then ps_attempt_at st
                                else pst_first_attempt s);
               (o', err) = attempt_observation ctx st
           in if matches_after expn o' then
                Inl (detected_result p tgt revoked_at expn o' attempts (ps_now st) stapling,
                     first_attempt)
              else
                let last_err = (if obs_decision o' = DecisionHarnessError then err
                                else pst_last_err s)
                in if pctx_deadline ctx < ps_check st
                      \<or> (0 < max_attempts (pctx_config ctx)
                          \<and> max_attempts (pctx_config ctx) \<le> int attempts)
                   then Inl (exhausted_result p tgt revoked_at expn o' last_err attempts (ps_now st)
                               stapling, first_attempt)
                   else
                     let remaining = time_sub (pctx_deadline ctx) (ps_wait st);
                         wait = (if remaining < poll_interval (pctx_config ctx) then remaining
                                 else poll_interval (pctx_config ctx));
                         next = \<lparr>pst_attempts = attempts, pst_first_attempt = first_attempt,
                                 pst_last_err = last_err, pst_last_observation = o'\<rparr>
                     in if wait \<le> 0 then Inr next
                        else case ps_cancelled st of
                            Some e \<Rightarrow> Inl ((cancelled_result p tgt revoked_at expn o' attempts e, []),
                                          first_attempt)
                          | None \<Rightarrow> Inr next)"

definition poll_start :: poll_state where
  "poll_start = \<lparr>pst_attempts = 0, pst_first_attempt = 0, pst_last_err = None,
     pst_last_observation = \<lparr>obs_decision = DecisionInconclusive, obs_reason = ReasonHarnessFailure,
       obs_evidence = no_evidence, obs_harness_error = []\<rparr>\<rparr>"

definition poll_context_of ::
  "runner \<Rightarrow> config \<Rightarrow> profile \<Rightarrow> target \<Rightarrow> gotime \<Rightarrow> expectation \<Rightarrow> poll_script \<Rightarrow> poll_context" where
  "poll_context_of r c p tgt revoked_at expn script =
     \<lparr>pctx_config = c, pctx_profile = p, pctx_target = tgt, pctx_revoked_at = revoked_at,
      pctx_expectation = expn, pctx_stapling = stapling_for r (tgt_scenario tgt),
      pctx_deadline = time_add (script_start script) (max_wait c),
      pctx_script = script_step script\<rparr>"

text \<open>The deferred function: the first attempt's instant, then the policy.\<close>

definition finish_poll :: "runner \<Rightarrow> profile \<Rightarrow> target \<Rightarrow> (result \<times> metric_event list) \<times> gotime
   \<Rightarrow> result \<times> metric_event list" where
  "finish_poll r p tgt out = (case out of ((res, ms), first_attempt) \<Rightarrow>
     (apply_policy r p (tgt_scenario tgt)
        (if is_zero first_attempt then res else res\<lparr>res_client_attempt_at := first_attempt\<rparr>), ms))"

definition poll_one ::
  "runner \<Rightarrow> config \<Rightarrow> profile \<Rightarrow> target \<Rightarrow> gotime \<Rightarrow> poll_script
   \<Rightarrow> (result \<times> metric_event list) option" where
  "poll_one r c p tgt revoked_at script =
     (case registry_contract (rn_scenarios r) (tgt_scenario tgt) (prof_name p) of
        None \<Rightarrow> Some (finish_poll r p tgt (((poll_result p tgt revoked_at)\<lparr>
            res_decision := DecisionHarnessError, res_reason := ReasonHarnessFailure,
            res_err := ''profile has no expectation for scenario '' @ tgt_scenario tgt\<rparr>, []), 0))
      | Some contract \<Rightarrow>
        map_option (finish_poll r p tgt)
          (run_loop (poll_iteration
             (poll_context_of r c p tgt revoked_at (con_baseline contract) script)) poll_start))"

end
