(* ===== verification/Poll_Laws.thy ===== *)
theory Poll_Laws imports Poll
begin

text \<open>
  What a poll guarantees: it returns, it stops at the first attempt that meets the expectation, and
  its result, its error and its metrics say what the attempts showed.
\<close>

subsection \<open>The attempts of a poll\<close>

abbreviation attempt :: "poll_context \<Rightarrow> nat \<Rightarrow> observation" where
  "attempt ctx i \<equiv> fst (attempt_observation ctx (pctx_script ctx i))"

definition meets :: "poll_context \<Rightarrow> nat \<Rightarrow> bool" where
  "meets ctx i \<longleftrightarrow> matches_after (pctx_expectation ctx) (attempt ctx i)"

text \<open>The loop invariant: no attempt so far met the expectation, the last observation is that of the
  last attempt, and the first attempt's instant is known.\<close>

definition polling :: "poll_context \<Rightarrow> poll_state \<Rightarrow> bool" where
  "polling ctx s \<longleftrightarrow> (\<forall>i < pst_attempts s. \<not> meets ctx i)
     \<and> (0 < pst_attempts s \<longrightarrow> pst_last_observation s = attempt ctx (pst_attempts s - 1)
          \<and> (obs_decision (pst_last_observation s) = DecisionHarnessError \<longrightarrow>
               pst_last_err s = snd (attempt_observation ctx (pctx_script ctx (pst_attempts s - 1)))))
     \<and> (pst_attempts s = 0 \<longrightarrow> s = poll_start)
     \<and> (0 < max_attempts (pctx_config ctx) \<longrightarrow>
          int (pst_attempts s) < max_attempts (pctx_config ctx))"

lemma polling_start: "polling ctx poll_start"
  by (simp add: polling_def poll_start_def)

lemma polling_next:
  assumes "polling ctx s" and "poll_iteration ctx s = Inr s'"
  shows "polling ctx s' \<and> pst_attempts s' = Suc (pst_attempts s)"
proof -
  obtain o' err where att: "attempt_observation ctx (pctx_script ctx (pst_attempts s)) = (o', err)"
    by fastforce
  from assms(2) have
    nomatch: "\<not> matches_after (pctx_expectation ctx) o'"
    and bound: "0 < max_attempts (pctx_config ctx) \<longrightarrow>
        int (Suc (pst_attempts s)) < max_attempts (pctx_config ctx)"
    and s': "pst_attempts s' = Suc (pst_attempts s)" "pst_last_observation s' = o'"
      "pst_last_err s' = (if obs_decision o' = DecisionHarnessError then err else pst_last_err s)"
    by (auto simp: poll_iteration_def Let_def att split: if_splits option.splits)
  from nomatch have "\<not> meets ctx (pst_attempts s)" by (simp add: meets_def att)
  with assms(1) have "\<forall>i < pst_attempts s'. \<not> meets ctx i"
    by (auto simp: polling_def s' less_Suc_eq)
  then show ?thesis using bound by (simp add: polling_def s' att)
qed

text \<open>What an iteration that returns has seen: the attempt that met the expectation, the last attempt
  when the deadline or the attempts are exhausted, or a cancelled wait.\<close>

abbreviation within_attempts :: "poll_context \<Rightarrow> nat \<Rightarrow> bool" where
  "within_attempts ctx n \<equiv> 0 < max_attempts (pctx_config ctx) \<longrightarrow> int n \<le> max_attempts (pctx_config ctx)"

inductive ended :: "poll_context \<Rightarrow> (result \<times> metric_event list) \<times> gotime \<Rightarrow> bool" for ctx where
  detected: "meets ctx n \<Longrightarrow> (\<And>i. i < n \<Longrightarrow> \<not> meets ctx i) \<Longrightarrow> within_attempts ctx (Suc n) \<Longrightarrow>
    ended ctx (detected_result (pctx_profile ctx) (pctx_target ctx) (pctx_revoked_at ctx)
       (pctx_expectation ctx) (attempt ctx n) (Suc n) (ps_now (pctx_script ctx n))
       (pctx_stapling ctx), fa)"
| never_attempted: "ended ctx (exhausted_result (pctx_profile ctx) (pctx_target ctx)
       (pctx_revoked_at ctx) (pctx_expectation ctx) (pst_last_observation poll_start) err 0 now
       (pctx_stapling ctx), fa)"
| exhausted: "(\<And>i. i \<le> n \<Longrightarrow> \<not> meets ctx i) \<Longrightarrow> within_attempts ctx (Suc n) \<Longrightarrow>
    (obs_decision (attempt ctx n) = DecisionHarnessError \<Longrightarrow>
       err = snd (attempt_observation ctx (pctx_script ctx n))) \<Longrightarrow>
    ended ctx (exhausted_result (pctx_profile ctx) (pctx_target ctx) (pctx_revoked_at ctx)
       (pctx_expectation ctx) (attempt ctx n) err (Suc n) now (pctx_stapling ctx), fa)"
| cancelled: "(\<And>i. i \<le> n \<Longrightarrow> \<not> meets ctx i) \<Longrightarrow> within_attempts ctx (Suc n) \<Longrightarrow>
    ps_cancelled (pctx_script ctx n) = Some e \<Longrightarrow>
    ended ctx ((cancelled_result (pctx_profile ctx) (pctx_target ctx) (pctx_revoked_at ctx)
       (pctx_expectation ctx) (attempt ctx n) (Suc n) e, []), fa)"

lemma polling_ended:
  assumes "polling ctx s" and "poll_iteration ctx s = Inl out"
  shows "ended ctx out"
proof -
  let ?n = "pst_attempts s"
  let ?st = "pctx_script ctx ?n"
  obtain o' err where att: "attempt_observation ctx ?st = (o', err)" by fastforce
  have before: "\<forall>i < ?n. \<not> meets ctx i" using assms(1) by (simp add: polling_def)
  have bound: "0 < max_attempts (pctx_config ctx) \<longrightarrow> int ?n < max_attempts (pctx_config ctx)"
    using assms(1) by (simp add: polling_def)
  then have bound': "within_attempts ctx (Suc ?n)" by auto
  define fa where "fa = (if is_zero (pst_first_attempt s) then ps_attempt_at ?st
     else pst_first_attempt s)"
  define le where "le = (if obs_decision o' = DecisionHarnessError then err else pst_last_err s)"
  consider (late) "out = (exhausted_result (pctx_profile ctx) (pctx_target ctx) (pctx_revoked_at ctx)
        (pctx_expectation ctx) (pst_last_observation s) (pst_last_err s) ?n
        (ps_exhausted_at ?st) (pctx_stapling ctx), pst_first_attempt s)"
    | (found) "matches_after (pctx_expectation ctx) o'"
      "out = (detected_result (pctx_profile ctx) (pctx_target ctx) (pctx_revoked_at ctx)
        (pctx_expectation ctx) o' (Suc ?n) (ps_now ?st) (pctx_stapling ctx), fa)"
    | (exhausted) "\<not> matches_after (pctx_expectation ctx) o'"
      "out = (exhausted_result (pctx_profile ctx) (pctx_target ctx) (pctx_revoked_at ctx)
        (pctx_expectation ctx) o' le (Suc ?n) (ps_now ?st) (pctx_stapling ctx), fa)"
    | (cancelled) e where "\<not> matches_after (pctx_expectation ctx) o'" "ps_cancelled ?st = Some e"
      "out = ((cancelled_result (pctx_profile ctx) (pctx_target ctx) (pctx_revoked_at ctx)
        (pctx_expectation ctx) o' (Suc ?n) e, []), fa)"
    using assms(2)
    by (auto simp: poll_iteration_def Let_def att fa_def le_def split: if_splits option.splits)
  then show ?thesis
  proof cases
    case late
    show ?thesis
    proof (cases ?n)
      case 0
      then have "s = poll_start" using assms(1) by (simp add: polling_def)
      then show ?thesis using late 0 by (simp add: ended.never_attempted)
    next
      case (Suc m)
      then have last: "pst_last_observation s = attempt ctx m"
        "obs_decision (attempt ctx m) = DecisionHarnessError \<Longrightarrow>
           pst_last_err s = snd (attempt_observation ctx (pctx_script ctx m))"
        using assms(1) by (auto simp: polling_def)
      show ?thesis unfolding late Suc last(1)
        by (rule ended.exhausted) (use before bound last(2) Suc in auto)
    qed
  next
    case found
    then have "meets ctx ?n" by (simp add: meets_def att)
    from ended.detected[OF this _ bound', of fa] show ?thesis using found before by (simp add: att)
  next
    case exhausted
    then have "\<not> meets ctx ?n" by (simp add: meets_def att)
    then have "i \<le> ?n \<Longrightarrow> \<not> meets ctx i" for i using before by (auto simp: le_less)
    from ended.exhausted[OF this bound', of le "ps_now ?st" fa] show ?thesis
      using exhausted by (simp add: att le_def)
  next
    case (cancelled e)
    then have "\<not> meets ctx ?n" by (simp add: meets_def att)
    then have "i \<le> ?n \<Longrightarrow> \<not> meets ctx i" for i using before by (auto simp: le_less)
    from ended.cancelled[OF this bound', of e fa] show ?thesis
      using cancelled by (simp add: att)
  qed
qed

lemma poll_loop_ended:
  assumes "run_loop (poll_iteration ctx) poll_start = Some out"
  shows "ended ctx out"
  using assms polling_start
proof (rule run_loop_invariant)
  show "polling ctx s'" if "polling ctx s" "poll_iteration ctx s = Inr s'" for s s'
    using polling_next[OF that] by (rule conjunct1)
qed (rule polling_ended)

lemma poll_loop_returns:
  assumes "0 < max_attempts (pctx_config ctx)"
  shows "\<exists>out. run_loop (poll_iteration ctx) poll_start = Some out"
proof (rule run_loop_terminates[where I = "polling ctx"
      and m = "\<lambda>s. nat (max_attempts (pctx_config ctx)) - pst_attempts s"])
  fix s s' assume s: "polling ctx s" "poll_iteration ctx s = Inr s'"
  from polling_next[OF this] have "polling ctx s'" "pst_attempts s' = Suc (pst_attempts s)" by auto
  moreover have "int (pst_attempts s) < max_attempts (pctx_config ctx)"
    using s(1) assms by (simp add: polling_def)
  ultimately show "polling ctx s' \<and> nat (max_attempts (pctx_config ctx)) - pst_attempts s'
      < nat (max_attempts (pctx_config ctx)) - pst_attempts s" by simp
qed (rule polling_start)

subsection \<open>Fields of the results\<close>

lemma poll_result_fields [simp]:
  "res_profile (poll_result p tgt t) = prof_name p" "res_role (poll_result p tgt t) = prof_role p"
  "res_method (poll_result p tgt t) = prof_method p" "res_err (poll_result p tgt t) = []"
  "res_scenario (poll_result p tgt t) = tgt_scenario tgt"
  "res_expectation_met (poll_result p tgt t) = False" "res_attempts (poll_result p tgt t) = 0"
  "res_revoke_ack_at (poll_result p tgt t) = t" "res_decision_at (poll_result p tgt t) = 0"
  by (simp_all add: poll_result_def zero_result_def)

lemma detected_fields [simp]:
  "res_profile (fst (detected_result p tgt t e o' n now st)) = prof_name p"
  "res_expectation_met (fst (detected_result p tgt t e o' n now st)) = True"
  "res_attempts (fst (detected_result p tgt t e o' n now st)) = n"
  "res_decision (fst (detected_result p tgt t e o' n now st)) = obs_decision o'"
  "res_reason (fst (detected_result p tgt t e o' n now st)) = obs_reason o'"
  "res_evidence (fst (detected_result p tgt t e o' n now st)) = obs_evidence o'"
  "res_decision_at (fst (detected_result p tgt t e o' n now st)) = now"
  "res_decision_latency (fst (detected_result p tgt t e o' n now st)) = time_sub now t"
  "res_expected_decision (fst (detected_result p tgt t e o' n now st)) = exp_after e"
  "res_err (fst (detected_result p tgt t e o' n now st)) = []"
  by (simp_all add: detected_result_def Let_def)

lemma exhausted_fields [simp]:
  "res_profile (fst (exhausted_result p tgt t e o' le n now st)) = prof_name p"
  "res_expectation_met (fst (exhausted_result p tgt t e o' le n now st)) = False"
  "res_attempts (fst (exhausted_result p tgt t e o' le n now st)) = n"
  "res_decision (fst (exhausted_result p tgt t e o' le n now st)) = obs_decision o'"
  "res_reason (fst (exhausted_result p tgt t e o' le n now st)) = obs_reason o'"
  "res_expected_decision (fst (exhausted_result p tgt t e o' le n now st)) = exp_after e"
  "res_err (fst (exhausted_result p tgt t e o' le n now st)) =
     (if obs_decision o' = DecisionHarnessError
      then case le of Some x \<Rightarrow> x | None \<Rightarrow> ''profile returned an error outcome'' else [])"
  by (simp_all add: exhausted_result_def Let_def)

lemma cancelled_fields [simp]:
  "res_profile (cancelled_result p tgt t e o' n x) = prof_name p"
  "res_expectation_met (cancelled_result p tgt t e o' n x) = False"
  "res_attempts (cancelled_result p tgt t e o' n x) = n"
  "res_decision (cancelled_result p tgt t e o' n x) = DecisionHarnessError"
  "res_expected_decision (cancelled_result p tgt t e o' n x) = exp_after e"
  "res_err (cancelled_result p tgt t e o' n x) = x"
  by (simp_all add: cancelled_result_def)

text \<open>The policy leaves everything else of a result alone.\<close>

lemma apply_policy_fields [simp]:
  "res_expectation_met (apply_policy r p s res) = res_expectation_met res"
  "res_attempts (apply_policy r p s res) = res_attempts res"
  "res_decision (apply_policy r p s res) = res_decision res"
  "res_reason (apply_policy r p s res) = res_reason res"
  "res_evidence (apply_policy r p s res) = res_evidence res"
  "res_decision_at (apply_policy r p s res) = res_decision_at res"
  "res_decision_latency (apply_policy r p s res) = res_decision_latency res"
  "res_expected_decision (apply_policy r p s res) = res_expected_decision res"
  "res_err (apply_policy r p s res) = res_err res"
  "res_profile (apply_policy r p s res) = res_profile res"
  by (simp_all add: apply_policy_def Let_def split: option.split)

lemma finish_poll_fields [simp]:
  "res_expectation_met (fst (finish_poll r p tgt out)) = res_expectation_met (fst (fst out))"
  "res_attempts (fst (finish_poll r p tgt out)) = res_attempts (fst (fst out))"
  "res_decision (fst (finish_poll r p tgt out)) = res_decision (fst (fst out))"
  "res_reason (fst (finish_poll r p tgt out)) = res_reason (fst (fst out))"
  "res_evidence (fst (finish_poll r p tgt out)) = res_evidence (fst (fst out))"
  "res_decision_at (fst (finish_poll r p tgt out)) = res_decision_at (fst (fst out))"
  "res_decision_latency (fst (finish_poll r p tgt out)) = res_decision_latency (fst (fst out))"
  "res_expected_decision (fst (finish_poll r p tgt out)) = res_expected_decision (fst (fst out))"
  "res_err (fst (finish_poll r p tgt out)) = res_err (fst (fst out))"
  "res_profile (fst (finish_poll r p tgt out)) = res_profile (fst (fst out))"
  "snd (finish_poll r p tgt out) = snd (fst out)"
  by (simp_all add: finish_poll_def split_beta)

lemma finish_poll_policy:
  "res_policy_met (fst (finish_poll r p tgt out)) \<longleftrightarrow>
     (\<exists>k. registry_contract (rn_scenarios r) (tgt_scenario tgt) (prof_name p) = Some k
        \<and> res_decision (fst (fst out)) = exp_after (con_policy k)
        \<and> reason_allowed (res_reason (fst (fst out))) (exp_after_reasons (con_policy k)))"
  by (cases out) (auto simp: finish_poll_def apply_policy_def matches_after_def Let_def split_beta
      split: option.split)

subsection \<open>Consequences of ending\<close>

lemma poll_context_of_fields [simp]:
  "pctx_config (poll_context_of r c p tgt t e script) = c"
  "pctx_profile (poll_context_of r c p tgt t e script) = p"
  "pctx_target (poll_context_of r c p tgt t e script) = tgt"
  "pctx_revoked_at (poll_context_of r c p tgt t e script) = t"
  "pctx_expectation (poll_context_of r c p tgt t e script) = e"
  "pctx_script (poll_context_of r c p tgt t e script) = script_step script"
  "pctx_stapling (poll_context_of r c p tgt t e script) = stapling_for r (tgt_scenario tgt)"
  by (simp_all add: poll_context_of_def)

text \<open>The attempts a poll made, and whether the last of them met the expectation.\<close>

lemma ended_attempts:
  assumes "ended ctx out" and "i < res_attempts (fst (fst out))"
  shows "meets ctx i \<longleftrightarrow> res_expectation_met (fst (fst out)) \<and> Suc i = res_attempts (fst (fst out))"
  using assms by (induction rule: ended.induct) (auto simp: less_Suc_eq)

lemma ended_met:
  assumes "ended ctx out" and "res_expectation_met (fst (fst out))"
  obtains n where "res_attempts (fst (fst out)) = Suc n"
    "res_decision (fst (fst out)) = obs_decision (attempt ctx n)"
    "res_reason (fst (fst out)) = obs_reason (attempt ctx n)"
    "res_evidence (fst (fst out)) = obs_evidence (attempt ctx n)"
    "res_decision_at (fst (fst out)) = ps_now (pctx_script ctx n)"
    "res_decision_latency (fst (fst out)) = time_sub (ps_now (pctx_script ctx n)) (pctx_revoked_at ctx)"
    "res_err (fst (fst out)) = []"
  using assms by (induction rule: ended.induct) auto

lemma ended_within: "ended ctx out \<Longrightarrow> within_attempts ctx (res_attempts (fst (fst out)))"
  by (induction rule: ended.induct) auto

lemma ended_expected:
  "ended ctx out \<Longrightarrow> res_expected_decision (fst (fst out)) = exp_after (pctx_expectation ctx)"
  by (induction rule: ended.induct) auto

subsection \<open>Errors and metrics\<close>

text \<open>The errors of a script: those of the probe and of the context, none with an empty text.\<close>

definition speaking_errors :: "poll_script \<Rightarrow> bool" where
  "speaking_errors script \<longleftrightarrow> (\<forall>i. ps_cancelled (script_step script i) \<noteq> Some []
     \<and> (\<forall>tgt. snd (ps_probe (script_step script i) tgt) \<noteq> Some []))"

lemma attempt_error:
  "snd (attempt_observation ctx st) = Some e \<Longrightarrow> \<exists>tgt. snd (ps_probe st tgt) = Some e"
  by (auto simp: attempt_observation_def Let_def split_beta split: option.splits)

lemma ended_error:
  assumes "ended ctx out" and "\<And>i. ps_cancelled (pctx_script ctx i) \<noteq> Some []"
    and "\<And>i tgt. snd (ps_probe (pctx_script ctx i) tgt) \<noteq> Some []"
  shows "res_err (fst (fst out)) \<noteq> [] \<longleftrightarrow>
    res_decision (fst (fst out)) = DecisionHarnessError \<and> \<not> res_expectation_met (fst (fst out))"
  using assms
proof (induction rule: ended.induct)
  case (exhausted n err now fa)
  have "err \<noteq> Some []" if "obs_decision (attempt ctx n) = DecisionHarnessError"
    using exhausted.hyps(3)[OF that] attempt_error exhausted.prems(2) by metis
  then show ?case by (auto split: option.split)
qed (auto simp: poll_start_def)

text \<open>The metrics of one poll.\<close>

lemma detected_metrics [simp]:
  "snd (detected_result p tgt t e o' n now st) = record_observation p tgt o' #
     (if obs_decision o' = DecisionReject \<and> obs_reason o' = ReasonRevoked
      then [DetectionSeconds (prof_name p) (prof_method p) st (time_sub now t),
            DetectedTotal (prof_name p) (prof_method p) st] else [])"
  by (simp add: detected_result_def Let_def)

lemma exhausted_metrics [simp]:
  "snd (exhausted_result p tgt t e o' le n now st) = record_observation p tgt o' #
     (if exp_after e = DecisionReject \<and> obs_decision o' = DecisionAccept
      then [SoftfailTotal (prof_name p) (prof_method p) st] else [])"
  by (auto simp: exhausted_result_def Let_def)

lemma ended_metrics:
  assumes "ended ctx out"
  shows "DetectedTotal n m st \<in> set (snd (fst out)) \<longleftrightarrow>
      n = prof_name (pctx_profile ctx) \<and> m = prof_method (pctx_profile ctx) \<and> st = pctx_stapling ctx
      \<and> res_expectation_met (fst (fst out)) \<and> res_decision (fst (fst out)) = DecisionReject
      \<and> res_reason (fst (fst out)) = ReasonRevoked"
    and "SoftfailTotal n m st \<in> set (snd (fst out)) \<longleftrightarrow>
      n = prof_name (pctx_profile ctx) \<and> m = prof_method (pctx_profile ctx) \<and> st = pctx_stapling ctx
      \<and> \<not> res_expectation_met (fst (fst out)) \<and> res_decision (fst (fst out)) = DecisionAccept
      \<and> exp_after (pctx_expectation ctx) = DecisionReject"
  using assms by (induction rule: ended.induct) (auto simp: record_observation_def)

subsection \<open>Properties of \<open>pollOne\<close>\<close>

lemma poll_one_ended:
  assumes "registry_contract (rn_scenarios r) (tgt_scenario tgt) (prof_name p) = Some k"
    and "poll_one r c p tgt t script = Some (res, ms)"
  obtains out where "ended (poll_context_of r c p tgt t (con_baseline k) script) out"
    "(res, ms) = finish_poll r p tgt out"
  using assms poll_loop_ended by (fastforce simp: poll_one_def)

lemma poll_one_fields:
  assumes "(res, ms) = finish_poll r p tgt out"
  shows "res = fst (finish_poll r p tgt out)" and "ms = snd (finish_poll r p tgt out)"
  using assms by (metis fst_conv, metis snd_conv)

lemma ended_profile: "ended ctx out \<Longrightarrow> res_profile (fst (fst out)) = prof_name (pctx_profile ctx)"
  by (induction rule: ended.induct) simp_all

lemma poll_one_profile:
  assumes "poll_one r c p tgt t script = Some (res, ms)"
  shows "res_profile res = prof_name p"
proof (cases "registry_contract (rn_scenarios r) (tgt_scenario tgt) (prof_name p)")
  case None
  then show ?thesis using assms by (auto simp: poll_one_def finish_poll_def)
next
  case (Some k)
  obtain out where out: "ended (poll_context_of r c p tgt t (con_baseline k) script) out"
    "(res, ms) = finish_poll r p tgt out"
    by (rule poll_one_ended[OF Some assms])
  show ?thesis unfolding poll_one_fields(1)[OF out(2)] using ended_profile[OF out(1)] by simp
qed

lemma poll_one_total:
  assumes "0 < max_attempts c"
  shows "\<exists>out. poll_one r c p tgt t script = Some out"
proof (cases "registry_contract (rn_scenarios r) (tgt_scenario tgt) (prof_name p)")
  case (Some k)
  with poll_loop_returns[of "poll_context_of r c p tgt t (con_baseline k) script"] assms
  show ?thesis by (auto simp: poll_one_def simp del: split_paired_Ex)
qed (simp add: poll_one_def del: split_paired_Ex)

text \<open>With a positive attempt limit, as every loaded configuration has, a poll returns, whatever the
  clock, the probe and the context do, after at most that many attempts.\<close>

theorem poll_returns:
  assumes "0 < max_attempts c"
  shows "\<exists>res ms. poll_one r c p tgt t script = Some (res, ms)
    \<and> int (res_attempts res) \<le> max_attempts c"
proof (cases "registry_contract (rn_scenarios r) (tgt_scenario tgt) (prof_name p)")
  case None
  then show ?thesis using assms by (simp add: poll_one_def finish_poll_def)
next
  case (Some k)
  let ?ctx = "poll_context_of r c p tgt t (con_baseline k) script"
  obtain out where out: "run_loop (poll_iteration ?ctx) poll_start = Some out"
    using poll_loop_returns[of ?ctx] assms by auto
  have "int (res_attempts (fst (finish_poll r p tgt out))) \<le> max_attempts c"
    using ended_within[OF poll_loop_ended[OF out]] assms by simp
  then show ?thesis using Some out by (cases "finish_poll r p tgt out") (simp add: poll_one_def)
qed

text \<open>A poll stops at the first attempt that meets the baseline expectation: among the attempts it
  made, the last one meets it exactly when the result says so, and no other does.  Such a result
  carries the decision, reason and evidence of that attempt, the clock reading after it, the latency
  since the revocation, and no error.\<close>

theorem poll_stops_at_first_match:
  assumes "registry_contract (rn_scenarios r) (tgt_scenario tgt) (prof_name p) = Some k"
    and "poll_one r c p tgt t script = Some (res, ms)"
    and "ctx = poll_context_of r c p tgt t (con_baseline k) script"
  shows "(\<forall>i < res_attempts res. meets ctx i \<longleftrightarrow>
        res_expectation_met res \<and> Suc i = res_attempts res)
    \<and> (res_expectation_met res \<longrightarrow> (\<exists>n. res_attempts res = Suc n
        \<and> res_decision res = obs_decision (attempt ctx n) \<and> res_reason res = obs_reason (attempt ctx n)
        \<and> res_evidence res = obs_evidence (attempt ctx n)
        \<and> res_decision_at res = ps_now (script_step script n)
        \<and> res_decision_latency res = time_sub (ps_now (script_step script n)) t
        \<and> res_err res = []))"
proof -
  obtain out where out: "ended ctx out" "(res, ms) = finish_poll r p tgt out"
    using poll_one_ended[OF assms(1,2)] assms(3) by blast
  note res = poll_one_fields(1)[OF out(2)]
  show ?thesis using ended_attempts[OF out(1)] ended_met[OF out(1)] unfolding res
    by (auto simp: assms(3))
qed

text \<open>A poll's result carries an error text exactly when it is a harness error that was not the
  expected outcome, so the cycle's evaluation sees every failed observation; it needs errors that
  print as something.\<close>

theorem poll_error_iff_harness_error:
  assumes "speaking_errors script" and "poll_one r c p tgt t script = Some (res, ms)"
  shows "res_err res \<noteq> [] \<longleftrightarrow> res_decision res = DecisionHarnessError \<and> \<not> res_expectation_met res"
proof (cases "registry_contract (rn_scenarios r) (tgt_scenario tgt) (prof_name p)")
  case None
  then show ?thesis using assms(2) by (auto simp: poll_one_def finish_poll_def)
next
  case (Some k)
  then obtain out where out: "ended (poll_context_of r c p tgt t (con_baseline k) script) out"
    "(res, ms) = finish_poll r p tgt out"
    using poll_one_ended assms(2) by blast
  from ended_error[OF out(1)] assms(1) show ?thesis
    unfolding poll_one_fields(1)[OF out(2)] by (simp add: speaking_errors_def)
qed

text \<open>The alarms of a poll are exact: a detection is counted exactly for an expected \<open>REJECT/REVOKED\<close>,
  a soft failure exactly when a profile that should have rejected still accepts at the end.\<close>

theorem poll_metrics_exact:
  assumes "registry_contract (rn_scenarios r) (tgt_scenario tgt) (prof_name p) = Some k"
    and "poll_one r c p tgt t script = Some (res, ms)"
  shows "(DetectedTotal (prof_name p) (prof_method p) (stapling_for r (tgt_scenario tgt)) \<in> set ms \<longleftrightarrow>
        res_expectation_met res \<and> res_decision res = DecisionReject \<and> res_reason res = ReasonRevoked)
    \<and> (SoftfailTotal (prof_name p) (prof_method p) (stapling_for r (tgt_scenario tgt)) \<in> set ms \<longleftrightarrow>
        \<not> res_expectation_met res \<and> res_decision res = DecisionAccept
        \<and> exp_after (con_baseline k) = DecisionReject)"
proof -
  obtain out where out: "ended (poll_context_of r c p tgt t (con_baseline k) script) out"
    "(res, ms) = finish_poll r p tgt out"
    using poll_one_ended[OF assms] by blast
  show ?thesis
    unfolding poll_one_fields[OF out(2)] using ended_metrics[OF out(1)] by auto
qed

subsection \<open>A concrete poll\<close>

text \<open>A scenario \<open>live\<close> in which the CRL oracle must turn from good to revoked and the hard-fail client
  must reject once the staple is published; the script of a poll that sees the good status once and
  then the revocation.\<close>

definition sample_contract :: contract where
  "sample_contract = \<lparr>
     con_baseline = \<lparr>exp_before = DecisionAccept, exp_before_reasons = [ReasonStatusGood],
       exp_after = DecisionReject, exp_after_reasons = [ReasonRevoked]\<rparr>,
     con_policy = zero_expectation\<lparr>exp_after := DecisionReject,
       exp_after_reasons := [ReasonRevoked]\<rparr>\<rparr>"

definition sample_manifest :: manifest where
  "sample_manifest = \<lparr>man_id = ''live'', man_version = 1, man_digest = ''sha256:m'',
     man_canonical_json = ''json'',
     man_dependencies = [(''crl-check'', [EvidenceIssuerAck]),
       (''go-hardfail-ocsp'', [EvidenceCRLPublished])],
     man_profiles = [(''crl-check'', sample_contract), (''go-hardfail-ocsp'', sample_contract)],
     man_stapling = StaplingOff\<rparr>"

definition sample_config :: config where
  "sample_config = \<lparr>poll_interval = second, max_wait = 60 * second, max_attempts = 3,
     preflight_max_age = 2 * second,
     cfg_profiles = [\<lparr>pc_name = ''crl-check'', pc_enabled = True, pc_timeout = second\<rparr>,
       \<lparr>pc_name = ''go-hardfail-ocsp'', pc_enabled = True, pc_timeout = second\<rparr>],
     status_freshness = \<lparr>sf_max_clock_skew = minute\<rparr>,
     ocsp_freshness = \<lparr>of_require_next_update = True, of_max_age_without_next_update = hour\<rparr>,
     crl_freshness = \<lparr>cf_require_next_update = True, cf_max_age = hour\<rparr>,
     policy = \<lparr>pol_enforce = True\<rparr>\<rparr>"

definition sample_runner :: runner where
  "sample_runner = \<lparr>rn_config = Some sample_config,
     rn_profiles = [crl_check_profile, go_tls_ocsp_profile],
     rn_scenarios = Some \<lparr>reg_manifests = [(''live'', sample_manifest)],
       reg_implementations = known_profiles [crl_check_profile, go_tls_ocsp_profile]\<rparr>,
     rn_scenario = ''live'', rn_ocsp_url = ''http://ca/ocsp'', rn_crl_url = ''http://ca/crl'',
     rn_domain = ''internal'', rn_issuer_endpoint = ''http://ca'', rn_canary_bind_host = [],
     rn_canary_connect_host = [], rn_evidence_dir = ''/evidence'', rn_executor_urls = Map.empty\<rparr>"

definition sample_step :: "nat \<Rightarrow> decision \<Rightarrow> reason \<Rightarrow> poll_step" where
  "sample_step i d r = (let at = (\<lambda>k. Instant (100 * second + int (10 * i + k) * millisecond)) in
     \<lparr>ps_head = at 0, ps_exhausted_at = at 1, ps_attempt_at = at 2,
      ps_probe = (\<lambda>_. (\<lparr>obs_decision = d, obs_reason = r, obs_evidence = no_evidence,
        obs_harness_error = []\<rparr>, None)),
      ps_now = at 3, ps_check = at 4, ps_wait = at 5, ps_cancelled = None\<rparr>)"

definition sample_script :: poll_script where
  "sample_script = \<lparr>script_start = Instant (100 * second), script_step = (\<lambda>i.
     if i = 0 then sample_step 0 DecisionAccept ReasonStatusGood
     else sample_step i DecisionReject ReasonRevoked)\<rparr>"

definition accepting_script :: poll_script where
  "accepting_script = \<lparr>script_start = Instant (100 * second),
     script_step = (\<lambda>i. sample_step i DecisionAccept ReasonStatusGood)\<rparr>"

definition failing_script :: poll_script where
  "failing_script = \<lparr>script_start = Instant (100 * second),
     script_step = (\<lambda>i. (sample_step i DecisionAccept ReasonStatusGood)
        \<lparr>ps_probe := (\<lambda>_. (harness_failure, Some ''no executor''))\<rparr>)\<rparr>"

lemma speaking_samples: "speaking_errors failing_script"
  by (simp add: speaking_errors_def failing_script_def sample_step_def Let_def)

abbreviation sample_poll :: "poll_script \<Rightarrow> (result \<times> metric_event list) option" where
  "sample_poll script \<equiv> poll_one sample_runner sample_config crl_check_profile sample_target
     (Instant (99 * second)) script"

lemma sample_contract_found:
  "registry_contract (rn_scenarios sample_runner) (tgt_scenario sample_target)
     (prof_name crl_check_profile) = Some sample_contract"
  by (simp add: registry_contract_def sample_runner_def sample_target_def crl_check_profile_def
      sample_manifest_def)

lemma sample_poll_result:
  "map_option (\<lambda>(res, ms). (res_attempts res, res_expectation_met res, res_decision res, res_reason res))
     (sample_poll sample_script) = Some (2, True, DecisionReject, ReasonRevoked)"
  by code_simp

lemma accepting_poll_result:
  "map_option (\<lambda>(res, ms). (res_attempts res, res_expectation_met res, res_decision res))
     (sample_poll accepting_script) = Some (3, False, DecisionAccept)"
  by code_simp

lemma failing_poll_result:
  "map_option (\<lambda>(res, ms). (res_attempts res, res_expectation_met res, res_decision res))
     (sample_poll failing_script) = Some (3, False, DecisionHarnessError)"
  by code_simp

theorem poll_returns_witness:
  "\<exists>res ms. sample_poll accepting_script = Some (res, ms) \<and> int (res_attempts res) \<le> 3"
  using poll_returns[of sample_config sample_runner crl_check_profile sample_target
      "Instant (99 * second)" accepting_script]
  by (simp add: sample_config_def)

theorem poll_stops_at_first_match_witness:
  "\<exists>res ms. sample_poll sample_script = Some (res, ms) \<and> res_err res = []
     \<and> \<not> meets (poll_context_of sample_runner sample_config crl_check_profile sample_target
          (Instant (99 * second)) (con_baseline sample_contract) sample_script) 0"
proof -
  obtain res ms where poll: "sample_poll sample_script = Some (res, ms)"
    "res_attempts res = 2" "res_expectation_met res"
    using sample_poll_result by auto
  from poll_stops_at_first_match[OF sample_contract_found poll(1) refl] poll(2,3)
  show ?thesis using poll(1) by auto
qed

theorem poll_error_iff_harness_error_witness:
  "\<exists>res ms. sample_poll failing_script = Some (res, ms) \<and> res_err res \<noteq> []"
proof -
  obtain res ms where poll: "sample_poll failing_script = Some (res, ms)"
    "\<not> res_expectation_met res" "res_decision res = DecisionHarnessError"
    using failing_poll_result by auto
  with poll_error_iff_harness_error[OF speaking_samples poll(1)] show ?thesis by auto
qed

theorem poll_metrics_exact_witness:
  "\<exists>res ms. sample_poll accepting_script = Some (res, ms)
     \<and> SoftfailTotal ''crl-check'' MethodCRL StaplingOff \<in> set ms"
proof -
  obtain res ms where poll: "sample_poll accepting_script = Some (res, ms)"
    "\<not> res_expectation_met res" "res_decision res = DecisionAccept"
    using accepting_poll_result by auto
  have "stapling_for sample_runner (tgt_scenario sample_target) = StaplingOff"
    "exp_after (con_baseline sample_contract) = DecisionReject"
    by (simp_all add: stapling_for_def registry_manifest_def sample_runner_def sample_target_def
        sample_manifest_def sample_contract_def)
  with poll_metrics_exact[OF sample_contract_found poll(1)] poll show ?thesis
    by (auto simp: crl_check_profile_def)
qed

end
