(* ===== verification/Preflight.thy ===== *)
theory Preflight imports Poll_Laws
begin

text \<open>
  The preflight of a cycle (\<open>preflight\<close>, \<open>validatePreflightAge\<close> of \<open>runner.go\<close>) and \<open>sortResults\<close>.  Every
  enabled profile probes once in a goroutine of its own; what the clock and the probe say to the
  \<open>i\<close>-th of them is \<open>steps i\<close>, and the order in which the goroutines send their outcome is a list of
  their numbers, so that what does not depend on the schedule is a theorem.
\<close>

subsection \<open>Durations as text\<close>

text \<open>\<open>Duration.String\<close>: the largest unit below a second that fits, else hours, minutes and seconds, with
  the fraction's trailing zeros dropped.  The micro sign is its two UTF-8 bytes.\<close>

fun padded_digits :: "nat \<Rightarrow> nat \<Rightarrow> gostring" where
  "padded_digits 0 v = []"
| "padded_digits (Suc n) v = padded_digits n (v div 10) @ [digit (v mod 10)]"

definition fraction_text :: "nat \<Rightarrow> nat \<Rightarrow> gostring" where
  "fraction_text prec v =
     (let ds = rev (dropWhile (\<lambda>c. c = CHR ''0'') (rev (padded_digits prec v)))
      in if ds = [] then [] else CHR ''.'' # ds)"

definition seconds_text :: "nat \<Rightarrow> gostring" where
  "seconds_text u =
     (let total = u div 10 ^ 9; minutes = total div 60; hours = minutes div 60;
          secs = nat_text (total mod 60) @ fraction_text 9 (u mod 10 ^ 9) @ ''s''
      in if minutes = 0 then secs
         else if hours = 0 then nat_text (minutes mod 60) @ ''m'' @ secs
         else nat_text hours @ ''h'' @ nat_text (minutes mod 60) @ ''m'' @ secs)"

definition duration_text :: "duration \<Rightarrow> gostring" where
  "duration_text d =
     (let u = nat \<bar>d\<bar>;
          body = (if u = 0 then ''0s''
            else if u < 10 ^ 3 then nat_text u @ ''ns''
            else if u < 10 ^ 6 then nat_text (u div 10 ^ 3) @ fraction_text 3 (u mod 10 ^ 3)
              @ [CHR 0xC2, CHR 0xB5, CHR ''s'']
            else if u < 10 ^ 9 then nat_text (u div 10 ^ 6) @ fraction_text 6 (u mod 10 ^ 6) @ ''ms''
            else seconds_text u)
      in if d < 0 then ''-'' @ body else body)"

subsection \<open>One probe per enabled profile\<close>

record preflight_step =
  pfs_started :: gotime
  pfs_probe :: "target \<Rightarrow> observation \<times> gostring option"
  pfs_observed :: gotime

record preflight_outcome =
  po_result :: preflight_result
  po_observed_mono :: gotime
  po_probe_err :: "gostring option"

definition preflight_attempt ::
  "config \<Rightarrow> target \<Rightarrow> profile \<Rightarrow> expectation \<Rightarrow> preflight_step \<Rightarrow> preflight_outcome" where
  "preflight_attempt c tgt p expn st =
     (let (seen, err) = pfs_probe st (tgt\<lparr>tgt_probe_timeout := timeout_for c (prof_name p)\<rparr>);
          o' = (case err of None \<Rightarrow> seen
            | Some _ \<Rightarrow> seen\<lparr>obs_decision := DecisionHarnessError,
                            obs_reason := ReasonHarnessFailure\<rparr>)
      in \<lparr>po_result = \<lparr>pf_profile = prof_name p, pf_role = prof_role p, pf_method = prof_method p,
              pf_scenario = tgt_scenario tgt, pf_decision = obs_decision o', pf_reason = obs_reason o',
              pf_expected_decision = exp_before expn, pf_expected_reasons = exp_before_reasons expn,
              pf_expectation_met = matches_before expn o', pf_probe_started_at = pfs_started st,
              pf_observed_at = pfs_observed st, pf_age_at_revoke = 0,
              pf_evidence = obs_evidence o',
              pf_err = (case err of None \<Rightarrow> [] | Some e \<Rightarrow> e)\<rparr>,
          po_observed_mono = pfs_started st, po_probe_err = err\<rparr>)"

text \<open>The launching loop: the outcomes of all goroutines, in the order of the profiles, or the name of
  the first profile without a contract.  (Goroutines already running then go on; nobody reads what
  they send.)\<close>

fun launch_preflight ::
  "runner \<Rightarrow> config \<Rightarrow> target \<Rightarrow> (nat \<Rightarrow> preflight_step) \<Rightarrow> nat \<Rightarrow> profile list
   \<Rightarrow> gostring + preflight_outcome list" where
  "launch_preflight r c tgt steps i [] = Inr []"
| "launch_preflight r c tgt steps i (p # ps) =
     (case registry_contract (rn_scenarios r) (tgt_scenario tgt) (prof_name p) of
        None \<Rightarrow> Inl (prof_name p)
      | Some contract \<Rightarrow> ok_bind (launch_preflight r c tgt steps (Suc i) ps) (\<lambda>rest.
          Inr (preflight_attempt c tgt p (con_baseline contract) (steps i) # rest)))"

fun first_preflight_error ::
  "target \<Rightarrow> (gostring \<rightharpoonup> gostring) \<Rightarrow> preflight_result list \<Rightarrow> gostring option" where
  "first_preflight_error tgt errors [] = None"
| "first_preflight_error tgt errors (res # rs) =
     (case errors (pf_profile res) of
        Some e \<Rightarrow> Some (''preflight: profile '' @ pf_profile res @ '' errored: '' @ e)
      | None \<Rightarrow>
        if \<not> pf_expectation_met res
        then Some (''preflight: profile '' @ pf_profile res @ '' produced ''
               @ decision_text (pf_decision res) @ ''/'' @ reason_text (pf_reason res)
               @ '', expected '' @ decision_text (pf_expected_decision res) @ ''/[''
               @ join_with '' '' (map reason_text (pf_expected_reasons res))
               @ ''] for scenario '' @ tgt_scenario tgt)
        else first_preflight_error tgt errors rs)"

text \<open>The maps keyed by profile, as the receiving loop fills them: a later outcome of the same name
  replaces an earlier one, and a nil error is no error.\<close>

definition observed_times :: "preflight_outcome list \<Rightarrow> gostring \<rightharpoonup> gotime" where
  "observed_times os = map_of (rev (map (\<lambda>x. (pf_profile (po_result x), po_observed_mono x)) os))"

definition probe_errors :: "preflight_outcome list \<Rightarrow> gostring \<rightharpoonup> gostring" where
  "probe_errors os name = Option.bind
     (map_of (rev (map (\<lambda>x. (pf_profile (po_result x), po_probe_err x)) os)) name) (\<lambda>e. e)"

definition collect_preflight ::
  "target \<Rightarrow> preflight_outcome list
   \<Rightarrow> preflight_result list \<times> (gostring \<rightharpoonup> gotime) \<times> gostring option" where
  "collect_preflight tgt os =
     (let results = sort_key pf_profile (map po_result os)
      in (results, observed_times os, first_preflight_error tgt (probe_errors os) results))"

definition preflight ::
  "runner \<Rightarrow> config \<Rightarrow> target \<Rightarrow> (nat \<Rightarrow> preflight_step) \<Rightarrow> nat list
   \<Rightarrow> preflight_result list \<times> (gostring \<rightharpoonup> gotime) \<times> gostring option" where
  "preflight r c tgt steps order =
     (case launch_preflight r c tgt steps 0 (enabled_profiles r c) of
        Inl name \<Rightarrow> ([], Map.empty, Some (''preflight: profile '' @ name
           @ '' has no expectation for scenario '' @ tgt_scenario tgt))
      | Inr os \<Rightarrow> collect_preflight tgt (map (\<lambda>i. os ! i) order))"

subsection \<open>The age of the preflight\<close>

text \<open>The loop ranges over a map: \<open>names\<close> is its iteration order, and only the error's text depends on
  it.\<close>

fun check_preflight_ages ::
  "(gostring \<rightharpoonup> gotime) \<Rightarrow> gotime \<Rightarrow> duration \<Rightarrow> gostring list \<Rightarrow> gostring option" where
  "check_preflight_ages observed now max_age [] = None"
| "check_preflight_ages observed now max_age (name # names) =
     (case observed name of
        None \<Rightarrow> check_preflight_ages observed now max_age names
      | Some at \<Rightarrow>
        if is_zero at then Some (''preflight: profile '' @ name @ '' has no probe-start timestamp'')
        else if max_age < time_sub now at
        then Some (''preflight: profile '' @ name @ '' probe started ''
               @ duration_text (time_sub now at) @ '' ago, exceeds '' @ duration_text max_age)
        else check_preflight_ages observed now max_age names)"

definition validate_preflight_age ::
  "gostring list \<Rightarrow> (gostring \<rightharpoonup> gotime) \<Rightarrow> gotime \<Rightarrow> duration \<Rightarrow> gostring option" where
  "validate_preflight_age names observed now max_age =
     (if max_age \<le> 0 then Some ''preflight: max age must be positive''
      else check_preflight_ages observed now max_age names)"

subsection \<open>Sorting results\<close>

definition result_key :: "result \<Rightarrow> gostring \<times> gostring \<times> gostring" where
  "result_key res = (res_profile res, role_text (res_role res), method_text (res_method res))"

definition sort_results :: "result list \<Rightarrow> result list" where
  "sort_results = sort_key result_key"

subsection \<open>Laws\<close>

lemma sort_key_map_eq: "map f (sort_key f xs) = sort (map f xs)"
  by (rule properties_for_sort[symmetric]) simp_all

definition wf_preflight_outcome ::
  "runner \<Rightarrow> config \<Rightarrow> target \<Rightarrow> profile \<Rightarrow> preflight_step \<Rightarrow> preflight_outcome \<Rightarrow> bool" where
  "wf_preflight_outcome r c tgt p st x \<longleftrightarrow>
     (\<exists>contract. registry_contract (rn_scenarios r) (tgt_scenario tgt) (prof_name p) = Some contract
        \<and> x = preflight_attempt c tgt p (con_baseline contract) st)"

lemma launch_preflight_Inr:
  "launch_preflight r c tgt steps i ps = Inr os \<longleftrightarrow>
     list_all2 (\<lambda>(k, p) x. wf_preflight_outcome r c tgt p (steps k) x) (enumerate i ps) os"
proof (induction ps arbitrary: i os)
  case Nil
  then show ?case by auto
next
  case (Cons p ps)
  show ?case
    by (cases "registry_contract (rn_scenarios r) (tgt_scenario tgt) (prof_name p)")
      (auto simp: Cons list_all2_Cons1 wf_preflight_outcome_def)
qed

lemma launch_preflight_Inl:
  "(\<exists>name. launch_preflight r c tgt steps i ps = Inl name) \<longleftrightarrow>
     (\<exists>p \<in> set ps. registry_contract (rn_scenarios r) (tgt_scenario tgt) (prof_name p) = None)"
proof (induction ps arbitrary: i)
  case (Cons p ps)
  show ?case
  proof (cases "registry_contract (rn_scenarios r) (tgt_scenario tgt) (prof_name p)")
    case (Some contract)
    then show ?thesis using Cons[of "Suc i"]
      by (cases "launch_preflight r c tgt steps (Suc i) ps") auto
  qed simp
qed simp

lemma preflight_attempt_profile [simp]:
  "pf_profile (po_result (preflight_attempt c tgt p e st)) = prof_name p"
  "po_observed_mono (preflight_attempt c tgt p e st) = pfs_started st"
  "po_probe_err (preflight_attempt c tgt p e st)
     = snd (pfs_probe st (tgt\<lparr>tgt_probe_timeout := timeout_for c (prof_name p)\<rparr>))"
  by (simp_all add: preflight_attempt_def Let_def split: prod.split)

lemma preflight_attempt_met:
  "po_probe_err (preflight_attempt c tgt p e st) = None \<Longrightarrow>
     pf_expectation_met (po_result (preflight_attempt c tgt p e st))
       = matches_before e (fst (pfs_probe st (tgt\<lparr>tgt_probe_timeout := timeout_for c (prof_name p)\<rparr>)))"
  by (auto simp: preflight_attempt_def Let_def split: prod.split)

lemma launched_names:
  assumes "launch_preflight r c tgt steps i ps = Inr os"
  shows "map (\<lambda>x. pf_profile (po_result x)) os = map prof_name ps" and "length os = length ps"
proof -
  have all: "list_all2 (\<lambda>(k, p) x. wf_preflight_outcome r c tgt p (steps k) x) (enumerate i ps) os"
    using assms by (simp add: launch_preflight_Inr)
  show "length os = length ps" using list_all2_lengthD[OF all] by simp
  show "map (\<lambda>x. pf_profile (po_result x)) os = map prof_name ps"
    using all by (intro nth_equalityI)
      (auto simp: list_all2_conv_all_nth nth_enumerate_eq wf_preflight_outcome_def)
qed

lemma first_preflight_error_None:
  "first_preflight_error tgt errors rs = None \<longleftrightarrow>
     (\<forall>res \<in> set rs. errors (pf_profile res) = None \<and> pf_expectation_met res)"
  by (induction rs) (auto split: option.splits)

text \<open>With one outcome per name, the maps hold each outcome's own entry.\<close>

lemma observed_times_own:
  assumes "distinct (map (\<lambda>x. pf_profile (po_result x)) os)" and "x \<in> set os"
  shows "observed_times os (pf_profile (po_result x)) = Some (po_observed_mono x)"
    and "probe_errors os (pf_profile (po_result x)) = po_probe_err x"
proof -
  have key: "distinct (map fst (rev (map (\<lambda>x. (pf_profile (po_result x), f x)) os)))"
    for f :: "preflight_outcome \<Rightarrow> 'b"
    using assms(1) by (simp add: rev_map[symmetric] comp_def)
  show "observed_times os (pf_profile (po_result x)) = Some (po_observed_mono x)"
    using assms(2) by (auto simp: observed_times_def intro!: map_of_is_SomeI[OF key])
  have "map_of (rev (map (\<lambda>x. (pf_profile (po_result x), po_probe_err x)) os))
      (pf_profile (po_result x)) = Some (po_probe_err x)"
    using assms(2) by (auto intro!: map_of_is_SomeI[OF key])
  then show "probe_errors os (pf_profile (po_result x)) = po_probe_err x"
    by (simp add: probe_errors_def)
qed

lemma collect_preflight_perm:
  assumes "mset os = mset os'" and "distinct (map (\<lambda>x. pf_profile (po_result x)) os)"
  shows "collect_preflight tgt os = collect_preflight tgt os'"
proof -
  have maps: "map_of (rev (map (\<lambda>x. (pf_profile (po_result x), f x)) os))
      = map_of (rev (map (\<lambda>x. (pf_profile (po_result x), f x)) os'))" for f :: "preflight_outcome \<Rightarrow> 'b"
    using assms by (intro map_of_perm_eq) (simp_all add: rev_map[symmetric] comp_def)
  have "inj_on pf_profile (set (map po_result os))"
    using assms(2) by (auto simp: distinct_map inj_on_def)
  then have "sort_key pf_profile (map po_result os) = sort_key pf_profile (map po_result os')"
    using assms(1) by (intro sort_key_perm_eq) simp_all
  moreover have "observed_times os = observed_times os'" "probe_errors os = probe_errors os'"
    by (simp_all add: observed_times_def probe_errors_def fun_eq_iff maps)
  ultimately show ?thesis by (simp add: collect_preflight_def)
qed

lemma mset_arrival:
  assumes "mset order = mset [0..<length xs]"
  shows "mset (map (\<lambda>i. xs ! i) order) = mset xs"
proof -
  have "mset (map (\<lambda>i. xs ! i) order) = mset (map (\<lambda>i. xs ! i) [0..<length xs])"
    using assms by simp
  then show ?thesis by (simp only: map_nth)
qed

lemma preflight_in_order:
  assumes "distinct (map prof_name (enabled_profiles r c))"
    and "mset order = mset [0..<length (enabled_profiles r c)]"
  shows "preflight r c tgt steps order = (case launch_preflight r c tgt steps 0 (enabled_profiles r c) of
      Inl name \<Rightarrow> ([], Map.empty, Some (''preflight: profile '' @ name
         @ '' has no expectation for scenario '' @ tgt_scenario tgt))
    | Inr os \<Rightarrow> collect_preflight tgt os)"
proof (cases "launch_preflight r c tgt steps 0 (enabled_profiles r c)")
  case (Inr os)
  have same: "mset (map (\<lambda>i. os ! i) order) = mset os"
    using assms(2) launched_names(2)[OF Inr] by (intro mset_arrival) simp
  have "distinct (map (\<lambda>x. pf_profile (po_result x)) os)"
    using assms(1) launched_names(1)[OF Inr] by simp
  from collect_preflight_perm[OF same[symmetric] this] Inr show ?thesis by (simp add: preflight_def)
qed (simp add: preflight_def)

lemma check_preflight_ages_None:
  "check_preflight_ages observed now max_age names = None \<longleftrightarrow>
     (\<forall>name \<in> set names. \<forall>at. observed name = Some at \<longrightarrow> at \<noteq> 0 \<and> time_sub now at \<le> max_age)"
  by (induction names) (auto split: option.splits)

lemma validate_preflight_age_None:
  assumes "set names = dom observed"
  shows "validate_preflight_age names observed now max_age = None \<longleftrightarrow>
    0 < max_age \<and> (\<forall>name at. observed name = Some at \<longrightarrow> at \<noteq> 0 \<and> time_sub now at \<le> max_age)"
  using assms by (auto simp: validate_preflight_age_def check_preflight_ages_None domIff)

definition preflight_ok :: "runner \<Rightarrow> config \<Rightarrow> target \<Rightarrow> profile \<Rightarrow> preflight_step \<Rightarrow> bool" where
  "preflight_ok r c tgt p st =
     (case registry_contract (rn_scenarios r) (tgt_scenario tgt) (prof_name p) of None \<Rightarrow> False
      | Some contract \<Rightarrow>
        (case pfs_probe st (tgt\<lparr>tgt_probe_timeout := timeout_for c (prof_name p)\<rparr>) of
           (seen, err) \<Rightarrow> err = None \<and> matches_before (con_baseline contract) seen))"

lemma wf_preflight_outcome_ok:
  "wf_preflight_outcome r c tgt p st x \<Longrightarrow>
     (po_probe_err x = None \<and> pf_expectation_met (po_result x)) = preflight_ok r c tgt p st"
  by (cases "pfs_probe st (tgt\<lparr>tgt_probe_timeout := timeout_for c (prof_name p)\<rparr>)")
    (auto simp: wf_preflight_outcome_def preflight_ok_def preflight_attempt_met)

lemma collect_preflight_passes:
  assumes launch: "launch_preflight r c tgt steps 0 ps = Inr os" and dist: "distinct (map prof_name ps)"
  shows "snd (snd (collect_preflight tgt os)) = None
    \<longleftrightarrow> (\<forall>i < length ps. preflight_ok r c tgt (ps ! i) (steps i))"
proof -
  have d: "distinct (map (\<lambda>x. pf_profile (po_result x)) os)"
    using launched_names(1)[OF launch] dist by simp
  have "snd (snd (collect_preflight tgt os)) = None \<longleftrightarrow>
      (\<forall>x \<in> set os. po_probe_err x = None \<and> pf_expectation_met (po_result x))"
    using observed_times_own(2)[OF d]
    by (simp add: collect_preflight_def Let_def first_preflight_error_None)
  also have "\<dots> \<longleftrightarrow> (\<forall>i < length os. po_probe_err (os ! i) = None \<and> pf_expectation_met (po_result (os ! i)))"
    by (simp add: all_set_conv_all_nth)
  also have "\<dots> \<longleftrightarrow> (\<forall>i < length ps. preflight_ok r c tgt (ps ! i) (steps i))"
    using launch launched_names(2)[OF launch] wf_preflight_outcome_ok
    by (fastforce simp: launch_preflight_Inr list_all2_conv_all_nth nth_enumerate_eq)
  finally show ?thesis .
qed

lemma preflight_passes:
  assumes "distinct (map prof_name (enabled_profiles r c))"
    and "mset order = mset [0..<length (enabled_profiles r c)]"
  shows "snd (snd (preflight r c tgt steps order)) = None \<longleftrightarrow>
    (\<forall>i < length (enabled_profiles r c). preflight_ok r c tgt (enabled_profiles r c ! i) (steps i))"
proof (cases "launch_preflight r c tgt steps 0 (enabled_profiles r c)")
  case (Inl name)
  then obtain p where "p \<in> set (enabled_profiles r c)"
    "registry_contract (rn_scenarios r) (tgt_scenario tgt) (prof_name p) = None"
    using launch_preflight_Inl by blast
  then show ?thesis using Inl
    by (auto simp: preflight_in_order[OF assms] preflight_ok_def in_set_conv_nth)
next
  case (Inr os)
  then show ?thesis
    by (simp add: preflight_in_order[OF assms] collect_preflight_passes[OF Inr assms(1)])
qed

text \<open>The preflight passes exactly if every enabled profile has a contract, its probe (given the
  profile's own timeout) raised no error, and what it saw before the revocation is what the contract
  expects; whichever profile fails, and in whatever order the goroutines finish, it fails.\<close>

theorem preflight_passes_exactly:
  assumes "distinct (map prof_name (enabled_profiles r c))"
    and "mset order = mset [0..<length (enabled_profiles r c)]"
  shows "snd (snd (preflight r c tgt steps order)) = None \<longleftrightarrow>
    (\<forall>i < length (enabled_profiles r c). preflight_ok r c tgt (enabled_profiles r c ! i) (steps i))"
  by (rule preflight_passes[OF assms])

text \<open>Everything the preflight returns (the signed results, the instants its age is computed from,
  and the error) is the same for every order in which the goroutines finish.\<close>

theorem preflight_schedule_independent:
  assumes "distinct (map prof_name (enabled_profiles r c))"
    and "mset order = mset [0..<length (enabled_profiles r c)]"
    and "mset order' = mset [0..<length (enabled_profiles r c)]"
  shows "preflight r c tgt steps order = preflight r c tgt steps order'"
  by (simp add: preflight_in_order[OF assms(1,2)] preflight_in_order[OF assms(1,3)])

text \<open>The age of a passed preflight is the age of every enabled profile's probe.\<close>

lemma preflight_observed:
  assumes "distinct (map prof_name (enabled_profiles r c))"
    and "mset order = mset [0..<length (enabled_profiles r c)]"
    and "preflight r c tgt steps order = (results, observed, None)"
  shows "dom observed = prof_name ` set (enabled_profiles r c)"
    and "i < length (enabled_profiles r c) \<Longrightarrow>
      observed (prof_name (enabled_profiles r c ! i)) = Some (pfs_started (steps i))"
    and "map pf_profile results = sort (map prof_name (enabled_profiles r c))"
proof -
  let ?ps = "enabled_profiles r c"
  obtain os where os: "launch_preflight r c tgt steps 0 ?ps = Inr os"
    "collect_preflight tgt os = (results, observed, None)"
    using assms(3) by (auto simp: preflight_in_order[OF assms(1,2)] split: sum.splits)
  have names: "map (\<lambda>x. pf_profile (po_result x)) os = map prof_name ?ps" "length os = length ?ps"
    using launched_names[OF os(1)] .
  have obs: "observed = observed_times os" "results = sort_key pf_profile (map po_result os)"
    using os(2) by (auto simp: collect_preflight_def Let_def)
  have "dom (observed_times os) = set (map (\<lambda>x. pf_profile (po_result x)) os)"
    by (auto simp: observed_times_def dom_map_of_conv_image_fst image_image)
  then show "dom observed = prof_name ` set ?ps" using obs names(1) by simp
  have "map pf_profile results = sort (map pf_profile (map po_result os))"
    unfolding obs(2) by (rule sort_key_map_eq)
  then show "map pf_profile results = sort (map prof_name ?ps)" using names(1) by (simp add: comp_def)
  show "observed (prof_name (?ps ! i)) = Some (pfs_started (steps i))" if i: "i < length ?ps"
  proof -
    have "pf_profile (po_result (os ! i)) = prof_name (?ps ! i)"
      using names i by (metis nth_map)
    moreover have "po_observed_mono (os ! i) = pfs_started (steps i)"
      using os(1) i names(2)
      by (auto simp: launch_preflight_Inr list_all2_conv_all_nth nth_enumerate_eq wf_preflight_outcome_def)
    moreover have "os ! i \<in> set os" using i names(2) by simp
    ultimately show ?thesis using observed_times_own(1)[of os "os ! i"] assms(1) names(1) obs(1) by simp
  qed
qed

subsection \<open>Examples\<close>

definition sample_preflight_steps :: "nat \<Rightarrow> preflight_step" where
  "sample_preflight_steps i = \<lparr>pfs_started = Instant ((100 + int i) * second),
     pfs_probe = (\<lambda>_. (\<lparr>obs_decision = DecisionAccept, obs_reason = ReasonStatusGood,
        obs_evidence = no_evidence, obs_harness_error = []\<rparr>, None)),
     pfs_observed = Instant ((101 + int i) * second)\<rparr>"

lemma sample_enabled: "enabled_profiles sample_runner sample_config = [crl_check_profile, go_tls_ocsp_profile]"
  by (simp add: enabled_profiles_def sample_runner_def sample_config_def is_enabled_def
      crl_check_profile_def go_tls_ocsp_profile_def)

lemma sample_names_distinct: "distinct (map prof_name (enabled_profiles sample_runner sample_config))"
  by (simp add: sample_enabled crl_check_profile_def go_tls_ocsp_profile_def)

lemma sample_contracts:
  "registry_contract (rn_scenarios sample_runner) ''live'' (prof_name crl_check_profile) = Some sample_contract"
  "registry_contract (rn_scenarios sample_runner) ''live'' (prof_name go_tls_ocsp_profile) = Some sample_contract"
  by (simp_all add: registry_contract_def sample_runner_def crl_check_profile_def
      go_tls_ocsp_profile_def sample_manifest_def)

theorem preflight_passes_exactly_witness:
  "snd (snd (preflight sample_runner sample_config sample_target sample_preflight_steps [1, 0])) = None"
proof -
  have ok: "preflight_ok sample_runner sample_config sample_target p (sample_preflight_steps i)"
    if "p \<in> {crl_check_profile, go_tls_ocsp_profile}" for p i
    using that sample_contracts
    by (auto simp: preflight_ok_def sample_target_def sample_preflight_steps_def sample_contract_def
        matches_before_def)
  have "mset [1, 0] = mset [0..<length (enabled_profiles sample_runner sample_config)]"
    by (simp add: sample_enabled upt_rec)
  from preflight_passes_exactly[OF sample_names_distinct this] show ?thesis
    using ok by (auto simp: sample_enabled less_Suc_eq)
qed

theorem preflight_schedule_independent_witness:
  "preflight sample_runner sample_config sample_target sample_preflight_steps [1, 0]
     = preflight sample_runner sample_config sample_target sample_preflight_steps [0, 1]"
  by (rule preflight_schedule_independent[OF sample_names_distinct])
    (simp_all add: sample_enabled upt_rec)

end
