(* ===== verification/Barriers.thy ===== *)
theory Barriers imports Poll
begin

text \<open>
  The evidence boundaries of a cycle in \<open>runner.go\<close>: the \<open>evidenceBarrier\<close>, which fires once, what a
  client waits for, and what the oracles publish.  Channels and \<open>sync.Once\<close> become the \<open>ready\<close> flag:
  it is set exactly when \<open>once\<close> has fired, which closes the channel.
\<close>

subsection \<open>Cells that are written once\<close>

text \<open>The contract a waiting client relies on: nothing is read before the cell fires, the first value
  stays, and firing again changes nothing.\<close>

locale once_cell =
  fixes fresh :: 'cell
    and fire :: "'v \<Rightarrow> 'cell \<Rightarrow> 'cell"
    and ready :: "'cell \<Rightarrow> bool"
    and content :: "'cell \<Rightarrow> 'v"
  assumes fresh_not_ready: "\<not> ready fresh"
    and fire_ready: "ready (fire v b)"
    and fire_first: "\<not> ready b \<Longrightarrow> content (fire v b) = v"
    and fire_again: "ready b \<Longrightarrow> fire v b = b"
begin

lemma fires_stable: "ready b \<Longrightarrow> fold fire vs b = b"
  by (induction vs) (simp_all add: fire_again)

lemma first_fire_wins: "fold fire (v # vs) fresh = fire v fresh"
  by (simp add: fires_stable fire_ready)

lemma content_is_first: "vs \<noteq> [] \<Longrightarrow> content (fold fire vs fresh) = hd vs"
  by (cases vs) (simp_all add: fires_stable fire_ready fire_first fresh_not_ready)

lemma ready_iff_fired: "ready (fold fire vs fresh) \<longleftrightarrow> vs \<noteq> []"
  by (cases vs) (simp_all add: fires_stable fire_ready fresh_not_ready)

end

subsection \<open>The evidence barrier\<close>

record evidence_barrier =
  bar_ready :: bool
  bar_at :: gotime
  bar_err :: "gostring option"

definition new_evidence_barrier :: evidence_barrier where
  "new_evidence_barrier = \<lparr>bar_ready = False, bar_at = 0, bar_err = None\<rparr>"

definition satisfy :: "gotime \<Rightarrow> evidence_barrier \<Rightarrow> evidence_barrier" where
  "satisfy at b = (if bar_ready b then b else b\<lparr>bar_at := at, bar_ready := True\<rparr>)"

definition fail_barrier :: "gostring option \<Rightarrow> evidence_barrier \<Rightarrow> evidence_barrier" where
  "fail_barrier err b =
     (let e = (case err of None \<Rightarrow> ''evidence dependency was not satisfied'' | Some e \<Rightarrow> e)
      in if bar_ready b then b else b\<lparr>bar_err := Some e, bar_ready := True\<rparr>)"

definition barrier_state :: "evidence_barrier \<Rightarrow> gotime \<times> gostring option" where
  "barrier_state b = (bar_at b, bar_err b)"

text \<open>Firing with either outcome; on a fresh barrier the pair read back is the one written.\<close>

definition fire_barrier :: "gostring + gotime \<Rightarrow> evidence_barrier \<Rightarrow> evidence_barrier" where
  "fire_barrier v = (case v of Inl e \<Rightarrow> fail_barrier (Some e) | Inr at \<Rightarrow> satisfy at)"

definition barrier_content :: "evidence_barrier \<Rightarrow> gostring + gotime" where
  "barrier_content b = (case bar_err b of Some e \<Rightarrow> Inl e | None \<Rightarrow> Inr (bar_at b))"

text \<open>The reachable barriers: those that have not fired carry nothing.\<close>

typedef barrier_cell = "{b :: evidence_barrier. bar_ready b \<or> b = new_evidence_barrier}"
  by auto

setup_lifting type_definition_barrier_cell

lift_definition cell_fresh :: barrier_cell is new_evidence_barrier by simp
lift_definition cell_fire :: "gostring + gotime \<Rightarrow> barrier_cell \<Rightarrow> barrier_cell" is fire_barrier
  by (auto simp: fire_barrier_def fail_barrier_def satisfy_def Let_def split: sum.split)
lift_definition cell_ready :: "barrier_cell \<Rightarrow> bool" is bar_ready .
lift_definition cell_content :: "barrier_cell \<Rightarrow> gostring + gotime" is barrier_content .

interpretation barrier: once_cell cell_fresh cell_fire cell_ready cell_content
proof unfold_locales
  show "\<not> cell_ready cell_fresh" by transfer (simp add: new_evidence_barrier_def)
  show "cell_ready (cell_fire v b)" for v b
    by transfer (auto simp: fire_barrier_def fail_barrier_def satisfy_def Let_def split: sum.split)
  show "cell_content (cell_fire v b) = v" if "\<not> cell_ready b" for v b
    using that by transfer (auto simp: fire_barrier_def fail_barrier_def satisfy_def barrier_content_def
        new_evidence_barrier_def Let_def split: sum.split)
  show "cell_fire v b = b" if "cell_ready b" for v b
    using that by transfer (auto simp: fire_barrier_def fail_barrier_def satisfy_def Let_def
        split: sum.split)
qed

lemma rep_fires: "Rep_barrier_cell (fold cell_fire vs b) = fold fire_barrier vs (Rep_barrier_cell b)"
  by (induction vs arbitrary: b) (simp_all add: cell_fire.rep_eq)

subsection \<open>What the oracles publish\<close>

definition earliest :: "gotime \<Rightarrow> gotime \<Rightarrow> gotime" where
  "earliest current candidate =
     (if is_zero current \<or> (\<not> is_zero candidate \<and> candidate < current) then candidate else current)"

definition confirms_revocation :: "result \<Rightarrow> bool" where
  "confirms_revocation res \<longleftrightarrow> res_decision res = DecisionReject \<and> res_reason res = ReasonRevoked
     \<and> \<not> is_zero (res_decision_at res)"

definition bool_text :: "bool \<Rightarrow> gostring" where
  "bool_text b = (if b then ''true'' else ''false'')"

definition failure_text :: "(gostring \<Rightarrow> gostring) \<Rightarrow> result \<Rightarrow> gostring" where
  "failure_text quote res = res_profile res @ ''='' @ decision_text (res_decision res) @ ''/''
     @ reason_text (res_reason res) @ '' expectation_met='' @ bool_text (res_expectation_met res)
     @ '' error='' @ quote (res_err res)"

definition publication_evidence ::
  "(gostring \<Rightarrow> gostring) \<Rightarrow> check_method \<Rightarrow> result list \<Rightarrow> gostring + gotime" where
  "publication_evidence quote m results =
     (if results = [] then Inl (method_text m @ '' publication has no enabled status oracle'')
      else let first = fold (\<lambda>res first. if confirms_revocation res
                 then earliest first (res_decision_at res) else first) results 0;
               failures = map (failure_text quote)
                 (filter (\<lambda>res. \<not> confirms_revocation res) results)
           in if \<not> is_zero first then Inr first
              else Inl (method_text m @ '' publication was not confirmed: ''
                        @ join_with ''; '' (sort failures)))"

subsection \<open>Waiting for evidence\<close>

definition evidence_dependency_names :: "evidence_dependency list \<Rightarrow> gostring list" where
  "evidence_dependency_names = map dependency_text"

definition depends_on :: "runner \<Rightarrow> scenario \<Rightarrow> gostring \<Rightarrow> evidence_dependency \<Rightarrow> bool" where
  "depends_on r s name d = (case registry_dependencies (rn_scenarios r) s name of
       None \<Rightarrow> False | Some ds \<Rightarrow> d \<in> set ds)"

text \<open>What a client makes of a barrier that has fired.\<close>

definition receive_evidence ::
  "gostring \<Rightarrow> evidence_dependency \<Rightarrow> evidence_barrier \<Rightarrow> gostring + gotime" where
  "receive_evidence name d b =
     (case barrier_state b of
        (_, Some e) \<Rightarrow> Inl (''profile '' @ name @ '' waiting for '' @ dependency_text d @ '': '' @ e)
      | (at, None) \<Rightarrow>
        if is_zero at then Inl (''profile '' @ name @ '' waiting for '' @ dependency_text d
             @ '': dependency closed without a satisfaction timestamp'')
        else Inr at)"

text \<open>The loop over the dependencies.  \<open>cancelled d\<close> is the context's error if the \<open>select\<close> on \<open>d\<close>'s
  channel takes the context's branch; \<open>None\<close> is a client that is still blocked.\<close>

fun wait_for_dependencies ::
  "gostring \<Rightarrow> (evidence_dependency \<Rightarrow> gostring option)
   \<Rightarrow> (evidence_dependency \<rightharpoonup> evidence_barrier) \<Rightarrow> (gostring \<rightharpoonup> gotime) \<Rightarrow> evidence_dependency list
   \<Rightarrow> ((gostring \<rightharpoonup> gotime) \<times> gostring option) option" where
  "wait_for_dependencies name cancelled barriers satisfied [] = Some (satisfied, None)"
| "wait_for_dependencies name cancelled barriers satisfied (d # ds) =
     (case barriers d of
        None \<Rightarrow> Some (satisfied, Some (''profile '' @ name
          @ '' requires unavailable evidence dependency '' @ dependency_text d))
      | Some b \<Rightarrow>
        (case cancelled d of Some e \<Rightarrow> Some (satisfied, Some e)
         | None \<Rightarrow>
           if \<not> bar_ready b then None
           else (case receive_evidence name d b of
               Inl e \<Rightarrow> Some (satisfied, Some e)
             | Inr at \<Rightarrow> wait_for_dependencies name cancelled barriers
                 (satisfied(dependency_text d \<mapsto> at)) ds)))"

definition wait_for_evidence ::
  "runner \<Rightarrow> (evidence_dependency \<Rightarrow> gostring option) \<Rightarrow> scenario \<Rightarrow> gostring
   \<Rightarrow> (evidence_dependency \<rightharpoonup> evidence_barrier)
   \<Rightarrow> ((gostring \<rightharpoonup> gotime) \<times> gostring option) option" where
  "wait_for_evidence r cancelled s name barriers =
     (case registry_dependencies (rn_scenarios r) s name of
        None \<Rightarrow> Some (Map.empty, Some (''profile '' @ name @ '' has no evidence dependencies for scenario ''
            @ s))
      | Some ds \<Rightarrow> wait_for_dependencies name cancelled barriers Map.empty ds)"

subsection \<open>Laws\<close>

lemma earliest_zero [simp]: "earliest 0 t = t" "earliest t 0 = t"
  by (auto simp: earliest_def)

lemma earliest_min: "t \<noteq> 0 \<Longrightarrow> u \<noteq> 0 \<Longrightarrow> earliest t u = min t u"
  by (auto simp: earliest_def min_def)

lemma fold_confirmed:
  "fold (\<lambda>res first. if P res then earliest first (f res) else first) results t
     = fold (\<lambda>u t. earliest t u) (map f (filter P results)) t"
  by (induction results arbitrary: t) auto

lemma fold_earliest:
  assumes "0 \<notin> set ts"
  shows "fold (\<lambda>u t. earliest t u) ts t =
    (if ts = [] then t else if t = 0 then Min (set ts) else min t (Min (set ts)))"
  using assms
proof (induction ts arbitrary: t)
  case (Cons u us)
  have "min t u \<noteq> 0" if "t \<noteq> 0" using that Cons.prems by (auto simp: min_def)
  with Cons show ?case by (cases "t = 0"; cases "us = []") (auto simp: earliest_min min.assoc)
qed simp

text \<open>A publication is confirmed exactly when some oracle reported a revocation, and its instant is
  the first such report.\<close>

lemma publication_evidence_Inr:
  "publication_evidence quote m results = Inr at \<longleftrightarrow>
     (\<exists>res \<in> set results. confirms_revocation res)
     \<and> at = Min (res_decision_at ` {res \<in> set results. confirms_revocation res})"
proof -
  let ?ts = "map res_decision_at (filter confirms_revocation results)"
  have nonzero: "0 \<notin> set ?ts" by (auto simp: confirms_revocation_def)
  have none: "?ts = [] \<longleftrightarrow> \<not> (\<exists>res \<in> set results. confirms_revocation res)"
    by (simp add: filter_empty_conv)
  have "Min (set ?ts) \<noteq> 0" if "?ts \<noteq> []"
    using that nonzero Min_in[of "set ?ts"] by (metis List.finite_set set_empty)
  moreover have "set ?ts = res_decision_at ` {res \<in> set results. confirms_revocation res}" by auto
  ultimately show ?thesis using none
    unfolding publication_evidence_def fold_confirmed fold_earliest[OF nonzero] Let_def
    by (auto simp del: set_map set_filter)
qed

lemma receive_evidence_Inr:
  "receive_evidence name d b = Inr at \<longleftrightarrow> bar_err b = None \<and> bar_at b = at \<and> at \<noteq> 0"
  by (auto simp: receive_evidence_def barrier_state_def split: option.split)

lemma wait_for_dependencies_ok:
  "wait_for_dependencies name cancelled barriers satisfied ds = Some (sat, None) \<Longrightarrow>
     (\<forall>d \<in> set ds. \<exists>b. barriers d = Some b \<and> bar_ready b \<and> bar_err b = None \<and> bar_at b \<noteq> 0)
     \<and> sat = satisfied ++ map_of (rev (map (\<lambda>d. (dependency_text d, bar_at (the (barriers d)))) ds))"
  by (induction ds arbitrary: satisfied)
    (fastforce split: option.splits if_splits sum.splits simp: receive_evidence_Inr)+

end
