(* ===== verification/Timeline.thy ===== *)
theory Timeline imports Barriers
begin

text \<open>
  The measurement boundaries of a cycle (\<open>newTimeline\<close>, the setters and \<open>derive\<close> of \<open>runner.go\<close>): each
  boundary keeps the earliest instant it was given, and the latencies are derived from the
  acknowledgement.
\<close>

definition new_timeline :: "gotime \<Rightarrow> gotime \<Rightarrow> timeline" where
  "new_timeline revoke_request_at revoke_ack_at = zero_timeline\<lparr>
     tl_revoke_request_at := revoke_request_at, tl_revoke_ack_at := revoke_ack_at,
     tl_revoke_request_mono := revoke_request_at, tl_revoke_ack_mono := revoke_ack_at\<rparr>"

definition set_ocsp_oracle_revoked :: "gotime \<Rightarrow> timeline \<Rightarrow> timeline" where
  "set_ocsp_oracle_revoked at t = (let e = earliest (tl_ocsp_oracle_first_revoked_mono t) at in
     t\<lparr>tl_ocsp_oracle_first_revoked_mono := e, tl_ocsp_oracle_first_revoked_at := e\<rparr>)"

definition set_crl_oracle_revoked :: "gotime \<Rightarrow> timeline \<Rightarrow> timeline" where
  "set_crl_oracle_revoked at t = (let e = earliest (tl_crl_oracle_first_revoked_mono t) at in
     t\<lparr>tl_crl_oracle_first_revoked_mono := e, tl_crl_oracle_first_revoked_at := e\<rparr>)"

definition set_staple_source_revoked :: "gotime \<Rightarrow> timeline \<Rightarrow> timeline" where
  "set_staple_source_revoked at t = (let e = earliest (tl_staple_source_first_revoked_mono t) at in
     t\<lparr>tl_staple_source_first_revoked_mono := e, tl_staple_source_first_revoked_at := e\<rparr>)"

definition set_staple_published :: "gotime \<Rightarrow> timeline \<Rightarrow> timeline" where
  "set_staple_published at t = (let e = earliest (tl_staple_published_mono t) at in
     t\<lparr>tl_staple_published_mono := e, tl_staple_published_at := e\<rparr>)"

text \<open>The monotonic reading, or the UTC instant if there is none.\<close>

definition boundary :: "gotime \<Rightarrow> gotime \<Rightarrow> gotime" where
  "boundary monotonic at = (if is_zero monotonic then at else monotonic)"

definition derive :: "timeline \<Rightarrow> timeline" where
  "derive t =
     (let ack = boundary (tl_revoke_ack_mono t) (tl_revoke_ack_at t) in
      if is_zero ack then t
      else
        let ocsp_at = boundary (tl_ocsp_oracle_first_revoked_mono t) (tl_ocsp_oracle_first_revoked_at t);
            crl_at = boundary (tl_crl_oracle_first_revoked_mono t) (tl_crl_oracle_first_revoked_at t);
            source_at = boundary (tl_staple_source_first_revoked_mono t)
              (tl_staple_source_first_revoked_at t);
            published_at = boundary (tl_staple_published_mono t) (tl_staple_published_at t);
            t = (if is_zero ocsp_at then t
                 else t\<lparr>tl_ocsp_oracle_propagation_latency := time_sub ocsp_at ack\<rparr>);
            t = (if is_zero crl_at then t
                 else t\<lparr>tl_crl_oracle_propagation_latency := time_sub crl_at ack\<rparr>);
            t = (if is_zero source_at then t
                 else t\<lparr>tl_staple_source_propagation_latency := time_sub source_at ack\<rparr>)
        in if is_zero source_at \<or> is_zero published_at then t
           else t\<lparr>tl_staple_distribution_latency := time_sub published_at source_at\<rparr>)"

text \<open>What the observation phase records: the boundaries of the barriers that were satisfied.\<close>

definition record_boundaries ::
  "evidence_barrier \<Rightarrow> evidence_barrier \<Rightarrow> evidence_barrier \<Rightarrow> gotime \<Rightarrow> timeline \<Rightarrow> timeline" where
  "record_boundaries ocsp crl staple source_revoked_at t =
     (let t = (case barrier_state ocsp of (at, None) \<Rightarrow> set_ocsp_oracle_revoked at t | _ \<Rightarrow> t);
          t = (case barrier_state crl of (at, None) \<Rightarrow> set_crl_oracle_revoked at t | _ \<Rightarrow> t)
      in case barrier_state staple of
           (at, None) \<Rightarrow> set_staple_published at (set_staple_source_revoked source_revoked_at t)
         | _ \<Rightarrow> t)"

text \<open>Setting boundaries in any order and any number of times keeps the earliest.\<close>

lemma set_ocsp_twice:
  "a \<noteq> 0 \<Longrightarrow> b \<noteq> 0 \<Longrightarrow>
     set_ocsp_oracle_revoked a (set_ocsp_oracle_revoked b t)
       = set_ocsp_oracle_revoked b (set_ocsp_oracle_revoked a t)"
  by (cases "tl_ocsp_oracle_first_revoked_mono t = 0")
    (auto simp: set_ocsp_oracle_revoked_def Let_def earliest_def)

lemma derive_latencies:
  assumes "tl_revoke_ack_mono t = ack" "ack \<noteq> 0"
  shows "tl_ocsp_oracle_propagation_latency (derive t) =
      (let at = boundary (tl_ocsp_oracle_first_revoked_mono t) (tl_ocsp_oracle_first_revoked_at t)
       in if is_zero at then tl_ocsp_oracle_propagation_latency t else time_sub at ack)"
    "tl_crl_oracle_propagation_latency (derive t) =
      (let at = boundary (tl_crl_oracle_first_revoked_mono t) (tl_crl_oracle_first_revoked_at t)
       in if is_zero at then tl_crl_oracle_propagation_latency t else time_sub at ack)"
  using assms by (simp_all add: derive_def boundary_def Let_def)

text \<open>The boundaries themselves are not changed by \<open>derive\<close>.\<close>

lemma derive_keeps [simp]:
  "tl_revoke_request_at (derive t) = tl_revoke_request_at t"
  "tl_revoke_ack_at (derive t) = tl_revoke_ack_at t"
  "tl_ocsp_oracle_first_revoked_at (derive t) = tl_ocsp_oracle_first_revoked_at t"
  "tl_crl_oracle_first_revoked_at (derive t) = tl_crl_oracle_first_revoked_at t"
  "tl_staple_source_first_revoked_at (derive t) = tl_staple_source_first_revoked_at t"
  "tl_staple_published_at (derive t) = tl_staple_published_at t"
  "tl_staple_published_mono (derive t) = tl_staple_published_mono t"
  by (simp_all add: derive_def Let_def)

lemma record_boundaries_keeps [simp]:
  "tl_revoke_request_at (record_boundaries a b c src t) = tl_revoke_request_at t"
  "tl_revoke_ack_at (record_boundaries a b c src t) = tl_revoke_ack_at t"
  "tl_revoke_ack_mono (record_boundaries a b c src t) = tl_revoke_ack_mono t"
  by (simp_all add: record_boundaries_def Let_def set_ocsp_oracle_revoked_def
      set_crl_oracle_revoked_def set_staple_source_revoked_def set_staple_published_def
      split: prod.split option.split)

end
