(* ===== verification/Issuer.thy ===== *)
theory Issuer imports Probes
begin

text \<open>
  \<open>internal/issuer/vault.go\<close>: issuing, revoking and querying the status of canary certificates.  Vault's
  API, HTTP, PEM, X.509 and OCSP parsing are parameters gathered in \<open>issuer_env\<close>; the binding of
  Vault's serial to the leaf, the checks of an issued certificate and the bounds on status bodies are
  the code's own.  Login and token renewal are those of \<open>Token_Loop\<close>.
\<close>

record canary_cert =
  cc_cert_pem :: gostring
  cc_key_pem :: gostring
  cc_chain_pem :: gostring
  cc_issuer_pem :: gostring
  cc_serial_number :: gostring
  cc_cert :: "certificate option"
  cc_issuer_cert :: "certificate option"

text \<open>A value of Vault's response data, as Go's dynamic types distinguish it.\<close>

datatype vault_value = VString gostring | VList "vault_value list" | VStrings "gostring list" | VOther

record issuer_env =
  ie_issue :: "gostring \<Rightarrow> gostring + (gostring \<rightharpoonup> vault_value) option"
  ie_revoke :: "gostring \<Rightarrow> gostring option"
  ie_now :: gotime
  ie_after :: gotime
  ie_pem_decode :: "gostring \<Rightarrow> bytes option"
  ie_parse_certificate :: "bytes \<Rightarrow> gostring + certificate"
  ie_key_pair_error :: "gostring \<Rightarrow> gostring \<Rightarrow> gostring option"
  ie_signature_error :: "certificate \<Rightarrow> certificate \<Rightarrow> gostring option"
  ie_ocsp_request :: "certificate \<Rightarrow> certificate \<Rightarrow> gostring + bytes"
  ie_bad_url :: "gostring \<Rightarrow> gostring option"
  ie_post :: "gostring \<Rightarrow> bytes \<Rightarrow> gostring + http_response"
  ie_parse_ocsp :: "bytes \<Rightarrow> certificate \<Rightarrow> certificate \<Rightarrow> gostring + ocsp_response"

subsection \<open>Serial numbers\<close>

definition hex_value :: "char \<Rightarrow> nat" where
  "hex_value c = (let n = (of_char c :: nat) in
     if n \<le> 57 then n - 48 else if n \<le> 70 then n - 55 else n - 87)"

fun read_hex :: "nat \<Rightarrow> gostring \<Rightarrow> nat option" where
  "read_hex acc [] = Some acc"
| "read_hex acc (c # cs) =
     (if is_hex_digit c then read_hex (16 * acc + hex_value c) cs else None)"

text \<open>\<open>big.Int.SetString\<close> with base 16: an optional sign and at least one digit.\<close>

definition parse_big_hex :: "gostring \<Rightarrow> int option" where
  "parse_big_hex s =
     (case s of [] \<Rightarrow> None
      | c # cs \<Rightarrow>
        if c = CHR ''+'' then (if cs = [] then None else map_option int (read_hex 0 cs))
        else if c = CHR ''-'' then (if cs = [] then None else map_option (\<lambda>n. - int n) (read_hex 0 cs))
        else map_option int (read_hex 0 s))"

datatype serial_error = NoLeafSerial | EmptySerial | NotHexadecimal gostring
  | SerialMismatch gostring int

definition normalize_serial :: "gostring \<Rightarrow> gostring" where
  "normalize_serial s =
     to_lower (filter (\<lambda>c. c \<noteq> CHR ''-'') (filter (\<lambda>c. c \<noteq> CHR '':'') (trim_space s)))"

definition verify_issued_serial :: "gostring \<Rightarrow> int option \<Rightarrow> serial_error + unit" where
  "verify_issued_serial vault_serial leaf_serial =
     (case leaf_serial of None \<Rightarrow> Inl NoLeafSerial
      | Some leaf \<Rightarrow>
        let normalized = normalize_serial vault_serial in
        if normalized = [] then Inl EmptySerial
        else (case parse_big_hex normalized of
            None \<Rightarrow> Inl (NotHexadecimal vault_serial)
          | Some returned \<Rightarrow>
            if returned < 0 then Inl (NotHexadecimal vault_serial)
            else if returned \<noteq> leaf then Inl (SerialMismatch vault_serial leaf)
            else Inr ()))"

subsection \<open>Issuing\<close>

fun string_of :: "vault_value option \<Rightarrow> gostring" where
  "string_of (Some (VString s)) = s"
| "string_of _ = []"

fun pem_strings :: "vault_value option \<Rightarrow> gostring list" where
  "pem_strings (Some (VList vs)) = filter (\<lambda>s. s \<noteq> []) (map (\<lambda>v. string_of (Some v)) vs)"
| "pem_strings (Some (VStrings ss)) = filter (\<lambda>s. s \<noteq> []) ss"
| "pem_strings _ = []"

datatype issue_error = IssueFailed gostring | NoCertificateData | BadCertificatePEM
  | BadCertificate gostring | BadIssuerPEM | BadIssuer gostring | BadKeyPair gostring
  | NotSignedByIssuer gostring | InconsistentSerial serial_error

text \<open>The texts of these errors; \<open>quote\<close> is \<open>%q\<close>.\<close>

fun hex_digits :: "nat \<Rightarrow> gostring" where
  "hex_digits n = (if n < 16 then [''0123456789abcdef'' ! n]
     else hex_digits (n div 16) @ [''0123456789abcdef'' ! (n mod 16)])"

declare hex_digits.simps [simp del]

definition hex_text :: "int \<Rightarrow> gostring" where
  "hex_text i = (if i < 0 then ''-'' @ hex_digits (nat (- i)) else hex_digits (nat i))"

fun serial_error_text :: "(gostring \<Rightarrow> gostring) \<Rightarrow> serial_error \<Rightarrow> gostring" where
  "serial_error_text quote NoLeafSerial = ''parsed leaf has no serial number''"
| "serial_error_text quote EmptySerial = ''vault response has an empty serial number''"
| "serial_error_text quote (NotHexadecimal s) =
     ''vault response serial '' @ quote s @ '' is not hexadecimal''"
| "serial_error_text quote (SerialMismatch s leaf) =
     ''vault response serial '' @ quote s @ '' does not match leaf serial '' @ hex_text leaf"

fun issue_error_text :: "(gostring \<Rightarrow> gostring) \<Rightarrow> issue_error \<Rightarrow> gostring" where
  "issue_error_text quote (IssueFailed e) = ''issuer: issue canary: '' @ e"
| "issue_error_text quote NoCertificateData = ''issuer: issue canary returned no certificate data''"
| "issue_error_text quote BadCertificatePEM = ''issuer: could not decode canary certificate PEM''"
| "issue_error_text quote (BadCertificate e) = ''issuer: parsing canary certificate: '' @ e"
| "issue_error_text quote BadIssuerPEM = ''issuer: could not decode issuing CA certificate PEM''"
| "issue_error_text quote (BadIssuer e) = ''issuer: parsing issuing CA certificate: '' @ e"
| "issue_error_text quote (BadKeyPair e) = ''issuer: invalid canary key pair: '' @ e"
| "issue_error_text quote (NotSignedByIssuer e) =
     ''issuer: canary certificate is not signed by issuing CA: '' @ e"
| "issue_error_text quote (InconsistentSerial e) =
     ''issuer: inconsistent canary serial: '' @ serial_error_text quote e"

definition parse_pem_certificate ::
  "issuer_env \<Rightarrow> issue_error \<Rightarrow> (gostring \<Rightarrow> issue_error) \<Rightarrow> gostring \<Rightarrow> issue_error + certificate" where
  "parse_pem_certificate env no_block bad pem =
     (case ie_pem_decode env pem of None \<Rightarrow> Inl no_block
      | Some der \<Rightarrow> (case ie_parse_certificate env der of Inl e \<Rightarrow> Inl (bad e) | Inr c \<Rightarrow> Inr c))"

definition issue_canary :: "issuer_env \<Rightarrow> gostring \<Rightarrow> issue_error + canary_cert" where
  "issue_canary env cn =
     (case ie_issue env cn of
        Inl e \<Rightarrow> Inl (IssueFailed e)
      | Inr None \<Rightarrow> Inl NoCertificateData
      | Inr (Some data) \<Rightarrow>
        let cert_pem = string_of (data ''certificate''); key_pem = string_of (data ''private_key'');
            serial = string_of (data ''serial_number''); issuer_pem = string_of (data ''issuing_ca'')
        in ok_bind (parse_pem_certificate env BadCertificatePEM BadCertificate cert_pem) (\<lambda>cert.
           ok_bind (parse_pem_certificate env BadIssuerPEM BadIssuer issuer_pem) (\<lambda>issuer.
           case ie_key_pair_error env cert_pem key_pem of Some e \<Rightarrow> Inl (BadKeyPair e)
           | None \<Rightarrow>
             (case ie_signature_error env cert issuer of Some e \<Rightarrow> Inl (NotSignedByIssuer e)
              | None \<Rightarrow>
                (case verify_issued_serial serial (Some (cert_serial cert)) of
                   Inl e \<Rightarrow> Inl (InconsistentSerial e)
                 | Inr _ \<Rightarrow>
                   let chain = pem_strings (data ''ca_chain'');
                       chain = (if chain = [] then [issuer_pem] else chain)
                   in Inr \<lparr>cc_cert_pem = cert_pem, cc_key_pem = key_pem,
                        cc_chain_pem = join_with newline chain, cc_issuer_pem = issuer_pem,
                        cc_serial_number = serial, cc_cert = Some cert,
                        cc_issuer_cert = Some issuer\<rparr>)))))"

subsection \<open>Revoking and status\<close>

text \<open>\<open>RevokeAt\<close>: the request instant is the caller's, or the clock's if it is zero; the response
  instant is read after the call.\<close>

definition issuer_revoke_at ::
  "issuer_env \<Rightarrow> gostring \<Rightarrow> gotime \<Rightarrow> gotime \<times> gotime \<times> gostring option" where
  "issuer_revoke_at env serial t_request =
     (let t_req = (if is_zero t_request then ie_now env else t_request) in
      (t_req, ie_after env, case ie_revoke env serial of None \<Rightarrow> None
         | Some e \<Rightarrow> Some (''issuer: revoke '' @ serial @ '': '' @ e)))"

definition issuer_revoke :: "issuer_env \<Rightarrow> gostring \<Rightarrow> gotime \<times> gotime \<times> gostring option" where
  "issuer_revoke env serial = issuer_revoke_at env serial (ie_now env)"

definition read_status_body :: "http_response \<Rightarrow> gostring + bytes" where
  "read_status_body resp =
     ok_bind (read_limited (max_status_body_bytes + 1) (http_body resp) (http_body_error resp))
       (\<lambda>data. if max_status_body_bytes < length data
          then Inl (''status response exceeds '' @ nat_text max_status_body_bytes @ '' bytes'')
          else Inr data)"

text \<open>The response with its status; an error comes with no bytes and status 0, which is Good.  \<open>ie_bad_url\<close> is
  the error of \<open>http.NewRequestWithContext\<close>.\<close>

definition fetch_ocsp_response ::
  "issuer_env \<Rightarrow> gostring \<Rightarrow> certificate \<Rightarrow> certificate \<Rightarrow> gostring + bytes \<times> ocsp_status" where
  "fetch_ocsp_response env url cert issuer =
     (case ie_ocsp_request env cert issuer of
        Inl e \<Rightarrow> Inl (''issuer: creating OCSP request: '' @ e)
      | Inr req \<Rightarrow>
        (case ie_bad_url env url of Some e \<Rightarrow> Inl e
         | None \<Rightarrow>
        (case ie_post env url req of
           Inl e \<Rightarrow> Inl (''issuer: OCSP request: '' @ e)
         | Inr resp \<Rightarrow>
           ok_bind (read_status_body resp) (\<lambda>body.
             if http_status resp < 200 \<or> 300 \<le> http_status resp
             then Inl (''issuer: OCSP responder returned HTTP '' @ int_text (http_status resp) @ '': ''
                       @ trim_space body)
             else (case ie_parse_ocsp env body cert issuer of
                 Inl e \<Rightarrow> Inl (''issuer: parsing OCSP response: '' @ e)
               | Inr parsed \<Rightarrow> Inr (body, or_status parsed))))))"

text \<open>\<open>FetchCRL\<close>; \<open>bad_url\<close> is the error of making the request, \<open>get\<close> is the HTTP client of the status endpoints, which follows no redirect.\<close>

definition fetch_crl :: "(gostring \<Rightarrow> gostring option) \<Rightarrow> (gostring \<Rightarrow> gostring + http_response) \<Rightarrow> (bytes \<Rightarrow> gostring + 'crl) \<Rightarrow> gostring \<Rightarrow> gostring + 'crl" where
  "fetch_crl bad_url get parse url =
     (case bad_url url of Some e \<Rightarrow> Inl e
      | None \<Rightarrow>
     (case get url of Inl e \<Rightarrow> Inl (''issuer: fetching CRL: '' @ e)
      | Inr resp \<Rightarrow>
        ok_bind (read_status_body resp) (\<lambda>body.
          if http_status resp < 200 \<or> 300 \<le> http_status resp
          then Inl (''issuer: CRL endpoint returned HTTP '' @ int_text (http_status resp) @ '': '' @ trim_space body)
          else (case parse body of Inl e \<Rightarrow> Inl (''issuer: parsing CRL: '' @ e) | Inr crl \<Rightarrow> Inr crl))))"

subsection \<open>Laws\<close>

lemma read_hex_append:
  "read_hex acc (xs @ ys) = Option.bind (read_hex acc xs) (\<lambda>a. read_hex a ys)"
  by (induction xs arbitrary: acc) auto

lemma normalize_serial_separators:
  assumes "set seps \<subseteq> {CHR '':'', CHR ''-''}"
    and "list_all (\<lambda>c. \<not> is_space c) (xs @ ys)"
  shows "normalize_serial (xs @ seps @ ys) = normalize_serial (xs @ ys)"
proof -
  have trim: "trim_space zs = zs" if "list_all (\<lambda>c. \<not> is_space c) zs" for zs
  proof -
    have "dropWhile is_space zs = zs" if "list_all (\<lambda>c. \<not> is_space c) zs" for zs
      using that by (cases zs) auto
    with that show ?thesis by (simp add: trim_space_def list_all_rev)
  qed
  have "\<not> is_space (CHR '':'')" "\<not> is_space (CHR ''-'')" by (simp_all add: is_space_def)
  then have "list_all (\<lambda>c. \<not> is_space c) seps" using assms(1) by (auto simp: list_all_iff)
  then have plain: "list_all (\<lambda>c. \<not> is_space c) (xs @ seps @ ys)" using assms(2) by simp
  have gone: "filter (\<lambda>c. c \<noteq> CHR ''-'') (filter (\<lambda>c. c \<noteq> CHR '':'') seps) = []"
    using assms(1) by (induction seps) auto
  show ?thesis unfolding normalize_serial_def trim[OF plain] trim[OF assms(2)] filter_append gone
    by simp
qed

lemma verify_issued_serial_Inr:
  "verify_issued_serial s leaf = Inr () \<longleftrightarrow>
     (\<exists>n. leaf = Some n \<and> 0 \<le> n \<and> parse_big_hex (normalize_serial s) = Some n)"
  by (auto simp: verify_issued_serial_def Let_def parse_big_hex_def split: option.splits list.splits)

lemma verify_issued_serial_not_Inl:
  "(\<forall>e. verify_issued_serial s leaf \<noteq> Inl e) \<longleftrightarrow> verify_issued_serial s leaf = Inr ()"
  by (cases "verify_issued_serial s leaf") auto

lemma parse_pem_certificate_Inr:
  "parse_pem_certificate env nb bad pem = Inr c \<longleftrightarrow>
     (\<exists>der. ie_pem_decode env pem = Some der \<and> ie_parse_certificate env der = Inr c)"
  by (auto simp: parse_pem_certificate_def split: option.splits sum.splits)

text \<open>A certificate that \<open>IssueCanary\<close> returns is internally bound: its leaf parses from its PEM, its
  key matches, the issuing CA of the response signed it, and the serial by which it will be revoked
  reads, whatever its separators and case, as the very serial of the leaf that is measured.\<close>

theorem issued_canary_bound:
  assumes "issue_canary env cn = Inr cc"
  shows "\<exists>cert issuer der. cc_cert cc = Some cert \<and> cc_issuer_cert cc = Some issuer
    \<and> ie_pem_decode env (cc_cert_pem cc) = Some der \<and> ie_parse_certificate env der = Inr cert
    \<and> ie_key_pair_error env (cc_cert_pem cc) (cc_key_pem cc) = None
    \<and> ie_signature_error env cert issuer = None
    \<and> parse_big_hex (normalize_serial (cc_serial_number cc)) = Some (cert_serial cert)"
  using assms
  by (auto simp: issue_canary_def Let_def verify_issued_serial_not_Inl verify_issued_serial_Inr
      parse_pem_certificate_Inr split: sum.splits option.splits)

definition sample_issuer_env :: issuer_env where
  "sample_issuer_env = \<lparr>
     ie_issue = (\<lambda>_. Inr (Some [''certificate'' \<mapsto> VString ''leaf'', ''private_key'' \<mapsto> VString ''key'',
       ''serial_number'' \<mapsto> VString ''0A:0b'', ''issuing_ca'' \<mapsto> VString ''ca''])),
     ie_revoke = (\<lambda>_. None), ie_now = Instant (90 * second), ie_after = Instant (99 * second),
     ie_pem_decode = Some,
     ie_parse_certificate = (\<lambda>_. Inr \<lparr>cert_raw = ''leaf'', cert_serial = 2571,
       cert_not_before = Instant second, cert_not_after = Instant (9000 * second),
       cert_raw_subject = [], cert_subject_key_id = []\<rparr>),
     ie_key_pair_error = (\<lambda>_ _. None), ie_signature_error = (\<lambda>_ _. None),
     ie_ocsp_request = (\<lambda>_ _. Inr ''req''),
     ie_bad_url = (\<lambda>_. None), ie_post = (\<lambda>_ _. Inr \<lparr>http_status = 200, http_body = ''der'', http_body_error = None\<rparr>),
     ie_parse_ocsp = (\<lambda>_ _ _. Inl ''no'')\<rparr>"

lemma sample_issues: "is_ok (issue_canary sample_issuer_env ''canary'')"
  by code_simp

theorem issued_canary_bound_witness:
  "\<exists>cc cert. issue_canary sample_issuer_env ''canary'' = Inr cc \<and> cc_cert cc = Some cert
     \<and> parse_big_hex (normalize_serial (cc_serial_number cc)) = Some (cert_serial cert)"
  using sample_issues issued_canary_bound by (fastforce simp: is_ok_iff)

end
