(* ===== verification/Staple.thy ===== *)
theory Staple imports Timeline Issuer Poll_Laws
begin

text \<open>
  The OCSP staple of a cycle (\<open>validateOCSPStaple\<close> and \<open>refreshRevokedStaple\<close> of \<open>runner.go\<close>, and the
  server state they publish to, of \<open>internal/canary/server.go\<close>).  The refresh loop is bounded by the
  clock alone, so it is \<open>run_loop\<close> of its body over a script of what the clock and the issuer say.
\<close>

subsection \<open>The canary server\<close>

text \<open>What the TLS configuration of the server hands out: the staple in the certificate it serves.
  \<open>None\<close> is a certificate without a staple.\<close>

record canary_server =
  srv_hostname :: gostring
  srv_port :: int
  srv_staple :: "bytes option"

definition start_on ::
  "(gostring \<Rightarrow> gostring \<Rightarrow> gostring option) \<Rightarrow> (gostring \<Rightarrow> gostring + int) \<Rightarrow> gostring \<Rightarrow> gostring
   \<Rightarrow> gostring \<Rightarrow> gostring \<Rightarrow> bytes option \<Rightarrow> gostring + canary_server" where
  "start_on key_pair_error listen bind_host hostname cert_pem key_pem staple =
     (case key_pair_error cert_pem key_pem of
        Some e \<Rightarrow> Inl (''canary: loading keypair: '' @ e)
      | None \<Rightarrow>
        (case listen bind_host of Inl e \<Rightarrow> Inl (''canary: listening: '' @ e)
         | Inr port \<Rightarrow> Inr \<lparr>srv_hostname = hostname, srv_port = port, srv_staple = staple\<rparr>))"

definition set_ocsp_staple :: "bytes \<Rightarrow> canary_server \<Rightarrow> canary_server" where
  "set_ocsp_staple staple srv = srv\<lparr>srv_staple := Some staple\<rparr>"

subsection \<open>Validation\<close>

fun ocsp_status_number :: "ocsp_status \<Rightarrow> int" where
  "ocsp_status_number OcspGood = 0"
| "ocsp_status_number OcspRevoked = 1"
| "ocsp_status_number OcspUnknown = 2"
| "ocsp_status_number (OcspOther n) = n"

definition status_policy_of :: "config \<Rightarrow> status_freshness_policy" where
  "status_policy_of c = \<lparr>max_clock_skew = sf_max_clock_skew (status_freshness c)\<rparr>"

definition ocsp_policy_of :: "config \<Rightarrow> ocsp_freshness_policy" where
  "ocsp_policy_of c = \<lparr>ocsp_require_next_update = of_require_next_update (ocsp_freshness c),
     max_age_without_next_update = of_max_age_without_next_update (ocsp_freshness c)\<rparr>"

definition crl_policy_of :: "config \<Rightarrow> crl_freshness_policy" where
  "crl_policy_of c = \<lparr>crl_require_next_update = cf_require_next_update (crl_freshness c),
     crl_max_age = cf_max_age (crl_freshness c)\<rparr>"

type_synonym ocsp_parser = "bytes \<Rightarrow> certificate \<Rightarrow> certificate \<Rightarrow> gostring + ocsp_response"

definition validate_ocsp_staple ::
  "ocsp_parser \<Rightarrow> config \<Rightarrow> gotime \<Rightarrow> bytes \<Rightarrow> canary_cert \<Rightarrow> ocsp_status \<Rightarrow> gostring option" where
  "validate_ocsp_staple parse c now staple cert expected =
     (case (cc_cert cert, cc_issuer_cert cert) of
        (Some leaf, Some issuer) \<Rightarrow>
          (case parse staple leaf issuer of
             Inl e \<Rightarrow> Some (''parse OCSP staple: '' @ e)
           | Inr response \<Rightarrow>
             if or_status response \<noteq> expected
             then Some (''ocsp staple status='' @ int_text (ocsp_status_number (or_status response))
                    @ '', expected '' @ int_text (ocsp_status_number expected))
             else (case validate_ocsp_temporal (Some response) (Some leaf) now (status_policy_of c)
                     (ocsp_policy_of c) of
                 Some reason \<Rightarrow> Some (''ocsp staple violates temporal policy: '' @ reason_text reason)
               | None \<Rightarrow> None))
      | _ \<Rightarrow> Some ''canary certificate and issuer are required'')"

subsection \<open>Refreshing\<close>

text \<open>One iteration of the refresh: the clock at its head, the issuer's answer (the code keeps status 0,
  which is Good, with an error), the clock at the validation, after it, after publishing, before the
  wait, and the context's error if it is cancelled during the wait.\<close>

record staple_step =
  ss_head :: gotime
  ss_fetch :: "gostring + bytes \<times> ocsp_status"
  ss_validated_at :: gotime
  ss_source_at :: gotime
  ss_published_at :: gotime
  ss_sleep :: gotime
  ss_cancelled :: "gostring option"

record staple_script =
  sscript_start :: gotime
  sscript_step :: "nat \<Rightarrow> staple_step"

text \<open>The loop's state: the iteration, the last error and the last status.\<close>

type_synonym refresh_state = "nat \<times> gostring option \<times> ocsp_status"

definition fetched_staple :: "ocsp_parser \<Rightarrow> config \<Rightarrow> canary_cert \<Rightarrow> staple_step
   \<Rightarrow> bytes option \<times> gostring option \<times> ocsp_status" where
  "fetched_staple parse c cert st =
     (case ss_fetch st of
        Inl e \<Rightarrow> (None, Some e, OcspGood)
      | Inr (staple, status) \<Rightarrow>
        if status = OcspRevoked then
          (case validate_ocsp_staple parse c (ss_validated_at st) staple cert OcspRevoked of
             Some e \<Rightarrow> (None, Some e, status) | None \<Rightarrow> (Some staple, None, status))
        else (None, None, status))"

text \<open>A published staple with the instants the source was revoked and the staple published, or an
  error.\<close>

type_synonym publication = "gostring + bytes \<times> gotime \<times> gotime"

definition refresh_iteration ::
  "ocsp_parser \<Rightarrow> config \<Rightarrow> canary_cert \<Rightarrow> gotime \<Rightarrow> (nat \<Rightarrow> staple_step) \<Rightarrow> refresh_state
   \<Rightarrow> publication + refresh_state" where
  "refresh_iteration parse c cert deadline script = (\<lambda>(i, last_err, last_status).
     let st = script i in
     if time_sub deadline (ss_head st) \<le> 0 then
       Inl (Inl (case last_err of
           Some e \<Rightarrow> ''runner: waiting for revoked OCSP staple: '' @ e
         | None \<Rightarrow> ''runner: waiting for revoked OCSP staple: last status=''
             @ int_text (ocsp_status_number last_status)))
     else (case fetched_staple parse c cert st of
         (Some staple, _, _) \<Rightarrow> Inl (Inr (staple, ss_source_at st, ss_published_at st))
       | (None, err, status) \<Rightarrow>
         let remaining = time_sub deadline (ss_sleep st);
             sleep_for = (if remaining < poll_interval c then remaining else poll_interval c)
         in if sleep_for \<le> 0 then Inr (Suc i, err, status)
            else (case ss_cancelled st of
                Some e \<Rightarrow> Inl (Inl e)
              | None \<Rightarrow> Inr (Suc i, err, status))))"

definition refresh_revoked_staple ::
  "ocsp_parser \<Rightarrow> config \<Rightarrow> canary_cert \<Rightarrow> staple_script \<Rightarrow> canary_server
   \<Rightarrow> (publication \<times> canary_server) option" where
  "refresh_revoked_staple parse c cert script srv =
     map_option (\<lambda>out. (out, case out of Inl _ \<Rightarrow> srv | Inr (staple, _, _) \<Rightarrow> set_ocsp_staple staple srv))
       (run_loop (refresh_iteration parse c cert (time_add (sscript_start script) (max_wait c))
          (sscript_step script)) (0, None, OcspGood))"

subsection \<open>Laws\<close>

lemma case_some_None: "(case v of None \<Rightarrow> None | Some r \<Rightarrow> Some (f r)) = None \<longleftrightarrow> v = None"
  by (cases v) auto

lemma validate_ocsp_staple_None:
  "validate_ocsp_staple parse c now staple cert expected = None \<longleftrightarrow>
     (\<exists>leaf issuer resp. cc_cert cert = Some leaf \<and> cc_issuer_cert cert = Some issuer
        \<and> parse staple leaf issuer = Inr resp \<and> or_status resp = expected
        \<and> ocsp_fresh resp now (status_policy_of c) (ocsp_policy_of c)
        \<and> (expected = OcspRevoked \<longrightarrow> plausible_revocation (or_revoked_at resp) (cert_not_before leaf)
              now (status_policy_of c)))"
proof (cases "cc_cert cert"; cases "cc_issuer_cert cert")
  fix leaf issuer assume certs: "cc_cert cert = Some leaf" "cc_issuer_cert cert = Some issuer"
  show ?thesis
  proof (cases "parse staple leaf issuer")
    case (Inr resp)
    with certs show ?thesis
      by (auto simp: validate_ocsp_staple_def case_some_None validate_ocsp_temporal_None)
  qed (simp add: validate_ocsp_staple_def certs)
qed (simp_all add: validate_ocsp_staple_def)

lemma fetched_staple_Some:
  "fetched_staple parse c cert st = (Some staple, err, status) \<Longrightarrow>
     ss_fetch st = Inr (staple, OcspRevoked)
     \<and> validate_ocsp_staple parse c (ss_validated_at st) staple cert OcspRevoked = None"
  by (auto simp: fetched_staple_def split: sum.splits option.splits if_splits)

text \<open>What the loop returns when it publishes.\<close>

definition published_by :: "ocsp_parser \<Rightarrow> config \<Rightarrow> canary_cert \<Rightarrow> staple_script \<Rightarrow> publication \<Rightarrow> bool"
where
  "published_by parse c cert script out \<longleftrightarrow> (\<forall>staple src pub. out = Inr (staple, src, pub) \<longrightarrow>
     (\<exists>i. let st = sscript_step script i in
        ss_fetch st = Inr (staple, OcspRevoked) \<and> src = ss_source_at st \<and> pub = ss_published_at st
        \<and> validate_ocsp_staple parse c (ss_validated_at st) staple cert OcspRevoked = None))"

lemma refresh_published:
  assumes "run_loop (refresh_iteration parse c cert d (sscript_step script)) s = Some out"
  shows "published_by parse c cert script out"
proof (rule run_loop_invariant[OF assms, where I = "\<lambda>_. True"])
  fix s' r assume "refresh_iteration parse c cert d (sscript_step script) s' = Inl r"
  then show "published_by parse c cert script r"
    by (cases s') (auto simp: refresh_iteration_def published_by_def Let_def
        split: if_splits option.splits prod.splits dest: fetched_staple_Some)
qed simp_all

text \<open>The loop ends as soon as the clock passes the deadline.\<close>

lemma refresh_returns:
  assumes "d \<le> ss_head (sscript_step script n)" and "i \<le> n"
  shows "\<exists>out. run_loop (refresh_iteration parse c cert d (sscript_step script)) (i, e, s) = Some out"
proof -
  have "time_sub d (ss_head (sscript_step script n)) \<le> 0" using assms(1) by (simp add: time_sub_nonpos)
  then have last: "\<exists>r. refresh_iteration parse c cert d (sscript_step script) (n, e, s) = Inl r" for e s
    by (simp add: refresh_iteration_def Let_def)
  show ?thesis
  proof (rule run_loop_terminates[where I = "\<lambda>(i, _). i \<le> n" and m = "\<lambda>(i, _). n - i"])
    fix st st' assume st: "case st of (i, _) \<Rightarrow> i \<le> n"
      "refresh_iteration parse c cert d (sscript_step script) st = Inr st'"
    obtain i e s where i: "st = (i, e, s)" by (cases st)
    from st(2) obtain e' s' where st': "st' = (Suc i, e', s')"
      by (auto simp: i refresh_iteration_def Let_def split: if_splits option.splits prod.splits)
    have "i \<noteq> n" using last[of e s] st(2) i by auto
    with st(1) i st' show "(case st' of (i, _) \<Rightarrow> i \<le> n) \<and>
        (case st' of (i, _) \<Rightarrow> n - i) < (case st of (i, _) \<Rightarrow> n - i)" by auto
  qed (simp add: assms(2))
qed

text \<open>Waiting for the revoked staple ends once the clock passes the deadline, and the only staple it
  ever publishes is one the responder reported as revoked and that passes validation against the
  canary's own leaf and issuer: it parses, says revoked at a plausible time, and is fresh.  On any
  error the server keeps serving the staple it had.\<close>

theorem refreshed_staple_is_revoked:
  assumes "time_add (sscript_start script) (max_wait c) \<le> ss_head (sscript_step script n)"
  shows "\<exists>out srv'. refresh_revoked_staple parse c cert script srv = Some (out, srv')
    \<and> (case out of Inl _ \<Rightarrow> srv' = srv
       | Inr (staple, src, pub) \<Rightarrow> srv_staple srv' = Some staple
         \<and> (\<exists>i leaf issuer resp. cc_cert cert = Some leaf \<and> cc_issuer_cert cert = Some issuer
              \<and> ss_fetch (sscript_step script i) = Inr (staple, OcspRevoked)
              \<and> parse staple leaf issuer = Inr resp \<and> or_status resp = OcspRevoked
              \<and> ocsp_fresh resp (ss_validated_at (sscript_step script i)) (status_policy_of c)
                  (ocsp_policy_of c)
              \<and> src = ss_source_at (sscript_step script i)
              \<and> pub = ss_published_at (sscript_step script i)))"
proof -
  obtain out where out: "run_loop (refresh_iteration parse c cert
      (time_add (sscript_start script) (max_wait c)) (sscript_step script)) (0, None, OcspGood) = Some out"
    using refresh_returns[OF assms le0] by blast
  show ?thesis
  proof (cases out)
    case (Inl e)
    with out show ?thesis by (simp add: refresh_revoked_staple_def)
  next
    case (Inr p)
    obtain staple src pub where p: "p = (staple, src, pub)" by (cases p)
    from refresh_published[OF out] Inr p obtain i where i:
      "ss_fetch (sscript_step script i) = Inr (staple, OcspRevoked)"
      "src = ss_source_at (sscript_step script i)" "pub = ss_published_at (sscript_step script i)"
      "validate_ocsp_staple parse c (ss_validated_at (sscript_step script i)) staple cert OcspRevoked = None"
      by (auto simp: published_by_def Let_def)
    then show ?thesis using out Inr p
      by (auto simp: refresh_revoked_staple_def set_ocsp_staple_def validate_ocsp_staple_None)
  qed
qed

definition sample_canary :: canary_cert where
  "sample_canary = \<lparr>cc_cert_pem = ''leaf'', cc_key_pem = ''key'', cc_chain_pem = ''chain'',
     cc_issuer_pem = ''ca'', cc_serial_number = ''07'', cc_cert = Some sample_leaf,
     cc_issuer_cert = Some sample_issuer\<rparr>"

definition sample_server :: canary_server where
  "sample_server = \<lparr>srv_hostname = ''canary'', srv_port = 443, srv_staple = Some ''good''\<rparr>"

text \<open>The responder says good at first and then revoked.\<close>

definition sample_staple_script :: staple_script where
  "sample_staple_script = \<lparr>sscript_start = Instant (2000 * second), sscript_step = (\<lambda>i.
     let at = (\<lambda>k. Instant ((2000 + 30 * int i) * second + k)) in
     \<lparr>ss_head = at 0, ss_fetch = Inr (if i = 0 then (''good'', OcspGood) else (''revoked'', OcspRevoked)),
      ss_validated_at = at 1, ss_source_at = at 2, ss_published_at = at 3, ss_sleep = at 4,
      ss_cancelled = None\<rparr>)\<rparr>"

theorem refreshed_staple_is_revoked_witness:
  "\<exists>out srv'. refresh_revoked_staple (\<lambda>_ _ _. Inr (sample_response OcspRevoked)) sample_config
     sample_canary sample_staple_script sample_server = Some (out, srv')"
proof -
  have "time_add (sscript_start sample_staple_script) (max_wait sample_config)
      \<le> ss_head (sscript_step sample_staple_script 2)"
    by (simp add: sample_staple_script_def sample_config_def Let_def time_add_def)
  from refreshed_staple_is_revoked[OF this] show ?thesis by blast
qed

end
