(* ===== verification/Observe.thy ===== *)
theory Observe imports Preflight Staple
begin

text \<open>
  The observation phase of a cycle (\<open>RunOnce\<close> from the start of the oracles to the recorded results,
  \<open>pollMethod\<close> and \<open>pollClients\<close> of \<open>runner.go\<close>): a goroutine per oracle, one per status method that
  collects its oracles and fires its barrier, one that refreshes the staple, and a goroutine per
  client that receives its barriers one by one and then polls.  \<open>observe_step\<close> is one step of one of
  them; what happens inside a poll is \<open>Poll\<close>, and the world (scripts of the polls, the publication the
  refresh returns, and whether a wait takes the context's branch) is \<open>observe_env\<close>.
\<close>

subsection \<open>The goroutines\<close>

text \<open>A goroutine is numbered by its profile's position.\<close>

type_synonym thread = "nat \<times> profile"
type_synonym outcome = "result \<times> metric_event list"

record observe_env =
  oe_runner :: runner
  oe_config :: config
  oe_target :: target
  oe_revoked_at :: gotime
  oe_stapling :: stapling_mode
  oe_script :: "nat \<Rightarrow> poll_script"
  oe_cancelled :: "nat \<Rightarrow> evidence_dependency \<Rightarrow> gostring option"
  oe_publication :: publication
  oe_quote :: "gostring \<Rightarrow> gostring"

definition enabled_threads :: "observe_env \<Rightarrow> (profile \<Rightarrow> bool) \<Rightarrow> thread list" where
  "enabled_threads env P = filter (\<lambda>(i, p). is_enabled (oe_config env) (prof_name p) \<and> P p)
     (enumerate 0 (rn_profiles (oe_runner env)))"

definition oracle_threads :: "observe_env \<Rightarrow> check_method \<Rightarrow> thread list" where
  "oracle_threads env m =
     enabled_threads env (\<lambda>p. prof_role p = RoleStatusOracle \<and> prof_method p = m)"

definition client_threads :: "observe_env \<Rightarrow> thread list" where
  "client_threads env = enabled_threads env (\<lambda>p. prof_role p = RoleClientExecutor)"

definition dependencies_of :: "observe_env \<Rightarrow> thread \<Rightarrow> evidence_dependency list option" where
  "dependencies_of env t = registry_dependencies (rn_scenarios (oe_runner env))
     (tgt_scenario (oe_target env)) (prof_name (snd t))"

text \<open>The names a result records; without a contract the dependencies are nil.\<close>

definition required_names :: "observe_env \<Rightarrow> thread \<Rightarrow> gostring list" where
  "required_names env t = evidence_dependency_names
     (case dependencies_of env t of None \<Rightarrow> [] | Some ds \<Rightarrow> ds)"

definition thread_poll :: "observe_env \<Rightarrow> (gostring \<rightharpoonup> gotime) \<Rightarrow> thread \<Rightarrow> outcome option" where
  "thread_poll env satisfied t = map_option
     (\<lambda>(res, ms). (res\<lparr>res_required_evidence := required_names env t,
        res_evidence_satisfied_at := satisfied\<rparr>, ms))
     (poll_one (oe_runner env) (oe_config env) (snd t) (oe_target env) (oe_revoked_at env)
        (oe_script env (fst t)))"

text \<open>What an oracle's goroutine appends.\<close>

definition oracle_outcome :: "observe_env \<Rightarrow> thread \<Rightarrow> outcome option" where
  "oracle_outcome env = thread_poll env [dependency_text EvidenceIssuerAck \<mapsto> oe_revoked_at env]"

definition client_failure :: "observe_env \<Rightarrow> (gostring \<rightharpoonup> gotime) \<Rightarrow> thread \<Rightarrow> gostring \<Rightarrow> outcome" where
  "client_failure env satisfied t e = (harness_result (oe_runner env) (snd t) (oe_target env)
     (oe_revoked_at env) (required_names env t) satisfied e, [])"

subsection \<open>The barriers\<close>

type_synonym barriers = "evidence_dependency \<rightharpoonup> evidence_barrier"

definition publication_of :: "check_method \<Rightarrow> evidence_dependency" where
  "publication_of m = (if m = MethodCRL then EvidenceCRLPublished else EvidenceOCSPPublished)"

definition fire_in :: "evidence_dependency \<Rightarrow> gostring + gotime \<Rightarrow> barriers \<Rightarrow> barriers" where
  "fire_in d v bs = (case bs d of None \<Rightarrow> bs | Some b \<Rightarrow> bs(d \<mapsto> fire_barrier v b))"

definition initial_barriers :: "observe_env \<Rightarrow> barriers" where
  "initial_barriers env = [
     EvidenceIssuerAck \<mapsto> satisfy (oe_revoked_at env) new_evidence_barrier,
     EvidenceOCSPPublished \<mapsto> new_evidence_barrier,
     EvidenceCRLPublished \<mapsto> new_evidence_barrier,
     EvidenceStaplePublished \<mapsto>
       (if oe_stapling env = StaplingOn then new_evidence_barrier
        else fail_barrier (Some (''staple_published is unavailable when execution.stapling=''
               @ stapling_text (oe_stapling env))) new_evidence_barrier)]"

definition staple_evidence :: "publication \<Rightarrow> gostring + gotime" where
  "staple_evidence p = (case p of Inl e \<Rightarrow> Inl e | Inr (_, _, published_at) \<Rightarrow> Inr published_at)"

definition method_evidence :: "observe_env \<Rightarrow> check_method \<Rightarrow> outcome list \<Rightarrow> gostring + gotime" where
  "method_evidence env m outs = publication_evidence (oe_quote env) m (map fst outs)"

subsection \<open>A client\<close>

datatype client_phase = ClientStart | ClientWaiting "gostring \<rightharpoonup> gotime" "evidence_dependency list"

text \<open>The next step of a client's goroutine: it ends with an outcome, or goes on in another phase;
  \<open>None\<close> is a client that is blocked (or a poll that never returns).\<close>

fun client_advance ::
  "observe_env \<Rightarrow> barriers \<Rightarrow> thread \<Rightarrow> client_phase \<Rightarrow> (outcome + client_phase) option" where
  "client_advance env bs t ClientStart =
     (case dependencies_of env t of
        None \<Rightarrow> Some (Inl (client_failure env Map.empty t (''profile '' @ prof_name (snd t)
          @ '' has no evidence dependencies for scenario '' @ tgt_scenario (oe_target env))))
      | Some ds \<Rightarrow> Some (Inr (ClientWaiting Map.empty ds)))"
| "client_advance env bs t (ClientWaiting satisfied []) = map_option Inl (thread_poll env satisfied t)"
| "client_advance env bs t (ClientWaiting satisfied (d # ds)) =
     (case bs d of
        None \<Rightarrow> Some (Inl (client_failure env satisfied t (''profile '' @ prof_name (snd t)
          @ '' requires unavailable evidence dependency '' @ dependency_text d)))
      | Some b \<Rightarrow>
        (case oe_cancelled env (fst t) d of
           Some e \<Rightarrow> Some (Inl (client_failure env satisfied t e))
         | None \<Rightarrow>
           if \<not> bar_ready b then None
           else (case receive_evidence (prof_name (snd t)) d b of
               Inl e \<Rightarrow> Some (Inl (client_failure env satisfied t e))
             | Inr at \<Rightarrow> Some (Inr (ClientWaiting (satisfied(dependency_text d \<mapsto> at)) ds)))))"

subsection \<open>The transition system\<close>

text \<open>Per status method: the oracles still polling, what the others appended (each result with the
  metrics its goroutine recorded) and whether the barrier has fired; the staple's goroutine; the
  barriers; the clients still running with their phase, and what the others appended.\<close>

record observe_state =
  os_oracles :: "check_method \<Rightarrow> thread list"
  os_oracle_outs :: "check_method \<Rightarrow> outcome list"
  os_done :: "check_method \<Rightarrow> bool"
  os_staple_done :: bool
  os_barriers :: barriers
  os_clients :: "(thread \<times> client_phase) list"
  os_client_outs :: "outcome list"

definition status_methods :: "check_method list" where
  "status_methods = [MethodOCSPDirect, MethodCRL]"

definition observe_start :: "observe_env \<Rightarrow> observe_state" where
  "observe_start env = \<lparr>os_oracles = oracle_threads env, os_oracle_outs = (\<lambda>_. []),
     os_done = (\<lambda>_. False), os_staple_done = False, os_barriers = initial_barriers env,
     os_clients = map (\<lambda>t. (t, ClientStart)) (client_threads env), os_client_outs = []\<rparr>"

definition oracle_returned :: "check_method \<Rightarrow> thread list \<Rightarrow> outcome \<Rightarrow> observe_state \<Rightarrow> observe_state"
where
  "oracle_returned m rest out s = s\<lparr>os_oracles := (os_oracles s)(m := rest),
     os_oracle_outs := (os_oracle_outs s)(m := os_oracle_outs s m @ [out])\<rparr>"

definition oracles_published :: "observe_env \<Rightarrow> check_method \<Rightarrow> observe_state \<Rightarrow> observe_state" where
  "oracles_published env m s = s\<lparr>
     os_barriers := fire_in (publication_of m) (method_evidence env m (os_oracle_outs s m)) (os_barriers s),
     os_done := (os_done s)(m := True)\<rparr>"

definition staple_returned :: "observe_env \<Rightarrow> observe_state \<Rightarrow> observe_state" where
  "staple_returned env s = s\<lparr>
     os_barriers := fire_in EvidenceStaplePublished (staple_evidence (oe_publication env)) (os_barriers s),
     os_staple_done := True\<rparr>"

inductive observe_step :: "observe_env \<Rightarrow> observe_state \<Rightarrow> observe_state \<Rightarrow> bool" for env where
  oracle_returns: "observe_step env s (oracle_returned m (ts @ us) out s)"
    if "m \<in> set status_methods" "os_oracles s m = ts @ t # us" "oracle_outcome env t = Some out"
| oracles_publish: "observe_step env s (oracles_published env m s)"
    if "m \<in> set status_methods" "os_oracles s m = []" "\<not> os_done s m"
| staple_returns: "observe_step env s (staple_returned env s)"
    if "oe_stapling env = StaplingOn" "\<not> os_staple_done s"
| client_ends: "observe_step env s (s\<lparr>os_clients := ts @ us, os_client_outs := os_client_outs s @ [out]\<rparr>)"
    if "os_clients s = ts @ (t, ph) # us" "client_advance env (os_barriers s) t ph = Some (Inl out)"
| client_goes_on: "observe_step env s (s\<lparr>os_clients := ts @ (t, ph') # us\<rparr>)"
    if "os_clients s = ts @ (t, ph) # us" "client_advance env (os_barriers s) t ph = Some (Inr ph')"

text \<open>The main goroutine goes on once every client has ended, both methods have published and the
  staple, if it is refreshed, has been decided.\<close>

definition observe_final :: "observe_env \<Rightarrow> observe_state \<Rightarrow> bool" where
  "observe_final env s \<longleftrightarrow> os_clients s = [] \<and> list_all (os_done s) status_methods
     \<and> (oe_stapling env = StaplingOn \<longrightarrow> os_staple_done s)"

definition observed_results :: "observe_state \<Rightarrow> result list" where
  "observed_results s = sort_results (map fst (os_oracle_outs s MethodOCSPDirect
     @ os_oracle_outs s MethodCRL @ os_client_outs s))"

subsection \<open>The phase as a function\<close>

text \<open>\<open>pollMethod\<close> and \<open>pollClients\<close> with their goroutines in the order of the profiles, and the whole
  phase: oracles, barriers, clients.  \<open>None\<close> is a phase that never ends.\<close>

definition poll_method :: "observe_env \<Rightarrow> check_method \<Rightarrow> outcome list option" where
  "poll_method env m = those (map (oracle_outcome env) (oracle_threads env m))"

definition client_outcome :: "observe_env \<Rightarrow> barriers \<Rightarrow> thread \<Rightarrow> outcome option" where
  "client_outcome env bs t =
     Option.bind (wait_for_evidence (oe_runner env) (oe_cancelled env (fst t))
        (tgt_scenario (oe_target env)) (prof_name (snd t)) bs)
      (\<lambda>(satisfied, err). case err of Some e \<Rightarrow> Some (client_failure env satisfied t e)
        | None \<Rightarrow> thread_poll env satisfied t)"

definition poll_clients :: "observe_env \<Rightarrow> barriers \<Rightarrow> outcome list option" where
  "poll_clients env bs = those (map (client_outcome env bs) (client_threads env))"

definition fired_barriers :: "observe_env \<Rightarrow> outcome list \<Rightarrow> outcome list \<Rightarrow> barriers" where
  "fired_barriers env ocsp crl =
     (let bs = fire_in EvidenceOCSPPublished (method_evidence env MethodOCSPDirect ocsp)
                 (initial_barriers env);
          bs = fire_in EvidenceCRLPublished (method_evidence env MethodCRL crl) bs
      in if oe_stapling env = StaplingOn
         then fire_in EvidenceStaplePublished (staple_evidence (oe_publication env)) bs else bs)"

definition observe_phase :: "observe_env \<Rightarrow> (outcome list \<times> barriers) option" where
  "observe_phase env =
     Option.bind (poll_method env MethodOCSPDirect) (\<lambda>ocsp.
     Option.bind (poll_method env MethodCRL) (\<lambda>crl.
       let bs = fired_barriers env ocsp crl
       in map_option (\<lambda>clients. (ocsp @ crl @ clients, bs)) (poll_clients env bs)))"

text \<open>The instants of the barriers and the enforcement latencies, as \<open>RunOnce\<close> derives them.\<close>

definition barrier_of :: "barriers \<Rightarrow> evidence_dependency \<Rightarrow> evidence_barrier" where
  "barrier_of bs d = (case bs d of None \<Rightarrow> new_evidence_barrier | Some b \<Rightarrow> b)"

definition staple_source_at :: "publication \<Rightarrow> gotime" where
  "staple_source_at p = (case p of Inl _ \<Rightarrow> 0 | Inr (_, source_at, _) \<Rightarrow> source_at)"

definition observed_timeline :: "observe_env \<Rightarrow> barriers \<Rightarrow> timeline \<Rightarrow> timeline" where
  "observed_timeline env bs t = derive (record_boundaries (barrier_of bs EvidenceOCSPPublished)
     (barrier_of bs EvidenceCRLPublished) (barrier_of bs EvidenceStaplePublished)
     (if oe_stapling env = StaplingOn then staple_source_at (oe_publication env) else 0) t)"

definition with_enforcement_latency :: "runner \<Rightarrow> timeline \<Rightarrow> result \<Rightarrow> result" where
  "with_enforcement_latency r t res =
     (if depends_on r (res_scenario res) (res_profile res) EvidenceStaplePublished
         \<and> \<not> is_zero (tl_staple_published_mono t) \<and> \<not> is_zero (res_decision_at res)
      then res\<lparr>res_enforcement_latency := time_sub (res_decision_at res) (tl_staple_published_mono t)\<rparr>
      else res)"

end
