(* ===== verification/Cycle.thy ===== *)
theory Cycle imports Observe Evidence_Store
begin

text \<open>
  One probe cycle: \<open>RunOnce\<close> of \<open>runner.go\<close>, in the stages of the code.  A stage is an operation on the
  report, the evidence root and the logs of what the cycle does to the outside (the metrics it counts,
  in order, and the calls that change the issuer's state).  An early return with \<open>fail\<close> is an error
  exit; the deferred compensating revocation runs on every exit.  Everything the cycle reads from
  outside (issuer, clock, probes, random name) is \<open>cycle_world\<close>.
\<close>

subsection \<open>The world and the state of a cycle\<close>

text \<open>Each call to the issuer has an environment of its own, so that, for example, the experiment's
  revocation can fail and the compensating one succeed.\<close>

record cycle_world =
  cw_uuid :: gostring
  cw_build :: build_env
  cw_marshal_profile_config :: "profile_config_snapshot \<Rightarrow> gostring + bytes"
  cw_marshal_run_config :: "run_config_snapshot \<Rightarrow> gostring + bytes"
  cw_sha256_hex :: "bytes \<Rightarrow> gostring"
  cw_base64 :: "gostring \<Rightarrow> gostring + bytes"
  cw_quote :: "gostring \<Rightarrow> gostring"
  cw_parse_ocsp :: ocsp_parser
  cw_issue :: issuer_env
  cw_staple_issuer :: issuer_env
  cw_staple_now :: gotime
  cw_key_pair_error :: "gostring \<Rightarrow> gostring \<Rightarrow> gostring option"
  cw_listen :: "gostring \<Rightarrow> gostring + int"
  cw_preflight_steps :: "nat \<Rightarrow> preflight_step"
  cw_preflight_order :: "nat list"
  cw_revoke_request_at :: gotime
  cw_age_order :: "gostring list"
  cw_revoke :: issuer_env
  cw_scripts :: "nat \<Rightarrow> poll_script"
  cw_cancelled :: "nat \<Rightarrow> evidence_dependency \<Rightarrow> gostring option"
  cw_staple_script :: staple_script
  cw_cleanup :: issuer_env

text \<open>The calls that change the issuer's state.\<close>

datatype issuer_call = CallIssue gostring | CallRevokeAt gostring gotime | CallRevoke gostring

text \<open>\<open>cs_armed\<close> is the serial the deferred revocation is armed for.\<close>

record cycle_state =
  cs_report :: cycle_report
  cs_fs :: fs
  cs_metrics :: "metric_event list"
  cs_calls :: "issuer_call list"
  cs_armed :: "gostring option"

text \<open>A stage returns, returns early with an error, or never returns.\<close>

datatype stop = Failed gostring | Diverged

type_synonym 'a cycle_op = "(cycle_state, stop, 'a) op"

subsection \<open>Elementary operations\<close>

definition upd :: "(cycle_report \<Rightarrow> cycle_report) \<Rightarrow> unit cycle_op" where
  "upd f = (\<lambda>s. (Inr (), s\<lparr>cs_report := f (cs_report s)\<rparr>))"

definition report_of :: "cycle_report cycle_op" where
  "report_of = (\<lambda>s. (Inr (cs_report s), s))"

definition enter :: "cycle_phase \<Rightarrow> unit cycle_op" where
  "enter phase = upd (\<lambda>r. r\<lparr>rep_phase := phase\<rparr>)"

definition count_metric :: "metric_event \<Rightarrow> unit cycle_op" where
  "count_metric e = (\<lambda>s. (Inr (), s\<lparr>cs_metrics := cs_metrics s @ [e]\<rparr>))"

definition count_metrics :: "metric_event list \<Rightarrow> unit cycle_op" where
  "count_metrics es = (\<lambda>s. (Inr (), s\<lparr>cs_metrics := cs_metrics s @ es\<rparr>))"

definition issuer_does :: "issuer_call \<Rightarrow> unit cycle_op" where
  "issuer_does c = (\<lambda>s. (Inr (), s\<lparr>cs_calls := cs_calls s @ [c]\<rparr>))"

definition arm_cleanup :: "gostring option \<Rightarrow> unit cycle_op" where
  "arm_cleanup serial = (\<lambda>s. (Inr (), s\<lparr>cs_armed := serial\<rparr>))"

definition on_fs :: "'a fs_op \<Rightarrow> (gostring + 'a) cycle_op" where
  "on_fs m = (\<lambda>s. case m (cs_fs s) of (r, f') \<Rightarrow> (Inr r, s\<lparr>cs_fs := f'\<rparr>))"

text \<open>\<open>fail\<close> returns the report with the phase and the error's text.\<close>

definition fail_cycle :: "cycle_phase \<Rightarrow> gostring \<Rightarrow> 'a cycle_op" where
  "fail_cycle phase e = (\<lambda>s. (Inl (Failed e), s\<lparr>cs_report := (cs_report s)\<lparr>rep_phase := phase,
     rep_error := e\<rparr>\<rparr>))"

text \<open>The common exit: the cycle counts as an error.\<close>

definition error_cycle :: "cycle_phase \<Rightarrow> gostring \<Rightarrow> 'a cycle_op" where
  "error_cycle phase e = op_bind (count_metric (CycleTotal CycleError)) (\<lambda>_. fail_cycle phase e)"

definition or_error :: "cycle_phase \<Rightarrow> gostring \<Rightarrow> gostring + 'a \<Rightarrow> 'a cycle_op" where
  "or_error phase what r = (case r of Inl e \<Rightarrow> error_cycle phase (what @ e) | Inr x \<Rightarrow> op_return x)"

definition unless_error :: "cycle_phase \<Rightarrow> gostring \<Rightarrow> gostring option \<Rightarrow> unit cycle_op" where
  "unless_error phase what e = (case e of Some x \<Rightarrow> error_cycle phase (what @ x) | None \<Rightarrow> op_return ())"

definition must_return :: "'a option \<Rightarrow> 'a cycle_op" where
  "must_return r = (\<lambda>s. case r of None \<Rightarrow> (Inl Diverged, s) | Some x \<Rightarrow> (Inr x, s))"

subsection \<open>Before the certificate exists\<close>

text \<open>The checks that return without a report.\<close>

definition cycle_prepare ::
  "cycle_world \<Rightarrow> runner \<Rightarrow> gostring + config \<times> manifest \<times> run_config_snapshot \<times> gostring" where
  "cycle_prepare w r =
     (case rn_config r of None \<Rightarrow> Inl ''runner: config is required''
      | Some c \<Rightarrow>
        if enabled_names c = [] then Inl ''runner: at least one profile must be enabled''
        else ok_bind (validate_enabled_roles r c) (\<lambda>_.
          if rn_scenario r = [] then Inl ''runner: scenario is required''
          else (case registry_manifest (rn_scenarios r) (rn_scenario r) of
              None \<Rightarrow> Inl (''runner: no loaded scenario manifest for '' @ rn_scenario r)
            | Some m \<Rightarrow>
              if man_stapling m \<notin> {StaplingOn, StaplingOff, StaplingStale}
              then Inl (''runner: scenario '' @ rn_scenario r @ '' has invalid stapling mode ''
                     @ cw_quote w (stapling_text (man_stapling m)))
              else
                let run = run_config_snapshot_of (cw_marshal_profile_config w) (cw_sha256_hex w)
                      (cw_build w) r c
                in (case digest_json (cw_marshal_run_config w) (cw_sha256_hex w) run of
                    Inl e \<Rightarrow> Inl (''runner: digest run config: '' @ e)
                  | Inr digest \<Rightarrow> Inr (c, m, run, digest)))))"

definition cycle_hostname :: "cycle_world \<Rightarrow> runner \<Rightarrow> gostring" where
  "cycle_hostname w r = ''canary-'' @ cw_uuid w @ ''.canary.'' @ rn_domain r"

definition initial_report ::
  "cycle_world \<Rightarrow> runner \<Rightarrow> manifest \<Rightarrow> run_config_snapshot \<Rightarrow> gostring \<Rightarrow> cycle_report" where
  "initial_report w r m run digest = \<lparr>rep_cycle_id = cw_uuid w, rep_scenario = rn_scenario r,
     rep_scenario_digest = man_digest m, rep_run_config = run, rep_run_config_digest = digest,
     rep_issued_leaf_sha256 = [], rep_valid = False, rep_phase = PhaseIssue, rep_revoke_ack_at = 0,
     rep_cleanup = \<lparr>cl_attempted = False, cl_revoked = False, cl_error = []\<rparr>,
     rep_timeline = zero_timeline, rep_artifacts = [], rep_preflight = [], rep_results = [],
     rep_error = []\<rparr>"

subsection \<open>Issuing and serving the canary\<close>

definition issue_stage :: "cycle_world \<Rightarrow> runner \<Rightarrow> canary_cert cycle_op" where
  "issue_stage w r =
     op_bind (issuer_does (CallIssue (cycle_hostname w r))) (\<lambda>_.
     case issue_canary (cw_issue w) (cycle_hostname w r) of
       Inl e \<Rightarrow> error_cycle PhaseIssue (''runner: issuing canary: '' @ issue_error_text (cw_quote w) e)
     | Inr cert \<Rightarrow>
       op_bind (count_metric (CertNotAfter (case cc_cert cert of None \<Rightarrow> 0 | Some leaf \<Rightarrow> cert_not_after leaf)))
         (\<lambda>_. op_bind (arm_cleanup (Some (cc_serial_number cert))) (\<lambda>_. op_return cert)))"

definition artifacts_stage :: "cycle_world \<Rightarrow> runner \<Rightarrow> manifest \<Rightarrow> canary_cert \<Rightarrow> unit cycle_op" where
  "artifacts_stage w r m cert =
     op_bind (enter PhasePersistEvidence) (\<lambda>_.
     op_bind (on_fs (persist_cycle_artifacts (cw_sha256_hex w) (rn_evidence_dir r) (cw_uuid w)
       [(''leaf.pem'', \<lparr>ca_media_type = ''application/x-pem-file'', ca_contents = cc_cert_pem cert\<rparr>),
        (''chain.pem'', \<lparr>ca_media_type = ''application/x-pem-file'', ca_contents = cc_chain_pem cert\<rparr>),
        (''scenario.json'', \<lparr>ca_media_type = ''application/json'', ca_contents = man_canonical_json m\<rparr>)]))
       (\<lambda>refs.
     op_bind (or_error PhasePersistEvidence ''runner: persisting cycle artifacts: '' refs) (\<lambda>artifacts.
       upd (\<lambda>rep. rep\<lparr>rep_artifacts := artifacts\<rparr>))))"

text \<open>A certificate that \<open>IssueCanary\<close> returns has both certificates; the last branch is not reached.\<close>

definition staple_stage :: "cycle_world \<Rightarrow> runner \<Rightarrow> config \<Rightarrow> manifest \<Rightarrow> canary_cert \<Rightarrow> bytes option cycle_op" where
  "staple_stage w r c m cert =
     (if man_stapling m \<notin> {StaplingOn, StaplingStale} then op_return None
      else case (cc_cert cert, cc_issuer_cert cert) of
        (Some leaf, Some issuer) \<Rightarrow>
          op_bind (or_error PhaseCanary ''runner: fetching pre-revocation OCSP staple: ''
            (fetch_ocsp_response (cw_staple_issuer w) (rn_ocsp_url r) leaf issuer)) (\<lambda>(staple, status).
          if status \<noteq> OcspGood
          then error_cycle PhaseCanary (''runner: pre-revocation OCSP status=''
                 @ int_text (ocsp_status_number status) @ '', expected good'')
          else op_bind (unless_error PhaseCanary ''runner: invalid pre-revocation OCSP staple: ''
                 (validate_ocsp_staple (cw_parse_ocsp w) c (cw_staple_now w) staple cert OcspGood))
                 (\<lambda>_. op_return (Some staple)))
      | _ \<Rightarrow> error_cycle PhaseCanary
          ''runner: fetching pre-revocation OCSP staple: canary certificate and issuer are required'')"

definition serve_stage ::
  "cycle_world \<Rightarrow> runner \<Rightarrow> canary_cert \<Rightarrow> bytes option \<Rightarrow> canary_server cycle_op" where
  "serve_stage w r cert staple =
     op_bind (enter PhaseCanary) (\<lambda>_.
       or_error PhaseCanary ''runner: starting canary server: ''
         (start_on (cw_key_pair_error w) (cw_listen w)
            (if rn_canary_bind_host r = [] then ''127.0.0.1'' else rn_canary_bind_host r)
            (cycle_hostname w r) (cc_cert_pem cert @ newline @ cc_chain_pem cert) (cc_key_pem cert) staple))"

definition leaf_digest :: "cycle_world \<Rightarrow> canary_cert \<Rightarrow> gostring" where
  "leaf_digest w cert = cw_sha256_hex w (case cc_cert cert of None \<Rightarrow> [] | Some leaf \<Rightarrow> cert_raw leaf)"

definition cycle_target ::
  "cycle_world \<Rightarrow> runner \<Rightarrow> config \<Rightarrow> canary_cert \<Rightarrow> canary_server \<Rightarrow> target" where
  "cycle_target w r c cert srv = \<lparr>tgt_host = cycle_hostname w r,
     tgt_connect_host = rn_canary_connect_host r, tgt_port = srv_port srv,
     tgt_ca_chain_pem = cc_chain_pem cert, tgt_issuer_pem = cc_issuer_pem cert,
     tgt_ocsp_url = rn_ocsp_url r, tgt_crl_url = rn_crl_url r,
     tgt_certificate_serial = cc_serial_number cert, tgt_issued_leaf_sha256 = leaf_digest w cert,
     tgt_scenario = rn_scenario r, tgt_status_freshness = status_policy_of c,
     tgt_ocsp_freshness = ocsp_policy_of c, tgt_crl_freshness = crl_policy_of c,
     tgt_probe_timeout = 0\<rparr>"

definition canary_stage ::
  "cycle_world \<Rightarrow> runner \<Rightarrow> config \<Rightarrow> manifest \<Rightarrow> (canary_cert \<times> canary_server \<times> target) cycle_op" where
  "canary_stage w r c m =
     op_bind (issue_stage w r) (\<lambda>cert.
     op_bind (artifacts_stage w r m cert) (\<lambda>_.
     op_bind (staple_stage w r c m cert) (\<lambda>staple.
     op_bind (serve_stage w r cert staple) (\<lambda>srv.
     op_bind (upd (\<lambda>rep. rep\<lparr>rep_issued_leaf_sha256 := leaf_digest w cert\<rparr>)) (\<lambda>_.
       op_return (cert, srv, cycle_target w r c cert srv))))))"

subsection \<open>Preflight and revocation\<close>

definition persist_preflight :: "cycle_world \<Rightarrow> runner \<Rightarrow> (gostring + unit) cycle_op" where
  "persist_preflight w r = (\<lambda>s.
     case persist_preflight_evidence (cw_base64 w) (cw_sha256_hex w) (rn_evidence_dir r) (cw_uuid w)
       (rep_preflight (cs_report s)) (cs_fs s) of
       (res, pf, f') \<Rightarrow> (Inr res, s\<lparr>cs_fs := f', cs_report := (cs_report s)\<lparr>rep_preflight := pf\<rparr>\<rparr>))"

text \<open>A failed preflight, a stale one and a failed revocation all keep the preflight's evidence first, and
  an error of that takes precedence.\<close>

definition fail_with_preflight ::
  "cycle_world \<Rightarrow> runner \<Rightarrow> gostring \<Rightarrow> gostring \<Rightarrow> cycle_phase \<Rightarrow> gostring \<Rightarrow> 'a cycle_op" where
  "fail_with_preflight w r what why phase e =
     op_bind (persist_preflight w r) (\<lambda>res.
       case res of
         Inl x \<Rightarrow> error_cycle PhasePersistEvidence (what @ why @ ''; persisting preflight evidence: '' @ x)
       | Inr _ \<Rightarrow> error_cycle phase e)"

definition preflight_stage ::
  "cycle_world \<Rightarrow> runner \<Rightarrow> config \<Rightarrow> target \<Rightarrow> (gostring \<rightharpoonup> gotime) cycle_op" where
  "preflight_stage w r c tgt =
     (case preflight r c tgt (cw_preflight_steps w) (cw_preflight_order w) of
       (results, observed, err) \<Rightarrow>
         op_bind (upd (\<lambda>rep. rep\<lparr>rep_phase := PhasePreflight, rep_preflight := results\<rparr>)) (\<lambda>_.
         case err of
           Some e \<Rightarrow> fail_with_preflight w r ''runner: preflight failed ('' (e @ '')'') PhasePreflight e
         | None \<Rightarrow>
           (case validate_preflight_age (cw_age_order w) observed (cw_revoke_request_at w)
               (preflight_max_age c) of
              Some e \<Rightarrow> fail_with_preflight w r ''runner: stale preflight ('' (e @ '')'') PhasePreflight e
            | None \<Rightarrow> op_return observed)))"

definition revoke_stage ::
  "cycle_world \<Rightarrow> runner \<Rightarrow> canary_cert \<Rightarrow> (gotime \<times> gotime) cycle_op" where
  "revoke_stage w r cert =
     op_bind (enter PhaseRevoke) (\<lambda>_.
     op_bind (issuer_does (CallRevokeAt (cc_serial_number cert) (cw_revoke_request_at w))) (\<lambda>_.
     case issuer_revoke_at (cw_revoke w) (cc_serial_number cert) (cw_revoke_request_at w) of
       (t_req, t_resp, Some e) \<Rightarrow>
         fail_with_preflight w r ''runner: revoking canary: '' e PhaseRevoke (''runner: revoking canary: '' @ e)
     | (t_req, t_resp, None) \<Rightarrow> op_bind (arm_cleanup None) (\<lambda>_. op_return (t_req, t_resp))))"

definition with_age :: "(gostring \<rightharpoonup> gotime) \<Rightarrow> gotime \<Rightarrow> preflight_result \<Rightarrow> preflight_result" where
  "with_age observed t_req res = (case observed (pf_profile res) of None \<Rightarrow> res
     | Some at \<Rightarrow> res\<lparr>pf_age_at_revoke := time_sub t_req at\<rparr>)"

subsection \<open>Observation\<close>

definition cycle_observation ::
  "cycle_world \<Rightarrow> runner \<Rightarrow> config \<Rightarrow> manifest \<Rightarrow> target \<Rightarrow> gotime \<Rightarrow> publication \<Rightarrow> observe_env" where
  "cycle_observation w r c m tgt ack publication = \<lparr>oe_runner = r, oe_config = c, oe_target = tgt,
     oe_revoked_at = ack, oe_stapling = man_stapling m, oe_script = cw_scripts w,
     oe_cancelled = cw_cancelled w, oe_publication = publication, oe_quote = cw_quote w\<rparr>"

text \<open>The refresh runs only with stapling on.  Without it no staple is published and \<open>stapleErr\<close> stays
  nil.\<close>

definition cycle_publication ::
  "cycle_world \<Rightarrow> config \<Rightarrow> manifest \<Rightarrow> canary_cert \<Rightarrow> canary_server \<Rightarrow> publication option" where
  "cycle_publication w c m cert srv =
     (if man_stapling m = StaplingOn
      then map_option fst (refresh_revoked_staple (cw_parse_ocsp w) c cert (cw_staple_script w) srv)
      else Some (Inl []))"

definition staple_error :: "manifest \<Rightarrow> publication \<Rightarrow> gostring option" where
  "staple_error m p = (if man_stapling m = StaplingOn
     then (case p of Inl e \<Rightarrow> Some e | Inr _ \<Rightarrow> None) else None)"

definition published_staple :: "manifest \<Rightarrow> publication \<Rightarrow> bytes" where
  "published_staple m p = (if man_stapling m = StaplingOn
     then (case p of Inl _ \<Rightarrow> [] | Inr (staple, _, _) \<Rightarrow> staple) else [])"

definition observe_stage ::
  "cycle_world \<Rightarrow> runner \<Rightarrow> config \<Rightarrow> manifest \<Rightarrow> canary_cert \<times> canary_server \<times> target
   \<Rightarrow> (gostring \<rightharpoonup> gotime) \<Rightarrow> gotime \<times> gotime \<Rightarrow> publication cycle_op" where
  "observe_stage w r c m = (\<lambda>(cert, srv, tgt) observed (t_req, ack).
     op_bind (upd (\<lambda>rep. rep\<lparr>rep_revoke_ack_at := ack,
        rep_preflight := map (with_age observed t_req) (rep_preflight rep), rep_phase := PhaseObserve\<rparr>)) (\<lambda>_.
     op_bind (must_return (cycle_publication w c m cert srv)) (\<lambda>publication.
     let env = cycle_observation w r c m tgt ack publication in
     op_bind (must_return (observe_phase env)) (\<lambda>(outs, bs).
     let t = observed_timeline env bs (new_timeline t_req ack) in
     op_bind (count_metrics (concat (map snd outs))) (\<lambda>_.
     op_bind (upd (\<lambda>rep. rep\<lparr>rep_timeline := t,
        rep_results := map (with_enforcement_latency r t) (sort_results (map fst outs))\<rparr>)) (\<lambda>_.
       op_return publication))))))"

subsection \<open>Persisting and evaluating\<close>

definition persist_results :: "cycle_world \<Rightarrow> runner \<Rightarrow> (gostring + unit) cycle_op" where
  "persist_results w r = (\<lambda>s.
     case persist_evidence (cw_base64 w) (cw_sha256_hex w) (rn_evidence_dir r) (cw_uuid w)
       (rep_results (cs_report s)) (cs_fs s) of
       (res, rs, f') \<Rightarrow> (Inr res, s\<lparr>cs_fs := f', cs_report := (cs_report s)\<lparr>rep_results := rs\<rparr>\<rparr>))"

definition persist_stage ::
  "cycle_world \<Rightarrow> runner \<Rightarrow> manifest \<Rightarrow> publication \<Rightarrow> unit cycle_op" where
  "persist_stage w r m publication =
     op_bind (enter PhasePersistEvidence) (\<lambda>_.
     op_bind (persist_preflight w r) (\<lambda>pf.
     op_bind (or_error PhasePersistEvidence ''runner: persisting preflight evidence: '' pf) (\<lambda>_.
     op_bind (persist_results w r) (\<lambda>res.
     op_bind (or_error PhasePersistEvidence ''runner: persisting post-revocation evidence: '' res) (\<lambda>_.
     op_bind (if published_staple m publication = [] then op_return ()
       else op_bind (on_fs (persist_cycle_artifacts (cw_sha256_hex w) (rn_evidence_dir r) (cw_uuid w)
           [(''published-staple.der'', \<lparr>ca_media_type = ''application/ocsp-response'',
              ca_contents = published_staple m publication\<rparr>)])) (\<lambda>refs.
         op_bind (or_error PhasePersistEvidence ''runner: persisting published OCSP staple: '' refs)
           (\<lambda>as. upd (\<lambda>rep. rep\<lparr>rep_artifacts := sort_key art_path (rep_artifacts rep @ as)\<rparr>)))) (\<lambda>_.
       unless_error PhaseObserve ''runner: publishing revoked OCSP staple: ''
         (staple_error m publication)))))))"

definition harness_failed :: "result \<Rightarrow> bool" where
  "harness_failed res \<longleftrightarrow> res_decision res = DecisionHarnessError \<or> res_err res \<noteq> []"

definition check_harness :: "result \<Rightarrow> unit cycle_op" where
  "check_harness res =
     (if harness_failed res
      then error_cycle PhaseEvaluate (''runner: profile '' @ res_profile res @ '' failed: '' @ res_err res)
      else op_return ())"

definition produced_text :: "result \<Rightarrow> gostring" where
  "produced_text res = res_profile res @ '' produced '' @ decision_text (res_decision res) @ ''/''
     @ reason_text (res_reason res)"

definition check_finding :: "config \<Rightarrow> result \<Rightarrow> unit cycle_op" where
  "check_finding c res =
     (if \<not> res_expectation_met res
      then op_bind (count_metric (CycleTotal CycleRegression)) (\<lambda>_. fail_cycle PhaseEvaluate
        (''runner: security regression: profile '' @ produced_text res @ ''; expected ''
         @ decision_text (res_expected_decision res)))
      else if \<not> res_policy_met res
      then op_bind (count_metric (PolicyViolation (res_profile res) (res_method res) (res_scenario res)
             (res_decision res) (res_reason res))) (\<lambda>_.
           if pol_enforce (policy c)
           then op_bind (count_metric (CycleTotal CyclePolicyViolation)) (\<lambda>_. fail_cycle PhaseEvaluate
             (''runner: security policy violation: profile '' @ produced_text res @ ''; required ''
              @ decision_text (res_policy_decision res)))
           else op_return ())
      else op_return ())"

definition evaluate_stage :: "config \<Rightarrow> unit cycle_op" where
  "evaluate_stage c =
     op_bind (enter PhaseEvaluate) (\<lambda>_.
     op_bind report_of (\<lambda>rep.
     op_bind (op_each check_harness (rep_results rep)) (\<lambda>_.
     op_bind (upd (\<lambda>rep. rep\<lparr>rep_valid := True\<rparr>)) (\<lambda>_.
       op_each (check_finding c) (rep_results rep)))))"

definition complete_stage :: "unit cycle_op" where
  "complete_stage =
     op_bind (count_metric LastCycleTimestamp) (\<lambda>_.
     op_bind (count_metric (CycleTotal CycleOk)) (\<lambda>_. enter PhaseComplete))"

subsection \<open>The cycle\<close>

definition before_revocation ::
  "cycle_world \<Rightarrow> runner \<Rightarrow> config \<Rightarrow> manifest
   \<Rightarrow> ((canary_cert \<times> canary_server \<times> target) \<times> (gostring \<rightharpoonup> gotime)) cycle_op" where
  "before_revocation w r c m =
     op_bind (canary_stage w r c m) (\<lambda>canary.
     op_bind (preflight_stage w r c (snd (snd canary))) (\<lambda>observed. op_return (canary, observed)))"

definition after_revocation ::
  "cycle_world \<Rightarrow> runner \<Rightarrow> config \<Rightarrow> manifest \<Rightarrow> canary_cert \<times> canary_server \<times> target
   \<Rightarrow> (gostring \<rightharpoonup> gotime) \<Rightarrow> gotime \<times> gotime \<Rightarrow> unit cycle_op" where
  "after_revocation w r c m canary observed acked =
     op_bind (observe_stage w r c m canary observed acked) (\<lambda>publication.
     op_bind (persist_stage w r m publication) (\<lambda>_. evaluate_stage c))"

definition cycle_body :: "cycle_world \<Rightarrow> runner \<Rightarrow> config \<Rightarrow> manifest \<Rightarrow> unit cycle_op" where
  "cycle_body w r c m =
     op_bind (before_revocation w r c m) (\<lambda>(canary, observed).
     op_bind (revoke_stage w r (fst canary)) (\<lambda>acked.
       after_revocation w r c m canary observed acked))"

text \<open>The deferred compensating revocation.\<close>

definition deferred_cleanup :: "cycle_world \<Rightarrow> cycle_state \<Rightarrow> cycle_state" where
  "deferred_cleanup w s =
     (case cs_armed s of None \<Rightarrow> s
      | Some serial \<Rightarrow>
        let err = snd (snd (issuer_revoke (cw_cleanup w) serial));
            status = (case err of
                Some e \<Rightarrow> \<lparr>cl_attempted = True, cl_revoked = False, cl_error = e\<rparr>
              | None \<Rightarrow> \<lparr>cl_attempted = True, cl_revoked = True, cl_error = []\<rparr>)
        in s\<lparr>cs_calls := cs_calls s @ [CallRevoke serial],
             cs_report := (cs_report s)\<lparr>rep_cleanup := status\<rparr>\<rparr>)"

definition cycle_start ::
  "cycle_world \<Rightarrow> runner \<Rightarrow> manifest \<Rightarrow> run_config_snapshot \<Rightarrow> gostring \<Rightarrow> fs \<Rightarrow> cycle_state" where
  "cycle_start w r m run digest f = \<lparr>cs_report = initial_report w r m run digest, cs_fs = f,
     cs_metrics = [], cs_calls = [], cs_armed = None\<rparr>"

record cycle_outcome =
  co_report :: "cycle_report option"
  co_error :: "gostring option"
  co_fs :: fs
  co_metrics :: "metric_event list"
  co_calls :: "issuer_call list"

definition cycle_finish :: "cycle_world \<Rightarrow> gostring option \<Rightarrow> cycle_state \<Rightarrow> cycle_outcome" where
  "cycle_finish w err s0 = (let s = deferred_cleanup w s0 in
     \<lparr>co_report = Some (cs_report s), co_error = err, co_fs = cs_fs s, co_metrics = cs_metrics s,
      co_calls = cs_calls s\<rparr>)"

text \<open>\<open>None\<close> is a cycle that never returns.\<close>

definition run_once :: "cycle_world \<Rightarrow> runner \<Rightarrow> fs \<Rightarrow> cycle_outcome option" where
  "run_once w r f =
     (case cycle_prepare w r of
        Inl e \<Rightarrow> Some \<lparr>co_report = None, co_error = Some e, co_fs = f, co_metrics = [], co_calls = []\<rparr>
      | Inr (c, m, run, digest) \<Rightarrow>
        (case op_bind (cycle_body w r c m) (\<lambda>_. complete_stage) (cycle_start w r m run digest f) of
           (Inl Diverged, s) \<Rightarrow> None
         | (Inl (Failed e), s) \<Rightarrow> Some (cycle_finish w (Some e) s)
         | (Inr _, s) \<Rightarrow> Some (cycle_finish w None s)))"

end
