(* ===== verification/Observe_Laws.thy ===== *)
theory Observe_Laws imports Observe
begin

text \<open>
  Laws of the observation phase: every interleaving of its goroutines ends, none gets stuck, and all
  of them record the results of the phase as a function; and in every reachable state a client that
  has probed did so after its evidence, confirmed by a status oracle.
\<close>

subsection \<open>Publication does not depend on the order of the oracles\<close>

lemma publication_evidence_perm:
  assumes "mset rs = mset rs'"
  shows "publication_evidence quote m rs = publication_evidence quote m rs'"
proof -
  let ?ts = "\<lambda>rs. map res_decision_at (filter confirms_revocation rs)"
  have nonzero: "0 \<notin> set (?ts rs)" for rs by (auto simp: confirms_revocation_def)
  have same: "mset (?ts rs) = mset (?ts rs')" using assms by simp
  then have empty: "?ts rs = [] \<longleftrightarrow> ?ts rs' = []" by (metis mset_zero_iff)
  have nil: "rs = [] \<longleftrightarrow> rs' = []" using assms by (metis mset_zero_iff)
  have sets: "set (?ts rs) = set (?ts rs')" using same by (rule mset_eq_setD)
  have "sort (map (failure_text quote) (filter (\<lambda>res. \<not> confirms_revocation res) rs))
      = sort (map (failure_text quote) (filter (\<lambda>res. \<not> confirms_revocation res) rs'))"
    using assms by (intro sort_perm_eq) simp
  then show ?thesis
    unfolding publication_evidence_def fold_confirmed fold_earliest[OF nonzero] Let_def nil empty sets
    by simp
qed

lemma method_evidence_perm:
  "mset outs = mset outs' \<Longrightarrow> method_evidence env m outs = method_evidence env m outs'"
  by (simp add: method_evidence_def publication_evidence_perm)

subsection \<open>Collecting goroutines\<close>

text \<open>Outcomes that are, as a multiset, what every thread returned are what the threads return in
  order, up to that order.\<close>

lemma those_all_Some: "\<forall>t \<in> set ts. f t \<noteq> None \<Longrightarrow> those (map f ts) = Some (map (the \<circ> f) ts)"
  by (induction ts) auto

lemma those_collected:
  assumes "image_mset Some (mset outs) = image_mset f (mset ts)"
  shows "\<exists>ys. those (map f ts) = Some ys \<and> mset ys = mset outs \<and> ys = map (the \<circ> f) ts"
proof -
  have "f t \<noteq> None" if "t \<in> set ts" for t
  proof -
    have "f t \<in># image_mset Some (mset outs)" using that by (simp add: assms)
    then show ?thesis by auto
  qed
  then have "those (map f ts) = Some (map (the \<circ> f) ts)" by (simp add: those_all_Some)
  moreover have "image_mset the (image_mset Some (mset outs)) = image_mset the (image_mset f (mset ts))"
    by (simp add: assms)
  then have "mset (map (the \<circ> f) ts) = mset outs" by (simp add: multiset.map_comp comp_def)
  ultimately show ?thesis by blast
qed

subsection \<open>Barriers\<close>

definition decided_barrier :: "bool \<Rightarrow> gostring + gotime \<Rightarrow> evidence_barrier" where
  "decided_barrier fired v = (if fired then fire_barrier v new_evidence_barrier else new_evidence_barrier)"

definition barriers_when ::
  "observe_env \<Rightarrow> bool \<times> (gostring + gotime) \<Rightarrow> bool \<times> (gostring + gotime) \<Rightarrow> bool \<Rightarrow> barriers" where
  "barriers_when env ocsp crl staple = (initial_barriers env)(
     EvidenceOCSPPublished \<mapsto> decided_barrier (fst ocsp) (snd ocsp),
     EvidenceCRLPublished \<mapsto> decided_barrier (fst crl) (snd crl),
     EvidenceStaplePublished \<mapsto>
       (if oe_stapling env = StaplingOn
        then decided_barrier staple (staple_evidence (oe_publication env))
        else the (initial_barriers env EvidenceStaplePublished)))"

lemma initial_barriers_when: "initial_barriers env = barriers_when env (False, v) (False, w) False"
  by (auto simp: barriers_when_def initial_barriers_def decided_barrier_def)

lemma fire_barriers_when:
  "fire_in EvidenceOCSPPublished v (barriers_when env (False, w) crl st) = barriers_when env (True, v) crl st"
  "fire_in EvidenceCRLPublished v (barriers_when env ocsp (False, w) st) = barriers_when env ocsp (True, v) st"
  "oe_stapling env = StaplingOn \<Longrightarrow>
     fire_in EvidenceStaplePublished (staple_evidence (oe_publication env)) (barriers_when env ocsp crl False)
       = barriers_when env ocsp crl True"
  by (auto simp: barriers_when_def fire_in_def decided_barrier_def fun_upd_twist)

lemma fired_barriers_when:
  "fired_barriers env ocsp crl = barriers_when env (True, method_evidence env MethodOCSPDirect ocsp)
     (True, method_evidence env MethodCRL crl) (oe_stapling env = StaplingOn)"
  by (simp add: fired_barriers_def Let_def fire_barriers_when
      initial_barriers_when[of env "Inl []" "Inl []"])

lemma fresh_not_ready [simp]: "\<not> bar_ready new_evidence_barrier"
  by (simp add: new_evidence_barrier_def)

lemma decided_ready [simp]: "bar_ready (decided_barrier fired v) = fired"
  by (auto simp: decided_barrier_def fire_barrier_def fail_barrier_def satisfy_def
      new_evidence_barrier_def Let_def split: sum.split)

text \<open>A barrier that is ready is settled: it is the barrier of the end of the phase.\<close>

definition settles :: "barriers \<Rightarrow> barriers \<Rightarrow> bool" where
  "settles bs fs \<longleftrightarrow> (\<forall>d. rel_option (\<lambda>b f. bar_ready b \<longrightarrow> b = f) (bs d) (fs d))"

lemma barriers_when_settles:
  assumes "fst ocsp \<Longrightarrow> ocsp = ocsp'" "fst crl \<Longrightarrow> crl = crl'" "st \<Longrightarrow> st'"
  shows "settles (barriers_when env ocsp crl st) (barriers_when env ocsp' crl' st')"
proof -
  have "rel_option (\<lambda>b f. bar_ready b \<longrightarrow> b = f) (barriers_when env ocsp crl st d)
      (barriers_when env ocsp' crl' st' d)" for d
    using assms by (cases d; cases "oe_stapling env = StaplingOn")
      (auto simp: barriers_when_def initial_barriers_def decided_barrier_def)
  then show ?thesis by (simp add: settles_def)
qed

subsection \<open>Clients\<close>

fun client_rest :: "observe_env \<Rightarrow> barriers \<Rightarrow> thread \<Rightarrow> client_phase \<Rightarrow> outcome option" where
  "client_rest env bs t ClientStart = client_outcome env bs t"
| "client_rest env bs t (ClientWaiting satisfied ds) =
     Option.bind (wait_for_dependencies (prof_name (snd t)) (oe_cancelled env (fst t)) bs satisfied ds)
       (\<lambda>(satisfied, err). case err of Some e \<Rightarrow> Some (client_failure env satisfied t e)
         | None \<Rightarrow> thread_poll env satisfied t)"

lemma client_start_rest:
  "client_outcome env bs t = (case dependencies_of env t of
     None \<Rightarrow> Some (client_failure env Map.empty t (''profile '' @ prof_name (snd t)
          @ '' has no evidence dependencies for scenario '' @ tgt_scenario (oe_target env)))
   | Some ds \<Rightarrow> client_rest env bs t (ClientWaiting Map.empty ds))"
  by (simp add: client_outcome_def wait_for_evidence_def dependencies_of_def split: option.split)

lemma client_advance_ends:
  "client_advance env bs t ph = Some (Inl out) \<Longrightarrow> client_rest env bs t ph = Some out"
  by (induction env bs t ph rule: client_advance.induct)
    (auto simp: client_start_rest split: option.splits if_splits sum.splits)

lemma client_advance_goes_on:
  "client_advance env bs t ph = Some (Inr ph') \<Longrightarrow> client_rest env bs t ph = client_rest env bs t ph'"
  by (induction env bs t ph rule: client_advance.induct)
    (auto simp: client_start_rest split: option.splits if_splits sum.splits)

lemma client_advance_settled:
  assumes "settles bs fs" and "client_advance env bs t ph = Some x"
  shows "client_advance env fs t ph = Some x"
proof (cases ph)
  case (ClientWaiting satisfied ds)
  show ?thesis
  proof (cases ds)
    case (Cons d ds')
    have "rel_option (\<lambda>b f. bar_ready b \<longrightarrow> b = f) (bs d) (fs d)" using assms(1) by (simp add: settles_def)
    then show ?thesis using assms(2) ClientWaiting Cons
      by (cases "bs d"; cases "fs d") (auto split: option.splits if_splits)
  qed (use assms ClientWaiting in simp)
qed (use assms in \<open>simp split: option.splits\<close>)

subsection \<open>The invariant\<close>

definition method_final :: "observe_env \<Rightarrow> check_method \<Rightarrow> bool \<times> (gostring + gotime)" where
  "method_final env m = (True, method_evidence env m (map (the \<circ> oracle_outcome env) (oracle_threads env m)))"

definition final_barriers :: "observe_env \<Rightarrow> barriers" where
  "final_barriers env = barriers_when env (method_final env MethodOCSPDirect)
     (method_final env MethodCRL) (oe_stapling env = StaplingOn)"

definition method_reached :: "observe_env \<Rightarrow> observe_state \<Rightarrow> check_method \<Rightarrow> bool \<times> (gostring + gotime)"
where
  "method_reached env s m = (os_done s m, method_evidence env m (os_oracle_outs s m))"

text \<open>Per method: what has returned and what is still running make up all oracles, and a method that
  has published has no oracle running.\<close>

definition method_inv :: "observe_env \<Rightarrow> observe_state \<Rightarrow> check_method \<Rightarrow> bool" where
  "method_inv env s m \<longleftrightarrow>
     image_mset Some (mset (os_oracle_outs s m)) + image_mset (oracle_outcome env) (mset (os_oracles s m))
       = image_mset (oracle_outcome env) (mset (oracle_threads env m))
     \<and> (os_done s m \<longrightarrow> os_oracles s m = [])"

definition barriers_inv :: "observe_env \<Rightarrow> observe_state \<Rightarrow> bool" where
  "barriers_inv env s \<longleftrightarrow> os_barriers s = barriers_when env (method_reached env s MethodOCSPDirect)
     (method_reached env s MethodCRL) (os_staple_done s) \<and> (os_staple_done s \<longrightarrow> oe_stapling env = StaplingOn)"

definition clients_inv :: "observe_env \<Rightarrow> observe_state \<Rightarrow> bool" where
  "clients_inv env s \<longleftrightarrow>
     image_mset Some (mset (os_client_outs s))
       + image_mset (\<lambda>(t, ph). client_rest env (final_barriers env) t ph) (mset (os_clients s))
       = image_mset (client_outcome env (final_barriers env)) (mset (client_threads env))"

definition observe_inv :: "observe_env \<Rightarrow> observe_state \<Rightarrow> bool" where
  "observe_inv env s \<longleftrightarrow> (\<forall>m \<in> set status_methods. method_inv env s m) \<and> barriers_inv env s
     \<and> clients_inv env s"

lemma status_methods_simps [simp]:
  "set status_methods = {MethodOCSPDirect, MethodCRL}"
  "list_all P status_methods \<longleftrightarrow> P MethodOCSPDirect \<and> P MethodCRL"
  by (simp_all add: status_methods_def)

lemma publication_of_simps [simp]:
  "publication_of MethodOCSPDirect = EvidenceOCSPPublished"
  "publication_of MethodCRL = EvidenceCRLPublished"
  by (simp_all add: publication_of_def)

lemma method_done_final:
  assumes "method_inv env s m" and "os_done s m"
  shows "method_reached env s m = method_final env m"
proof -
  from assms have "image_mset Some (mset (os_oracle_outs s m))
      = image_mset (oracle_outcome env) (mset (oracle_threads env m))" by (auto simp: method_inv_def)
  from those_collected[OF this]
  have "mset (os_oracle_outs s m) = mset (map (the \<circ> oracle_outcome env) (oracle_threads env m))"
    by auto
  from method_evidence_perm[OF this] assms(2) show ?thesis
    by (simp add: method_reached_def method_final_def)
qed

lemma barriers_settle:
  assumes "observe_inv env s"
  shows "settles (os_barriers s) (final_barriers env)"
proof -
  have "os_barriers s = barriers_when env (method_reached env s MethodOCSPDirect)
      (method_reached env s MethodCRL) (os_staple_done s)" "os_staple_done s \<longrightarrow> oe_stapling env = StaplingOn"
    using assms by (simp_all add: observe_inv_def barriers_inv_def)
  moreover have "fst (method_reached env s m) \<Longrightarrow> method_reached env s m = method_final env m"
    if "m \<in> set status_methods" for m
    using assms that method_done_final[of env s m] by (auto simp: observe_inv_def method_reached_def)
  ultimately show ?thesis unfolding final_barriers_def
    by (simp add: barriers_when_settles)
qed

lemma observe_inv_start: "observe_inv env (observe_start env)"
  by (auto simp: observe_inv_def method_inv_def barriers_inv_def clients_inv_def observe_start_def
      method_reached_def initial_barriers_when multiset.map_comp comp_def)

lemma observe_inv_step:
  assumes "observe_step env s s'" and "observe_inv env s"
  shows "observe_inv env s'"
  using assms(1)
proof cases
  case (oracle_returns m ts t us out)
  then show ?thesis using assms(2)
    by (auto simp: observe_inv_def method_inv_def barriers_inv_def clients_inv_def oracle_returned_def
        method_reached_def barriers_when_def decided_barrier_def)
next
  case (oracles_publish m)
  then show ?thesis using assms(2)
    by (auto simp: observe_inv_def method_inv_def barriers_inv_def clients_inv_def oracles_published_def
        method_reached_def fire_barriers_when)
next
  case staple_returns
  then show ?thesis using assms(2)
    by (auto simp: observe_inv_def method_inv_def barriers_inv_def clients_inv_def staple_returned_def
        method_reached_def fire_barriers_when)
next
  case (client_ends ts t ph us out)
  have "client_rest env (final_barriers env) t ph = Some out"
    using client_advance_settled[OF barriers_settle[OF assms(2)] client_ends(3)]
    by (rule client_advance_ends)
  then show ?thesis using assms(2) client_ends
    by (auto simp: observe_inv_def method_inv_def barriers_inv_def clients_inv_def method_reached_def)
next
  case (client_goes_on ts t ph us ph')
  have "client_rest env (final_barriers env) t ph = client_rest env (final_barriers env) t ph'"
    using client_advance_settled[OF barriers_settle[OF assms(2)] client_goes_on(3)]
    by (rule client_advance_goes_on)
  then show ?thesis using assms(2) client_goes_on
    by (auto simp: observe_inv_def method_inv_def barriers_inv_def clients_inv_def method_reached_def)
qed

lemma observe_inv_reachable:
  "(observe_step env)\<^sup>*\<^sup>* (observe_start env) s \<Longrightarrow> observe_inv env s"
  by (induction rule: rtranclp_induct) (auto intro: observe_inv_start observe_inv_step)

subsection \<open>What the goroutines record\<close>

definition out_profile :: "outcome \<Rightarrow> gostring" where
  "out_profile out = res_profile (fst out)"

lemma thread_poll_profile: "thread_poll env sat t = Some out \<Longrightarrow> out_profile out = prof_name (snd t)"
  by (auto simp: thread_poll_def out_profile_def dest: poll_one_profile)

lemma client_failure_profile [simp]: "out_profile (client_failure env sat t e) = prof_name (snd t)"
  by (simp add: client_failure_def out_profile_def harness_result_def Let_def)

lemma oracle_outcome_profile: "oracle_outcome env t = Some out \<Longrightarrow> out_profile out = prof_name (snd t)"
  by (simp add: oracle_outcome_def thread_poll_profile)

lemma client_outcome_profile: "client_outcome env bs t = Some out \<Longrightarrow> out_profile out = prof_name (snd t)"
  by (auto simp: client_outcome_def thread_poll_profile split: option.splits bind_splits)

lemma those_Some_list_all2: "those (map f xs) = Some ys \<longleftrightarrow> list_all2 (\<lambda>x y. f x = Some y) xs ys"
  by (induction xs arbitrary: ys) (auto simp: list_all2_Cons1 split: option.splits)

lemma those_names:
  assumes "those (map f xs) = Some ys" and "\<And>x y. f x = Some y \<Longrightarrow> g y = h x"
  shows "map g ys = map h xs"
proof -
  have "list_all2 (\<lambda>x y. f x = Some y) xs ys" using assms(1) by (simp add: those_Some_list_all2)
  then show ?thesis by (induction rule: list_all2_induct) (auto simp: assms(2))
qed

lemma enabled_threads_names:
  "distinct (map prof_name (rn_profiles (oe_runner env))) \<Longrightarrow>
     distinct (map (prof_name \<circ> snd) (enumerate 0 (rn_profiles (oe_runner env))))"
  by (simp flip: map_map)

lemma distinct_disjoint_filters:
  assumes "distinct (map g xs)" and "\<And>x. \<not> (P x \<and> Q x)" and "\<And>x. \<not> (P x \<and> R x)"
    and "\<And>x. \<not> (Q x \<and> R x)"
  shows "distinct (map g (filter P xs @ filter Q xs @ filter R xs))"
proof -
  have inj: "g x = g y \<longleftrightarrow> x = y" if "x \<in> set xs" "y \<in> set xs" for x y
    using assms(1) that by (auto simp: distinct_map inj_on_def)
  show ?thesis using assms
    by (auto simp: distinct_map_filter inj)
qed

lemma threads_distinct:
  assumes "distinct (map prof_name (rn_profiles (oe_runner env)))"
  shows "distinct (map (prof_name \<circ> snd) (oracle_threads env MethodOCSPDirect
    @ oracle_threads env MethodCRL @ client_threads env))"
  unfolding oracle_threads_def client_threads_def enabled_threads_def
  by (rule distinct_disjoint_filters[OF enabled_threads_names[OF assms]]) auto

lemma result_key_inj:
  "distinct (map out_profile outs) \<Longrightarrow> inj_on result_key (set (map fst outs))"
  by (auto simp: distinct_map inj_on_def out_profile_def result_key_def)

definition all_outs :: "observe_state \<Rightarrow> outcome list" where
  "all_outs s = os_oracle_outs s MethodOCSPDirect @ os_oracle_outs s MethodCRL @ os_client_outs s"

lemma observed_results_all: "observed_results s = sort_results (map fst (all_outs s))"
  by (simp add: observed_results_def all_outs_def)

text \<open>A final state holds what the phase as a function returns, up to the order of the goroutines.\<close>

lemma final_collected:
  assumes inv: "observe_inv env s" and final: "observe_final env s"
  shows "\<exists>outs. observe_phase env = Some (outs, os_barriers s) \<and> mset (all_outs s) = mset outs"
proof -
  have published: "os_done s m" if "m \<in> set status_methods" for m
    using final that by (auto simp: observe_final_def)
  have collected: "\<exists>outs. poll_method env m = Some outs \<and> mset outs = mset (os_oracle_outs s m)
      \<and> outs = map (the \<circ> oracle_outcome env) (oracle_threads env m)" if "m \<in> set status_methods" for m
  proof -
    have "method_inv env s m" using inv that by (auto simp: observe_inv_def)
    then have "image_mset Some (mset (os_oracle_outs s m))
        = image_mset (oracle_outcome env) (mset (oracle_threads env m))"
      using published[OF that] by (auto simp: method_inv_def)
    from those_collected[OF this] show ?thesis by (simp add: poll_method_def)
  qed
  obtain ocsp crl where ocsp: "poll_method env MethodOCSPDirect = Some ocsp"
      "mset ocsp = mset (os_oracle_outs s MethodOCSPDirect)"
      "ocsp = map (the \<circ> oracle_outcome env) (oracle_threads env MethodOCSPDirect)"
    and crl: "poll_method env MethodCRL = Some crl" "mset crl = mset (os_oracle_outs s MethodCRL)"
      "crl = map (the \<circ> oracle_outcome env) (oracle_threads env MethodCRL)"
    using collected[of MethodOCSPDirect] collected[of MethodCRL] by auto
  have fired: "fired_barriers env ocsp crl = final_barriers env"
    by (simp add: fired_barriers_when final_barriers_def method_final_def ocsp(3) crl(3))
  have "os_barriers s = final_barriers env"
  proof -
    have "method_reached env s m = method_final env m" if "m \<in> set status_methods" for m
      using method_done_final[of env s m] published[OF that] inv that by (auto simp: observe_inv_def)
    moreover have "os_staple_done s = (oe_stapling env = StaplingOn)"
      using inv final by (auto simp: observe_inv_def barriers_inv_def observe_final_def)
    ultimately show ?thesis using inv by (simp add: observe_inv_def barriers_inv_def final_barriers_def)
  qed
  moreover have "image_mset Some (mset (os_client_outs s))
      = image_mset (client_outcome env (final_barriers env)) (mset (client_threads env))"
    using inv final by (simp add: observe_inv_def clients_inv_def observe_final_def)
  from those_collected[OF this] obtain clients where
    "poll_clients env (final_barriers env) = Some clients" "mset clients = mset (os_client_outs s)"
    by (auto simp: poll_clients_def)
  ultimately show ?thesis using ocsp(1,2) crl(1,2) fired
    by (simp add: observe_phase_def Let_def all_outs_def)
qed

lemma observe_phase_distinct:
  assumes "distinct (map prof_name (rn_profiles (oe_runner env)))"
    and "observe_phase env = Some (outs, bs)"
  shows "distinct (map out_profile outs)"
proof -
  obtain ocsp crl clients where split: "those (map (oracle_outcome env) (oracle_threads env MethodOCSPDirect)) = Some ocsp"
    "those (map (oracle_outcome env) (oracle_threads env MethodCRL)) = Some crl"
    "those (map (client_outcome env bs) (client_threads env)) = Some clients"
    "outs = ocsp @ crl @ clients"
    using assms(2) by (auto simp: observe_phase_def poll_method_def poll_clients_def Let_def
        split: bind_splits)
  have "map out_profile outs = map (prof_name \<circ> snd) (oracle_threads env MethodOCSPDirect
      @ oracle_threads env MethodCRL @ client_threads env)"
    using those_names[OF split(1), of out_profile "prof_name \<circ> snd"]
      those_names[OF split(2), of out_profile "prof_name \<circ> snd"]
      those_names[OF split(3), of out_profile "prof_name \<circ> snd"]
    by (simp add: split(4) oracle_outcome_profile client_outcome_profile)
  then show ?thesis using threads_distinct[OF assms(1)] by simp
qed

text \<open>C4: However the goroutines of the observation phase interleave, once all have ended the recorded
  results, the barriers the timeline is read from, and the metrics counted (as a multiset) are those
  of the phase run as a function, oracles first and then the clients: concurrency changes neither a
  verdict nor a measured instant.\<close>

theorem observe_schedule_independent:
  assumes "distinct (map prof_name (rn_profiles (oe_runner env)))"
    and "(observe_step env)\<^sup>*\<^sup>* (observe_start env) s" and "observe_final env s"
  shows "\<exists>outs. observe_phase env = Some (outs, os_barriers s)
    \<and> observed_results s = sort_results (map fst outs)
    \<and> mset (concat (map snd (all_outs s))) = mset (concat (map snd outs))"
proof -
  obtain outs where outs: "observe_phase env = Some (outs, os_barriers s)" "mset (all_outs s) = mset outs"
    using final_collected[OF observe_inv_reachable[OF assms(2)] assms(3)] by blast
  have "inj_on result_key (set (map fst (all_outs s)))"
    using result_key_inj[OF observe_phase_distinct[OF assms(1) outs(1)]] mset_eq_setD[OF outs(2)] by simp
  then have "sort_results (map fst (all_outs s)) = sort_results (map fst outs)"
    unfolding sort_results_def using outs(2) by (intro sort_key_perm_eq) simp_all
  moreover have "mset (concat (map snd (all_outs s))) = mset (concat (map snd outs))"
    using outs(2) by (simp add: mset_concat flip: sum_mset_sum_list)
  ultimately show ?thesis using outs(1) by (auto simp: observed_results_all)
qed

subsection \<open>Progress and termination\<close>

fun phase_size :: "observe_env \<Rightarrow> thread \<times> client_phase \<Rightarrow> nat" where
  "phase_size env (t, ClientStart) = 2 + length (case dependencies_of env t of None \<Rightarrow> [] | Some ds \<Rightarrow> ds)"
| "phase_size env (t, ClientWaiting satisfied ds) = 1 + length ds"

text \<open>How many steps the goroutines still have to make.\<close>

definition observe_size :: "observe_env \<Rightarrow> observe_state \<Rightarrow> nat" where
  "observe_size env s =
     (\<Sum>m \<in> set status_methods. length (os_oracles s m) + (if os_done s m then 0 else 1))
       + (if os_staple_done s then 0 else 1) + sum_list (map (phase_size env) (os_clients s))"

lemma client_advance_size:
  "client_advance env bs t ph = Some (Inr ph') \<Longrightarrow> phase_size env (t, ph') < phase_size env (t, ph)"
  by (induction env bs t ph rule: client_advance.induct) (auto split: option.splits if_splits sum.splits)

lemma phase_size_pos: "0 < phase_size env x"
  by (cases x; cases "snd x") auto

lemma observe_step_size:
  assumes "observe_step env s s'"
  shows "observe_size env s' < observe_size env s"
  using assms
proof cases
  case (client_ends ts t ph us out)
  then show ?thesis using phase_size_pos[of env "(t, ph)"] by (simp add: observe_size_def)
next
  case (client_goes_on ts t ph us ph')
  then show ?thesis using client_advance_size[OF client_goes_on(3)] by (simp add: observe_size_def)
qed (auto simp: observe_size_def oracle_returned_def oracles_published_def staple_returned_def)

lemma thread_poll_total: "0 < max_attempts (oe_config env) \<Longrightarrow> \<exists>out. thread_poll env sat t = Some out"
  using poll_one_total by (fastforce simp: thread_poll_def)

lemma client_advance_total:
  assumes "0 < max_attempts (oe_config env)" and "\<And>d b. bs d = Some b \<Longrightarrow> bar_ready b"
  shows "\<exists>x. client_advance env bs t ph = Some x"
  using assms
proof (induction env bs t ph rule: client_advance.induct)
  case (2 env bs t satisfied)
  then show ?case using thread_poll_total[of env satisfied t] by auto
qed (auto split: option.split sum.split)

lemma all_fired:
  assumes "barriers_inv env s" and "os_done s MethodOCSPDirect" "os_done s MethodCRL"
    and "oe_stapling env = StaplingOn \<Longrightarrow> os_staple_done s" and "os_barriers s d = Some b"
  shows "bar_ready b"
  using assms
  by (cases d; cases "oe_stapling env = StaplingOn")
    (auto simp: barriers_inv_def barriers_when_def method_reached_def initial_barriers_def satisfy_def
      fail_barrier_def Let_def)

lemma observe_progress:
  assumes "0 < max_attempts (oe_config env)" and inv: "observe_inv env s" and "\<not> observe_final env s"
  shows "\<exists>s'. observe_step env s s'"
proof (cases "\<exists>m \<in> set status_methods. os_oracles s m \<noteq> []")
  case True
  then obtain m t us where m: "m \<in> set status_methods" "os_oracles s m = [] @ t # us"
    by (auto simp: neq_Nil_conv)
  obtain out where "oracle_outcome env t = Some out"
    using thread_poll_total[OF assms(1)] unfolding oracle_outcome_def by blast
  with m show ?thesis by (blast intro: observe_step.oracle_returns)
next
  case idle: False
  show ?thesis
  proof (cases "list_all (os_done s) status_methods")
    case False
    then obtain m where "m \<in> set status_methods" "\<not> os_done s m" by auto
    with idle show ?thesis by (blast intro: observe_step.oracles_publish)
  next
    case published: True
    show ?thesis
    proof (cases "oe_stapling env = StaplingOn \<and> \<not> os_staple_done s")
      case True
      then show ?thesis by (blast intro: observe_step.staple_returns)
    next
      case False
      with published assms(3) obtain t ph us where client: "os_clients s = [] @ (t, ph) # us"
        by (auto simp: observe_final_def neq_Nil_conv)
      have "\<exists>x. client_advance env (os_barriers s) t ph = Some x"
        using all_fired[of env s] inv published False
        by (intro client_advance_total[OF assms(1)]) (auto simp: observe_inv_def)
      then obtain x where x: "client_advance env (os_barriers s) t ph = Some x" by blast
      show ?thesis
        by (cases x) (use client x in \<open>blast intro: observe_step.client_ends observe_step.client_goes_on\<close>)+
    qed
  qed
qed

lemma observe_can_finish:
  assumes "0 < max_attempts (oe_config env)" and "observe_inv env s"
  shows "\<exists>s'. (observe_step env)\<^sup>*\<^sup>* s s' \<and> observe_final env s'"
  using assms(2)
proof (induction "observe_size env s" arbitrary: s rule: less_induct)
  case less
  show ?case
  proof (cases "observe_final env s")
    case False
    then obtain s' where s': "observe_step env s s'" using observe_progress[OF assms(1) less.prems] by blast
    from less.hyps[OF observe_step_size[OF s'] observe_inv_step[OF s' less.prems]] s'
    show ?thesis by (meson converse_rtranclp_into_rtranclp)
  qed blast
qed

text \<open>C9: The observation phase never deadlocks and always ends: with a positive attempt limit, from
  every reachable state the end can be reached, a state without a next step is the end, and every
  step brings it nearer, so no schedule runs for ever.  A client can therefore not wait for evidence
  that is never decided.\<close>

theorem observation_always_ends:
  assumes "0 < max_attempts (oe_config env)" and "(observe_step env)\<^sup>*\<^sup>* (observe_start env) s"
  shows "(\<exists>s'. (observe_step env)\<^sup>*\<^sup>* s s' \<and> observe_final env s')
    \<and> (observe_final env s \<or> (\<exists>s'. observe_step env s s'))
    \<and> (\<forall>s'. observe_step env s s' \<longrightarrow> observe_size env s' < observe_size env s)"
  using observe_can_finish[OF assms(1)] observe_progress[OF assms(1)] observe_step_size
    observe_inv_reachable[OF assms(2)] by blast

subsection \<open>Clients probe after their evidence\<close>

text \<open>What a client relies on when it probes: each dependency is ready, was satisfied, and the instant it
  recorded is the barrier's.\<close>

definition evidence_before ::
  "barriers \<Rightarrow> (gostring \<rightharpoonup> gotime) \<Rightarrow> evidence_dependency \<Rightarrow> bool" where
  "evidence_before bs satisfied d \<longleftrightarrow> (\<exists>b. bs d = Some b \<and> bar_ready b \<and> bar_err b = None
     \<and> bar_at b \<noteq> 0 \<and> satisfied (dependency_text d) = Some (bar_at b))"

definition fires_only :: "barriers \<Rightarrow> barriers \<Rightarrow> bool" where
  "fires_only bs bs' \<longleftrightarrow> dom bs' = dom bs
     \<and> (\<forall>d b. bs d = Some b \<and> bar_ready b \<longrightarrow> bs' d = Some b)"

lemma evidence_before_stable:
  "evidence_before bs sat d \<Longrightarrow> fires_only bs bs' \<Longrightarrow> evidence_before bs' sat d"
  by (fastforce simp: evidence_before_def fires_only_def)

lemma fire_ready_same: "bar_ready b \<Longrightarrow> fire_barrier v b = b"
  by (auto simp: fire_barrier_def fail_barrier_def satisfy_def Let_def split: sum.split)

lemma fire_in_fires_only: "fires_only bs (fire_in d v bs)"
  by (auto simp: fires_only_def fire_in_def fire_ready_same split: option.split)

lemma fires_only_refl [simp]: "fires_only bs bs"
  by (simp add: fires_only_def)

text \<open>The texts of the dependencies that have a barrier are distinct.\<close>

lemma dependency_text_inj:
  "d \<in> known_evidence \<Longrightarrow> d' \<in> known_evidence \<Longrightarrow> dependency_text d = dependency_text d' \<Longrightarrow> d = d'"
  by (auto simp: known_evidence_def)

definition client_before :: "observe_env \<Rightarrow> barriers \<Rightarrow> thread \<times> client_phase \<Rightarrow> bool" where
  "client_before env bs c \<longleftrightarrow> (case c of (t, ClientStart) \<Rightarrow> True
     | (t, ClientWaiting satisfied ds) \<Rightarrow> \<exists>before. dependencies_of env t = Some (before @ ds)
         \<and> (\<forall>d \<in> set before. evidence_before bs satisfied d))"

definition out_before :: "observe_env \<Rightarrow> barriers \<Rightarrow> outcome \<Rightarrow> bool" where
  "out_before env bs out \<longleftrightarrow> (0 < res_attempts (fst out) \<longrightarrow>
     (\<exists>t ds. t \<in> set (client_threads env) \<and> prof_name (snd t) = res_profile (fst out)
        \<and> dependencies_of env t = Some ds
        \<and> (\<forall>d \<in> set ds. evidence_before bs (res_evidence_satisfied_at (fst out)) d)))"

definition before_inv :: "observe_env \<Rightarrow> observe_state \<Rightarrow> bool" where
  "before_inv env s \<longleftrightarrow> dom (os_barriers s) = known_evidence
     \<and> (\<forall>c \<in> set (os_clients s). fst c \<in> set (client_threads env) \<and> client_before env (os_barriers s) c)
     \<and> (\<forall>out \<in> set (os_client_outs s). out_before env (os_barriers s) out)"

lemma before_stable:
  "client_before env bs c \<Longrightarrow> fires_only bs bs' \<Longrightarrow> client_before env bs' c"
  "out_before env bs out \<Longrightarrow> fires_only bs bs' \<Longrightarrow> out_before env bs' out"
  by (fastforce simp: client_before_def split: client_phase.splits prod.splits dest: evidence_before_stable)
    (fastforce simp: out_before_def dest: evidence_before_stable)

lemma client_failure_attempts [simp]: "res_attempts (fst (client_failure env sat t e)) = 0"
  by (simp add: client_failure_def harness_result_def poll_result_def zero_result_def Let_def)

lemma advance_before_goes_on:
  assumes "client_before env bs (t, ph)" and "dom bs = known_evidence"
    and "client_advance env bs t ph = Some (Inr ph')"
  shows "client_before env bs (t, ph')"
proof (cases ph)
  case ClientStart
  then show ?thesis using assms(3) by (auto simp: client_before_def split: option.splits)
next
  case (ClientWaiting satisfied ds)
  then obtain d ds' b at where d: "ds = d # ds'" "bs d = Some b" "bar_ready b"
    "receive_evidence (prof_name (snd t)) d b = Inr at"
    "ph' = ClientWaiting (satisfied(dependency_text d \<mapsto> at)) ds'"
    using assms(3) by (cases ds) (auto split: option.splits if_splits sum.splits)
  obtain before where before: "dependencies_of env t = Some (before @ ds)"
    "\<forall>d \<in> set before. evidence_before bs satisfied d"
    using assms(1) ClientWaiting by (auto simp: client_before_def)
  have at: "bar_err b = None" "bar_at b = at" "at \<noteq> 0" using d(4) by (simp_all add: receive_evidence_Inr)
  have "evidence_before bs (satisfied(dependency_text d \<mapsto> at)) d'" if "d' \<in> set (before @ [d])" for d'
  proof (cases "d' = d")
    case False
    with that before(2) have ev: "evidence_before bs satisfied d'" by simp
    then have "d' \<in> known_evidence" "d \<in> known_evidence"
      using assms(2) d(2) by (auto simp: evidence_before_def)
    with False have "dependency_text d' \<noteq> dependency_text d" by (blast dest: dependency_text_inj)
    with ev show ?thesis by (simp add: evidence_before_def)
  qed (use at d in \<open>simp add: evidence_before_def\<close>)
  moreover have "dependencies_of env t = Some ((before @ [d]) @ ds')" using before(1) d(1) by simp
  ultimately show ?thesis unfolding d(5) client_before_def by (simp del: set_append)
qed

lemma advance_before_ends:
  assumes "client_before env bs (t, ph)" and "t \<in> set (client_threads env)"
    and "client_advance env bs t ph = Some (Inl out)"
  shows "out_before env bs out"
proof (cases ph)
  case ClientStart
  then show ?thesis using assms(3) by (auto simp: out_before_def split: option.splits)
next
  case (ClientWaiting satisfied ds)
  show ?thesis
  proof (cases ds)
    case Nil
    then have poll: "thread_poll env satisfied t = Some out" using assms(3) ClientWaiting by auto
    then have "res_evidence_satisfied_at (fst out) = satisfied" by (auto simp: thread_poll_def)
    moreover have "res_profile (fst out) = prof_name (snd t)"
      using thread_poll_profile[OF poll] by (simp add: out_profile_def)
    moreover obtain ds where "dependencies_of env t = Some ds" "\<forall>d \<in> set ds. evidence_before bs satisfied d"
      using assms(1) ClientWaiting Nil by (auto simp: client_before_def)
    ultimately show ?thesis using assms(2) unfolding out_before_def by metis
  next
    case (Cons d ds')
    then have "\<exists>e. out = client_failure env satisfied t e"
      using assms(3) ClientWaiting by (auto split: option.splits if_splits sum.splits)
    then show ?thesis by (auto simp: out_before_def)
  qed
qed

lemma before_inv_start: "before_inv env (observe_start env)"
  by (auto simp: before_inv_def observe_start_def client_before_def initial_barriers_def known_evidence_def)

text \<open>Firing a barrier keeps the invariant.\<close>

lemma before_inv_fire:
  assumes "before_inv env s" and "fires_only (os_barriers s) (os_barriers s')"
    and "os_clients s' = os_clients s" and "os_client_outs s' = os_client_outs s"
  shows "before_inv env s'"
  using assms before_stable by (fastforce simp: before_inv_def fires_only_def)

lemma before_inv_step:
  assumes "observe_step env s s'" and inv: "before_inv env s"
  shows "before_inv env s'"
  using assms(1)
proof cases
  case (oracle_returns m ts t us out)
  then show ?thesis by (intro before_inv_fire[OF inv]) (simp_all add: oracle_returned_def)
next
  case (oracles_publish m)
  then show ?thesis
    by (intro before_inv_fire[OF inv]) (simp_all add: oracles_published_def fire_in_fires_only)
next
  case staple_returns
  then show ?thesis
    by (intro before_inv_fire[OF inv]) (simp_all add: staple_returned_def fire_in_fires_only)
next
  case (client_ends ts t ph us out)
  have t: "t \<in> set (client_threads env)" "client_before env (os_barriers s) (t, ph)"
    using inv by (simp_all add: before_inv_def client_ends(2))
  have "out_before env (os_barriers s) out"
    by (rule advance_before_ends[OF t(2,1) client_ends(3)])
  then show ?thesis using inv unfolding client_ends(1) before_inv_def
    by (simp add: client_ends(2) ball_Un)
next
  case (client_goes_on ts t ph us ph')
  have t: "t \<in> set (client_threads env)" "client_before env (os_barriers s) (t, ph)"
    "dom (os_barriers s) = known_evidence"
    using inv by (simp_all add: before_inv_def client_goes_on(2))
  have "client_before env (os_barriers s) (t, ph')"
    by (rule advance_before_goes_on[OF t(2,3) client_goes_on(3)])
  then show ?thesis using inv unfolding client_goes_on(1) before_inv_def
    by (simp add: client_goes_on(2) ball_Un)
qed

lemma before_inv_reachable:
  "(observe_step env)\<^sup>*\<^sup>* (observe_start env) s \<Longrightarrow> before_inv env s"
  by (induction rule: rtranclp_induct) (auto intro: before_inv_start before_inv_step)

text \<open>What an oracle barrier without an error says of the oracles.\<close>

lemma oracle_barrier_evidence:
  assumes "barriers_inv env s" and "m \<in> set status_methods"
    and "os_barriers s (publication_of m) = Some b" and "bar_ready b" and "bar_err b = None"
  shows "method_evidence env m (os_oracle_outs s m) = Inr (bar_at b)"
proof -
  have "b = decided_barrier (os_done s m) (method_evidence env m (os_oracle_outs s m))"
    using assms(1-3) by (auto simp: barriers_inv_def barriers_when_def method_reached_def)
  then show ?thesis using assms(4,5)
    by (auto simp: decided_barrier_def fire_barrier_def fail_barrier_def satisfy_def
        new_evidence_barrier_def Let_def split: sum.splits if_splits)
qed

text \<open>C2: No client runs before its evidence: whatever the interleaving, a client result with at least
  one attempt belongs to an enabled client all of whose declared dependencies are already satisfied,
  with the barrier's instant recorded; and where that dependency is the OCSP or CRL publication, some
  oracle of that method has already reported \<open>REJECT/REVOKED\<close>, and the recorded instant is the first
  such report.\<close>

theorem clients_probe_after_evidence:
  assumes "(observe_step env)\<^sup>*\<^sup>* (observe_start env) s"
    and "(res, ms) \<in> set (os_client_outs s)" and "0 < res_attempts res"
  shows "\<exists>t ds. t \<in> set (client_threads env) \<and> prof_name (snd t) = res_profile res
    \<and> dependencies_of env t = Some ds
    \<and> (\<forall>d \<in> set ds. evidence_before (os_barriers s) (res_evidence_satisfied_at res) d)
    \<and> (\<forall>m \<in> set status_methods. publication_of m \<in> set ds \<longrightarrow>
        (let confirmed = {o' \<in> fst ` set (os_oracle_outs s m). confirms_revocation o'}
         in confirmed \<noteq> {} \<and> res_evidence_satisfied_at res (dependency_text (publication_of m))
              = Some (Min (res_decision_at ` confirmed))))"
proof -
  have "out_before env (os_barriers s) (res, ms)"
    using before_inv_reachable[OF assms(1)] assms(2) by (auto simp: before_inv_def)
  then obtain t ds where t: "t \<in> set (client_threads env)" "prof_name (snd t) = res_profile res"
      "dependencies_of env t = Some ds"
    and ev: "\<forall>d \<in> set ds. evidence_before (os_barriers s) (res_evidence_satisfied_at res) d"
    using assms(3) by (auto simp: out_before_def)
  have "let confirmed = {o' \<in> fst ` set (os_oracle_outs s m). confirms_revocation o'}
      in confirmed \<noteq> {} \<and> res_evidence_satisfied_at res (dependency_text (publication_of m))
           = Some (Min (res_decision_at ` confirmed))"
    if m: "m \<in> set status_methods" "publication_of m \<in> set ds" for m
  proof -
    obtain b where b: "os_barriers s (publication_of m) = Some b" "bar_ready b" "bar_err b = None"
      "res_evidence_satisfied_at res (dependency_text (publication_of m)) = Some (bar_at b)"
      using ev m(2) unfolding evidence_before_def by blast
    have "method_evidence env m (os_oracle_outs s m) = Inr (bar_at b)"
      using observe_inv_reachable[OF assms(1)] oracle_barrier_evidence[OF _ m(1) b(1-3)]
      by (simp add: observe_inv_def)
    then show ?thesis using b(4) by (auto simp: method_evidence_def publication_evidence_Inr Let_def)
  qed
  with t ev show ?thesis by blast
qed

subsection \<open>A concrete observation\<close>

text \<open>The CRL oracle sees the revocation at its second attempt; the hard-fail client waits for it.\<close>

definition sample_observation :: observe_env where
  "sample_observation = \<lparr>oe_runner = sample_runner, oe_config = sample_config, oe_target = sample_target,
     oe_revoked_at = Instant (99 * second), oe_stapling = StaplingOff, oe_script = (\<lambda>_. sample_script),
     oe_cancelled = (\<lambda>_ _. None), oe_publication = Inl ''none'', oe_quote = (\<lambda>s. s)\<rparr>"

lemma sample_observation_fields [simp]:
  "oe_runner sample_observation = sample_runner" "oe_config sample_observation = sample_config"
  by (simp_all add: sample_observation_def)

lemma sample_attempts_pos: "0 < max_attempts (oe_config sample_observation)"
  by (simp add: sample_config_def)

lemma sample_observation_finishes:
  obtains s where "(observe_step sample_observation)\<^sup>*\<^sup>* (observe_start sample_observation) s"
    "observe_final sample_observation s"
  using observe_can_finish[OF sample_attempts_pos observe_inv_start] by blast

lemma sample_phase:
  "map_option (\<lambda>(outs, bs). (map (\<lambda>(res, _). (res_decision res, res_reason res, res_attempts res)) outs,
      map_option bar_at (bs EvidenceCRLPublished))) (observe_phase sample_observation)
     = Some ([(DecisionReject, ReasonRevoked, 2), (DecisionReject, ReasonRevoked, 2)],
         Some (Instant 100013000000))"
  by code_simp

lemma sample_client_attempts:
  "map (\<lambda>t. map_option (\<lambda>(res, _). res_attempts res)
     (client_outcome sample_observation (final_barriers sample_observation) t))
     (client_threads sample_observation) = [Some 2]"
  by code_simp

lemma sample_names: "distinct (map prof_name (rn_profiles (oe_runner sample_observation)))"
  by (simp add: sample_runner_def crl_check_profile_def go_tls_ocsp_profile_def)

theorem observe_schedule_independent_witness:
  "\<exists>s outs. observe_final sample_observation s
     \<and> observe_phase sample_observation = Some (outs, os_barriers s)
     \<and> observed_results s = sort_results (map fst outs)"
proof -
  obtain s where s: "(observe_step sample_observation)\<^sup>*\<^sup>* (observe_start sample_observation) s"
    "observe_final sample_observation s"
    by (rule sample_observation_finishes)
  from observe_schedule_independent[OF sample_names s] s(2) show ?thesis by blast
qed

theorem observation_always_ends_witness:
  "\<exists>s'. (observe_step sample_observation)\<^sup>*\<^sup>* (observe_start sample_observation) s'
     \<and> observe_final sample_observation s'"
  using observation_always_ends[OF sample_attempts_pos, of "observe_start sample_observation"] by blast

theorem clients_probe_after_evidence_witness:
  "\<exists>s res ms t ds. observe_final sample_observation s \<and> (res, ms) \<in> set (os_client_outs s)
     \<and> prof_name (snd t) = res_profile res \<and> dependencies_of sample_observation t = Some ds
     \<and> (\<forall>d \<in> set ds. evidence_before (os_barriers s) (res_evidence_satisfied_at res) d)"
proof -
  obtain s where s: "(observe_step sample_observation)\<^sup>*\<^sup>* (observe_start sample_observation) s"
    "observe_final sample_observation s"
    by (rule sample_observation_finishes)
  let ?f = "client_outcome sample_observation (final_barriers sample_observation)"
  obtain t where t: "client_threads sample_observation = [t]"
    "map_option (\<lambda>(res, _). res_attempts res) (?f t) = Some 2"
    using sample_client_attempts by (cases "client_threads sample_observation") auto
  then obtain res ms where out: "?f t = Some (res, ms)" "res_attempts res = 2" by auto
  have "image_mset Some (mset (os_client_outs s)) = {#Some (res, ms)#}"
    using observe_inv_reachable[OF s(1)] s(2) t(1) out(1)
    by (simp add: observe_inv_def clients_inv_def observe_final_def)
  then have "Some (res, ms) \<in># image_mset Some (mset (os_client_outs s))" by simp
  then have mem: "(res, ms) \<in> set (os_client_outs s)" by auto
  have "0 < res_attempts res" using out(2) by simp
  from clients_probe_after_evidence[OF s(1) mem this] mem s(2) show ?thesis by blast
qed

end
