(* ===== verification/Cycle_Laws.thy ===== *)
theory Cycle_Laws imports Cycle Observe_Laws
begin

text \<open>
  Laws of a cycle: which calls it makes to the issuer on every exit, what its verdict metric says, when
  its report is valid, that it returns, and that it revokes only after a fresh preflight.
\<close>

subsection \<open>Elementary operations\<close>

lemma runs_primitives [simp]:
  "runs (upd f) s u s' \<longleftrightarrow> s' = s\<lparr>cs_report := f (cs_report s)\<rparr>"
  "runs (enter phase) s u s' \<longleftrightarrow> s' = s\<lparr>cs_report := (cs_report s)\<lparr>rep_phase := phase\<rparr>\<rparr>"
  "runs (count_metric e) s u s' \<longleftrightarrow> s' = s\<lparr>cs_metrics := cs_metrics s @ [e]\<rparr>"
  "runs (count_metrics es) s u s' \<longleftrightarrow> s' = s\<lparr>cs_metrics := cs_metrics s @ es\<rparr>"
  "runs (issuer_does k) s u s' \<longleftrightarrow> s' = s\<lparr>cs_calls := cs_calls s @ [k]\<rparr>"
  "runs (arm_cleanup serial) s u s' \<longleftrightarrow> s' = s\<lparr>cs_armed := serial\<rparr>"
  by (auto simp: runs_def upd_def enter_def count_metric_def count_metrics_def issuer_does_def
      arm_cleanup_def)

lemma runs_report_of [simp]: "runs report_of s rep s' \<longleftrightarrow> rep = cs_report s \<and> s' = s"
  by (auto simp: runs_def report_of_def)

lemma runs_must_return [simp]: "runs (must_return x) s y s' \<longleftrightarrow> x = Some y \<and> s' = s"
  by (auto simp: runs_def must_return_def split: option.splits)

lemma runs_failures [simp]:
  "\<not> runs (fail_cycle phase e) s x s'"
  "\<not> runs (error_cycle phase e) s x s'"
  by (auto simp: runs_def fail_cycle_def error_cycle_def op_bind_def count_metric_def)

lemma runs_or_error [simp]: "runs (or_error phase what res) s x s' \<longleftrightarrow> res = Inr x \<and> s' = s"
  by (auto simp: or_error_def split: sum.split)

lemma runs_unless_error [simp]: "runs (unless_error phase what e) s x s' \<longleftrightarrow> e = None \<and> s' = s"
  by (auto simp: unless_error_def split: option.split)

lemma runs_on_fs [simp]:
  "runs (on_fs m) s x s' \<longleftrightarrow> (\<exists>f'. m (cs_fs s) = (x, f') \<and> s' = s\<lparr>cs_fs := f'\<rparr>)"
  by (auto simp: runs_def on_fs_def split: prod.splits)

subsection \<open>Stages that do not touch the issuer\<close>

text \<open>The issuer is not called, the deferred revocation stays as it is, and so does its record in the
  report.\<close>

definition quiet_states :: "cycle_state \<Rightarrow> cycle_state \<Rightarrow> bool" where
  "quiet_states s s' \<longleftrightarrow> cs_calls s' = cs_calls s \<and> cs_armed s' = cs_armed s
     \<and> rep_cleanup (cs_report s') = rep_cleanup (cs_report s)"

interpretation quiet: run_relation quiet_states
  by unfold_locales (auto simp: quiet_states_def)

lemma quiet_upd: "(\<And>rep. rep_cleanup (f rep) = rep_cleanup rep) \<Longrightarrow> preserves quiet_states (upd f)"
  by (simp add: preserves_def upd_def quiet_states_def)

lemma quiet_primitives:
  "preserves quiet_states (enter phase)"
  "preserves quiet_states (count_metric e)"
  "preserves quiet_states (count_metrics es)"
  by (simp_all add: preserves_def enter_def upd_def count_metric_def count_metrics_def quiet_states_def)

lemma quiet_report_of: "preserves quiet_states report_of"
  by (simp add: preserves_def report_of_def quiet_states_def)

lemma quiet_must_return: "preserves quiet_states (must_return x)"
  by (simp add: preserves_def must_return_def quiet_states_def split: option.split)

lemma quiet_fail_cycle: "preserves quiet_states (fail_cycle phase e)"
  by (simp add: preserves_def fail_cycle_def quiet_states_def)

lemma quiet_error_cycle: "preserves quiet_states (error_cycle phase e)"
  unfolding error_cycle_def by (intro quiet.keep_bind quiet_primitives quiet_fail_cycle)

lemma quiet_on_fs: "preserves quiet_states (on_fs m)"
  by (simp add: preserves_def on_fs_def quiet_states_def split: prod.split)

lemma quiet_or_error: "preserves quiet_states (or_error phase what res)"
  by (cases res) (simp_all add: or_error_def quiet_error_cycle quiet.keep_return)

lemma quiet_unless_error: "preserves quiet_states (unless_error phase what e)"
  by (cases e) (simp_all add: unless_error_def quiet_error_cycle quiet.keep_return)

lemma quiet_persists:
  "preserves quiet_states (persist_preflight w r)"
  "preserves quiet_states (persist_results w r)"
  by (simp_all add: preserves_def persist_preflight_def persist_results_def quiet_states_def split: prod.split)

lemmas quiet_intros = quiet_primitives quiet_report_of quiet_must_return quiet_fail_cycle
  quiet_error_cycle quiet_on_fs quiet_or_error quiet_unless_error quiet_persists quiet.keep_intros

lemma quiet_fail_with_preflight: "preserves quiet_states (fail_with_preflight w r what why phase e)"
  unfolding fail_with_preflight_def by (intro quiet_intros)

lemma runs_fail_with_preflight [simp]: "\<not> runs (fail_with_preflight w r what why phase e) s x s'"
proof
  assume "runs (fail_with_preflight w r what why phase e) s x s'"
  then obtain res :: "gostring + unit" and s1 where "runs (case res of
      Inl x \<Rightarrow> error_cycle PhasePersistEvidence (what @ why @ ''; persisting preflight evidence: '' @ x)
    | Inr _ \<Rightarrow> error_cycle phase e) s1 x s'" unfolding fail_with_preflight_def runs_bind by blast
  then show False by (cases res) simp_all
qed

lemma quiet_stages:
  "preserves quiet_states (artifacts_stage w r m cert)"
  "preserves quiet_states (serve_stage w r cert staple)"
  "preserves quiet_states (complete_stage)"
  unfolding artifacts_stage_def serve_stage_def complete_stage_def
  by (intro quiet_intros quiet_upd; simp)+

lemma quiet_prod: "(\<And>x y. preserves R (f x y)) \<Longrightarrow> preserves R (case p of (x, y) \<Rightarrow> f x y)"
  by (cases p) simp

lemma quiet_staple_stage: "preserves quiet_states (staple_stage w r c m cert)"
  unfolding staple_stage_def by (intro quiet_intros quiet_prod)

lemma quiet_preflight_stage: "preserves quiet_states (preflight_stage w r c tgt)"
  unfolding preflight_stage_def
  by (intro quiet_intros quiet_prod quiet_fail_with_preflight quiet_upd) simp_all

lemma quiet_observe_stage: "preserves quiet_states (observe_stage w r c m canary observed acked)"
  unfolding observe_stage_def
  by (cases canary; cases acked) (simp only: case_prod_conv, intro quiet_intros quiet_prod quiet_upd;
      simp add: Let_def; intro quiet_intros quiet_prod quiet_upd; simp)

lemma quiet_persist_stage: "preserves quiet_states (persist_stage w r m p)"
  unfolding persist_stage_def by (intro quiet_intros quiet_upd) simp

lemma quiet_evaluate_stage: "preserves quiet_states (evaluate_stage c)"
  unfolding evaluate_stage_def check_harness_def check_finding_def
  by (intro quiet_intros quiet_upd) simp

lemma quiet_after_revocation: "preserves quiet_states (after_revocation w r c m canary observed acked)"
  unfolding after_revocation_def
  by (intro quiet.keep_bind quiet_observe_stage quiet_persist_stage quiet_evaluate_stage)

subsection \<open>The calls a cycle makes\<close>

definition issued :: "cycle_world \<Rightarrow> runner \<Rightarrow> issue_error + canary_cert" where
  "issued w r = issue_canary (cw_issue w) (cycle_hostname w r)"

definition experiment_revoke_error :: "cycle_world \<Rightarrow> canary_cert \<Rightarrow> gostring option" where
  "experiment_revoke_error w cert =
     snd (snd (issuer_revoke_at (cw_revoke w) (cc_serial_number cert) (cw_revoke_request_at w)))"

lemma quiet_tail: "(\<And>x. preserves quiet_states (k x)) \<Longrightarrow> quiet_states (snd (m s)) (snd (op_bind m k s))"
  unfolding op_bind_def preserves_def
  by (auto simp: quiet.refl split: prod.split sum.split)

lemma issue_stage_calls:
  "cs_calls (snd (issue_stage w r s)) = cs_calls s @ [CallIssue (cycle_hostname w r)]"
  "cs_armed (snd (issue_stage w r s)) = (case issued w r of Inl e \<Rightarrow> cs_armed s
     | Inr cert \<Rightarrow> Some (cc_serial_number cert))"
  "rep_cleanup (cs_report (snd (issue_stage w r s))) = rep_cleanup (cs_report s)"
  by (auto simp: issue_stage_def issued_def op_bind_def issuer_does_def error_cycle_def count_metric_def
      fail_cycle_def arm_cleanup_def op_return_def split: sum.split)

lemma issue_stage_runs:
  "runs (issue_stage w r) s cert s' \<Longrightarrow> issued w r = Inr cert"
  by (auto simp: issue_stage_def issued_def split: sum.splits)

lemma before_revocation_quiet:
  "quiet_states (snd (issue_stage w r s)) (snd (before_revocation w r c m s))"
proof -
  let ?rest = "\<lambda>cert. op_bind (artifacts_stage w r m cert) (\<lambda>_.
     op_bind (staple_stage w r c m cert) (\<lambda>staple.
     op_bind (serve_stage w r cert staple) (\<lambda>srv.
     op_bind (upd (\<lambda>rep. rep\<lparr>rep_issued_leaf_sha256 := leaf_digest w cert\<rparr>)) (\<lambda>_.
       op_return (cert, srv, cycle_target w r c cert srv)))))"
  have rest: "preserves quiet_states (?rest cert)" for cert
    by (intro quiet.keep_bind quiet_stages quiet_staple_stage quiet_upd quiet.keep_return) simp
  have "quiet_states (snd (issue_stage w r s)) (snd (canary_stage w r c m s))"
    unfolding canary_stage_def using rest by (rule quiet_tail)
  moreover have "quiet_states (snd (canary_stage w r c m s)) (snd (before_revocation w r c m s))"
    unfolding before_revocation_def
    by (intro quiet_tail quiet.keep_bind quiet_preflight_stage quiet.keep_return)
  ultimately show ?thesis by (rule quiet.trans)
qed

lemma before_revocation_issued:
  assumes "runs (before_revocation w r c m) s ((cert, srv, tgt), observed) s'"
  shows "issued w r = Inr cert" and "tgt_certificate_serial tgt = cc_serial_number cert"
proof -
  from assms obtain s1 where "runs (issue_stage w r) s cert s1"
      and tgt: "tgt = cycle_target w r c cert srv"
    by (auto simp: before_revocation_def canary_stage_def)
  then show "issued w r = Inr cert" by (blast dest: issue_stage_runs)
  show "tgt_certificate_serial tgt = cc_serial_number cert" by (simp add: tgt cycle_target_def)
qed

lemma revoke_stage_calls:
  "cs_calls (snd (revoke_stage w r cert s))
     = cs_calls s @ [CallRevokeAt (cc_serial_number cert) (cw_revoke_request_at w)]"
  "cs_armed (snd (revoke_stage w r cert s)) =
     (if experiment_revoke_error w cert = None then None else cs_armed s)"
  "rep_cleanup (cs_report (snd (revoke_stage w r cert s))) = rep_cleanup (cs_report s)"
proof -
  obtain t_req t_resp err where rev: "issuer_revoke_at (cw_revoke w) (cc_serial_number cert)
      (cw_revoke_request_at w) = (t_req, t_resp, err)" by (metis prod_cases3)
  define s1 where "s1 = s\<lparr>cs_report := (cs_report s)\<lparr>rep_phase := PhaseRevoke\<rparr>,
     cs_calls := cs_calls s @ [CallRevokeAt (cc_serial_number cert) (cw_revoke_request_at w)]\<rparr>"
  define bad :: "gostring \<Rightarrow> (gotime \<times> gotime) cycle_op"
    where "bad e = fail_with_preflight w r ''runner: revoking canary: '' e PhaseRevoke
      (''runner: revoking canary: '' @ e)" for e
  have stage: "revoke_stage w r cert s = (case err of Some e \<Rightarrow> bad e
      | None \<Rightarrow> op_bind (arm_cleanup None) (\<lambda>_. op_return (t_req, t_resp))) s1"
    by (simp add: revoke_stage_def rev op_bind_def enter_def upd_def issuer_does_def s1_def bad_def
        split: option.split)
  have "quiet_states s1 (snd (bad e s1))" for e
    unfolding bad_def by (rule quiet_fail_with_preflight[unfolded preserves_def, rule_format])
  then show "cs_calls (snd (revoke_stage w r cert s))
     = cs_calls s @ [CallRevokeAt (cc_serial_number cert) (cw_revoke_request_at w)]"
  "cs_armed (snd (revoke_stage w r cert s)) =
     (if experiment_revoke_error w cert = None then None else cs_armed s)"
  "rep_cleanup (cs_report (snd (revoke_stage w r cert s))) = rep_cleanup (cs_report s)"
    unfolding stage experiment_revoke_error_def rev
    by (cases err; simp add: quiet_states_def s1_def op_bind_def arm_cleanup_def op_return_def)+
qed

lemma revoke_stage_runs:
  "runs (revoke_stage w r cert) s acked s' \<Longrightarrow> experiment_revoke_error w cert = None"
  by (cases "issuer_revoke_at (cw_revoke w) (cc_serial_number cert) (cw_revoke_request_at w)")
    (auto simp: revoke_stage_def experiment_revoke_error_def split: option.splits)

text \<open>The body from its first state: either it stops before the revocation, or the canary it issued is
  the one it revokes.\<close>

lemma cycle_body_cases:
  obtains e s1 where "before_revocation w r c m s = (Inl e, s1)"
      "op_bind (cycle_body w r c m) (\<lambda>_. complete_stage) s = (Inl e, s1)"
  | cert srv tgt observed s1 where "runs (before_revocation w r c m) s ((cert, srv, tgt), observed) s1"
      "quiet_states (snd (revoke_stage w r cert s1))
         (snd (op_bind (cycle_body w r c m) (\<lambda>_. complete_stage) s))"
proof (cases "before_revocation w r c m s")
  case (Pair res s1)
  show ?thesis
  proof (cases res)
    case (Inl e)
    with Pair that(1) show ?thesis by (simp add: cycle_body_def op_bind_def)
  next
    case (Inr x)
    obtain cert srv tgt observed where x: "x = ((cert, srv, tgt), observed)" by (metis prod_cases3 surj_pair)
    have run: "runs (before_revocation w r c m) s ((cert, srv, tgt), observed) s1"
      using Pair Inr x by (simp add: runs_def)
    have "op_bind (cycle_body w r c m) (\<lambda>_. complete_stage) s
        = op_bind (revoke_stage w r cert) (\<lambda>acked. op_bind
            (after_revocation w r c m (cert, srv, tgt) observed acked) (\<lambda>_. complete_stage)) s1"
      using Pair Inr x by (simp add: cycle_body_def op_bind_def split: prod.split sum.split)
    then have "quiet_states (snd (revoke_stage w r cert s1))
        (snd (op_bind (cycle_body w r c m) (\<lambda>_. complete_stage) s))"
      by (simp only:) (intro quiet_tail quiet.keep_bind quiet_after_revocation quiet_stages)
    with run that(2) show ?thesis by blast
  qed
qed

text \<open>What a run leaves with the issuer: the calls, and whether the deferred revocation is armed.\<close>

definition disciplined :: "cycle_world \<Rightarrow> runner \<Rightarrow> cycle_state \<Rightarrow> bool" where
  "disciplined w r s \<longleftrightarrow> rep_cleanup (cs_report s) = \<lparr>cl_attempted = False, cl_revoked = False, cl_error = []\<rparr> \<and>
     (case issued w r of
        Inl e \<Rightarrow> cs_calls s = [CallIssue (cycle_hostname w r)] \<and> cs_armed s = None
      | Inr cert \<Rightarrow>
        (cs_calls s = [CallIssue (cycle_hostname w r)] \<and> cs_armed s = Some (cc_serial_number cert))
        \<or> (cs_calls s = [CallIssue (cycle_hostname w r),
              CallRevokeAt (cc_serial_number cert) (cw_revoke_request_at w)]
           \<and> cs_armed s = (if experiment_revoke_error w cert = None then None
                           else Some (cc_serial_number cert))))"

lemma disciplined_quiet: "quiet_states s s' \<Longrightarrow> disciplined w r s \<Longrightarrow> disciplined w r s'"
  by (cases "issued w r") (auto simp: quiet_states_def disciplined_def)

lemma cycle_start_fields [simp]:
  "cs_calls (cycle_start w r m run digest f) = []" "cs_armed (cycle_start w r m run digest f) = None"
  "cs_metrics (cycle_start w r m run digest f) = []"
  "cs_report (cycle_start w r m run digest f) = initial_report w r m run digest"
  "rep_cleanup (initial_report w r m run digest)
     = \<lparr>cl_attempted = False, cl_revoked = False, cl_error = []\<rparr>"
  "rep_error (initial_report w r m run digest) = []" "\<not> rep_valid (initial_report w r m run digest)"
  by (simp_all add: cycle_start_def initial_report_def)

lemma run_disciplined:
  "disciplined w r (snd (op_bind (cycle_body w r c m) (\<lambda>_. complete_stage) (cycle_start w r m run digest f)))"
proof -
  let ?s = "cycle_start w r m run digest f"
  have issue: "disciplined w r (snd (issue_stage w r ?s))"
    by (auto simp: disciplined_def issue_stage_calls split: sum.split)
  note before = disciplined_quiet[OF before_revocation_quiet issue, of c m]
  show ?thesis
  proof (cases rule: cycle_body_cases[of w r c m ?s])
    case (1 e s1)
    then show ?thesis using before by simp
  next
    case (2 cert srv tgt observed s1)
    note cert = before_revocation_issued(1)[OF 2(1)]
    have "quiet_states (snd (issue_stage w r ?s)) s1"
      using before_revocation_quiet[of w r ?s c m] 2(1) by (simp add: runs_def)
    then have "disciplined w r (snd (revoke_stage w r cert s1))"
      by (simp add: disciplined_def cert revoke_stage_calls quiet_states_def issue_stage_calls)
    then show ?thesis by (rule disciplined_quiet[OF 2(2)])
  qed
qed

text \<open>Without a report there is no call.\<close>

lemma cycle_calls_report:
  "run_once w r f = Some out \<Longrightarrow> co_report out = None \<Longrightarrow> co_calls out = []"
  by (auto simp: run_once_def cycle_finish_def deferred_cleanup_def Let_def
      split: sum.splits prod.splits stop.splits option.splits)

text \<open>C1: No canary is forgotten and none is revoked twice by the experiment.  A cycle without a report
  has made no call.  A cycle with a report asked for one certificate; and if it got one, its calls end
  in one of three ways, all naming that certificate's serial: the compensating revocation alone, the
  experiment's revocation alone, which then succeeded, or the experiment's revocation, which failed,
  followed by the compensating one.  The report says a compensating revocation was attempted exactly
  if it was, and that it succeeded exactly if it did.\<close>

theorem cycle_revocation_discipline:
  assumes "run_once w r f = Some out"
  shows "case co_report out of None \<Rightarrow> co_calls out = []
    | Some rep \<Rightarrow>
      (case issued w r of
         Inl e \<Rightarrow> co_calls out = [CallIssue (cycle_hostname w r)] \<and> \<not> cl_attempted (rep_cleanup rep)
       | Inr cert \<Rightarrow>
         let serial = cc_serial_number cert; issue = CallIssue (cycle_hostname w r);
             revoke = CallRevokeAt serial (cw_revoke_request_at w)
         in cl_revoked (rep_cleanup rep) = (cl_attempted (rep_cleanup rep)
              \<and> ie_revoke (cw_cleanup w) serial = None)
            \<and> (if cl_attempted (rep_cleanup rep)
               then co_calls out = [issue, CallRevoke serial]
                 \<or> (co_calls out = [issue, revoke, CallRevoke serial]
                    \<and> experiment_revoke_error w cert \<noteq> None)
               else co_calls out = [issue, revoke] \<and> experiment_revoke_error w cert = None))"
proof (cases "cycle_prepare w r")
  case (Inl e)
  then show ?thesis using assms by (auto simp: run_once_def)
next
  case (Inr x)
  obtain c m run digest where x: "x = (c, m, run, digest)" by (metis prod_cases4)
  define s where "s = snd (op_bind (cycle_body w r c m) (\<lambda>_. complete_stage) (cycle_start w r m run digest f))"
  have out: "\<exists>err. out = cycle_finish w err s"
    using assms Inr x by (auto simp: run_once_def s_def split: prod.splits sum.splits stop.splits)
  have disc: "disciplined w r s" unfolding s_def by (rule run_disciplined)
  show ?thesis
  proof (cases "cs_armed s")
    case None
    then show ?thesis using out disc
      by (auto simp: cycle_finish_def deferred_cleanup_def disciplined_def Let_def split: sum.splits if_splits)
  next
    case (Some serial)
    then show ?thesis using out disc
      by (auto simp: cycle_finish_def deferred_cleanup_def disciplined_def Let_def issuer_revoke_def
          issuer_revoke_at_def split: sum.splits if_splits option.splits)
  qed
qed

subsection \<open>Verdicts\<close>

definition is_total :: "metric_event \<Rightarrow> bool" where
  "is_total e = (case e of CycleTotal v \<Rightarrow> True | _ \<Rightarrow> False)"

definition totals :: "cycle_state \<Rightarrow> metric_event list" where
  "totals s = filter is_total (cs_metrics s)"

text \<open>A stage that goes on counts no verdict and records neither an error nor a validity; one that
  returns early counts exactly one verdict, of the kinds in \<open>V\<close>, and records its error.\<close>

definition verdict_kept :: "cycle_state \<Rightarrow> cycle_state \<Rightarrow> bool" where
  "verdict_kept s s' \<longleftrightarrow> totals s' = totals s \<and> rep_error (cs_report s') = rep_error (cs_report s)
     \<and> rep_valid (cs_report s') = rep_valid (cs_report s)"

definition verdict_failed :: "cycle_result set \<Rightarrow> stop \<Rightarrow> cycle_state \<Rightarrow> cycle_state \<Rightarrow> bool" where
  "verdict_failed V e s s' \<longleftrightarrow> (case e of Diverged \<Rightarrow> True
     | Failed x \<Rightarrow> (\<exists>v \<in> V. totals s' = totals s @ [CycleTotal v]) \<and> rep_error (cs_report s') = x
         \<and> rep_valid (cs_report s') = rep_valid (cs_report s))"

interpretation verdict: exit_relations verdict_kept "verdict_failed V" for V
  by unfold_locales (auto simp: verdict_kept_def verdict_failed_def split: stop.splits)

abbreviation failing :: "cycle_result set \<Rightarrow> 'a cycle_op \<Rightarrow> bool" where
  "failing V \<equiv> exits verdict_kept (verdict_failed V)"

lemma verdict_upd:
  "(\<And>rep. rep_error (f rep) = rep_error rep) \<Longrightarrow> (\<And>rep. rep_valid (f rep) = rep_valid rep) \<Longrightarrow>
     failing V (upd f)"
  by (simp add: exits_def upd_def verdict_kept_def totals_def)

lemma verdict_count: "\<not> is_total e \<Longrightarrow> failing V (count_metric e)"
  by (simp add: exits_def count_metric_def verdict_kept_def totals_def)

lemma verdict_counts: "\<forall>e \<in> set es. \<not> is_total e \<Longrightarrow> failing V (count_metrics es)"
  by (simp add: exits_def count_metrics_def verdict_kept_def totals_def filter_empty_conv)

lemma verdict_primitives:
  "failing V (enter phase)"
  "failing V (issuer_does k)"
  "failing V (arm_cleanup serial)"
  by (simp_all add: exits_def enter_def upd_def issuer_does_def arm_cleanup_def verdict_kept_def totals_def)

lemma verdict_report_of: "failing V report_of"
  by (simp add: exits_def report_of_def verdict_kept_def)

lemma verdict_must_return: "failing V (must_return x)"
  by (simp add: exits_def must_return_def verdict_kept_def verdict_failed_def split: option.split)

lemma verdict_on_fs: "failing V (on_fs m)"
  by (simp add: exits_def on_fs_def verdict_kept_def totals_def split: prod.split)

lemma verdict_persists:
  "failing V (persist_preflight w r)"
  "failing V (persist_results w r)"
  by (simp_all add: exits_def persist_preflight_def persist_results_def verdict_kept_def totals_def
      split: prod.split)

lemma verdict_count_fail:
  "v \<in> V \<Longrightarrow> failing V (op_bind (count_metric (CycleTotal v)) (\<lambda>_. fail_cycle phase e))"
  by (auto simp: exits_def op_bind_def count_metric_def fail_cycle_def verdict_failed_def totals_def
      is_total_def)

lemma verdict_error_cycle: "CycleError \<in> V \<Longrightarrow> failing V (error_cycle phase e)"
  unfolding error_cycle_def by (rule verdict_count_fail)

lemma verdict_or_error: "CycleError \<in> V \<Longrightarrow> failing V (or_error phase what x)"
  by (cases x) (simp_all add: or_error_def verdict_error_cycle verdict.exit_return)

lemma verdict_unless_error: "CycleError \<in> V \<Longrightarrow> failing V (unless_error phase what e)"
  by (cases e) (simp_all add: unless_error_def verdict_error_cycle verdict.exit_return)

lemmas verdict_intros = verdict_primitives verdict_report_of verdict_must_return verdict_on_fs
  verdict_persists verdict_error_cycle verdict_or_error verdict_unless_error verdict.exit_intros

lemma verdict_fail_with_preflight: "CycleError \<in> V \<Longrightarrow> failing V (fail_with_preflight w r what why phase e)"
  unfolding fail_with_preflight_def by (intro verdict_intros)

text \<open>The metrics of the observation phase contain no verdict.\<close>

lemma ended_no_total: "ended ctx out \<Longrightarrow> e \<in> set (snd (fst out)) \<Longrightarrow> \<not> is_total e"
  by (induction rule: ended.induct)
    (auto simp: detected_result_def exhausted_result_def record_observation_def is_total_def Let_def
      split: if_splits)

lemma poll_one_no_total:
  assumes "poll_one r c p tgt t script = Some (res, ms)" and "e \<in> set ms"
  shows "\<not> is_total e"
proof (cases "registry_contract (rn_scenarios r) (tgt_scenario tgt) (prof_name p)")
  case None
  then show ?thesis using assms by (auto simp: poll_one_def finish_poll_def)
next
  case (Some k)
  obtain out where out: "ended (poll_context_of r c p tgt t (con_baseline k) script) out"
    "(res, ms) = finish_poll r p tgt out"
    by (rule poll_one_ended[OF Some assms(1)])
  show ?thesis using assms(2) ended_no_total[OF out(1)] unfolding poll_one_fields(2)[OF out(2)] by simp
qed

lemma thread_poll_no_total: "thread_poll env sat t = Some out \<Longrightarrow> e \<in> set (snd out) \<Longrightarrow> \<not> is_total e"
  by (auto simp: thread_poll_def dest: poll_one_no_total)

lemma client_outcome_no_total:
  "client_outcome env bs t = Some out \<Longrightarrow> e \<in> set (snd out) \<Longrightarrow> \<not> is_total e"
  by (auto simp: client_outcome_def client_failure_def dest: thread_poll_no_total
      split: bind_splits option.splits)

lemma those_in: "those (map f xs) = Some ys \<Longrightarrow> y \<in> set ys \<Longrightarrow> \<exists>x \<in> set xs. f x = Some y"
  by (induction xs arbitrary: ys) (auto split: option.splits)

lemma observe_phase_no_total:
  assumes "observe_phase env = Some (outs, bs)"
  shows "\<forall>e \<in> set (concat (map snd outs)). \<not> is_total e"
proof -
  obtain ocsp crl clients where split: "those (map (oracle_outcome env) (oracle_threads env MethodOCSPDirect)) = Some ocsp"
    "those (map (oracle_outcome env) (oracle_threads env MethodCRL)) = Some crl"
    "those (map (client_outcome env bs) (client_threads env)) = Some clients"
    "outs = ocsp @ crl @ clients"
    using assms by (auto simp: observe_phase_def poll_method_def poll_clients_def Let_def
        split: bind_splits)
  have "\<not> is_total e" if "out \<in> set outs" "e \<in> set (snd out)" for out e
  proof -
    from that(1) consider "out \<in> set ocsp \<or> out \<in> set crl" | "out \<in> set clients"
      unfolding split(4) by auto
    then show ?thesis
    proof cases
      case 1
      then obtain t where "oracle_outcome env t = Some out"
        using those_in[OF split(1)] those_in[OF split(2)] by blast
      then show ?thesis using that(2) unfolding oracle_outcome_def by (rule thread_poll_no_total)
    next
      case 2
      then obtain t where "client_outcome env bs t = Some out" using those_in[OF split(3)] by blast
      then show ?thesis using that(2) by (rule client_outcome_no_total)
    qed
  qed
  then show ?thesis by fastforce
qed

subsection \<open>The verdict of every stage\<close>

lemma verdict_prepare_stages:
  assumes "CycleError \<in> V"
  shows "failing V (canary_stage w r c m)" and "failing V (preflight_stage w r c tgt)"
    and "failing V (revoke_stage w r cert)" and "failing V (persist_stage w r m p)"
proof -
  have not_total: "\<not> is_total (CertNotAfter t)" for t by (simp add: is_total_def)
  note intros = verdict_intros verdict_fail_with_preflight verdict_upd
    verdict_count not_total assms
  have "failing V (issue_stage w r)"
    unfolding issue_stage_def by (intro intros)
  moreover have "failing V (artifacts_stage w r m cert)" for cert
    unfolding artifacts_stage_def by (intro intros; simp)
  moreover have "failing V (staple_stage w r c m cert)" for cert
    unfolding staple_stage_def by (intro intros; simp)
  moreover have "failing V (serve_stage w r cert staple)" for cert staple
    unfolding serve_stage_def by (intro intros; simp)
  ultimately show "failing V (canary_stage w r c m)"
    unfolding canary_stage_def by (intro verdict.exit_bind verdict.exit_return verdict_upd) simp_all
  show "failing V (preflight_stage w r c tgt)"
    unfolding preflight_stage_def by (intro intros; simp)
  show "failing V (revoke_stage w r cert)"
    unfolding revoke_stage_def by (intro intros; simp)
  show "failing V (persist_stage w r m p)"
    unfolding persist_stage_def by (intro intros; simp)
qed

lemma verdict_observe_stage: "failing V (observe_stage w r c m canary observed acked)"
proof -
  obtain cert srv tgt where canary: "canary = (cert, srv, tgt)" by (metis prod_cases3)
  obtain t_req ack where acked: "acked = (t_req, ack)" by (cases acked)
  have bind_phase: "failing V (op_bind (must_return (observe_phase env)) (\<lambda>(outs, bs). k outs bs))"
    if "\<And>outs bs. observe_phase env = Some (outs, bs) \<Longrightarrow> failing V (k outs bs)" for env and
      k :: "outcome list \<Rightarrow> barriers \<Rightarrow> publication cycle_op"
    by (cases "observe_phase env")
      (auto simp: op_bind_def must_return_def exits_def verdict_failed_def
        dest!: that split: prod.splits)
  have recorded: "failing V (op_bind (count_metrics (concat (map snd outs))) (\<lambda>_. op_bind (upd f) (\<lambda>_. op_return p)))"
    if "observe_phase env = Some (outs, bs)" "\<And>rep. rep_error (f rep) = rep_error rep"
      "\<And>rep. rep_valid (f rep) = rep_valid rep" for env outs bs f and p :: publication
    by (intro verdict.exit_bind verdict_counts observe_phase_no_total[OF that(1)] verdict_upd that(2,3)
        verdict.exit_return)
  show ?thesis unfolding observe_stage_def canary acked case_prod_conv Let_def
    by (intro verdict.exit_bind verdict_must_return bind_phase recorded verdict_upd; assumption?; simp)
qed

text \<open>The evaluation: an invalid cycle counts as an error; a finding makes a valid one.\<close>

definition verdict_found :: "stop \<Rightarrow> cycle_state \<Rightarrow> cycle_state \<Rightarrow> bool" where
  "verdict_found = verdict_failed {CycleRegression, CyclePolicyViolation}"

lemma verdict_findings: "failing {CycleRegression, CyclePolicyViolation} (op_each (check_finding c) rs)"
proof -
  have "failing {CycleRegression, CyclePolicyViolation} (check_finding c res)" for res
    unfolding check_finding_def
    by (intro verdict.exit_if verdict.exit_bind verdict_count verdict_count_fail verdict.exit_return)
      (simp_all add: is_total_def)
  then show ?thesis by (induction rs) (auto intro: verdict.exit_intros)
qed

lemma verdict_harness: "failing {CycleError} (op_each check_harness rs)"
proof -
  have "failing {CycleError} (check_harness res)" for res
    unfolding check_harness_def by (intro verdict_intros) simp
  then show ?thesis by (induction rs) (auto intro: verdict.exit_intros)
qed

text \<open>The body up to the evaluation, then the evaluation, then the completion.\<close>

lemma verdict_until_evaluation:
  "failing {CycleError} (op_bind (before_revocation w r c m) (\<lambda>(canary, observed).
     op_bind (revoke_stage w r (fst canary)) (\<lambda>acked.
     op_bind (observe_stage w r c m canary observed acked) (\<lambda>p. persist_stage w r m p))))"
  unfolding before_revocation_def
  by (intro verdict.exit_bind verdict.exit_prod verdict_prepare_stages verdict_observe_stage
      verdict.exit_return) simp_all

lemma bind_primitives:
  "op_bind (enter phase) k s = k () (s\<lparr>cs_report := (cs_report s)\<lparr>rep_phase := phase\<rparr>\<rparr>)"
  "op_bind report_of k' s = k' (cs_report s) s"
  by (simp_all add: op_bind_def enter_def upd_def report_of_def)

lemma op_bind_assoc: "op_bind (op_bind m k) l = op_bind m (\<lambda>x. op_bind (k x) l)"
  by (auto simp: op_bind_def fun_eq_iff split: prod.split sum.split)

lemma op_bind_prod: "op_bind (case p of (x, y) \<Rightarrow> f x y) k = (case p of (x, y) \<Rightarrow> op_bind (f x y) k)"
  by (cases p) simp

lemma cycle_body_split:
  "cycle_body w r c m = op_bind (op_bind (before_revocation w r c m) (\<lambda>(canary, observed).
     op_bind (revoke_stage w r (fst canary)) (\<lambda>acked.
     op_bind (observe_stage w r c m canary observed acked) (\<lambda>p. persist_stage w r m p))))
     (\<lambda>_. evaluate_stage c)"
  by (simp add: cycle_body_def after_revocation_def op_bind_assoc op_bind_prod)

text \<open>What a stopped cycle says of itself.\<close>

definition consistent_verdict :: "(stop + unit) \<Rightarrow> cycle_state \<Rightarrow> bool" where
  "consistent_verdict res s \<longleftrightarrow> (case res of
     Inl Diverged \<Rightarrow> True
   | Inl (Failed e) \<Rightarrow> rep_error (cs_report s) = e
       \<and> (\<exists>v. totals s = [CycleTotal v] \<and> v \<noteq> CycleOk \<and> (rep_valid (cs_report s) \<longleftrightarrow> v \<noteq> CycleError))
   | Inr _ \<Rightarrow> rep_error (cs_report s) = [] \<and> totals s = [CycleTotal CycleOk]
       \<and> rep_valid (cs_report s) \<and> rep_phase (cs_report s) = PhaseComplete)"

lemma evaluate_verdict:
  assumes "totals s = []" "rep_error (cs_report s) = []" "\<not> rep_valid (cs_report s)"
    and run: "op_bind (evaluate_stage c) (\<lambda>_. complete_stage) s = (res, s')"
  shows "consistent_verdict res s'"
proof -
  define rs where "rs = rep_results (cs_report s)"
  define s1 where "s1 = s\<lparr>cs_report := (cs_report s)\<lparr>rep_phase := PhaseEvaluate\<rparr>\<rparr>"
  have s1: "totals s1 = []" "rep_error (cs_report s1) = []" "\<not> rep_valid (cs_report s1)"
    using assms(1-3) by (simp_all add: s1_def totals_def)
  have run1: "op_bind (op_each check_harness rs) (\<lambda>_. op_bind (upd (\<lambda>rep. rep\<lparr>rep_valid := True\<rparr>)) (\<lambda>_.
      op_bind (op_each (check_finding c) rs) (\<lambda>_. complete_stage))) s1 = (res, s')"
    using run by (simp add: evaluate_stage_def op_bind_assoc bind_primitives s1_def rs_def)
  obtain res2 s2 where s2: "op_each check_harness rs s1 = (res2, s2)" by fastforce
  show ?thesis
  proof (cases res2)
    case (Inl e)
    then have "res = Inl e" "s' = s2" using run1 s2 by (simp_all add: op_bind_def)
    then show ?thesis using exitsD(1)[OF verdict_harness, of rs s1 e s2] s2 Inl s1
      by (auto simp: verdict_failed_def consistent_verdict_def split: stop.splits)
  next
    case (Inr u)
    have s2': "totals s2 = []" "rep_error (cs_report s2) = []"
      using exitsD(2)[OF verdict_harness, of rs s1 u s2] s2 Inr s1 by (simp_all add: verdict_kept_def)
    define s3 where "s3 = s2\<lparr>cs_report := (cs_report s2)\<lparr>rep_valid := True\<rparr>\<rparr>"
    have s3: "totals s3 = []" "rep_error (cs_report s3) = []" "rep_valid (cs_report s3)"
      using s2' by (simp_all add: s3_def totals_def)
    have run3: "op_bind (op_each (check_finding c) rs) (\<lambda>_. complete_stage) s3 = (res, s')"
      using run1 s2 Inr by (simp add: op_bind_def upd_def s3_def)
    obtain res4 s4 where s4: "op_each (check_finding c) rs s3 = (res4, s4)" by fastforce
    show ?thesis
    proof (cases res4)
      case (Inl e)
      then have "res = Inl e" "s' = s4" using run3 s4 by (simp_all add: op_bind_def)
      then show ?thesis using exitsD(1)[OF verdict_findings, of c rs s3 e s4] s4 Inl s3
        by (auto simp: verdict_failed_def consistent_verdict_def split: stop.splits)
    next
      case (Inr u)
      have "totals s4 = []" "rep_error (cs_report s4) = []" "rep_valid (cs_report s4)"
        using exitsD(2)[OF verdict_findings, of c rs s3 u s4] s4 Inr s3 by (simp_all add: verdict_kept_def)
      then show ?thesis using run3 s4 Inr
        by (auto simp: op_bind_def complete_stage_def count_metric_def enter_def upd_def totals_def
            is_total_def consistent_verdict_def)
    qed
  qed
qed

lemma run_verdict:
  assumes "op_bind (cycle_body w r c m) (\<lambda>_. complete_stage) (cycle_start w r m run digest f) = (res, s)"
  shows "consistent_verdict res s"
proof -
  define early where "early = op_bind (before_revocation w r c m) (\<lambda>(canary, observed).
     op_bind (revoke_stage w r (fst canary)) (\<lambda>acked.
     op_bind (observe_stage w r c m canary observed acked) (\<lambda>p. persist_stage w r m p)))"
  define s0 where "s0 = cycle_start w r m run digest f"
  have s0: "totals s0 = []" "rep_error (cs_report s0) = []" "\<not> rep_valid (cs_report s0)"
    by (simp_all add: s0_def totals_def)
  have early: "failing {CycleError} early" unfolding early_def by (rule verdict_until_evaluation)
  have run: "op_bind early (\<lambda>_. op_bind (evaluate_stage c) (\<lambda>_. complete_stage)) s0 = (res, s)"
    using assms by (simp only: cycle_body_split op_bind_assoc[of early] early_def s0_def op_bind_assoc)
  obtain res1 s1 where s1: "early s0 = (res1, s1)" by fastforce
  show ?thesis
  proof (cases res1)
    case (Inl e)
    then have "res = Inl e" "s = s1" using run s1 by (simp_all add: op_bind_def)
    then show ?thesis using exitsD(1)[OF early, of s0 e s1] s1 Inl s0
      by (auto simp: verdict_failed_def consistent_verdict_def split: stop.splits)
  next
    case (Inr u)
    then have "op_bind (evaluate_stage c) (\<lambda>_. complete_stage) s1 = (res, s)"
      using run s1 by (simp add: op_bind_def)
    moreover have "totals s1 = []" "rep_error (cs_report s1) = []" "\<not> rep_valid (cs_report s1)"
      using exitsD(2)[OF early, of s0 u s1] s1 Inr s0 by (simp_all add: verdict_kept_def)
    ultimately show ?thesis by (intro evaluate_verdict)
  qed
qed

lemma cycle_finish_fields [simp]:
  "co_metrics (cycle_finish w err s) = cs_metrics s" "co_error (cycle_finish w err s) = err"
  by (auto simp: cycle_finish_def deferred_cleanup_def Let_def split: option.split)

lemma cycle_finish_report:
  assumes "co_report (cycle_finish w err s) = Some rep"
  shows "rep_error rep = rep_error (cs_report s)" "rep_valid rep = rep_valid (cs_report s)"
    "rep_phase rep = rep_phase (cs_report s)" "rep_results rep = rep_results (cs_report s)"
  using assms by (auto simp: cycle_finish_def deferred_cleanup_def Let_def split: option.splits)

text \<open>C8: Every cycle with a report counts exactly one verdict, and the verdict, the returned error and the
  report agree: \<open>ok\<close> exactly without an error, and then the report is complete and valid with an empty
  error; otherwise the report carries the text of the returned error, and it is valid exactly if the
  verdict is a security finding (a regression or a policy violation) and not a harness or cycle error.\<close>

theorem cycle_verdict:
  assumes "run_once w r f = Some out" and "co_report out = Some rep"
  shows "\<exists>v. filter is_total (co_metrics out) = [CycleTotal v]
    \<and> (v = CycleOk \<longleftrightarrow> co_error out = None) \<and> (rep_valid rep \<longleftrightarrow> v \<noteq> CycleError)
    \<and> (case co_error out of None \<Rightarrow> rep_error rep = [] \<and> rep_phase rep = PhaseComplete
       | Some e \<Rightarrow> rep_error rep = e)"
proof (cases "cycle_prepare w r")
  case (Inl e)
  then show ?thesis using assms by (auto simp: run_once_def)
next
  case (Inr x)
  obtain c m run digest where x: "x = (c, m, run, digest)" by (metis prod_cases4)
  obtain res s where run: "op_bind (cycle_body w r c m) (\<lambda>_. complete_stage)
      (cycle_start w r m run digest f) = (res, s)" by fastforce
  have verdict: "consistent_verdict res s" by (rule run_verdict[OF run])
  show ?thesis
  proof (cases res)
    case (Inl e)
    then obtain err where e: "e = Failed err" "out = cycle_finish w (Some err) s"
      using assms(1) Inr x run by (cases e) (auto simp: run_once_def)
    from cycle_finish_report[OF assms(2)[unfolded e(2)]] verdict Inl e show ?thesis
      by (auto simp: consistent_verdict_def totals_def)
  next
    case ok: (Inr u)
    then have out: "out = cycle_finish w None s" using assms(1) Inr x run by (simp add: run_once_def)
    from cycle_finish_report[OF assms(2)[unfolded out]] verdict ok out show ?thesis
      by (auto simp: consistent_verdict_def totals_def)
  qed
qed

subsection \<open>A cycle returns\<close>

definition goes_on :: "stop \<Rightarrow> cycle_state \<Rightarrow> cycle_state \<Rightarrow> bool" where
  "goes_on e s s' \<longleftrightarrow> e \<noteq> Diverged"

interpretation returning: exit_relations "\<lambda>_ _. True" goes_on
  by unfold_locales (auto simp: goes_on_def)

abbreviation returns :: "'a cycle_op \<Rightarrow> bool" where
  "returns \<equiv> exits (\<lambda>_ _. True) goes_on"

lemma returns_primitives:
  "returns (upd f)" "returns (enter phase)" "returns (count_metric e)" "returns (count_metrics es)"
  "returns (issuer_does k)" "returns (arm_cleanup serial)" "returns (persist_preflight w r)"
  "returns (persist_results w r)"
  by (simp_all add: exits_def upd_def enter_def count_metric_def count_metrics_def issuer_does_def
      arm_cleanup_def persist_preflight_def persist_results_def split: prod.split)

lemma returns_report_of: "returns report_of"
  by (simp add: exits_def report_of_def)

lemma returns_on_fs: "returns (on_fs m)"
  by (simp add: exits_def on_fs_def split: prod.split)

lemma returns_fail_cycle: "returns (fail_cycle phase e)"
  by (simp add: exits_def fail_cycle_def goes_on_def)

lemma returns_error_cycle: "returns (error_cycle phase e)"
  unfolding error_cycle_def by (intro returning.exit_bind returns_primitives returns_fail_cycle)

lemma returns_or_error: "returns (or_error phase what x)"
  by (cases x) (simp_all add: or_error_def returns_error_cycle returning.exit_return)

lemma returns_unless_error: "returns (unless_error phase what e)"
  by (cases e) (simp_all add: unless_error_def returns_error_cycle returning.exit_return)

lemma returns_each: "(\<And>x. returns (g x)) \<Longrightarrow> returns (op_each g xs)"
  by (induction xs) (auto intro: returning.exit_intros)

lemmas returns_intros = returns_primitives returns_report_of returns_on_fs returns_fail_cycle
  returns_error_cycle returns_or_error returns_unless_error returns_each returning.exit_intros

lemma returns_fail_with_preflight: "returns (fail_with_preflight w r what why phase e)"
  unfolding fail_with_preflight_def by (intro returns_intros)

lemma returns_stages:
  "returns (canary_stage w r c m)" "returns (preflight_stage w r c tgt)" "returns (revoke_stage w r cert)"
  "returns (persist_stage w r m p)" "returns (evaluate_stage c)" "returns complete_stage"
  unfolding canary_stage_def issue_stage_def artifacts_stage_def staple_stage_def serve_stage_def
    preflight_stage_def revoke_stage_def persist_stage_def evaluate_stage_def complete_stage_def
    check_harness_def check_finding_def
  by (intro returns_intros returns_fail_with_preflight)+

lemma returns_must_return: "x \<noteq> None \<Longrightarrow> returns (must_return x)"
  by (auto simp: exits_def must_return_def)

lemma observe_phase_returns: "0 < max_attempts (oe_config env) \<Longrightarrow> observe_phase env \<noteq> None"
  using observe_can_finish[OF _ observe_inv_start[of env]] final_collected observe_inv_reachable by blast

lemma cycle_publication_returns:
  assumes "time_add (sscript_start (cw_staple_script w)) (max_wait c)
    \<le> ss_head (sscript_step (cw_staple_script w) n)"
  shows "cycle_publication w c m cert srv \<noteq> None"
  using refresh_returns[OF assms le0]
  by (auto simp: cycle_publication_def refresh_revoked_staple_def)

lemma returns_observe_stage:
  assumes "0 < max_attempts c"
    and "time_add (sscript_start (cw_staple_script w)) (max_wait c)
      \<le> ss_head (sscript_step (cw_staple_script w) n)"
  shows "returns (observe_stage w r c m canary observed acked)"
proof -
  obtain cert srv tgt where canary: "canary = (cert, srv, tgt)" by (metis prod_cases3)
  obtain t_req ack where acked: "acked = (t_req, ack)" by (cases acked)
  have "oe_config (cycle_observation w r c m tgt ack p) = c" for p
    by (simp add: cycle_observation_def)
  then show ?thesis unfolding observe_stage_def canary acked case_prod_conv Let_def
    by (intro returns_intros returns_must_return cycle_publication_returns[OF assms(2)]
        observe_phase_returns) (simp add: assms(1))
qed

lemma returns_body:
  assumes "\<And>canary observed acked. returns (observe_stage w r c m canary observed acked)"
  shows "returns (op_bind (cycle_body w r c m) (\<lambda>_. complete_stage))"
  unfolding cycle_body_def before_revocation_def after_revocation_def
  by (intro returning.exit_intros returns_stages assms)

lemma returns_run_once:
  assumes "cycle_prepare w r = Inr (c, m, run, digest)"
    and "returns (op_bind (cycle_body w r c m) (\<lambda>_. complete_stage))"
  shows "\<exists>out. run_once w r f = Some out"
proof -
  obtain res s where body: "op_bind (cycle_body w r c m) (\<lambda>_. complete_stage)
      (cycle_start w r m run digest f) = (res, s)" by fastforce
  have "res \<noteq> Inl Diverged" using exitsD(1)[OF assms(2)] body by (fastforce simp: goes_on_def)
  then show ?thesis using assms(1) body by (auto simp: run_once_def split: sum.split stop.split)
qed

lemma cycle_prepare_config:
  "cycle_prepare w r = Inr (c, m, run, digest) \<Longrightarrow> rn_config r = Some c"
  by (auto simp: cycle_prepare_def Let_def split: option.splits if_splits sum.splits)

lemma cycle_returns:
  assumes "\<And>c. rn_config r = Some c \<Longrightarrow> 0 < max_attempts c
    \<and> time_add (sscript_start (cw_staple_script w)) (max_wait c)
        \<le> ss_head (sscript_step (cw_staple_script w) n)"
  shows "\<exists>out. run_once w r f = Some out"
proof (cases "cycle_prepare w r")
  case (Inr x)
  obtain c m run digest where x: "x = (c, m, run, digest)" by (metis prod_cases4)
  have prep: "cycle_prepare w r = Inr (c, m, run, digest)" using Inr x by simp
  note bounds = assms[OF cycle_prepare_config[OF prep]]
  show ?thesis
    by (rule returns_run_once[OF prep returns_body])
      (rule returns_observe_stage[OF conjunct1[OF bounds] conjunct2[OF bounds]])
qed (simp add: run_once_def)

text \<open>With a positive attempt limit, as every loaded configuration has, and a clock that passes the
  deadline of the staple refresh, a cycle returns, whatever the issuer, the evidence store, the probes
  and the schedule do.\<close>

theorem run_once_returns:
  assumes "\<And>c. rn_config r = Some c \<Longrightarrow> 0 < max_attempts c
    \<and> time_add (sscript_start (cw_staple_script w)) (max_wait c)
        \<le> ss_head (sscript_step (cw_staple_script w) n)"
  shows "\<exists>out. run_once w r f = Some out"
  by (rule cycle_returns[OF assms])

subsection \<open>What a valid report says\<close>

lemma harness_each:
  "op_each check_harness rs s = (res, s') \<Longrightarrow> rep_results (cs_report s') = rep_results (cs_report s)
     \<and> rep_valid (cs_report s') = rep_valid (cs_report s)
     \<and> (res = Inr () \<longleftrightarrow> (\<forall>r \<in> set rs. \<not> harness_failed r))"
  by (induction rs arbitrary: s)
    (auto simp: op_return_def op_bind_def check_harness_def error_cycle_def count_metric_def
      fail_cycle_def split: prod.splits sum.splits if_splits)

definition finding_free :: "config \<Rightarrow> result \<Rightarrow> bool" where
  "finding_free c res \<longleftrightarrow> res_expectation_met res \<and> (res_policy_met res \<or> \<not> pol_enforce (policy c))"

lemma check_finding_result:
  "check_finding c r s = (res, s') \<Longrightarrow> rep_results (cs_report s') = rep_results (cs_report s)
     \<and> rep_valid (cs_report s') = rep_valid (cs_report s) \<and> (res = Inr () \<longleftrightarrow> finding_free c r)"
  by (auto simp: check_finding_def op_bind_def count_metric_def fail_cycle_def op_return_def
      finding_free_def split: if_splits)

lemma finding_each:
  "op_each (check_finding c) rs s = (res, s') \<Longrightarrow> rep_results (cs_report s') = rep_results (cs_report s)
     \<and> rep_valid (cs_report s') = rep_valid (cs_report s)
     \<and> (res = Inr () \<longleftrightarrow> (\<forall>r \<in> set rs. finding_free c r))"
proof (induction rs arbitrary: s)
  case (Cons r rs)
  obtain res1 s1 where s1: "check_finding c r s = (res1, s1)" by fastforce
  note head = check_finding_result[OF s1]
  show ?case
  proof (cases res1)
    case (Inl e)
    with Cons.prems s1 head show ?thesis by (auto simp: op_bind_def)
  next
    case (Inr u)
    with Cons.prems s1 have "op_each (check_finding c) rs s1 = (res, s')" by (simp add: op_bind_def)
    from Cons.IH[OF this] head Inr show ?thesis by simp
  qed
qed (simp add: op_return_def)

lemma evaluate_results:
  assumes "op_bind (evaluate_stage c) (\<lambda>_. complete_stage) s = (res, s')" and "\<not> rep_valid (cs_report s)"
  shows "rep_valid (cs_report s') \<longleftrightarrow> (\<forall>r \<in> set (rep_results (cs_report s')). \<not> harness_failed r)"
    and "res = Inr () \<longleftrightarrow> rep_valid (cs_report s') \<and> (\<forall>r \<in> set (rep_results (cs_report s')). finding_free c r)"
proof -
  define rs where "rs = rep_results (cs_report s)"
  define s1 where "s1 = s\<lparr>cs_report := (cs_report s)\<lparr>rep_phase := PhaseEvaluate\<rparr>\<rparr>"
  have run1: "op_bind (op_each check_harness rs) (\<lambda>_. op_bind (upd (\<lambda>rep. rep\<lparr>rep_valid := True\<rparr>)) (\<lambda>_.
      op_bind (op_each (check_finding c) rs) (\<lambda>_. complete_stage))) s1 = (res, s')"
    using assms(1) by (simp add: evaluate_stage_def op_bind_assoc bind_primitives s1_def rs_def)
  obtain res2 s2 where s2: "op_each check_harness rs s1 = (res2, s2)" by fastforce
  note harness = harness_each[OF s2]
  have "(rep_valid (cs_report s') \<longleftrightarrow> (\<forall>r \<in> set (rep_results (cs_report s')). \<not> harness_failed r))
    \<and> (res = Inr () \<longleftrightarrow> rep_valid (cs_report s') \<and> (\<forall>r \<in> set (rep_results (cs_report s')). finding_free c r))"
  proof (cases res2)
    case (Inl e)
    then have "res = Inl e" "s' = s2" using run1 s2 by (simp_all add: op_bind_def)
    then show ?thesis using harness Inl assms(2) by (auto simp: s1_def rs_def)
  next
    case (Inr u)
    define s3 where "s3 = s2\<lparr>cs_report := (cs_report s2)\<lparr>rep_valid := True\<rparr>\<rparr>"
    have run3: "op_bind (op_each (check_finding c) rs) (\<lambda>_. complete_stage) s3 = (res, s')"
      using run1 s2 Inr by (simp add: op_bind_def upd_def s3_def)
    obtain res4 s4 where s4: "op_each (check_finding c) rs s3 = (res4, s4)" by fastforce
    note findings = finding_each[OF s4]
    have same: "rep_results (cs_report s4) = rs" "rep_valid (cs_report s4)"
      using findings harness by (simp_all add: s3_def s1_def rs_def)
    show ?thesis
    proof (cases res4)
      case (Inl e)
      then have "res = Inl e" "s' = s4" using run3 s4 by (simp_all add: op_bind_def)
      then show ?thesis using findings harness Inl Inr same by auto
    next
      case (Inr u')
      then have "res = Inr ()" "rep_results (cs_report s') = rs" "rep_valid (cs_report s')"
        using run3 s4 same by (auto simp: op_bind_def complete_stage_def count_metric_def enter_def upd_def)
      then show ?thesis using findings harness Inr \<open>res2 = Inr u\<close> by auto
    qed
  qed
  then show "rep_valid (cs_report s') \<longleftrightarrow> (\<forall>r \<in> set (rep_results (cs_report s')). \<not> harness_failed r)"
    "res = Inr () \<longleftrightarrow> rep_valid (cs_report s') \<and> (\<forall>r \<in> set (rep_results (cs_report s')). finding_free c r)"
    by blast+
qed

lemma run_results:
  assumes "op_bind (cycle_body w r c m) (\<lambda>_. complete_stage) (cycle_start w r m run digest f) = (res, s)"
    and "rep_valid (cs_report s)" and "res \<noteq> Inl Diverged"
  shows "(\<forall>r \<in> set (rep_results (cs_report s)). \<not> harness_failed r)
    \<and> (res = Inr () \<longleftrightarrow> (\<forall>r \<in> set (rep_results (cs_report s)). finding_free c r))"
proof -
  define early where "early = op_bind (before_revocation w r c m) (\<lambda>(canary, observed).
     op_bind (revoke_stage w r (fst canary)) (\<lambda>acked.
     op_bind (observe_stage w r c m canary observed acked) (\<lambda>p. persist_stage w r m p)))"
  define s0 where "s0 = cycle_start w r m run digest f"
  have early: "failing {CycleError} early" unfolding early_def by (rule verdict_until_evaluation)
  have run: "op_bind early (\<lambda>_. op_bind (evaluate_stage c) (\<lambda>_. complete_stage)) s0 = (res, s)"
    using assms(1) by (simp only: cycle_body_split early_def s0_def op_bind_assoc)
  obtain res1 s1 where s1: "early s0 = (res1, s1)" by fastforce
  show ?thesis
  proof (cases res1)
    case (Inl e)
    then have stop: "s = s1" "res = Inl e" using run s1 by (simp_all add: op_bind_def)
    then obtain x where "e = Failed x" using assms(3) by (cases e) auto
    then have "\<not> rep_valid (cs_report s1)" using exitsD(1)[OF early, of s0 e s1] s1 Inl
      by (simp add: verdict_failed_def s0_def)
    with stop assms(2) show ?thesis by simp
  next
    case (Inr u)
    then have ev: "op_bind (evaluate_stage c) (\<lambda>_. complete_stage) s1 = (res, s)"
      using run s1 by (simp add: op_bind_def)
    have "\<not> rep_valid (cs_report s1)"
      using exitsD(2)[OF early, of s0 u s1] s1 Inr by (simp add: verdict_kept_def s0_def)
    from evaluate_results[OF ev this] assms(2) show ?thesis by blast
  qed
qed

text \<open>A run that returned a report is a run of the body from the first state.\<close>

lemma run_once_body:
  assumes "run_once w r f = Some out" and "co_report out = Some rep" and "rn_config r = Some c"
  obtains m run digest res s where "cycle_prepare w r = Inr (c, m, run, digest)"
    "op_bind (cycle_body w r c m) (\<lambda>_. complete_stage) (cycle_start w r m run digest f) = (res, s)"
    "res \<noteq> Inl Diverged" "out = cycle_finish w (case res of Inl (Failed e) \<Rightarrow> Some e | _ \<Rightarrow> None) s"
proof (cases "cycle_prepare w r")
  case (Inl e)
  then show ?thesis using assms that by (auto simp: run_once_def)
next
  case (Inr x)
  obtain c' m run digest where x: "x = (c', m, run, digest)" by (metis prod_cases4)
  have c: "c' = c" using cycle_prepare_config Inr x assms(3) by fastforce
  obtain res s where run: "op_bind (cycle_body w r c m) (\<lambda>_. complete_stage)
      (cycle_start w r m run digest f) = (res, s)" by fastforce
  show ?thesis
    by (rule that[OF _ run])
      (use assms(1) Inr x c run in \<open>auto simp: run_once_def split: sum.splits stop.splits\<close>)
qed

lemma run_ok_valid:
  assumes "op_bind (cycle_body w r c m) (\<lambda>_. complete_stage) (cycle_start w r m run digest f) = (Inr u, s)"
  shows "rep_valid (cs_report s)"
  using run_verdict[OF assms] by (simp add: consistent_verdict_def)

text \<open>C7: A cycle succeeds exactly if its report is valid and every result meets its baseline expectation
  and, where the policy is enforced, its policy; and a valid report has no result with a harness
  error: a finding never invalidates the trial, and no finding is passed over.\<close>

theorem cycle_success_exact:
  assumes "run_once w r f = Some out" and "co_report out = Some rep" and "rn_config r = Some c"
  shows "(co_error out = None \<longleftrightarrow> rep_valid rep \<and> (\<forall>res \<in> set (rep_results rep). finding_free c res))
    \<and> (rep_valid rep \<longrightarrow> (\<forall>res \<in> set (rep_results rep). \<not> harness_failed res))"
proof -
  obtain m run digest res s where body:
    "op_bind (cycle_body w r c m) (\<lambda>_. complete_stage) (cycle_start w r m run digest f) = (res, s)"
    "res \<noteq> Inl Diverged" "out = cycle_finish w (case res of Inl (Failed e) \<Rightarrow> Some e | _ \<Rightarrow> None) s"
    by (rule run_once_body[OF assms])
  note rep = cycle_finish_report[OF assms(2)[unfolded body(3)]]
  have "co_error out = None \<longleftrightarrow> res = Inr ()"
    using body(2,3) by (auto split: sum.splits stop.splits)
  with run_results[OF body(1) _ body(2)] run_ok_valid[of w r c m run digest f "()" s] body(1) rep
  show ?thesis by auto
qed

lemma preflight_stage_runs:
  assumes "runs (preflight_stage w r c tgt) s observed s'"
  shows "\<exists>results. preflight r c tgt (cw_preflight_steps w) (cw_preflight_order w) = (results, observed, None)
    \<and> validate_preflight_age (cw_age_order w) observed (cw_revoke_request_at w) (preflight_max_age c) = None"
  using assms
  by (cases "preflight r c tgt (cw_preflight_steps w) (cw_preflight_order w)")
    (auto simp: preflight_stage_def split: option.splits)

lemma before_revocation_preflight:
  assumes "runs (before_revocation w r c m) s ((cert, srv, tgt), observed) s'"
  obtains results where
    "preflight r c tgt (cw_preflight_steps w) (cw_preflight_order w) = (results, observed, None)"
    "validate_preflight_age (cw_age_order w) observed (cw_revoke_request_at w) (preflight_max_age c) = None"
  using assms preflight_stage_runs by (fastforce simp: before_revocation_def)

text \<open>C3: The certificate is revoked only next to a passed preflight: if the experiment's revocation was
  requested, then every enabled profile had just seen, before the revocation and against the very
  certificate that is revoked, what its contract expects, and the start of its probe is not zero and
  at most the configured age before the request.\<close>

theorem revocation_follows_fresh_preflight:
  assumes "run_once w r f = Some out" and "rn_config r = Some c"
    and "CallRevokeAt serial t \<in> set (co_calls out)"
    and "distinct (map prof_name (enabled_profiles r c))"
    and "mset (cw_preflight_order w) = mset [0..<length (enabled_profiles r c)]"
    and "set (cw_age_order w) = prof_name ` set (enabled_profiles r c)"
  shows "\<exists>tgt. tgt_certificate_serial tgt = serial \<and> t = cw_revoke_request_at w
    \<and> (\<forall>i < length (enabled_profiles r c).
         let st = cw_preflight_steps w i in
         preflight_ok r c tgt (enabled_profiles r c ! i) st \<and> pfs_started st \<noteq> 0
         \<and> time_sub t (pfs_started st) \<le> preflight_max_age c)"
proof -
  obtain rep where rep: "co_report out = Some rep"
    using cycle_calls_report[OF assms(1)] assms(3) by (cases "co_report out") auto
  obtain m run digest res s where body:
    "op_bind (cycle_body w r c m) (\<lambda>_. complete_stage) (cycle_start w r m run digest f) = (res, s)"
    "out = cycle_finish w (case res of Inl (Failed e) \<Rightarrow> Some e | _ \<Rightarrow> None) s"
    by (rule run_once_body[OF assms(1) rep assms(2)])
  have call: "CallRevokeAt serial t \<in> set (cs_calls s)"
    using assms(3) body(2) by (auto simp: cycle_finish_def deferred_cleanup_def Let_def split: option.splits)
  let ?s = "cycle_start w r m run digest f"
  show ?thesis
  proof (cases rule: cycle_body_cases[of w r c m ?s])
    case (1 e s1)
    then have "quiet_states (snd (issue_stage w r ?s)) s"
      using before_revocation_quiet[of w r ?s c m] body(1) by simp
    then show ?thesis using call by (simp add: quiet_states_def issue_stage_calls)
  next
    case (2 cert srv tgt observed s1)
    obtain results where pf: "preflight r c tgt (cw_preflight_steps w) (cw_preflight_order w) = (results, observed, None)"
      "validate_preflight_age (cw_age_order w) observed (cw_revoke_request_at w) (preflight_max_age c) = None"
      by (rule before_revocation_preflight[OF 2(1)])
    note seen = preflight_observed[OF assms(4,5) pf(1)]
    have ages: "at \<noteq> 0 \<and> time_sub (cw_revoke_request_at w) at \<le> preflight_max_age c"
      if "observed name = Some at" for name at
      using pf(2) that validate_preflight_age_None[of "cw_age_order w" observed] assms(6) seen(1) by auto
    have ok: "preflight_ok r c tgt (enabled_profiles r c ! i) (cw_preflight_steps w i)"
      if "i < length (enabled_profiles r c)" for i
      using that preflight_passes[OF assms(4,5), of tgt "cw_preflight_steps w"] pf(1) by simp
    have "quiet_states (snd (issue_stage w r ?s)) s1"
      using before_revocation_quiet[of w r ?s c m] 2(1) by (simp add: runs_def)
    then have "cs_calls s = [CallIssue (cycle_hostname w r),
        CallRevokeAt (cc_serial_number cert) (cw_revoke_request_at w)]"
      using 2(2) body(1) by (simp add: quiet_states_def revoke_stage_calls issue_stage_calls)
    then have "serial = cc_serial_number cert" "t = cw_revoke_request_at w" using call by auto
    with ok ages seen(2) before_revocation_issued(2)[OF 2(1)] show ?thesis
      by (intro exI[of _ tgt]) (auto simp: Let_def)
  qed
qed

end
