(* ===== verification/Cycle_Examples.thy ===== *)
theory Cycle_Examples imports Cycle_Laws
begin

text \<open>
  A concrete cycle: a world in which the canary is issued, both profiles see it good, the revocation is
  acknowledged, the CRL oracle reports it and the hard-fail client rejects it.
\<close>

text \<open>The evidence root with the directories of the cycle already in place.\<close>

definition sample_fs0 :: fs where
  "sample_fs0 = \<lparr>fs_root = Some (DirNode private_dir), fs_nodes = (\<lambda>p.
     if p \<in> set [''c'', ''c/a'', ''c/b'', ''c/a/pre_revocation'', ''c/a/post_revocation'',
       ''c/b/pre_revocation'', ''c/b/post_revocation''] then Some (DirNode private_dir) else None),
     fs_tick = 0, fs_fault = (\<lambda>_. None)\<rparr>"

definition sample_build :: build_env where
  "sample_build = \<lparr>be_go_version = ''go1'', be_goos = ''linux'', be_goarch = ''amd64'',
     be_image_digest = [], be_build_revision = ''r1'', be_executable = None,
     be_read_file = (\<lambda>_. Inl ''none''), be_build_info = None\<rparr>"

definition sample_world :: cycle_world where
  "sample_world = \<lparr>cw_uuid = ''c'', cw_build = sample_build,
     cw_marshal_profile_config = (\<lambda>_. Inr ''pc''), cw_marshal_run_config = (\<lambda>_. Inr ''rc''),
     cw_sha256_hex = (\<lambda>_. ''h''), cw_base64 = Inr, cw_quote = (\<lambda>s. s),
     cw_parse_ocsp = (\<lambda>_ _ _. Inl ''none''), cw_issue = sample_issuer_env,
     cw_staple_issuer = sample_issuer_env, cw_staple_now = Instant (98 * second),
     cw_key_pair_error = (\<lambda>_ _. None), cw_listen = (\<lambda>_. Inr 443),
     cw_preflight_steps = sample_preflight_steps, cw_preflight_order = [0, 1],
     cw_revoke_request_at = Instant (102 * second), cw_age_order = [''a'', ''b''],
     cw_revoke = sample_issuer_env, cw_scripts = (\<lambda>_. sample_script), cw_cancelled = (\<lambda>_ _. None),
     cw_staple_script = sample_staple_script, cw_cleanup = sample_issuer_env\<rparr>"

text \<open>A runner with short names, so that its whole cycle can be evaluated.\<close>

definition tiny_oracle :: profile where
  "tiny_oracle = \<lparr>prof_name = ''a'', prof_role = RoleStatusOracle, prof_method = MethodCRL,
     prof_description = []\<rparr>"

definition tiny_client :: profile where
  "tiny_client = \<lparr>prof_name = ''b'', prof_role = RoleClientExecutor, prof_method = MethodOCSPStapled,
     prof_description = []\<rparr>"

definition tiny_manifest :: manifest where
  "tiny_manifest = \<lparr>man_id = ''s'', man_version = 1, man_digest = ''d'', man_canonical_json = ''j'',
     man_dependencies = [(''a'', [EvidenceIssuerAck]), (''b'', [EvidenceCRLPublished])],
     man_profiles = [(''a'', sample_contract), (''b'', sample_contract)], man_stapling = StaplingOff\<rparr>"

definition tiny_config :: config where
  "tiny_config = sample_config\<lparr>cfg_profiles := [\<lparr>pc_name = ''a'', pc_enabled = True, pc_timeout = second\<rparr>,
     \<lparr>pc_name = ''b'', pc_enabled = True, pc_timeout = second\<rparr>]\<rparr>"

definition tiny_runner :: runner where
  "tiny_runner = \<lparr>rn_config = Some tiny_config, rn_profiles = [tiny_oracle, tiny_client],
     rn_scenarios = Some \<lparr>reg_manifests = [(''s'', tiny_manifest)],
       reg_implementations = known_profiles [tiny_oracle, tiny_client]\<rparr>,
     rn_scenario = ''s'', rn_ocsp_url = [], rn_crl_url = [], rn_domain = ''i'', rn_issuer_endpoint = [],
     rn_canary_bind_host = ''l'', rn_canary_connect_host = [], rn_evidence_dir = ''e'',
     rn_executor_urls = Map.empty\<rparr>"

lemma tiny_prepared: "is_ok (cycle_prepare sample_world tiny_runner)"
  by code_simp

lemma tiny_config_of [simp]: "rn_config tiny_runner = Some tiny_config"
  by (simp add: tiny_runner_def)

lemma tiny_bounds:
  "0 < max_attempts tiny_config"
  "time_add (sscript_start (cw_staple_script sample_world)) (max_wait tiny_config)
    \<le> ss_head (sscript_step (cw_staple_script sample_world) 2)"
  by (simp_all add: tiny_config_def sample_config_def sample_world_def sample_staple_script_def Let_def
      time_add_def)

theorem run_once_returns_witness: "\<exists>out. run_once sample_world tiny_runner sample_fs0 = Some out"
  by (rule run_once_returns) (use tiny_bounds in auto)

text \<open>A cycle whose world lets it return has a report if it was prepared.\<close>

lemma tiny_returns:
  obtains out rep where "run_once sample_world tiny_runner sample_fs0 = Some out" "co_report out = Some rep"
proof -
  obtain c m run digest where prep: "cycle_prepare sample_world tiny_runner = Inr (c, m, run, digest)"
    using tiny_prepared by (auto simp: is_ok_iff)
  have c: "c = tiny_config" using cycle_prepare_config[OF prep] by simp
  have "returns (op_bind (cycle_body sample_world tiny_runner c m) (\<lambda>_. complete_stage))"
    unfolding c using returns_observe_stage[OF tiny_bounds] by (rule returns_body)
  then obtain out where "run_once sample_world tiny_runner sample_fs0 = Some out"
    using returns_run_once[OF prep] by blast
  then show thesis using that prep
    by (auto simp: run_once_def cycle_finish_def Let_def split: prod.splits sum.splits stop.splits)
qed

theorem cycle_revocation_discipline_witness:
  "\<exists>out rep. run_once sample_world tiny_runner sample_fs0 = Some out \<and> co_report out = Some rep
     \<and> co_calls out \<noteq> []"
proof -
  obtain out rep where out: "run_once sample_world tiny_runner sample_fs0 = Some out" "co_report out = Some rep"
    by (rule tiny_returns)
  from cycle_revocation_discipline[OF out(1)] out show ?thesis
    by (auto simp: Let_def split: sum.splits if_splits)
qed

theorem cycle_verdict_witness:
  "\<exists>out v. run_once sample_world tiny_runner sample_fs0 = Some out
     \<and> filter is_total (co_metrics out) = [CycleTotal v] \<and> (v = CycleOk \<longleftrightarrow> co_error out = None)"
proof -
  obtain out rep where out: "run_once sample_world tiny_runner sample_fs0 = Some out" "co_report out = Some rep"
    by (rule tiny_returns)
  from cycle_verdict[OF out] obtain v where "filter is_total (co_metrics out) = [CycleTotal v]"
    "v = CycleOk \<longleftrightarrow> co_error out = None" by (elim exE conjE)
  with out(1) show ?thesis by (intro exI[of _ out] exI[of _ v] conjI)
qed

theorem cycle_success_exact_witness:
  "\<exists>out rep. run_once sample_world tiny_runner sample_fs0 = Some out \<and> co_report out = Some rep
     \<and> (co_error out = None
        \<longleftrightarrow> rep_valid rep \<and> (\<forall>res \<in> set (rep_results rep). finding_free tiny_config res))"
proof -
  obtain out rep where out: "run_once sample_world tiny_runner sample_fs0 = Some out" "co_report out = Some rep"
    by (rule tiny_returns)
  from cycle_success_exact[OF out tiny_config_of] out show ?thesis
    by (intro exI[of _ out] exI[of _ rep] conjI) (elim conjE, assumption)+
qed

text \<open>The canary is issued and the preflight passes, so that the revocation is requested.\<close>

lemma tiny_before_revocation:
  "is_ok (fst (before_revocation sample_world tiny_runner tiny_config tiny_manifest
     (cycle_start sample_world tiny_runner tiny_manifest run digest sample_fs0)))"
  by code_simp

lemma tiny_enabled: "enabled_profiles tiny_runner tiny_config = [tiny_oracle, tiny_client]"
  by (simp add: enabled_profiles_def tiny_runner_def tiny_config_def is_enabled_def tiny_oracle_def
      tiny_client_def)

lemma tiny_manifest_prepared:
  "cycle_prepare sample_world tiny_runner = Inr (c, m, run, digest) \<Longrightarrow> m = tiny_manifest"
  by (auto simp: cycle_prepare_def Let_def tiny_runner_def registry_manifest_def
      split: option.splits if_splits sum.splits)

theorem revocation_follows_fresh_preflight_witness:
  "\<exists>out serial t tgt. run_once sample_world tiny_runner sample_fs0 = Some out
     \<and> CallRevokeAt serial t \<in> set (co_calls out) \<and> tgt_certificate_serial tgt = serial
     \<and> preflight_ok tiny_runner tiny_config tgt tiny_oracle (sample_preflight_steps 0)"
proof -
  obtain out rep where out: "run_once sample_world tiny_runner sample_fs0 = Some out" "co_report out = Some rep"
    by (rule tiny_returns)
  obtain m run digest res s where body: "cycle_prepare sample_world tiny_runner = Inr (tiny_config, m, run, digest)"
    "op_bind (cycle_body sample_world tiny_runner tiny_config m) (\<lambda>_. complete_stage)
       (cycle_start sample_world tiny_runner m run digest sample_fs0) = (res, s)"
    "out = cycle_finish sample_world (case res of Inl (Failed e) \<Rightarrow> Some e | _ \<Rightarrow> None) s"
    by (rule run_once_body[OF out tiny_config_of])
  have m: "m = tiny_manifest" by (rule tiny_manifest_prepared[OF body(1)])
  obtain serial where call: "CallRevokeAt serial (cw_revoke_request_at sample_world) \<in> set (cs_calls s)"
  proof (cases rule: cycle_body_cases[of sample_world tiny_runner tiny_config m
        "cycle_start sample_world tiny_runner m run digest sample_fs0"])
    case (1 e s1)
    then show ?thesis using tiny_before_revocation[of run digest] m by simp
  next
    case (2 cert srv tgt observed s1)
    have "cs_calls s = cs_calls s1 @ [CallRevokeAt (cc_serial_number cert) (cw_revoke_request_at sample_world)]"
      using 2(2) body(2) by (simp add: quiet_states_def revoke_stage_calls)
    then show ?thesis by (intro that[of "cc_serial_number cert"]) simp
  qed
  then have called: "CallRevokeAt serial (cw_revoke_request_at sample_world) \<in> set (co_calls out)"
    unfolding body(3) by (auto simp: cycle_finish_def deferred_cleanup_def Let_def split: option.split)
  moreover have "distinct (map prof_name (enabled_profiles tiny_runner tiny_config))"
    "mset (cw_preflight_order sample_world) = mset [0..<length (enabled_profiles tiny_runner tiny_config)]"
    "set (cw_age_order sample_world) = prof_name ` set (enabled_profiles tiny_runner tiny_config)"
    by (simp_all add: tiny_enabled tiny_oracle_def tiny_client_def sample_world_def upt_rec)
  ultimately have "\<exists>tgt. tgt_certificate_serial tgt = serial
      \<and> cw_revoke_request_at sample_world = cw_revoke_request_at sample_world
      \<and> (\<forall>i < length (enabled_profiles tiny_runner tiny_config).
         let st = cw_preflight_steps sample_world i in
         preflight_ok tiny_runner tiny_config tgt (enabled_profiles tiny_runner tiny_config ! i) st
         \<and> pfs_started st \<noteq> 0 \<and> time_sub (cw_revoke_request_at sample_world) (pfs_started st)
             \<le> preflight_max_age tiny_config)"
    by (rule revocation_follows_fresh_preflight[OF out(1) tiny_config_of])
  then obtain tgt where tgt: "tgt_certificate_serial tgt = serial"
    "\<forall>i < length (enabled_profiles tiny_runner tiny_config). preflight_ok tiny_runner tiny_config tgt
       (enabled_profiles tiny_runner tiny_config ! i) (cw_preflight_steps sample_world i)"
    unfolding Let_def by blast
  have "preflight_ok tiny_runner tiny_config tgt tiny_oracle (sample_preflight_steps 0)"
    using tgt(2)[rule_format, of 0] unfolding tiny_enabled sample_world_def by simp
  with out(1) tgt(1) called show ?thesis by blast
qed

end
