(* ===== verification/Trust_Store.thy ===== *)
theory Trust_Store imports Go_Strings Go_Time "HOL-Library.Word"
begin

unbundle bit_operations_syntax

text \<open>
  Roots and baselines of the trust-store drift agent (\<open>truststore-drift-agent/main.go\<close>): the identity of a
  certificate, the baseline and its validation, and the enumeration of the host's trust store.  A parsed
  certificate is a record of the fields the agent reads; parsing PEM blocks and DER is a parameter.
\<close>

subsection \<open>Certificates and their identity\<close>

text \<open>The fields that \<open>rootEntry\<close> marshals into the policy digest.\<close>

record root_policy =
  rp_is_ca :: bool
  rp_key_usage :: "64 word"
  rp_ext_key_usage :: "int list"
  rp_permitted_dns_domains :: "gostring list"
  rp_policy_identifiers :: "nat list list"

record root_cert =
  rc_raw :: bytes
  rc_raw_spki :: bytes
  rc_subject :: gostring
  rc_issuer :: gostring
  rc_serial :: gostring
  rc_not_before :: gotime
  rc_not_after :: gotime
  rc_policy :: root_policy
  rc_signature_algorithm :: gostring

text \<open>\<open>hash_hex\<close> is SHA-256 followed by hexadecimal encoding; \<open>hash_policy\<close> is \<open>json.Marshal\<close> of the policy.\<close>

record hashing =
  hash_hex :: "bytes \<Rightarrow> gostring"
  hash_policy :: "root_policy \<Rightarrow> bytes"

record root_entry =
  re_subject :: gostring
  re_issuer :: gostring
  re_serial :: gostring
  re_spki_hash :: gostring
  re_cert_hash :: gostring
  re_policy_hash :: gostring
  re_not_before :: gotime
  re_not_after :: gotime
  re_is_ca :: bool
  re_key_usage :: "gostring list"
  re_signature_algorithm :: gostring

record trust_baseline =
  tb_generated_at :: gotime
  tb_sequence :: "64 word"
  tb_expires_at :: gotime
  tb_previous_digest :: gostring
  tb_roots :: "root_entry list"
  tb_signature :: gostring

definition spki_hash :: "hashing \<Rightarrow> root_cert \<Rightarrow> gostring" where
  "spki_hash h c = hash_hex h (rc_raw_spki c)"

definition certificate_hash :: "hashing \<Rightarrow> root_cert \<Rightarrow> gostring" where
  "certificate_hash h c = hash_hex h (rc_raw c)"

text \<open>The bits of \<open>x509.KeyUsage\<close> and their names, in the order of the table.\<close>

definition key_usage_table :: "(64 word \<times> gostring) list" where
  "key_usage_table = [(1, ''digital_signature''), (32, ''cert_sign''), (64, ''crl_sign'')]"

definition key_usage_names :: "64 word \<Rightarrow> gostring list" where
  "key_usage_names usage = map snd (filter (\<lambda>(b, name). usage AND b \<noteq> 0) key_usage_table)"

definition root_entry_of :: "hashing \<Rightarrow> root_cert \<Rightarrow> root_entry" where
  "root_entry_of h c = \<lparr>re_subject = rc_subject c, re_issuer = rc_issuer c, re_serial = rc_serial c,
     re_spki_hash = spki_hash h c, re_cert_hash = certificate_hash h c,
     re_policy_hash = hash_hex h (hash_policy h (rc_policy c)),
     re_not_before = rc_not_before c, re_not_after = rc_not_after c, re_is_ca = rp_is_ca (rc_policy c),
     re_key_usage = key_usage_names (rp_key_usage (rc_policy c)),
     re_signature_algorithm = rc_signature_algorithm c\<rparr>"

subsection \<open>Validation of a baseline\<close>

definition root_identity :: "root_entry \<Rightarrow> gostring" where
  "root_identity r = (if re_cert_hash r \<noteq> [] then ''cert:'' @ re_cert_hash r
     else ''spki:'' @ re_spki_hash r)"

fun validate_roots :: "gostring set \<Rightarrow> root_entry list \<Rightarrow> gostring + unit" where
  "validate_roots seen [] = Inr ()"
| "validate_roots seen (r # rs) =
     (if re_spki_hash r = [] then Inl ''baseline root has an empty SPKI hash''
      else if re_subject r = [] then Inl ''baseline root has an empty subject''
      else if root_identity r \<in> seen
      then Inl (''baseline contains duplicate certificate identity '' @ quote_text (root_identity r))
      else validate_roots (insert (root_identity r) seen) rs)"

definition validate_baseline :: "trust_baseline \<Rightarrow> gostring + unit" where
  "validate_baseline b = validate_roots {} (tb_roots b)"

definition valid_roots :: "root_entry list \<Rightarrow> bool" where
  "valid_roots rs \<longleftrightarrow> (\<forall>r \<in> set rs. re_spki_hash r \<noteq> [] \<and> re_subject r \<noteq> [])
     \<and> distinct (map root_identity rs)"

lemma validate_roots_exact:
  "validate_roots seen rs = Inr () \<longleftrightarrow>
     (\<forall>r \<in> set rs. re_spki_hash r \<noteq> [] \<and> re_subject r \<noteq> [])
     \<and> distinct (map root_identity rs) \<and> root_identity ` set rs \<inter> seen = {}"
  by (induction rs arbitrary: seen) auto

lemma validate_baseline_exact: "validate_baseline b = Inr () \<longleftrightarrow> valid_roots (tb_roots b)"
  by (simp add: validate_baseline_def validate_roots_exact valid_roots_def)

text \<open>The two kinds of identity never collide, so a valid baseline lists every certificate hash once, and
  a key hash without a certificate hash once.\<close>

lemma root_identity_eq:
  "root_identity r = root_identity r' \<longleftrightarrow>
     (re_cert_hash r = re_cert_hash r' \<and> (re_cert_hash r = [] \<longrightarrow> re_spki_hash r = re_spki_hash r'))"
  by (auto simp: root_identity_def)

lemma valid_roots_unique_cert:
  assumes "valid_roots rs" and "r \<in> set rs" and "r' \<in> set rs"
    and "re_cert_hash r = re_cert_hash r'" and "re_cert_hash r \<noteq> []"
  shows "r = r'"
  using assms by (auto simp: valid_roots_def distinct_map root_identity_eq inj_on_def)

subsection \<open>Certificates of the host\<close>

fun deduplicate_from :: "hashing \<Rightarrow> gostring set \<Rightarrow> root_cert list \<Rightarrow> root_cert list" where
  "deduplicate_from h seen [] = []"
| "deduplicate_from h seen (c # cs) =
     (if certificate_hash h c \<in> seen then deduplicate_from h seen cs
      else c # deduplicate_from h (insert (certificate_hash h c) seen) cs)"

definition deduplicate_certificates :: "hashing \<Rightarrow> root_cert list \<Rightarrow> root_cert list" where
  "deduplicate_certificates h = deduplicate_from h {}"

lemma deduplicate_from:
  "distinct (map (certificate_hash h) (deduplicate_from h seen cs))"
  "certificate_hash h ` set (deduplicate_from h seen cs) = certificate_hash h ` set cs - seen"
  by (induction cs arbitrary: seen) auto

lemma deduplicate_from_subset: "set (deduplicate_from h seen cs) \<subseteq> set cs"
  by (induction cs arbitrary: seen) (auto dest: subsetD split: if_splits)

text \<open>\<open>pem\<close> is \<open>pem.Decode\<close> (the bytes of the next block and the rest), \<open>parse\<close> is
  \<open>x509.ParseCertificate\<close>.  The loop runs while data are left.\<close>

record pem_env =
  pe_pem :: "bytes \<Rightarrow> (bytes \<times> bytes) option"
  pe_parse :: "bytes \<Rightarrow> root_cert option"

definition append_pem_step ::
  "pem_env \<Rightarrow> root_cert list \<times> bytes \<Rightarrow> root_cert list + (root_cert list \<times> bytes)" where
  "append_pem_step pe st = (case st of (certs, data) \<Rightarrow>
     if data = [] then Inl certs
     else (case pe_pem pe data of None \<Rightarrow> Inl certs
       | Some (block, rest) \<Rightarrow> Inr (case pe_parse pe block of None \<Rightarrow> certs | Some c \<Rightarrow> certs @ [c], rest)))"

definition append_pem_certificates :: "pem_env \<Rightarrow> root_cert list \<Rightarrow> bytes \<Rightarrow> root_cert list option" where
  "append_pem_certificates pe certs data = run_loop (append_pem_step pe) (certs, data)"

text \<open>\<open>pem.Decode\<close> returns what follows the block it found, which is shorter than its input.\<close>

definition pem_advances :: "pem_env \<Rightarrow> bool" where
  "pem_advances pe \<longleftrightarrow> (\<forall>data block rest. pe_pem pe data = Some (block, rest) \<longrightarrow> length rest < length data)"

lemma append_pem_returns:
  assumes "pem_advances pe"
  shows "\<exists>out. append_pem_certificates pe certs data = Some out"
  unfolding append_pem_certificates_def
  by (rule run_loop_terminates[where I = "\<lambda>_. True" and m = "\<lambda>(cs, d). length d"])
    (use assms in \<open>auto simp: append_pem_step_def pem_advances_def split: if_splits option.splits\<close>)

text \<open>One file or directory entry that \<open>fs.WalkDir\<close> reports.\<close>

record walk_entry =
  we_error :: bool
  we_is_dir :: bool
  we_contents :: "bytes option"

record trust_host =
  th_goos :: gostring
  th_pem :: pem_env
  th_read_file :: "gostring \<Rightarrow> bytes option"
  th_walk :: "gostring \<Rightarrow> walk_entry list option"

definition native_trust_store_support :: "gostring \<Rightarrow> gostring + unit" where
  "native_trust_store_support goos =
     (if goos = ''darwin''
      then Inl (''loadTrustStore: native macOS effective trust settings are not implemented; ''
        @ ''refusing certificate-inventory-only scan'')
      else Inr ())"

definition bundle_candidates :: "gostring list" where
  "bundle_candidates = [''/etc/ssl/certs/ca-certificates.crt'', ''/etc/pki/tls/certs/ca-bundle.crt'']"

text \<open>A file that can be read counts as found, whatever it holds.\<close>

definition add_file :: "pem_env \<Rightarrow> bytes option \<Rightarrow> bool \<times> root_cert list \<Rightarrow> (bool \<times> root_cert list) option" where
  "add_file pe contents st = (case contents of None \<Rightarrow> Some st
     | Some data \<Rightarrow> map_option (\<lambda>cs. (True, cs)) (append_pem_certificates pe (snd st) data))"

fun add_files :: "pem_env \<Rightarrow> bytes option list \<Rightarrow> bool \<times> root_cert list \<Rightarrow> (bool \<times> root_cert list) option" where
  "add_files pe [] st = Some st"
| "add_files pe (f # fs) st = Option.bind (add_file pe f st) (add_files pe fs)"

definition walked_file :: "walk_entry \<Rightarrow> bytes option" where
  "walked_file w = (if we_error w \<or> we_is_dir w then None else we_contents w)"

definition walked_files :: "trust_host \<Rightarrow> gostring \<Rightarrow> bytes option list" where
  "walked_files th dir = (case th_walk th dir of None \<Rightarrow> [] | Some ws \<Rightarrow> map walked_file ws)"

definition trust_store_files :: "trust_host \<Rightarrow> gostring \<Rightarrow> bytes option list" where
  "trust_store_files th extra_ca_dir = map (th_read_file th) bundle_candidates
     @ concat (map (walked_files th)
         [extra_ca_dir, ''/etc/pki/ca-trust/source/anchors'', ''/etc/pki/ca-trust/extracted/pem''])"

text \<open>\<open>%v\<close> of a slice of strings.\<close>

definition slice_text :: "gostring list \<Rightarrow> gostring" where
  "slice_text ws = ''['' @ join_with '' '' ws @ '']''"

definition load_trust_store ::
  "hashing \<Rightarrow> trust_host \<Rightarrow> gostring \<Rightarrow> (gostring + root_cert list) option" where
  "load_trust_store h th extra_ca_dir =
     (case native_trust_store_support (th_goos th) of Inl e \<Rightarrow> Some (Inl e)
      | Inr _ \<Rightarrow> map_option (\<lambda>(found, certs).
          if \<not> found then Inl (''loadTrustStore: no known trust store location found (checked ''
            @ slice_text bundle_candidates @ '')'')
          else Inr (deduplicate_certificates h certs))
        (add_files (th_pem th) (trust_store_files th extra_ca_dir) (False, [])))"

lemma add_files_returns:
  "pem_advances pe \<Longrightarrow> \<exists>certs. add_files pe fs st = Some ((\<exists>f \<in> set fs. f \<noteq> None) \<or> fst st, certs)"
proof (induction fs arbitrary: st)
  case Nil
  then show ?case by (cases st) auto
next
  case (Cons f fs)
  show ?case
  proof (cases f)
    case None
    with Cons show ?thesis by (auto simp: add_file_def)
  next
    case (Some data)
    obtain cs where "append_pem_certificates pe (snd st) data = Some cs"
      using append_pem_returns[OF Cons.prems] by blast
    with Some Cons.IH[OF Cons.prems, of "(True, cs)"] show ?thesis by (auto simp: add_file_def)
  qed
qed

lemma load_trust_store_ok:
  assumes "load_trust_store h th dir = Some (Inr certs)"
  shows "distinct (map (certificate_hash h) certs) \<and> th_goos th \<noteq> ''darwin''"
proof -
  have "th_goos th \<noteq> ''darwin''"
    using assms by (auto simp: load_trust_store_def native_trust_store_support_def split: if_splits)
  moreover have "\<exists>cs. certs = deduplicate_certificates h cs"
    using assms by (auto simp: load_trust_store_def split: sum.splits if_splits)
  ultimately show ?thesis by (auto simp: deduplicate_certificates_def deduplicate_from)
qed

lemma load_trust_store_returns:
  assumes "pem_advances (th_pem th)"
  shows "\<exists>r. load_trust_store h th dir = Some r
    \<and> (is_ok r \<longleftrightarrow> th_goos th \<noteq> ''darwin'' \<and> (\<exists>f \<in> set (trust_store_files th dir). f \<noteq> None))"
proof -
  obtain certs where "add_files (th_pem th) (trust_store_files th dir) (False, [])
      = Some (\<exists>f \<in> set (trust_store_files th dir). f \<noteq> None, certs)"
    using add_files_returns[OF assms, of "trust_store_files th dir" "(False, [])"] by auto
  then show ?thesis
    by (auto simp: load_trust_store_def native_trust_store_support_def)
qed

subsection \<open>Command-line flags\<close>

fun parse_flag :: "gostring list \<Rightarrow> gostring \<Rightarrow> gostring \<Rightarrow> gostring" where
  "parse_flag (a # v # rest) name dflt = (if a = name then v else parse_flag (v # rest) name dflt)"
| "parse_flag args name dflt = dflt"

end
