(* ===== verification/Baseline_State.thy ===== *)
theory Baseline_State imports Trust_Store Evidence_Store
begin

text \<open>
  Signed baselines and the rollback state of the drift agent (\<open>truststore-drift-agent/main.go\<close>,
  \<open>state_lock_unix.go\<close>): payload, signature and digest of a baseline, and the transaction that reads the
  state file, validates the baseline against it and replaces the file atomically, under the lock file.
  The state directory is the rooted file system of the evidence store, in which every system call may
  fail; a symbolic link in it is refused, as \<open>os.Root\<close> refuses one that leaves the directory.
\<close>

subsection \<open>Signatures and digests\<close>

text \<open>The standard library the agent builds on: JSON, Base64, SHA-256 and Ed25519.\<close>

record baseline_crypto =
  bc_marshal :: "trust_baseline \<Rightarrow> gostring + bytes"
  bc_hash_hex :: "bytes \<Rightarrow> gostring"
  bc_sign :: "bytes \<Rightarrow> bytes \<Rightarrow> bytes"
  bc_verify :: "bytes \<Rightarrow> bytes \<Rightarrow> bytes \<Rightarrow> bool"
  bc_base64 :: "bytes \<Rightarrow> gostring"
  bc_unbase64 :: "gostring \<Rightarrow> gostring + bytes"

definition baseline_payload :: "baseline_crypto \<Rightarrow> trust_baseline \<Rightarrow> gostring + bytes" where
  "baseline_payload bc b = bc_marshal bc (b\<lparr>tb_signature := []\<rparr>)"

definition sign_baseline :: "baseline_crypto \<Rightarrow> bytes \<Rightarrow> trust_baseline \<Rightarrow> gostring + trust_baseline" where
  "sign_baseline bc private_key b = ok_bind (baseline_payload bc b) (\<lambda>payload.
     Inr (b\<lparr>tb_signature := bc_base64 bc (bc_sign bc private_key payload)\<rparr>))"

definition verify_baseline :: "baseline_crypto \<Rightarrow> trust_baseline \<Rightarrow> bytes \<Rightarrow> gostring + unit" where
  "verify_baseline bc b public_key =
     (case bc_unbase64 bc (tb_signature b) of Inl e \<Rightarrow> Inl (''decoding signature: '' @ e)
      | Inr signature \<Rightarrow>
        (case baseline_payload bc b of Inl e \<Rightarrow> Inl e
         | Inr payload \<Rightarrow>
           if \<not> bc_verify bc public_key payload signature then Inl ''invalid signature'' else Inr ()))"

definition baseline_digest :: "baseline_crypto \<Rightarrow> trust_baseline \<Rightarrow> gostring + gostring" where
  "baseline_digest bc b = ok_bind (baseline_payload bc b) (\<lambda>payload. Inr (bc_hash_hex bc payload))"

subsection \<open>The decision\<close>

record baseline_state =
  bs_highest_sequence :: "64 word"
  bs_digest :: gostring

definition no_baseline_state :: baseline_state where
  "no_baseline_state = \<lparr>bs_highest_sequence = 0, bs_digest = []\<rparr>"

definition sequence_text :: "64 word \<Rightarrow> gostring" where
  "sequence_text n = nat_text (unat n)"

text \<open>The checks against the state: an error, or whether the state has to be replaced.\<close>

definition check_against_state ::
  "trust_baseline \<Rightarrow> gostring \<Rightarrow> baseline_state \<Rightarrow> gostring + bool" where
  "check_against_state b digest st =
     (if tb_sequence b < bs_highest_sequence st
      then Inl (''baseline rollback: sequence '' @ sequence_text (tb_sequence b)
        @ '' is lower than highest seen '' @ sequence_text (bs_highest_sequence st))
      else if tb_sequence b = bs_highest_sequence st \<and> bs_digest st \<noteq> [] \<and> bs_digest st \<noteq> digest
      then Inl (''baseline equivocation: sequence '' @ sequence_text (tb_sequence b) @ '' has a different digest'')
      else if bs_highest_sequence st < tb_sequence b \<and> bs_digest st \<noteq> []
        \<and> tb_previous_digest b \<noteq> bs_digest st
      then Inl (''baseline chain mismatch: sequence '' @ sequence_text (tb_sequence b)
        @ '' does not reference the accepted prior digest'')
      else Inr (\<not> (tb_sequence b = bs_highest_sequence st \<and> bs_digest st = digest)))"

definition accepted_state :: "trust_baseline \<Rightarrow> gostring \<Rightarrow> baseline_state" where
  "accepted_state b digest = \<lparr>bs_highest_sequence = tb_sequence b, bs_digest = digest\<rparr>"

subsection \<open>The state directory\<close>

record state_env =
  se_crypto :: baseline_crypto
  se_encode_state :: "baseline_state \<Rightarrow> gostring + bytes"
  se_decode_state :: "bytes \<Rightarrow> gostring + baseline_state"
  se_random :: "gostring + gostring"

text \<open>The name of the state file and its directory.\<close>

definition state_location :: "gostring \<Rightarrow> gostring + gostring \<times> gostring" where
  "state_location state_path =
     (let cleaned = clean state_path; name = path_base cleaned in
      if name = ''.'' \<or> name = ''..'' \<or> name = ''/''
      then Inl (''invalid baseline state path '' @ quote_text state_path)
      else Inr (path_dir cleaned, name))"

definition open_baseline_state_root :: "gostring \<Rightarrow> gostring fs_op" where
  "open_baseline_state_root state_path =
     (case state_location state_path of Inl e \<Rightarrow> op_fail e
      | Inr (dir, name) \<Rightarrow>
        op_bind (op_wrap (\<lambda>e. ''open baseline state directory '' @ dir @ '': '' @ e
              @ '' (create the directory before running the agent)'')
            (syscall (\<lambda>s. if is_dir_node (fs_root s) then (Inr (), s)
              else (Inl ''no such file or directory'', s))))
          (\<lambda>_. op_return name))"

text \<open>\<open>root.ReadFile\<close>; a file that does not exist is a result of its own.\<close>

definition fs_read :: "gostring \<Rightarrow> bytes option fs_op" where
  "fs_read p = syscall (\<lambda>s. case fs_nodes s p of
       None \<Rightarrow> (Inr None, s)
     | Some (FileNode contents) \<Rightarrow> (Inr (Some contents), s)
     | Some (DirNode perm) \<Rightarrow> (Inl ''is a directory'', s)
     | Some LinkNode \<Rightarrow> (Inl ''path escapes from parent'', s))"

text \<open>\<open>O_CREATE | O_RDWR\<close>.\<close>

definition fs_open_or_create :: "gostring \<Rightarrow> unit fs_op" where
  "fs_open_or_create p = syscall (\<lambda>s. case fs_nodes s p of
       None \<Rightarrow> (Inr (), set_node p (Some (FileNode [])) s)
     | Some (FileNode contents) \<Rightarrow> (Inr (), s)
     | Some (DirNode perm) \<Rightarrow> (Inl ''is a directory'', s)
     | Some LinkNode \<Rightarrow> (Inl ''path escapes from parent'', s))"

definition lock_name :: "gostring \<Rightarrow> gostring" where
  "lock_name name = ''.'' @ name @ ''.lock''"

text \<open>Opening, restricting and locking the lock file; the lock itself is waited for.\<close>

definition acquire_baseline_state_lock :: "gostring \<Rightarrow> unit fs_op" where
  "acquire_baseline_state_lock state_path =
     op_bind (open_baseline_state_root state_path) (\<lambda>name.
     let file = lock_name name in
     op_bind (op_wrap (\<lambda>e. ''open baseline state lock: '' @ e) (fs_open_or_create file)) (\<lambda>_.
     op_bind (op_on_error (op_wrap (\<lambda>e. ''restrict baseline state lock: '' @ e) (syscall (\<lambda>s. (Inr (), s))))
         (op_ignore (fs_close file))) (\<lambda>_.
       op_on_error (op_wrap (\<lambda>e. ''lock baseline state: '' @ e) (syscall (\<lambda>s. (Inr (), s))))
         (op_ignore (fs_close file)))))"

definition release_baseline_state_lock :: "unit fs_op" where
  "release_baseline_state_lock = (\<lambda>s.
     let (unlocked, s1) = syscall (\<lambda>s. (Inr (), s)) s; (closed, s2) = fs_close [] s1
     in (case (unlocked :: gostring + unit) of
           Inl e \<Rightarrow> Inl (''unlock baseline state: '' @ e)
         | Inr _ \<Rightarrow> (case closed of Inl e \<Rightarrow> Inl (''close baseline state lock: '' @ e) | Inr _ \<Rightarrow> Inr ()), s2))"

definition temporary_name :: "gostring \<Rightarrow> gostring \<Rightarrow> gostring" where
  "temporary_name name hex = ''.'' @ name @ ''.tmp-'' @ hex"

text \<open>The deferred removal of the temporary file runs unless the rename has been done.\<close>

definition write_baseline_state_atomic ::
  "gostring + gostring \<Rightarrow> gostring \<Rightarrow> bytes \<Rightarrow> unit fs_op" where
  "write_baseline_state_atomic random_name name contents =
     (case random_name of Inl e \<Rightarrow> op_fail (''generate temporary state name: '' @ e)
      | Inr hex \<Rightarrow>
        let temp = temporary_name name hex;
            wrap = (\<lambda>what. op_wrap (\<lambda>e. what @ '': '' @ e));
            replace =
              op_bind (op_on_error (wrap ''write temporary state'' (fs_write temp contents))
                  (op_ignore (fs_close temp))) (\<lambda>_.
              op_bind (op_on_error (wrap ''sync temporary state'' (fs_sync temp))
                  (op_ignore (fs_close temp))) (\<lambda>_.
              op_bind (wrap ''close temporary state'' (fs_close temp)) (\<lambda>_.
                wrap ''replace baseline state'' (fs_rename temp name))));
            persist =
              op_bind (wrap ''open baseline state directory for sync'' (fs_open_dir ''.'')) (\<lambda>_.
              op_bind (op_on_error (wrap ''sync baseline state directory'' (fs_sync ''.''))
                  (op_ignore (fs_close ''.''))) (\<lambda>_.
                wrap ''close baseline state directory'' (fs_close ''.'')))
        in op_bind (wrap ''create temporary state'' (fs_create temp)) (\<lambda>_.
           op_bind (op_on_error replace (op_ignore (fs_remove temp))) (\<lambda>_. persist)))"

text \<open>The transaction between the lock and its release: reading the state, checking the baseline against
  it, and replacing it.\<close>

definition load_state :: "state_env \<Rightarrow> gostring \<Rightarrow> baseline_state fs_op" where
  "load_state env name =
     op_bind (op_wrap (\<lambda>e. ''read baseline state: '' @ e) (fs_read name)) (\<lambda>contents.
       op_of (case contents of None \<Rightarrow> Inr no_baseline_state
         | Some data \<Rightarrow> (case se_decode_state env data of
             Inl e \<Rightarrow> Inl (''parse baseline state: '' @ e) | Inr st \<Rightarrow> Inr st)))"

definition store_state :: "state_env \<Rightarrow> gostring \<Rightarrow> baseline_state \<Rightarrow> unit fs_op" where
  "store_state env name st =
     (case se_encode_state env st of
        Inl e \<Rightarrow> op_fail (''encode baseline state: '' @ e)
      | Inr data \<Rightarrow> op_wrap (\<lambda>e. ''write baseline state: '' @ e)
          (write_baseline_state_atomic (se_random env) name data))"

definition advance_state :: "state_env \<Rightarrow> trust_baseline \<Rightarrow> gostring \<Rightarrow> gostring \<Rightarrow> unit fs_op" where
  "advance_state env b digest name =
     op_bind (load_state env name) (\<lambda>st.
       case check_against_state b digest st of
         Inl e \<Rightarrow> op_fail e
       | Inr advance \<Rightarrow> if advance then store_state env name (accepted_state b digest) else op_return ())"

definition advance_locked :: "state_env \<Rightarrow> trust_baseline \<Rightarrow> gostring \<Rightarrow> unit fs_op" where
  "advance_locked env b state_path =
     (case baseline_digest (se_crypto env) b of Inl e \<Rightarrow> op_fail (''hash baseline: '' @ e)
      | Inr digest \<Rightarrow> op_bind (open_baseline_state_root state_path) (advance_state env b digest))"

definition verify_and_advance_baseline_state :: "state_env \<Rightarrow> trust_baseline \<Rightarrow> gostring \<Rightarrow> unit fs_op" where
  "verify_and_advance_baseline_state env b state_path =
     (if state_path = [] then op_fail ''baseline state path is required for rollback protection''
      else op_bind (acquire_baseline_state_lock state_path) (\<lambda>_.
        op_finally (advance_locked env b state_path) release_baseline_state_lock))"

end
