(* ===== verification/Baseline_Laws.thy ===== *)
theory Baseline_Laws imports Baseline_State
begin

text \<open>
  What the rollback state promises: a transaction either leaves the state file as it was or replaces it
  by the accepted baseline's state, whatever system call fails; the highest sequence never goes down; and
  the baselines accepted one after the other form a hash chain.
\<close>

subsection \<open>Operations that leave a file alone\<close>

interpretation same_file: run_relation "\<lambda>s s'. fs_nodes s' name = fs_nodes s name" for name
  by unfold_locales auto

abbreviation keeps_file :: "gostring \<Rightarrow> (fs, 'e, 'a) op \<Rightarrow> bool" where
  "keeps_file name \<equiv> preserves (\<lambda>s s'. fs_nodes s' name = fs_nodes s name)"

lemma keep_file_syscall:
  "(\<And>s. fs_nodes (snd (f s)) name = fs_nodes s name) \<Longrightarrow> keeps_file name (syscall f)"
  by (auto simp: preserves_def syscall_def Let_def split: option.split)

lemma keep_file_ops:
  "keeps_file name (fs_sync p)" "keeps_file name (fs_close p)" "keeps_file name (fs_open_dir p)"
  "keeps_file name (fs_read p)" "p \<noteq> name \<Longrightarrow> keeps_file name (fs_write p c)"
  "p \<noteq> name \<Longrightarrow> keeps_file name (fs_create p)" "p \<noteq> name \<Longrightarrow> keeps_file name (fs_remove p)"
  "p \<noteq> name \<Longrightarrow> keeps_file name (fs_open_or_create p)"
  unfolding fs_sync_def fs_close_def fs_open_dir_def fs_read_def fs_write_def fs_create_def fs_remove_def
    fs_open_or_create_def
  by (rule keep_file_syscall; simp add: set_node_def split: option.split node.split)+

lemmas keep_file_intros = same_file.keep_intros

lemma temporary_name_ne: "temporary_name name hex \<noteq> name"
proof
  assume "temporary_name name hex = name"
  then have "length (temporary_name name hex) = length name" by simp
  then show False by (simp add: temporary_name_def)
qed

lemma lock_name_ne: "lock_name name \<noteq> name"
proof
  assume "lock_name name = name"
  then have "length (lock_name name) = length name" by simp
  then show False by (simp add: lock_name_def)
qed

lemma keep_file_open_root: "keeps_file name (open_baseline_state_root path)"
  unfolding open_baseline_state_root_def
  by (auto split: sum.split intro!: keep_file_intros keep_file_syscall)

lemma keep_file_release: "keeps_file name release_baseline_state_lock"
  by (auto simp: release_baseline_state_lock_def preserves_def fs_close_def syscall_def Let_def
      split: option.split prod.split)

text \<open>Acquiring the lock touches the lock file only.\<close>

lemma open_root_name:
  "open_baseline_state_root path s = (Inr name, s') \<Longrightarrow> \<exists>dir. state_location path = Inr (dir, name)"
  by (auto simp: open_baseline_state_root_def op_fail_def op_bind_def op_return_def
      split: sum.splits prod.splits)

lemma acquire_keeps:
  assumes "state_location path = Inr (dir, name)"
  shows "keeps_file name (acquire_baseline_state_lock path)"
proof -
  let ?rest = "\<lambda>n. op_bind (op_wrap (\<lambda>e. ''open baseline state lock: '' @ e) (fs_open_or_create (lock_name n)))
     (\<lambda>_. op_bind (op_on_error (op_wrap (\<lambda>e. ''restrict baseline state lock: '' @ e) (syscall (\<lambda>s. (Inr (), s))))
         (op_ignore (fs_close (lock_name n)))) (\<lambda>_.
       op_on_error (op_wrap (\<lambda>e. ''lock baseline state: '' @ e) (syscall (\<lambda>s. (Inr (), s))))
         (op_ignore (fs_close (lock_name n)))))"
  have rest: "keeps_file name (?rest name)"
    by (intro keep_file_intros keep_file_ops keep_file_syscall) (simp_all add: lock_name_ne)
  show ?thesis unfolding preserves_def
  proof
    fix s
    obtain r s' where o: "open_baseline_state_root path s = (r, s')" by fastforce
    then have kept: "fs_nodes s' name = fs_nodes s name" by (rule preservesD[OF keep_file_open_root])
    show "fs_nodes (snd (acquire_baseline_state_lock path s)) name = fs_nodes s name"
    proof (cases r)
      case (Inl e)
      then show ?thesis using o kept by (simp add: acquire_baseline_state_lock_def op_bind_def)
    next
      case (Inr n)
      then have "n = name" using open_root_name o assms by fastforce
      then have "acquire_baseline_state_lock path s = ?rest name s'"
        using o Inr by (simp add: acquire_baseline_state_lock_def op_bind_def Let_def)
      then show ?thesis using rest kept by (simp add: preserves_def)
    qed
  qed
qed

subsection \<open>The file is replaced or left\<close>

text \<open>Replacing: on success the file has the new contents, on an error it is as it was.\<close>

definition replaces :: "gostring \<Rightarrow> bytes \<Rightarrow> (fs, 'e, unit) op \<Rightarrow> bool" where
  "replaces name contents m \<longleftrightarrow> (\<forall>s. case m s of
     (Inl e, s') \<Rightarrow> fs_nodes s' name = fs_nodes s name \<or> fs_nodes s' name = Some (FileNode contents)
   | (Inr u, s') \<Rightarrow> fs_nodes s' name = Some (FileNode contents))"

lemma replaces_wrap: "replaces name c (op_wrap f m) \<longleftrightarrow> replaces name c m"
  by (auto simp: replaces_def op_wrap_def split: prod.splits sum.splits)

lemma write_atomic_replaces:
  "replaces name contents (write_baseline_state_atomic random_name name contents)"
proof (cases random_name)
  case (Inl e)
  then show ?thesis by (simp add: replaces_def write_baseline_state_atomic_def op_fail_def)
next
  case (Inr hex)
  have ne: "temporary_name name hex \<noteq> name" "name \<noteq> temporary_name name hex"
    using temporary_name_ne by metis+
  show ?thesis unfolding replaces_def
    by (auto simp: write_baseline_state_atomic_def Inr Let_def op_bind_def op_on_error_def op_ignore_def
        op_wrap_def fs_create_def fs_write_def fs_sync_def fs_close_def fs_rename_def fs_remove_def
        fs_open_dir_def syscall_def set_node_def ne split: option.splits if_splits)
qed

subsection \<open>The transaction\<close>

definition stored_state :: "state_env \<Rightarrow> gostring \<Rightarrow> fs \<Rightarrow> gostring + baseline_state" where
  "stored_state env name s = (case fs_nodes s name of
       None \<Rightarrow> Inr no_baseline_state
     | Some (FileNode data) \<Rightarrow> se_decode_state env data
     | Some (DirNode perm) \<Rightarrow> Inl ''is a directory''
     | Some LinkNode \<Rightarrow> Inl ''path escapes from parent'')"

text \<open>What \<open>encoding/json\<close> promises of the state: what it writes, it reads back.\<close>

definition state_codec :: "state_env \<Rightarrow> bool" where
  "state_codec env \<longleftrightarrow> (\<forall>st data. se_encode_state env st = Inr data \<longrightarrow> se_decode_state env data = Inr st)"

lemma stored_state_cong: "fs_nodes s' name = fs_nodes s name \<Longrightarrow> stored_state env name s' = stored_state env name s"
  by (simp add: stored_state_def)

lemma fs_read_outcome:
  "fs_read p s = (r, s') \<Longrightarrow> fs_nodes s' p = fs_nodes s p
     \<and> (\<forall>c. r = Inr c \<longrightarrow> (case c of None \<Rightarrow> fs_nodes s p = None | Some d \<Rightarrow> fs_nodes s p = Some (FileNode d)))"
  by (auto simp: fs_read_def syscall_def Let_def split: option.splits node.splits)

text \<open>The baseline was accepted on the state \<open>st\<close>.\<close>

definition accepts :: "state_env \<Rightarrow> trust_baseline \<Rightarrow> baseline_state \<Rightarrow> baseline_state \<Rightarrow> bool" where
  "accepts env b st st' \<longleftrightarrow> (\<exists>digest. baseline_digest (se_crypto env) b = Inr digest
     \<and> is_ok (check_against_state b digest st) \<and> st' = accepted_state b digest)"

lemma check_False: "check_against_state b digest st = Inr False \<Longrightarrow> st = accepted_state b digest"
  by (auto simp: check_against_state_def accepted_state_def split: if_splits)

lemma accepts_rises: "accepts env b st st' \<Longrightarrow> bs_highest_sequence st \<le> bs_highest_sequence st'"
  by (auto simp: accepts_def check_against_state_def accepted_state_def not_less split: if_splits)

text \<open>What a transaction on the baseline \<open>b\<close> may do to the state.\<close>

definition transacted :: "state_env \<Rightarrow> gostring \<Rightarrow> trust_baseline \<Rightarrow> fs \<Rightarrow> gostring + unit \<Rightarrow> fs \<Rightarrow> bool" where
  "transacted env name b s r s' \<longleftrightarrow>
     (stored_state env name s' = stored_state env name s \<and> r \<noteq> Inr ())
     \<or> (\<exists>st st'. stored_state env name s = Inr st \<and> accepts env b st st' \<and> stored_state env name s' = Inr st')"

lemma transacted_failed:
  "stored_state env name s' = stored_state env name s \<Longrightarrow> transacted env name b s (Inl e) s'"
  by (simp add: transacted_def)

lemma transacted_cong:
  assumes "transacted env name b s r s'" and "stored_state env name s0 = stored_state env name s"
    and "stored_state env name s'' = stored_state env name s'"
  shows "transacted env name b s0 r s''"
  using assms by (simp add: transacted_def)

lemma op_bind_run:
  "op_bind m k s = (r, s'') \<Longrightarrow>
     (\<exists>e. m s = (Inl e, s'') \<and> r = Inl e) \<or> (\<exists>x s'. m s = (Inr x, s') \<and> k x s' = (r, s''))"
  by (auto simp: op_bind_def split: prod.splits sum.splits)

lemma load_state_outcome:
  assumes "load_state env name s = (r, s')"
  shows "stored_state env name s' = stored_state env name s
    \<and> (\<forall>st. r = Inr st \<longrightarrow> stored_state env name s = Inr st)"
proof -
  obtain c s1 where c: "fs_read name s = (c, s1)" by fastforce
  note out = fs_read_outcome[OF c]
  have same: "stored_state env name s1 = stored_state env name s"
    by (rule stored_state_cong) (use out in simp)
  show ?thesis
  proof (cases c)
    case (Inl e)
    with assms c same show ?thesis by (auto simp: load_state_def op_bind_def op_wrap_def)
  next
    case (Inr contents)
    with assms c have "s' = s1" and r: "r = (case contents of None \<Rightarrow> Inr no_baseline_state
        | Some data \<Rightarrow> (case se_decode_state env data of
            Inl e \<Rightarrow> Inl (''parse baseline state: '' @ e) | Inr st \<Rightarrow> Inr st))"
      by (auto simp: load_state_def op_bind_def op_wrap_def op_of_def)
    moreover have "stored_state env name s = (case contents of None \<Rightarrow> Inr no_baseline_state
        | Some data \<Rightarrow> se_decode_state env data)"
      using out Inr by (auto simp: stored_state_def split: option.splits)
    ultimately show ?thesis using same
      by (cases contents) (auto split: sum.splits)
  qed
qed

lemma store_state_outcome:
  assumes "state_codec env" and "store_state env name st s = (r, s')"
  shows "stored_state env name s' = Inr st \<or> (stored_state env name s' = stored_state env name s \<and> r \<noteq> Inr ())"
proof (cases "se_encode_state env st")
  case (Inl e)
  with assms(2) show ?thesis by (auto simp: store_state_def op_fail_def)
next
  case (Inr data)
  let ?w = "write_baseline_state_atomic (se_random env) name data"
  obtain q where q: "?w s = (q, s')" "r = Inr () \<longleftrightarrow> q = Inr ()"
    using assms(2) Inr by (auto simp: store_state_def op_wrap_def split: prod.splits sum.splits)
  have "fs_nodes s' name = Some (FileNode data) \<or> (fs_nodes s' name = fs_nodes s name \<and> q \<noteq> Inr ())"
    using write_atomic_replaces[of name data "se_random env"] q(1)
    by (cases q) (auto simp: replaces_def dest: spec[of _ s])
  moreover have "stored_state env name s' = Inr st" if "fs_nodes s' name = Some (FileNode data)"
    using that assms(1) Inr by (simp add: stored_state_def state_codec_def)
  ultimately show ?thesis using q(2) stored_state_cong[of s' name s env] by auto
qed

lemma advance_state_transacted:
  assumes "state_codec env" and "baseline_digest (se_crypto env) b = Inr digest"
    and "advance_state env b digest name s = (r, s'')"
  shows "transacted env name b s r s''"
  using op_bind_run[OF assms(3)[unfolded advance_state_def]]
proof (elim disjE exE conjE)
  fix e assume "load_state env name s = (Inl e, s'')" "r = Inl e"
  then show ?thesis by (auto dest: load_state_outcome intro: transacted_failed)
next
  fix st s' assume l: "load_state env name s = (Inr st, s')"
    and k: "(case check_against_state b digest st of Inl e \<Rightarrow> op_fail e
      | Inr advance \<Rightarrow> if advance then store_state env name (accepted_state b digest) else op_return ()) s' = (r, s'')"
  have st: "stored_state env name s' = stored_state env name s" "stored_state env name s = Inr st"
    using load_state_outcome[OF l] by auto
  show ?thesis
  proof (cases "check_against_state b digest st")
    case (Inl e)
    with k st show ?thesis by (auto simp: op_fail_def intro: transacted_failed)
  next
    case (Inr advance)
    then have ok: "accepts env b st (accepted_state b digest)" using assms(2) by (auto simp: accepts_def)
    show ?thesis
    proof (cases advance)
      case True
      then have "store_state env name (accepted_state b digest) s' = (r, s'')" using k Inr by simp
      from store_state_outcome[OF assms(1) this] ok st show ?thesis by (auto simp: transacted_def)
    next
      case False
      then have "s'' = s'" using k Inr by (simp add: op_return_def)
      moreover have "st = accepted_state b digest" using Inr False by (simp add: check_False)
      ultimately show ?thesis using ok st by (auto simp: transacted_def)
    qed
  qed
qed

lemma advance_locked_transacted:
  assumes "state_codec env" and "state_location path = Inr (dir, name)"
    and "advance_locked env b path s = (r, s'')"
  shows "transacted env name b s r s''"
proof (cases "baseline_digest (se_crypto env) b")
  case (Inl e)
  with assms(3) show ?thesis by (auto simp: advance_locked_def op_fail_def intro: transacted_failed)
next
  case (Inr digest)
  then have "op_bind (open_baseline_state_root path) (advance_state env b digest) s = (r, s'')"
    using assms(3) by (simp add: advance_locked_def)
  from op_bind_run[OF this] show ?thesis
  proof (elim disjE exE conjE)
    fix e assume e: "open_baseline_state_root path s = (Inl e, s'')" "r = Inl e"
    from stored_state_cong[OF preservesD[OF keep_file_open_root e(1)]] show ?thesis
      unfolding e(2) by (rule transacted_failed)
  next
    fix n s' assume o: "open_baseline_state_root path s = (Inr n, s')"
      and k: "advance_state env b digest n s' = (r, s'')"
    have "n = name" using open_root_name[OF o] assms(2) by simp
    with k have "transacted env name b s' r s''" using advance_state_transacted[OF assms(1) Inr] by simp
    from transacted_cong[OF this stored_state_cong[OF preservesD[OF keep_file_open_root o], symmetric] refl]
    show ?thesis .
  qed
qed

lemma verify_and_advance_transacted:
  assumes "state_codec env" and "state_location path = Inr (dir, name)" and "path \<noteq> []"
    and "verify_and_advance_baseline_state env b path s = (r, s'')"
  shows "transacted env name b s r s''"
proof -
  have "op_bind (acquire_baseline_state_lock path)
      (\<lambda>_. op_finally (advance_locked env b path) release_baseline_state_lock) s = (r, s'')"
    using assms(3,4) by (simp add: verify_and_advance_baseline_state_def)
  from op_bind_run[OF this] show ?thesis
  proof (elim disjE exE conjE)
    fix e assume e: "acquire_baseline_state_lock path s = (Inl e, s'')" "r = Inl e"
    from stored_state_cong[OF preservesD[OF acquire_keeps[OF assms(2)] e(1)]] show ?thesis
      unfolding e(2) by (rule transacted_failed)
  next
    fix u s' assume a: "acquire_baseline_state_lock path s = (Inr u, s')"
      and k: "op_finally (advance_locked env b path) release_baseline_state_lock s' = (r, s'')"
    obtain r1 s1 where l: "advance_locked env b path s' = (r1, s1)" by fastforce
    with k have r1: "r1 = r" "s'' = snd (release_baseline_state_lock s1)" by (auto simp: op_finally_def)
    have "fs_nodes (snd (release_baseline_state_lock s1)) name = fs_nodes s1 name"
      using keep_file_release[of name] by (simp add: preserves_def)
    then have after: "stored_state env name s'' = stored_state env name s1"
      unfolding r1 by (rule stored_state_cong)
    have before: "stored_state env name s' = stored_state env name s"
      by (rule stored_state_cong[OF preservesD[OF acquire_keeps[OF assms(2)] a]])
    show ?thesis
      using transacted_cong[OF advance_locked_transacted[OF assms(1,2) l] before[symmetric] after]
      unfolding r1 .
  qed
qed

lemma baseline_transaction_run:
  assumes "state_codec env" and "state_location path = Inr (dir, name)" and "path \<noteq> []"
    and "verify_and_advance_baseline_state env b path s = (r, s')" and "stored_state env name s = Inr st"
  shows "\<exists>st'. stored_state env name s' = Inr st' \<and> bs_highest_sequence st \<le> bs_highest_sequence st'
    \<and> (st' = st \<or> accepts env b st st') \<and> (r = Inr () \<longrightarrow> accepts env b st st')"
  using verify_and_advance_transacted[OF assms(1-4)] assms(5) accepts_rises[of env b st]
  by (auto simp: transacted_def)

text \<open>C13: Whichever system calls fail, a run of the rollback transaction leaves the state file readable,
  with the state it had or the state of the baseline it accepted; the highest sequence seen never goes
  down; and a run that succeeds has accepted the baseline and stored its sequence and digest.\<close>

theorem baseline_transaction:
  assumes "state_codec env" and "state_location path = Inr (dir, name)" and "path \<noteq> []"
    and "verify_and_advance_baseline_state env b path s = (r, s')" and "stored_state env name s = Inr st"
  shows "\<exists>st'. stored_state env name s' = Inr st' \<and> bs_highest_sequence st \<le> bs_highest_sequence st'
    \<and> (st' = st \<or> accepts env b st st') \<and> (r = Inr () \<longrightarrow> accepts env b st st')"
  by (rule baseline_transaction_run[OF assms])

subsection \<open>Without faults\<close>

lemma path_dir_plain: "slash \<notin> set p \<Longrightarrow> path_dir p = ''.''"
proof -
  assume "slash \<notin> set p"
  then have "up_to_last_slash p = []" by (auto simp: up_to_last_slash_def)
  then show ?thesis by (simp add: path_dir_def clean_def clean_components_def clean_component_def is_abs_def)
qed

lemma state_location_plain: "state_location path = Inr (dir, name) \<Longrightarrow> slash \<notin> set name"
  by (auto simp: state_location_def Let_def dest: path_base_slash split: if_splits)

text \<open>A state directory in order: it exists, its state and lock files are files or missing, and the
  temporary name is free.\<close>

definition orderly :: "state_env \<Rightarrow> gostring \<Rightarrow> fs \<Rightarrow> bool" where
  "orderly env name s \<longleftrightarrow> (\<forall>n. fs_fault s n = None) \<and> is_dir_node (fs_root s)
     \<and> (\<forall>p \<in> {name, lock_name name}. case fs_nodes s p of None \<Rightarrow> True | Some (FileNode c) \<Rightarrow> True | _ \<Rightarrow> False)
     \<and> (case se_random env of Inl e \<Rightarrow> False | Inr hex \<Rightarrow> slash \<notin> set hex
          \<and> fs_nodes s (temporary_name name hex) = None)
     \<and> (\<forall>st. is_ok (se_encode_state env st))"

lemma syscall_orderly: "(\<forall>n. fs_fault s n = None) \<Longrightarrow> syscall f s = f (s\<lparr>fs_tick := Suc (fs_tick s)\<rparr>)"
  by (simp add: syscall_def Let_def)

lemma write_atomic_ok:
  assumes "\<forall>n. fs_fault s n = None" and "slash \<notin> set hex" and "slash \<notin> set name"
    and "fs_nodes s (temporary_name name hex) = None" and "\<not> is_directory s name"
  shows "\<exists>s'. write_baseline_state_atomic (Inr hex) name c s = (Inr (), s')"
proof -
  have "path_dir (temporary_name name hex) = ''.''"
    by (rule path_dir_plain) (use assms(2,3) in \<open>auto simp: temporary_name_def\<close>)
  moreover have "temporary_name name hex \<noteq> ''.''" by (simp add: temporary_name_def)
  moreover have "is_directory s ''.''" for s by (simp add: is_directory_def)
  ultimately show ?thesis
    using assms temporary_name_ne[of name hex]
    by (simp add: write_baseline_state_atomic_def op_bind_def op_on_error_def op_ignore_def op_wrap_def
        fs_create_def fs_write_def fs_sync_def fs_close_def fs_rename_def fs_open_dir_def syscall_orderly
        set_node_def is_directory_def Let_def)
qed

lemma advance_state_ok:
  assumes "\<forall>n. fs_fault s n = None" and "slash \<notin> set name" and "\<not> is_directory s name"
    and "case fs_nodes s name of None \<Rightarrow> True | Some (FileNode c) \<Rightarrow> True | _ \<Rightarrow> False"
    and "se_random env = Inr hex" and "slash \<notin> set hex" and "fs_nodes s (temporary_name name hex) = None"
    and "is_ok (se_encode_state env (accepted_state b digest))"
    and "stored_state env name s = Inr st" and "is_ok (check_against_state b digest st)"
  shows "\<exists>s'. advance_state env b digest name s = (Inr (), s')"
proof -
  let ?s1 = "s\<lparr>fs_tick := Suc (fs_tick s)\<rparr>"
  have load: "load_state env name s = (Inr st, ?s1)"
    using assms(1,4,9) by (auto simp: load_state_def fs_read_def syscall_orderly op_bind_def op_wrap_def
        op_of_def stored_state_def split: option.splits node.splits)
  obtain data where data: "se_encode_state env (accepted_state b digest) = Inr data"
    using assms(8) by (auto simp: is_ok_iff)
  have "\<exists>s'. write_baseline_state_atomic (Inr hex) name data ?s1 = (Inr (), s')"
    by (rule write_atomic_ok) (use assms in \<open>auto simp: is_directory_def\<close>)
  then have "\<exists>s'. store_state env name (accepted_state b digest) ?s1 = (Inr (), s')"
    using data assms(5) by (auto simp: store_state_def op_wrap_def)
  then show ?thesis using load assms(10)
    by (auto simp: advance_state_def op_bind_def op_return_def is_ok_iff)
qed

lemma temporary_not_lock: "temporary_name name hex \<noteq> lock_name name"
  by (simp add: temporary_name_def lock_name_def)

lemma acquire_ok:
  assumes "\<forall>n. fs_fault s n = None" and "is_dir_node (fs_root s)" and "state_location path = Inr (dir, name)"
    and "case fs_nodes s (lock_name name) of None \<Rightarrow> True | Some (FileNode c) \<Rightarrow> True | _ \<Rightarrow> False"
  shows "\<exists>s'. acquire_baseline_state_lock path s = (Inr (), s') \<and> fs_fault s' = fs_fault s
    \<and> fs_root s' = fs_root s \<and> (\<forall>p. p \<noteq> lock_name name \<longrightarrow> fs_nodes s' p = fs_nodes s p)
    \<and> (case fs_nodes s' (lock_name name) of None \<Rightarrow> True | Some (FileNode c) \<Rightarrow> True | _ \<Rightarrow> False)"
proof -
  have "open_baseline_state_root path s = (Inr name, s\<lparr>fs_tick := Suc (fs_tick s)\<rparr>)"
    using assms(1-3) by (simp add: open_baseline_state_root_def op_bind_def op_wrap_def op_return_def
        syscall_orderly)
  then show ?thesis using assms(1,4)
    by (auto simp: acquire_baseline_state_lock_def op_bind_def op_wrap_def op_on_error_def
        fs_open_or_create_def syscall_orderly set_node_def Let_def split: option.splits node.splits)
qed

lemma advance_locked_ok:
  assumes "orderly env name s" and "state_location path = Inr (dir, name)"
    and "stored_state env name s = Inr st" and "accepts env b st st'"
  shows "\<exists>s'. advance_locked env b path s = (Inr (), s')"
proof -
  let ?s1 = "s\<lparr>fs_tick := Suc (fs_tick s)\<rparr>"
  obtain digest where d: "baseline_digest (se_crypto env) b = Inr digest"
    "is_ok (check_against_state b digest st)" using assms(4) by (auto simp: accepts_def)
  obtain hex where hex: "se_random env = Inr hex" "slash \<notin> set hex"
    "fs_nodes s (temporary_name name hex) = None"
    using assms(1) by (auto simp: orderly_def split: sum.splits)
  have opened: "open_baseline_state_root path s = (Inr name, ?s1)"
    using assms(1,2) by (simp add: orderly_def open_baseline_state_root_def op_bind_def op_wrap_def
        op_return_def syscall_orderly)
  have "name \<noteq> ''.''" using assms(2) by (auto simp: state_location_def Let_def split: if_splits)
  then have "\<exists>s'. advance_state env b digest name ?s1 = (Inr (), s')"
    using assms(1,3) d(2) hex state_location_plain[OF assms(2)]
    by (intro advance_state_ok[where hex = hex])
      (auto simp: orderly_def is_directory_def is_dir_node_def stored_state_def
        split: option.splits node.splits)
  then show ?thesis using opened d(1) by (simp add: advance_locked_def op_bind_def)
qed

text \<open>C14: In an orderly state directory with no failing system call, the transaction succeeds exactly on
  the baselines that the stored state accepts: a higher sequence that names the stored digest as its
  predecessor, or the stored baseline itself (or any, while no digest is stored); rollbacks, equivocations
  and breaks of the chain are refused.\<close>

theorem baseline_accepted_exactly:
  assumes "state_codec env" and "state_location path = Inr (dir, name)" and "path \<noteq> []"
    and "orderly env name s" and "stored_state env name s = Inr st"
    and "baseline_digest (se_crypto env) b = Inr digest"
  shows "fst (verify_and_advance_baseline_state env b path s) = Inr () \<longleftrightarrow>
    bs_highest_sequence st \<le> tb_sequence b
    \<and> (bs_digest st \<noteq> [] \<longrightarrow> (if tb_sequence b = bs_highest_sequence st then digest = bs_digest st
        else tb_previous_digest b = bs_digest st))" (is "?l \<longleftrightarrow> ?r")
proof -
  have r: "?r \<longleftrightarrow> is_ok (check_against_state b digest st)"
    by (auto simp: check_against_state_def not_less)
  obtain res s' where run: "verify_and_advance_baseline_state env b path s = (res, s')" by fastforce
  show ?thesis
  proof
    assume ?l
    then show ?r using baseline_transaction_run[OF assms(1-3) run assms(5)] assms(6) run
      unfolding r by (auto simp: accepts_def)
  next
    assume ?r
    then have ok: "accepts env b st (accepted_state b digest)"
      using assms(6) unfolding r by (auto simp: accepts_def)
    have dir: "is_dir_node (fs_root s)" "\<forall>n. fs_fault s n = None"
      "case fs_nodes s (lock_name name) of None \<Rightarrow> True | Some (FileNode c) \<Rightarrow> True | _ \<Rightarrow> False"
      using assms(4) by (simp_all add: orderly_def)
    obtain s1 where a: "acquire_baseline_state_lock path s = (Inr (), s1)" "fs_fault s1 = fs_fault s"
      "fs_root s1 = fs_root s" "\<forall>p. p \<noteq> lock_name name \<longrightarrow> fs_nodes s1 p = fs_nodes s p"
      "case fs_nodes s1 (lock_name name) of None \<Rightarrow> True | Some (FileNode c) \<Rightarrow> True | _ \<Rightarrow> False"
      using acquire_ok[OF dir(2,1) assms(2) dir(3)] by blast
    have "orderly env name s1" using assms(4) a lock_name_ne[of name] temporary_not_lock[of name]
      by (auto simp: orderly_def split: sum.splits)
    moreover have "stored_state env name s1 = Inr st"
      using a(4) lock_name_ne[of name] assms(5) by (simp add: stored_state_def)
    ultimately obtain s2 where "advance_locked env b path s1 = (Inr (), s2)"
      using advance_locked_ok[OF _ assms(2) _ ok] by blast
    then show ?l using a(1) assms(3)
      by (simp add: verify_and_advance_baseline_state_def op_bind_def op_finally_def)
  qed
qed

end
