(* ===== verification/Baseline_Chain.thy ===== *)
theory Baseline_Chain imports Baseline_Laws
begin

text \<open>
  Several agents on one state file: the transaction of \<open>verifyAndAdvanceBaselineStateWithHook\<close> in its
  observable steps, interleaved by a scheduler.  The lock of \<open>state_lock_unix.go\<close> is held from before
  the state is read until after it is replaced; the kernel drops it when an agent dies.
\<close>

text \<open>Where an agent is: it waits for the lock with its baseline, holds it, has validated the baseline
  against the state it read and is about to rename, or is about to unlock.\<close>

datatype agent_pc = AgentIdle | AgentWaiting trust_baseline | AgentLocked trust_baseline
  | AgentChecked trust_baseline gostring | AgentUnlocking

text \<open>\<open>sh_written\<close> records the baselines whose state was written, the newest first.\<close>

record shared_state =
  sh_file :: baseline_state
  sh_holder :: "nat option"
  sh_agents :: "nat \<Rightarrow> agent_pc"
  sh_written :: "trust_baseline list"

definition holds_lock :: "agent_pc \<Rightarrow> bool" where
  "holds_lock pc \<longleftrightarrow> (case pc of AgentIdle \<Rightarrow> False | AgentWaiting b \<Rightarrow> False | _ \<Rightarrow> True)"

definition move_agent :: "nat \<Rightarrow> agent_pc \<Rightarrow> shared_state \<Rightarrow> shared_state" where
  "move_agent i pc s = s\<lparr>sh_agents := (sh_agents s)(i := pc)\<rparr>"

inductive agent_step :: "baseline_crypto \<Rightarrow> shared_state \<Rightarrow> shared_state \<Rightarrow> bool" for bc where
  Begin: "sh_agents s i = AgentIdle \<Longrightarrow> agent_step bc s (move_agent i (AgentWaiting b) s)"
| Lock: "sh_agents s i = AgentWaiting b \<Longrightarrow> sh_holder s = None \<Longrightarrow>
    agent_step bc s ((move_agent i (AgentLocked b) s)\<lparr>sh_holder := Some i\<rparr>)"
| Check: "sh_agents s i = AgentLocked b \<Longrightarrow> baseline_digest bc b = Inr digest \<Longrightarrow>
    check_against_state b digest (sh_file s) = Inr True \<Longrightarrow>
    agent_step bc s (move_agent i (AgentChecked b digest) s)"
| Keep: "sh_agents s i = AgentLocked b \<Longrightarrow> baseline_digest bc b = Inr digest \<Longrightarrow>
    check_against_state b digest (sh_file s) = Inr False \<Longrightarrow>
    agent_step bc s (move_agent i AgentUnlocking s)"
| Replace: "sh_agents s i = AgentChecked b digest \<Longrightarrow>
    agent_step bc s ((move_agent i AgentUnlocking s)\<lparr>sh_file := accepted_state b digest,
      sh_written := b # sh_written s\<rparr>)"
| Fail: "sh_agents s i = AgentLocked b \<or> sh_agents s i = AgentChecked b digest \<Longrightarrow>
    agent_step bc s (move_agent i AgentUnlocking s)"
| Unlock: "sh_agents s i = AgentUnlocking \<Longrightarrow>
    agent_step bc s ((move_agent i AgentIdle s)\<lparr>sh_holder := None\<rparr>)"
| Die: "agent_step bc s ((move_agent i AgentIdle s)
      \<lparr>sh_holder := (if holds_lock (sh_agents s i) then None else sh_holder s)\<rparr>)"

definition agents_start :: "baseline_state \<Rightarrow> shared_state" where
  "agents_start st = \<lparr>sh_file = st, sh_holder = None, sh_agents = (\<lambda>_. AgentIdle), sh_written = []\<rparr>"

abbreviation agents_reach :: "baseline_crypto \<Rightarrow> baseline_state \<Rightarrow> shared_state \<Rightarrow> bool" where
  "agents_reach bc st \<equiv> (agent_step bc)\<^sup>*\<^sup>* (agents_start st)"

inductive_cases agent_stepE: "agent_step bc s s'"

subsection \<open>Mutual exclusion\<close>

text \<open>The holder is the one agent inside, and what it has validated still holds of the file.\<close>

definition lock_invariant :: "baseline_crypto \<Rightarrow> shared_state \<Rightarrow> bool" where
  "lock_invariant bc s \<longleftrightarrow> (\<forall>i. holds_lock (sh_agents s i) \<longleftrightarrow> sh_holder s = Some i)
     \<and> (\<forall>i b digest. sh_agents s i = AgentChecked b digest \<longrightarrow>
          baseline_digest bc b = Inr digest \<and> check_against_state b digest (sh_file s) = Inr True)"

lemma move_agent_simps [simp]:
  "sh_file (move_agent i pc s) = sh_file s" "sh_holder (move_agent i pc s) = sh_holder s"
  "sh_written (move_agent i pc s) = sh_written s"
  "sh_agents (move_agent i pc s) = (sh_agents s)(i := pc)"
  by (simp_all add: move_agent_def)

lemma holds_lock_simps [simp]:
  "\<not> holds_lock AgentIdle" "\<not> holds_lock (AgentWaiting b)" "holds_lock (AgentLocked b)"
  "holds_lock (AgentChecked b d)" "holds_lock AgentUnlocking"
  by (simp_all add: holds_lock_def)

lemma lock_invariant_step:
  assumes "agent_step bc s s'" and "lock_invariant bc s"
  shows "lock_invariant bc s'"
  using assms
proof (cases rule: agent_step.cases)
  case (Replace i b digest)
  then have "sh_holder s = Some i" using assms(2) by (auto simp: lock_invariant_def)
  moreover have "sh_agents s j = AgentChecked b' d' \<Longrightarrow> sh_holder s = Some j" for j b' d'
    using assms(2) by (metis holds_lock_simps(4) lock_invariant_def)
  ultimately have "sh_agents s j \<noteq> AgentChecked b' d'" if "j \<noteq> i" for j b' d'
    using that by fastforce
  with Replace assms(2) show ?thesis by (auto simp: lock_invariant_def)
next
  case (Fail i b digest)
  then have "holds_lock (sh_agents s i)" by auto
  with Fail assms(2) show ?thesis by (auto simp: lock_invariant_def)
next
  case (Die i)
  show ?thesis
  proof (cases "holds_lock (sh_agents s i)")
    case True
    then have "sh_holder s = Some i" using assms(2) by (auto simp: lock_invariant_def)
    with Die True assms(2) show ?thesis by (auto simp: lock_invariant_def)
  next
    case False
    with Die assms(2) show ?thesis by (fastforce simp: lock_invariant_def)
  qed
qed (auto simp: lock_invariant_def, metis holds_lock_simps(1))

lemma lock_invariant_reach: "agents_reach bc st s \<Longrightarrow> lock_invariant bc s"
proof (induction rule: rtranclp_induct)
  case base
  show ?case by (simp add: lock_invariant_def agents_start_def)
next
  case (step s s')
  then show ?case using lock_invariant_step by blast
qed

subsection \<open>The chain\<close>

text \<open>\<open>links bc st bs st'\<close>: the baselines \<open>bs\<close>, newest first, were accepted one after the other, from the
  state \<open>st\<close> to the state \<open>st'\<close>.\<close>

fun links :: "baseline_crypto \<Rightarrow> baseline_state \<Rightarrow> trust_baseline list \<Rightarrow> baseline_state \<Rightarrow> bool" where
  "links bc st [] st' \<longleftrightarrow> st' = st"
| "links bc st (b # bs) st' \<longleftrightarrow> (\<exists>digest before. links bc st bs before \<and> baseline_digest bc b = Inr digest
     \<and> check_against_state b digest before = Inr True \<and> st' = accepted_state b digest)"

lemma links_reach: "agents_reach bc st s \<Longrightarrow> links bc st (sh_written s) (sh_file s)"
proof (induction rule: rtranclp_induct)
  case base
  show ?case by (simp add: agents_start_def)
next
  case (step s s')
  have inv: "lock_invariant bc s" by (rule lock_invariant_reach[OF step(1)])
  from step(2) show ?case
  proof (cases rule: agent_step.cases)
    case (Replace i b digest)
    then show ?thesis using inv step(3) by (auto simp: lock_invariant_def)
  qed (use step(3) in auto)
qed

lemma check_True:
  assumes "check_against_state b digest st = Inr True" and "bs_digest st \<noteq> []"
  shows "bs_highest_sequence st < tb_sequence b \<and> tb_previous_digest b = bs_digest st"
  using assms by (auto simp: check_against_state_def split: if_splits)

lemma links_last:
  "links bc st (b # bs) st' \<Longrightarrow> \<exists>digest. baseline_digest bc b = Inr digest \<and> st' = accepted_state b digest"
  by auto

text \<open>What SHA-256 in hexadecimal is never: the empty string.\<close>

definition digests_nonempty :: "baseline_crypto \<Rightarrow> bool" where
  "digests_nonempty bc \<longleftrightarrow> (\<forall>data. bc_hash_hex bc data \<noteq> [])"

lemma digest_nonempty: "digests_nonempty bc \<Longrightarrow> baseline_digest bc b = Inr digest \<Longrightarrow> digest \<noteq> []"
  by (auto simp: baseline_digest_def digests_nonempty_def)

lemma links_chain:
  assumes "digests_nonempty bc"
  shows "links bc st bs st' \<Longrightarrow>
     sorted_wrt (\<lambda>newer older. tb_sequence older < tb_sequence newer) bs
     \<and> (\<forall>i. Suc i < length bs \<longrightarrow> baseline_digest bc (bs ! Suc i) = Inr (tb_previous_digest (bs ! i)))
     \<and> (bs \<noteq> [] \<longrightarrow> bs_highest_sequence st' = tb_sequence (hd bs)
          \<and> Inr (bs_digest st') = baseline_digest bc (hd bs))"
proof (induction bs arbitrary: st')
  case (Cons b bs)
  obtain digest before where l: "links bc st bs before" "baseline_digest bc b = Inr digest"
    "check_against_state b digest before = Inr True" "st' = accepted_state b digest"
    using Cons.prems by auto
  show ?case
  proof (cases bs)
    case Nil
    with l show ?thesis by (simp add: accepted_state_def)
  next
    case (Cons b' bs')
    obtain digest' where d': "baseline_digest bc b' = Inr digest'" "before = accepted_state b' digest'"
      using l(1) links_last unfolding Cons by blast
    have "tb_sequence b' < tb_sequence b \<and> tb_previous_digest b = digest'"
      using check_True[OF l(3)] d' digest_nonempty[OF assms d'(1)] by (simp add: accepted_state_def)
    then show ?thesis
      using Cons.IH[OF l(1)] l(2,4) d'(1) unfolding Cons
      by (auto simp: accepted_state_def nth_Cons split: nat.split)
  qed
qed simp

text \<open>C12: However any number of agents on one state file are interleaved, fail or die, the baselines whose
  state they write form one hash chain: each has a higher sequence than the one written before it and
  names its digest as its predecessor, and the file holds the newest.\<close>

theorem written_baselines_chain:
  assumes "digests_nonempty bc" and "agents_reach bc st s"
  shows "sorted_wrt (\<lambda>newer older. tb_sequence older < tb_sequence newer) (sh_written s)
    \<and> (\<forall>i. Suc i < length (sh_written s) \<longrightarrow>
         baseline_digest bc (sh_written s ! Suc i) = Inr (tb_previous_digest (sh_written s ! i)))
    \<and> (case sh_written s of [] \<Rightarrow> sh_file s = st
       | b # bs \<Rightarrow> Inr (sh_file s) = map_sum id (accepted_state b) (baseline_digest bc b))"
  using links_chain[OF assms(1) links_reach[OF assms(2)]] links_reach[OF assms(2)]
  by (cases "sh_written s") auto

lemma file_rises:
  assumes "lock_invariant bc s" and "agent_step bc s s'"
  shows "bs_highest_sequence (sh_file s) \<le> bs_highest_sequence (sh_file s')"
  using assms(2)
proof (cases rule: agent_step.cases)
  case (Replace i b digest)
  then have "check_against_state b digest (sh_file s) = Inr True"
    using assms(1) by (simp add: lock_invariant_def)
  with Replace show ?thesis
    by (auto simp: check_against_state_def accepted_state_def not_less split: if_splits)
qed auto

text \<open>In every interleaving of the agents the highest sequence in the state file never goes down,
  step by step, so a stale agent cannot roll back what a faster one has published.\<close>

theorem highest_sequence_rises:
  assumes "agents_reach bc st s" and "(agent_step bc)\<^sup>*\<^sup>* s s'"
  shows "bs_highest_sequence (sh_file s) \<le> bs_highest_sequence (sh_file s')"
  using assms(2)
proof (induction rule: rtranclp_induct)
  case (step t t')
  have "lock_invariant bc t"
    using assms(1) step(1) by (blast intro: lock_invariant_reach rtranclp_trans)
  from file_rises[OF this step(2)] step(3) show ?case by order
qed simp

subsection \<open>The transaction is such an agent\<close>

lemma agent_round:
  assumes "sh_agents a i = AgentIdle" and "sh_holder a = None"
    and inside: "(agent_step bc)\<^sup>*\<^sup>* ((move_agent i (AgentLocked b) a)\<lparr>sh_holder := Some i\<rparr>) a1"
    and unlocking: "sh_agents a1 = (sh_agents a)(i := AgentUnlocking)"
  shows "\<exists>a'. (agent_step bc)\<^sup>*\<^sup>* a a' \<and> sh_file a' = sh_file a1 \<and> sh_holder a' = None
    \<and> sh_agents a' = sh_agents a \<and> sh_written a' = sh_written a1"
proof -
  let ?w = "move_agent i (AgentWaiting b) a" and ?l = "(move_agent i (AgentLocked b) a)\<lparr>sh_holder := Some i\<rparr>"
  let ?a' = "(move_agent i AgentIdle a1)\<lparr>sh_holder := None\<rparr>"
  have "agent_step bc a ?w" using assms(1) by (rule Begin)
  moreover have "agent_step bc ?w ((move_agent i (AgentLocked b) ?w)\<lparr>sh_holder := Some i\<rparr>)"
    by (rule Lock) (simp_all add: assms(2))
  then have "agent_step bc ?w ?l" by (simp add: move_agent_def)
  moreover have "agent_step bc a1 ?a'" by (rule Unlock) (simp add: unlocking)
  ultimately have "(agent_step bc)\<^sup>*\<^sup>* a ?a'"
    using inside by (meson converse_rtranclp_into_rtranclp rtranclp.rtrancl_into_rtrancl)
  moreover have "sh_agents ?a' = sh_agents a" using assms(1) by (simp add: unlocking fun_upd_idem)
  ultimately show ?thesis by (intro exI[of _ ?a']) simp
qed

lemma write_round:
  assumes "sh_agents a i = AgentIdle" and "sh_holder a = None" and "baseline_digest bc b = Inr digest"
    and "check_against_state b digest (sh_file a) = Inr True"
  shows "\<exists>a'. (agent_step bc)\<^sup>*\<^sup>* a a' \<and> sh_file a' = accepted_state b digest \<and> sh_holder a' = None
    \<and> sh_agents a' = sh_agents a \<and> sh_written a' = b # sh_written a"
proof -
  let ?l = "(move_agent i (AgentLocked b) a)\<lparr>sh_holder := Some i\<rparr>"
  let ?c = "move_agent i (AgentChecked b digest) ?l"
  let ?u = "(move_agent i AgentUnlocking ?c)\<lparr>sh_file := accepted_state b digest, sh_written := b # sh_written ?c\<rparr>"
  have "agent_step bc ?l ?c" by (rule Check) (simp_all add: assms)
  moreover have "agent_step bc ?c ?u" by (rule Replace) simp
  ultimately have "(agent_step bc)\<^sup>*\<^sup>* ?l ?u"
    by (rule converse_rtranclp_into_rtranclp[OF _ r_into_rtranclp])
  from agent_round[OF assms(1,2) this] show ?thesis by simp
qed

lemma failed_round:
  assumes "sh_agents a i = AgentIdle" and "sh_holder a = None"
  shows "\<exists>a'. (agent_step bc)\<^sup>*\<^sup>* a a' \<and> sh_file a' = sh_file a \<and> sh_holder a' = None
    \<and> sh_agents a' = sh_agents a"
proof -
  fix b :: trust_baseline
  let ?l = "(move_agent i (AgentLocked b) a)\<lparr>sh_holder := Some i\<rparr>"
  have "agent_step bc ?l (move_agent i AgentUnlocking ?l)" by (rule Fail) simp
  then have "(agent_step bc)\<^sup>*\<^sup>* ?l (move_agent i AgentUnlocking ?l)" by (rule r_into_rtranclp)
  from agent_round[OF assms this] show ?thesis by auto
qed

text \<open>The transaction, run by one agent while nobody holds the lock, is a round of the interleaved
  system: it takes the shared state to one whose file is what the run left in the state file.\<close>

theorem transaction_refines_agent:
  assumes "state_codec env" and "state_location path = Inr (dir, name)" and "path \<noteq> []"
    and "verify_and_advance_baseline_state env b path s = (r, s')"
    and "stored_state env name s = Inr (sh_file a)" and "sh_agents a i = AgentIdle" and "sh_holder a = None"
  shows "\<exists>a'. (agent_step (se_crypto env))\<^sup>*\<^sup>* a a' \<and> stored_state env name s' = Inr (sh_file a')
    \<and> sh_holder a' = None \<and> sh_agents a' = sh_agents a
    \<and> (r = Inr () \<longrightarrow> accepts env b (sh_file a) (sh_file a'))"
proof -
  obtain st' where st': "stored_state env name s' = Inr st'" "st' = sh_file a \<or> accepts env b (sh_file a) st'"
    "r = Inr () \<longrightarrow> accepts env b (sh_file a) st'"
    using baseline_transaction_run[OF assms(1-5)] by blast
  show ?thesis
  proof (cases "st' = sh_file a")
    case True
    with failed_round[OF assms(6,7)] st' show ?thesis by metis
  next
    case False
    then obtain digest x where d: "baseline_digest (se_crypto env) b = Inr digest"
      "check_against_state b digest (sh_file a) = Inr x" "st' = accepted_state b digest"
      using st'(2) by (auto simp: accepts_def is_ok_iff)
    have x using False check_False[of b digest "sh_file a"] d by (cases x) auto
    with write_round[OF assms(6,7) d(1)] d st' show ?thesis by fastforce
  qed
qed

subsection \<open>Two baselines\<close>

definition sample_state_env :: state_env where
  "sample_state_env = \<lparr>se_crypto =
       \<lparr>bc_marshal = (\<lambda>b. Inr (nat_text (unat (tb_sequence b)) @ tb_previous_digest b)),
        bc_hash_hex = (\<lambda>data. CHR ''h'' # data), bc_sign = (\<lambda>key data. key @ data),
        bc_verify = (\<lambda>key data sig. sig = key @ data), bc_base64 = (\<lambda>x. x), bc_unbase64 = Inr\<rparr>,
     se_encode_state = (\<lambda>st. Inr (replicate (unat (bs_highest_sequence st)) (CHR ''|'') @ CHR '':'' # bs_digest st)),
     se_decode_state = (\<lambda>data. Inr \<lparr>bs_highest_sequence = of_nat (length (takeWhile (\<lambda>c. c = CHR ''|'') data)),
       bs_digest = tl (dropWhile (\<lambda>c. c = CHR ''|'') data)\<rparr>),
     se_random = Inr ''0a''\<rparr>"

definition numbered_baseline :: "64 word \<Rightarrow> gostring \<Rightarrow> trust_baseline" where
  "numbered_baseline n previous = \<lparr>tb_generated_at = Instant 1, tb_sequence = n, tb_expires_at = Instant 9,
     tb_previous_digest = previous, tb_roots = [], tb_signature = []\<rparr>"

definition empty_state_directory :: fs where
  "empty_state_directory = \<lparr>fs_root = Some (DirNode 448), fs_nodes = Map.empty, fs_tick = 0, fs_fault = (\<lambda>_. None)\<rparr>"

lemma sample_codec: "state_codec sample_state_env"
proof -
  have "takeWhile (\<lambda>c. c = x) (replicate n x @ y # ys) = replicate n x" "dropWhile (\<lambda>c. c = x) (replicate n x @ y # ys) = y # ys"
    if "y \<noteq> x" for x y :: char and n ys
    using that by (induction n) auto
  then show ?thesis by (simp add: state_codec_def sample_state_env_def)
qed

lemma sample_location: "state_location ''/v/b.st'' = Inr (''/v'', ''b.st'')"
  by code_simp

lemma sample_stored: "stored_state sample_state_env ''b.st'' empty_state_directory = Inr no_baseline_state"
  by (simp add: stored_state_def empty_state_directory_def)

lemma sample_run_ok:
  "fst (verify_and_advance_baseline_state sample_state_env (numbered_baseline 1 []) ''/v/b.st'' empty_state_directory) = Inr ()"
  by code_simp

theorem baseline_transaction_witness:
  "\<exists>st'. stored_state sample_state_env ''b.st'' (snd (verify_and_advance_baseline_state sample_state_env
       (numbered_baseline 1 []) ''/v/b.st'' empty_state_directory)) = Inr st'
     \<and> accepts sample_state_env (numbered_baseline 1 []) no_baseline_state st'"
  using baseline_transaction[OF sample_codec sample_location _ prod.collapse[symmetric] sample_stored,
      of "numbered_baseline 1 []"] sample_run_ok by auto

theorem baseline_accepted_exactly_witness:
  "fst (verify_and_advance_baseline_state sample_state_env (numbered_baseline 1 ''x'') ''/v/b.st'' empty_state_directory) = Inr ()"
proof -
  have "orderly sample_state_env ''b.st'' empty_state_directory"
    by (simp add: orderly_def empty_state_directory_def is_dir_node_def sample_state_env_def)
  moreover have "\<exists>digest. baseline_digest (se_crypto sample_state_env) (numbered_baseline 1 ''x'') = Inr digest"
    by (simp add: baseline_digest_def baseline_payload_def sample_state_env_def)
  ultimately show ?thesis
    using baseline_accepted_exactly[OF sample_codec sample_location _ _ sample_stored]
    by (auto simp: no_baseline_state_def)
qed

lemma sample_digests: "digests_nonempty (se_crypto sample_state_env)"
  by (simp add: digests_nonempty_def sample_state_env_def)

lemma sample_two_rounds:
  "\<exists>s. agents_reach (se_crypto sample_state_env) no_baseline_state s
     \<and> sh_written s = [numbered_baseline 2 ''h1'', numbered_baseline 1 []]"
proof -
  let ?bc = "se_crypto sample_state_env" and ?b = "numbered_baseline 1 []" and ?b' = "numbered_baseline 2 ''h1''"
  have d: "baseline_digest ?bc ?b = Inr ''h1''" "baseline_digest ?bc ?b' = Inr ''h2h1''" by code_simp+
  have "check_against_state ?b ''h1'' no_baseline_state = Inr True"
    "check_against_state ?b' ''h2h1'' (accepted_state ?b ''h1'') = Inr True" by code_simp+
  then obtain a where a: "agents_reach ?bc no_baseline_state a" "sh_file a = accepted_state ?b ''h1''"
    "sh_holder a = None" "sh_agents a = (\<lambda>_. AgentIdle)" "sh_written a = [?b]"
    using write_round[of "agents_start no_baseline_state" 0, OF _ _ d(1)] by (auto simp: agents_start_def)
  moreover have "check_against_state ?b' ''h2h1'' (accepted_state ?b ''h1'') = Inr True" by code_simp
  ultimately obtain a' where "(agent_step ?bc)\<^sup>*\<^sup>* a a'" "sh_written a' = [?b', ?b]"
    using write_round[of a 1, OF _ _ d(2)] by auto
  with a(1) show ?thesis by (meson rtranclp_trans)
qed

theorem written_baselines_chain_witness:
  "\<exists>s :: shared_state. sh_written s = [numbered_baseline 2 ''h1'', numbered_baseline 1 []]
     \<and> baseline_digest (se_crypto sample_state_env) (sh_written s ! 1) = Inr (tb_previous_digest (sh_written s ! 0))"
proof -
  obtain s where s: "agents_reach (se_crypto sample_state_env) no_baseline_state s"
    "sh_written s = [numbered_baseline 2 ''h1'', numbered_baseline 1 []]"
    using sample_two_rounds by blast
  from written_baselines_chain[OF sample_digests s(1)] s(2) show ?thesis by (intro exI[of _ s]) auto
qed

theorem highest_sequence_rises_witness:
  "\<exists>s :: shared_state. sh_written s \<noteq> [] \<and> bs_highest_sequence no_baseline_state \<le> bs_highest_sequence (sh_file s)"
proof -
  obtain s where s: "agents_reach (se_crypto sample_state_env) no_baseline_state s"
    "sh_written s = [numbered_baseline 2 ''h1'', numbered_baseline 1 []]"
    using sample_two_rounds by blast
  have "sh_file (agents_start no_baseline_state) = no_baseline_state" by (simp add: agents_start_def)
  with highest_sequence_rises[OF rtranclp.rtrancl_refl s(1)] s(2) show ?thesis by (intro exI[of _ s]) simp
qed

theorem transaction_refines_agent_witness:
  "\<exists>a'. agents_reach (se_crypto sample_state_env) no_baseline_state a'
     \<and> accepts sample_state_env (numbered_baseline 1 []) no_baseline_state (sh_file a')"
  using transaction_refines_agent[OF sample_codec sample_location _ prod.collapse[symmetric],
      of empty_state_directory "agents_start no_baseline_state" 0 "numbered_baseline 1 []"]
    sample_stored sample_run_ok by (auto simp: agents_start_def)

end
