(* ===== verification/Drift.thy ===== *)
theory Drift imports Trust_Store
begin

text \<open>
  The comparison of an observed trust store with its baseline: \<open>evaluateTrustStore\<close>, \<open>checkExitCode\<close> and
  \<open>prometheusText\<close> of \<open>truststore-drift-agent/main.go\<close>.  A map that the code fills in a loop is the fold
  of that loop over maps, sets or counters; the keys it collects and sorts are a sorted list.
\<close>

record drift_event =
  de_timestamp :: gotime
  de_event :: gostring
  de_subject :: gostring
  de_spki_hash :: gostring

record scan_result =
  sr_unknown_roots :: nat
  sr_missing_roots :: nat
  sr_changed_roots :: nat
  sr_expired_roots :: nat
  sr_expiring_roots :: nat
  sr_baseline_valid :: bool
  sr_scan_success :: bool
  sr_last_scan :: gotime
  sr_events :: "drift_event list"
  sr_error :: gostring

definition empty_scan :: "gotime \<Rightarrow> scan_result" where
  "empty_scan now = \<lparr>sr_unknown_roots = 0, sr_missing_roots = 0, sr_changed_roots = 0,
     sr_expired_roots = 0, sr_expiring_roots = 0, sr_baseline_valid = False, sr_scan_success = False,
     sr_last_scan = now, sr_events = [], sr_error = []\<rparr>"

definition add_event :: "gostring \<Rightarrow> gostring \<Rightarrow> gostring \<Rightarrow> scan_result \<Rightarrow> scan_result" where
  "add_event event subject spki r = r\<lparr>sr_events := sr_events r @
     [\<lparr>de_timestamp = sr_last_scan r, de_event = event, de_subject = subject, de_spki_hash = spki\<rparr>]\<rparr>"

subsection \<open>What is known and what is observed\<close>

definition known_by_cert_hash :: "root_entry list \<Rightarrow> gostring \<rightharpoonup> root_entry" where
  "known_by_cert_hash roots =
     fold (\<lambda>r m. if re_cert_hash r \<noteq> [] then m(re_cert_hash r \<mapsto> r) else m) roots Map.empty"

definition known_by_spki :: "root_entry list \<Rightarrow> gostring \<Rightarrow> root_entry list" where
  "known_by_spki roots =
     fold (\<lambda>r m. m(re_spki_hash r := m (re_spki_hash r) @ [r])) roots (\<lambda>_. [])"

definition known_by_subject :: "root_entry list \<Rightarrow> gostring \<rightharpoonup> root_entry" where
  "known_by_subject roots = fold (\<lambda>r m. m(re_subject r \<mapsto> r)) roots Map.empty"

definition observed_by_cert_hash :: "hashing \<Rightarrow> root_cert list \<Rightarrow> gostring \<rightharpoonup> root_cert" where
  "observed_by_cert_hash h certs = fold (\<lambda>c m. m(certificate_hash h c \<mapsto> c)) certs Map.empty"

definition observed_by_spki :: "hashing \<Rightarrow> root_cert list \<Rightarrow> gostring \<Rightarrow> gostring set" where
  "observed_by_spki h certs =
     fold (\<lambda>c m. m(spki_hash h c := insert (certificate_hash h c) (m (spki_hash h c)))) certs (\<lambda>_. {})"

text \<open>The keys of \<open>observedByCertHash\<close>, sorted.\<close>

definition observed_hashes :: "hashing \<Rightarrow> root_cert list \<Rightarrow> gostring list" where
  "observed_hashes h certs = sort (remdups (map (certificate_hash h) certs))"

subsection \<open>Legacy entries\<close>

text \<open>An entry without a certificate hash stands for one root of its key; the budgets count them.\<close>

definition legacy_budget :: "root_entry list \<Rightarrow> gostring \<Rightarrow> nat" where
  "legacy_budget roots =
     fold (\<lambda>r m. if re_cert_hash r = [] then m(re_spki_hash r := m (re_spki_hash r) + 1) else m)
       roots (\<lambda>_. 0)"

definition assign_legacy :: "hashing \<Rightarrow> (gostring \<rightharpoonup> root_entry) \<Rightarrow> (gostring \<rightharpoonup> root_cert) \<Rightarrow> gostring
    \<Rightarrow> (gostring \<Rightarrow> nat) \<times> gostring set \<Rightarrow> (gostring \<Rightarrow> nat) \<times> gostring set" where
  "assign_legacy h known observed hash st = (case st of (budget, legacy) \<Rightarrow>
     if known hash \<noteq> None then (budget, legacy)
     else (case observed hash of None \<Rightarrow> (budget, legacy)
       | Some c \<Rightarrow>
         if 0 < budget (spki_hash h c)
         then (budget(spki_hash h c := budget (spki_hash h c) - 1), insert hash legacy)
         else (budget, legacy)))"

definition legacy_certificates :: "hashing \<Rightarrow> root_entry list \<Rightarrow> root_cert list \<Rightarrow> gostring set" where
  "legacy_certificates h roots certs =
     snd (fold (assign_legacy h (known_by_cert_hash roots) (observed_by_cert_hash h certs))
       (observed_hashes h certs) (legacy_budget roots, {}))"

subsection \<open>One observed certificate\<close>

definition policy_differs :: "root_entry \<Rightarrow> root_entry \<Rightarrow> bool" where
  "policy_differs known observed \<longleftrightarrow>
     re_policy_hash known \<noteq> [] \<and> re_policy_hash known \<noteq> re_policy_hash observed"

definition count_changed :: "scan_result \<Rightarrow> scan_result" where
  "count_changed r = r\<lparr>sr_changed_roots := Suc (sr_changed_roots r)\<rparr>"

definition classify_identity ::
  "hashing \<Rightarrow> root_entry list \<Rightarrow> gostring set \<Rightarrow> root_cert \<Rightarrow> scan_result \<Rightarrow> scan_result" where
  "classify_identity h roots legacy c r =
     (let spki = spki_hash h c; cert_hash = certificate_hash h c; subject = rc_subject c;
          candidates = known_by_spki roots spki; observed = root_entry_of h c in
      case known_by_cert_hash roots cert_hash of
        Some known \<Rightarrow> if policy_differs known observed
          then add_event ''ROOT_POLICY_CHANGED'' subject spki (count_changed r) else r
      | None \<Rightarrow>
        if 0 < length candidates
        then if cert_hash \<notin> legacy
          then add_event (if \<exists>known \<in> set candidates. policy_differs known observed
              then ''ROOT_POLICY_CHANGED'' else ''ROOT_CERT_CHANGED'') subject spki (count_changed r)
          else r
        else let r' = r\<lparr>sr_unknown_roots := Suc (sr_unknown_roots r)\<rparr> in
          if known_by_subject roots subject \<noteq> None
          then add_event ''ROOT_CHANGED'' subject spki (count_changed r')
          else add_event ''UNKNOWN_ROOT_ADDED'' subject spki r')"

definition classify_expiry :: "hashing \<Rightarrow> root_cert \<Rightarrow> scan_result \<Rightarrow> scan_result" where
  "classify_expiry h c r =
     (let now = sr_last_scan r in
      if rc_not_after c < now
      then add_event ''ROOT_EXPIRED'' (rc_subject c) (spki_hash h c)
        (r\<lparr>sr_expired_roots := Suc (sr_expired_roots r)\<rparr>)
      else if rc_not_after c < time_add now (30 * 24 * hour)
      then add_event ''ROOT_EXPIRING'' (rc_subject c) (spki_hash h c)
        (r\<lparr>sr_expiring_roots := Suc (sr_expiring_roots r)\<rparr>)
      else r)"

definition classify_certificate ::
  "hashing \<Rightarrow> root_entry list \<Rightarrow> gostring set \<Rightarrow> root_cert \<Rightarrow> scan_result \<Rightarrow> scan_result" where
  "classify_certificate h roots legacy c r = classify_expiry h c (classify_identity h roots legacy c r)"

subsection \<open>Baseline roots that were not observed\<close>

definition substitution_budget :: "hashing \<Rightarrow> root_entry list \<Rightarrow> root_cert list \<Rightarrow> gostring \<Rightarrow> nat" where
  "substitution_budget h roots certs spki =
     (let hashes = observed_by_spki h certs spki
      in card hashes - card (Set.filter (\<lambda>x. known_by_cert_hash roots x \<noteq> None) hashes))"

definition match_legacy :: "root_entry \<Rightarrow> (gostring \<Rightarrow> nat) \<times> (gostring \<Rightarrow> nat)
    \<Rightarrow> (gostring \<Rightarrow> nat) \<times> (gostring \<Rightarrow> nat)" where
  "match_legacy r st = (case st of (matches, budget) \<Rightarrow>
     let s = re_spki_hash r in
     if re_cert_hash r = [] \<and> 0 < budget s
     then (matches(s := matches s + 1), budget(s := budget s - 1)) else (matches, budget))"

definition check_missing :: "(gostring \<rightharpoonup> root_cert) \<Rightarrow> root_entry
    \<Rightarrow> ((gostring \<Rightarrow> nat) \<times> (gostring \<Rightarrow> nat)) \<times> scan_result
    \<Rightarrow> ((gostring \<Rightarrow> nat) \<times> (gostring \<Rightarrow> nat)) \<times> scan_result" where
  "check_missing observed r st = (case st of ((matches, budget), res) \<Rightarrow>
     let s = re_spki_hash r;
         missing = add_event ''EXPECTED_ROOT_REMOVED'' (re_subject r) s
           (res\<lparr>sr_missing_roots := Suc (sr_missing_roots res)\<rparr>) in
     if re_cert_hash r \<noteq> []
     then if observed (re_cert_hash r) \<noteq> None then ((matches, budget), res)
       else if 0 < budget s then ((matches, budget(s := budget s - 1)), res)
       else ((matches, budget), missing)
     else if 0 < matches s then ((matches(s := matches s - 1), budget), res)
     else ((matches, budget), missing))"

definition evaluate_trust_store ::
  "hashing \<Rightarrow> trust_baseline \<Rightarrow> root_cert list \<Rightarrow> gotime \<Rightarrow> scan_result" where
  "evaluate_trust_store h b certs now =
     (let roots = tb_roots b;
          start = (empty_scan now)\<lparr>sr_baseline_valid := True, sr_scan_success := True\<rparr>;
          legacy = legacy_certificates h roots certs;
          classified = fold (classify_certificate h roots legacy) certs start;
          matched = fold match_legacy roots (\<lambda>_. 0, substitution_budget h roots certs)
      in snd (fold (check_missing (observed_by_cert_hash h certs)) roots (matched, classified)))"

subsection \<open>Verdict and metrics\<close>

definition check_exit_code :: "scan_result \<Rightarrow> int" where
  "check_exit_code r =
     (if 0 < sr_unknown_roots r \<or> 0 < sr_missing_roots r \<or> 0 < sr_changed_roots r \<or> 0 < sr_expired_roots r
      then 1 else 0)"

definition gauge_text :: "gostring \<Rightarrow> gostring \<Rightarrow> int \<Rightarrow> gostring" where
  "gauge_text name help value' =
     ''# HELP '' @ name @ '' '' @ help @ [CHR 0x0A] @ ''# TYPE '' @ name @ '' gauge'' @ [CHR 0x0A]
     @ name @ '' '' @ int_text value' @ [CHR 0x0A]"

definition bool_float :: "bool \<Rightarrow> int" where
  "bool_float b = (if b then 1 else 0)"

definition prometheus_text :: "scan_result \<Rightarrow> gostring" where
  "prometheus_text r = concat (map (\<lambda>(name, help, value'). gauge_text name help value')
     [(''pki_truststore_unknown_roots'', ''Roots present but absent from the signed baseline.'',
        int (sr_unknown_roots r)),
      (''pki_truststore_missing_roots'', ''Baseline roots absent from the observed trust store.'',
        int (sr_missing_roots r)),
      (''pki_truststore_changed_roots'',
        ''Observed roots whose subject matches a baseline root but whose SPKI differs.'',
        int (sr_changed_roots r)),
      (''pki_truststore_expired_roots'', ''Expired roots in the observed trust store.'',
        int (sr_expired_roots r)),
      (''pki_truststore_expiring_roots'', ''Roots expiring within 30 days.'', int (sr_expiring_roots r)),
      (''pki_truststore_baseline_valid'', ''Whether the baseline signature verified.'',
        bool_float (sr_baseline_valid r)),
      (''pki_truststore_scan_success'', ''Whether the trust store was scanned successfully.'',
        bool_float (sr_scan_success r)),
      (''pki_truststore_last_scan_timestamp_seconds'', ''Unix timestamp of the last scan attempt.'',
        unix_seconds (sr_last_scan r))])"

end
