(* ===== verification/Json_Tokens.thy ===== *)
theory Json_Tokens imports Go_Strings
begin

text \<open>
  The token interface of \<open>encoding/json\<close>: \<open>Decoder.Token\<close> and \<open>Decoder.More\<close> with the decoder's state
  (\<open>tokenState\<close>, \<open>tokenStack\<close>), over the lexemes of the input.  A string lexeme holds the decoded
  string; a number, a truth value or null is a scalar.  After the last lexeme the input ends or goes on
  with bytes that are no lexeme.
\<close>

datatype lexeme = OpenObject | CloseObject | OpenArray | CloseArray | Comma | Colon
  | StringLexeme gostring | ScalarLexeme gostring

datatype lexeme_end = EndOfInput | BadInput gostring

datatype token_state = TopValue | ArrayStart | ArrayValue | ArrayComma
  | ObjectStart | ObjectKey | ObjectColon | ObjectValue | ObjectComma

record decoder =
  dec_input :: "lexeme list"
  dec_end :: lexeme_end
  dec_state :: token_state
  dec_stack :: "token_state list"

datatype json_token = DelimToken char | StringToken gostring | ScalarToken gostring

text \<open>\<open>io.EOF\<close>, \<open>io.ErrUnexpectedEOF\<close>, a syntax error at a lexeme or in the bytes after them, and the errors of the callers.\<close>

datatype json_error = JsonEOF | JsonUnexpectedEOF | JsonUnexpected lexeme | JsonBad gostring | JsonMessage gostring

definition new_decoder :: "lexeme list \<Rightarrow> lexeme_end \<Rightarrow> decoder" where
  "new_decoder input e = \<lparr>dec_input = input, dec_end = e, dec_state = TopValue, dec_stack = []\<rparr>"

definition value_allowed :: "token_state \<Rightarrow> bool" where
  "value_allowed st \<longleftrightarrow> st \<in> {TopValue, ArrayStart, ArrayValue, ObjectValue}"

text \<open>\<open>tokenValueEnd\<close>: the state after a value.\<close>

fun value_end :: "token_state \<Rightarrow> token_state" where
  "value_end ArrayStart = ArrayComma"
| "value_end ArrayValue = ArrayComma"
| "value_end ObjectValue = ObjectComma"
| "value_end st = st"

definition peek_error :: "lexeme_end \<Rightarrow> json_error" where
  "peek_error e = (case e of EndOfInput \<Rightarrow> JsonEOF | BadInput msg \<Rightarrow> JsonBad msg)"

definition more :: "decoder \<Rightarrow> bool" where
  "more d = (case dec_input d of [] \<Rightarrow> dec_end d \<noteq> EndOfInput
     | x # xs \<Rightarrow> x \<noteq> CloseArray \<and> x \<noteq> CloseObject)"

text \<open>\<open>Token\<close> on the input, the state and the stack; colons and commas are consumed on the way.\<close>

fun token_from :: "lexeme_end \<Rightarrow> lexeme list \<Rightarrow> token_state \<Rightarrow> token_state list
    \<Rightarrow> json_error + json_token \<times> decoder" where
  "token_from e [] st stk = Inl (peek_error e)"
| "token_from e (x # xs) st stk =
     (let at = (\<lambda>tok st' stk'. Inr (tok, \<lparr>dec_input = xs, dec_end = e, dec_state = st', dec_stack = stk'\<rparr>));
          unexpected = Inl (JsonUnexpected x) in
      case x of
        OpenArray \<Rightarrow> if value_allowed st then at (DelimToken (CHR ''['')) ArrayStart (st # stk) else unexpected
      | CloseArray \<Rightarrow> if st = ArrayStart \<or> st = ArrayComma
          then at (DelimToken (CHR '']'')) (value_end (hd stk)) (tl stk) else unexpected
      | OpenObject \<Rightarrow> if value_allowed st then at (DelimToken (CHR ''{'')) ObjectStart (st # stk) else unexpected
      | CloseObject \<Rightarrow> if st = ObjectStart \<or> st = ObjectComma
          then at (DelimToken (CHR ''}'')) (value_end (hd stk)) (tl stk) else unexpected
      | Colon \<Rightarrow> if st = ObjectColon then token_from e xs ObjectValue stk else unexpected
      | Comma \<Rightarrow> if st = ArrayComma then token_from e xs ArrayValue stk
          else if st = ObjectComma then token_from e xs ObjectKey stk else unexpected
      | StringLexeme s \<Rightarrow> if st = ObjectStart \<or> st = ObjectKey then at (StringToken s) ObjectColon stk
          else if value_allowed st then at (StringToken s) (value_end st) stk else unexpected
      | ScalarLexeme s \<Rightarrow> if value_allowed st then at (ScalarToken s) (value_end st) stk else unexpected)"

definition token :: "decoder \<Rightarrow> json_error + json_token \<times> decoder" where
  "token d = token_from (dec_end d) (dec_input d) (dec_state d) (dec_stack d)"

lemma token_from_shrinks:
  "token_from e xs st stk = Inr (t, d) \<Longrightarrow> length (dec_input d) < length xs"
  by (induction xs arbitrary: st) (auto simp: Let_def less_SucI split: lexeme.splits if_splits)

lemma token_shrinks: "token d = Inr (t, d') \<Longrightarrow> length (dec_input d') < length (dec_input d)"
  by (auto simp: token_def dest: token_from_shrinks)

text \<open>\<open>Decode(&v)\<close> into an \<open>any\<close>: the whole next value, down to the nesting it started at.\<close>

function decode_rest :: "nat \<Rightarrow> decoder \<Rightarrow> json_error + decoder" where
  "decode_rest depth d =
     (if length (dec_stack d) \<le> depth then Inr d
      else (case token d of Inl JsonEOF \<Rightarrow> Inl JsonUnexpectedEOF | Inl e \<Rightarrow> Inl e
        | Inr (t, d') \<Rightarrow> decode_rest depth d'))"
  by pat_completeness auto
termination
  by (relation "measure (\<lambda>(n, d). length (dec_input d))") (auto dest: token_shrinks)

declare decode_rest.simps [simp del]

definition decode_any :: "decoder \<Rightarrow> json_error + decoder" where
  "decode_any d = (case token d of Inl e \<Rightarrow> Inl e
     | Inr (t, d') \<Rightarrow> decode_rest (length (dec_stack d)) d')"

lemma decode_rest_not_EOF: "decode_rest depth d \<noteq> Inl JsonEOF"
proof (induction depth d rule: decode_rest.induct)
  case (1 depth d)
  show ?case
    by (subst decode_rest.simps) (auto simp: 1 split: sum.split json_error.split)
qed

text \<open>At the top level the decoder is at its end exactly when nothing is left.\<close>

lemma token_at_end:
  assumes "dec_state d = TopValue"
  shows "token d = Inl JsonEOF \<longleftrightarrow> dec_input d = [] \<and> dec_end d = EndOfInput"
  using assms by (cases "dec_input d")
    (auto simp: token_def Let_def peek_error_def split: lexeme.split lexeme_end.split)

lemma decode_any_at_end:
  assumes "dec_state d = TopValue"
  shows "decode_any d = Inl JsonEOF \<longleftrightarrow> dec_input d = [] \<and> dec_end d = EndOfInput"
  using token_at_end[OF assms]
  by (auto simp: decode_any_def decode_rest_not_EOF split: sum.split)

subsection \<open>Documents\<close>

text \<open>A JSON value as its grammar has it, with the lexemes that write it.\<close>

datatype json = JScalar gostring | JString gostring | JArray "json list"
  | JObject "(gostring \<times> json) list"

fun separated :: "lexeme list list \<Rightarrow> lexeme list" where
  "separated [] = []"
| "separated [x] = x"
| "separated (x # y # ys) = x @ Comma # separated (y # ys)"

fun render :: "json \<Rightarrow> lexeme list" where
  "render (JScalar s) = [ScalarLexeme s]"
| "render (JString s) = [StringLexeme s]"
| "render (JArray vs) = OpenArray # separated (map render vs) @ [CloseArray]"
| "render (JObject ms) = OpenObject
     # separated (map (\<lambda>(k, v). StringLexeme k # Colon # render v) ms) @ [CloseObject]"

text \<open>No object of the value has a key twice.\<close>

fun unique_keys :: "json \<Rightarrow> bool" where
  "unique_keys (JScalar s) = True"
| "unique_keys (JString s) = True"
| "unique_keys (JArray vs) = (\<forall>v \<in> set vs. unique_keys v)"
| "unique_keys (JObject ms) = (distinct (map fst ms) \<and> (\<forall>(k, v) \<in> set ms. unique_keys v))"

lemma render_ne: "render v \<noteq> []"
  by (cases v) auto

lemma render_hd: "render v = x # xs \<Longrightarrow> x \<noteq> CloseArray \<and> x \<noteq> CloseObject \<and> x \<noteq> Comma \<and> x \<noteq> Colon"
  by (cases v) auto

text \<open>What remains of a list of items after the first: a comma before each.\<close>

definition more_items :: "lexeme list list \<Rightarrow> lexeme list" where
  "more_items xs = concat (map (\<lambda>x. Comma # x) xs)"

lemma more_items_simps [simp]: "more_items [] = []" "more_items (x # xs) = Comma # x @ more_items xs"
  by (simp_all add: more_items_def)

lemma separated_Cons: "separated (x # xs) = x @ more_items xs"
  by (induction xs arbitrary: x) auto

end
