(* ===== verification/Json_Duplicates.thy ===== *)
theory Json_Duplicates imports Json_Tokens
begin

text \<open>
  The two checkers of duplicate object keys: \<open>rejectDuplicateJSONKeys\<close> and \<open>consumeJSONValue\<close> of the
  trust-store agent (\<open>truststore-drift-agent/main.go\<close>), and \<open>rejectDuplicateJSONKeys\<close> and
  \<open>scanJSONValue\<close> of \<open>internal/attestation/attestation.go\<close>, which also names the path of the duplicate.
\<close>

subsection \<open>The trust-store agent's checker\<close>

definition duplicate_key_message :: "gostring \<Rightarrow> gostring" where
  "duplicate_key_message key = ''duplicate JSON object key '' @ quote_text key"

function (sequential) consume_json_value :: "decoder \<Rightarrow> json_error + decoder"
  and consume_object :: "gostring set \<Rightarrow> decoder \<Rightarrow> json_error + decoder"
  and consume_array :: "decoder \<Rightarrow> json_error + decoder" where
  "consume_json_value d = (case token d of Inl e \<Rightarrow> Inl e | Inr (t, d1) \<Rightarrow>
     (case t of
        DelimToken c \<Rightarrow> if c = CHR ''{'' then consume_object {} d1
          else if c = CHR ''['' then consume_array d1
          else Inl (JsonMessage (''unexpected JSON delimiter '' @ quote_text [c]))
      | _ \<Rightarrow> Inr d1))"
| "consume_object seen d =
     (if more d
      then (case token d of Inl e \<Rightarrow> Inl e | Inr (t, d1) \<Rightarrow>
        (case t of
           StringToken key \<Rightarrow>
             if key \<in> seen then Inl (JsonMessage (duplicate_key_message key))
             else (case consume_json_value d1 of Inl e \<Rightarrow> Inl e
               | Inr d2 \<Rightarrow> consume_object (insert key seen) d2)
         | _ \<Rightarrow> Inl (JsonMessage ''JSON object key is not a string'')))
      else (case token d of Inl e \<Rightarrow> Inl e | Inr (t, d1) \<Rightarrow> Inr d1))"
| "consume_array d =
     (if more d then (case consume_json_value d of Inl e \<Rightarrow> Inl e | Inr d1 \<Rightarrow> consume_array d1)
      else (case token d of Inl e \<Rightarrow> Inl e | Inr (t, d1) \<Rightarrow> Inr d1))"
  by pat_completeness auto

text \<open>Every call consumes input: on its domain, the checker returns a shorter rest, and so its domain is
  everything.\<close>

abbreviation shorter :: "decoder \<Rightarrow> decoder \<Rightarrow> bool" where
  "shorter d' d \<equiv> length (dec_input d') < length (dec_input d)"

lemma consume_shrinks:
  "consume_json_value_consume_object_consume_array_dom (Inl d) \<Longrightarrow>
     consume_json_value d = Inr d' \<Longrightarrow> shorter d' d"
  "consume_json_value_consume_object_consume_array_dom (Inr (Inl (seen, d))) \<Longrightarrow>
     consume_object seen d = Inr d' \<Longrightarrow> shorter d' d"
  "consume_json_value_consume_object_consume_array_dom (Inr (Inr d)) \<Longrightarrow>
     consume_array d = Inr d' \<Longrightarrow> shorter d' d"
proof (induction d and seen d and d arbitrary: d' and d' and d'
    rule: consume_json_value_consume_object_consume_array.pinduct)
  case (1 d)
  then show ?case
    by (fastforce simp: consume_json_value.psimps dest: token_shrinks
      split: sum.splits prod.splits json_token.splits if_splits)
next
  case (2 seen d)
  then show ?case
    by (fastforce simp: consume_object.psimps dest: token_shrinks
      split: sum.splits prod.splits json_token.splits if_splits)
next
  case (3 d)
  then show ?case
    by (fastforce simp: consume_array.psimps dest: token_shrinks
      split: sum.splits prod.splits json_token.splits if_splits)
qed

termination consume_json_value
proof (relation "measure (\<lambda>x. case x of Inl d \<Rightarrow> 2 * length (dec_input d)
    | Inr (Inl (_, d)) \<Rightarrow> 2 * length (dec_input d) + 1 | Inr (Inr d) \<Rightarrow> 2 * length (dec_input d) + 1)")
qed (auto dest!: token_shrinks consume_shrinks(1))

declare consume_json_value.simps [simp del] consume_object.simps [simp del] consume_array.simps [simp del]

definition reject_duplicate_json_keys :: "lexeme list \<Rightarrow> lexeme_end \<Rightarrow> json_error + unit" where
  "reject_duplicate_json_keys input e =
     (case consume_json_value (new_decoder input e) of Inl err \<Rightarrow> Inl err
      | Inr d \<Rightarrow> (case decode_any d of Inl JsonEOF \<Rightarrow> Inr ()
          | Inl err \<Rightarrow> Inl err
          | Inr d' \<Rightarrow> Inl (JsonMessage ''multiple JSON documents are not allowed'')))"

subsection \<open>The attestation's checker\<close>

text \<open>\<open>fmt.Sprintf("%s[%d]", path, index)\<close> and the path of a member.\<close>

definition element_path :: "gostring \<Rightarrow> nat \<Rightarrow> gostring" where
  "element_path path index = path @ ''['' @ nat_text index @ '']''"

function (sequential) scan_json_value :: "gostring \<Rightarrow> decoder \<Rightarrow> json_error + decoder"
  and scan_object :: "gostring \<Rightarrow> gostring set \<Rightarrow> decoder \<Rightarrow> json_error + decoder"
  and scan_array :: "gostring \<Rightarrow> nat \<Rightarrow> decoder \<Rightarrow> json_error + decoder" where
  "scan_json_value path d = (case token d of Inl e \<Rightarrow> Inl e | Inr (t, d1) \<Rightarrow>
     (case t of
        DelimToken c \<Rightarrow> if c = CHR ''{'' then scan_object path {} d1
          else if c = CHR ''['' then scan_array path 0 d1
          else Inl (JsonMessage (path @ '': unexpected JSON delimiter '' @ quote_text [c]))
      | _ \<Rightarrow> Inr d1))"
| "scan_object path seen d =
     (if more d
      then (case token d of Inl e \<Rightarrow> Inl e | Inr (t, d1) \<Rightarrow>
        (case t of
           StringToken key \<Rightarrow>
             if key \<in> seen then Inl (JsonMessage (path @ '': duplicate JSON field '' @ quote_text key))
             else (case scan_json_value (path @ ''.'' @ key) d1 of Inl e \<Rightarrow> Inl e
               | Inr d2 \<Rightarrow> scan_object path (insert key seen) d2)
         | _ \<Rightarrow> Inl (JsonMessage (path @ '': object key is not a string''))))
      else (case token d of Inl e \<Rightarrow> Inl e | Inr (t, d1) \<Rightarrow> Inr d1))"
| "scan_array path index d =
     (if more d then (case scan_json_value (element_path path index) d of Inl e \<Rightarrow> Inl e
        | Inr d1 \<Rightarrow> scan_array path (Suc index) d1)
      else (case token d of Inl e \<Rightarrow> Inl e | Inr (t, d1) \<Rightarrow> Inr d1))"
  by pat_completeness auto

lemma scan_shrinks:
  "scan_json_value_scan_object_scan_array_dom (Inl (path, d)) \<Longrightarrow>
     scan_json_value path d = Inr d' \<Longrightarrow> shorter d' d"
  "scan_json_value_scan_object_scan_array_dom (Inr (Inl (path', seen, d))) \<Longrightarrow>
     scan_object path' seen d = Inr d' \<Longrightarrow> shorter d' d"
  "scan_json_value_scan_object_scan_array_dom (Inr (Inr (path'', index, d))) \<Longrightarrow>
     scan_array path'' index d = Inr d' \<Longrightarrow> shorter d' d"
proof (induction path d and path' seen d and path'' index d arbitrary: d' and d' and d'
    rule: scan_json_value_scan_object_scan_array.pinduct)
  case (1 d)
  then show ?case
    by (fastforce simp: scan_json_value.psimps dest: token_shrinks
      split: sum.splits prod.splits json_token.splits if_splits)
next
  case (2 seen d)
  then show ?case
    by (fastforce simp: scan_object.psimps dest: token_shrinks
      split: sum.splits prod.splits json_token.splits if_splits)
next
  case (3 d)
  then show ?case
    by (fastforce simp: scan_array.psimps dest: token_shrinks
      split: sum.splits prod.splits json_token.splits if_splits)
qed

termination scan_json_value
proof (relation "measure (\<lambda>x. case x of Inl (_, d) \<Rightarrow> 2 * length (dec_input d)
    | Inr (Inl (_, _, d)) \<Rightarrow> 2 * length (dec_input d) + 1
    | Inr (Inr (_, _, d)) \<Rightarrow> 2 * length (dec_input d) + 1)")
qed (auto dest!: token_shrinks scan_shrinks(1))

declare scan_json_value.simps [simp del] scan_object.simps [simp del] scan_array.simps [simp del]

definition reject_duplicate_json_fields :: "lexeme list \<Rightarrow> lexeme_end \<Rightarrow> json_error + unit" where
  "reject_duplicate_json_fields input e =
     (case scan_json_value ''$'' (new_decoder input e) of Inl err \<Rightarrow> Inl err
      | Inr d \<Rightarrow> (case token d of Inl JsonEOF \<Rightarrow> Inr ()
          | Inl err \<Rightarrow> Inl err
          | Inr (t, d') \<Rightarrow> Inl (JsonMessage ''unexpected trailing JSON value'')))"

text \<open>The two checkers accept the same inputs, and go on at the same place.\<close>

definition same_verdict :: "json_error + 'a \<Rightarrow> json_error + 'a \<Rightarrow> bool" where
  "same_verdict a b \<longleftrightarrow> (\<forall>x. a = Inr x \<longleftrightarrow> b = Inr x)"

lemma same_verdict_Inr: "same_verdict (Inr x) b \<longleftrightarrow> b = Inr x"
  by (cases b) (auto simp: same_verdict_def)

lemma same_verdict_Inl: "same_verdict (Inl e) b \<longleftrightarrow> (\<exists>e'. b = Inl e')"
  by (cases b) (auto simp: same_verdict_def)

lemma scan_as_consume:
  "same_verdict (consume_json_value d) (scan_json_value path d)"
  "same_verdict (consume_object seen d) (scan_object path seen d)"
  "same_verdict (consume_array d) (scan_array path index d)"
proof (induction d and seen d and d arbitrary: path and path and path index
    rule: consume_json_value_consume_object_consume_array.induct)
  case (1 d)
  then show ?case
    by (subst consume_json_value.simps, subst scan_json_value.simps)
      (fastforce simp: same_verdict_def split: sum.split prod.split json_token.split)
next
  case (2 seen d)
  show ?case
  proof (cases "token d")
    case (Inr td)
    obtain t d1 where td: "td = (t, d1)" by (cases td)
    show ?thesis
    proof (cases "more d \<and> (\<exists>key. t = StringToken key \<and> key \<notin> seen)")
      case True
      then obtain key where key: "t = StringToken key" "key \<notin> seen" "more d" by blast
      have first: "same_verdict (consume_json_value d1) (scan_json_value (path @ ''.'' @ key) d1)"
        using 2(1) Inr td key by simp
      show ?thesis
      proof (cases "consume_json_value d1")
        case (Inl e)
        then show ?thesis using first key Inr td
          by (subst consume_object.simps, subst scan_object.simps)
            (auto simp: same_verdict_def split: sum.split)
      next
        case (Inr d2)
        then have "scan_json_value (path @ ''.'' @ key) d1 = Inr d2" using first
          by (simp add: same_verdict_Inr)
        moreover have "same_verdict (consume_object (insert key seen) d2) (scan_object path (insert key seen) d2)"
          using 2(2) Inr \<open>token d = Inr td\<close> td key by simp
        ultimately show ?thesis using Inr \<open>token d = Inr td\<close> td key
          by (subst consume_object.simps, subst scan_object.simps) simp
      qed
    next
      case False
      then show ?thesis using Inr td
        by (subst consume_object.simps, subst scan_object.simps)
          (auto simp: same_verdict_def split: json_token.split)
    qed
  qed (subst consume_object.simps, subst scan_object.simps, simp add: same_verdict_def)
next
  case (3 d)
  show ?case
  proof (cases "more d")
    case True
    have first: "same_verdict (consume_json_value d) (scan_json_value (element_path path index) d)"
      using 3(1) True by simp
    show ?thesis
    proof (cases "consume_json_value d")
      case (Inl e)
      then show ?thesis using first True
        by (subst consume_array.simps, subst scan_array.simps)
          (auto simp: same_verdict_def split: sum.split)
    next
      case (Inr d1)
      then have "scan_json_value (element_path path index) d = Inr d1" using first
        by (simp add: same_verdict_Inr)
      moreover have "same_verdict (consume_array d1) (scan_array path (Suc index) d1)"
        using 3(2) True Inr by simp
      ultimately show ?thesis using True Inr
        by (subst consume_array.simps, subst scan_array.simps) simp
    qed
  qed (subst consume_array.simps, subst scan_array.simps,
    auto simp: same_verdict_def split: sum.split prod.split)
qed

end
