(* ===== verification/Go_Keys.thy ===== *)
theory Go_Keys imports Prelude
begin

text \<open>
  Key files: \<open>encoding/pem\<close> and the key parsers of \<open>crypto/x509\<close> as parameters, and the dynamic type of a
  parsed key, of which the program accepts Ed25519 only.
\<close>

datatype parsed_key = Ed25519Key bytes | OtherKey

text \<open>The first PEM block of a file, and a block as a PKIX public key or a PKCS#8 private key.\<close>

record key_env =
  ke_pem_block :: "bytes \<Rightarrow> bytes option"
  ke_parse_pkix :: "bytes \<Rightarrow> gostring + parsed_key"
  ke_parse_pkcs8 :: "bytes \<Rightarrow> gostring + parsed_key"

text \<open>The common shape of the key readers: no block, a parser's error, another kind of key.\<close>

definition read_ed25519 ::
  "(bytes \<Rightarrow> bytes option) \<Rightarrow> (bytes \<Rightarrow> gostring + parsed_key) \<Rightarrow> gostring \<Rightarrow> (gostring \<Rightarrow> gostring)
   \<Rightarrow> gostring \<Rightarrow> bytes \<Rightarrow> gostring + bytes" where
  "read_ed25519 pem parse no_pem wrap wrong_kind contents =
     (case pem contents of None \<Rightarrow> Inl no_pem
      | Some block \<Rightarrow>
        (case parse block of Inl e \<Rightarrow> Inl (wrap e)
         | Inr (Ed25519Key key) \<Rightarrow> Inr key
         | Inr OtherKey \<Rightarrow> Inl wrong_kind))"

lemma read_ed25519_ok:
  "read_ed25519 pem parse a f b contents = Inr key \<longleftrightarrow>
     (\<exists>block. pem contents = Some block \<and> parse block = Inr (Ed25519Key key))"
  by (auto simp: read_ed25519_def split: option.splits sum.splits parsed_key.splits)

end
