(* ===== verification/Drift_Agent.thy ===== *)
theory Drift_Agent imports Drift Baseline_State Json_Duplicates Go_Keys
begin

text \<open>
  The commands of the drift agent (\<open>truststore-drift-agent/main.go\<close>): reading and verifying a baseline, one
  scan, \<open>check\<close>, \<open>baseline\<close>, and the handlers of \<open>serve\<close>.  The files named on the command line are a
  parameter; the state directory is the rooted file system of the rollback state.
\<close>

text \<open>\<open>da_lex\<close> gives the lexemes of a document to the token decoder, \<open>da_decode\<close> is the strict decoder's
  first value and \<open>da_trailing\<close> what follows it.\<close>

record drift_env =
  da_hashing :: hashing
  da_state :: state_env
  da_host :: trust_host
  da_keys :: key_env
  da_lex :: "bytes \<Rightarrow> lexeme list \<times> lexeme_end"
  da_decode :: "bytes \<Rightarrow> gostring + trust_baseline"
  da_trailing :: "bytes \<Rightarrow> stream_end"
  da_error_text :: "json_error \<Rightarrow> gostring"
  da_read_file :: "gostring \<Rightarrow> gostring + bytes"
  da_rfc3339 :: "gotime \<Rightarrow> gostring"
  da_scan_uint64 :: "gostring \<Rightarrow> 64 word option"
  da_parse_duration :: "gostring \<Rightarrow> duration option"

definition parse_strict_baseline :: "drift_env \<Rightarrow> bytes \<Rightarrow> gostring + trust_baseline" where
  "parse_strict_baseline env data =
     (case reject_duplicate_json_keys (fst (da_lex env data)) (snd (da_lex env data)) of
        Inl e \<Rightarrow> Inl (da_error_text env e)
      | Inr _ \<Rightarrow>
        (case da_decode env data of Inl e \<Rightarrow> Inl e
         | Inr b \<Rightarrow>
           (case da_trailing env data of
              AnotherDocument \<Rightarrow> Inl ''multiple JSON documents are not allowed''
            | TrailingError e \<Rightarrow> Inl e
            | AtEOF \<Rightarrow> (case validate_baseline b of Inl e \<Rightarrow> Inl e | Inr _ \<Rightarrow> Inr b))))"

definition load_public_key :: "drift_env \<Rightarrow> gostring \<Rightarrow> gostring + bytes" where
  "load_public_key env path =
     ok_bind (da_read_file env path)
       (read_ed25519 (ke_pem_block (da_keys env)) (ke_parse_pkix (da_keys env))
          ''decoding public key PEM'' (\<lambda>e. e) ''public key is not Ed25519'')"

text \<open>What \<open>loadVerifiedBaseline\<close> checks before it touches the state; \<open>now\<close> is its reading of the clock.\<close>

definition verified_baseline ::
  "drift_env \<Rightarrow> gostring \<Rightarrow> gostring \<Rightarrow> gotime \<Rightarrow> gostring + trust_baseline" where
  "verified_baseline env baseline_path public_key_path now =
     (case da_read_file env baseline_path of Inl e \<Rightarrow> Inl (''reading baseline: '' @ e)
      | Inr data \<Rightarrow>
     (case parse_strict_baseline env data of Inl e \<Rightarrow> Inl (''parsing baseline: '' @ e)
      | Inr b \<Rightarrow>
     (case load_public_key env public_key_path of Inl e \<Rightarrow> Inl (''loading public key: '' @ e)
      | Inr key \<Rightarrow>
     (case verify_baseline (se_crypto (da_state env)) b key of
        Inl e \<Rightarrow> Inl (''baseline signature verification failed: '' @ e)
      | Inr _ \<Rightarrow>
        if tb_sequence b = 0 \<or> is_zero (tb_expires_at b)
        then Inl ''baseline lacks required sequence or expiry''
        else if tb_expires_at b < now
        then Inl (''baseline expired at '' @ da_rfc3339 env (tb_expires_at b))
        else Inr b))))"

definition load_verified_baseline ::
  "drift_env \<Rightarrow> gostring \<Rightarrow> gostring \<Rightarrow> gostring \<Rightarrow> gotime \<Rightarrow> trust_baseline fs_op" where
  "load_verified_baseline env baseline_path public_key_path state_path now =
     (case verified_baseline env baseline_path public_key_path now of Inl e \<Rightarrow> op_fail e
      | Inr b \<Rightarrow> op_bind (verify_and_advance_baseline_state (da_state env) b state_path)
          (\<lambda>_. op_return b))"

text \<open>One scan; \<open>None\<close> is a scan that does not return.\<close>

definition scan_trust_store ::
  "drift_env \<Rightarrow> gostring \<Rightarrow> gostring \<Rightarrow> gostring \<Rightarrow> gostring \<Rightarrow> gotime \<Rightarrow> gotime \<Rightarrow> fs
   \<Rightarrow> (scan_result option \<times> fs)" where
  "scan_trust_store env baseline_path public_key_path state_path extra_ca_dir now checked_at s =
     (case load_verified_baseline env baseline_path public_key_path state_path checked_at s of
        (Inl e, s') \<Rightarrow> (Some ((empty_scan now)\<lparr>sr_error := e, sr_events :=
            [\<lparr>de_timestamp = now, de_event = ''BASELINE_INVALID'', de_subject = [], de_spki_hash = []\<rparr>]\<rparr>), s')
      | (Inr b, s') \<Rightarrow>
        (map_option (\<lambda>loaded. case loaded of
             Inl e \<Rightarrow> (empty_scan now)\<lparr>sr_baseline_valid := True, sr_error := e\<rparr>
           | Inr certs \<Rightarrow> evaluate_trust_store (da_hashing env) b certs now)
          (load_trust_store (da_hashing env) (da_host env) extra_ca_dir), s'))"

subsection \<open>check\<close>

record check_args =
  ca_baseline :: gostring
  ca_public_key :: gostring
  ca_state :: gostring
  ca_extra_ca_dir :: gostring
  ca_log :: gostring

definition parse_check_args :: "gostring list \<Rightarrow> check_args" where
  "parse_check_args args =
     (let baseline = parse_flag args ''-b'' ''truststore-baseline.json'' in
      \<lparr>ca_baseline = baseline, ca_public_key = parse_flag args ''--public-key'' (baseline @ ''.pub''),
       ca_state = parse_flag args ''--state'' (baseline @ ''.state''),
       ca_extra_ca_dir = parse_flag args ''--extra-ca-dir'' ''/usr/local/share/ca-certificates'',
       ca_log = parse_flag args ''--log'' ''/var/log/pki-sentinel/truststore.json''\<rparr>)"

text \<open>The exit code; the log of the events is output only.\<close>

definition check_verdict :: "scan_result \<Rightarrow> int" where
  "check_verdict r = (if \<not> sr_baseline_valid r \<or> \<not> sr_scan_success r then 2 else check_exit_code r)"

definition cmd_check :: "drift_env \<Rightarrow> gostring list \<Rightarrow> gotime \<Rightarrow> gotime \<Rightarrow> fs \<Rightarrow> int option \<times> fs" where
  "cmd_check env args now checked_at s =
     (let a = parse_check_args args in
      case scan_trust_store env (ca_baseline a) (ca_public_key a) (ca_state a) (ca_extra_ca_dir a)
          now checked_at s of
        (r, s') \<Rightarrow> (map_option check_verdict r, s'))"

subsection \<open>baseline\<close>

text \<open>How the command ends: with an exit code and a message, or with the signed baseline written, its
  digest and the path.\<close>

datatype baseline_outcome = BaselineExit int gostring | BaselineWritten gostring trust_baseline gostring

text \<open>The sequence and predecessor that \<open>--next-from\<close> derives from an accepted baseline.\<close>

definition next_from :: "drift_env \<Rightarrow> gostring \<Rightarrow> gostring \<Rightarrow> gostring + (64 word \<times> gostring)" where
  "next_from env next_from_path public_key_path =
     (case da_read_file env next_from_path of
        Inl e \<Rightarrow> Inl (''baseline: reading --next-from '' @ next_from_path @ '': '' @ e)
      | Inr data \<Rightarrow>
     (case parse_strict_baseline env data of
        Inl e \<Rightarrow> Inl (''baseline: parsing --next-from '' @ next_from_path @ '': '' @ e)
      | Inr previous \<Rightarrow>
        if \<not> (case load_public_key env public_key_path of Inl e \<Rightarrow> False
             | Inr key \<Rightarrow> is_ok (verify_baseline (se_crypto (da_state env)) previous key))
        then Inl (''baseline: --next-from '' @ next_from_path @ '' is not signed by '' @ public_key_path)
        else (case baseline_digest (se_crypto (da_state env)) previous of
            Inl e \<Rightarrow> Inl (''baseline: hashing --next-from: '' @ e)
          | Inr digest \<Rightarrow>
            if tb_sequence previous = - 1 then Inl ''baseline: --next-from sequence cannot be incremented''
            else Inr (tb_sequence previous + 1, digest))))"

text \<open>\<open>sort.Slice\<close> by key hash and subject; entries that agree on both keep their order here, which the
  code does not promise.\<close>

definition sort_roots :: "root_entry list \<Rightarrow> root_entry list" where
  "sort_roots = sort_key (\<lambda>r. (re_spki_hash r, re_subject r))"

definition unsigned_baseline ::
  "hashing \<Rightarrow> root_cert list \<Rightarrow> gotime \<Rightarrow> duration \<Rightarrow> 64 word \<Rightarrow> gostring \<Rightarrow> trust_baseline" where
  "unsigned_baseline h certs now expires_in sequence previous_digest =
     \<lparr>tb_generated_at = now, tb_sequence = sequence, tb_expires_at = time_add now expires_in,
      tb_previous_digest = previous_digest, tb_roots = sort_roots (map (root_entry_of h) certs),
      tb_signature = []\<rparr>"

text \<open>\<open>signing_key\<close> is the outcome of \<open>loadOrCreateSigningKey\<close>, \<open>written\<close> that of writing the file.\<close>

definition finish_baseline :: "drift_env \<Rightarrow> gostring + bytes \<Rightarrow> (trust_baseline \<Rightarrow> gostring option)
    \<Rightarrow> gostring \<Rightarrow> trust_baseline \<Rightarrow> baseline_outcome" where
  "finish_baseline env signing_key written out_path b =
     (case validate_baseline b of Inl e \<Rightarrow> BaselineExit 2 (''baseline: '' @ e)
      | Inr _ \<Rightarrow>
     (case signing_key of Inl e \<Rightarrow> BaselineExit 1 (''baseline: signing key: '' @ e)
      | Inr key \<Rightarrow>
     (case sign_baseline (se_crypto (da_state env)) key b of
        Inl e \<Rightarrow> BaselineExit 1 (''baseline: signing: '' @ e)
      | Inr sb \<Rightarrow>
     (case written sb of Some e \<Rightarrow> BaselineExit 1 (''baseline: '' @ e)
      | None \<Rightarrow>
     (case baseline_digest (se_crypto (da_state env)) sb of
        Inl e \<Rightarrow> BaselineExit 1 (''baseline: hashing: '' @ e)
      | Inr digest \<Rightarrow> BaselineWritten out_path sb digest)))))"

text \<open>Everything before the key is needed: the command's end, or the path and the baseline to sign.\<close>

definition plan_baseline :: "drift_env \<Rightarrow> gostring list \<Rightarrow> gotime
    \<Rightarrow> (baseline_outcome + gostring \<times> trust_baseline) option" where
  "plan_baseline env args now =
     (let out_path = parse_flag args ''-o'' ''truststore-baseline.json'';
          public_key_path = parse_flag args ''--public-key'' (out_path @ ''.pub'');
          extra_ca_dir = parse_flag args ''--extra-ca-dir'' ''/usr/local/share/ca-certificates'';
          sequence_arg = parse_flag args ''--sequence'' ''1'';
          previous_arg = parse_flag args ''--previous-digest'' [];
          next_from_path = parse_flag args ''--next-from'' [];
          expires_arg = parse_flag args ''--expires-in'' ''8760h'' in
      case da_scan_uint64 env sequence_arg of
        None \<Rightarrow> Some (Inl (BaselineExit 2 (''baseline: invalid --sequence '' @ quote_text sequence_arg)))
      | Some n \<Rightarrow>
        if n = 0 then Some (Inl (BaselineExit 2 (''baseline: invalid --sequence '' @ quote_text sequence_arg)))
        else if 1 < n \<and> previous_arg = []
        then Some (Inl (BaselineExit 2 ''baseline: --previous-digest is required when --sequence is greater than 1''))
        else
     (case (if next_from_path \<noteq> [] then next_from env next_from_path public_key_path else Inr (n, previous_arg)) of
        Inl e \<Rightarrow> Some (Inl (BaselineExit 2 e))
      | Inr (sequence, previous_digest) \<Rightarrow>
     (case da_parse_duration env expires_arg of
        None \<Rightarrow> Some (Inl (BaselineExit 2 (''baseline: invalid --expires-in '' @ quote_text expires_arg)))
      | Some expires_in \<Rightarrow>
        if expires_in \<le> 0
        then Some (Inl (BaselineExit 2 (''baseline: invalid --expires-in '' @ quote_text expires_arg)))
        else map_option (\<lambda>loaded. case loaded of
            Inl e \<Rightarrow> Inl (BaselineExit 1 (''baseline: '' @ e))
          | Inr certs \<Rightarrow> Inr (out_path,
              unsigned_baseline (da_hashing env) certs now expires_in sequence previous_digest))
          (load_trust_store (da_hashing env) (da_host env) extra_ca_dir))))"

text \<open>The command, given the outcome of the signing key and of writing the file.\<close>

definition cmd_baseline :: "drift_env \<Rightarrow> gostring + bytes \<Rightarrow> (trust_baseline \<Rightarrow> gostring option)
    \<Rightarrow> gostring list \<Rightarrow> gotime \<Rightarrow> baseline_outcome option" where
  "cmd_baseline env signing_key written args now = map_option (\<lambda>plan. case plan of
       Inl outcome \<Rightarrow> outcome
     | Inr (out_path, b) \<Rightarrow> finish_baseline env signing_key written out_path b) (plan_baseline env args now)"

subsection \<open>serve\<close>

text \<open>The server publishes the result of the latest scan; the first one replaces the initial result before
  the server listens.\<close>

definition initial_scan :: "gotime \<Rightarrow> scan_result" where
  "initial_scan now = (empty_scan now)\<lparr>sr_error := ''initial scan has not completed''\<rparr>"

record agent_response =
  ar_status :: nat
  ar_content_type :: gostring
  ar_body :: bytes

definition json_response :: "nat \<Rightarrow> bytes \<Rightarrow> agent_response" where
  "json_response status body =
     \<lparr>ar_status = status, ar_content_type = ''application/json'', ar_body = body\<rparr>"

definition serve_request :: "(scan_result \<Rightarrow> bytes) \<Rightarrow> scan_result \<Rightarrow> gostring \<Rightarrow> agent_response option" where
  "serve_request encode current path =
     (if path = ''/metrics'' then Some \<lparr>ar_status = 200,
        ar_content_type = ''text/plain; version=0.0.4; charset=utf-8'', ar_body = prometheus_text current\<rparr>
      else if path = ''/events'' then Some (json_response 200 (encode current))
      else if path = ''/healthz'' then Some (json_response 200 ''{\"status\":\"ok\"}'')
      else if path = ''/readyz'' then
        Some (if sr_baseline_valid current \<and> sr_scan_success current
          then json_response 200 ''{\"status\":\"ready\"}''
          else json_response 503 ''{\"status\":\"not_ready\"}'')
      else None)"

end
