(* ===== verification/Drift_Laws.thy ===== *)
theory Drift_Laws imports Drift
begin

text \<open>
  What \<open>evaluateTrustStore\<close> counts.  The specification is per key: of the roots with one public key,
  exact matches pair off, further observed certificates pair off with legacy entries and then with
  replaced roots, and what is left on either side is what is reported.
\<close>

subsection \<open>The maps of the loops\<close>

lemma fold_known_by_cert_hash:
  "fold (\<lambda>r m. if re_cert_hash r \<noteq> [] then m(re_cert_hash r \<mapsto> r) else m) rs m x \<noteq> None \<longleftrightarrow>
     m x \<noteq> None \<or> (x \<noteq> [] \<and> x \<in> re_cert_hash ` set rs)"
  by (induction rs arbitrary: m) (auto split: if_splits)

lemma known_by_cert_hash_None:
  "known_by_cert_hash rs x = None \<longleftrightarrow> \<not> (x \<noteq> [] \<and> x \<in> re_cert_hash ` set rs)"
  using fold_known_by_cert_hash[of rs Map.empty x] by (auto simp: known_by_cert_hash_def simp del: not_None_eq)

lemma fold_known_origin:
  "fold (\<lambda>r m. if re_cert_hash r \<noteq> [] then m(re_cert_hash r \<mapsto> r) else m) rs m x = Some k \<Longrightarrow>
     m x = Some k \<or> (k \<in> set rs \<and> re_cert_hash k = x \<and> x \<noteq> [])"
proof (induction rs arbitrary: m)
  case (Cons r rs)
  from Cons.IH[OF Cons.prems[simplified]] show ?case by (auto split: if_splits)
qed simp

lemma known_by_cert_hash_Some:
  "known_by_cert_hash rs x = Some k \<Longrightarrow> k \<in> set rs \<and> re_cert_hash k = x \<and> x \<noteq> []"
  using fold_known_origin[of rs Map.empty x k] by (simp add: known_by_cert_hash_def)

lemma fold_known_by_spki:
  "fold (\<lambda>r m. m(re_spki_hash r := m (re_spki_hash r) @ [r])) rs m s
     = m s @ filter (\<lambda>r. re_spki_hash r = s) rs"
  by (induction rs arbitrary: m) auto

lemma known_by_spki: "known_by_spki rs s = filter (\<lambda>r. re_spki_hash r = s) rs"
  by (simp add: known_by_spki_def fold_known_by_spki)

lemma fold_known_by_subject:
  "fold (\<lambda>r m. m(re_subject r \<mapsto> r)) rs m x \<noteq> None \<longleftrightarrow> m x \<noteq> None \<or> x \<in> re_subject ` set rs"
  by (induction rs arbitrary: m) auto

lemma known_by_subject_None: "known_by_subject rs x = None \<longleftrightarrow> x \<notin> re_subject ` set rs"
  using fold_known_by_subject[of rs Map.empty x] by (auto simp: known_by_subject_def simp del: not_None_eq)

lemma observed_by_cert_hash_gen:
  "distinct (map (certificate_hash h) certs) \<Longrightarrow>
     fold (\<lambda>c m. m(certificate_hash h c \<mapsto> c)) certs m x
       = (case find (\<lambda>c. certificate_hash h c = x) certs of None \<Rightarrow> m x | Some c \<Rightarrow> Some c)"
proof (induction certs arbitrary: m)
  case (Cons c certs)
  show ?case
  proof (cases "certificate_hash h c = x")
    case True
    then have "find (\<lambda>c. certificate_hash h c = x) certs = None"
      using Cons.prems by (fastforce simp: find_None_iff image_iff)
    with True Cons show ?thesis by simp
  next
    case False
    with Cons show ?thesis by (simp split: option.split)
  qed
qed simp

lemma observed_by_cert_hash:
  "distinct (map (certificate_hash h) certs) \<Longrightarrow>
     observed_by_cert_hash h certs x = find (\<lambda>c. certificate_hash h c = x) certs"
  by (simp add: observed_by_cert_hash_def observed_by_cert_hash_gen split: option.split)

lemma observed_by_spki_gen:
  "fold (\<lambda>c m. m(spki_hash h c := insert (certificate_hash h c) (m (spki_hash h c)))) certs m s
     = m s \<union> certificate_hash h ` {c \<in> set certs. spki_hash h c = s}"
  by (induction certs arbitrary: m) auto

lemma observed_by_spki:
  "observed_by_spki h certs s = certificate_hash h ` {c \<in> set certs. spki_hash h c = s}"
  by (simp add: observed_by_spki_def observed_by_spki_gen)

definition is_legacy :: "root_entry \<Rightarrow> bool" where
  "is_legacy r \<longleftrightarrow> re_cert_hash r = []"

definition legacy_count :: "root_entry list \<Rightarrow> gostring \<Rightarrow> nat" where
  "legacy_count rs s = length (filter (\<lambda>r. is_legacy r \<and> re_spki_hash r = s) rs)"

lemma legacy_budget_gen:
  "fold (\<lambda>r m. if re_cert_hash r = [] then m(re_spki_hash r := m (re_spki_hash r) + 1) else m) rs m s
     = m s + legacy_count rs s"
  by (induction rs arbitrary: m) (auto simp: legacy_count_def is_legacy_def)

lemma legacy_budget: "legacy_budget rs s = legacy_count rs s"
  by (simp add: legacy_budget_def legacy_budget_gen)

subsection \<open>The counts of a key\<close>

definition listed :: "hashing \<Rightarrow> root_entry list \<Rightarrow> root_cert \<Rightarrow> bool" where
  "listed h rs c \<longleftrightarrow> certificate_hash h c \<noteq> [] \<and> certificate_hash h c \<in> re_cert_hash ` set rs"

text \<open>Observed certificates of a key that are not listed; listed roots of a key that are not observed.\<close>

definition unlisted_count :: "hashing \<Rightarrow> root_entry list \<Rightarrow> root_cert list \<Rightarrow> gostring \<Rightarrow> nat" where
  "unlisted_count h rs certs s =
     length (filter (\<lambda>c. \<not> listed h rs c \<and> spki_hash h c = s) certs)"

definition unobserved :: "hashing \<Rightarrow> root_cert list \<Rightarrow> root_entry \<Rightarrow> bool" where
  "unobserved h certs r \<longleftrightarrow> \<not> is_legacy r \<and> re_cert_hash r \<notin> certificate_hash h ` set certs"

definition unobserved_count :: "hashing \<Rightarrow> root_entry list \<Rightarrow> root_cert list \<Rightarrow> gostring \<Rightarrow> nat" where
  "unobserved_count h rs certs s = length (filter (\<lambda>r. unobserved h certs r \<and> re_spki_hash r = s) rs)"

lemma listed_known: "known_by_cert_hash rs (certificate_hash h c) = None \<longleftrightarrow> \<not> listed h rs c"
  by (simp add: known_by_cert_hash_None listed_def)

lemma card_hashes:
  "distinct (map (certificate_hash h) certs) \<Longrightarrow>
     card (certificate_hash h ` {c \<in> set certs. P c}) = length (filter P certs)"
proof -
  assume d: "distinct (map (certificate_hash h) certs)"
  then have "inj_on (certificate_hash h) {c \<in> set certs. P c}"
    by (auto simp: distinct_map intro: inj_on_subset)
  then have "card (certificate_hash h ` {c \<in> set certs. P c}) = card {c \<in> set certs. P c}"
    by (rule card_image)
  also have "\<dots> = length (filter P certs)"
    using d by (metis distinct_card distinct_filter distinct_map set_filter)
  finally show ?thesis .
qed

lemma substitution_budget_unlisted:
  assumes "distinct (map (certificate_hash h) certs)"
  shows "substitution_budget h rs certs s = unlisted_count h rs certs s"
proof -
  let ?H = "certificate_hash h ` {c \<in> set certs. spki_hash h c = s}"
  let ?K = "{x \<in> ?H. known_by_cert_hash rs x \<noteq> None}"
  have "?H - ?K = certificate_hash h ` {c \<in> set certs. \<not> listed h rs c \<and> spki_hash h c = s}"
    by (auto simp: known_by_cert_hash_None listed_def simp del: not_None_eq)
  moreover have "card (?H - ?K) = card ?H - card ?K"
    by (rule card_Diff_subset) auto
  ultimately show ?thesis
    using card_hashes[OF assms, of "\<lambda>c. \<not> listed h rs c \<and> spki_hash h c = s"]
    by (simp add: substitution_budget_def Let_def observed_by_spki unlisted_count_def Set.filter_eq)
qed

subsection \<open>Legacy entries are assigned once each\<close>

text \<open>\<open>hs\<close> are the hashes still to come; \<open>unlisted_at\<close> says which of them compete for the entries of a key.\<close>

definition unlisted_at :: "hashing \<Rightarrow> (gostring \<rightharpoonup> root_entry) \<Rightarrow> (gostring \<rightharpoonup> root_cert) \<Rightarrow> gostring
    \<Rightarrow> gostring \<Rightarrow> bool" where
  "unlisted_at h known observed s x \<longleftrightarrow>
     known x = None \<and> (\<exists>c. observed x = Some c \<and> spki_hash h c = s)"

lemma assign_legacy_fold:
  assumes "distinct hs" and "finite legacy" and "legacy \<inter> set hs = {}"
  shows "let final = snd (fold (assign_legacy h known observed) hs (budget, legacy)) in
    finite final \<and> final \<subseteq> legacy \<union> set hs
    \<and> card {x \<in> final. unlisted_at h known observed s x}
      = card {x \<in> legacy. unlisted_at h known observed s x}
        + min (budget s) (length (filter (unlisted_at h known observed s) hs))"
  using assms
proof (induction hs arbitrary: budget legacy)
  case (Cons x xs)
  let ?p = "unlisted_at h known observed s"
  obtain budget' legacy' where step: "assign_legacy h known observed x (budget, legacy) = (budget', legacy')"
    by fastforce
  have facts: "finite legacy'" "legacy' \<inter> set xs = {}" "legacy' \<subseteq> insert x legacy"
    using step Cons.prems by (auto simp: assign_legacy_def split: if_splits option.splits)
  have one: "card {y \<in> legacy'. ?p y} + min (budget' s) (length (filter ?p xs))
      = card {y \<in> legacy. ?p y} + min (budget s) (length (filter ?p (x # xs)))"
  proof (cases "?p x")
    case False
    then have "{y \<in> legacy'. ?p y} = {y \<in> legacy. ?p y}" "budget' s = budget s"
      using step by (auto simp: assign_legacy_def unlisted_at_def split: if_splits option.splits)
    with False show ?thesis by simp
  next
    case True
    show ?thesis
    proof (cases "budget s")
      case 0
      with True step have "budget' = budget" "legacy' = legacy"
        by (auto simp: assign_legacy_def unlisted_at_def split: if_splits option.splits)
      with 0 show ?thesis by simp
    next
      case (Suc n)
      with True step have "budget' s = n" "legacy' = insert x legacy"
        by (auto simp: assign_legacy_def unlisted_at_def split: if_splits option.splits)
      moreover have "{y \<in> insert x legacy. ?p y} = insert x {y \<in> legacy. ?p y}" using True by auto
      moreover have "x \<notin> {y \<in> legacy. ?p y}" using Cons.prems by auto
      ultimately show ?thesis using Suc True Cons.prems(2) by simp
    qed
  qed
  show ?case
    using Cons.IH[OF _ facts(1,2), of budget'] Cons.prems(1) facts(3) one step by (auto simp: Let_def)
qed simp

lemma set_observed_hashes: "set (observed_hashes h certs) = certificate_hash h ` set certs"
  by (simp add: observed_hashes_def)

lemma distinct_observed_hashes: "distinct (observed_hashes h certs)"
  by (simp add: observed_hashes_def)

lemma find_SomeD: "find P xs = Some x \<Longrightarrow> x \<in> set xs \<and> P x"
  by (auto simp: find_Some_iff)

lemma find_hash:
  assumes "distinct (map (certificate_hash h) certs)" and "c \<in> set certs"
  shows "find (\<lambda>d. certificate_hash h d = certificate_hash h c) certs = Some c"
  using find_by_key[OF assms, of "\<lambda>_. True"] by simp

lemma unlisted_at_observed:
  assumes "distinct (map (certificate_hash h) certs)"
  shows "unlisted_at h (known_by_cert_hash rs) (observed_by_cert_hash h certs) s x \<longleftrightarrow>
    x \<in> certificate_hash h ` {c \<in> set certs. \<not> listed h rs c \<and> spki_hash h c = s}"
proof -
  have "observed_by_cert_hash h certs x = Some c \<longleftrightarrow> c \<in> set certs \<and> certificate_hash h c = x" for c
    using find_hash[OF assms] find_SomeD[of "\<lambda>d. certificate_hash h d = x" certs c]
    by (auto simp: observed_by_cert_hash[OF assms])
  then show ?thesis by (auto simp: unlisted_at_def listed_known)
qed

text \<open>Of the unlisted certificates of a key, as many are legacy as there are entries, at most all.\<close>

lemma legacy_certificates_count:
  assumes "distinct (map (certificate_hash h) certs)"
  shows "length (filter (\<lambda>c. \<not> listed h rs c \<and> spki_hash h c = s
      \<and> certificate_hash h c \<in> legacy_certificates h rs certs) certs)
    = min (legacy_count rs s) (unlisted_count h rs certs s)"
proof -
  let ?legacy = "legacy_certificates h rs certs"
  let ?p = "unlisted_at h (known_by_cert_hash rs) (observed_by_cert_hash h certs) s"
  let ?U = "{c \<in> set certs. \<not> listed h rs c \<and> spki_hash h c = s}"
  have p: "?p x \<longleftrightarrow> x \<in> certificate_hash h ` ?U" for x by (rule unlisted_at_observed[OF assms])
  have "length (filter ?p (observed_hashes h certs)) = card (certificate_hash h ` ?U)"
    using p by (subst distinct_card[symmetric])
      (auto simp: distinct_observed_hashes set_observed_hashes intro!: arg_cong[where f = card])
  then have "length (filter ?p (observed_hashes h certs)) = unlisted_count h rs certs s"
    by (simp add: card_hashes[OF assms] unlisted_count_def)
  then have "card {x \<in> ?legacy. ?p x} = min (legacy_count rs s) (unlisted_count h rs certs s)"
    using assign_legacy_fold[OF distinct_observed_hashes, of "{}" h certs h "known_by_cert_hash rs"
        "observed_by_cert_hash h certs" "legacy_budget rs" s]
    by (simp add: legacy_certificates_def Let_def legacy_budget)
  moreover have "{x \<in> ?legacy. ?p x} = certificate_hash h ` {c \<in> set certs. \<not> listed h rs c
      \<and> spki_hash h c = s \<and> certificate_hash h c \<in> ?legacy}"
    by (auto simp: p)
  ultimately show ?thesis by (simp add: card_hashes[OF assms])
qed

subsection \<open>The loop over the observed certificates\<close>

lemma events_only [simp]:
  "sr_unknown_roots (add_event e s k r) = sr_unknown_roots r"
  "sr_missing_roots (add_event e s k r) = sr_missing_roots r"
  "sr_changed_roots (add_event e s k r) = sr_changed_roots r"
  "sr_expired_roots (add_event e s k r) = sr_expired_roots r"
  "sr_expiring_roots (add_event e s k r) = sr_expiring_roots r"
  "sr_last_scan (add_event e s k r) = sr_last_scan r"
  by (simp_all add: add_event_def)

definition known_key :: "hashing \<Rightarrow> root_entry list \<Rightarrow> root_cert \<Rightarrow> bool" where
  "known_key h rs c \<longleftrightarrow> spki_hash h c \<in> re_spki_hash ` set rs"

definition policy_changed :: "hashing \<Rightarrow> root_entry list \<Rightarrow> root_cert \<Rightarrow> bool" where
  "policy_changed h rs c \<longleftrightarrow> (\<exists>r. known_by_cert_hash rs (certificate_hash h c) = Some r
     \<and> policy_differs r (root_entry_of h c))"

definition unknown_root :: "hashing \<Rightarrow> root_entry list \<Rightarrow> root_cert \<Rightarrow> bool" where
  "unknown_root h rs c \<longleftrightarrow> \<not> listed h rs c \<and> \<not> known_key h rs c"

definition changed_root :: "hashing \<Rightarrow> root_entry list \<Rightarrow> gostring set \<Rightarrow> root_cert \<Rightarrow> bool" where
  "changed_root h rs legacy c \<longleftrightarrow> policy_changed h rs c
     \<or> (\<not> listed h rs c \<and> known_key h rs c \<and> certificate_hash h c \<notin> legacy)
     \<or> (unknown_root h rs c \<and> rc_subject c \<in> re_subject ` set rs)"

definition expired_root :: "gotime \<Rightarrow> root_cert \<Rightarrow> bool" where
  "expired_root now c \<longleftrightarrow> rc_not_after c < now"

definition expiring_root :: "gotime \<Rightarrow> root_cert \<Rightarrow> bool" where
  "expiring_root now c \<longleftrightarrow> \<not> expired_root now c \<and> rc_not_after c < time_add now (30 * 24 * hour)"

lemma known_by_spki_empty: "known_by_spki rs (spki_hash h c) = [] \<longleftrightarrow> \<not> known_key h rs c"
  by (fastforce simp: known_by_spki known_key_def filter_empty_conv image_iff)

lemma classify_counts:
  "sr_unknown_roots (classify_certificate h rs legacy c r)
     = sr_unknown_roots r + (if unknown_root h rs c then 1 else 0)"
  "sr_changed_roots (classify_certificate h rs legacy c r)
     = sr_changed_roots r + (if changed_root h rs legacy c then 1 else 0)"
  "sr_expired_roots (classify_certificate h rs legacy c r)
     = sr_expired_roots r + (if expired_root (sr_last_scan r) c then 1 else 0)"
  "sr_expiring_roots (classify_certificate h rs legacy c r)
     = sr_expiring_roots r + (if expiring_root (sr_last_scan r) c then 1 else 0)"
  "sr_missing_roots (classify_certificate h rs legacy c r) = sr_missing_roots r"
  "sr_last_scan (classify_certificate h rs legacy c r) = sr_last_scan r"
proof -
  have subject: "known_by_subject rs (rc_subject c) = None \<longleftrightarrow> rc_subject c \<notin> re_subject ` set rs"
    by (rule known_by_subject_None)
  note defs = classify_certificate_def classify_expiry_def classify_identity_def Let_def count_changed_def
    expired_root_def expiring_root_def unknown_root_def changed_root_def policy_changed_def
    known_by_spki_empty subject listed_known[symmetric]
  show
    "sr_unknown_roots (classify_certificate h rs legacy c r)
       = sr_unknown_roots r + (if unknown_root h rs c then 1 else 0)"
    "sr_changed_roots (classify_certificate h rs legacy c r)
       = sr_changed_roots r + (if changed_root h rs legacy c then 1 else 0)"
    by (simp_all add: defs split: option.split)
  show
    "sr_expired_roots (classify_certificate h rs legacy c r)
       = sr_expired_roots r + (if expired_root (sr_last_scan r) c then 1 else 0)"
    "sr_expiring_roots (classify_certificate h rs legacy c r)
       = sr_expiring_roots r + (if expiring_root (sr_last_scan r) c then 1 else 0)"
    "sr_missing_roots (classify_certificate h rs legacy c r) = sr_missing_roots r"
    "sr_last_scan (classify_certificate h rs legacy c r) = sr_last_scan r"
    by (simp_all add: defs split: option.split)
qed

lemma classify_fold:
  "sr_unknown_roots (fold (classify_certificate h rs legacy) certs r)
     = sr_unknown_roots r + length (filter (unknown_root h rs) certs)"
  "sr_changed_roots (fold (classify_certificate h rs legacy) certs r)
     = sr_changed_roots r + length (filter (changed_root h rs legacy) certs)"
  "sr_expired_roots (fold (classify_certificate h rs legacy) certs r)
     = sr_expired_roots r + length (filter (expired_root (sr_last_scan r)) certs)"
  "sr_expiring_roots (fold (classify_certificate h rs legacy) certs r)
     = sr_expiring_roots r + length (filter (expiring_root (sr_last_scan r)) certs)"
  "sr_missing_roots (fold (classify_certificate h rs legacy) certs r) = sr_missing_roots r"
  by (induction certs arbitrary: r) (simp_all add: classify_counts)

subsection \<open>The loops over the baseline\<close>

lemma match_legacy_fold:
  "fst (fold match_legacy rs (matches, budget)) s = matches s + min (legacy_count rs s) (budget s)
   \<and> snd (fold match_legacy rs (matches, budget)) s = budget s - legacy_count rs s"
proof (induction rs arbitrary: matches budget)
  case (Cons r rs)
  obtain matches' budget' where step: "match_legacy r (matches, budget) = (matches', budget')" by fastforce
  have "matches' s + min (legacy_count rs s) (budget' s) = matches s + min (legacy_count (r # rs) s) (budget s)"
    "budget' s - legacy_count rs s = budget s - legacy_count (r # rs) s"
    using step by (auto simp: match_legacy_def legacy_count_def is_legacy_def Let_def split: if_splits)
  then show ?case using Cons step by simp
qed (simp add: legacy_count_def)

text \<open>Changing one summand changes the sum by as much.\<close>

lemma sum_one_changed:
  fixes f g :: "'a \<Rightarrow> nat"
  assumes "finite S" and "x \<in> S" and "f x = g x + k" and "\<And>y. y \<noteq> x \<Longrightarrow> f y = g y"
  shows "sum f S = sum g S + k"
proof -
  have "sum f (S - {x}) = sum g (S - {x})" using assms(4) by (intro sum.cong) auto
  then show ?thesis using assms(1-3) by (simp add: sum.remove[of S x])
qed

definition missing_at :: "root_entry list \<Rightarrow> (root_entry \<Rightarrow> bool) \<Rightarrow> (gostring \<Rightarrow> nat) \<Rightarrow> (gostring \<Rightarrow> nat)
    \<Rightarrow> gostring \<Rightarrow> nat" where
  "missing_at rs gone matches budget s =
     (length (filter (\<lambda>r. gone r \<and> re_spki_hash r = s) rs) - budget s)
     + (legacy_count rs s - matches s)"

lemma check_missing_fold:
  assumes "finite S" and "re_spki_hash ` set rs \<subseteq> S"
    and gone: "\<And>r. gone r \<longleftrightarrow> \<not> is_legacy r \<and> observed (re_cert_hash r) = None"
  shows "let final = snd (fold (check_missing observed) rs ((matches, budget), res)) in
    sr_missing_roots final = sr_missing_roots res + (\<Sum>s \<in> S. missing_at rs gone matches budget s)
    \<and> sr_unknown_roots final = sr_unknown_roots res \<and> sr_changed_roots final = sr_changed_roots res
    \<and> sr_expired_roots final = sr_expired_roots res \<and> sr_expiring_roots final = sr_expiring_roots res"
  using assms(2)
proof (induction rs arbitrary: matches budget res)
  case Nil
  then show ?case by (simp add: missing_at_def legacy_count_def)
next
  case (Cons r rs)
  let ?s = "re_spki_hash r"
  obtain matches' budget' res' where
    step: "check_missing observed r ((matches, budget), res) = ((matches', budget'), res')"
    by (metis prod.exhaust)
  have s: "?s \<in> S" using Cons.prems by simp
  define k where "k = sr_missing_roots res' - sr_missing_roots res"
  have same: "missing_at (r # rs) gone matches budget y = missing_at rs gone matches' budget' y" if "y \<noteq> ?s" for y
    using step that by (auto simp: check_missing_def missing_at_def legacy_count_def Let_def split: if_splits)
  have here: "missing_at (r # rs) gone matches budget ?s = missing_at rs gone matches' budget' ?s + k"
    and res': "sr_missing_roots res' = sr_missing_roots res + k" "sr_unknown_roots res' = sr_unknown_roots res"
      "sr_changed_roots res' = sr_changed_roots res" "sr_expired_roots res' = sr_expired_roots res"
      "sr_expiring_roots res' = sr_expiring_roots res"
    using step
    by (auto simp: check_missing_def missing_at_def legacy_count_def is_legacy_def gone k_def Let_def
        split: if_splits)
  have "(\<Sum>s \<in> S. missing_at (r # rs) gone matches budget s) = (\<Sum>s \<in> S. missing_at rs gone matches' budget' s) + k"
    by (rule sum_one_changed[where x = ?s]) (use assms(1) s here same in auto)
  then show ?case using Cons.IH[of matches' budget' res'] Cons.prems step res' by (simp add: Let_def)
qed

subsection \<open>The counts\<close>

lemma filter_by_key:
  assumes "finite S" and "\<forall>x \<in> set xs. P x \<longrightarrow> f x \<in> S"
  shows "length (filter P xs) = (\<Sum>s \<in> S. length (filter (\<lambda>x. P x \<and> f x = s) xs))"
  using assms(2)
proof (induction xs)
  case (Cons x xs)
  then have ih: "length (filter P xs) = (\<Sum>s \<in> S. length (filter (\<lambda>x. P x \<and> f x = s) xs))" by simp
  show ?case
  proof (cases "P x")
    case True
    have "(\<Sum>s \<in> S. length (filter (\<lambda>x. P x \<and> f x = s) (x # xs)))
        = (\<Sum>s \<in> S. length (filter (\<lambda>x. P x \<and> f x = s) xs)) + 1"
      by (rule sum_one_changed[where x = "f x"]) (use assms(1) Cons.prems True in auto)
    with True ih show ?thesis by simp
  qed (simp add: ih)
qed simp

lemma length_filter_split:
  "length (filter P xs) = length (filter (\<lambda>x. P x \<and> Q x) xs) + length (filter (\<lambda>x. P x \<and> \<not> Q x) xs)"
  by (induction xs) auto

lemma replaced_at:
  assumes "distinct (map (certificate_hash h) certs)"
  shows "length (filter (\<lambda>c. (\<not> listed h rs c \<and> known_key h rs c
      \<and> certificate_hash h c \<notin> legacy_certificates h rs certs) \<and> spki_hash h c = s) certs)
    = (if s \<in> re_spki_hash ` set rs then unlisted_count h rs certs s - legacy_count rs s else 0)"
proof (cases "s \<in> re_spki_hash ` set rs")
  case True
  let ?U = "\<lambda>c. \<not> listed h rs c \<and> spki_hash h c = s"
  let ?L = "\<lambda>c. certificate_hash h c \<in> legacy_certificates h rs certs"
  have "filter (\<lambda>c. (\<not> listed h rs c \<and> known_key h rs c \<and> \<not> ?L c) \<and> spki_hash h c = s) certs
      = filter (\<lambda>c. ?U c \<and> \<not> ?L c) certs"
    using True by (intro filter_cong) (auto simp: known_key_def)
  moreover have "unlisted_count h rs certs s
      = min (legacy_count rs s) (unlisted_count h rs certs s) + length (filter (\<lambda>c. ?U c \<and> \<not> ?L c) certs)"
    using length_filter_split[of ?U certs ?L] legacy_certificates_count[OF assms, of rs s]
    by (simp add: unlisted_count_def conj_assoc)
  ultimately show ?thesis using True by simp
next
  case False
  then show ?thesis by (auto simp: known_key_def filter_empty_conv)
qed

lemma changed_count:
  assumes "distinct (map (certificate_hash h) certs)"
  shows "length (filter (changed_root h rs (legacy_certificates h rs certs)) certs)
    = length (filter (policy_changed h rs) certs)
      + (\<Sum>s \<in> re_spki_hash ` set rs. unlisted_count h rs certs s - legacy_count rs s)
      + length (filter (\<lambda>c. unknown_root h rs c \<and> rc_subject c \<in> re_subject ` set rs) certs)"
proof -
  let ?R = "\<lambda>c. \<not> listed h rs c \<and> known_key h rs c
    \<and> certificate_hash h c \<notin> legacy_certificates h rs certs"
  let ?N = "\<lambda>c. unknown_root h rs c \<and> rc_subject c \<in> re_subject ` set rs"
  have listed: "policy_changed h rs c \<Longrightarrow> listed h rs c" for c
    using listed_known[of rs h c] by (auto simp: policy_changed_def)
  have "length (filter (changed_root h rs (legacy_certificates h rs certs)) cs)
      = length (filter (policy_changed h rs) cs) + length (filter ?R cs) + length (filter ?N cs)" for cs
    by (induction cs) (use listed in \<open>auto simp: changed_root_def unknown_root_def\<close>)
  moreover have "length (filter ?R certs)
      = (\<Sum>s \<in> re_spki_hash ` set rs. length (filter (\<lambda>c. ?R c \<and> spki_hash h c = s) certs))"
    by (rule filter_by_key) (auto simp: known_key_def)
  then have "length (filter ?R certs)
      = (\<Sum>s \<in> re_spki_hash ` set rs. unlisted_count h rs certs s - legacy_count rs s)"
    by (simp only: replaced_at[OF assms] if_True cong: sum.cong)
  ultimately show ?thesis by simp
qed

lemma policy_changed_iff:
  assumes "valid_roots rs"
  shows "policy_changed h rs c \<longleftrightarrow> (\<exists>r \<in> set rs. re_cert_hash r = certificate_hash h c \<and> re_cert_hash r \<noteq> []
    \<and> policy_differs r (root_entry_of h c))"
proof
  assume "policy_changed h rs c"
  then show "\<exists>r \<in> set rs. re_cert_hash r = certificate_hash h c \<and> re_cert_hash r \<noteq> []
      \<and> policy_differs r (root_entry_of h c)"
    by (auto simp: policy_changed_def dest!: known_by_cert_hash_Some)
next
  assume "\<exists>r \<in> set rs. re_cert_hash r = certificate_hash h c \<and> re_cert_hash r \<noteq> []
      \<and> policy_differs r (root_entry_of h c)"
  then obtain r where r: "r \<in> set rs" "re_cert_hash r = certificate_hash h c" "re_cert_hash r \<noteq> []"
    "policy_differs r (root_entry_of h c)" by blast
  then obtain k where k: "known_by_cert_hash rs (certificate_hash h c) = Some k"
    using known_by_cert_hash_None[of rs "certificate_hash h c"] by (metis image_eqI not_None_eq)
  then have "k \<in> set rs" "re_cert_hash k = certificate_hash h c"
    by (simp_all add: known_by_cert_hash_Some)
  then have "k = r" using valid_roots_unique_cert[OF assms r(1), of k] r(2,3) by simp
  with k r(4) show "policy_changed h rs c" by (simp add: policy_changed_def)
qed

lemma evaluate_counts:
  assumes "distinct (map (certificate_hash h) certs)" and "rs = tb_roots b"
  shows "let out = evaluate_trust_store h b certs now in
    sr_unknown_roots out = length (filter (unknown_root h rs) certs)
    \<and> sr_missing_roots out
      = (\<Sum>s \<in> re_spki_hash ` set rs. unobserved_count h rs certs s + legacy_count rs s - unlisted_count h rs certs s)
    \<and> sr_changed_roots out = length (filter (policy_changed h rs) certs)
      + (\<Sum>s \<in> re_spki_hash ` set rs. unlisted_count h rs certs s - legacy_count rs s)
      + length (filter (\<lambda>c. unknown_root h rs c \<and> rc_subject c \<in> re_subject ` set rs) certs)
    \<and> sr_expired_roots out = length (filter (expired_root now) certs)
    \<and> sr_expiring_roots out = length (filter (expiring_root now) certs)"
proof -
  let ?S = "re_spki_hash ` set rs"
  let ?start = "(empty_scan now)\<lparr>sr_baseline_valid := True, sr_scan_success := True\<rparr>"
  let ?classified = "fold (classify_certificate h rs (legacy_certificates h rs certs)) certs ?start"
  obtain matches budget where matched:
    "fold match_legacy rs (\<lambda>_. 0, substitution_budget h rs certs) = (matches, budget)"
    by fastforce
  have state: "matches s = min (legacy_count rs s) (unlisted_count h rs certs s)"
    "budget s = unlisted_count h rs certs s - legacy_count rs s" for s
    using match_legacy_fold[of rs "\<lambda>_. 0" "substitution_budget h rs certs" s] matched
    by (simp_all add: substitution_budget_unlisted[OF assms(1)])
  have gone: "unobserved h certs r \<longleftrightarrow>
      \<not> is_legacy r \<and> observed_by_cert_hash h certs (re_cert_hash r) = None" for r
    by (fastforce simp: unobserved_def observed_by_cert_hash[OF assms(1)] find_None_iff image_iff)
  have "missing_at rs (unobserved h certs) matches budget s
      = unobserved_count h rs certs s + legacy_count rs s - unlisted_count h rs certs s" for s
    by (auto simp: missing_at_def unobserved_count_def state)
  moreover have "evaluate_trust_store h b certs now
      = snd (fold (check_missing (observed_by_cert_hash h certs)) rs ((matches, budget), ?classified))"
    by (simp add: evaluate_trust_store_def assms(2)[symmetric] matched Let_def)
  ultimately show ?thesis
    using check_missing_fold[where S = ?S and rs = rs and res = ?classified and matches = matches
        and budget = budget, OF _ _ gone]
    by (simp add: Let_def classify_fold changed_count[OF assms(1)] empty_scan_def)
qed

subsection \<open>What is reported\<close>

text \<open>Two trust stores with the same certificates, two baselines with the same roots: the counts agree.\<close>

lemma length_filter_perm: "mset xs = mset ys \<Longrightarrow> length (filter P xs) = length (filter P ys)"
  by (metis mset_filter size_mset)

lemma counts_perm:
  assumes "mset certs = mset certs'" and "mset rs = mset rs'"
  shows "listed h rs = listed h rs'" "known_key h rs = known_key h rs'"
    "unlisted_count h rs certs = unlisted_count h rs' certs'" "legacy_count rs = legacy_count rs'"
    "unobserved_count h rs certs = unobserved_count h rs' certs'"
    "unknown_root h rs = unknown_root h rs'"
proof -
  have sets: "set certs = set certs'" "set rs = set rs'" using assms by (metis set_mset_mset)+
  show "listed h rs = listed h rs'" "known_key h rs = known_key h rs'"
    by (auto simp: listed_def known_key_def sets)
  moreover show "legacy_count rs = legacy_count rs'"
    unfolding legacy_count_def using length_filter_perm[OF assms(2)] by auto
  ultimately show "unlisted_count h rs certs = unlisted_count h rs' certs'"
    "unobserved_count h rs certs = unobserved_count h rs' certs'" "unknown_root h rs = unknown_root h rs'"
    using length_filter_perm[OF assms(1)] length_filter_perm[OF assms(2)]
    by (auto simp: unlisted_count_def unobserved_count_def unobserved_def unknown_root_def sets)
qed

lemma no_drift_counts:
  assumes "distinct (map (certificate_hash h) certs)" and "rs = tb_roots b"
  shows "check_exit_code (evaluate_trust_store h b certs now) = 0 \<longleftrightarrow>
    (\<forall>s. unlisted_count h rs certs s = legacy_count rs s)
    \<and> (\<forall>r \<in> set rs. \<not> unobserved h certs r)
    \<and> (\<forall>c \<in> set certs. \<not> policy_changed h rs c \<and> \<not> expired_root now c)" (is "?l \<longleftrightarrow> ?r")
proof -
  let ?S = "re_spki_hash ` set rs"
  let ?u = "unlisted_count h rs certs" and ?L = "legacy_count rs" and ?M = "unobserved_count h rs certs"
  let ?N = "\<lambda>c. unknown_root h rs c \<and> rc_subject c \<in> re_subject ` set rs"
  define A where "A = (\<Sum>s \<in> ?S. ?M s + ?L s - ?u s)"
  define B where "B = (\<Sum>s \<in> ?S. ?u s - ?L s)"
  have "?l \<longleftrightarrow> length (filter (unknown_root h rs) certs) = 0 \<and> A = 0
      \<and> length (filter (policy_changed h rs) certs) = 0 \<and> B = 0 \<and> length (filter ?N certs) = 0
      \<and> length (filter (expired_root now) certs) = 0"
    using evaluate_counts[OF assms, of now]
    unfolding A_def[symmetric] B_def[symmetric] check_exit_code_def Let_def
    by (auto simp del: length_0_conv length_greater_0_conv)
  then have zero: "?l \<longleftrightarrow> filter (unknown_root h rs) certs = []
      \<and> (\<forall>s \<in> ?S. ?M s + ?L s \<le> ?u s) \<and> filter (policy_changed h rs) certs = []
      \<and> (\<forall>s \<in> ?S. ?u s \<le> ?L s) \<and> filter ?N certs = [] \<and> filter (expired_root now) certs = []"
    by (simp add: A_def B_def)
  have outside: "?L s = 0" if "s \<notin> ?S" for s
    using that by (auto simp: legacy_count_def filter_empty_conv)
  have none: "?M s = 0 \<longleftrightarrow> (\<forall>r \<in> set rs. re_spki_hash r = s \<longrightarrow> \<not> unobserved h certs r)" for s
    by (auto simp: unobserved_count_def filter_empty_conv)
  have unknown: "filter (unknown_root h rs) certs = [] \<longleftrightarrow> (\<forall>s. s \<notin> ?S \<longrightarrow> ?u s = 0)"
    by (auto simp: unlisted_count_def filter_empty_conv unknown_root_def known_key_def)
  have pair: "?M s + ?L s \<le> ?u s \<and> ?u s \<le> ?L s \<longleftrightarrow> ?M s = 0 \<and> ?u s = ?L s" for s by auto
  have pairs: "(\<forall>s \<in> ?S. ?M s + ?L s \<le> ?u s) \<and> (\<forall>s \<in> ?S. ?u s \<le> ?L s)
      \<longleftrightarrow> (\<forall>s \<in> ?S. ?M s = 0 \<and> ?u s = ?L s)"
    by (simp only: ball_conj_distrib[symmetric] pair)
  have subject: "filter (unknown_root h rs) certs = [] \<Longrightarrow> filter ?N certs = []"
    by (simp add: filter_empty_conv)
  have "?l \<longleftrightarrow> (\<forall>s. s \<notin> ?S \<longrightarrow> ?u s = 0) \<and> (\<forall>s \<in> ?S. ?M s = 0 \<and> ?u s = ?L s)
      \<and> filter (policy_changed h rs) certs = [] \<and> filter (expired_root now) certs = []"
    unfolding zero unknown[symmetric] using pairs subject by argo
  moreover have "(\<forall>s. s \<notin> ?S \<longrightarrow> ?u s = 0) \<and> (\<forall>s \<in> ?S. ?u s = ?L s) \<longleftrightarrow> (\<forall>s. ?u s = ?L s)"
    using outside by metis
  moreover have "(\<forall>s \<in> ?S. ?M s = 0) \<longleftrightarrow> (\<forall>r \<in> set rs. \<not> unobserved h certs r)"
    using none by auto
  ultimately show ?thesis unfolding filter_empty_conv ball_conj_distrib by argo
qed

lemma no_drift:
  assumes "valid_roots (tb_roots b)" and "distinct (map (certificate_hash h) certs)"
  shows "check_exit_code (evaluate_trust_store h b certs now) = 0 \<longleftrightarrow>
    (\<forall>r \<in> set (tb_roots b). re_cert_hash r \<noteq> [] \<longrightarrow>
       (\<exists>c \<in> set certs. certificate_hash h c = re_cert_hash r \<and> \<not> policy_differs r (root_entry_of h c)))
    \<and> (\<forall>s. unlisted_count h (tb_roots b) certs s = legacy_count (tb_roots b) s)
    \<and> (\<forall>c \<in> set certs. \<not> rc_not_after c < now)"
proof -
  let ?rs = "tb_roots b"
  have same: "c = d" if "c \<in> set certs" "d \<in> set certs" "certificate_hash h c = certificate_hash h d" for c d
    using assms(2) that by (auto simp: distinct_map dest: inj_onD)
  have "(\<forall>r \<in> set ?rs. \<not> unobserved h certs r) \<and> (\<forall>c \<in> set certs. \<not> policy_changed h ?rs c)
    \<longleftrightarrow> (\<forall>r \<in> set ?rs. re_cert_hash r \<noteq> [] \<longrightarrow>
       (\<exists>c \<in> set certs. certificate_hash h c = re_cert_hash r \<and> \<not> policy_differs r (root_entry_of h c)))"
    (is "?a \<and> ?b \<longleftrightarrow> ?c")
  proof
    assume ab: "?a \<and> ?b"
    show ?c
    proof (intro ballI impI)
      fix r assume r: "r \<in> set ?rs" "re_cert_hash r \<noteq> []"
      with ab obtain c where c: "c \<in> set certs" "re_cert_hash r = certificate_hash h c"
        by (auto simp: unobserved_def is_legacy_def)
      with ab r have "\<not> policy_differs r (root_entry_of h c)"
        by (auto simp: policy_changed_iff[OF assms(1)])
      with c show "\<exists>c \<in> set certs. certificate_hash h c = re_cert_hash r
        \<and> \<not> policy_differs r (root_entry_of h c)" by metis
    qed
  next
    assume c: ?c
    have ?a unfolding unobserved_def is_legacy_def using c by (metis image_eqI)
    moreover have ?b
      unfolding policy_changed_iff[OF assms(1)] using c same by metis
    ultimately show "?a \<and> ?b" ..
  qed
  then show ?thesis using no_drift_counts[OF assms(2) refl, of b now] by (auto simp: expired_root_def)
qed

text \<open>The check of a trust store is silent (exit code 0) exactly when it matches its baseline: every
  root listed by certificate is observed with the policy of the baseline, for every public key the
  certificates that are not listed are as many as its legacy (key-only) entries, so no root is added and
  none removed, and no observed root has expired.\<close>

theorem no_drift_exact:
  assumes "valid_roots (tb_roots b)" and "distinct (map (certificate_hash h) certs)"
  shows "check_exit_code (evaluate_trust_store h b certs now) = 0 \<longleftrightarrow>
    (\<forall>r \<in> set (tb_roots b). re_cert_hash r \<noteq> [] \<longrightarrow>
       (\<exists>c \<in> set certs. certificate_hash h c = re_cert_hash r \<and> \<not> policy_differs r (root_entry_of h c)))
    \<and> (\<forall>s. unlisted_count h (tb_roots b) certs s = legacy_count (tb_roots b) s)
    \<and> (\<forall>c \<in> set certs. \<not> rc_not_after c < now)"
  by (rule no_drift[OF assms])

text \<open>C15: What the drift check counts, per public key.  Roots missing: of the roots with a key, listed but
  unobserved or legacy, those left over when each unlisted certificate with the key is paired off with
  one of them, so one sibling never hides the removal of two.  Changed: listed certificates whose policy
  differs, unlisted ones of a known key beyond its legacy entries, and new keys with a known subject.
  Unknown: certificates of a new key.\<close>

theorem drift_counts_exact:
  assumes "valid_roots rs" and "distinct (map (certificate_hash h) certs)" and "rs = tb_roots b"
  shows "let out = evaluate_trust_store h b certs now; keys = re_spki_hash ` set rs;
      unknown = filter (\<lambda>c. \<not> listed h rs c \<and> spki_hash h c \<notin> keys) certs in
    sr_unknown_roots out = length unknown
    \<and> sr_missing_roots out
      = (\<Sum>s \<in> keys. unobserved_count h rs certs s + legacy_count rs s - unlisted_count h rs certs s)
    \<and> sr_changed_roots out = length (filter (\<lambda>c. \<exists>r \<in> set rs. re_cert_hash r = certificate_hash h c
          \<and> re_cert_hash r \<noteq> [] \<and> policy_differs r (root_entry_of h c)) certs)
      + (\<Sum>s \<in> keys. unlisted_count h rs certs s - legacy_count rs s)
      + length (filter (\<lambda>c. rc_subject c \<in> re_subject ` set rs) unknown)
    \<and> sr_expired_roots out = length (filter (\<lambda>c. rc_not_after c < now) certs)
    \<and> sr_expiring_roots out = length (filter (\<lambda>c. \<not> rc_not_after c < now
          \<and> rc_not_after c < time_add now (30 * 24 * hour)) certs)"
  using evaluate_counts[OF assms(2,3), of now]
  by (simp add: Let_def policy_changed_iff[OF assms(1), abs_def] unknown_root_def[abs_def] known_key_def
      expired_root_def[abs_def] expiring_root_def[abs_def] conj_commute conj_left_commute)

text \<open>The counts and the exit code of the drift check do not depend on the order in which the trust
  store was enumerated or the baseline was written.\<close>

theorem drift_order_independent:
  assumes "valid_roots (tb_roots b)" and "distinct (map (certificate_hash h) certs)"
    and "mset certs = mset certs'" and "mset (tb_roots b) = mset (tb_roots b')"
  shows "let out = evaluate_trust_store h b certs now; out' = evaluate_trust_store h b' certs' now in
    sr_unknown_roots out = sr_unknown_roots out' \<and> sr_missing_roots out = sr_missing_roots out'
    \<and> sr_changed_roots out = sr_changed_roots out' \<and> sr_expired_roots out = sr_expired_roots out'
    \<and> sr_expiring_roots out = sr_expiring_roots out' \<and> check_exit_code out = check_exit_code out'"
proof -
  let ?rs = "tb_roots b" and ?rs' = "tb_roots b'"
  have sets: "set ?rs = set ?rs'" using assms(4) by (metis set_mset_mset)
  have d: "distinct (map (certificate_hash h) certs')"
    using assms(2,3) by (metis mset_eq_imp_distinct_iff mset_map)
  have v: "valid_roots ?rs'"
    using assms(1,4) sets by (metis mset_eq_imp_distinct_iff mset_map valid_roots_def)
  have policy: "policy_changed h ?rs = policy_changed h ?rs'"
    by (auto simp: policy_changed_iff[OF assms(1)] policy_changed_iff[OF v] sets)
  note perm = counts_perm[OF assms(3,4)] and len = length_filter_perm[OF assms(3)]
  show ?thesis
    using evaluate_counts[OF assms(2) refl, of b now] evaluate_counts[OF d refl, of b' now]
    by (simp add: Let_def perm sets policy len check_exit_code_def)
qed

subsection \<open>A small trust store\<close>

definition sample_hashing :: hashing where
  "sample_hashing = \<lparr>hash_hex = (\<lambda>b. b), hash_policy = (\<lambda>p. if rp_is_ca p then ''ca'' else ''leaf'')\<rparr>"

definition sample_root :: "gostring \<Rightarrow> gostring \<Rightarrow> bool \<Rightarrow> root_cert" where
  "sample_root raw key ca = \<lparr>rc_raw = raw, rc_raw_spki = key, rc_subject = ''CN='' @ key, rc_issuer = ''CN='' @ key,
     rc_serial = ''1'', rc_not_before = Instant 1, rc_not_after = Instant 100,
     rc_policy = \<lparr>rp_is_ca = ca, rp_key_usage = 96, rp_ext_key_usage = [], rp_permitted_dns_domains = [],
       rp_policy_identifiers = []\<rparr>, rc_signature_algorithm = ''Ed25519''\<rparr>"

definition sample_baseline :: "root_entry list \<Rightarrow> trust_baseline" where
  "sample_baseline rs = \<lparr>tb_generated_at = Instant 1, tb_sequence = 1, tb_expires_at = Instant 50,
     tb_previous_digest = [], tb_roots = rs, tb_signature = []\<rparr>"

text \<open>One root listed by certificate, one legacy entry; and two roots of one key.\<close>

definition sample_legacy_roots :: "root_entry list" where
  "sample_legacy_roots = [root_entry_of sample_hashing (sample_root ''a'' ''j'' True),
     (root_entry_of sample_hashing (sample_root ''b'' ''k'' True))\<lparr>re_cert_hash := []\<rparr>]"

definition sample_sibling_roots :: "root_entry list" where
  "sample_sibling_roots = [root_entry_of sample_hashing (sample_root ''a'' ''k'' True),
     root_entry_of sample_hashing (sample_root ''b'' ''k'' True)]"

lemma sample_valid: "valid_roots sample_legacy_roots" "valid_roots sample_sibling_roots"
  by code_simp+

theorem no_drift_exact_witness:
  "\<forall>s. unlisted_count sample_hashing sample_legacy_roots [sample_root ''c'' ''k'' True, sample_root ''a'' ''j'' True] s
     = legacy_count sample_legacy_roots s"
proof -
  let ?certs = "[sample_root ''c'' ''k'' True, sample_root ''a'' ''j'' True]"
  let ?b = "sample_baseline sample_legacy_roots"
  have b: "tb_roots ?b = sample_legacy_roots" by (simp add: sample_baseline_def)
  have zero: "check_exit_code (evaluate_trust_store sample_hashing ?b ?certs (Instant 10)) = 0" by code_simp
  have "valid_roots (tb_roots ?b)" by (simp add: b sample_valid)
  moreover have "distinct (map (certificate_hash sample_hashing) ?certs)" by code_simp
  ultimately show ?thesis
    using no_drift_exact[of ?b sample_hashing ?certs "Instant 10", THEN iffD1, OF _ _ zero]
    unfolding b by blast
qed

theorem drift_counts_exact_witness:
  "sr_missing_roots (evaluate_trust_store sample_hashing (sample_baseline sample_sibling_roots)
       [sample_root ''c'' ''k'' True] (Instant 10)) = 1
   \<and> sr_unknown_roots (evaluate_trust_store sample_hashing (sample_baseline sample_sibling_roots)
       [sample_root ''c'' ''k'' True] (Instant 10)) = 0"
proof -
  let ?certs = "[sample_root ''c'' ''k'' True]" and ?b = "sample_baseline sample_sibling_roots"
  have b: "sample_sibling_roots = tb_roots ?b" by (simp add: sample_baseline_def)
  have "distinct (map (certificate_hash sample_hashing) ?certs)" by code_simp
  from drift_counts_exact[OF sample_valid(2) this b, of "Instant 10"]
  have "sr_missing_roots (evaluate_trust_store sample_hashing ?b ?certs (Instant 10))
      = (\<Sum>s \<in> re_spki_hash ` set sample_sibling_roots.
          unobserved_count sample_hashing sample_sibling_roots ?certs s + legacy_count sample_sibling_roots s
          - unlisted_count sample_hashing sample_sibling_roots ?certs s)"
    "sr_unknown_roots (evaluate_trust_store sample_hashing ?b ?certs (Instant 10))
      = length (filter (\<lambda>c. \<not> listed sample_hashing sample_sibling_roots c
          \<and> spki_hash sample_hashing c \<notin> re_spki_hash ` set sample_sibling_roots) ?certs)"
    by (simp_all only: Let_def)
  moreover have "re_spki_hash ` set sample_sibling_roots = {''k''}" by code_simp
  moreover have "unobserved_count sample_hashing sample_sibling_roots ?certs ''k'' = 2"
    "legacy_count sample_sibling_roots ''k'' = 0" "unlisted_count sample_hashing sample_sibling_roots ?certs ''k'' = 1"
    by code_simp+
  moreover have "spki_hash sample_hashing (sample_root ''c'' ''k'' True) = ''k''" by code_simp
  ultimately show ?thesis by simp
qed

theorem drift_order_independent_witness:
  "sr_missing_roots (evaluate_trust_store sample_hashing (sample_baseline (rev sample_sibling_roots))
       [sample_root ''c'' ''k'' True, sample_root ''a'' ''k'' True] (Instant 10))
     = sr_missing_roots (evaluate_trust_store sample_hashing (sample_baseline sample_sibling_roots)
       [sample_root ''a'' ''k'' True, sample_root ''c'' ''k'' True] (Instant 10))"
proof -
  let ?certs = "[sample_root ''c'' ''k'' True, sample_root ''a'' ''k'' True]"
  let ?b = "sample_baseline (rev sample_sibling_roots)"
  have "valid_roots (tb_roots ?b)" by code_simp
  moreover have "distinct (map (certificate_hash sample_hashing) ?certs)" by code_simp
  moreover have "mset ?certs = mset [sample_root ''a'' ''k'' True, sample_root ''c'' ''k'' True]" by simp
  moreover have "mset (tb_roots ?b) = mset (tb_roots (sample_baseline sample_sibling_roots))"
    by (simp add: sample_baseline_def)
  ultimately show ?thesis
    using drift_order_independent[of ?b sample_hashing ?certs] unfolding Let_def by blast
qed

end
