(* ===== verification/Json_Laws.thy ===== *)
theory Json_Laws imports Json_Duplicates
begin

text \<open>
  What the duplicate-key checkers decide: an input is accepted exactly when it is one JSON value, written
  by the grammar, in which no object has a key twice.
\<close>

text \<open>A value starts after what separates it from the tokens before, and leaves the decoder in the state
  of its surroundings.\<close>

fun lead :: "token_state \<Rightarrow> lexeme list" where
  "lead ArrayComma = [Comma]"
| "lead ObjectColon = [Colon]"
| "lead st = []"

fun entered :: "token_state \<Rightarrow> token_state" where
  "entered ArrayComma = ArrayValue"
| "entered ObjectColon = ObjectValue"
| "entered st = st"

abbreviation value_states :: "token_state set" where
  "value_states \<equiv> {TopValue, ArrayStart, ArrayComma, ObjectColon}"

abbreviation at_state :: "lexeme list \<Rightarrow> lexeme_end \<Rightarrow> token_state \<Rightarrow> token_state list \<Rightarrow> decoder" where
  "at_state xs e st stk \<equiv> \<lparr>dec_input = xs, dec_end = e, dec_state = st, dec_stack = stk\<rparr>"

abbreviation member_lexemes :: "gostring \<times> json \<Rightarrow> lexeme list" where
  "member_lexemes m \<equiv> (case m of (k, v) \<Rightarrow> StringLexeme k # Colon # render v)"

text \<open>The items that are left in a list: after the first, each has a comma before it.\<close>

definition items :: "token_state \<Rightarrow> lexeme list list \<Rightarrow> lexeme list" where
  "items st xs = (if st = ArrayComma \<or> st = ObjectComma then more_items xs else separated xs)"

lemma items_simps [simp]:
  "items st [] = []"
  "items ArrayStart (x # xs) = x @ items ArrayComma xs"
  "items ArrayComma (x # xs) = Comma # x @ items ArrayComma xs"
  "items ObjectStart (x # xs) = x @ items ObjectComma xs"
  "items ObjectComma (x # xs) = Comma # x @ items ObjectComma xs"
  by (auto simp: items_def separated_Cons)

subsection \<open>What is written is read\<close>

lemma token_lead:
  assumes "st \<in> value_states"
  shows "token_from e (lead st @ xs) st stk = token_from e xs (entered st) stk"
  using assms by (auto simp: Let_def)

lemma value_allowed_entered: "st \<in> value_states \<Longrightarrow> value_allowed (entered st)"
  by (auto simp: value_allowed_def)

lemma entered_no_key: "st \<in> value_states \<Longrightarrow> entered st \<noteq> ObjectStart \<and> entered st \<noteq> ObjectKey"
  by auto

definition duplicate_key :: "json_error + 'a \<Rightarrow> bool" where
  "duplicate_key r \<longleftrightarrow> (\<exists>k. r = Inl (JsonMessage (duplicate_key_message k)))"

lemma duplicate_key_simps [simp]:
  "\<not> duplicate_key (Inr x)"
  "duplicate_key (Inl (JsonMessage (duplicate_key_message k)))"
  by (auto simp: duplicate_key_def)

text \<open>The verdict on a value, an item list of an object and of an array.\<close>

definition reads_value :: "json \<Rightarrow> bool" where
  "reads_value v \<longleftrightarrow> (\<forall>st stk e rest. st \<in> value_states \<longrightarrow>
     (let r = consume_json_value (at_state (lead st @ render v @ rest) e st stk) in
      if unique_keys v then r = Inr (at_state rest e (value_end (entered st)) stk) else duplicate_key r))"

lemma reads_valueD:
  "reads_value v \<Longrightarrow> st \<in> value_states \<Longrightarrow> unique_keys v \<Longrightarrow>
     consume_json_value (at_state (lead st @ render v @ rest) e st stk)
       = Inr (at_state rest e (value_end (entered st)) stk)"
  "reads_value v \<Longrightarrow> st \<in> value_states \<Longrightarrow> \<not> unique_keys v \<Longrightarrow>
     duplicate_key (consume_json_value (at_state (lead st @ render v @ rest) e st stk))"
  unfolding reads_value_def Let_def by metis+

lemma read_array:
  assumes "\<forall>v \<in> set vs. reads_value v" and "st \<in> {ArrayStart, ArrayComma}"
  shows "let r = consume_array (at_state (items st (map render vs) @ CloseArray # rest) e st (st' # stk)) in
    if \<forall>v \<in> set vs. unique_keys v then r = Inr (at_state rest e (value_end st') stk) else duplicate_key r"
  using assms
proof (induction vs arbitrary: st)
  case Nil
  then show ?case
    by (subst consume_array.simps) (auto simp: more_def token_def Let_def)
next
  case (Cons v vs)
  let ?tail = "items ArrayComma (map render vs) @ CloseArray # rest"
  have input: "items st (map render (v # vs)) @ CloseArray # rest = lead st @ render v @ ?tail"
    using Cons.prems(2) by auto
  have more: "more (at_state (lead st @ render v @ ?tail) e st (st' # stk))"
    using Cons.prems(2) render_hd[of v] by (cases "render v") (auto simp: more_def render_ne)
  have st: "st \<in> value_states" using Cons.prems(2) by auto
  show ?case
  proof (cases "unique_keys v")
    case True
    have "consume_json_value (at_state (lead st @ render v @ ?tail) e st (st' # stk))
        = Inr (at_state ?tail e ArrayComma (st' # stk))"
      using reads_valueD(1)[of v st ?tail e "st' # stk"] Cons.prems True st by auto
    then show ?thesis using Cons.IH[of ArrayComma] Cons.prems more True unfolding input
      by (subst consume_array.simps) (auto simp: Let_def)
  next
    case False
    then obtain err where "consume_json_value (at_state (lead st @ render v @ ?tail) e st (st' # stk)) = Inl err"
      "duplicate_key (Inl err :: json_error + decoder)"
      using reads_valueD(2)[of v st ?tail e "st' # stk"] Cons.prems st
      by (cases "consume_json_value (at_state (lead st @ render v @ ?tail) e st (st' # stk))") auto
    then show ?thesis using more False unfolding input
      by (subst consume_array.simps) (auto simp: Let_def)
  qed
qed

lemma read_object:
  assumes "\<forall>m \<in> set ms. reads_value (snd m)" and "st \<in> {ObjectStart, ObjectComma}"
  shows "let r = consume_object seen
      (at_state (items st (map member_lexemes ms) @ CloseObject # rest) e st (st' # stk)) in
    if distinct (map fst ms) \<and> fst ` set ms \<inter> seen = {} \<and> (\<forall>m \<in> set ms. unique_keys (snd m))
    then r = Inr (at_state rest e (value_end st') stk) else duplicate_key r"
  using assms
proof (induction ms arbitrary: st seen)
  case Nil
  then show ?case
    by (subst consume_object.simps) (auto simp: more_def token_def Let_def)
next
  case (Cons m ms)
  obtain k v where m: "m = (k, v)" by (cases m)
  let ?tail = "items ObjectComma (map member_lexemes ms) @ CloseObject # rest"
  let ?d = "at_state (items st (map member_lexemes (m # ms)) @ CloseObject # rest) e st (st' # stk)"
  let ?d1 = "at_state (lead ObjectColon @ render v @ ?tail) e ObjectColon (st' # stk)"
  have key: "more ?d" "token ?d = Inr (StringToken k, ?d1)"
    using Cons.prems(2) m by (auto simp: more_def token_def Let_def)
  show ?case
  proof (cases "k \<in> seen")
    case True
    then show ?thesis using key m by (subst consume_object.simps) (auto simp: Let_def)
  next
    case fresh: False
    show ?thesis
    proof (cases "unique_keys v")
      case True
      have "consume_json_value ?d1 = Inr (at_state ?tail e ObjectComma (st' # stk))"
        using reads_valueD(1)[of v ObjectColon ?tail e "st' # stk"] Cons.prems(1) True m by auto
      then show ?thesis using Cons.IH[of ObjectComma "insert k seen"] Cons.prems(1) key fresh True m
        by (subst consume_object.simps) (auto simp: Let_def)
    next
      case False
      then obtain err where "consume_json_value ?d1 = Inl err" "duplicate_key (Inl err :: json_error + decoder)"
        using reads_valueD(2)[of v ObjectColon ?tail e "st' # stk"] Cons.prems(1) m
        by (cases "consume_json_value ?d1") auto
      then show ?thesis using key fresh False m
        by (subst consume_object.simps) (auto simp: Let_def)
    qed
  qed
qed

lemma members_unique: "(\<forall>(k, v) \<in> set ms. unique_keys v) \<longleftrightarrow> (\<forall>m \<in> set ms. unique_keys (snd m))"
  by auto

lemma read_value: "reads_value v"
proof (induction v)
  case (JScalar s)
  show ?case unfolding reads_value_def
    by (intro allI impI, subst consume_json_value.simps)
      (simp add: token_def token_lead value_allowed_entered Let_def)
next
  case (JString s)
  show ?case unfolding reads_value_def
    by (intro allI impI, subst consume_json_value.simps)
      (simp add: token_def token_lead value_allowed_entered entered_no_key Let_def del: insert_iff)
next
  case (JArray vs)
  have "let r = consume_array (at_state (separated (map render vs) @ CloseArray # rest) e ArrayStart (st' # stk))
     in if \<forall>v \<in> set vs. unique_keys v then r = Inr (at_state rest e (value_end st') stk) else duplicate_key r"
    for rest e st' stk
    using read_array[of vs ArrayStart rest e st' stk] JArray by (simp add: items_def)
  then show ?case unfolding reads_value_def
    by (intro allI impI, subst consume_json_value.simps)
      (simp add: token_def token_lead value_allowed_entered Let_def del: insert_iff)
next
  case (JObject ms)
  have each: "\<forall>m \<in> set ms. reads_value (snd m)"
    using JObject by (auto intro: snds.intros)
  have "let r = consume_object {} (at_state (separated (map member_lexemes ms) @ CloseObject # rest) e
        ObjectStart (st' # stk))
     in if distinct (map fst ms) \<and> (\<forall>(k, v) \<in> set ms. unique_keys v)
        then r = Inr (at_state rest e (value_end st') stk) else duplicate_key r"
    for rest e st' stk
    using read_object[OF each, of ObjectStart "{}" rest e st' stk] by (simp add: items_def members_unique)
  then show ?case unfolding reads_value_def
    by (intro allI impI, subst consume_json_value.simps)
      (simp add: token_def token_lead value_allowed_entered Let_def del: insert_iff)
qed

subsection \<open>What is read was written\<close>

text \<open>A token at the start of a value.\<close>

lemma token_value:
  assumes "token d = Inr (t, d')" and "dec_state d \<in> value_states"
    and "dec_state d \<in> {ArrayStart, ArrayComma} \<Longrightarrow> more d"
  shows "\<exists>x xs. dec_input d = lead (dec_state d) @ x # xs \<and>
    (x = OpenArray \<and> t = DelimToken (CHR ''['')
        \<and> d' = at_state xs (dec_end d) ArrayStart (entered (dec_state d) # dec_stack d)
     \<or> x = OpenObject \<and> t = DelimToken (CHR ''{'')
        \<and> d' = at_state xs (dec_end d) ObjectStart (entered (dec_state d) # dec_stack d)
     \<or> (\<exists>s. (x = ScalarLexeme s \<and> t = ScalarToken s \<or> x = StringLexeme s \<and> t = StringToken s)
        \<and> d' = at_state xs (dec_end d) (value_end (entered (dec_state d))) (dec_stack d)))"
proof -
  have "\<exists>x xs. inp = lead st @ x # xs \<and>
    (x = OpenArray \<and> t = DelimToken (CHR ''['') \<and> d' = at_state xs e ArrayStart (entered st # stk)
     \<or> x = OpenObject \<and> t = DelimToken (CHR ''{'') \<and> d' = at_state xs e ObjectStart (entered st # stk)
     \<or> (\<exists>s. (x = ScalarLexeme s \<and> t = ScalarToken s \<or> x = StringLexeme s \<and> t = StringToken s)
        \<and> d' = at_state xs e (value_end (entered st)) stk))"
    if "token_from e inp st stk = Inr (t, d')" "st \<in> value_states"
      "st \<in> {ArrayStart, ArrayComma} \<longrightarrow> (\<forall>xs. inp \<noteq> CloseArray # xs)" for e inp st stk
  proof (cases "lead st")
    case Nil
    with that show ?thesis
      by (cases inp) (auto simp: Let_def value_allowed_def split: lexeme.splits if_splits)
  next
    case (Cons sep ys)
    then have "ys = []" "st = ArrayComma \<and> sep = Comma \<or> st = ObjectColon \<and> sep = Colon"
      using that(2) by auto
    with that Cons show ?thesis
      by (cases inp; cases "tl inp")
        (auto simp: Let_def value_allowed_def split: lexeme.splits if_splits)
  qed
  moreover have "dec_state d \<in> {ArrayStart, ArrayComma} \<longrightarrow> (\<forall>xs. dec_input d \<noteq> CloseArray # xs)"
    using assms(3) by (auto simp: more_def)
  ultimately show ?thesis using assms(1,2) by (simp add: token_def)
qed

text \<open>The closing token of a list, and the key of a member.\<close>

lemma token_close_array:
  assumes "token d = Inr (t, d')" and "\<not> more d" and "dec_state d \<in> {ArrayStart, ArrayComma}"
  shows "\<exists>xs. dec_input d = CloseArray # xs
    \<and> d' = at_state xs (dec_end d) (value_end (hd (dec_stack d))) (tl (dec_stack d))"
  using assms by (cases "dec_input d")
    (auto simp: token_def more_def Let_def peek_error_def split: lexeme.splits if_splits)

lemma token_close_object:
  assumes "token d = Inr (t, d')" and "\<not> more d" and "dec_state d \<in> {ObjectStart, ObjectComma}"
  shows "\<exists>xs. dec_input d = CloseObject # xs
    \<and> d' = at_state xs (dec_end d) (value_end (hd (dec_stack d))) (tl (dec_stack d))"
  using assms by (cases "dec_input d")
    (auto simp: token_def more_def Let_def peek_error_def split: lexeme.splits if_splits)

lemma token_key:
  assumes "token d = Inr (StringToken k, d')" and "dec_state d \<in> {ObjectStart, ObjectComma}"
  shows "\<exists>xs. dec_input d = (if dec_state d = ObjectComma then [Comma] else []) @ StringLexeme k # xs
    \<and> d' = at_state xs (dec_end d) ObjectColon (dec_stack d)"
  using assms by (cases "dec_input d"; cases "tl (dec_input d)")
    (auto simp: token_def Let_def peek_error_def value_allowed_def split: lexeme.splits if_splits)

definition value_read :: "decoder \<Rightarrow> decoder \<Rightarrow> bool" where
  "value_read d d' \<longleftrightarrow> (\<exists>v rest. unique_keys v \<and> dec_input d = lead (dec_state d) @ render v @ rest
     \<and> d' = at_state rest (dec_end d) (value_end (entered (dec_state d))) (dec_stack d))"

definition elements_read :: "decoder \<Rightarrow> decoder \<Rightarrow> bool" where
  "elements_read d d' \<longleftrightarrow> (\<exists>vs rest. (\<forall>v \<in> set vs. unique_keys v)
     \<and> dec_input d = items (dec_state d) (map render vs) @ CloseArray # rest
     \<and> d' = at_state rest (dec_end d) (value_end (hd (dec_stack d))) (tl (dec_stack d)))"

definition members_read :: "gostring set \<Rightarrow> decoder \<Rightarrow> decoder \<Rightarrow> bool" where
  "members_read seen d d' \<longleftrightarrow> (\<exists>ms rest. distinct (map fst ms) \<and> fst ` set ms \<inter> seen = {}
     \<and> (\<forall>m \<in> set ms. unique_keys (snd m))
     \<and> dec_input d = items (dec_state d) (map member_lexemes ms) @ CloseObject # rest
     \<and> d' = at_state rest (dec_end d) (value_end (hd (dec_stack d))) (tl (dec_stack d)))"

lemma value_read_scalar:
  "dec_input d = lead (dec_state d) @ x # xs \<Longrightarrow> x = ScalarLexeme s \<or> x = StringLexeme s \<Longrightarrow>
     value_read d (at_state xs (dec_end d) (value_end (entered (dec_state d))) (dec_stack d))"
  unfolding value_read_def
  by (intro exI[of _ "if x = ScalarLexeme s then JScalar s else JString s"] exI[of _ xs]) auto

lemma value_read_array:
  assumes "dec_input d = lead (dec_state d) @ OpenArray # xs"
    and "elements_read (at_state xs (dec_end d) ArrayStart (entered (dec_state d) # dec_stack d)) d'"
  shows "value_read d d'"
proof -
  obtain vs rest where "\<forall>v \<in> set vs. unique_keys v" "xs = separated (map render vs) @ CloseArray # rest"
    "d' = at_state rest (dec_end d) (value_end (entered (dec_state d))) (dec_stack d)"
    using assms(2) by (auto simp: elements_read_def items_def)
  then show ?thesis unfolding value_read_def
    by (intro exI[of _ "JArray vs"] exI[of _ rest]) (simp add: assms(1))
qed

lemma value_read_object:
  assumes "dec_input d = lead (dec_state d) @ OpenObject # xs"
    and "members_read {} (at_state xs (dec_end d) ObjectStart (entered (dec_state d) # dec_stack d)) d'"
  shows "value_read d d'"
proof -
  obtain ms rest where "distinct (map fst ms)" "\<forall>m \<in> set ms. unique_keys (snd m)"
    "xs = separated (map member_lexemes ms) @ CloseObject # rest"
    "d' = at_state rest (dec_end d) (value_end (entered (dec_state d))) (dec_stack d)"
    using assms(2) by (auto simp: members_read_def items_def)
  then show ?thesis unfolding value_read_def
    by (intro exI[of _ "JObject ms"] exI[of _ rest]) (simp add: assms(1) members_unique)
qed

lemma elements_read_Cons:
  assumes "value_read d d1" and "elements_read d1 d'" and "dec_state d \<in> {ArrayStart, ArrayComma}"
  shows "elements_read d d'"
proof -
  obtain v rest where v: "unique_keys v" "dec_input d = lead (dec_state d) @ render v @ rest"
    "d1 = at_state rest (dec_end d) ArrayComma (dec_stack d)"
    using assms(1,3) by (auto simp: value_read_def)
  obtain vs rest' where vs: "\<forall>v \<in> set vs. unique_keys v"
    "rest = items ArrayComma (map render vs) @ CloseArray # rest'"
    "d' = at_state rest' (dec_end d) (value_end (hd (dec_stack d))) (tl (dec_stack d))"
    using assms(2) v(3) by (auto simp: elements_read_def)
  have "dec_input d = items (dec_state d) (map render (v # vs)) @ CloseArray # rest'"
    using v(2) vs(2) assms(3) by auto
  with v(1) vs show ?thesis unfolding elements_read_def
    by (intro exI[of _ "v # vs"] exI[of _ rest']) simp
qed

lemma members_read_Cons:
  assumes "dec_input d = (if dec_state d = ObjectComma then [Comma] else []) @ StringLexeme k # xs"
    and "value_read (at_state xs (dec_end d) ObjectColon (dec_stack d)) d1"
    and "members_read (insert k seen) d1 d'" and "dec_state d \<in> {ObjectStart, ObjectComma}" and "k \<notin> seen"
  shows "members_read seen d d'"
proof -
  obtain v rest where v: "unique_keys v" "xs = Colon # render v @ rest"
    "d1 = at_state rest (dec_end d) ObjectComma (dec_stack d)"
    using assms(2) by (auto simp: value_read_def)
  obtain ms rest' where ms: "distinct (map fst ms)" "fst ` set ms \<inter> insert k seen = {}"
    "\<forall>m \<in> set ms. unique_keys (snd m)"
    "rest = items ObjectComma (map member_lexemes ms) @ CloseObject # rest'"
    "d' = at_state rest' (dec_end d) (value_end (hd (dec_stack d))) (tl (dec_stack d))"
    using assms(3) v(3) by (auto simp: members_read_def)
  have "dec_input d = items (dec_state d) (map member_lexemes ((k, v) # ms)) @ CloseObject # rest'"
    using assms(1,4) v(2) ms(4) by auto
  with v(1) ms assms(5) show ?thesis unfolding members_read_def
    by (intro exI[of _ "(k, v) # ms"] exI[of _ rest']) auto
qed

lemma consume_reads:
  "consume_json_value d = Inr d' \<Longrightarrow> dec_state d \<in> value_states \<Longrightarrow>
     (dec_state d \<in> {ArrayStart, ArrayComma} \<Longrightarrow> more d) \<Longrightarrow> value_read d d'"
  "consume_object seen ob = Inr d' \<Longrightarrow> dec_state ob \<in> {ObjectStart, ObjectComma} \<Longrightarrow>
     members_read seen ob d'"
  "consume_array ar = Inr d' \<Longrightarrow> dec_state ar \<in> {ArrayStart, ArrayComma} \<Longrightarrow> elements_read ar d'"
proof (induction d and seen ob and ar arbitrary: d' and d' and d'
    rule: consume_json_value_consume_object_consume_array.induct)
  case (1 d)
  obtain t d1 where t: "token d = Inr (t, d1)"
    using "1.prems"(1) by (subst (asm) consume_json_value.simps) (auto split: sum.splits)
  from token_value[OF t "1.prems"(2,3)] obtain x xs where x: "dec_input d = lead (dec_state d) @ x # xs"
    and shape: "x = OpenArray \<and> t = DelimToken (CHR ''['')
        \<and> d1 = at_state xs (dec_end d) ArrayStart (entered (dec_state d) # dec_stack d)
     \<or> x = OpenObject \<and> t = DelimToken (CHR ''{'')
        \<and> d1 = at_state xs (dec_end d) ObjectStart (entered (dec_state d) # dec_stack d)
     \<or> (\<exists>s. (x = ScalarLexeme s \<and> t = ScalarToken s \<or> x = StringLexeme s \<and> t = StringToken s)
        \<and> d1 = at_state xs (dec_end d) (value_end (entered (dec_state d))) (dec_stack d))"
    by blast
  have step: "(case t of DelimToken c \<Rightarrow> if c = CHR ''{'' then consume_object {} d1
      else if c = CHR ''['' then consume_array d1
      else Inl (JsonMessage (''unexpected JSON delimiter '' @ quote_text [c])) | _ \<Rightarrow> Inr d1) = Inr d'"
    using "1.prems"(1) t by (subst (asm) consume_json_value.simps) simp
  from shape show ?case
  proof (elim disjE)
    assume a: "x = OpenArray \<and> t = DelimToken (CHR ''['')
        \<and> d1 = at_state xs (dec_end d) ArrayStart (entered (dec_state d) # dec_stack d)"
    have "elements_read d1 d'" using "1.IH"(2)[OF t refl, of "CHR ''[''"] a step by simp
    with a x show ?thesis by (auto intro: value_read_array)
  next
    assume a: "x = OpenObject \<and> t = DelimToken (CHR ''{'')
        \<and> d1 = at_state xs (dec_end d) ObjectStart (entered (dec_state d) # dec_stack d)"
    have "members_read {} d1 d'" using "1.IH"(1)[OF t refl, of "CHR ''{''"] a step by simp
    with a x show ?thesis by (auto intro: value_read_object)
  next
    assume "\<exists>s. (x = ScalarLexeme s \<and> t = ScalarToken s \<or> x = StringLexeme s \<and> t = StringToken s)
        \<and> d1 = at_state xs (dec_end d) (value_end (entered (dec_state d))) (dec_stack d)"
    with x step show ?thesis by (auto intro: value_read_scalar)
  qed
next
  case (2 seen ob)
  obtain t d1 where t: "token ob = Inr (t, d1)"
    using "2.prems"(1) by (subst (asm) consume_object.simps) (auto split: sum.splits if_splits)
  show ?case
  proof (cases "more ob")
    case True
    then obtain k d2 where k: "t = StringToken k" "k \<notin> seen" "consume_json_value d1 = Inr d2"
      "consume_object (insert k seen) d2 = Inr d'"
      using "2.prems"(1) t
      by (subst (asm) consume_object.simps) (auto split: json_token.splits if_splits sum.splits)
    from t k(1) have "token ob = Inr (StringToken k, d1)" by simp
    from token_key[OF this "2.prems"(2)] obtain xs
      where xs: "dec_input ob = (if dec_state ob = ObjectComma then [Comma] else []) @ StringLexeme k # xs"
        "d1 = at_state xs (dec_end ob) ObjectColon (dec_stack ob)" by blast
    have v: "value_read d1 d2" using "2.IH"(1)[OF True t refl k(1,2) k(3)] xs(2) by simp
    then have "dec_state d2 = ObjectComma" using xs(2) by (auto simp: value_read_def)
    then have "members_read (insert k seen) d2 d'"
      using "2.IH"(2)[OF True t refl k(1,2) k(3) k(4)] by simp
    with xs v k(2) "2.prems"(2) show ?thesis by (auto intro: members_read_Cons)
  next
    case False
    then have "d' = d1" using "2.prems"(1) t by (subst (asm) consume_object.simps) simp
    moreover obtain xs where "dec_input ob = CloseObject # xs"
      "d1 = at_state xs (dec_end ob) (value_end (hd (dec_stack ob))) (tl (dec_stack ob))"
      using token_close_object[OF t False "2.prems"(2)] by blast
    ultimately show ?thesis unfolding members_read_def
      by (intro exI[of _ "[]"] exI[of _ xs]) simp
  qed
next
  case (3 ar)
  show ?case
  proof (cases "more ar")
    case True
    then obtain d1 where d1: "consume_json_value ar = Inr d1" "consume_array d1 = Inr d'"
      using "3.prems"(1) by (subst (asm) consume_array.simps) (auto split: sum.splits)
    have v: "value_read ar d1" using "3.IH"(1)[OF True d1(1)] "3.prems"(2) True by auto
    then have "dec_state d1 = ArrayComma" using "3.prems"(2) by (auto simp: value_read_def)
    then have "elements_read d1 d'" using "3.IH"(2)[OF True d1(1) d1(2)] by simp
    with v "3.prems"(2) show ?thesis by (auto intro: elements_read_Cons)
  next
    case False
    then obtain t d1 where t: "token ar = Inr (t, d1)" "d' = d1"
      using "3.prems"(1) by (subst (asm) consume_array.simps) (auto split: sum.splits)
    moreover obtain xs where "dec_input ar = CloseArray # xs"
      "d1 = at_state xs (dec_end ar) (value_end (hd (dec_stack ar))) (tl (dec_stack ar))"
      using token_close_array[OF t(1) False "3.prems"(2)] by blast
    ultimately show ?thesis unfolding elements_read_def
      by (intro exI[of _ "[]"] exI[of _ xs]) simp
  qed
qed

subsection \<open>The verdicts\<close>

lemma consume_document:
  "consume_json_value (new_decoder xs e) = Inr d \<longleftrightarrow>
     (\<exists>v rest. unique_keys v \<and> xs = render v @ rest \<and> d = new_decoder rest e)" (is "?l = ?r")
proof
  assume ?l
  then have "value_read (new_decoder xs e) d"
    by (rule consume_reads(1)) (simp_all add: new_decoder_def)
  then show ?r by (auto simp: value_read_def new_decoder_def)
next
  assume ?r
  then obtain v rest where v: "unique_keys v" "xs = render v @ rest" "d = new_decoder rest e" by blast
  have "consume_json_value (at_state (lead TopValue @ render v @ rest) e TopValue [])
      = Inr (at_state rest e (value_end (entered TopValue)) [])"
    by (rule reads_valueD(1)[OF read_value _ v(1)]) simp
  with v show ?l by (simp add: new_decoder_def)
qed

lemma reject_keys_exact:
  "reject_duplicate_json_keys xs e = Inr () \<longleftrightarrow>
     e = EndOfInput \<and> (\<exists>v. unique_keys v \<and> xs = render v)" (is "?l = ?r")
proof -
  have trailing: "decode_any (new_decoder rest e) = Inl JsonEOF \<longleftrightarrow> rest = [] \<and> e = EndOfInput" for rest e
    using decode_any_at_end[of "new_decoder rest e"] by (simp add: new_decoder_def)
  have "?l \<longleftrightarrow> (\<exists>d. consume_json_value (new_decoder xs e) = Inr d \<and> decode_any d = Inl JsonEOF)"
    by (auto simp: reject_duplicate_json_keys_def split: sum.split json_error.split)
  also have "\<dots> \<longleftrightarrow> ?r"
    by (auto simp: consume_document trailing intro!: exI[of _ "new_decoder [] e"])
  finally show ?thesis .
qed

lemma reject_fields_exact:
  "reject_duplicate_json_fields xs e = Inr () \<longleftrightarrow>
     e = EndOfInput \<and> (\<exists>v. unique_keys v \<and> xs = render v)" (is "?l = ?r")
proof -
  have trailing: "token (new_decoder rest e) = Inl JsonEOF \<longleftrightarrow> rest = [] \<and> e = EndOfInput" for rest e
    using token_at_end[of "new_decoder rest e"] by (simp add: new_decoder_def)
  have "scan_json_value ''$'' (new_decoder xs e) = Inr d \<longleftrightarrow> consume_json_value (new_decoder xs e) = Inr d" for d
    using scan_as_consume(1)[of "new_decoder xs e" "''$''"] by (simp add: same_verdict_def)
  then have "(\<exists>d. consume_json_value (new_decoder xs e) = Inr d \<and> token d = Inl JsonEOF)
      \<longleftrightarrow> (\<exists>d. scan_json_value ''$'' (new_decoder xs e) = Inr d \<and> token d = Inl JsonEOF)" by simp
  moreover have "?l \<longleftrightarrow> (\<exists>d. scan_json_value ''$'' (new_decoder xs e) = Inr d \<and> token d = Inl JsonEOF)"
    by (auto simp: reject_duplicate_json_fields_def split: sum.split json_error.split)
  ultimately have "?l \<longleftrightarrow> (\<exists>d. consume_json_value (new_decoder xs e) = Inr d \<and> token d = Inl JsonEOF)"
    by simp
  also have "\<dots> \<longleftrightarrow> ?r"
    by (auto simp: consume_document trailing intro!: exI[of _ "new_decoder [] e"])
  finally show ?thesis .
qed

lemma duplicates_reported:
  assumes "\<not> unique_keys v"
  shows "duplicate_key (reject_duplicate_json_keys (render v @ rest) e)"
proof -
  have "duplicate_key (consume_json_value (at_state (lead TopValue @ render v @ rest) e TopValue []))"
    by (rule reads_valueD(2)[OF read_value _ assms]) simp
  then show ?thesis
    by (auto simp: reject_duplicate_json_keys_def new_decoder_def duplicate_key_def)
qed

text \<open>C36: Both duplicate-key checkers, the trust-store agent's and the attestation's, accept an input
  exactly when it is one JSON value, written by the grammar with nothing after it, in which no object,
  at any depth, has a key twice; and they always return (the functions are total).\<close>

theorem duplicate_keys_rejected_exactly:
  "(reject_duplicate_json_keys xs e = Inr () \<longleftrightarrow> e = EndOfInput \<and> (\<exists>v. unique_keys v \<and> xs = render v))
   \<and> (reject_duplicate_json_fields xs e = Inr () \<longleftrightarrow> reject_duplicate_json_keys xs e = Inr ())"
  by (simp only: reject_keys_exact reject_fields_exact simp_thms)

text \<open>A JSON value with a repeated key, at any depth, is refused by the trust-store agent with the
  error that names a duplicate key, whatever follows it.\<close>

theorem duplicate_keys_error:
  assumes "\<not> unique_keys v"
  shows "\<exists>key. reject_duplicate_json_keys (render v @ rest) e = Inl (JsonMessage (duplicate_key_message key))"
  using duplicates_reported[OF assms] by (simp add: duplicate_key_def)

theorem duplicate_keys_error_witness:
  "reject_duplicate_json_keys
     (render (JArray [JObject [(''a'', JScalar ''1''), (''b'', JArray []), (''a'', JString ''x'')]]) @ [Comma])
     EndOfInput = Inl (JsonMessage (duplicate_key_message ''a''))"
proof -
  let ?v = "JArray [JObject [(''a'', JScalar ''1''), (''b'', JArray []), (''a'', JString ''x'')]]"
  have "\<not> unique_keys ?v" by simp
  from duplicate_keys_error[OF this, of "[Comma]" EndOfInput]
  have "\<exists>key. reject_duplicate_json_keys (render ?v @ [Comma]) EndOfInput
      = Inl (JsonMessage (duplicate_key_message key))" .
  moreover have "reject_duplicate_json_keys (render ?v @ [Comma]) EndOfInput
      = Inl (JsonMessage (duplicate_key_message ''a''))"
    by code_simp
  ultimately show ?thesis by simp
qed

end
