(* ===== verification/Drift_Agent_Laws.thy ===== *)
theory Drift_Agent_Laws imports Drift_Agent Drift_Laws Baseline_Chain Json_Laws
begin

text \<open>
  What the commands of the drift agent guarantee: what a silent check has established, that \<open>--next-from\<close>
  continues the chain, and that a baseline taken of a trust store matches that trust store.
\<close>

subsection \<open>A silent check\<close>

lemma parse_strict_ok:
  assumes "parse_strict_baseline env data = Inr b"
  shows "(\<exists>v. unique_keys v \<and> da_lex env data = (render v, EndOfInput)) \<and> da_decode env data = Inr b
    \<and> da_trailing env data = AtEOF \<and> valid_roots (tb_roots b)"
proof -
  have "reject_duplicate_json_keys (fst (da_lex env data)) (snd (da_lex env data)) = Inr ()"
    using assms by (auto simp: parse_strict_baseline_def split: sum.splits)
  then have "\<exists>v. unique_keys v \<and> da_lex env data = (render v, EndOfInput)"
    by (auto simp: reject_keys_exact prod_eq_iff)
  then show ?thesis using assms
    by (auto simp: parse_strict_baseline_def validate_baseline_exact split: sum.splits stream_end.splits
        dest: validate_baseline_exact[THEN iffD1])
qed

definition verified_from :: "drift_env \<Rightarrow> gostring \<Rightarrow> gostring \<Rightarrow> gotime \<Rightarrow> trust_baseline \<Rightarrow> bool" where
  "verified_from env baseline_path public_key_path now b \<longleftrightarrow> (\<exists>data key v.
     da_read_file env baseline_path = Inr data \<and> unique_keys v \<and> da_lex env data = (render v, EndOfInput)
     \<and> da_decode env data = Inr b \<and> da_trailing env data = AtEOF \<and> valid_roots (tb_roots b)
     \<and> load_public_key env public_key_path = Inr key
     \<and> verify_baseline (se_crypto (da_state env)) b key = Inr ()
     \<and> tb_sequence b \<noteq> 0 \<and> now \<le> tb_expires_at b)"

lemma verified_baseline_ok:
  assumes "verified_baseline env bp kp now = Inr b"
  shows "verified_from env bp kp now b"
proof -
  obtain data key where "da_read_file env bp = Inr data" "parse_strict_baseline env data = Inr b"
    "load_public_key env kp = Inr key" "verify_baseline (se_crypto (da_state env)) b key = Inr ()"
    "tb_sequence b \<noteq> 0" "now \<le> tb_expires_at b"
    using assms by (auto simp: verified_baseline_def not_less split: sum.splits if_splits)
  with parse_strict_ok[of env data b] show ?thesis by (auto simp: verified_from_def)
qed

lemma load_verified_baseline_ok:
  assumes "load_verified_baseline env bp kp sp now s = (Inr b, s')"
  shows "verified_baseline env bp kp now = Inr b
    \<and> verify_and_advance_baseline_state (da_state env) b sp s = (Inr (), s')"
  using assms by (auto simp: load_verified_baseline_def op_bind_def op_fail_def op_return_def
      split: sum.splits prod.splits)

lemma evaluate_valid:
  "sr_baseline_valid (evaluate_trust_store h b certs now)" "sr_scan_success (evaluate_trust_store h b certs now)"
proof -
  let ?ok = "\<lambda>r. sr_baseline_valid r \<and> sr_scan_success r"
  have classify: "?ok r \<Longrightarrow> ?ok (classify_certificate h rs legacy c r)" for rs legacy c r
    by (auto simp: classify_certificate_def classify_expiry_def classify_identity_def count_changed_def
        add_event_def Let_def split: option.split)
  have classified: "?ok r \<Longrightarrow> ?ok (fold (classify_certificate h rs legacy) cs r)" for rs legacy cs r
    by (induction cs arbitrary: r) (simp_all add: classify)
  have missing: "?ok (snd st) \<Longrightarrow> ?ok (snd (check_missing observed r st))" for observed r st
    by (cases st) (auto simp: check_missing_def add_event_def Let_def split: prod.splits)
  have "?ok (snd st) \<Longrightarrow> ?ok (snd (fold (check_missing observed) rs st))" for observed rs st
    by (induction rs arbitrary: st) (use missing in auto)
  then have "?ok (evaluate_trust_store h b certs now)"
    using classified by (simp add: evaluate_trust_store_def Let_def)
  then show "sr_baseline_valid (evaluate_trust_store h b certs now)"
    "sr_scan_success (evaluate_trust_store h b certs now)" by auto
qed

lemma location_path: "state_location path = Inr x \<Longrightarrow> path \<noteq> []"
  by (auto simp: state_location_def clean_def clean_components_def clean_component_def is_abs_def path_base_def
      Let_def)

text \<open>A scan that found a valid baseline and read the trust store.\<close>

lemma scan_ok:
  assumes "scan_trust_store env bp kp sp dir now checked_at s = (Some r, s')"
    and "sr_baseline_valid r" and "sr_scan_success r"
  obtains b certs where "load_verified_baseline env bp kp sp checked_at s = (Inr b, s')"
    and "load_trust_store (da_hashing env) (da_host env) dir = Some (Inr certs)"
    and "r = evaluate_trust_store (da_hashing env) b certs now"
proof -
  obtain res where res: "load_verified_baseline env bp kp sp checked_at s = (res, s')"
    using assms(1) by (auto simp: scan_trust_store_def split: prod.splits sum.splits)
  obtain b where b: "res = Inr b"
    using assms(1,2) unfolding scan_trust_store_def res by (cases res) (auto simp: empty_scan_def)
  obtain l where l: "load_trust_store (da_hashing env) (da_host env) dir = Some l"
    "r = (case l of Inl e \<Rightarrow> (empty_scan now)\<lparr>sr_baseline_valid := True, sr_error := e\<rparr>
      | Inr certs \<Rightarrow> evaluate_trust_store (da_hashing env) b certs now)"
    using assms(1) unfolding scan_trust_store_def res b by auto
  show ?thesis using l assms(3) that res b by (cases l) (auto simp: empty_scan_def)
qed

text \<open>C16: A check that exits with 0 has read a baseline that is one JSON value without duplicate keys,
  carries a valid signature of the configured key, has not expired and is accepted by the rollback state,
  which now holds its sequence and digest; it has loaded the trust store, in which every root listed by
  certificate is present with its policy, every key has as many unlisted certificates as legacy entries,
  and nothing has expired.\<close>

theorem silent_check_sound:
  assumes "cmd_check env args now checked_at s = (Some 0, s')" and "a = parse_check_args args"
    and "state_codec (da_state env)" and "state_location (ca_state a) = Inr (dir, name)"
    and "stored_state (da_state env) name s = Inr st"
  shows "\<exists>b certs st'. verified_from env (ca_baseline a) (ca_public_key a) checked_at b
    \<and> accepts (da_state env) b st st' \<and> stored_state (da_state env) name s' = Inr st'
    \<and> load_trust_store (da_hashing env) (da_host env) (ca_extra_ca_dir a) = Some (Inr certs)
    \<and> (\<forall>r \<in> set (tb_roots b). re_cert_hash r \<noteq> [] \<longrightarrow> (\<exists>c \<in> set certs.
         certificate_hash (da_hashing env) c = re_cert_hash r
         \<and> \<not> policy_differs r (root_entry_of (da_hashing env) c)))
    \<and> (\<forall>k. unlisted_count (da_hashing env) (tb_roots b) certs k = legacy_count (tb_roots b) k)
    \<and> (\<forall>c \<in> set certs. now \<le> rc_not_after c)"
proof -
  let ?h = "da_hashing env"
  obtain r where scan: "scan_trust_store env (ca_baseline a) (ca_public_key a) (ca_state a)
      (ca_extra_ca_dir a) now checked_at s = (Some r, s')" and r: "check_verdict r = 0"
    using assms(1,2) by (auto simp: cmd_check_def Let_def split: prod.splits)
  have ok: "sr_baseline_valid r" "sr_scan_success r" "check_exit_code r = 0"
    using r by (auto simp: check_verdict_def split: if_splits)
  obtain b certs where res: "load_verified_baseline env (ca_baseline a) (ca_public_key a) (ca_state a) checked_at s
      = (Inr b, s')"
    and certs: "load_trust_store ?h (da_host env) (ca_extra_ca_dir a) = Some (Inr certs)"
    and eval: "r = evaluate_trust_store ?h b certs now"
    using scan_ok[OF scan ok(1,2)] by blast
  note loaded = load_verified_baseline_ok[OF res]
  have verified: "verified_from env (ca_baseline a) (ca_public_key a) checked_at b"
    using loaded verified_baseline_ok by blast
  obtain st' where st': "stored_state (da_state env) name s' = Inr st'" "accepts (da_state env) b st st'"
    using baseline_transaction_run[OF assms(3,4) location_path[OF assms(4)] _ assms(5)] loaded by blast
  have "valid_roots (tb_roots b)" using verified by (auto simp: verified_from_def)
  moreover have "distinct (map (certificate_hash ?h) certs)" using load_trust_store_ok[OF certs] ..
  ultimately have "check_exit_code r = 0 \<longleftrightarrow> (\<forall>r \<in> set (tb_roots b). re_cert_hash r \<noteq> [] \<longrightarrow> (\<exists>c \<in> set certs.
         certificate_hash ?h c = re_cert_hash r \<and> \<not> policy_differs r (root_entry_of ?h c)))
    \<and> (\<forall>k. unlisted_count ?h (tb_roots b) certs k = legacy_count (tb_roots b) k)
    \<and> (\<forall>c \<in> set certs. \<not> rc_not_after c < now)"
    unfolding eval by (rule no_drift)
  with ok(3) verified st' certs show ?thesis unfolding not_less by blast
qed

subsection \<open>The next baseline\<close>

lemma cmd_baseline_written:
  assumes "cmd_baseline env signing_key written args now = Some (BaselineWritten out b digest)"
  shows "\<exists>n p d certs key u. (if parse_flag args ''--next-from'' [] \<noteq> []
      then next_from env (parse_flag args ''--next-from'' []) (parse_flag args ''--public-key''
        (parse_flag args ''-o'' ''truststore-baseline.json'' @ ''.pub'')) = Inr (n, p) else n \<noteq> 0)
    \<and> 0 < d \<and> load_trust_store (da_hashing env) (da_host env)
      (parse_flag args ''--extra-ca-dir'' ''/usr/local/share/ca-certificates'') = Some (Inr certs)
    \<and> u = unsigned_baseline (da_hashing env) certs now d n p
    \<and> validate_baseline u = Inr () \<and> signing_key = Inr key
    \<and> sign_baseline (se_crypto (da_state env)) key u = Inr b
    \<and> baseline_digest (se_crypto (da_state env)) b = Inr digest"
proof -
  let ?out = "parse_flag args ''-o'' ''truststore-baseline.json''"
  let ?next = "parse_flag args ''--next-from'' []"
  obtain n0 where n0: "da_scan_uint64 env (parse_flag args ''--sequence'' ''1'') = Some n0" "n0 \<noteq> 0"
    using assms by (auto simp: cmd_baseline_def plan_baseline_def Let_def split: option.splits if_splits)
  obtain n p where np: "(if ?next \<noteq> [] then next_from env ?next (parse_flag args ''--public-key'' (?out @ ''.pub''))
      else Inr (n0, parse_flag args ''--previous-digest'' [])) = Inr (n, p)"
    using assms n0 by (auto simp: cmd_baseline_def plan_baseline_def Let_def split: option.splits if_splits sum.splits)
  obtain d where d: "da_parse_duration env (parse_flag args ''--expires-in'' ''8760h'') = Some d" "0 < d"
    using assms n0 np by (auto simp: cmd_baseline_def plan_baseline_def Let_def not_le split: option.splits if_splits)
  obtain certs where certs: "load_trust_store (da_hashing env) (da_host env)
      (parse_flag args ''--extra-ca-dir'' ''/usr/local/share/ca-certificates'') = Some (Inr certs)"
    and fin: "finish_baseline env signing_key written ?out
      (unsigned_baseline (da_hashing env) certs now d n p) = BaselineWritten out b digest"
    using assms n0 np d by (auto simp: cmd_baseline_def plan_baseline_def Let_def split: if_splits sum.splits)
  let ?u = "unsigned_baseline (da_hashing env) certs now d n p"
  have "validate_baseline ?u = Inr ()" "\<exists>key. signing_key = Inr key \<and> sign_baseline (se_crypto (da_state env)) key ?u = Inr b"
    "baseline_digest (se_crypto (da_state env)) b = Inr digest"
    using fin by (auto simp: finish_baseline_def split: sum.splits option.splits)
  with np n0 d(2) certs show ?thesis by (auto split: if_splits)
qed

lemma cmd_baseline_signed:
  assumes "cmd_baseline env (Inr key) written args now = Some (BaselineWritten out b digest)"
    and "load_trust_store (da_hashing env) (da_host env)
      (parse_flag args ''--extra-ca-dir'' ''/usr/local/share/ca-certificates'') = Some (Inr certs)"
  shows "\<exists>n p d u. u = unsigned_baseline (da_hashing env) certs now d n p \<and> validate_baseline u = Inr ()
    \<and> sign_baseline (se_crypto (da_state env)) key u = Inr b"
  using cmd_baseline_written[OF assms(1)] unfolding assms(2) by blast

lemma signed_fields:
  "sign_baseline bc key u = Inr b \<Longrightarrow> tb_sequence b = tb_sequence u \<and> tb_previous_digest b = tb_previous_digest u
     \<and> tb_roots b = tb_roots u \<and> baseline_payload bc b = baseline_payload bc u"
  by (auto simp: sign_baseline_def baseline_payload_def)

lemma next_from_ok:
  assumes "next_from env path kp = Inr (n, p)"
  shows "\<exists>data previous. da_read_file env path = Inr data \<and> parse_strict_baseline env data = Inr previous
    \<and> baseline_digest (se_crypto (da_state env)) previous = Inr p
    \<and> tb_sequence previous \<noteq> - 1 \<and> n = tb_sequence previous + 1"
  using assms by (auto simp: next_from_def split: sum.splits if_splits)

lemma unat_next: "(w :: 64 word) \<noteq> - 1 \<Longrightarrow> unat (w + 1) = Suc (unat w)"
  by (metis add.commute add.right_neutral add_eq_0_iff unatSuc)

text \<open>A baseline produced with \<open>--next-from\<close> continues the chain of its predecessor: its sequence is
  the predecessor's plus one, without wrapping around, and an agent whose state is the predecessor's
  accepts it and moves on to it.\<close>

theorem next_baseline_accepted:
  assumes "cmd_baseline env signing_key written args now = Some (BaselineWritten out b digest)"
    and "parse_flag args ''--next-from'' [] \<noteq> []"
  shows "\<exists>data previous previous_digest.
    da_read_file env (parse_flag args ''--next-from'' []) = Inr data
    \<and> parse_strict_baseline env data = Inr previous
    \<and> baseline_digest (se_crypto (da_state env)) previous = Inr previous_digest
    \<and> unat (tb_sequence b) = Suc (unat (tb_sequence previous))
    \<and> check_against_state b digest (accepted_state previous previous_digest) = Inr True"
proof -
  obtain n p d certs key u where c: "next_from env (parse_flag args ''--next-from'' [])
      (parse_flag args ''--public-key'' (parse_flag args ''-o'' ''truststore-baseline.json'' @ ''.pub'')) = Inr (n, p)"
    "u = unsigned_baseline (da_hashing env) certs now d n p"
    "sign_baseline (se_crypto (da_state env)) key u = Inr b"
    using cmd_baseline_written[OF assms(1)] assms(2) by auto
  obtain data previous where prev: "da_read_file env (parse_flag args ''--next-from'' []) = Inr data"
    "parse_strict_baseline env data = Inr previous"
    "baseline_digest (se_crypto (da_state env)) previous = Inr p"
    "tb_sequence previous \<noteq> - 1" "n = tb_sequence previous + 1"
    using next_from_ok[OF c(1)] by blast
  have b: "tb_sequence b = tb_sequence previous + 1" "tb_previous_digest b = p"
    using signed_fields[OF c(3)] c(2) prev(5) by (simp_all add: unsigned_baseline_def)
  have succ: "unat (tb_sequence b) = Suc (unat (tb_sequence previous))" using unat_next[OF prev(4)] b by simp
  then have "tb_sequence previous < tb_sequence b" by (simp add: word_less_nat_alt)
  then have "check_against_state b digest (accepted_state previous p) = Inr True"
    using b(2) by (auto simp: check_against_state_def accepted_state_def)
  with succ prev(1-3) show ?thesis by blast
qed

subsection \<open>A baseline of a trust store matches it\<close>

text \<open>What the standard library promises of the key pair and of Base64.\<close>

definition key_pair :: "baseline_crypto \<Rightarrow> bytes \<Rightarrow> bytes \<Rightarrow> bool" where
  "key_pair bc private public \<longleftrightarrow> (\<forall>payload. bc_verify bc public payload (bc_sign bc private payload))
     \<and> (\<forall>x. bc_unbase64 bc (bc_base64 bc x) = Inr x)"

lemma sign_verify:
  assumes "key_pair bc private public" and "sign_baseline bc private u = Inr b"
  shows "verify_baseline bc b public = Inr ()"
proof -
  obtain payload where "baseline_payload bc u = Inr payload"
    "tb_signature b = bc_base64 bc (bc_sign bc private payload)"
    using assms(2) by (auto simp: sign_baseline_def)
  then show ?thesis using assms(1) signed_fields[OF assms(2)]
    by (simp add: verify_baseline_def key_pair_def)
qed

lemma own_roots_match:
  assumes "\<forall>x. hash_hex h x \<noteq> []" and "set rs = root_entry_of h ` set certs"
  shows "unlisted_count h rs certs s = 0" "legacy_count rs s = 0"
proof -
  have entry: "re_cert_hash (root_entry_of h c) = certificate_hash h c" "certificate_hash h c \<noteq> []" for c
    using assms(1) by (simp_all add: root_entry_of_def certificate_hash_def)
  have hashes: "re_cert_hash ` set rs = certificate_hash h ` set certs"
    by (simp add: assms(2) image_image entry(1))
  then have "listed h rs c" if "c \<in> set certs" for c
    using that entry(2) by (simp add: listed_def)
  then show "unlisted_count h rs certs s = 0" by (simp add: unlisted_count_def filter_empty_conv)
  have "\<not> is_legacy r" if "r \<in> set rs" for r
    using that assms(2) entry by (auto simp: is_legacy_def)
  then show "legacy_count rs s = 0" by (simp add: legacy_count_def filter_empty_conv)
qed

text \<open>A baseline that the agent writes verifies with the key pair's public key, and a later check of
  the same trust store, enumerated in any order, is silent exactly as long as none of its roots has
  expired.\<close>

theorem baseline_check_roundtrip:
  assumes "cmd_baseline env signing_key written args now = Some (BaselineWritten out b digest)"
    and "load_trust_store (da_hashing env) (da_host env)
      (parse_flag args ''--extra-ca-dir'' ''/usr/local/share/ca-certificates'') = Some (Inr certs)"
    and "signing_key = Inr private" and "key_pair (se_crypto (da_state env)) private public"
    and "\<forall>x. hash_hex (da_hashing env) x \<noteq> []" and "mset certs' = mset certs"
  shows "verify_baseline (se_crypto (da_state env)) b public = Inr ()
    \<and> (check_exit_code (evaluate_trust_store (da_hashing env) b certs' later) = 0
       \<longleftrightarrow> (\<forall>c \<in> set certs'. later \<le> rc_not_after c))"
proof -
  let ?h = "da_hashing env"
  obtain n p d u where c: "u = unsigned_baseline ?h certs now d n p" "validate_baseline u = Inr ()"
    "sign_baseline (se_crypto (da_state env)) private u = Inr b"
    using cmd_baseline_signed[OF assms(1)[unfolded assms(3)] assms(2)] by blast
  have sets: "set certs' = set certs" using assms(6) by (metis set_mset_mset)
  have roots: "tb_roots b = tb_roots u" using signed_fields[OF c(3)] by simp
  have rs: "set (tb_roots b) = root_entry_of ?h ` set certs'"
    by (simp add: roots c(1) unsigned_baseline_def sort_roots_def sets)
  have valid: "valid_roots (tb_roots b)" using c(2) roots by (simp add: validate_baseline_exact)
  have "distinct (map (certificate_hash ?h) certs')"
    using load_trust_store_ok[OF assms(2)] assms(6) by (metis mset_eq_imp_distinct_iff mset_map)
  from no_drift[OF valid this, of later] own_roots_match[OF assms(5) rs]
  have "check_exit_code (evaluate_trust_store ?h b certs' later) = 0 \<longleftrightarrow>
      (\<forall>r \<in> set (tb_roots b). re_cert_hash r \<noteq> [] \<longrightarrow> (\<exists>c \<in> set certs'.
         certificate_hash ?h c = re_cert_hash r \<and> \<not> policy_differs r (root_entry_of ?h c)))
      \<and> (\<forall>c \<in> set certs'. \<not> rc_not_after c < later)" by simp
  moreover have "\<exists>c \<in> set certs'. certificate_hash ?h c = re_cert_hash r \<and> \<not> policy_differs r (root_entry_of ?h c)"
    if r: "r \<in> set (tb_roots b)" for r
  proof -
    obtain c where "c \<in> set certs'" "r = root_entry_of ?h c" using rs r by auto
    then show ?thesis by (intro bexI[of _ c]) (simp_all add: root_entry_of_def policy_differs_def)
  qed
  ultimately show ?thesis using sign_verify[OF assms(4) c(3)] by (auto simp: not_less)
qed

subsection \<open>A host with one root\<close>

definition sample_agent_hashing :: hashing where
  "sample_agent_hashing = \<lparr>hash_hex = (\<lambda>b. CHR ''#'' # b), hash_policy = (\<lambda>p. [])\<rparr>"

definition sample_agent_baseline :: trust_baseline where
  "sample_agent_baseline = (numbered_baseline 1 [])
     \<lparr>tb_roots := [root_entry_of sample_agent_hashing (sample_root ''a'' ''k'' True)], tb_signature := ''K1''\<rparr>"

definition sample_agent :: drift_env where
  "sample_agent = \<lparr>da_hashing = sample_agent_hashing, da_state = sample_state_env,
     da_host = \<lparr>th_goos = ''linux'',
       th_pem = \<lparr>pe_pem = (\<lambda>d. Some (d, [])), pe_parse = (\<lambda>b. Some (sample_root b ''k'' True))\<rparr>,
       th_read_file = (\<lambda>p. if p = hd bundle_candidates then Some ''a'' else None), th_walk = (\<lambda>_. None)\<rparr>,
     da_keys = \<lparr>ke_pem_block = Some, ke_parse_pkix = (\<lambda>_. Inr (Ed25519Key ''K'')),
       ke_parse_pkcs8 = (\<lambda>_. Inr (Ed25519Key ''K''))\<rparr>,
     da_lex = (\<lambda>_. ([ScalarLexeme ''1''], EndOfInput)), da_decode = (\<lambda>_. Inr sample_agent_baseline),
     da_trailing = (\<lambda>_. AtEOF), da_error_text = (\<lambda>_. ''json''), da_read_file = (\<lambda>_. Inr []),
     da_rfc3339 = (\<lambda>_. []), da_scan_uint64 = (\<lambda>_. Some 1), da_parse_duration = (\<lambda>_. Some 5)\<rparr>"

definition written_outcome :: "baseline_outcome option \<Rightarrow> (trust_baseline \<times> gostring) option" where
  "written_outcome r = (case r of Some (BaselineWritten out b digest) \<Rightarrow> Some (b, digest) | _ \<Rightarrow> None)"

lemma written_outcome_Some:
  "written_outcome r = Some (b, digest) \<Longrightarrow> \<exists>out. r = Some (BaselineWritten out b digest)"
  by (auto simp: written_outcome_def split: option.splits baseline_outcome.splits)

lemma sample_agent_certs: "load_trust_store (da_hashing sample_agent) (da_host sample_agent)
    ''/usr/local/share/ca-certificates'' = Some (Inr [sample_root ''a'' ''k'' True])"
  by code_simp

definition sample_state_path :: gostring where
  "sample_state_path = ''truststore-baseline.json.state''"

lemma sample_agent_location: "state_location (ca_state (parse_check_args [])) = Inr (''.'', sample_state_path)"
  by code_simp

lemma sample_agent_stored:
  "stored_state (da_state sample_agent) sample_state_path empty_state_directory = Inr no_baseline_state"
  by (simp add: stored_state_def empty_state_directory_def)

lemma sample_agent_codec: "state_codec (da_state sample_agent)"
  by (simp add: sample_agent_def sample_codec)

lemma sample_check: "fst (cmd_check sample_agent [] (Instant 5) (Instant 5) empty_state_directory) = Some 0"
  by code_simp

theorem silent_check_sound_witness:
  "\<exists>b (certs :: root_cert list). verified_from sample_agent ''truststore-baseline.json'' ''truststore-baseline.json.pub'' (Instant 5) b
     \<and> (\<forall>c \<in> set certs. Instant 5 \<le> rc_not_after c) \<and> certs \<noteq> []"
proof -
  have run: "cmd_check sample_agent [] (Instant 5) (Instant 5) empty_state_directory
      = (Some 0, snd (cmd_check sample_agent [] (Instant 5) (Instant 5) empty_state_directory))"
    using sample_check by (metis prod.collapse)
  have args: "ca_baseline (parse_check_args []) = ''truststore-baseline.json''"
    "ca_public_key (parse_check_args []) = ''truststore-baseline.json.pub''"
    "ca_extra_ca_dir (parse_check_args []) = ''/usr/local/share/ca-certificates''" by code_simp+
  obtain b certs where b: "verified_from sample_agent ''truststore-baseline.json'' ''truststore-baseline.json.pub'' (Instant 5) b"
    and certs: "Some (Inr [sample_root ''a'' ''k'' True]) = Some (Inr certs :: gostring + root_cert list)"
    and unexpired: "\<forall>c \<in> set certs. Instant 5 \<le> rc_not_after c"
    using silent_check_sound[OF run refl sample_agent_codec sample_agent_location sample_agent_stored]
    unfolding args sample_agent_certs by (elim exE conjE) (rule that)
  have "certs = [sample_root ''a'' ''k'' True]" using certs by simp
  then have "certs \<noteq> []" by simp
  with b unexpired show ?thesis by (intro exI[of _ b] exI[of _ certs] conjI)
qed

theorem next_baseline_accepted_witness:
  "\<exists>b digest previous_digest. check_against_state b digest (accepted_state sample_agent_baseline previous_digest) = Inr True
     \<and> unat (tb_sequence b) = Suc (unat (tb_sequence sample_agent_baseline))"
proof -
  let ?run = "cmd_baseline sample_agent (Inr ''K'') (\<lambda>_. None) [''--next-from'', ''p''] (Instant 5)"
  have "written_outcome ?run \<noteq> None" by code_simp
  then obtain b digest where "written_outcome ?run = Some (b, digest)" by auto
  then obtain out where "?run = Some (BaselineWritten out b digest)" using written_outcome_Some by blast
  moreover have "parse_flag [''--next-from'', ''p''] ''--next-from'' [] \<noteq> []" by code_simp
  ultimately obtain data previous pd where
    "parse_strict_baseline sample_agent data = Inr previous" "unat (tb_sequence b) = Suc (unat (tb_sequence previous))"
    "check_against_state b digest (accepted_state previous pd) = Inr True"
    using next_baseline_accepted by blast
  moreover have "previous = sample_agent_baseline"
    using parse_strict_ok[OF calculation(1)] by (simp add: sample_agent_def)
  ultimately show ?thesis by blast
qed

theorem baseline_check_roundtrip_witness:
  "\<exists>b. verify_baseline (se_crypto (da_state sample_agent)) b ''K'' = Inr ()
     \<and> check_exit_code (evaluate_trust_store (da_hashing sample_agent) b [sample_root ''a'' ''k'' True] (Instant 7)) = 0"
proof -
  let ?run = "cmd_baseline sample_agent (Inr ''K'') (\<lambda>_. None) [] (Instant 5)"
  have "written_outcome ?run \<noteq> None" by code_simp
  then obtain b digest where "written_outcome ?run = Some (b, digest)" by auto
  then obtain out where run: "?run = Some (BaselineWritten out b digest)" using written_outcome_Some by blast
  have certs: "load_trust_store (da_hashing sample_agent) (da_host sample_agent)
      (parse_flag [] ''--extra-ca-dir'' ''/usr/local/share/ca-certificates'')
      = Some (Inr [sample_root ''a'' ''k'' True])" using sample_agent_certs by simp
  have "key_pair (se_crypto (da_state sample_agent)) ''K'' ''K''"
    by (simp add: key_pair_def sample_agent_def sample_state_env_def)
  moreover have "\<forall>x. hash_hex (da_hashing sample_agent) x \<noteq> []"
    by (simp add: sample_agent_def sample_agent_hashing_def)
  ultimately show ?thesis
    using baseline_check_roundtrip[OF run certs refl _ _ refl, of "''K''" "Instant 7"]
    by (intro exI[of _ b]) (simp add: sample_root_def)
qed

end
