(* ===== verification/Streams.thy ===== *)
theory Streams imports Effects
begin

text \<open>
  What a command writes: standard output and log files, as the text that reached them and the faults that
  the next writes meet.
\<close>

text \<open>\<open>so_fault n\<close>: the \<open>n\<close>th write stops after some bytes with an error.\<close>

record stdout =
  so_text :: bytes
  so_writes :: nat
  so_fault :: "nat \<Rightarrow> (nat \<times> gostring) option"

definition write_out :: "bytes \<Rightarrow> (stdout, gostring, unit) op" where
  "write_out b = (\<lambda>out. case so_fault out (so_writes out) of
       None \<Rightarrow> (Inr (), out\<lparr>so_text := so_text out @ b, so_writes := Suc (so_writes out)\<rparr>)
     | Some (n, e) \<Rightarrow> (Inl e, out\<lparr>so_text := so_text out @ take n b, so_writes := Suc (so_writes out)\<rparr>))"

text \<open>Without faults everything written arrives, in order.\<close>

lemma write_out_ok: "\<forall>n. so_fault out n = None \<Longrightarrow>
    write_out b out = (Inr (), out\<lparr>so_text := so_text out @ b, so_writes := Suc (so_writes out)\<rparr>)"
  by (simp add: write_out_def)

lemma write_each_ok:
  assumes "\<forall>n. so_fault out n = None"
  shows "\<exists>n. op_each (\<lambda>x. write_out (f x)) xs out = (Inr (), out\<lparr>so_text := so_text out @ concat (map f xs), so_writes := n\<rparr>)"
  using assms
proof (induction xs arbitrary: out)
  case Nil
  show ?case by (intro exI[of _ "so_writes out"]) (simp add: op_return_def)
next
  case (Cons x xs)
  let ?out = "out\<lparr>so_text := so_text out @ f x, so_writes := Suc (so_writes out)\<rparr>"
  have "\<forall>n. so_fault ?out n = None" using Cons.prems by simp
  from Cons.IH[OF this] show ?case by (auto simp: op_bind_def write_out_ok[OF Cons.prems])
qed

text \<open>Writing only ever appends.\<close>

definition appended :: "stdout \<Rightarrow> stdout \<Rightarrow> bool" where
  "appended s s' \<longleftrightarrow> (\<exists>b. so_text s' = so_text s @ b)"

interpretation appending: run_relation appended
  by unfold_locales (auto simp: appended_def)

lemma appended_write: "preserves appended (write_out b)"
  by (auto simp: preserves_def appended_def write_out_def split: option.split)

end
