(* ===== verification/Drift_Service.thy ===== *)
theory Drift_Service imports Drift_Agent Streams
begin

text \<open>
  The drift agent around its decisions (\<open>truststore-drift-agent/main.go\<close>): finding or creating the signing key,
  writing the signed baseline, printing and logging what a check found, and \<open>serve\<close>, which scans again at every
  tick and answers requests from the latest result.  The state directory of the rollback state is the file
  system of \<open>Drift_Agent\<close>; the files of keys and baselines are a separate, simpler store.
\<close>

subsection \<open>Key files\<close>

text \<open>\<open>os.WriteFile\<close> truncates the file it opens; a later error leaves what was written so far.\<close>

datatype write_fault = CannotOpen gostring | ShortWrite nat gostring

record plain_files =
  pf_nodes :: "gostring \<rightharpoonup> bytes"
  pf_read_error :: "gostring \<Rightarrow> gostring option"
  pf_writes :: nat
  pf_fault :: "nat \<Rightarrow> write_fault option"

datatype read_outcome = FileContents bytes | NoSuchFile | CannotRead gostring

definition read_plain :: "gostring \<Rightarrow> plain_files \<Rightarrow> read_outcome" where
  "read_plain path fs = (case pf_read_error fs path of Some e \<Rightarrow> CannotRead e
     | None \<Rightarrow> (case pf_nodes fs path of None \<Rightarrow> NoSuchFile | Some b \<Rightarrow> FileContents b))"

definition write_plain :: "gostring \<Rightarrow> bytes \<Rightarrow> (plain_files, gostring, unit) op" where
  "write_plain path b = (\<lambda>fs. let fs' = fs\<lparr>pf_writes := Suc (pf_writes fs)\<rparr> in
     case pf_fault fs (pf_writes fs) of
       None \<Rightarrow> (Inr (), fs'\<lparr>pf_nodes := (pf_nodes fs)(path \<mapsto> b)\<rparr>)
     | Some (CannotOpen e) \<Rightarrow> (Inl e, fs')
     | Some (ShortWrite n e) \<Rightarrow> (Inl e, fs'\<lparr>pf_nodes := (pf_nodes fs)(path \<mapsto> take n b)\<rparr>))"

text \<open>Key generation, the encodings of keys, and PEM blocks by their type.\<close>

record key_maker =
  km_generate :: "gostring + bytes"
  km_public_of :: "bytes \<Rightarrow> bytes"
  km_pkcs8 :: "bytes \<Rightarrow> gostring + bytes"
  km_pkix :: "bytes \<Rightarrow> gostring + bytes"
  km_pem :: "gostring \<Rightarrow> bytes \<Rightarrow> bytes"

definition publish_key :: "key_maker \<Rightarrow> gostring \<Rightarrow> bytes \<Rightarrow> (plain_files, gostring, bytes) op" where
  "publish_key km public_path key =
     op_bind (op_of (km_pkix km (km_public_of km key))) (\<lambda>der.
     op_bind (write_plain public_path (km_pem km ''PUBLIC KEY'' der)) (\<lambda>_. op_return key))"

definition create_signing_key :: "key_maker \<Rightarrow> gostring \<Rightarrow> gostring \<Rightarrow> (plain_files, gostring, bytes) op" where
  "create_signing_key km private_path public_path =
     op_bind (op_of (km_generate km)) (\<lambda>key.
     op_bind (op_of (km_pkcs8 km key)) (\<lambda>private_der.
     op_bind (op_of (km_pkix km (km_public_of km key))) (\<lambda>public_der.
     op_bind (write_plain private_path (km_pem km ''PRIVATE KEY'' private_der)) (\<lambda>_.
     op_bind (write_plain public_path (km_pem km ''PUBLIC KEY'' public_der)) (\<lambda>_. op_return key)))))"

definition load_or_create_signing_key ::
  "key_env \<Rightarrow> key_maker \<Rightarrow> gostring \<Rightarrow> gostring \<Rightarrow> (plain_files, gostring, bytes) op" where
  "load_or_create_signing_key keys km private_path public_path = (\<lambda>fs.
     case read_plain private_path fs of
       FileContents data \<Rightarrow>
         op_bind (op_of (read_ed25519 (ke_pem_block keys) (ke_parse_pkcs8 keys) ''decoding private key PEM''
           (\<lambda>e. e) ''private key is not Ed25519'' data)) (publish_key km public_path) fs
     | CannotRead e \<Rightarrow> (Inl e, fs)
     | NoSuchFile \<Rightarrow> create_signing_key km private_path public_path fs)"

subsection \<open>Writing a baseline\<close>

text \<open>\<open>indent\<close> is \<open>json.MarshalIndent\<close>, which the code gives up on at an error; the key is only looked for once the
  baseline is valid.\<close>

definition baseline_command :: "drift_env \<Rightarrow> key_maker \<Rightarrow> (trust_baseline \<Rightarrow> gostring + bytes) \<Rightarrow> gostring list \<Rightarrow> gotime
    \<Rightarrow> plain_files \<Rightarrow> baseline_outcome option \<times> plain_files" where
  "baseline_command env km indent args now fs =
     (case plan_baseline env args now of None \<Rightarrow> (None, fs)
      | Some (Inl outcome) \<Rightarrow> (Some outcome, fs)
      | Some (Inr (out_path, b)) \<Rightarrow>
        if \<not> is_ok (validate_baseline b)
        then (Some (finish_baseline env (Inl []) (\<lambda>_. None) out_path b), fs)
        else (case load_or_create_signing_key (da_keys env) km
            (parse_flag args ''--private-key'' (out_path @ ''.key''))
            (parse_flag args ''--public-key'' (out_path @ ''.pub'')) fs of
          (key, fs1) \<Rightarrow>
            let writing = (\<lambda>sb. case indent sb of Inl e \<Rightarrow> (Inl (''marshaling: '' @ e), fs1)
                  | Inr data \<Rightarrow> op_wrap (\<lambda>e. ''writing '' @ out_path @ '': '' @ e) (write_plain out_path data) fs1);
                outcome = finish_baseline env key (\<lambda>sb. case fst (writing sb) of Inl e \<Rightarrow> Some e | Inr _ \<Rightarrow> None) out_path b
            in (Some outcome, case ok_bind key (\<lambda>k. sign_baseline (se_crypto (da_state env)) k b) of
                  Inl _ \<Rightarrow> fs1 | Inr sb \<Rightarrow> snd (writing sb))))"

subsection \<open>Events\<close>

text \<open>The log of the events: its directory, the file, and one line for each event.\<close>

record event_log =
  el_mkdir_error :: "gostring option"
  el_open_error :: "gostring option"
  el_file :: stdout

definition on_log_file :: "(stdout, gostring, unit) op \<Rightarrow> (event_log, gostring, unit) op" where
  "on_log_file m = (\<lambda>l. case m (el_file l) of (r, f) \<Rightarrow> (r, l\<lparr>el_file := f\<rparr>))"

definition event_line :: "(drift_event \<Rightarrow> bytes) \<Rightarrow> drift_event \<Rightarrow> bytes" where
  "event_line encode e = encode e @ [CHR 0x0A]"

definition append_log :: "(drift_event \<Rightarrow> bytes) \<Rightarrow> drift_event list \<Rightarrow> (event_log, gostring, unit) op" where
  "append_log encode events = (\<lambda>l.
     case el_mkdir_error l of Some e \<Rightarrow> (Inl e, l)
     | None \<Rightarrow> (case el_open_error l of Some e \<Rightarrow> (Inl e, l)
       | None \<Rightarrow> on_log_file (op_each (\<lambda>e. write_out (event_line encode e)) events) l))"

subsection \<open>check\<close>

record agent_io =
  ai_state :: fs
  ai_log :: event_log
  ai_stdout :: stdout
  ai_stderr :: "gostring list"

definition complain :: "gostring \<Rightarrow> agent_io \<Rightarrow> agent_io" where
  "complain message io = io\<lparr>ai_stderr := ai_stderr io @ [message]\<rparr>"

text \<open>Events are logged when there are any and a path is given; a log that fails is only a complaint.\<close>

definition log_events :: "(drift_event \<Rightarrow> bytes) \<Rightarrow> gostring \<Rightarrow> (gostring \<Rightarrow> gostring) \<Rightarrow> drift_event list \<Rightarrow> agent_io \<Rightarrow> agent_io"
where
  "log_events encode path complaint events io =
     (if path = [] \<or> events = [] then io
      else case append_log encode events (ai_log io) of
        (Inl e, l) \<Rightarrow> complain (complaint e) (io\<lparr>ai_log := l\<rparr>)
      | (Inr _, l) \<Rightarrow> io\<lparr>ai_log := l\<rparr>)"

text \<open>Errors of printing are dropped.\<close>

definition print_scan :: "(drift_event \<Rightarrow> bytes) \<Rightarrow> scan_result \<Rightarrow> stdout \<Rightarrow> stdout" where
  "print_scan encode r out =
     (let out1 = snd (op_each (\<lambda>e. op_ignore (write_out (event_line encode e))) (sr_events r) out)
      in snd (write_out (prometheus_text r) out1))"

definition check_complaint :: "gostring \<Rightarrow> gostring \<Rightarrow> gostring" where
  "check_complaint path e = ''check: WARNING: could not write '' @ path @ '': '' @ e"

definition check_command :: "drift_env \<Rightarrow> (drift_event \<Rightarrow> bytes) \<Rightarrow> gostring list \<Rightarrow> gotime \<Rightarrow> gotime \<Rightarrow> agent_io
    \<Rightarrow> int option \<times> agent_io" where
  "check_command env encode args now checked_at io =
     (let a = parse_check_args args in
      case scan_trust_store env (ca_baseline a) (ca_public_key a) (ca_state a) (ca_extra_ca_dir a)
          now checked_at (ai_state io) of
        (None, s) \<Rightarrow> (None, io\<lparr>ai_state := s\<rparr>)
      | (Some r, s) \<Rightarrow>
        let io1 = io\<lparr>ai_state := s, ai_stdout := print_scan encode r (ai_stdout io)\<rparr>;
            io2 = log_events encode (ca_log a) (check_complaint (ca_log a)) (sr_events r) io1
        in (Some (check_verdict r),
            if \<not> sr_baseline_valid r \<or> \<not> sr_scan_success r then complain (''check: '' @ sr_error r) io2 else io2))"

subsection \<open>serve\<close>

record agent_server =
  as_current :: scan_result
  as_io :: agent_io

text \<open>A scan of \<open>serve\<close>; the environment is that of the moment.  \<open>None\<close>: the scan does not return.\<close>

definition serve_complaint :: "gostring \<Rightarrow> gostring" where
  "serve_complaint e = ''serve: writing events: '' @ e"

definition serve_scan :: "(drift_event \<Rightarrow> bytes) \<Rightarrow> check_args \<Rightarrow> drift_env \<times> gotime \<times> gotime \<Rightarrow> agent_server
    \<Rightarrow> agent_server option" where
  "serve_scan encode a moment srv =
     (case moment of (env, now, checked_at) \<Rightarrow>
        (case scan_trust_store env (ca_baseline a) (ca_public_key a) (ca_state a) (ca_extra_ca_dir a)
            now checked_at (ai_state (as_io srv)) of
           (None, s) \<Rightarrow> None
         | (Some r, s) \<Rightarrow> Some \<lparr>as_current = r, as_io = log_events encode (ca_log a) serve_complaint (sr_events r)
             ((as_io srv)\<lparr>ai_state := s\<rparr>)\<rparr>))"

fun serve_scans :: "(drift_event \<Rightarrow> bytes) \<Rightarrow> check_args \<Rightarrow> (drift_env \<times> gotime \<times> gotime) list \<Rightarrow> agent_server
    \<Rightarrow> agent_server option" where
  "serve_scans encode a [] srv = Some srv"
| "serve_scans encode a (m # ms) srv =
     (case serve_scan encode a m srv of None \<Rightarrow> None | Some srv' \<Rightarrow> serve_scans encode a ms srv')"

text \<open>How \<open>serve\<close> starts: it ends at once, or it has scanned once and then listens.  \<open>ticks\<close> are the scans of the
  ticker so far.\<close>

datatype serve_outcome = ServeExit int gostring | Listening gostring duration agent_server

definition cmd_serve :: "(gostring \<Rightarrow> duration option) \<Rightarrow> (drift_event \<Rightarrow> bytes) \<Rightarrow> gostring list \<Rightarrow> gotime
    \<Rightarrow> drift_env \<times> gotime \<times> gotime \<Rightarrow> (drift_env \<times> gotime \<times> gotime) list \<Rightarrow> agent_io \<Rightarrow> serve_outcome option" where
  "cmd_serve parse_duration encode args started first ticks io =
     (let a = parse_check_args args;
          listen = parse_flag args ''--listen'' '':9120'';
          interval_arg = parse_flag args ''--interval'' ''60s'' in
      case parse_duration interval_arg of
        None \<Rightarrow> Some (ServeExit 2 (''serve: invalid --interval '' @ quote_text interval_arg))
      | Some interval \<Rightarrow>
        if interval \<le> 0 then Some (ServeExit 2 (''serve: invalid --interval '' @ quote_text interval_arg))
        else map_option (Listening listen interval)
          (serve_scans encode a (first # ticks) \<lparr>as_current = initial_scan started, as_io = io\<rparr>))"

text \<open>The subcommands; \<open>None\<close> is the usage text and status 2.\<close>

datatype agent_command = RunBaseline "gostring list" | RunCheck "gostring list" | RunServe "gostring list"

definition agent_main :: "gostring list \<Rightarrow> agent_command option" where
  "agent_main argv = (case argv of prog # name # args \<Rightarrow>
       if name = ''baseline'' then Some (RunBaseline args)
       else if name = ''check'' then Some (RunCheck args)
       else if name = ''serve'' then Some (RunServe args)
       else None
     | _ \<Rightarrow> None)"

end
