(* ===== verification/Drift_Service_Laws.thy ===== *)
theory Drift_Service_Laws imports Drift_Service Drift_Agent_Laws
begin

text \<open>
  What the drift agent leaves behind: a signing key that is found again, a signed baseline that its own
  checks accept until it expires, a log that only grows, and a server whose readiness and metrics are those
  of its latest scan.
\<close>

subsection \<open>The signing key\<close>

text \<open>What the standard library promises of the encodings of keys.\<close>

definition key_codec :: "key_env \<Rightarrow> key_maker \<Rightarrow> bool" where
  "key_codec keys km \<longleftrightarrow>
     (\<forall>key der. km_pkcs8 km key = Inr der \<longrightarrow> (\<exists>block. ke_pem_block keys (km_pem km ''PRIVATE KEY'' der) = Some block
        \<and> ke_parse_pkcs8 keys block = Inr (Ed25519Key key)))
     \<and> (\<forall>key der. km_pkix km key = Inr der \<longrightarrow> (\<exists>block. ke_pem_block keys (km_pem km ''PUBLIC KEY'' der) = Some block
        \<and> ke_parse_pkix keys block = Inr (Ed25519Key key)))"

lemma key_codec_public: "key_codec keys km \<Longrightarrow> km_pkix km key = Inr der \<Longrightarrow>
    \<exists>block. ke_pem_block keys (km_pem km ''PUBLIC KEY'' der) = Some block \<and> ke_parse_pkix keys block = Inr (Ed25519Key key)"
  unfolding key_codec_def by blast

lemma runs_write_plain [simp]: "runs (write_plain path b) fs u fs' \<longleftrightarrow> pf_fault fs (pf_writes fs) = None
    \<and> fs' = fs\<lparr>pf_writes := Suc (pf_writes fs), pf_nodes := (pf_nodes fs)(path \<mapsto> b)\<rparr>"
  by (auto simp: runs_def write_plain_def Let_def split: option.splits write_fault.splits)

text \<open>What a successful search for the key leaves: the private file decodes to the key, and the public file is
  that of its public half.\<close>

definition holds_key :: "key_env \<Rightarrow> key_maker \<Rightarrow> gostring \<Rightarrow> gostring \<Rightarrow> bytes \<Rightarrow> plain_files \<Rightarrow> bool" where
  "holds_key keys km private_path public_path key fs \<longleftrightarrow> (\<exists>data block der.
     pf_read_error fs private_path = None \<and> pf_nodes fs private_path = Some data
     \<and> ke_pem_block keys data = Some block \<and> ke_parse_pkcs8 keys block = Inr (Ed25519Key key)
     \<and> km_pkix km (km_public_of km key) = Inr der \<and> pf_nodes fs public_path = Some (km_pem km ''PUBLIC KEY'' der))"

lemma signing_key_found:
  assumes "runs (load_or_create_signing_key keys km private_path public_path) fs key fs'"
    and "key_codec keys km" and "private_path \<noteq> public_path"
  shows "holds_key keys km private_path public_path key fs'"
    and "pf_nodes fs private_path \<noteq> None \<Longrightarrow> pf_nodes fs' private_path = pf_nodes fs private_path"
    and "p \<noteq> private_path \<Longrightarrow> p \<noteq> public_path \<Longrightarrow> pf_nodes fs' p = pf_nodes fs p"
    and "pf_read_error fs' = pf_read_error fs"
proof -
  let ?read = "\<lambda>data. read_ed25519 (ke_pem_block keys) (ke_parse_pkcs8 keys) ''decoding private key PEM''
           (\<lambda>e. e) ''private key is not Ed25519'' data"
  consider (found) data where "read_plain private_path fs = FileContents data"
      "runs (op_bind (op_of (?read data)) (publish_key km public_path)) fs key fs'"
    | (created) "read_plain private_path fs = NoSuchFile"
      "runs (create_signing_key km private_path public_path) fs key fs'"
    using assms(1) unfolding load_or_create_signing_key_def runs_def
    by (cases "read_plain private_path fs") simp_all
  then have "holds_key keys km private_path public_path key fs'
    \<and> (pf_nodes fs private_path \<noteq> None \<longrightarrow> pf_nodes fs' private_path = pf_nodes fs private_path)
    \<and> (p \<noteq> private_path \<longrightarrow> p \<noteq> public_path \<longrightarrow> pf_nodes fs' p = pf_nodes fs p)
    \<and> pf_read_error fs' = pf_read_error fs"
  proof cases
    case (found data)
    then have read: "pf_read_error fs private_path = None" "pf_nodes fs private_path = Some data"
      by (auto simp: read_plain_def split: option.splits)
    from found(2) obtain der where key: "?read data = Inr key" and der: "km_pkix km (km_public_of km key) = Inr der"
      and fs': "fs' = fs\<lparr>pf_writes := Suc (pf_writes fs), pf_nodes := (pf_nodes fs)(public_path \<mapsto> km_pem km ''PUBLIC KEY'' der)\<rparr>"
      by (auto simp: publish_key_def)
    obtain block where "ke_pem_block keys data = Some block" "ke_parse_pkcs8 keys block = Inr (Ed25519Key key)"
      using key unfolding read_ed25519_ok by blast
    with read der fs' assms(3) show ?thesis by (simp add: holds_key_def)
  next
    case created
    then have read: "pf_read_error fs private_path = None" "pf_nodes fs private_path = None"
      by (auto simp: read_plain_def split: option.splits)
    from created(2) obtain d1 d2 where d: "km_pkcs8 km key = Inr d1" "km_pkix km (km_public_of km key) = Inr d2"
      and fs': "pf_nodes fs' = (pf_nodes fs)(private_path \<mapsto> km_pem km ''PRIVATE KEY'' d1, public_path \<mapsto> km_pem km ''PUBLIC KEY'' d2)"
        "pf_read_error fs' = pf_read_error fs"
      by (auto simp: create_signing_key_def)
    obtain block where "ke_pem_block keys (km_pem km ''PRIVATE KEY'' d1) = Some block"
      "ke_parse_pkcs8 keys block = Inr (Ed25519Key key)"
      using assms(2) d(1) unfolding key_codec_def by blast
    with read d fs' assms(3) show ?thesis by (simp add: holds_key_def)
  qed
  then show "holds_key keys km private_path public_path key fs'"
    "pf_nodes fs private_path \<noteq> None \<Longrightarrow> pf_nodes fs' private_path = pf_nodes fs private_path"
    "p \<noteq> private_path \<Longrightarrow> p \<noteq> public_path \<Longrightarrow> pf_nodes fs' p = pf_nodes fs p"
    "pf_read_error fs' = pf_read_error fs" by blast+
qed

text \<open>C26: A signing key that was found or created is found again: a second run returns the very key and changes no
  file, the first one left an existing private key as it was, and the public file is that of the key.\<close>

theorem signing_key_stable:
  assumes "load_or_create_signing_key keys km private_path public_path fs = (Inr key, fs')"
    and "key_codec keys km" and "private_path \<noteq> public_path" and "pf_fault fs' (pf_writes fs') = None"
  shows "(\<exists>fs''. load_or_create_signing_key keys km private_path public_path fs' = (Inr key, fs'') \<and> pf_nodes fs'' = pf_nodes fs')
    \<and> (pf_nodes fs private_path = None \<or> pf_nodes fs' private_path = pf_nodes fs private_path)
    \<and> (\<exists>data block. pf_nodes fs' public_path = Some data \<and> ke_pem_block keys data = Some block
        \<and> ke_parse_pkix keys block = Inr (Ed25519Key (km_public_of km key)))"
proof -
  note found = signing_key_found[OF _ assms(2,3), of fs key fs']
  have run: "runs (load_or_create_signing_key keys km private_path public_path) fs key fs'"
    using assms(1) by (simp add: runs_def)
  obtain data block der where k: "pf_read_error fs' private_path = None" "pf_nodes fs' private_path = Some data"
     "ke_pem_block keys data = Some block" "ke_parse_pkcs8 keys block = Inr (Ed25519Key key)"
     "km_pkix km (km_public_of km key) = Inr der" "pf_nodes fs' public_path = Some (km_pem km ''PUBLIC KEY'' der)"
    using found(1)[OF run] unfolding holds_key_def by (elim exE conjE) (rule that)
  let ?fs'' = "fs'\<lparr>pf_writes := Suc (pf_writes fs'), pf_nodes := (pf_nodes fs')(public_path \<mapsto> km_pem km ''PUBLIC KEY'' der)\<rparr>"
  have "runs (load_or_create_signing_key keys km private_path public_path) fs' key ?fs''"
    using k assms(4) unfolding runs_def load_or_create_signing_key_def
    by (simp add: read_plain_def read_ed25519_def publish_key_def op_bind_def op_of_def op_return_def write_plain_def Let_def)
  moreover have "pf_nodes ?fs'' = pf_nodes fs'" using k(6) by (auto simp: fun_eq_iff)
  moreover have "\<exists>block. ke_pem_block keys (km_pem km ''PUBLIC KEY'' der) = Some block
        \<and> ke_parse_pkix keys block = Inr (Ed25519Key (km_public_of km key))"
    by (rule key_codec_public[OF assms(2) k(5)])
  ultimately show ?thesis using k(6) found(2)[OF run] unfolding runs_def by blast
qed

subsection \<open>A published baseline\<close>

lemma plan_unsigned:
  assumes "plan_baseline env args now = Some (Inr (out, u))"
  shows "out = parse_flag args ''-o'' ''truststore-baseline.json''"
    and "\<exists>d. 0 < d \<and> tb_expires_at u = time_add now d" and "tb_sequence u \<noteq> 0" and "tb_signature u = []"
proof -
  let ?out = "parse_flag args ''-o'' ''truststore-baseline.json''"
  let ?next = "parse_flag args ''--next-from'' []"
  obtain n0 where n0: "da_scan_uint64 env (parse_flag args ''--sequence'' ''1'') = Some n0" "n0 \<noteq> 0"
    using assms by (auto simp: plan_baseline_def Let_def split: option.splits if_splits)
  obtain n p where np: "(if ?next \<noteq> [] then next_from env ?next (parse_flag args ''--public-key'' (?out @ ''.pub''))
      else Inr (n0, parse_flag args ''--previous-digest'' [])) = Inr (n, p)"
    using assms n0 by (auto simp: plan_baseline_def Let_def split: option.splits if_splits sum.splits)
  obtain d where d: "da_parse_duration env (parse_flag args ''--expires-in'' ''8760h'') = Some d" "0 < d"
    using assms n0 np by (auto simp: plan_baseline_def Let_def not_le split: option.splits if_splits)
  obtain certs where "out = ?out" "u = unsigned_baseline (da_hashing env) certs now d n p"
    using assms n0 np d by (auto simp: plan_baseline_def Let_def split: if_splits sum.splits)
  moreover have "n \<noteq> 0"
    using np n0(2) next_from_ok[of env ?next "parse_flag args ''--public-key'' (?out @ ''.pub'')" n p]
    by (auto split: if_splits simp: add_eq_0_iff2)
  ultimately show "out = ?out" "\<exists>d. 0 < d \<and> tb_expires_at u = time_add now d" "tb_sequence u \<noteq> 0" "tb_signature u = []"
    using d(2) by (auto simp: unsigned_baseline_def)
qed

text \<open>The environment of an agent that reads these files.\<close>

definition reading_files :: "plain_files \<Rightarrow> drift_env \<Rightarrow> drift_env" where
  "reading_files fs env = env\<lparr>da_read_file := (\<lambda>path. case read_plain path fs of
     FileContents b \<Rightarrow> Inr b | NoSuchFile \<Rightarrow> Inl ''no such file'' | CannotRead e \<Rightarrow> Inl e)\<rparr>"

lemma plan_exits:
  assumes "plan_baseline env args now = Some (Inl outcome)"
  shows "\<exists>status message. outcome = BaselineExit status message"
  using assms by (auto simp: plan_baseline_def Let_def split: option.splits if_splits sum.split_asm)
    (metis sumE)+

lemma finish_written:
  assumes "finish_baseline env signing_key written out_path u = BaselineWritten out b digest"
  shows "out = out_path \<and> validate_baseline u = Inr () \<and> written b = None \<and> (\<exists>key. signing_key = Inr key
    \<and> sign_baseline (se_crypto (da_state env)) key u = Inr b)"
  using assms by (auto simp: finish_baseline_def split: sum.splits option.splits)

lemma baseline_command_written:
  assumes "baseline_command env km indent args now fs = (Some (BaselineWritten out b digest), fs')"
  obtains key fs1 u data where "plan_baseline env args now = Some (Inr (out, u))" and "validate_baseline u = Inr ()"
    and "load_or_create_signing_key (da_keys env) km (parse_flag args ''--private-key'' (out @ ''.key''))
          (parse_flag args ''--public-key'' (out @ ''.pub'')) fs = (Inr key, fs1)"
    and "sign_baseline (se_crypto (da_state env)) key u = Inr b" and "indent b = Inr data"
    and "runs (write_plain out data) fs1 () fs'"
proof (cases "plan_baseline env args now")
  case None
  then show ?thesis using assms by (simp add: baseline_command_def)
next
  case (Some plan)
  show ?thesis
  proof (cases plan)
    case (Inl outcome)
    then show ?thesis using assms Some plan_exits[of env args now outcome] by (auto simp: baseline_command_def)
  next
    case (Inr pair)
    obtain out' u where pair: "pair = (out', u)" by (cases pair)
    have plan: "plan_baseline env args now = Some (Inr (out', u))" using Some Inr pair by simp
    let ?key = "load_or_create_signing_key (da_keys env) km (parse_flag args ''--private-key'' (out' @ ''.key''))
          (parse_flag args ''--public-key'' (out' @ ''.pub'')) fs"
    obtain r fs1 where key: "?key = (r, fs1)" by (cases ?key)
    let ?writing = "\<lambda>sb. case indent sb of Inl e \<Rightarrow> (Inl (''marshaling: '' @ e), fs1)
        | Inr data \<Rightarrow> op_wrap (\<lambda>e. ''writing '' @ out' @ '': '' @ e) (write_plain out' data) fs1"
    show ?thesis
    proof (cases "is_ok (validate_baseline u)")
      case False
      then show ?thesis using assms plan finish_written by (fastforce simp: baseline_command_def)
    next
      case True
      then have fin: "finish_baseline env r (\<lambda>sb. case fst (?writing sb) of Inl e \<Rightarrow> Some e | Inr _ \<Rightarrow> None) out' u
          = BaselineWritten out b digest"
        and fs': "fs' = (case ok_bind r (\<lambda>k. sign_baseline (se_crypto (da_state env)) k u) of
                  Inl _ \<Rightarrow> fs1 | Inr sb \<Rightarrow> snd (?writing sb))"
        using assms plan key by (auto simp: baseline_command_def Let_def)
      obtain k where k: "r = Inr k" "sign_baseline (se_crypto (da_state env)) k u = Inr b"
        and w: "(case fst (?writing b) of Inl e \<Rightarrow> Some e | Inr _ \<Rightarrow> None) = None" and o: "out = out'" "validate_baseline u = Inr ()"
        using finish_written[OF fin] by blast
      obtain data where data: "indent b = Inr data" using w by (cases "indent b") simp_all
      have "runs (op_wrap (\<lambda>e. ''writing '' @ out' @ '': '' @ e) (write_plain out' data)) fs1 () fs'"
        using w fs' k data unfolding runs_def
        by (cases "op_wrap (\<lambda>e. ''writing '' @ out' @ '': '' @ e) (write_plain out' data) fs1") (auto split: sum.splits)
      then have "runs (write_plain out' data) fs1 () fs'" unfolding runs_wrap .
      then show ?thesis
        by (intro that[of u k fs1 data]) (use plan o key k data in \<open>simp_all del: runs_write_plain\<close>)
    qed
  qed
qed

text \<open>The decoder of \<open>encoding/json\<close> reads back what \<open>MarshalIndent\<close> wrote.\<close>

definition baseline_codec :: "drift_env \<Rightarrow> (trust_baseline \<Rightarrow> gostring + bytes) \<Rightarrow> bool" where
  "baseline_codec env indent \<longleftrightarrow> (\<forall>b data. indent b = Inr data \<longrightarrow> (\<exists>v. unique_keys v \<and> da_lex env data = (render v, EndOfInput))
     \<and> da_decode env data = Inr b \<and> da_trailing env data = AtEOF)"

text \<open>C17: The baseline that the agent publishes, with the key it found or made, verifies: an agent that reads the
  files the command left accepts the baseline, before the rollback check, at every later time up to its
  expiry and at none after.\<close>

theorem published_baseline_verifies:
  assumes "baseline_command env km indent args now fs = (Some (BaselineWritten out b digest), fs')"
    and "private_path = parse_flag args ''--private-key'' (out @ ''.key'')"
    and "public_path = parse_flag args ''--public-key'' (out @ ''.pub'')"
    and "distinct [out, private_path, public_path]" and "\<forall>path. pf_read_error fs path = None"
    and "key_codec (da_keys env) km" and "\<forall>key. key_pair (se_crypto (da_state env)) key (km_public_of km key)"
    and "baseline_codec env indent" and "0 < tb_expires_at b"
  shows "is_ok (verified_baseline (reading_files fs' env) out public_path later) \<longleftrightarrow> later \<le> tb_expires_at b"
proof -
  let ?env = "reading_files fs' env"
  obtain key fs1 u data where plan: "plan_baseline env args now = Some (Inr (out, u))" "validate_baseline u = Inr ()"
    and key: "load_or_create_signing_key (da_keys env) km private_path public_path fs = (Inr key, fs1)"
    and signed_b: "sign_baseline (se_crypto (da_state env)) key u = Inr b" and data: "indent b = Inr data"
    and written: "runs (write_plain out data) fs1 () fs'"
    by (rule baseline_command_written[OF assms(1)], rule that) (simp_all only: assms(2,3))
  have paths: "out \<noteq> public_path" "private_path \<noteq> public_path" using assms(4) by simp_all
  have "runs (load_or_create_signing_key (da_keys env) km private_path public_path) fs key fs1"
    using key by (simp add: runs_def)
  note found = signing_key_found[OF this assms(6) paths(2)]
  from found(1) obtain der where
    der: "km_pkix km (km_public_of km key) = Inr der" "pf_nodes fs1 public_path = Some (km_pem km ''PUBLIC KEY'' der)"
    unfolding holds_key_def by blast
  have files: "pf_nodes fs' out = Some data" "pf_nodes fs' public_path = Some (km_pem km ''PUBLIC KEY'' der)"
    using written der(2) paths(1) by simp_all
  then have reads: "da_read_file ?env out = Inr data" "da_read_file ?env public_path = Inr (km_pem km ''PUBLIC KEY'' der)"
    using assms(5) found(4) written by (simp_all add: reading_files_def read_plain_def)
  have same: "da_keys ?env = da_keys env" "da_state ?env = da_state env" "da_lex ?env = da_lex env"
    "da_decode ?env = da_decode env" "da_trailing ?env = da_trailing env"
    by (simp_all add: reading_files_def)
  have public: "load_public_key ?env public_path = Inr (km_public_of km key)"
    using key_codec_public[OF assms(6) der(1)] reads(2) by (auto simp: load_public_key_def same read_ed25519_ok)
  have fields: "tb_sequence b = tb_sequence u" "tb_expires_at b = tb_expires_at u" "tb_roots b = tb_roots u"
    using signed_b by (auto simp: sign_baseline_def)
  have valid: "validate_baseline b = Inr ()" using plan(2) fields(3) by (simp add: validate_baseline_def)
  obtain v where "unique_keys v" "da_lex env data = (render v, EndOfInput)"
    and decoded: "da_decode env data = Inr b" "da_trailing env data = AtEOF"
    using assms(8) data unfolding baseline_codec_def by blast
  then have "reject_duplicate_json_keys (fst (da_lex env data)) (snd (da_lex env data)) = Inr ()"
    by (auto simp: reject_keys_exact prod_eq_iff)
  then have parsed: "parse_strict_baseline ?env data = Inr b"
    using decoded valid by (simp add: parse_strict_baseline_def same)
  have "verify_baseline (se_crypto (da_state env)) b (km_public_of km key) = Inr ()"
    using assms(7) signed_b by (blast intro: sign_verify)
  moreover have "tb_sequence b \<noteq> 0" using plan_unsigned(3)[OF plan(1)] fields(1) by simp
  ultimately show ?thesis
    using reads(1) parsed public assms(9) by (auto simp: verified_baseline_def same)
qed

subsection \<open>check and its output\<close>

text \<open>The command's verdict and its effect on the state directory are those of the decision alone: printing and
  logging never change them.\<close>

lemma check_command_decides:
  "fst (check_command env encode args now checked_at io) = fst (cmd_check env args now checked_at (ai_state io))
   \<and> ai_state (snd (check_command env encode args now checked_at io))
      = snd (cmd_check env args now checked_at (ai_state io))"
  by (auto simp: check_command_def cmd_check_def Let_def log_events_def complain_def split: prod.split option.split sum.split)

lemma print_scan_ok:
  assumes "\<forall>n. so_fault out n = None"
  shows "so_text (print_scan encode r out) = so_text out @ concat (map (event_line encode) (sr_events r)) @ prometheus_text r"
proof -
  have "\<exists>n. snd (op_each (\<lambda>e. op_ignore (write_out (event_line encode e))) es out)
      = out\<lparr>so_text := so_text out @ concat (map (event_line encode) es), so_writes := n\<rparr>"
    if "\<forall>n. so_fault out n = None" for es out
    using that
  proof (induction es arbitrary: out)
    case Nil
    show ?case by (intro exI[of _ "so_writes out"]) (simp add: op_return_def)
  next
    case (Cons e es)
    let ?out = "out\<lparr>so_text := so_text out @ event_line encode e, so_writes := Suc (so_writes out)\<rparr>"
    have "\<forall>n. so_fault ?out n = None" using Cons.prems by simp
    from Cons.IH[OF this] show ?case by (auto simp: op_bind_def op_ignore_def write_out_ok[OF Cons.prems])
  qed
  from this[OF assms, of "sr_events r"] obtain n where
    "snd (op_each (\<lambda>e. op_ignore (write_out (event_line encode e))) (sr_events r) out)
      = out\<lparr>so_text := so_text out @ concat (map (event_line encode) (sr_events r)), so_writes := n\<rparr>" by blast
  then show ?thesis using assms by (simp add: print_scan_def Let_def write_out_ok)
qed

text \<open>A log whose directory and file open and whose writes succeed.\<close>

definition log_works :: "event_log \<Rightarrow> bool" where
  "log_works l \<longleftrightarrow> el_mkdir_error l = None \<and> el_open_error l = None \<and> (\<forall>n. so_fault (el_file l) n = None)"

definition log_text :: "agent_io \<Rightarrow> bytes" where
  "log_text io = so_text (el_file (ai_log io))"

lemma append_log_ok:
  assumes "log_works l"
  shows "\<exists>l'. append_log encode es l = (Inr (), l') \<and> log_works l'
    \<and> so_text (el_file l') = so_text (el_file l) @ concat (map (event_line encode) es)"
proof -
  have "\<forall>n. so_fault (el_file l) n = None" using assms by (simp add: log_works_def)
  from write_each_ok[OF this, of "event_line encode" es] assms show ?thesis
    by (auto simp: append_log_def on_log_file_def log_works_def)
qed

lemma log_events_ok:
  assumes "log_works (ai_log io)" and "path \<noteq> []"
  shows "log_text (log_events encode path complaint es io) = log_text io @ concat (map (event_line encode) es)
    \<and> log_works (ai_log (log_events encode path complaint es io))
    \<and> ai_state (log_events encode path complaint es io) = ai_state io
    \<and> ai_stdout (log_events encode path complaint es io) = ai_stdout io"
  using append_log_ok[OF assms(1), of encode es] assms by (auto simp: log_events_def log_text_def)

text \<open>A check of the agent reports what it decides on: its exit status and its effect on the rollback state
  are those of the decision, and when output and log work every event of the scan is printed and logged, in
  order, before the metrics.\<close>

theorem check_reports_decision:
  assumes "scan_trust_store env (ca_baseline a) (ca_public_key a) (ca_state a) (ca_extra_ca_dir a) now checked_at
      (ai_state io) = (Some r, s')"
    and "a = parse_check_args args" and "ca_log a \<noteq> []" and "log_works (ai_log io)"
    and "\<forall>n. so_fault (ai_stdout io) n = None"
    and "lines = concat (map (event_line encode) (sr_events r))"
  shows "\<exists>io'. check_command env encode args now checked_at io = (Some (check_verdict r), io')
    \<and> cmd_check env args now checked_at (ai_state io) = (Some (check_verdict r), ai_state io')
    \<and> so_text (ai_stdout io') = so_text (ai_stdout io) @ lines @ prometheus_text r
    \<and> log_text io' = log_text io @ lines"
proof -
  let ?io1 = "io\<lparr>ai_state := s', ai_stdout := print_scan encode r (ai_stdout io)\<rparr>"
  let ?io2 = "log_events encode (ca_log a) (check_complaint (ca_log a)) (sr_events r) ?io1"
  have "log_works (ai_log ?io1)" using assms(4) by simp
  note logged = log_events_ok[OF this assms(3), of encode "check_complaint (ca_log a)" "sr_events r"]
  have same: "log_text (complain m io') = log_text io'" "ai_stdout (complain m io') = ai_stdout io'"
    "ai_state (complain m io') = ai_state io'" for m io'
    by (simp_all add: complain_def log_text_def)
  have "log_text ?io1 = log_text io" by (simp add: log_text_def)
  with logged print_scan_ok[OF assms(5), of encode r] assms(1,2,6) show ?thesis
    by (simp add: check_command_def cmd_check_def Let_def same)
qed

subsection \<open>serve\<close>

text \<open>The scans on their own: their results in order, and the state directory they leave.\<close>

fun scan_sequence :: "check_args \<Rightarrow> (drift_env \<times> gotime \<times> gotime) list \<Rightarrow> fs \<Rightarrow> (scan_result list \<times> fs) option" where
  "scan_sequence a [] s = Some ([], s)"
| "scan_sequence a ((env, now, checked_at) # ms) s =
     (case scan_trust_store env (ca_baseline a) (ca_public_key a) (ca_state a) (ca_extra_ca_dir a) now checked_at s of
        (None, s') \<Rightarrow> None
      | (Some r, s') \<Rightarrow> map_option (\<lambda>(rs, t). (r # rs, t)) (scan_sequence a ms s'))"

lemma serve_scan_Some: "serve_scan encode a (env, now, checked_at) srv = Some srv1 \<longleftrightarrow> (\<exists>r s.
    scan_trust_store env (ca_baseline a) (ca_public_key a) (ca_state a) (ca_extra_ca_dir a) now checked_at
      (ai_state (as_io srv)) = (Some r, s)
    \<and> srv1 = \<lparr>as_current = r, as_io = log_events encode (ca_log a) serve_complaint (sr_events r) ((as_io srv)\<lparr>ai_state := s\<rparr>)\<rparr>)"
  unfolding serve_scan_def prod.case by (auto split: prod.split option.split)

lemma serve_scans_ok:
  assumes "serve_scans encode a ms srv = Some srv'" and "ca_log a \<noteq> []" and "log_works (ai_log (as_io srv))"
  shows "\<exists>rs. scan_sequence a ms (ai_state (as_io srv)) = Some (rs, ai_state (as_io srv'))
    \<and> as_current srv' = last (as_current srv # rs)
    \<and> log_text (as_io srv') = log_text (as_io srv) @ concat (map (\<lambda>r. concat (map (event_line encode) (sr_events r))) rs)"
  using assms(1,3)
proof (induction ms arbitrary: srv)
  case (Cons m ms)
  obtain env now checked_at where m: "m = (env, now, checked_at)" by (cases m) auto
  obtain srv1 where step: "serve_scan encode a m srv = Some srv1" and rest: "serve_scans encode a ms srv1 = Some srv'"
    using Cons.prems(1) by (auto split: option.splits)
  obtain r s where scan: "scan_trust_store env (ca_baseline a) (ca_public_key a) (ca_state a) (ca_extra_ca_dir a)
      now checked_at (ai_state (as_io srv)) = (Some r, s)"
    and srv1: "srv1 = \<lparr>as_current = r, as_io = log_events encode (ca_log a) serve_complaint (sr_events r) ((as_io srv)\<lparr>ai_state := s\<rparr>)\<rparr>"
    using step unfolding m serve_scan_Some by blast
  have "log_works (ai_log ((as_io srv)\<lparr>ai_state := s\<rparr>))" using Cons.prems(2) by simp
  from log_events_ok[OF this assms(2)] have logged: "log_works (ai_log (as_io srv1))" "ai_state (as_io srv1) = s"
    "log_text (as_io srv1) = log_text (as_io srv) @ concat (map (event_line encode) (sr_events r))"
    unfolding srv1 by (simp_all add: log_text_def)
  from Cons.IH[OF rest logged(1)] obtain rs where rs: "scan_sequence a ms s = Some (rs, ai_state (as_io srv'))"
    "as_current srv' = last (as_current srv1 # rs)"
    "log_text (as_io srv') = log_text (as_io srv1) @ concat (map (\<lambda>r. concat (map (event_line encode) (sr_events r))) rs)"
    unfolding logged(2) by blast
  have "as_current srv1 = r" by (simp add: srv1)
  with scan rs logged(3) show ?case by (intro exI[of _ "r # rs"]) (simp add: m)
qed simp

lemma cmd_serve_listening:
  assumes "cmd_serve parse_duration encode args started first ticks io = Some (Listening l i srv)"
  shows "0 < i \<and> serve_scans encode (parse_check_args args) (first # ticks) \<lparr>as_current = initial_scan started, as_io = io\<rparr> = Some srv"
  using assms by (auto simp: cmd_serve_def Let_def not_le split: option.splits if_splits)

text \<open>\<open>serve\<close> answers from its latest scan: with the scans of the first moment and of every tick, on the state
  each leaves to the next, the result it publishes is the last one, never the placeholder it starts with, and the
  log has grown by the events of all of them in order.\<close>

theorem serve_publishes_latest_scan:
  assumes "cmd_serve parse_duration encode args started first ticks io = Some (Listening l i srv)"
    and "a = parse_check_args args" and "ca_log a \<noteq> []" and "log_works (ai_log io)"
  shows "\<exists>rs. scan_sequence a (first # ticks) (ai_state io) = Some (rs, ai_state (as_io srv))
    \<and> length rs = Suc (length ticks) \<and> as_current srv = last rs
    \<and> log_text (as_io srv) = log_text io @ concat (map (\<lambda>r. concat (map (event_line encode) (sr_events r))) rs)"
proof -
  have len: "scan_sequence a ms s = Some (rs, t) \<Longrightarrow> length rs = length ms" for ms s rs t
    by (induction a ms s arbitrary: rs t rule: scan_sequence.induct) (auto split: prod.splits option.splits)
  let ?start = "\<lparr>as_current = initial_scan started, as_io = io\<rparr>"
  have run: "serve_scans encode a (first # ticks) ?start = Some srv"
    using cmd_serve_listening[OF assms(1)] assms(2) by blast
  have "log_works (ai_log (as_io ?start))" using assms(4) by simp
  from serve_scans_ok[OF run assms(3) this] obtain rs where rs:
    "scan_sequence a (first # ticks) (ai_state io) = Some (rs, ai_state (as_io srv))"
    "as_current srv = last (initial_scan started # rs)"
    "log_text (as_io srv) = log_text io @ concat (map (\<lambda>r. concat (map (event_line encode) (sr_events r))) rs)"
    by auto
  have l: "length rs = Suc (length ticks)" using len[OF rs(1)] by simp
  then have "rs \<noteq> []" by auto
  with rs l show ?thesis by (intro exI[of _ rs]) simp
qed

text \<open>C18: A ready answer is backed by the last scan: \<open>/readyz\<close> says ready only if that scan read a baseline that is
  unambiguous, signed by the configured key, unexpired and accepted by the rollback state, and enumerated the
  trust store; \<open>/metrics\<close> then shows the comparison of the two.\<close>

theorem ready_is_backed_by_scan:
  assumes "cmd_serve parse_duration encode args started first ticks io = Some (Listening l i srv)"
    and "serve_request encode_scan (as_current srv) ''/readyz'' = Some resp" and "ar_status resp = 200"
    and "last (first # ticks) = (env, now, checked_at)" and "a = parse_check_args args"
  shows "\<exists>b certs s s'. verified_from env (ca_baseline a) (ca_public_key a) checked_at b
    \<and> verify_and_advance_baseline_state (da_state env) b (ca_state a) s = (Inr (), s')
    \<and> load_trust_store (da_hashing env) (da_host env) (ca_extra_ca_dir a) = Some (Inr certs)
    \<and> as_current srv = evaluate_trust_store (da_hashing env) b certs now"
proof -
  have last_scan: "\<exists>s s'. scan_trust_store env (ca_baseline a) (ca_public_key a) (ca_state a) (ca_extra_ca_dir a)
      now checked_at s = (Some (as_current srv'), s')"
    if "serve_scans encode a ms srv0 = Some srv'" "ms \<noteq> []" "last ms = (env, now, checked_at)" for ms srv0 srv'
    using that
  proof (induction ms arbitrary: srv0)
    case (Cons m ms)
    obtain srv1 where step: "serve_scan encode a m srv0 = Some srv1" and rest: "serve_scans encode a ms srv1 = Some srv'"
      using Cons.prems(1) by (auto split: option.splits)
    show ?case
    proof (cases "ms = []")
      case True
      with step rest Cons.prems(3) show ?thesis
        by (auto simp: serve_scan_Some) (intro exI, assumption)
    next
      case False
      with Cons.IH[OF rest] Cons.prems(3) show ?thesis by simp
    qed
  qed simp
  have ready: "sr_baseline_valid (as_current srv)" "sr_scan_success (as_current srv)"
    using assms(2,3) by (auto simp: serve_request_def json_response_def split: if_splits)
  obtain s s' where scan: "scan_trust_store env (ca_baseline a) (ca_public_key a) (ca_state a) (ca_extra_ca_dir a)
      now checked_at s = (Some (as_current srv), s')"
    using last_scan[OF conjunct2[OF cmd_serve_listening[OF assms(1)], folded assms(5)] _ assms(4)] by blast
  obtain b certs where "load_verified_baseline env (ca_baseline a) (ca_public_key a) (ca_state a) checked_at s = (Inr b, s')"
    and certs: "load_trust_store (da_hashing env) (da_host env) (ca_extra_ca_dir a) = Some (Inr certs)"
      "as_current srv = evaluate_trust_store (da_hashing env) b certs now"
    by (rule scan_ok[OF scan ready])
  from load_verified_baseline_ok[OF this(1)] certs show ?thesis using verified_baseline_ok by blast
qed

subsection \<open>An agent on a host with one root\<close>

definition sample_io :: agent_io where
  "sample_io = \<lparr>ai_state = empty_state_directory,
     ai_log = \<lparr>el_mkdir_error = None, el_open_error = None,
       el_file = \<lparr>so_text = [], so_writes = 0, so_fault = (\<lambda>_. None)\<rparr>\<rparr>,
     ai_stdout = \<lparr>so_text = [], so_writes = 0, so_fault = (\<lambda>_. None)\<rparr>, ai_stderr = []\<rparr>"

definition sample_serve :: "serve_outcome option" where
  "sample_serve = cmd_serve (\<lambda>_. Some 60) de_subject [] 0 (sample_agent, Instant 5, Instant 5)
     [(sample_agent, Instant 6, Instant 6)] sample_io"

definition readyz_status :: "serve_outcome option \<Rightarrow> nat option" where
  "readyz_status r = (case r of Some (Listening l i srv) \<Rightarrow>
     map_option ar_status (serve_request sr_error (as_current srv) ''/readyz'') | _ \<Rightarrow> None)"

lemma sample_serve_ready: "readyz_status sample_serve = Some 200"
  by code_simp

lemma sample_io_works: "log_works (ai_log sample_io)" "\<forall>n. so_fault (ai_stdout sample_io) n = None"
  "ai_state sample_io = empty_state_directory"
  by (simp_all add: log_works_def sample_io_def)

lemma sample_serve_listening: "\<exists>l i srv resp. sample_serve = Some (Listening l i srv)
    \<and> serve_request sr_error (as_current srv) ''/readyz'' = Some resp \<and> ar_status resp = 200"
  using sample_serve_ready by (auto simp: readyz_status_def split: option.splits serve_outcome.splits)

lemma sample_args: "ca_log (parse_check_args []) = ''/var/log/pki-sentinel/truststore.json''"
  by (simp add: parse_check_args_def Let_def)

theorem serve_publishes_latest_scan_witness:
  "\<exists>l i srv (rs :: scan_result list). sample_serve = Some (Listening l i srv) \<and> length rs = 2 \<and> as_current srv = last rs"
proof -
  obtain l i srv where run: "sample_serve = Some (Listening l i srv)" using sample_serve_listening by blast
  have "ca_log (parse_check_args []) \<noteq> []" unfolding sample_args by simp
  from serve_publishes_latest_scan[OF run[unfolded sample_serve_def] refl this sample_io_works(1)]
  obtain rs :: "scan_result list" where "length rs = Suc (length [(sample_agent, Instant 6, Instant 6)])"
    "as_current srv = last rs" by (elim exE conjE) (rule that)
  with run show ?thesis by (intro exI[of _ l] exI[of _ i] exI[of _ srv] exI[of _ rs]) simp
qed

theorem ready_is_backed_by_scan_witness:
  "\<exists>l i srv b certs. sample_serve = Some (Listening l i srv)
     \<and> verified_from sample_agent (ca_baseline (parse_check_args [])) (ca_public_key (parse_check_args [])) (Instant 6) b
     \<and> as_current srv = evaluate_trust_store sample_agent_hashing b certs (Instant 6)"
proof -
  obtain l i srv resp where run: "sample_serve = Some (Listening l i srv)"
    "serve_request sr_error (as_current srv) ''/readyz'' = Some resp" "ar_status resp = 200"
    using sample_serve_listening by (elim exE conjE) (rule that)
  have moments: "last [(sample_agent, Instant 5, Instant 5), (sample_agent, Instant 6, Instant 6)] = (sample_agent, Instant 6, Instant 6)"
    by simp
  have h: "da_hashing sample_agent = sample_agent_hashing" by (simp add: sample_agent_def)
  from ready_is_backed_by_scan[OF run(1)[unfolded sample_serve_def] run(2,3) moments refl] obtain b certs where
    "verified_from sample_agent (ca_baseline (parse_check_args [])) (ca_public_key (parse_check_args [])) (Instant 6) b"
    "as_current srv = evaluate_trust_store sample_agent_hashing b certs (Instant 6)"
    unfolding h by (elim exE conjE) (rule that)
  with run(1) show ?thesis by (intro exI conjI)
qed

definition sample_scan :: "scan_result option \<times> fs" where
  "sample_scan = scan_trust_store sample_agent (ca_baseline (parse_check_args [])) (ca_public_key (parse_check_args []))
     (ca_state (parse_check_args [])) (ca_extra_ca_dir (parse_check_args [])) (Instant 5) (Instant 5) empty_state_directory"

lemma sample_scan_returns: "fst sample_scan \<noteq> None"
  by code_simp

theorem check_reports_decision_witness:
  "\<exists>r io'. fst sample_scan = Some r
     \<and> check_command sample_agent de_subject [] (Instant 5) (Instant 5) sample_io = (Some (check_verdict r), io')
     \<and> log_text io' = log_text sample_io @ concat (map (event_line de_subject) (sr_events r))"
proof -
  obtain r where r: "fst sample_scan = Some r" using sample_scan_returns by blast
  then have scan: "scan_trust_store sample_agent (ca_baseline (parse_check_args [])) (ca_public_key (parse_check_args []))
     (ca_state (parse_check_args [])) (ca_extra_ca_dir (parse_check_args [])) (Instant 5) (Instant 5) (ai_state sample_io)
     = (Some r, snd sample_scan)"
    unfolding sample_io_works(3) sample_scan_def[symmetric] by (simp add: prod_eq_iff)
  have "ca_log (parse_check_args []) \<noteq> []" unfolding sample_args by simp
  from check_reports_decision[OF scan refl this sample_io_works(1,2) refl, of de_subject] r show ?thesis by blast
qed

text \<open>Files that are empty at first, and a key that encodes as itself.\<close>

definition sample_files :: plain_files where
  "sample_files = \<lparr>pf_nodes = Map.empty, pf_read_error = (\<lambda>_. None), pf_writes = 0, pf_fault = (\<lambda>_. None)\<rparr>"

definition sample_key_maker :: key_maker where
  "sample_key_maker = \<lparr>km_generate = Inr ''K'', km_public_of = (\<lambda>k. k), km_pkcs8 = Inr, km_pkix = Inr,
     km_pem = (\<lambda>_ b. b)\<rparr>"

definition sample_keys :: key_env where
  "sample_keys = \<lparr>ke_pem_block = Some, ke_parse_pkix = (\<lambda>b. Inr (Ed25519Key b)), ke_parse_pkcs8 = (\<lambda>b. Inr (Ed25519Key b))\<rparr>"

lemma sample_key_codec: "key_codec sample_keys sample_key_maker"
  by (simp add: key_codec_def sample_keys_def sample_key_maker_def)

theorem signing_key_stable_witness:
  "\<exists>fs' fs''. load_or_create_signing_key sample_keys sample_key_maker ''k'' ''p'' sample_files = (Inr ''K'', fs')
     \<and> load_or_create_signing_key sample_keys sample_key_maker ''k'' ''p'' fs' = (Inr ''K'', fs'') \<and> pf_nodes fs'' = pf_nodes fs'"
proof -
  let ?fs = "sample_files\<lparr>pf_nodes := [''k'' \<mapsto> ''K'', ''p'' \<mapsto> ''K''], pf_writes := 2\<rparr>"
  have run: "load_or_create_signing_key sample_keys sample_key_maker ''k'' ''p'' sample_files = (Inr ''K'', ?fs)"
    by (simp add: load_or_create_signing_key_def read_plain_def sample_files_def create_signing_key_def op_bind_def op_of_def
        op_return_def write_plain_def sample_key_maker_def Let_def)
  have "''k'' \<noteq> ''p''" "pf_fault ?fs (pf_writes ?fs) = None" by (simp_all add: sample_files_def)
  from signing_key_stable[OF run sample_key_codec this] run show ?thesis by blast
qed

definition sample_published :: trust_baseline where
  "sample_published = (unsigned_baseline sample_agent_hashing [sample_root ''a'' ''k'' True] (Instant 5) 5 1 [])
     \<lparr>tb_signature := ''K1''\<rparr>"

definition sample_publisher :: drift_env where
  "sample_publisher = sample_agent\<lparr>da_keys := sample_keys, da_decode := (\<lambda>_. Inr sample_published)\<rparr>"

definition sample_indent :: "trust_baseline \<Rightarrow> gostring + bytes" where
  "sample_indent b = (if b = sample_published then Inr ''1'' else Inl ''no'')"

definition sample_publication :: "baseline_outcome option \<times> plain_files" where
  "sample_publication = baseline_command sample_publisher sample_key_maker sample_indent [] (Instant 5) sample_files"

lemma sample_publication_outcome:
  "map_option fst (written_outcome (fst sample_publication)) = Some sample_published"
  by code_simp

lemma sample_out: "parse_flag [] ''-o'' ''truststore-baseline.json'' = ''truststore-baseline.json''"
  "parse_flag [] ''--private-key'' (''truststore-baseline.json'' @ ''.key'') = ''truststore-baseline.json.key''"
  "parse_flag [] ''--public-key'' (''truststore-baseline.json'' @ ''.pub'') = ''truststore-baseline.json.pub''"
  by simp_all

theorem published_baseline_verifies_witness:
  "\<exists>digest. fst sample_publication = Some (BaselineWritten ''truststore-baseline.json'' sample_published digest)
     \<and> is_ok (verified_baseline (reading_files (snd sample_publication) sample_publisher) ''truststore-baseline.json''
          ''truststore-baseline.json.pub'' (Instant 9))
     \<and> \<not> is_ok (verified_baseline (reading_files (snd sample_publication) sample_publisher) ''truststore-baseline.json''
          ''truststore-baseline.json.pub'' (Instant 11))"
proof -
  obtain digest where "written_outcome (fst sample_publication) = Some (sample_published, digest)"
    using sample_publication_outcome by (auto simp: map_option_eq_Some)
  then obtain out where o: "fst sample_publication = Some (BaselineWritten out sample_published digest)"
    using written_outcome_Some by blast
  then have run: "baseline_command sample_publisher sample_key_maker sample_indent [] (Instant 5) sample_files
      = (Some (BaselineWritten out sample_published digest), snd sample_publication)"
    unfolding sample_publication_def[symmetric] by (simp add: prod_eq_iff)
  have out: "out = ''truststore-baseline.json''"
    by (rule baseline_command_written[OF run]) (use plan_unsigned(1) sample_out(1) in metis)
  have paths: "''truststore-baseline.json.key'' = parse_flag [] ''--private-key'' (out @ ''.key'')"
    "''truststore-baseline.json.pub'' = parse_flag [] ''--public-key'' (out @ ''.pub'')"
    unfolding out sample_out(2,3) by (rule refl)+
  have "distinct [out, ''truststore-baseline.json.key'', ''truststore-baseline.json.pub'']" by (simp add: out)
  moreover have "\<forall>path. pf_read_error sample_files path = None" by (simp add: sample_files_def)
  moreover have "key_codec (da_keys sample_publisher) sample_key_maker"
    using sample_key_codec by (simp add: sample_publisher_def)
  moreover have "\<forall>key. key_pair (se_crypto (da_state sample_publisher)) key (km_public_of sample_key_maker key)"
    by (simp add: key_pair_def sample_publisher_def sample_agent_def sample_state_env_def sample_key_maker_def)
  moreover have "baseline_codec sample_publisher sample_indent"
  proof -
    have "\<exists>v. unique_keys v \<and> ([ScalarLexeme ''1''], EndOfInput) = (render v, EndOfInput)"
      by (rule exI[of _ "JScalar ''1''"]) simp
    then show ?thesis by (simp add: baseline_codec_def sample_publisher_def sample_agent_def sample_indent_def)
  qed
  moreover have expiry: "tb_expires_at sample_published = Instant 10"
    by (simp add: sample_published_def unsigned_baseline_def time_add_def)
  then have "0 < tb_expires_at sample_published" by (simp add: zero_gotime_def)
  ultimately have "is_ok (verified_baseline (reading_files (snd sample_publication) sample_publisher) out
      ''truststore-baseline.json.pub'' later) \<longleftrightarrow> later \<le> Instant 10" for later
    using published_baseline_verifies[OF run paths] unfolding expiry by blast
  with o show ?thesis unfolding out by (intro exI[of _ digest]) simp
qed

end
