(* ===== verification/Attestation.thy ===== *)
theory Attestation imports Go_Keys Json_Laws Go_Time
begin

text \<open>
  Signed assurance reports (\<open>internal/attestation/attestation.go\<close>): the statement that binds a report's
  identity to the digest of its exact bytes, signing, verification, and the envelope around them.
\<close>

record statement =
  st_version :: gostring
  st_issued_at :: gotime
  st_run_id :: gostring
  st_scenario_digest :: gostring
  st_run_config_digest :: gostring
  st_payload_sha256 :: gostring
  st_public_key_sha256 :: gostring

record envelope =
  en_statement :: statement
  en_payload :: bytes
  en_signature :: gostring

definition attestation_version :: gostring where
  "attestation_version = ''pki-sentinel-assurance/v3''"

text \<open>The fields that \<open>payloadIdentity\<close> decodes from a report.\<close>

record report_identity =
  ri_cycle_id :: gostring
  ri_scenario_digest :: gostring
  ri_run_config :: bytes
  ri_run_config_digest :: gostring

text \<open>The standard library: JSON (\<open>at_valid\<close>, the token decoder's lexemes, the decoders of the identity and
  of an envelope, compaction, marshalling), SHA-256 in hexadecimal, Base64, Ed25519 and key files.\<close>

record attest_env =
  at_keys :: key_env
  at_valid :: "bytes \<Rightarrow> bool"
  at_lex :: "bytes \<Rightarrow> lexeme list \<times> lexeme_end"
  at_identity :: "bytes \<Rightarrow> gostring + report_identity"
  at_compact :: "bytes \<Rightarrow> gostring + bytes"
  at_sha256_hex :: "bytes \<Rightarrow> gostring"
  at_marshal_statement :: "statement \<Rightarrow> gostring + bytes"
  at_marshal_string :: "gostring \<Rightarrow> gostring + bytes"
  at_decode_envelope :: "bytes \<Rightarrow> gostring + envelope"
  at_trailing :: "bytes \<Rightarrow> stream_end"
  at_public_of :: "bytes \<Rightarrow> bytes"
  at_sign :: "bytes \<Rightarrow> bytes \<Rightarrow> bytes"
  at_verify :: "bytes \<Rightarrow> bytes \<Rightarrow> bytes \<Rightarrow> bool"
  at_base64 :: "bytes \<Rightarrow> gostring"
  at_unbase64 :: "gostring \<Rightarrow> gostring + bytes"
  at_error_text :: "json_error \<Rightarrow> gostring"
  at_read_file :: "gostring \<Rightarrow> gostring + bytes"

definition parse_private_key :: "attest_env \<Rightarrow> bytes \<Rightarrow> gostring + bytes" where
  "parse_private_key env = read_ed25519 (ke_pem_block (at_keys env)) (ke_parse_pkcs8 (at_keys env))
     ''attestation private key is not PEM'' (\<lambda>e. ''parse attestation private key: '' @ e)
     ''attestation private key must be Ed25519 PKCS#8''"

definition parse_public_key :: "attest_env \<Rightarrow> bytes \<Rightarrow> gostring + bytes" where
  "parse_public_key env = read_ed25519 (ke_pem_block (at_keys env)) (ke_parse_pkix (at_keys env))
     ''attestation public key is not PEM'' (\<lambda>e. ''parse attestation public key: '' @ e)
     ''attestation public key must be Ed25519 PKIX''"

definition reject_duplicates :: "attest_env \<Rightarrow> bytes \<Rightarrow> gostring + unit" where
  "reject_duplicates env contents =
     (case reject_duplicate_json_fields (fst (at_lex env contents)) (snd (at_lex env contents)) of
        Inl e \<Rightarrow> Inl (at_error_text env e) | Inr _ \<Rightarrow> Inr ())"

subsection \<open>The identity of a report\<close>

definition digest_prefix :: gostring where
  "digest_prefix = ''sha256:''"

definition valid_digest :: "gostring \<Rightarrow> bool" where
  "valid_digest v =
     (if length v \<noteq> length digest_prefix + 32 * 2 \<or> take (length digest_prefix) v \<noteq> digest_prefix then False
      else is_hex_text (drop (length digest_prefix) v) \<and> length (drop (length digest_prefix) v) div 2 = 32)"

definition canonical_json_bytes :: "attest_env \<Rightarrow> bytes \<Rightarrow> gostring + bytes" where
  "canonical_json_bytes env raw =
     (if raw = [] \<or> \<not> at_valid env raw then Inl ''must be valid JSON''
      else ok_bind (reject_duplicates env raw) (\<lambda>_. at_compact env raw))"

definition payload_identity ::
  "attest_env \<Rightarrow> bytes \<Rightarrow> gostring + gostring \<times> gostring \<times> gostring" where
  "payload_identity env payload =
     (case at_identity env payload of
        Inl e \<Rightarrow> Inl (''decode attestation payload identity: '' @ e)
      | Inr rep \<Rightarrow>
        if ri_cycle_id rep = [] then Inl ''attestation payload cycle_id is required''
        else if \<not> valid_digest (ri_scenario_digest rep)
        then Inl (''attestation payload scenario_digest '' @ quote_text (ri_scenario_digest rep)
          @ '' is not a canonical SHA-256 digest'')
        else if \<not> valid_digest (ri_run_config_digest rep)
        then Inl (''attestation payload run_config_digest '' @ quote_text (ri_run_config_digest rep)
          @ '' is not a canonical SHA-256 digest'')
        else (case canonical_json_bytes env (ri_run_config rep) of
            Inl e \<Rightarrow> Inl (''attestation payload run_config: '' @ e)
          | Inr config \<Rightarrow>
            if config = [] \<or> hd config \<noteq> CHR ''{''
            then Inl ''attestation payload run_config must be a JSON object''
            else if digest_prefix @ at_sha256_hex env config \<noteq> ri_run_config_digest rep
            then Inl ''attestation payload run_config_digest does not match canonical run_config''
            else Inr (ri_cycle_id rep, ri_scenario_digest rep, ri_run_config_digest rep)))"

subsection \<open>Signing\<close>

definition statement_for ::
  "attest_env \<Rightarrow> bytes \<Rightarrow> bytes \<Rightarrow> gostring \<times> gostring \<times> gostring \<Rightarrow> gotime \<Rightarrow> statement" where
  "statement_for env public_key payload ident now = (case ident of (run, scenario_digest, config_digest) \<Rightarrow>
     \<lparr>st_version = attestation_version, st_issued_at = now, st_run_id = run,
      st_scenario_digest = scenario_digest, st_run_config_digest = config_digest,
      st_payload_sha256 = at_sha256_hex env payload, st_public_key_sha256 = at_sha256_hex env public_key\<rparr>)"

definition sign_json :: "attest_env \<Rightarrow> bytes \<Rightarrow> bytes \<Rightarrow> gotime \<Rightarrow> gostring + envelope" where
  "sign_json env private_pem payload now =
     ok_bind (parse_private_key env private_pem) (\<lambda>key.
     if \<not> at_valid env payload then Inl ''attestation payload is not valid JSON''
     else (case reject_duplicates env payload of
         Inl e \<Rightarrow> Inl (''attestation payload: '' @ e)
       | Inr _ \<Rightarrow>
         ok_bind (payload_identity env payload) (\<lambda>ident.
         let st = statement_for env (at_public_of env key) payload ident now in
         case at_marshal_statement env st of
           Inl e \<Rightarrow> Inl (''marshal attestation statement: '' @ e)
         | Inr to_be_signed \<Rightarrow>
             Inr \<lparr>en_statement = st, en_payload = payload,
               en_signature = at_base64 env (at_sign env key to_be_signed)\<rparr>)))"

subsection \<open>Verification\<close>

definition verify_envelope :: "attest_env \<Rightarrow> bytes \<Rightarrow> envelope \<Rightarrow> gostring + unit" where
  "verify_envelope env public_pem e =
     (let st = en_statement e in
      if st_version st \<noteq> attestation_version
      then Inl (''unsupported attestation version '' @ quote_text (st_version st))
      else if \<not> at_valid env (en_payload e) then Inl ''attestation payload is not valid JSON''
      else (case reject_duplicates env (en_payload e) of
        Inl err \<Rightarrow> Inl (''attestation payload: '' @ err)
      | Inr _ \<Rightarrow>
      ok_bind (payload_identity env (en_payload e)) (\<lambda>(run, scenario_digest, config_digest).
      if st_run_id st \<noteq> run then Inl ''attestation run ID does not match payload cycle_id''
      else if st_scenario_digest st \<noteq> scenario_digest
      then Inl ''attestation scenario digest does not match payload scenario_digest''
      else if st_run_config_digest st \<noteq> config_digest
      then Inl ''attestation run config digest does not match payload run_config_digest''
      else ok_bind (parse_public_key env public_pem) (\<lambda>key.
      if at_sha256_hex env (en_payload e) \<noteq> st_payload_sha256 st then Inl ''payload SHA-256 mismatch''
      else if at_sha256_hex env key \<noteq> st_public_key_sha256 st then Inl ''public key SHA-256 mismatch''
      else (case at_unbase64 env (en_signature e) of
        Inl err \<Rightarrow> Inl (''decode signature: '' @ err)
      | Inr signature \<Rightarrow>
      (case at_marshal_statement env st of
        Inl err \<Rightarrow> Inl (''marshal attestation statement: '' @ err)
      | Inr to_be_signed \<Rightarrow>
        if \<not> at_verify env key to_be_signed signature then Inl ''invalid attestation signature''
        else Inr ()))))))"

subsection \<open>The envelope\<close>

definition marshal_envelope :: "attest_env \<Rightarrow> envelope \<Rightarrow> gostring + bytes" where
  "marshal_envelope env e =
     (if \<not> at_valid env (en_payload e) then Inl ''attestation payload is not valid JSON''
      else (case at_marshal_statement env (en_statement e) of
        Inl err \<Rightarrow> Inl (''encode attestation statement: '' @ err)
      | Inr st \<Rightarrow>
      (case at_marshal_string env (en_signature e) of
        Inl err \<Rightarrow> Inl (''encode attestation signature: '' @ err)
      | Inr sig \<Rightarrow> Inr (''{\"statement\":'' @ st @ '',\"payload\":'' @ en_payload e
          @ '',\"signature\":'' @ sig @ ''}''))))"

definition read_private_key :: "attest_env \<Rightarrow> gostring \<Rightarrow> gostring + bytes" where
  "read_private_key env path =
     (case at_read_file env path of Inl e \<Rightarrow> Inl (''read attestation private key: '' @ e)
      | Inr key \<Rightarrow> ok_bind (parse_private_key env key) (\<lambda>_. Inr key))"

definition read_envelope :: "attest_env \<Rightarrow> gostring \<Rightarrow> gostring + envelope" where
  "read_envelope env path =
     (case at_read_file env path of Inl e \<Rightarrow> Inl (''read attestation: '' @ e)
      | Inr contents \<Rightarrow>
      (case reject_duplicates env contents of Inl e \<Rightarrow> Inl (''decode attestation: '' @ e)
      | Inr _ \<Rightarrow>
      (case at_decode_envelope env contents of Inl e \<Rightarrow> Inl (''decode attestation: '' @ e)
      | Inr e \<Rightarrow>
      (case at_trailing env contents of
         AtEOF \<Rightarrow> Inr e
       | AnotherDocument \<Rightarrow> Inl ''decode attestation: multiple JSON values are not allowed''
       | TrailingError err \<Rightarrow> Inl (''decode attestation: '' @ err)))))"

subsection \<open>Digests\<close>

lemma valid_digest_iff:
  "valid_digest v \<longleftrightarrow> (\<exists>hex. v = digest_prefix @ hex \<and> length hex = 64 \<and> list_all is_hex_digit hex)"
proof
  assume v: "valid_digest v"
  let ?hex = "drop (length digest_prefix) v"
  have parts: "length v = length digest_prefix + 64" "take (length digest_prefix) v = digest_prefix"
    "is_hex_text ?hex"
    using v by (auto simp: valid_digest_def split: if_splits)
  have "v = digest_prefix @ ?hex" using parts(2) by (metis append_take_drop_id)
  moreover have "length ?hex = 64" using parts(1) by simp
  ultimately show "\<exists>hex. v = digest_prefix @ hex \<and> length hex = 64 \<and> list_all is_hex_digit hex"
    using parts(3) by (auto simp: is_hex_text_def)
next
  assume "\<exists>hex. v = digest_prefix @ hex \<and> length hex = 64 \<and> list_all is_hex_digit hex"
  then show "valid_digest v" by (auto simp: valid_digest_def is_hex_text_def)
qed

subsection \<open>What verification accepts\<close>

text \<open>A report whose identity can be attested.\<close>

definition attestable :: "attest_env \<Rightarrow> bytes \<Rightarrow> gostring \<times> gostring \<times> gostring \<Rightarrow> bool" where
  "attestable env payload ident \<longleftrightarrow> at_valid env payload
     \<and> (\<exists>v. unique_keys v \<and> at_lex env payload = (render v, EndOfInput))
     \<and> payload_identity env payload = Inr ident"

lemma reject_duplicates_ok:
  "reject_duplicates env payload = Inr () \<longleftrightarrow> (\<exists>v. unique_keys v \<and> at_lex env payload = (render v, EndOfInput))"
proof -
  have "reject_duplicates env payload = Inr () \<longleftrightarrow>
      reject_duplicate_json_fields (fst (at_lex env payload)) (snd (at_lex env payload)) = Inr ()"
    by (auto simp: reject_duplicates_def split: sum.split)
  then show ?thesis by (auto simp: reject_fields_exact prod_eq_iff)
qed

lemma case_error_ok:
  "(case x of Inl e \<Rightarrow> Inl (f e) | Inr y \<Rightarrow> g y) = Inr z \<longleftrightarrow> (\<exists>y. x = Inr y \<and> g y = Inr z)"
  by (cases x) auto

lemma if_error_ok: "(if c then Inl e else r) = Inr z \<longleftrightarrow> \<not> c \<and> r = Inr z"
  by simp

lemma sign_json_ok:
  "sign_json env private_pem payload now = Inr e \<longleftrightarrow>
     (\<exists>key ident tbs. parse_private_key env private_pem = Inr key \<and> attestable env payload ident
        \<and> en_statement e = statement_for env (at_public_of env key) payload ident now
        \<and> en_payload e = payload \<and> at_marshal_statement env (en_statement e) = Inr tbs
        \<and> en_signature e = at_base64 env (at_sign env key tbs))"
  unfolding sign_json_def attestable_def reject_duplicates_ok[symmetric] Let_def
  by (cases e) (auto simp: case_error_ok if_error_ok)

lemma verify_ok:
  "verify_envelope env public_pem e = Inr () \<longleftrightarrow>
     (\<exists>key tbs sig. parse_public_key env public_pem = Inr key
        \<and> attestable env (en_payload e) (st_run_id (en_statement e), st_scenario_digest (en_statement e),
            st_run_config_digest (en_statement e))
        \<and> en_statement e = statement_for env key (en_payload e) (st_run_id (en_statement e),
            st_scenario_digest (en_statement e), st_run_config_digest (en_statement e)) (st_issued_at (en_statement e))
        \<and> at_marshal_statement env (en_statement e) = Inr tbs
        \<and> at_unbase64 env (en_signature e) = Inr sig \<and> at_verify env key tbs sig)"
  unfolding verify_envelope_def attestable_def reject_duplicates_ok[symmetric] Let_def statement_for_def
  by (cases "en_statement e") (auto simp: case_error_ok if_error_ok)

end
