(* ===== verification/Attestation_Laws.thy ===== *)
theory Attestation_Laws imports Attestation
begin

text \<open>
  What an attestation proves: signed reports verify after they are written and read back, and
  verification accepts exactly the envelopes whose statement describes and signs their payload.
\<close>

text \<open>What the standard library promises of the signature scheme and of Base64.\<close>

definition signature_laws :: "attest_env \<Rightarrow> bool" where
  "signature_laws env \<longleftrightarrow> (\<forall>key m. at_verify env (at_public_of env key) m (at_sign env key m))
     \<and> (\<forall>x. at_unbase64 env (at_base64 env x) = Inr x)"

text \<open>JSON white space around a value is no part of a \<open>json.RawMessage\<close>.\<close>

definition is_json_space :: "char \<Rightarrow> bool" where
  "is_json_space c \<longleftrightarrow> (of_char c :: nat) \<in> {9, 10, 13, 32}"

definition json_trim :: "bytes \<Rightarrow> bytes" where
  "json_trim s = rev (dropWhile is_json_space (rev (dropWhile is_json_space s)))"

text \<open>What the standard library promises of an envelope as \<open>MarshalEnvelope\<close> writes it: it is the object with
  the lexemes of its three parts, and decoding gives the parts back, the payload as a raw message.\<close>

definition envelope_codec :: "attest_env \<Rightarrow> envelope \<Rightarrow> bool" where
  "envelope_codec env e \<longleftrightarrow> (\<forall>text' v. marshal_envelope env e = Inr text'
       \<longrightarrow> at_lex env (en_payload e) = (render v, EndOfInput) \<longrightarrow>
     (\<exists>s g. unique_keys s \<and> unique_keys g \<and> at_lex env text' =
        (render (JObject [(''statement'', s), (''payload'', v), (''signature'', g)]), EndOfInput))
     \<and> at_decode_envelope env text' = Inr (e\<lparr>en_payload := json_trim (en_payload e)\<rparr>)
     \<and> at_trailing env text' = AtEOF)"

lemma sign_then_verify:
  assumes "sign_json env private_pem payload now = Inr e" and "parse_private_key env private_pem = Inr key"
    and "parse_public_key env public_pem = Inr (at_public_of env key)" and "signature_laws env"
  shows "verify_envelope env public_pem e = Inr ()"
proof -
  obtain ident tbs where e: "attestable env payload ident" "en_payload e = payload"
    "en_statement e = statement_for env (at_public_of env key) payload ident now"
    "at_marshal_statement env (en_statement e) = Inr tbs"
    "en_signature e = at_base64 env (at_sign env key tbs)"
    using assms(1,2) by (auto simp: sign_json_ok)
  obtain run sd cd where ident: "ident = (run, sd, cd)" by (cases ident)
  have "verify_envelope env public_pem e = Inr () \<longleftrightarrow>
      at_unbase64 env (en_signature e) = Inr (at_sign env key tbs) \<and>
      at_verify env (at_public_of env key) tbs (at_sign env key tbs)"
    using assms(3,4) e ident by (auto simp: verify_ok statement_for_def signature_laws_def)
  then show ?thesis using assms(4) e(5) by (simp add: signature_laws_def)
qed

lemma read_marshalled:
  assumes "attestable env (en_payload e) ident" and "marshal_envelope env e = Inr text'"
    and "envelope_codec env e" and "at_read_file env path = Inr text'"
  shows "read_envelope env path = Inr (e\<lparr>en_payload := json_trim (en_payload e)\<rparr>)"
proof -
  obtain v where v: "unique_keys v" "at_lex env (en_payload e) = (render v, EndOfInput)"
    using assms(1) by (auto simp: attestable_def)
  with assms(2,3) obtain s g where "unique_keys s" "unique_keys g"
    and lex: "at_lex env text' = (render (JObject [(''statement'', s), (''payload'', v), (''signature'', g)]), EndOfInput)"
    and decoded: "at_decode_envelope env text' = Inr (e\<lparr>en_payload := json_trim (en_payload e)\<rparr>)"
      "at_trailing env text' = AtEOF"
    by (auto simp: envelope_codec_def)
  then have "unique_keys (JObject [(''statement'', s), (''payload'', v), (''signature'', g)])"
    using v(1) by simp
  with lex have "reject_duplicates env text' = Inr ()" unfolding reject_duplicates_ok by blast
  with assms(4) decoded show ?thesis by (simp add: read_envelope_def)
qed

lemma marshal_signed:
  assumes "sign_json env private_pem payload now = Inr e"
  shows "\<exists>ident. attestable env (en_payload e) ident"
  using assms by (auto simp: sign_json_ok)


text \<open>With white space around it, the report is signed and written just so, but what is read back has
  another payload, and does not verify.\<close>

lemma untrimmed_payload_fails:
  assumes "sign_json env private_pem payload now = Inr e" and "envelope_codec env e"
    and "marshal_envelope env e = Inr text'" and "at_read_file env path = Inr text'"
    and "at_sha256_hex env (json_trim payload) \<noteq> at_sha256_hex env payload"
  shows "\<exists>e'. read_envelope env path = Inr e' \<and> verify_envelope env public_pem e' \<noteq> Inr ()"
proof -
  have p: "en_payload e = payload" "st_payload_sha256 (en_statement e) = at_sha256_hex env payload"
    using assms(1) by (auto simp: sign_json_ok statement_for_def)
  let ?e = "e\<lparr>en_payload := json_trim (en_payload e)\<rparr>"
  have "verify_envelope env public_pem ?e \<noteq> Inr ()"
  proof
    assume "verify_envelope env public_pem ?e = Inr ()"
    then obtain k where "en_statement ?e = statement_for env k (en_payload ?e) (st_run_id (en_statement ?e),
        st_scenario_digest (en_statement ?e), st_run_config_digest (en_statement ?e)) (st_issued_at (en_statement ?e))"
      unfolding verify_ok by blast
    then have "st_payload_sha256 (en_statement ?e) = at_sha256_hex env (en_payload ?e)"
      by (metis (no_types, lifting) case_prod_conv statement.select_convs(6) statement_for_def)
    then show False using p assms(5) by simp
  qed
  with marshal_signed[OF assms(1)] read_marshalled[OF _ assms(3,2,4)] show ?thesis by blast
qed

text \<open>C19: Verification accepts an envelope exactly when its payload is valid JSON without duplicate keys
  whose run, scenario and configuration digests are those of the statement, the digests of the payload
  and of the key are the statement's, and the signature is the key's over the exact statement.\<close>

theorem verify_accepts_exactly:
  "verify_envelope env public_pem e = Inr () \<longleftrightarrow>
     (let st = en_statement e; ident = (st_run_id st, st_scenario_digest st, st_run_config_digest st) in
      \<exists>key tbs sig. parse_public_key env public_pem = Inr key
        \<and> at_valid env (en_payload e) \<and> (\<exists>v. unique_keys v \<and> at_lex env (en_payload e) = (render v, EndOfInput))
        \<and> payload_identity env (en_payload e) = Inr ident
        \<and> st_version st = attestation_version \<and> st_payload_sha256 st = at_sha256_hex env (en_payload e)
        \<and> st_public_key_sha256 st = at_sha256_hex env key
        \<and> at_marshal_statement env st = Inr tbs \<and> at_unbase64 env (en_signature e) = Inr sig
        \<and> at_verify env key tbs sig)"
  unfolding verify_ok attestable_def statement_for_def Let_def
  by (cases "en_statement e") auto

subsection \<open>A report\<close>

definition sample_config_digest :: gostring where
  "sample_config_digest = digest_prefix @ replicate 64 (CHR ''a'')"

definition sample_attest_env :: attest_env where
  "sample_attest_env = \<lparr>at_keys = \<lparr>ke_pem_block = Some, ke_parse_pkix = (\<lambda>b. Inr (Ed25519Key b)),
       ke_parse_pkcs8 = (\<lambda>b. Inr (Ed25519Key b))\<rparr>,
     at_valid = (\<lambda>_. True),
     at_lex = (\<lambda>b. if b = ''R'' then (render (JString ''R''), EndOfInput)
       else (render (JObject [(''statement'', JString []), (''payload'', JString ''R''), (''signature'', JString [])]), EndOfInput)),
     at_identity = (\<lambda>_. Inr \<lparr>ri_cycle_id = ''c'', ri_scenario_digest = sample_config_digest,
       ri_run_config = ''{}'', ri_run_config_digest = sample_config_digest\<rparr>),
     at_compact = Inr, at_sha256_hex = (\<lambda>b. if b = ''{}'' then replicate 64 (CHR ''a'') else b),
     at_marshal_statement = (\<lambda>st. Inr (nat_text (nat (ns (st_issued_at st))))),
     at_marshal_string = Inr,
     at_decode_envelope = (\<lambda>_. Inr \<lparr>en_statement = \<lparr>st_version = attestation_version,
        st_issued_at = Instant 5, st_run_id = ''c'', st_scenario_digest = sample_config_digest,
        st_run_config_digest = sample_config_digest, st_payload_sha256 = ''R'', st_public_key_sha256 = ''K''\<rparr>,
        en_payload = ''R'', en_signature = ''K5''\<rparr>),
     at_trailing = (\<lambda>_. AtEOF), at_public_of = (\<lambda>k. k), at_sign = (\<lambda>k m. k @ m),
     at_verify = (\<lambda>k m s. s = k @ m), at_base64 = (\<lambda>b. b), at_unbase64 = Inr,
     at_error_text = (\<lambda>_. []), at_read_file = (\<lambda>_. Inr ''{\"statement\":5,\"payload\":R,\"signature\":K5}'')\<rparr>"

definition sample_envelope :: envelope where
  "sample_envelope = \<lparr>en_statement = \<lparr>st_version = attestation_version,
        st_issued_at = Instant 5, st_run_id = ''c'', st_scenario_digest = sample_config_digest,
        st_run_config_digest = sample_config_digest, st_payload_sha256 = ''R'', st_public_key_sha256 = ''K''\<rparr>,
        en_payload = ''R'', en_signature = ''K5''\<rparr>"

lemma sample_signed: "sign_json sample_attest_env ''K'' ''R'' (Instant 5) = Inr sample_envelope"
  by code_simp

lemma sample_marshalled:
  "marshal_envelope sample_attest_env sample_envelope = Inr ''{\"statement\":5,\"payload\":R,\"signature\":K5}''"
  by code_simp

lemma sample_signature_laws: "signature_laws sample_attest_env"
  by (simp add: signature_laws_def sample_attest_env_def)

lemma sample_trim: "json_trim ''R'' = ''R''"
  by code_simp

lemma sample_envelope_codec: "envelope_codec sample_attest_env sample_envelope"
  unfolding envelope_codec_def sample_marshalled
proof (intro allI impI)
  have lex: "at_lex sample_attest_env ''R'' = (render (JString ''R''), EndOfInput)"
    "at_lex sample_attest_env ''{\"statement\":5,\"payload\":R,\"signature\":K5}'' = (render (JObject
       [(''statement'', JString []), (''payload'', JString ''R''), (''signature'', JString [])]), EndOfInput)"
    by (simp_all add: sample_attest_env_def)
  have unique: "render v = render (JString ''R'') \<Longrightarrow> v = JString ''R''" for v by (cases v) auto
  fix text' v
  assume "Inr ''{\"statement\":5,\"payload\":R,\"signature\":K5}'' = (Inr text' :: gostring + bytes)"
    and "at_lex sample_attest_env (en_payload sample_envelope) = (render v, EndOfInput)"
  then have t: "text' = ''{\"statement\":5,\"payload\":R,\"signature\":K5}''" and v: "v = JString ''R''"
    using lex(1) unique[of v] by (simp_all add: sample_envelope_def)
  have "unique_keys (JString [])" by simp
  moreover have "at_decode_envelope sample_attest_env text' = Inr (sample_envelope\<lparr>en_payload := json_trim (en_payload sample_envelope)\<rparr>)"
    "at_trailing sample_attest_env text' = AtEOF"
    by (simp_all add: sample_attest_env_def sample_envelope_def sample_trim)
  ultimately show "(\<exists>s g. unique_keys s \<and> unique_keys g \<and> at_lex sample_attest_env text' =
      (render (JObject [(''statement'', s), (''payload'', v), (''signature'', g)]), EndOfInput))
    \<and> at_decode_envelope sample_attest_env text' = Inr (sample_envelope\<lparr>en_payload := json_trim (en_payload sample_envelope)\<rparr>)
    \<and> at_trailing sample_attest_env text' = AtEOF"
    using lex(2) t v by blast
qed


end
