(* ===== verification/Chaos.thy ===== *)
theory Chaos imports Go_Strings Go_Time
begin

text \<open>
  Responder-scoped fault injection (\<open>internal/chaos/proxy.go\<close>): the faults of the proxy, what it does with a
  request, and the sweep that runs trials at each delay and keeps their records and counts.  The rates
  derived from the counts and the files are in \<open>Chaos_Report\<close>.
\<close>

subsection \<open>Faults\<close>

datatype fault_mode = FaultPassThrough | FaultDelay | FaultDrop | FaultTimeout | FaultHTTP500
  | FaultMalformed | FaultReset | OtherFault gostring

fun fault_mode_text :: "fault_mode \<Rightarrow> gostring" where
  "fault_mode_text FaultPassThrough = ''pass_through''"
| "fault_mode_text FaultDelay = ''delay''"
| "fault_mode_text FaultDrop = ''drop''"
| "fault_mode_text FaultTimeout = ''timeout''"
| "fault_mode_text FaultHTTP500 = ''http_500''"
| "fault_mode_text FaultMalformed = ''malformed_ocsp''"
| "fault_mode_text FaultReset = ''reset''"
| "fault_mode_text (OtherFault s) = s"

record fault =
  ft_mode :: fault_mode
  ft_delay :: duration

definition validate_fault :: "fault \<Rightarrow> gostring + unit" where
  "validate_fault f =
     (case ft_mode f of
        OtherFault m \<Rightarrow> Inl (''unsupported fault mode '' @ quote_text m)
      | _ \<Rightarrow> if ft_delay f < 0 then Inl ''fault delay must not be negative'' else Inr ())"

text \<open>The proxy's state is its fault; a rejected fault leaves it.\<close>

definition set_fault :: "fault \<Rightarrow> fault \<Rightarrow> gostring option \<times> fault" where
  "set_fault f current = (case validate_fault f of Inl e \<Rightarrow> (Some e, current) | Inr _ \<Rightarrow> (None, f))"

definition set_delay :: "duration \<Rightarrow> fault \<Rightarrow> gostring option \<times> fault" where
  "set_delay d = set_fault \<lparr>ft_mode = (if d = 0 then FaultPassThrough else FaultDelay), ft_delay = d\<rparr>"

definition initial_fault :: fault where
  "initial_fault = \<lparr>ft_mode = FaultPassThrough, ft_delay = 0\<rparr>"

text \<open>The upstream URL as \<open>url.Parse\<close> gives it.\<close>

record upstream_url =
  uu_scheme :: gostring
  uu_host :: gostring
  uu_has_user :: bool
  uu_raw_query :: gostring
  uu_fragment :: gostring

definition check_upstream :: "(gostring \<Rightarrow> gostring + upstream_url) \<Rightarrow> gostring \<Rightarrow> gostring \<Rightarrow> gostring + unit" where
  "check_upstream parse_url base allowed_path =
     (case parse_url base of Inl e \<Rightarrow> Inl (''parse upstream URL: '' @ e)
      | Inr u \<Rightarrow>
        if (uu_scheme u \<noteq> ''http'' \<and> uu_scheme u \<noteq> ''https'') \<or> uu_host u = []
        then Inl ''upstream must be an absolute HTTP(S) URL''
        else if uu_has_user u \<or> uu_raw_query u \<noteq> [] \<or> uu_fragment u \<noteq> []
        then Inl ''upstream URL must not contain credentials, query, or fragment''
        else if \<not> prefix ''/'' allowed_path then Inl ''allowed path must be absolute''
        else Inr ())"

text \<open>A proxy that has started: its base URL, the one path it forwards, and its fault.  \<open>listen\<close> is the address of
  the loopback listener, which is opened only once the upstream is accepted.\<close>

record latency_proxy =
  lp_base_url :: gostring
  lp_allowed_path :: gostring
  lp_fault :: fault

definition start_latency_proxy :: "(gostring \<Rightarrow> gostring + upstream_url) \<Rightarrow> gostring + gostring \<Rightarrow> gostring \<Rightarrow> gostring
    \<Rightarrow> gostring + latency_proxy" where
  "start_latency_proxy parse_url listen base allowed_path =
     (case check_upstream parse_url base allowed_path of
        Inl e \<Rightarrow> Inl e
      | Inr _ \<Rightarrow>
        (case listen of
           Inl e \<Rightarrow> Inl (''listen for latency proxy: '' @ e)
         | Inr addr \<Rightarrow> Inr \<lparr>lp_base_url = ''http://'' @ addr, lp_allowed_path = allowed_path, lp_fault = initial_fault\<rparr>))"

subsection \<open>One request\<close>

text \<open>A request with the time after which its caller gives up, if it does, and whether its connection can be
  hijacked; a caller who gives up at the very instant a timer fires is taken to have given up.  A handler
  of \<open>net/http\<close> that returns without an answer to a caller who still waits sends an empty one with status 200.\<close>

record proxy_request =
  pq_path :: gostring
  pq_cancel_after :: "duration option"
  pq_hijackable :: bool

datatype proxy_outcome = Forwarded | NotFound | CallerGone | ConnectionClosed bool
  | InjectedFailure | MalformedAnswer | NeverAnswered | EmptyAnswer

definition wait_for_request :: "proxy_request \<Rightarrow> duration \<Rightarrow> bool" where
  "wait_for_request r d = (if d \<le> 0 then True
     else (case pq_cancel_after r of None \<Rightarrow> True | Some c \<Rightarrow> d < c))"

definition close_connection :: "proxy_request \<Rightarrow> bool \<Rightarrow> proxy_outcome" where
  "close_connection r reset = (if pq_hijackable r then ConnectionClosed reset else EmptyAnswer)"

definition proxy_handle :: "gostring \<Rightarrow> fault \<Rightarrow> proxy_request \<Rightarrow> proxy_outcome" where
  "proxy_handle allowed_path f r =
     (if pq_path r \<noteq> allowed_path then NotFound
      else case ft_mode f of
        FaultPassThrough \<Rightarrow> Forwarded
      | FaultDelay \<Rightarrow> if wait_for_request r (ft_delay f) then Forwarded else CallerGone
      | FaultDrop \<Rightarrow> close_connection r False
      | FaultTimeout \<Rightarrow>
          if 0 < ft_delay f
          then (if wait_for_request r (ft_delay f) then close_connection r False else CallerGone)
          else (if pq_cancel_after r = None then NeverAnswered else CallerGone)
      | FaultHTTP500 \<Rightarrow> InjectedFailure
      | FaultMalformed \<Rightarrow> MalformedAnswer
      | FaultReset \<Rightarrow> close_connection r True
      | OtherFault m \<Rightarrow> EmptyAnswer)"

subsection \<open>A sweep\<close>

record trial_outcome =
  to_valid :: bool
  to_failed :: bool
  to_decision :: gostring
  to_reason :: gostring

record trial_record =
  tr_timestamp :: gotime
  tr_delay_ms :: int
  tr_fault_mode :: fault_mode
  tr_attempted :: bool
  tr_valid :: bool
  tr_harness_error :: gostring
  tr_failed :: bool
  tr_decision :: gostring
  tr_reason :: gostring

record sweep_stats =
  sw_attempted :: nat
  sw_valid_trials :: nat
  sw_harness_errors :: nat
  sw_failures :: nat

definition no_stats :: sweep_stats where
  "no_stats = \<lparr>sw_attempted = 0, sw_valid_trials = 0, sw_harness_errors = 0, sw_failures = 0\<rparr>"

record detailed_sweep =
  ds_stats :: "int \<rightharpoonup> sweep_stats"
  ds_trials :: "trial_record list"

text \<open>The surroundings of a sweep: the clock and the outcome of the \<open>n\<close>th trial, and whether the context has
  ended when the \<open>n\<close>th delay comes up.\<close>

record sweep_env =
  sv_clock :: "nat \<Rightarrow> gotime"
  sv_trial :: "nat \<Rightarrow> int \<Rightarrow> gostring + trial_outcome"
  sv_context_error :: "nat \<Rightarrow> gostring option"

definition trial_mode :: "int \<Rightarrow> fault_mode" where
  "trial_mode delay = (if delay = 0 then FaultPassThrough else FaultDelay)"

text \<open>The body of the loop over the trials: the record and the counts of one trial.\<close>

definition run_trial_record :: "sweep_env \<Rightarrow> nat \<Rightarrow> int \<Rightarrow> trial_record" where
  "run_trial_record sv n delay =
     (let rec0 = \<lparr>tr_timestamp = sv_clock sv n, tr_delay_ms = delay, tr_fault_mode = trial_mode delay,
            tr_attempted = True, tr_valid = False, tr_harness_error = [], tr_failed = False,
            tr_decision = [], tr_reason = []\<rparr> in
      case sv_trial sv n delay of
        Inl e \<Rightarrow> rec0\<lparr>tr_harness_error := e\<rparr>
      | Inr out \<Rightarrow> rec0\<lparr>tr_valid := to_valid out, tr_failed := to_failed out, tr_decision := to_decision out,
          tr_reason := to_reason out,
          tr_harness_error := (if to_valid out then [] else ''trial returned invalid outcome'')\<rparr>)"

definition count_trial :: "trial_record \<Rightarrow> sweep_stats \<Rightarrow> sweep_stats" where
  "count_trial t st = (let st' = st\<lparr>sw_attempted := Suc (sw_attempted st)\<rparr> in
     if \<not> tr_valid t then st'\<lparr>sw_harness_errors := Suc (sw_harness_errors st)\<rparr>
     else st'\<lparr>sw_valid_trials := Suc (sw_valid_trials st),
       sw_failures := (if tr_failed t then Suc (sw_failures st) else sw_failures st)\<rparr>)"

fun run_trials :: "sweep_env \<Rightarrow> int \<Rightarrow> nat \<Rightarrow> sweep_stats \<Rightarrow> trial_record list \<Rightarrow> sweep_stats \<times> trial_record list" where
  "run_trials sv delay 0 st ts = (st, ts)"
| "run_trials sv delay (Suc k) st ts =
     (let t = run_trial_record sv (length ts) delay
      in run_trials sv delay k (count_trial t st) (ts @ [t]))"

text \<open>The loop over the delays; \<open>ctl\<close> sets the controller's delay.  The multiplication by a millisecond
  wraps around.\<close>

fun sweep_delays :: "(duration \<Rightarrow> 'c \<Rightarrow> gostring option \<times> 'c) \<Rightarrow> sweep_env \<Rightarrow> nat \<Rightarrow> nat \<Rightarrow> int list
    \<Rightarrow> detailed_sweep \<Rightarrow> 'c \<Rightarrow> detailed_sweep \<times> gostring option \<times> 'c" where
  "sweep_delays ctl sv trials i [] res c = (res, None, c)"
| "sweep_delays ctl sv trials i (d # ds) res c =
     (if d < 0 then (res, Some (''chaos: delay must not be negative: '' @ int_text d), c)
      else (case sv_context_error sv i of
          Some e \<Rightarrow> (res, Some e, c)
        | None \<Rightarrow>
          (case ctl (duration_times d millisecond) c of
             (Some e, c') \<Rightarrow> (res, Some (''chaos: setting delay '' @ int_text d @ ''ms: '' @ e), c')
           | (None, c') \<Rightarrow>
             (case run_trials sv d trials no_stats (ds_trials res) of
                (st, ts) \<Rightarrow> sweep_delays ctl sv trials (Suc i) ds
                  \<lparr>ds_stats = (ds_stats res)(d \<mapsto> st), ds_trials = ts\<rparr> c'))))"

definition empty_sweep :: detailed_sweep where
  "empty_sweep = \<lparr>ds_stats = Map.empty, ds_trials = []\<rparr>"

text \<open>The deferred reset runs on every way out of the loop.\<close>

definition sweep_detailed :: "(duration \<Rightarrow> 'c \<Rightarrow> gostring option \<times> 'c) \<Rightarrow> sweep_env \<Rightarrow> int list \<Rightarrow> int
    \<Rightarrow> 'c option \<Rightarrow> detailed_sweep \<times> gostring option \<times> 'c option" where
  "sweep_detailed ctl sv delays trials controller =
     (case controller of None \<Rightarrow> (empty_sweep, Some ''chaos: delay controller is required'', None)
      | Some c \<Rightarrow>
        if trials < 1 then (empty_sweep, Some ''chaos: trials must be at least 1'', Some c)
        else (case sweep_delays ctl sv (nat trials) 0 delays empty_sweep c of
            (res, e, c') \<Rightarrow> (res, e, Some (snd (ctl 0 c')))))"

definition default_delays_ms :: "int list" where
  "default_delays_ms = [0, 100, 500, 1000, 1500, 1700, 1900, 1950, 1960, 1970, 1980, 1990, 2000]"

definition bool_text :: "bool \<Rightarrow> gostring" where
  "bool_text b = (if b then ''true'' else ''false'')"

definition csv_row :: "(gotime \<Rightarrow> gostring) \<Rightarrow> trial_record \<Rightarrow> gostring" where
  "csv_row rfc3339_nano t = join_with '','' [rfc3339_nano (tr_timestamp t), int_text (tr_delay_ms t),
     fault_mode_text (tr_fault_mode t), bool_text (tr_attempted t), bool_text (tr_valid t), tr_decision t,
     tr_reason t, quote_text (tr_harness_error t), bool_text (tr_failed t)] @ [CHR 0x0A]"

definition detailed_csv :: "(gotime \<Rightarrow> gostring) \<Rightarrow> detailed_sweep \<Rightarrow> gostring" where
  "detailed_csv rfc3339_nano res =
     ''timestamp,delay_ms,fault_mode,attempted,valid,decision,reason,harness_error,oracle_failure''
     @ [CHR 0x0A] @ concat (map (csv_row rfc3339_nano) (ds_trials res))"

end
