(* ===== verification/Probe_Command.thy ===== *)
theory Probe_Command imports Cycle Attestation Baseline_State Chaos Streams
begin

text \<open>
  The commands of \<open>cmd/probe/main.go\<close>: what \<open>run\<close> checks before the first cycle and the runner it builds,
  what it does with the report of a cycle (\<open>finalizeCycle\<close>), a standalone \<open>check\<close>, \<open>attest verify\<close>, and the
  trials of \<open>chaos sweep\<close>.  The flag package gives the parsed options; \<open>log.Fatal\<close> is an exit with status 1.
\<close>

text \<open>\<open>env\<close>: an unset variable reads as the empty string.\<close>

definition env_or :: "(gostring \<Rightarrow> gostring) \<Rightarrow> gostring \<Rightarrow> gostring \<Rightarrow> gostring" where
  "env_or getenv key fallback = (if getenv key \<noteq> [] then getenv key else fallback)"

abbreviation newline :: gostring where "newline \<equiv> [CHR 0x0A]"

subsection \<open>Starting the probe\<close>

record run_options =
  ro_once :: bool
  ro_config :: gostring
  ro_scenarios :: gostring
  ro_scenario :: scenario
  ro_output :: gostring
  ro_interval :: duration
  ro_attestation_key :: gostring
  ro_attestation_out :: gostring

definition default_run_options :: "(gostring \<Rightarrow> gostring) \<Rightarrow> run_options" where
  "default_run_options getenv = \<lparr>ro_once = False, ro_config = ''profiles.yaml'',
     ro_scenarios = ''scenarios'', ro_scenario = ''revoked_staple'', ro_output = ''text'',
     ro_interval = 15 * minute, ro_attestation_key = env_or getenv ''ASSURANCE_ATTESTATION_KEY'' [],
     ro_attestation_out = env_or getenv ''ASSURANCE_ATTESTATION_OUT'' []\<rparr>"

text \<open>Files, decoders and the login to Vault, which answers with an error or none.\<close>

record startup_env =
  su_getenv :: "gostring \<Rightarrow> gostring"
  su_attest :: attest_env
  su_read_config :: "gostring \<Rightarrow> gostring + bytes"
  su_decode_config :: "bytes \<Rightarrow> gostring + config"
  su_config_trailing :: "bytes \<Rightarrow> stream_end"
  su_decode_scenario :: "gostring \<Rightarrow> scenario_error + yaml_manifest"
  su_marshal_manifest :: "yaml_manifest \<Rightarrow> bytes"
  su_sha256_hex :: "bytes \<Rightarrow> gostring"
  su_glob :: "gostring \<Rightarrow> gostring + gostring list"
  su_login :: "gostring \<Rightarrow> gostring \<Rightarrow> gostring \<Rightarrow> gostring option"
  su_parse_url :: "gostring \<Rightarrow> parsed_url option"
  su_executor :: executor_env

datatype startup_error = InvalidOutput gostring | IntervalNotPositive | AttestationHalfConfigured
  | AttestationKeyInvalid gostring | ConfigInvalid config_error | ScenariosInvalid scenario_error
  | ScenariosUnusable scenario_error | ScenarioNotLoaded gostring | LoginFailed gostring
  | ExecutorURLsInvalid urls_error | ExecutorsUnusable remote_error

definition or_fatal :: "('e \<Rightarrow> 'f) \<Rightarrow> 'e + 'a \<Rightarrow> 'f + 'a" where
  "or_fatal f r = (case r of Inl e \<Rightarrow> Inl (f e) | Inr x \<Rightarrow> Inr x)"

definition check_run_options :: "run_options \<Rightarrow> startup_error + unit" where
  "check_run_options opts =
     (if ro_output opts \<noteq> ''text'' \<and> ro_output opts \<noteq> ''json'' then Inl (InvalidOutput (ro_output opts))
      else if ro_interval opts \<le> 0 then Inl IntervalNotPositive
      else if (ro_attestation_key opts = []) \<noteq> (ro_attestation_out opts = []) then Inl AttestationHalfConfigured
      else Inr ())"

definition attestation_private_key :: "attest_env \<Rightarrow> gostring \<Rightarrow> startup_error + bytes" where
  "attestation_private_key env path =
     (if path = [] then Inr [] else or_fatal AttestationKeyInvalid (read_private_key env path))"

definition load_run_config :: "startup_env \<Rightarrow> gostring \<Rightarrow> startup_error + config" where
  "load_run_config env path =
     ok_bind (or_fatal ConfigInvalid (load_config (su_read_config env) (su_decode_config env)
       (su_config_trailing env) path)) (\<lambda>c.
     ok_bind (or_fatal ConfigInvalid (validate_enabled_config c (map prof_name standard_profiles))) (\<lambda>_. Inr c))"

definition load_run_scenarios :: "startup_env \<Rightarrow> gostring \<Rightarrow> config \<Rightarrow> scenario \<Rightarrow> startup_error + registry \<times> manifest"
where
  "load_run_scenarios env dir c wanted =
     ok_bind (or_fatal ScenariosInvalid (load_dir (su_decode_scenario env) (su_marshal_manifest env)
       (su_sha256_hex env) (su_glob env dir) standard_profiles)) (\<lambda>reg.
     ok_bind (or_fatal ScenariosUnusable (validate_enabled_profiles reg (enabled_names c))) (\<lambda>_.
     case registry_manifest (Some reg) wanted of
       None \<Rightarrow> Inl (ScenarioNotLoaded wanted) | Some m \<Rightarrow> Inr (reg, m)))"

definition run_runner :: "(gostring \<Rightarrow> gostring) \<Rightarrow> config \<Rightarrow> registry \<Rightarrow> manifest \<Rightarrow> (gostring \<times> gostring) list
   \<Rightarrow> profile placed list \<Rightarrow> runner" where
  "run_runner getenv c reg m urls placed =
     (let vault_addr = env_or getenv ''VAULT_ADDR'' ''http://vault:8200'';
          public_addr = env_or getenv ''VAULT_PUBLIC_ADDR'' ''http://localhost:8200''
      in \<lparr>rn_config = Some c, rn_profiles = map placed_profile placed, rn_scenarios = Some reg,
          rn_scenario = man_id m, rn_ocsp_url = public_addr @ ''/v1/pki_int/ocsp'',
          rn_crl_url = public_addr @ ''/v1/pki_int/crl'', rn_domain = env_or getenv ''PKI_DOMAIN'' ''internal'',
          rn_issuer_endpoint = vault_addr, rn_canary_bind_host = env_or getenv ''PROBE_CANARY_BIND_HOST'' [],
          rn_canary_connect_host = env_or getenv ''PROBE_CANARY_CONNECT_HOST'' [],
          rn_evidence_dir = env_or getenv ''EVIDENCE_DIR'' ''/var/lib/pki-sentinel/evidence'',
          rn_executor_urls = map_of urls\<rparr>)"

text \<open>Everything \<open>run\<close> does before its first cycle.\<close>

definition start_run :: "startup_env \<Rightarrow> run_options \<Rightarrow> startup_error + bytes \<times> runner" where
  "start_run env opts =
     ok_bind (check_run_options opts) (\<lambda>_.
     ok_bind (attestation_private_key (su_attest env) (ro_attestation_key opts)) (\<lambda>key.
     ok_bind (load_run_config env (ro_config opts)) (\<lambda>c.
     ok_bind (load_run_scenarios env (ro_scenarios opts) c (ro_scenario opts)) (\<lambda>(reg, m).
     let getenv = su_getenv env in
     ok_bind (case su_login env (env_or getenv ''VAULT_ADDR'' ''http://vault:8200'')
         (env_or getenv ''VAULT_ROLE_ID'' []) (env_or getenv ''VAULT_SECRET_ID'' []) of
       Some e \<Rightarrow> Inl (LoginFailed e) | None \<Rightarrow> Inr ()) (\<lambda>_.
     ok_bind (or_fatal ExecutorURLsInvalid
       (parse_urls (su_parse_url env) (env_or getenv ''PROBE_EXECUTORS'' []))) (\<lambda>urls.
     ok_bind (or_fatal ExecutorsUnusable (apply_remote (su_executor env) standard_profiles urls)) (\<lambda>placed.
       Inr (key, run_runner getenv c reg m urls placed))))))))"

subsection \<open>Standard output\<close>

text \<open>\<open>%-ns\<close> pads to \<open>n\<close> characters, one byte each here.\<close>

definition pad_right :: "nat \<Rightarrow> gostring \<Rightarrow> gostring" where
  "pad_right n s = s @ replicate (n - length s) (CHR '' '')"

definition report_columns :: "gostring list \<Rightarrow> gostring" where
  "report_columns cells = join_with '' '' (map2 pad_right [22, 16, 14, 18, 20, 8, 0] cells) @ newline"

text \<open>The formats of a time and of a latency rounded to a millisecond.\<close>

record report_format =
  rf_rfc3339 :: "gotime \<Rightarrow> gostring"
  rf_latency :: "duration \<Rightarrow> gostring"

definition report_row :: "report_format \<Rightarrow> result \<Rightarrow> gostring" where
  "report_row fmt res = report_columns [res_profile res, role_text (res_role res), method_text (res_method res),
     decision_text (res_decision res), reason_text (res_reason res), bool_text (res_expectation_met res),
     rf_latency fmt (res_decision_latency res)]"

definition write_report :: "report_format \<Rightarrow> cycle_report \<Rightarrow> gostring \<Rightarrow> bytes \<Rightarrow> bool \<Rightarrow> (stdout, gostring, unit) op"
where
  "write_report fmt rep format json delimit =
     (if format = ''json''
      then op_bind (write_out json) (\<lambda>_. if delimit then write_out newline else op_return ())
      else op_bind (write_out (''cycle '' @ rep_cycle_id rep @ ''  scenario='' @ rep_scenario rep
             @ ''  revoke_ack_at='' @ rf_rfc3339 fmt (rep_revoke_ack_at rep) @ newline)) (\<lambda>_.
           op_bind (write_out (report_columns [''PROFILE'', ''ROLE'', ''METHOD'', ''DECISION'', ''REASON'',
             ''MATCH'', ''LATENCY''])) (\<lambda>_.
             op_each (\<lambda>res. write_out (report_row fmt res)) (rep_results rep))))"

subsection \<open>The sinks of a report\<close>

definition marshal_attestation :: "attest_env \<Rightarrow> gotime \<Rightarrow> bytes \<Rightarrow> bytes \<Rightarrow> gostring + bytes" where
  "marshal_attestation env now key json = ok_bind (sign_json env key json now) (marshal_envelope env)"

text \<open>The file of \<open>--attestation-out\<close> in its directory, whose nodes the state holds; a path that names the
  directory itself cannot be replaced.  \<open>random_suffix\<close> is that of the free name \<open>os.CreateTemp\<close> has found.\<close>

definition attestation_name :: "gostring \<Rightarrow> gostring" where
  "attestation_name path = (let name = rev (takeWhile (\<lambda>c. c \<noteq> slash) (rev path)) in
     if name = [] \<or> name = ''..'' then ''.'' else name)"

definition write_attestation :: "gostring \<Rightarrow> gostring \<Rightarrow> bytes \<Rightarrow> unit fs_op" where
  "write_attestation random_suffix path contents =
     (let temp = ''.assurance-attestation-'' @ random_suffix;
          wrap = (\<lambda>what. op_wrap (\<lambda>e. what @ '': '' @ e));
          or_close = (\<lambda>m. op_on_error m (op_ignore (fs_close temp)));
          body =
            op_bind (or_close (wrap ''set temporary attestation permissions'' (fs_chmod temp 384))) (\<lambda>_.
            op_bind (or_close (wrap ''write temporary attestation'' (fs_write temp contents))) (\<lambda>_.
            op_bind (or_close (wrap ''sync temporary attestation'' (fs_sync temp))) (\<lambda>_.
            op_bind (wrap ''close temporary attestation'' (fs_close temp)) (\<lambda>_.
            op_bind (wrap ''replace attestation'' (fs_rename temp (attestation_name path))) (\<lambda>_.
            op_bind (wrap ''open attestation directory'' (fs_open_dir ''.'')) (\<lambda>_.
              op_finally (wrap ''sync attestation directory'' (fs_sync ''.'')) (op_ignore (fs_close ''.''))))))))
      in op_bind (wrap ''create temporary attestation'' (fs_create temp)) (\<lambda>_.
           op_finally body (op_ignore (fs_remove temp))))"

record finish_env =
  fe_attest :: attest_env
  fe_marshal_report :: "cycle_report \<Rightarrow> gostring + bytes"
  fe_format :: report_format
  fe_now :: gotime
  fe_report_temp :: "gostring + gostring"
  fe_attestation_temp :: "gostring + gostring"
  fe_out_suffix :: gostring

record host =
  ho_evidence :: fs
  ho_out_dir :: fs
  ho_stdout :: stdout

text \<open>One sink: its error, if any, is added to those so far and does not stop the others.\<close>

definition attempt :: "gostring \<Rightarrow> ('s, gostring, unit) op \<Rightarrow> gostring list \<times> 's \<Rightarrow> gostring list \<times> 's" where
  "attempt what m = (\<lambda>(errs, s). case m s of
       (Inl e, s') \<Rightarrow> (errs @ [what @ e], s') | (Inr _, s') \<Rightarrow> (errs, s'))"

definition on_evidence :: "unit fs_op \<Rightarrow> (host, gostring, unit) op" where
  "on_evidence m = (\<lambda>h. case m (ho_evidence h) of (r, f) \<Rightarrow> (r, h\<lparr>ho_evidence := f\<rparr>))"

definition on_out_dir :: "unit fs_op \<Rightarrow> (host, gostring, unit) op" where
  "on_out_dir m = (\<lambda>h. case m (ho_out_dir h) of (r, f) \<Rightarrow> (r, h\<lparr>ho_out_dir := f\<rparr>))"

definition on_stdout :: "(stdout, gostring, unit) op \<Rightarrow> (host, gostring, unit) op" where
  "on_stdout m = (\<lambda>h. case m (ho_stdout h) of (r, out) \<Rightarrow> (r, h\<lparr>ho_stdout := out\<rparr>))"

text \<open>Without an archived report the cycle's directory gets no attestation.\<close>

definition attest_report :: "finish_env \<Rightarrow> gostring \<Rightarrow> gostring \<Rightarrow> bytes \<Rightarrow> gostring \<Rightarrow> bool \<Rightarrow> bytes
   \<Rightarrow> gostring list \<times> host \<Rightarrow> gostring list \<times> host" where
  "attest_report env dir cycle_id key out archived json eh =
     (if key = [] then eh
      else case marshal_attestation (fe_attest env) (fe_now env) key json of
        Inl e \<Rightarrow> (fst eh @ [''sign assurance attestation: '' @ e], snd eh)
      | Inr contents \<Rightarrow>
        let eh1 = (if archived
              then attempt ''archive cycle attestation: ''
                     (on_evidence (archive_cycle_attestation dir cycle_id contents)) eh
              else eh);
            eh2 = attempt ''update latest cycle attestation: ''
                    (on_evidence (update_latest_cycle_attestation (fe_attestation_temp env) dir contents)) eh1
        in attempt ''write assurance attestation: ''
             (on_out_dir (write_attestation (fe_out_suffix env) out contents)) eh2)"

text \<open>The joined errors; none is success.\<close>

definition finalize_cycle :: "finish_env \<Rightarrow> gostring \<Rightarrow> cycle_report option \<Rightarrow> gostring option \<Rightarrow> bytes \<Rightarrow> gostring
   \<Rightarrow> gostring \<Rightarrow> bool \<Rightarrow> host \<Rightarrow> gostring list \<times> host" where
  "finalize_cycle env dir report cycle_err key out output delimit h =
     (let errs = (case cycle_err of None \<Rightarrow> [] | Some e \<Rightarrow> [e]) in
      case report of None \<Rightarrow> (errs, h)
      | Some rep \<Rightarrow>
        (case canonical_json (fe_marshal_report env) report of
           Inl e \<Rightarrow> (errs @ [''canonicalize cycle report: '' @ e], h)
         | Inr json \<Rightarrow>
           let eh1 = attempt ''archive cycle report: ''
                 (on_evidence (archive_cycle_report dir (rep_cycle_id rep) json)) (errs, h);
               archived = (fst eh1 = errs);
               eh2 = attempt ''update latest cycle report: ''
                 (on_evidence (update_latest_cycle_report (fe_report_temp env) dir json)) eh1;
               eh3 = attest_report env dir (rep_cycle_id rep) key out archived json eh2
           in attempt ''write cycle report: ''
                (on_stdout (write_report (fe_format env) rep output json delimit)) eh3))"

text \<open>One cycle of \<open>run\<close>, from the evidence store it finds to its errors; \<open>None\<close> never returns.\<close>

definition run_cycle :: "cycle_world \<Rightarrow> finish_env \<Rightarrow> runner \<Rightarrow> bytes \<Rightarrow> run_options \<Rightarrow> host
   \<Rightarrow> (gostring list \<times> host) option" where
  "run_cycle w env r key opts h =
     (case run_once w r (ho_evidence h) of None \<Rightarrow> None
      | Some out \<Rightarrow> Some (finalize_cycle env (rn_evidence_dir r) (co_report out) (co_error out) key
          (ro_attestation_out opts) (ro_output opts) (\<not> ro_once opts) (h\<lparr>ho_evidence := co_fs out\<rparr>)))"

subsection \<open>A standalone check\<close>

text \<open>\<open>net.SplitHostPort\<close>: the port follows the last colon; a host in brackets may have colons.\<close>

definition address_error :: "gostring \<Rightarrow> gostring \<Rightarrow> gostring + 'a" where
  "address_error addr why = Inl (''address '' @ addr @ '': '' @ why)"

definition unbracketed :: "gostring \<Rightarrow> gostring \<Rightarrow> gostring \<Rightarrow> 'a \<Rightarrow> gostring + 'a" where
  "unbracketed addr open_part close_part result =
     (if CHR ''['' \<in> set open_part then address_error addr ''unexpected '[' in address''
      else if CHR '']'' \<in> set close_part then address_error addr ''unexpected ']' in address''
      else Inr result)"

definition net_split_host_port :: "gostring \<Rightarrow> gostring + gostring \<times> gostring" where
  "net_split_host_port addr =
     (if CHR '':'' \<notin> set addr then address_error addr ''missing port in address''
      else let port = rev (takeWhile (\<lambda>c. c \<noteq> CHR '':'') (rev addr));
               i = length addr - Suc (length port);
               close = length (takeWhile (\<lambda>c. c \<noteq> CHR '']'') addr) in
        if hd addr = CHR ''['' then
          (if close = length addr then address_error addr ''missing ']' in address''
           else if Suc close = length addr then address_error addr ''missing port in address''
           else if Suc close \<noteq> i
           then address_error addr (if addr ! Suc close = CHR '':'' then ''too many colons in address''
                else ''missing port in address'')
           else unbracketed addr (drop 1 addr) (drop (Suc close) addr) (drop 1 (take close addr), port))
        else if CHR '':'' \<in> set (take i addr) then address_error addr ''too many colons in address''
        else unbracketed addr addr addr (take i addr, port))"

text \<open>\<open>strconv.Atoi\<close> on a 64-bit platform.\<close>

definition read_decimal :: "gostring \<Rightarrow> int option" where
  "read_decimal s =
     (let signed_text = s \<noteq> [] \<and> (hd s = CHR ''-'' \<or> hd s = CHR ''+'');
          body = (if signed_text then tl s else s)
      in if body = [] then None
         else map_option (\<lambda>n. if hd s = CHR ''-'' then - int n else int n) (read_digits 0 body))"

definition atoi :: "gostring \<Rightarrow> gostring + int" where
  "atoi s = (case read_decimal s of
       None \<Rightarrow> Inl (''strconv.Atoi: parsing '' @ quote_text s @ '': invalid syntax'')
     | Some i \<Rightarrow> if i < - (2 ^ 63) \<or> 2 ^ 63 \<le> i
         then Inl (''strconv.Atoi: parsing '' @ quote_text s @ '': value out of range'') else Inr i)"

definition split_host_port :: "(gostring \<Rightarrow> gostring + parsed_url) \<Rightarrow> gostring \<Rightarrow> gostring + gostring \<times> int" where
  "split_host_port parse_url tgt =
     (case parse_url tgt of Inl e \<Rightarrow> Inl (''parsing URL: '' @ e)
      | Inr u \<Rightarrow>
        if url_scheme u \<noteq> ''https'' \<or> url_host u = [] \<or> url_path u \<noteq> [] \<and> url_path u \<noteq> ''/''
        then Inl (''expected https://host:port, got '' @ quote_text tgt)
        else (case net_split_host_port (url_host u) of
            Inl e \<Rightarrow> Inl (''expected explicit host:port in '' @ quote_text tgt @ '': '' @ e)
          | Inr (host, port_text) \<Rightarrow>
            (case atoi port_text of
               Inl e \<Rightarrow> Inl (''invalid port '' @ quote_text port_text @ '': '' @ e)
             | Inr port \<Rightarrow>
               if port < 1 \<or> 65535 < port then Inl (''port '' @ int_text port @ '' out of range'')
               else Inr (host, port))))"

record check_options =
  ck_profile :: gostring
  ck_target :: gostring
  ck_ca :: gostring
  ck_ocsp_url :: gostring
  ck_crl_url :: gostring
  ck_leaf_sha256 :: gostring

text \<open>How a command ends: its status, what it printed, and its message on standard error.\<close>

record command_end =
  ce_exit :: int
  ce_stdout :: gostring
  ce_message :: gostring

definition fatal :: "gostring \<Rightarrow> command_end" where
  "fatal message = \<lparr>ce_exit = 1, ce_stdout = [], ce_message = message\<rparr>"

definition check_target :: "check_options \<Rightarrow> bytes \<Rightarrow> gostring \<Rightarrow> int \<Rightarrow> target" where
  "check_target opts ca host port = \<lparr>tgt_host = host, tgt_connect_host = [], tgt_port = port,
     tgt_ca_chain_pem = ca, tgt_issuer_pem = ca, tgt_ocsp_url = ck_ocsp_url opts, tgt_crl_url = ck_crl_url opts,
     tgt_certificate_serial = [], tgt_issued_leaf_sha256 = ck_leaf_sha256 opts,
     tgt_scenario = ''standalone_check'', tgt_status_freshness = \<lparr>max_clock_skew = 0\<rparr>,
     tgt_ocsp_freshness = \<lparr>ocsp_require_next_update = False, max_age_without_next_update = 0\<rparr>,
     tgt_crl_freshness = \<lparr>crl_require_next_update = False, crl_max_age = 0\<rparr>, tgt_probe_timeout = 0\<rparr>"

definition print_outcome :: "probe_result \<Rightarrow> command_end" where
  "print_outcome r = (case pr_error r of
       Some e \<Rightarrow> \<lparr>ce_exit = 1, ce_stdout = ''decision='' @ decision_text DecisionHarnessError @ '' reason=''
         @ reason_text ReasonHarnessFailure @ '' err='' @ e @ newline, ce_message = []\<rparr>
     | None \<Rightarrow> \<lparr>ce_exit = 0, ce_stdout = ''decision='' @ decision_text (obs_decision (pr_observation r))
         @ '' reason='' @ reason_text (obs_reason (pr_observation r)) @ newline, ce_message = []\<rparr>)"

definition standalone_check :: "(gostring \<Rightarrow> gostring + bytes) \<Rightarrow> (gostring \<Rightarrow> gostring + parsed_url) \<Rightarrow> probe_env
   \<Rightarrow> check_options \<Rightarrow> command_end" where
  "standalone_check read parse_url env opts =
     (if ck_profile opts = [] \<or> ck_target opts = [] \<or> ck_ca opts = []
      then \<lparr>ce_exit = 2, ce_stdout = [], ce_message = ''check: --profile, --target, and --ca are all required''\<rparr>
      else case read (ck_ca opts) of Inl e \<Rightarrow> fatal (''check: reading --ca: '' @ e)
      | Inr ca \<Rightarrow>
        (case split_host_port parse_url (ck_target opts) of
           Inl e \<Rightarrow> fatal (''check: parsing --target: '' @ e)
         | Inr (host, port) \<Rightarrow>
           (case find (\<lambda>(p, probe). prof_name p = ck_profile opts) profile_registry of
              None \<Rightarrow> fatal (''check: unknown profile '' @ quote_text (ck_profile opts))
            | Some (p, probe) \<Rightarrow>
              if prof_method p = MethodOCSPDirect \<and> ck_ocsp_url opts = []
              then fatal ''check: --ocsp-url is required for an OCSP-direct profile''
              else if prof_method p = MethodCRL \<and> ck_crl_url opts = []
              then fatal ''check: --crl-url is required for a CRL profile''
              else if prof_role p = RoleStatusOracle \<and> ck_leaf_sha256 opts = []
              then fatal ''check: --leaf-sha256 is required for a status-oracle profile so the observation is bound to the intended certificate''
              else print_outcome (probe env (check_target opts ca host port)))))"

subsection \<open>Verifying an attestation\<close>

definition attest_verify :: "attest_env \<Rightarrow> (gotime \<Rightarrow> gostring) \<Rightarrow> gostring \<Rightarrow> gostring \<Rightarrow> command_end" where
  "attest_verify env rfc3339 key_path input =
     (if key_path = [] \<or> input = [] then fatal ''attest verify: --public-key and --input are required''
      else case at_read_file env key_path of Inl e \<Rightarrow> fatal (''attest verify: reading public key: '' @ e)
      | Inr public_key \<Rightarrow>
        (case read_envelope env input of Inl e \<Rightarrow> fatal (''attest verify: '' @ e)
         | Inr e \<Rightarrow>
           (case verify_envelope env public_key e of Inl err \<Rightarrow> fatal (''attest verify: '' @ err)
            | Inr _ \<Rightarrow> \<lparr>ce_exit = 0, ce_stdout = ''verified '' @ st_version (en_statement e)
                @ '' issued_at='' @ rfc3339 (st_issued_at (en_statement e))
                @ '' payload_sha256='' @ st_payload_sha256 (en_statement e) @ newline, ce_message = []\<rparr>)))"

text \<open>The subcommand; \<open>parse_flags\<close> is what the flag package makes of the other arguments.\<close>

definition cmd_attest :: "attest_env \<Rightarrow> (gotime \<Rightarrow> gostring) \<Rightarrow> (gostring list \<Rightarrow> gostring \<times> gostring)
   \<Rightarrow> gostring list \<Rightarrow> command_end" where
  "cmd_attest env rfc3339 parse_flags args =
     (if args = [] \<or> hd args \<noteq> ''verify''
      then \<lparr>ce_exit = 2, ce_stdout = [], ce_message =
        ''usage: probe attest verify --public-key attestation.pub --input cycle.attestation.json''\<rparr>
      else case parse_flags (tl args) of (key_path, input) \<Rightarrow> attest_verify env rfc3339 key_path input)"

subsection \<open>The chaos sweep\<close>

record chaos_options =
  ch_delays :: gostring
  ch_trials :: int
  ch_scenario :: scenario

datatype chaos_error = TrialsTooFew | InvalidDelay gostring gostring | ProxyFailed gostring
  | ChaosLoginFailed gostring | ChaosScenarios startup_error | StaplingUnsupported scenario stapling_mode

fun parse_delays :: "gostring list \<Rightarrow> chaos_error + int list" where
  "parse_delays [] = Inr []"
| "parse_delays (s # ss) = (case atoi (trim_space s) of Inl e \<Rightarrow> Inl (InvalidDelay s e)
     | Inr v \<Rightarrow> ok_bind (parse_delays ss) (\<lambda>vs. Inr (v # vs)))"

definition chaos_delays :: "chaos_options \<Rightarrow> chaos_error + int list" where
  "chaos_delays opts = (if ch_delays opts = [] then Inr default_delays_ms
     else parse_delays (split_on (CHR '','') (ch_delays opts)))"

definition chaos_profile :: gostring where
  "chaos_profile = ''openssl-ocsp-direct''"

definition chaos_config :: config where
  "chaos_config = \<lparr>poll_interval = 2 * second, max_wait = 30 * second, max_attempts = 15,
     preflight_max_age = 2 * second,
     cfg_profiles = map (\<lambda>p. \<lparr>pc_name = prof_name p, pc_enabled = True, pc_timeout = 0\<rparr>)
       (filter (\<lambda>p. prof_name p = chaos_profile) standard_profiles),
     status_freshness = \<lparr>sf_max_clock_skew = 5 * minute\<rparr>,
     ocsp_freshness = \<lparr>of_require_next_update = True, of_max_age_without_next_update = hour\<rparr>,
     crl_freshness = \<lparr>cf_require_next_update = True, cf_max_age = hour\<rparr>,
     policy = \<lparr>pol_enforce = False\<rparr>\<rparr>"

definition ocsp_path :: gostring where
  "ocsp_path = ''/v1/pki_int/ocsp''"

definition chaos_runner :: "(gostring \<Rightarrow> gostring) \<Rightarrow> gostring \<Rightarrow> registry \<Rightarrow> manifest \<Rightarrow> runner" where
  "chaos_runner getenv proxy_url reg m =
     \<lparr>rn_config = Some chaos_config, rn_profiles = standard_profiles, rn_scenarios = Some reg,
      rn_scenario = man_id m, rn_ocsp_url = proxy_url @ ocsp_path,
      rn_crl_url = env_or getenv ''VAULT_PUBLIC_ADDR'' ''http://localhost:8200'' @ ''/v1/pki_int/crl'',
      rn_domain = env_or getenv ''PKI_DOMAIN'' ''internal'', rn_issuer_endpoint = [],
      rn_canary_bind_host = [], rn_canary_connect_host = [],
      rn_evidence_dir = env_or getenv ''EVIDENCE_DIR'' ''/var/lib/pki-sentinel/evidence'',
      rn_executor_urls = Map.empty\<rparr>"

text \<open>\<open>listen\<close> is the address the proxy listens on, once its upstream is accepted.\<close>

definition start_chaos :: "startup_env \<Rightarrow> (gostring \<Rightarrow> gostring + upstream_url) \<Rightarrow> gostring + gostring \<Rightarrow> chaos_options
   \<Rightarrow> chaos_error + int list \<times> runner" where
  "start_chaos env parse_upstream listen opts =
     (if ch_trials opts < 1 then Inl TrialsTooFew
      else ok_bind (chaos_delays opts) (\<lambda>delays.
      let getenv = su_getenv env in
      ok_bind (or_fatal ProxyFailed (start_latency_proxy parse_upstream listen
        (env_or getenv ''VAULT_PUBLIC_ADDR'' ''http://localhost:8200'') ocsp_path)) (\<lambda>proxy.
      ok_bind (case su_login env (env_or getenv ''VAULT_ADDR'' ''http://vault:8200'')
          (env_or getenv ''VAULT_ROLE_ID'' []) (env_or getenv ''VAULT_SECRET_ID'' []) of
        Some e \<Rightarrow> Inl (ChaosLoginFailed e) | None \<Rightarrow> Inr ()) (\<lambda>_.
      ok_bind (or_fatal ChaosScenarios (load_run_scenarios env ''scenarios'' chaos_config (ch_scenario opts)))
        (\<lambda>(reg, m).
        if man_stapling m \<noteq> StaplingOff then Inl (StaplingUnsupported (man_id m) (man_stapling m))
        else Inr (delays, chaos_runner getenv (lp_base_url proxy) reg m))))))"

text \<open>A trial: one cycle, and what it says of the direct OCSP oracle.\<close>

definition chaos_outcome :: "cycle_outcome \<Rightarrow> gostring + trial_outcome" where
  "chaos_outcome out = (case co_report out of
       None \<Rightarrow> (case co_error out of Some e \<Rightarrow> Inl e
         | None \<Rightarrow> Inr \<lparr>to_valid = False, to_failed = False, to_decision = [], to_reason = []\<rparr>)
     | Some rep \<Rightarrow> (case find (\<lambda>res. res_profile res = chaos_profile) (rep_results rep) of
         Some res \<Rightarrow> Inr \<lparr>to_valid = (res_decision res \<noteq> DecisionHarnessError \<and> res_err res = []),
           to_failed = (res_decision res \<noteq> DecisionReject), to_decision = decision_text (res_decision res),
           to_reason = reason_text (res_reason res)\<rparr>
       | None \<Rightarrow> Inl ''openssl-ocsp-direct result missing from cycle report''))"

definition chaos_trial :: "cycle_world \<Rightarrow> runner \<Rightarrow> fs \<Rightarrow> (gostring + trial_outcome) option" where
  "chaos_trial w r f = map_option chaos_outcome (run_once w r f)"

end
