(* ===== verification/Chaos_Report.thy ===== *)
theory Chaos_Report imports Probe_Command Streams
begin

text \<open>
  What a sweep is reduced to (\<open>internal/chaos/proxy.go\<close>, \<open>cmd/probe/main.go\<close>): the failure rates as \<open>float64\<close>
  values, the two CSV files, the older \<open>Sweep\<close>, and the end of the chaos command.  A quotient of counts is
  rounded to a binary fraction with a 53-bit mantissa, ties to even; \<open>%.4f\<close> rounds that fraction to four
  decimals in the same way.  Counts are taken to be below \<open>2 ^ 53\<close>, so that converting them is exact.
\<close>

subsection \<open>Rates\<close>

definition half_even :: "nat \<Rightarrow> nat \<Rightarrow> nat" where
  "half_even n d = (let q = n div d; r = n mod d in if 2 * r < d \<or> (2 * r = d \<and> even q) then q else Suc q)"

text \<open>The float \<open>m / 2 ^ e\<close>; the exponents of quotients up to 1 suffice.\<close>

datatype float64 = Float64 nat nat

text \<open>The scale at which the quotient has 53 bits.\<close>

function quotient_scale :: "nat \<Rightarrow> nat \<Rightarrow> nat \<Rightarrow> nat" where
  "quotient_scale n d e = (if n = 0 \<or> 2 ^ 52 * d \<le> n * 2 ^ e then e else quotient_scale n d (Suc e))"
  by pat_completeness auto
termination
proof (relation "measure (\<lambda>(n, d, e). 2 ^ 52 * d - n * 2 ^ e)", simp)
  fix n d e :: nat
  assume "\<not> (n = 0 \<or> 2 ^ 52 * d \<le> n * 2 ^ e)"
  then have "n * 2 ^ e < 2 ^ 52 * d" "0 < n * 2 ^ e" by auto
  moreover have "n * 2 ^ Suc e = 2 * (n * 2 ^ e)" by simp
  ultimately have "2 ^ 52 * d - n * 2 ^ Suc e < 2 ^ 52 * d - n * 2 ^ e" by linarith
  then show "((n, d, Suc e), n, d, e) \<in> measure (\<lambda>(n, d, e). 2 ^ 52 * d - n * 2 ^ e)" by simp
qed

declare quotient_scale.simps [simp del]

definition float_quotient :: "nat \<Rightarrow> nat \<Rightarrow> float64" where
  "float_quotient n d = (if n = 0 then Float64 0 0
     else let e = quotient_scale n d 0 in Float64 (half_even (n * 2 ^ e) d) e)"

definition failure_rate :: "sweep_stats \<Rightarrow> float64" where
  "failure_rate st = (if sw_valid_trials st = 0 then Float64 0 0
     else float_quotient (sw_failures st) (sw_valid_trials st))"

definition rates :: "(int \<rightharpoonup> sweep_stats) \<Rightarrow> int \<rightharpoonup> float64" where
  "rates stats = (\<lambda>delay. map_option failure_rate (stats delay))"

text \<open>\<open>%.4f\<close>: the number of ten-thousandths, and its text.\<close>

fun ten_thousandths :: "float64 \<Rightarrow> nat" where
  "ten_thousandths (Float64 m e) = half_even (m * 10000) (2 ^ e)"

definition rate_text :: "float64 \<Rightarrow> gostring" where
  "rate_text x = (let q = ten_thousandths x; digits = nat_text (q mod 10000)
     in nat_text (q div 10000) @ ''.'' @ replicate (4 - length digits) (CHR ''0'') @ digits)"

subsection \<open>Sweeps that only say whether a trial failed\<close>

definition bool_trial :: "gostring + bool \<Rightarrow> gostring + trial_outcome" where
  "bool_trial r = (case r of Inl e \<Rightarrow> Inl e
     | Inr failed \<Rightarrow> Inr \<lparr>to_valid = True, to_failed = failed, to_decision = [], to_reason = []\<rparr>)"

definition sweep :: "(duration \<Rightarrow> 'c \<Rightarrow> gostring option \<times> 'c) \<Rightarrow> sweep_env \<Rightarrow> (nat \<Rightarrow> int \<Rightarrow> gostring + bool)
    \<Rightarrow> int list \<Rightarrow> int \<Rightarrow> 'c option \<Rightarrow> (int \<rightharpoonup> float64) \<times> gostring option \<times> 'c option" where
  "sweep ctl sv run_trial delays trials controller =
     (case sweep_detailed ctl (sv\<lparr>sv_trial := \<lambda>n d. bool_trial (run_trial n d)\<rparr>) delays trials controller of
        (res, err, c) \<Rightarrow> (rates (ds_stats res), err, c))"

subsection \<open>CSV files\<close>

text \<open>\<open>os.Create\<close> fails or empties the file.\<close>

record csv_file =
  cv_create_error :: "gostring option"
  cv_out :: stdout

definition on_csv :: "(stdout, gostring, unit) op \<Rightarrow> (csv_file, gostring, unit) op" where
  "on_csv m = (\<lambda>f. case cv_create_error f of Some e \<Rightarrow> (Inl e, f)
     | None \<Rightarrow> (case m ((cv_out f)\<lparr>so_text := []\<rparr>) of (r, out) \<Rightarrow> (r, f\<lparr>cv_out := out\<rparr>)))"

definition rate_row :: "int \<Rightarrow> float64 \<Rightarrow> gostring" where
  "rate_row delay rate = int_text delay @ '','' @ rate_text rate @ [CHR 0x0A]"

definition rate_header :: gostring where
  "rate_header = ''delay_ms,oracle_failure_rate'' @ [CHR 0x0A]"

text \<open>Rows come in the order of the caller's delays; delays without a rate are skipped.\<close>

definition write_csv :: "int list \<Rightarrow> (int \<rightharpoonup> float64) \<Rightarrow> (csv_file, gostring, unit) op" where
  "write_csv delays results = on_csv (op_bind (write_out rate_header) (\<lambda>_.
     op_each (\<lambda>delay. case results delay of None \<Rightarrow> op_return ()
       | Some rate \<Rightarrow> write_out (rate_row delay rate)) delays))"

definition detailed_header :: gostring where
  "detailed_header = ''timestamp,delay_ms,fault_mode,attempted,valid,decision,reason,harness_error,oracle_failure''
     @ [CHR 0x0A]"

definition write_detailed_csv :: "(gotime \<Rightarrow> gostring) \<Rightarrow> detailed_sweep \<Rightarrow> (csv_file, gostring, unit) op" where
  "write_detailed_csv rfc3339_nano res = on_csv (op_bind (write_out detailed_header) (\<lambda>_.
     op_each (\<lambda>t. write_out (csv_row rfc3339_nano t)) (ds_trials res)))"

text \<open>The end of the chaos command: an error of the sweep is only logged, and what was recorded is written.\<close>

definition finish_chaos :: "(gotime \<Rightarrow> gostring) \<Rightarrow> gostring \<Rightarrow> detailed_sweep \<Rightarrow> gostring option \<Rightarrow> csv_file
    \<Rightarrow> command_end \<times> gostring list \<times> csv_file" where
  "finish_chaos rfc3339_nano out_path res err f =
     (case write_detailed_csv rfc3339_nano res f of (r, f') \<Rightarrow>
        ((case r of Inl e \<Rightarrow> fatal (''chaos sweep: writing CSV: '' @ e)
          | Inr _ \<Rightarrow> \<lparr>ce_exit = 0, ce_stdout = ''wrote '' @ out_path @ newline, ce_message = []\<rparr>),
         (case err of None \<Rightarrow> [] | Some e \<Rightarrow> [''chaos sweep: '' @ e]), f'))"

end
