(* ===== verification/Chaos_Laws.thy ===== *)
theory Chaos_Laws imports Chaos
begin

text \<open>
  What a sweep promises: its counts are those of its records, invalid trials never enter the failure
  rate's denominator, and the responder is healthy again however the sweep ends.
\<close>

subsection \<open>The controller's interface\<close>

text \<open>The sweep needs of its controller only that a zero delay can always be set and clears the fault.\<close>

locale delay_controller =
  fixes ctl :: "duration \<Rightarrow> 'c \<Rightarrow> gostring option \<times> 'c" and clear :: "'c \<Rightarrow> bool"
  assumes reset: "fst (ctl 0 c) = None \<and> clear (snd (ctl 0 c))"
begin

lemma sweep_restores:
  "0 < trials \<Longrightarrow> \<exists>c'. snd (snd (sweep_detailed ctl sv delays trials (Some c))) = Some c' \<and> clear c'"
  using reset by (auto simp: sweep_detailed_def split: prod.split)

end

interpretation proxy: delay_controller set_delay "\<lambda>f. ft_mode f = FaultPassThrough"
  by unfold_locales (simp add: set_delay_def set_fault_def validate_fault_def)

text \<open>A pass-through proxy forwards every request to its path.\<close>

lemma pass_through_forwards:
  "ft_mode f = FaultPassThrough \<Longrightarrow> proxy_handle path f r = (if pq_path r = path then Forwarded else NotFound)"
  by (simp add: proxy_handle_def)

text \<open>A request is forwarded only on the allowed path and without a fault that interrupts it; on a connection
  that cannot be hijacked a drop or a reset is an empty answer with status 200.\<close>

lemma forwarded_exactly:
  "proxy_handle path f r = Forwarded \<longleftrightarrow> pq_path r = path
     \<and> (ft_mode f = FaultPassThrough \<or> ft_mode f = FaultDelay \<and> wait_for_request r (ft_delay f))"
  by (simp add: proxy_handle_def close_connection_def split: fault_mode.split)

lemma hijacked_faults_send_nothing:
  assumes "pq_hijackable r" and "validate_fault f = Inr ()"
  shows "proxy_handle path f r \<noteq> EmptyAnswer"
  using assms by (simp add: proxy_handle_def close_connection_def validate_fault_def split: fault_mode.splits)

lemma unhijackable_drop:
  "pq_path r = path \<Longrightarrow> \<not> pq_hijackable r \<Longrightarrow> ft_mode f = FaultDrop \<or> ft_mode f = FaultReset \<Longrightarrow>
     proxy_handle path f r = EmptyAnswer"
  by (auto simp: proxy_handle_def close_connection_def)

subsection \<open>Counting\<close>

definition stats_of :: "trial_record list \<Rightarrow> sweep_stats" where
  "stats_of ts = \<lparr>sw_attempted = length ts, sw_valid_trials = length (filter tr_valid ts),
     sw_harness_errors = length (filter (\<lambda>t. \<not> tr_valid t) ts),
     sw_failures = length (filter (\<lambda>t. tr_valid t \<and> tr_failed t) ts)\<rparr>"

lemma count_trial_snoc: "count_trial t (stats_of ts) = stats_of (ts @ [t])"
  by (simp add: count_trial_def stats_of_def Let_def)

lemma run_trials_stats:
  "run_trials sv d k (stats_of mine) (before @ mine) = (st, ts) \<Longrightarrow> \<forall>t \<in> set mine. tr_delay_ms t = d \<Longrightarrow>
     \<exists>all. ts = before @ all \<and> length all = length mine + k \<and> st = stats_of all
       \<and> (\<forall>t \<in> set all. tr_delay_ms t = d)"
proof (induction k arbitrary: mine)
  case 0
  then show ?case by auto
next
  case (Suc k)
  let ?t = "run_trial_record sv (length (before @ mine)) d"
  have "run_trials sv d k (stats_of (mine @ [?t])) (before @ (mine @ [?t])) = (st, ts)"
    using Suc.prems(1) by (simp add: Let_def count_trial_snoc del: append_assoc) (simp add: count_trial_snoc)
  moreover have "tr_delay_ms ?t = d" by (simp add: run_trial_record_def Let_def split: sum.split)
  ultimately show ?case using Suc.IH[of "mine @ [?t]"] Suc.prems(2) by auto
qed

definition consistent_sweep :: "nat \<Rightarrow> detailed_sweep \<Rightarrow> bool" where
  "consistent_sweep trials res \<longleftrightarrow>
     (\<forall>d. (case ds_stats res d of None \<Rightarrow> filter (\<lambda>t. tr_delay_ms t = d) (ds_trials res) = []
        | Some st \<Rightarrow> st = stats_of (filter (\<lambda>t. tr_delay_ms t = d) (ds_trials res)) \<and> sw_attempted st = trials))"

lemma sweep_delays_consistent:
  "sweep_delays ctl sv trials i ds res c = (res', e, c') \<Longrightarrow> consistent_sweep trials res \<Longrightarrow>
     distinct ds \<Longrightarrow> set ds \<inter> dom (ds_stats res) = {} \<Longrightarrow>
     consistent_sweep trials res' \<and> dom (ds_stats res') \<subseteq> dom (ds_stats res) \<union> set ds
     \<and> (e = None \<longrightarrow> dom (ds_stats res') = dom (ds_stats res) \<union> set ds)"
proof (induction ds arbitrary: i res c)
  case (Cons d ds)
  show ?case
  proof (cases "d < 0 \<or> sv_context_error sv i \<noteq> None \<or> fst (ctl (duration_times d millisecond) c) \<noteq> None")
    case True
    then have "res' = res" "e \<noteq> None"
      using Cons.prems(1) by (cases "sv_context_error sv i"; auto split: option.splits prod.splits if_splits)+
    then show ?thesis using Cons.prems by auto
  next
    case False
    obtain st ts where run: "run_trials sv d trials no_stats (ds_trials res) = (st, ts)" by fastforce
    let ?res = "\<lparr>ds_stats = (ds_stats res)(d \<mapsto> st), ds_trials = ts\<rparr>"
    obtain c1 where rest: "sweep_delays ctl sv trials (Suc i) ds ?res c1 = (res', e, c')"
      using False Cons.prems(1) run by (auto split: option.splits prod.splits if_splits)
    have none: "stats_of [] = no_stats" by (simp add: stats_of_def no_stats_def)
    obtain mine where mine: "ts = ds_trials res @ mine" "length mine = trials" "st = stats_of mine"
      "\<forall>t \<in> set mine. tr_delay_ms t = d"
      using run_trials_stats[of sv d trials "[]" "ds_trials res" st ts] run none by auto
    have "ds_stats res d = None" using Cons.prems(4) by auto
    then have fresh: "filter (\<lambda>t. tr_delay_ms t = d) (ds_trials res) = []"
      using Cons.prems(2) by (auto simp: consistent_sweep_def dest: spec[of _ d])
    have trials: "filter (\<lambda>t. tr_delay_ms t = y) ts
        = (if y = d then mine else filter (\<lambda>t. tr_delay_ms t = y) (ds_trials res))" for y
      using mine(1,4) fresh by (auto simp: filter_id_conv filter_empty_conv)
    have here: "consistent_sweep trials ?res"
      unfolding consistent_sweep_def
    proof
      fix y
      show "case ds_stats ?res y of None \<Rightarrow> filter (\<lambda>t. tr_delay_ms t = y) (ds_trials ?res) = []
        | Some st \<Rightarrow> st = stats_of (filter (\<lambda>t. tr_delay_ms t = y) (ds_trials ?res)) \<and> sw_attempted st = trials"
        using Cons.prems(2) mine(2,3) trials[of y]
        by (cases "y = d"; cases "ds_stats res y")
          (auto simp: consistent_sweep_def stats_of_def dest: spec[of _ y])
    qed
    have later: "distinct ds" "set ds \<inter> dom (ds_stats ?res) = {}"
      using Cons.prems(3,4) by auto
    show ?thesis using Cons.IH[OF rest here later] by auto
  qed
qed auto

text \<open>C37: Of a sweep over distinct delays, however it ends, the counts of every finished delay are those of
  its trial records: every delay has exactly the requested number of attempts, each either valid or a
  harness error, and only valid trials can count as failures; all delays are finished if there was no
  error; and the proxy passes every request on again.\<close>

theorem sweep_accounts_and_restores:
  assumes "sweep_detailed set_delay sv delays trials (Some f) = (res, e, f')" and "1 \<le> trials"
    and "distinct delays"
  shows "(\<forall>d st. ds_stats res d = Some st \<longrightarrow>
      (let records = filter (\<lambda>t. tr_delay_ms t = d) (ds_trials res) in
       length records = nat trials \<and> sw_attempted st = length records
       \<and> sw_valid_trials st = length (filter tr_valid records)
       \<and> sw_valid_trials st + sw_harness_errors st = sw_attempted st
       \<and> sw_failures st = length (filter (\<lambda>t. tr_valid t \<and> tr_failed t) records)
       \<and> sw_failures st \<le> sw_valid_trials st))
    \<and> (e = None \<longrightarrow> dom (ds_stats res) = set delays)
    \<and> (\<exists>g. f' = Some g \<and> (\<forall>path r. pq_path r = path \<longrightarrow> proxy_handle path g r = Forwarded))"
proof -
  obtain c' where run: "sweep_delays set_delay sv (nat trials) 0 delays empty_sweep f = (res, e, c')"
    using assms(1,2) by (auto simp: sweep_detailed_def split: prod.splits)
  have "consistent_sweep (nat trials) empty_sweep" by (simp add: consistent_sweep_def empty_sweep_def)
  from sweep_delays_consistent[OF run this assms(3)]
  have c: "consistent_sweep (nat trials) res" "e = None \<longrightarrow> dom (ds_stats res) = set delays"
    by (auto simp: empty_sweep_def)
  have split: "length (filter tr_valid ts) + length (filter (\<lambda>t. \<not> tr_valid t) ts) = length ts"
    "length (filter (\<lambda>t. tr_valid t \<and> tr_failed t) ts) \<le> length (filter tr_valid ts)" for ts
    by (induction ts) auto
  have "let records = filter (\<lambda>t. tr_delay_ms t = d) (ds_trials res) in
       length records = nat trials \<and> sw_attempted st = length records
       \<and> sw_valid_trials st = length (filter tr_valid records)
       \<and> sw_valid_trials st + sw_harness_errors st = sw_attempted st
       \<and> sw_failures st = length (filter (\<lambda>t. tr_valid t \<and> tr_failed t) records)
       \<and> sw_failures st \<le> sw_valid_trials st" if "ds_stats res d = Some st" for d st
  proof -
    have "st = stats_of (filter (\<lambda>t. tr_delay_ms t = d) (ds_trials res)) \<and> sw_attempted st = nat trials"
      using c(1) that by (auto simp: consistent_sweep_def dest: spec[of _ d])
    then show ?thesis using split[of "filter (\<lambda>t. tr_delay_ms t = d) (ds_trials res)"]
      by (auto simp: stats_of_def Let_def simp del: filter_filter)
  qed
  moreover obtain g where "f' = Some g" "ft_mode g = FaultPassThrough"
    using proxy.sweep_restores[of trials sv delays f] assms(1,2) by auto
  ultimately show ?thesis using c(2) pass_through_forwards by (intro conjI) (blast, blast, auto)
qed

definition sample_sweep :: sweep_env where
  "sample_sweep = \<lparr>sv_clock = (\<lambda>n. Instant (int n)),
     sv_trial = (\<lambda>n d. if n = 1 then Inl ''x''
       else Inr \<lparr>to_valid = True, to_failed = 0 < d, to_decision = [], to_reason = []\<rparr>),
     sv_context_error = (\<lambda>_. None)\<rparr>"

theorem sweep_accounts_and_restores_witness:
  "dom (ds_stats (fst (sweep_detailed set_delay sample_sweep [0, 100] 2 (Some initial_fault)))) = {0, 100}"
proof -
  let ?run = "sweep_detailed set_delay sample_sweep [0, 100] 2 (Some initial_fault)"
  have "fst (snd ?run) = None" by code_simp
  then have "?run = (fst ?run, None, snd (snd ?run))" by (metis prod.collapse)
  from sweep_accounts_and_restores[OF this] show ?thesis by simp
qed

end
