(* ===== verification/Chaos_Report_Laws.thy ===== *)
theory Chaos_Report_Laws imports Complex_Main Chaos_Report Chaos_Laws
begin

text \<open>
  What the report of a sweep says: its rates are those of the counts up to the rounding of a float and of
  four decimals, and the files contain every trial and every finished delay in order.
\<close>

subsection \<open>Rounding\<close>

lemma half_even_bounds:
  assumes "0 < d"
  shows "2 * n \<le> 2 * d * half_even n d + d" and "2 * d * half_even n d \<le> 2 * n + d"
proof -
  have n: "n = d * (n div d) + n mod d" and r: "n mod d < d" using assms by simp_all
  have two: "2 * n = 2 * d * (n div d) + 2 * (n mod d)" using n by linarith
  have up: "2 * d * Suc (n div d) = 2 * d * (n div d) + 2 * d" by simp
  show "2 * n \<le> 2 * d * half_even n d + d"
    unfolding half_even_def Let_def using two up r by (auto split: if_splits)
  show "2 * d * half_even n d \<le> 2 * n + d"
    unfolding half_even_def Let_def using two up r by (auto split: if_splits)
qed

lemma half_even_error:
  assumes "0 < d"
  shows "\<bar>real (half_even n d) - real n / real d\<bar> \<le> 1 / 2"
proof -
  have "real (2 * n) \<le> real (2 * d * half_even n d + d)" "real (2 * d * half_even n d) \<le> real (2 * n + d)"
    using half_even_bounds[OF assms, of n] by (simp_all only: of_nat_le_iff)
  then have "real n \<le> real d * (real (half_even n d) + 1 / 2)" "real d * (real (half_even n d) - 1 / 2) \<le> real n"
    by (simp_all add: algebra_simps)
  then have "real n / real d \<le> real (half_even n d) + 1 / 2" "real (half_even n d) - 1 / 2 \<le> real n / real d"
    using assms by (simp_all add: field_simps)
  then show ?thesis by linarith
qed

lemma half_even_le:
  assumes "0 < d" and "n \<le> k * d"
  shows "half_even n d \<le> k"
proof (rule ccontr)
  assume "\<not> half_even n d \<le> k"
  then have "2 * d * Suc k \<le> 2 * d * half_even n d" by (intro mult_le_mono2) simp
  then have "2 * d * Suc k \<le> 2 * (k * d) + d" using half_even_bounds(2)[OF assms(1), of n] assms(2) by linarith
  then show False using assms(1) by simp
qed

lemma quotient_scale_enough: "0 < n \<Longrightarrow> 2 ^ 52 * d \<le> n * 2 ^ quotient_scale n d e"
proof (induction n d e rule: quotient_scale.induct)
  case (1 n d e)
  then show ?case by (subst quotient_scale.simps) (auto simp: not_le)
qed

lemma ten_thousandth: "\<bar>x - y * 10000\<bar> \<le> 1 / 2 \<Longrightarrow> \<bar>x / 10000 - y\<bar> \<le> 1 / 20000" for x y :: real
  by linarith

lemma rate_bounds:
  assumes "n \<le> d" and "0 < d"
  shows "ten_thousandths (float_quotient n d) \<le> 10000"
    and "\<bar>real (ten_thousandths (float_quotient n d)) / 10000 - real n / real d\<bar> \<le> 1 / 20000 + 1 / 2 ^ 53"
proof -
  have "ten_thousandths (float_quotient n d) \<le> 10000
    \<and> \<bar>real (ten_thousandths (float_quotient n d)) / 10000 - real n / real d\<bar> \<le> 1 / 20000 + 1 / 2 ^ 53"
  proof (cases "n = 0")
    case True
    then show ?thesis by (simp add: float_quotient_def half_even_def)
  next
    case False
    define e where "e = quotient_scale n d 0"
    define m where "m = half_even (n * 2 ^ e) d"
    define q where "q = half_even (m * 10000) (2 ^ e)"
    have q: "ten_thousandths (float_quotient n d) = q"
      using False by (simp add: float_quotient_def e_def[symmetric] m_def q_def Let_def)
    have "2 ^ 52 * d \<le> n * 2 ^ e" unfolding e_def using False by (intro quotient_scale_enough) simp
    also have "\<dots> \<le> d * 2 ^ e" using assms(1) by simp
    finally have "(2 ^ 52 :: nat) \<le> 2 ^ e" using assms(2) by (simp add: mult.commute)
    then have big: "2 ^ 52 \<le> (2 :: real) ^ e" by (metis of_nat_le_iff of_nat_numeral of_nat_power)
    have "m \<le> 2 ^ e" unfolding m_def using assms by (intro half_even_le) (simp_all add: mult.commute)
    then have le: "q \<le> 10000" unfolding q_def by (intro half_even_le) simp_all
    have "\<bar>real m - real n * 2 ^ e / real d\<bar> \<le> 1 / 2" unfolding m_def
      using half_even_error[OF assms(2), of "n * 2 ^ e"] by simp
    then have "\<bar>real m - real n * 2 ^ e / real d\<bar> / 2 ^ e \<le> (1 / 2) / 2 ^ e" by (rule divide_right_mono) simp
    moreover have "real m / 2 ^ e - real n / real d = (real m - real n * 2 ^ e / real d) / 2 ^ e"
      by (simp add: diff_divide_distrib)
    ultimately have one: "\<bar>real m / 2 ^ e - real n / real d\<bar> \<le> (1 / 2) / 2 ^ e" by simp
    have "(1 / 2) / 2 ^ e \<le> (1 / 2) / (2 ^ 52 :: real)" using big by (intro divide_left_mono) simp_all
    also have "(1 / 2) / (2 ^ 52 :: real) = 1 / 2 ^ 53" by simp
    finally have small: "\<bar>real m / 2 ^ e - real n / real d\<bar> \<le> 1 / 2 ^ 53" by (rule order_trans[OF one])
    have "\<bar>real q - real (m * 10000) / real (2 ^ e)\<bar> \<le> 1 / 2" unfolding q_def by (rule half_even_error) simp
    then have "\<bar>real q - (real m / 2 ^ e) * 10000\<bar> \<le> 1 / 2" by simp
    then have "\<bar>real q / 10000 - real m / 2 ^ e\<bar> \<le> 1 / 20000" by (rule ten_thousandth)
    with small have "\<bar>real q / 10000 - real n / real d\<bar> \<le> 1 / 20000 + 1 / 2 ^ 53" by linarith
    with le q show ?thesis by simp
  qed
  then show "ten_thousandths (float_quotient n d) \<le> 10000"
    "\<bar>real (ten_thousandths (float_quotient n d)) / 10000 - real n / real d\<bar> \<le> 1 / 20000 + 1 / 2 ^ 53" by blast+
qed

subsection \<open>The files\<close>

lemma write_rates_ok:
  assumes "\<forall>n. so_fault out n = None"
  shows "\<exists>n. op_each (\<lambda>d. case rs d of None \<Rightarrow> op_return () | Some r \<Rightarrow> write_out (rate_row d r)) ds out
    = (Inr (), out\<lparr>so_text := so_text out @ concat (map (\<lambda>d. rate_row d (the (rs d))) (filter (\<lambda>d. rs d \<noteq> None) ds)),
        so_writes := n\<rparr>)"
  using assms
proof (induction ds arbitrary: out)
  case Nil
  show ?case by (intro exI[of _ "so_writes out"]) (simp add: op_return_def)
next
  case (Cons d ds)
  show ?case
  proof (cases "rs d")
    case None
    with Cons.IH[OF Cons.prems] show ?thesis by (simp add: op_bind_def op_return_def)
  next
    case (Some r)
    let ?out = "out\<lparr>so_text := so_text out @ rate_row d r, so_writes := Suc (so_writes out)\<rparr>"
    have "\<forall>n. so_fault ?out n = None" using Cons.prems by simp
    from Cons.IH[OF this] Some show ?thesis by (auto simp: op_bind_def write_out_ok[OF Cons.prems])
  qed
qed

definition csv_works :: "csv_file \<Rightarrow> bool" where
  "csv_works f \<longleftrightarrow> cv_create_error f = None \<and> (\<forall>n. so_fault (cv_out f) n = None)"

lemma write_csv_ok:
  assumes "csv_works f"
  shows "\<exists>f'. write_csv ds rs f = (Inr (), f') \<and> so_text (cv_out f') = rate_header
    @ concat (map (\<lambda>d. rate_row d (the (rs d))) (filter (\<lambda>d. rs d \<noteq> None) ds))"
proof -
  let ?out = "(cv_out f)\<lparr>so_text := rate_header, so_writes := Suc (so_writes (cv_out f))\<rparr>"
  have faults: "\<forall>n. so_fault ((cv_out f)\<lparr>so_text := []\<rparr>) n = None" "\<forall>n. so_fault ?out n = None"
    and create: "cv_create_error f = None"
    using assms by (simp_all add: csv_works_def)
  show ?thesis
    using write_rates_ok[OF faults(2), of rs ds] create
    by (auto simp: write_csv_def on_csv_def op_bind_def write_out_ok[OF faults(1)])
qed

lemma finish_chaos_ok:
  assumes "csv_works f"
  shows "\<exists>log f'. finish_chaos rfc path res err f
      = (\<lparr>ce_exit = 0, ce_stdout = ''wrote '' @ path @ newline, ce_message = []\<rparr>, log, f')
    \<and> so_text (cv_out f') = detailed_csv rfc res"
proof -
  let ?out = "(cv_out f)\<lparr>so_text := detailed_header, so_writes := Suc (so_writes (cv_out f))\<rparr>"
  have faults: "\<forall>n. so_fault ((cv_out f)\<lparr>so_text := []\<rparr>) n = None" "\<forall>n. so_fault ?out n = None"
    and create: "cv_create_error f = None"
    using assms by (simp_all add: csv_works_def)
  show ?thesis
    using write_each_ok[OF faults(2), of "csv_row rfc" "ds_trials res"] create
    by (auto simp: finish_chaos_def write_detailed_csv_def on_csv_def op_bind_def write_out_ok[OF faults(1)]
        detailed_csv_def detailed_header_def)
qed

subsection \<open>The rates of a sweep\<close>

lemma consistent_failures:
  assumes "consistent_sweep trials res" and "ds_stats res d = Some st"
  shows "sw_failures st \<le> sw_valid_trials st"
proof -
  have st: "st = stats_of (filter (\<lambda>t. tr_delay_ms t = d) (ds_trials res))"
    using assms by (auto simp: consistent_sweep_def dest: spec[of _ d])
  have "length (filter (\<lambda>t. tr_valid t \<and> tr_failed t) ts) \<le> length (filter tr_valid ts)" for ts
    by (induction ts) auto
  then show ?thesis unfolding st stats_of_def by (simp del: filter_filter)
qed


definition sample_csv :: csv_file where
  "sample_csv = \<lparr>cv_create_error = None, cv_out = \<lparr>so_text = ''old'', so_writes = 0, so_fault = (\<lambda>_. None)\<rparr>\<rparr>"

definition third_sweep :: sweep_env where
  "third_sweep = \<lparr>sv_clock = (\<lambda>n. Instant (int n)),
     sv_trial = (\<lambda>n d. Inr \<lparr>to_valid = True, to_failed = (n mod 3 = 0), to_decision = [], to_reason = []\<rparr>),
     sv_context_error = (\<lambda>_. None)\<rparr>"

lemma rates_of_thirds: "ten_thousandths (float_quotient 1 3) = 3333" "ten_thousandths (float_quotient 2 3) = 6667"
  by (simp_all add: float_quotient_def quotient_scale.simps half_even_def Let_def)


end
