(* ===== verification/Command_Laws.thy ===== *)
theory Command_Laws imports Probe_Command Attestation_Laws Executor
begin

text \<open>
  What the commands promise: a probe that starts has a well-formed runner, a standalone check binds and
  reports its decision, a target is read back as it was written, and the trials of the chaos command as
  it is configured.
\<close>

lemma or_fatal_Inr [simp]: "or_fatal f r = Inr x \<longleftrightarrow> r = Inr x"
  by (cases r) (auto simp: or_fatal_def)

lemma load_config_wf:
  assumes "load_config read decode trailing path = Inr c"
  shows "wf_config c"
  using assms by (auto simp: load_config_def split: sum.splits stream_end.splits intro: finish_load_wf)

subsection \<open>Starting\<close>

lemma map_placed_profiles: "place_profiles urls ps = Inr placed \<Longrightarrow> map placed_profile placed = ps"
  by (auto simp: place_profiles_Inr o_def intro!: map_idI split: option.split)

lemma start_run_parts:
  assumes "start_run env opts = Inr (key, r)"
  obtains c reg m urls placed where "load_run_config env (ro_config opts) = Inr c"
    and "load_run_scenarios env (ro_scenarios opts) c (ro_scenario opts) = Inr (reg, m)"
    and "apply_remote (su_executor env) standard_profiles urls = Inr placed"
    and "r = run_runner (su_getenv env) c reg m urls placed"
    and "attestation_private_key (su_attest env) (ro_attestation_key opts) = Inr key"
    and "check_run_options opts = Inr ()"
  using assms by (auto simp: start_run_def Let_def)

text \<open>The roles a runner enables.\<close>

definition roles_enabled :: "config \<Rightarrow> bool" where
  "roles_enabled c \<longleftrightarrow> (\<exists>p \<in> set standard_profiles. prof_role p = RoleStatusOracle \<and> is_enabled c (prof_name p))
     \<and> (\<exists>p \<in> set standard_profiles. prof_role p = RoleClientExecutor \<and> is_enabled c (prof_name p))"

text \<open>C25: A probe that starts has a well-formed configuration whose enabled profiles are all implemented, a
  well-formed registry in which the selected scenario is loaded, a contract for every enabled profile in
  every scenario and a producer for all evidence it waits for; its key is one that signs.  So a cycle
  can only be refused before it begins if the configuration enables no status oracle or no client, or
  if the run configuration cannot be serialised.\<close>

theorem started_runner_is_well_formed:
  assumes "start_run env opts = Inr (key, r)"
  shows "\<exists>c reg m. rn_config r = Some c \<and> wf_config c \<and> rn_profiles r = standard_profiles
    \<and> set (enabled_names c) \<subseteq> prof_name ` set standard_profiles
    \<and> rn_scenarios r = Some reg \<and> wf_registry reg \<and> registry_manifest (Some reg) (rn_scenario r) = Some m
    \<and> (\<forall>(s, m') \<in> set (reg_manifests reg). \<forall>name \<in> set (enabled_names c).
         map_of (man_profiles m') name \<noteq> None
         \<and> (\<forall>ds d. map_of (man_dependencies m') name = Some ds \<longrightarrow> d \<in> set ds
              \<longrightarrow> producible reg m' (enabled_names c) d))
    \<and> (key \<noteq> [] \<longrightarrow> is_ok (parse_private_key (su_attest env) key))
    \<and> (\<forall>w. is_ok (cycle_prepare w r) \<longleftrightarrow> roles_enabled c \<and>
         is_ok (digest_json (cw_marshal_run_config w) (cw_sha256_hex w)
           (run_config_snapshot_of (cw_marshal_profile_config w) (cw_sha256_hex w) (cw_build w) r c)))"
proof -
  obtain c reg m urls placed where parts: "load_run_config env (ro_config opts) = Inr c"
    "load_run_scenarios env (ro_scenarios opts) c (ro_scenario opts) = Inr (reg, m)"
    "apply_remote (su_executor env) standard_profiles urls = Inr placed"
    "r = run_runner (su_getenv env) c reg m urls placed"
    "attestation_private_key (su_attest env) (ro_attestation_key opts) = Inr key"
    by (rule start_run_parts[OF assms])
  have c: "wf_config c" "set (enabled_names c) \<subseteq> prof_name ` set standard_profiles"
    using parts(1) by (auto simp: load_run_config_def load_config_wf validate_enabled_config_def
        enabled_names_def split: if_splits)
  have reg: "wf_registry reg" "validate_enabled_profiles reg (enabled_names c) = Inr ()"
    "map_of (reg_manifests reg) (ro_scenario opts) = Some m"
    using parts(2) by (auto simp: load_run_scenarios_def registry_manifest_def load_dir_wf split: option.splits)
  then have man: "man_id m = ro_scenario opts" "wf_manifest (reg_implementations reg) m"
    by (auto simp: wf_registry_def dest!: map_of_SomeD)
  have r: "rn_config r = Some c" "rn_profiles r = standard_profiles" "rn_scenarios r = Some reg"
    "rn_scenario r = man_id m"
    using parts(3) by (auto simp: parts(4) run_runner_def Let_def apply_remote_def map_placed_profiles)
  have key: "key \<noteq> [] \<longrightarrow> is_ok (parse_private_key (su_attest env) key)"
    using parts(5) by (auto simp: attestation_private_key_def read_private_key_def is_ok_iff
        split: if_splits sum.splits)
  have roles: "validate_enabled_roles r c = Inr () \<longleftrightarrow> roles_enabled c"
    by (auto simp: validate_enabled_roles_Inr enabled_profiles_def roles_enabled_def r)
  have loaded: "man_id m \<noteq> []" "valid_stapling (man_stapling m)" "registry_manifest (Some reg) (man_id m) = Some m"
    using man reg(3) by (auto simp: wf_manifest_def registry_manifest_def)
  have prepared: "is_ok (cycle_prepare w r) \<longleftrightarrow> roles_enabled c \<and>
         is_ok (digest_json (cw_marshal_run_config w) (cw_sha256_hex w)
           (run_config_snapshot_of (cw_marshal_profile_config w) (cw_sha256_hex w) (cw_build w) r c))" for w
  proof -
    have "enabled_names c \<noteq> []" using c(1) by (simp add: wf_config_def)
    then show ?thesis using r loaded roles
      by (cases "digest_json (cw_marshal_run_config w) (cw_sha256_hex w)
           (run_config_snapshot_of (cw_marshal_profile_config w) (cw_sha256_hex w) (cw_build w) r c)";
          cases "validate_enabled_roles r c")
        (auto simp: cycle_prepare_def Let_def valid_stapling_def)
  qed
  show ?thesis
    by (rule exI[of _ c], rule exI[of _ reg], rule exI[of _ m])
      (use r loaded c reg(1) key prepared reg(2)[unfolded validate_enabled_Inr] in simp)
qed

definition sample_startup :: startup_env where
  "sample_startup = \<lparr>su_getenv = (\<lambda>key. if key = ''VAULT_ROLE_ID'' then ''role'' else []),
     su_attest = sample_attest_env, su_read_config = Inr,
     su_decode_config = (\<lambda>_. Inr \<lparr>poll_interval = 0, max_wait = 0, max_attempts = 0, preflight_max_age = 0,
       cfg_profiles = map (\<lambda>p. \<lparr>pc_name = prof_name p, pc_enabled = True, pc_timeout = second\<rparr>) standard_profiles,
       status_freshness = \<lparr>sf_max_clock_skew = 0\<rparr>,
       ocsp_freshness = \<lparr>of_require_next_update = True, of_max_age_without_next_update = 0\<rparr>,
       crl_freshness = \<lparr>cf_require_next_update = True, cf_max_age = 0\<rparr>, policy = \<lparr>pol_enforce = False\<rparr>\<rparr>),
     su_config_trailing = (\<lambda>_. AtEOF), su_decode_scenario = (\<lambda>_. Inr revoked_staple_doc),
     su_marshal_manifest = ym_id, su_sha256_hex = (\<lambda>b. b), su_glob = (\<lambda>_. Inr [''revoked-staple-v1.yaml'']),
     su_login = (\<lambda>_ _ _. None), su_parse_url = (\<lambda>_. None), su_executor = sample_executor_env\<rparr>"

theorem started_runner_is_well_formed_witness:
  "\<exists>key r c. start_run sample_startup (default_run_options (\<lambda>_. [])) = Inr (key, r)
     \<and> rn_config r = Some c \<and> wf_config c"
proof -
  have "is_ok (start_run sample_startup (default_run_options (\<lambda>_. [])))" by code_simp
  then obtain key r where run: "start_run sample_startup (default_run_options (\<lambda>_. [])) = Inr (key, r)"
    by (auto simp: is_ok_iff)
  from started_runner_is_well_formed[OF this] obtain c :: config where "rn_config r = Some c" "wf_config c"
    by blast
  with run show ?thesis by blast
qed

subsection \<open>Targets\<close>

lemma takeWhile_port:
  assumes "CHR '':'' \<notin> set port"
  shows "rev (takeWhile (\<lambda>c. c \<noteq> CHR '':'') (rev (host @ CHR '':'' # port))) = port"
proof -
  have "takeWhile (\<lambda>c. c \<noteq> CHR '':'') (rev port @ CHR '':'' # rev host) = rev port"
    using assms by (subst takeWhile_append2) auto
  then show ?thesis by simp
qed

lemma split_plain_address:
  assumes "set host \<inter> set '':[]'' = {}" and "set port \<inter> set '':[]'' = {}" and "host \<noteq> []"
  shows "net_split_host_port (host @ CHR '':'' # port) = Inr (host, port)"
proof -
  have "hd (host @ CHR '':'' # port) \<noteq> CHR ''[''"
    using assms(1,3) by (cases host) auto
  then show ?thesis
    using assms takeWhile_port[of port host]
    by (simp add: net_split_host_port_def unbracketed_def Let_def)
qed

lemma nat_text_digits: "c \<in> set (nat_text n) \<Longrightarrow> is_digit c"
proof (induction n rule: nat_text.induct)
  case (1 n)
  then show ?case by (subst (asm) (2) nat_text.simps) (auto simp: is_digit_digit split: if_splits)
qed

lemma digit_shapes: "is_digit c \<Longrightarrow> c \<notin> set ''-+:[]''"
  by (auto simp: is_digit_def)

lemma nat_text_ne: "nat_text n \<noteq> []"
  by (subst nat_text.simps) simp

lemma read_decimal_nat_text: "read_decimal (nat_text n) = Some (int n)"
proof -
  have "hd (nat_text n) \<notin> set ''-+:[]''"
    using nat_text_digits[of "hd (nat_text n)" n] nat_text_ne[of n] digit_shapes by (metis hd_in_set)
  then show ?thesis
    using nat_text_ne[of n] by (simp add: read_decimal_def Let_def read_digits_nat_text)
qed

text \<open>A target written as \<open>https://host:port\<close> with a plain host is read back exactly when its port is a
  TCP port: 0 and everything above 65535 is refused, also where the number would not fit in 64 bits.\<close>

theorem target_port_bounds:
  assumes "parse_url tgt = Inr u" and "url_scheme u = ''https''" and "url_path u \<in> {[], ''/''}"
    and "url_host u = host @ CHR '':'' # nat_text port" and "host \<noteq> []" and "set host \<inter> set '':[]'' = {}"
  shows "(1 \<le> port \<and> port \<le> 65535 \<longleftrightarrow> split_host_port parse_url tgt = Inr (host, int port))
    \<and> (is_ok (split_host_port parse_url tgt) \<longrightarrow> split_host_port parse_url tgt = Inr (host, int port))"
proof -
  have "set (nat_text port) \<inter> set '':[]'' = {}"
    using nat_text_digits[of _ port] digit_shapes by fastforce
  then have host: "net_split_host_port (url_host u) = Inr (host, nat_text port)"
    using split_plain_address[OF assms(6) _ assms(5)] assms(4) by simp
  then have "split_host_port parse_url tgt = (if 1 \<le> port \<and> port \<le> 65535 then Inr (host, int port)
      else Inl (if 2 ^ 63 \<le> int port
        then ''invalid port '' @ quote_text (nat_text port) @ '': strconv.Atoi: parsing ''
          @ quote_text (nat_text port) @ '': value out of range''
        else ''port '' @ int_text (int port) @ '' out of range''))"
    using assms(1-5) by (auto simp: split_host_port_def atoi_def read_decimal_nat_text)
  then show ?thesis by (auto split: if_splits)
qed

definition sample_https_url :: parsed_url where
  "sample_https_url = \<lparr>url_scheme = ''https'', url_host = ''web'' @ CHR '':'' # nat_text 70000, url_hostname = ''web'',
     url_has_user = False, url_raw_query = [], url_fragment = [], url_path = []\<rparr>"

theorem target_port_bounds_witness:
  "\<not> is_ok (split_host_port (\<lambda>_. Inr sample_https_url) ''https://web:70000'')"
proof -
  have port: "url_host sample_https_url = ''web'' @ CHR '':'' # nat_text 70000" by (simp add: sample_https_url_def)
  have shape: "url_scheme sample_https_url = ''https''" "url_path sample_https_url \<in> {[], ''/''}"
    "set ''web'' \<inter> set '':[]'' = {}"
    by (simp_all add: sample_https_url_def)
  from target_port_bounds[of "\<lambda>_. Inr sample_https_url" "''https://web:70000''", OF refl shape(1,2) port _ shape(3)]
  show ?thesis by auto
qed

subsection \<open>Standalone checks\<close>

lemma standalone_check_cases:
  obtains "ce_exit (standalone_check read parse_url env opts) \<noteq> 0"
    "ce_stdout (standalone_check read parse_url env opts) = []"
  | ca host port p probe where "read (ck_ca opts) = Inr ca"
    "split_host_port parse_url (ck_target opts) = Inr (host, port)"
    "find (\<lambda>(p, probe). prof_name p = ck_profile opts) profile_registry = Some (p, probe)"
    "prof_role p = RoleStatusOracle \<longrightarrow> ck_leaf_sha256 opts \<noteq> []"
    "prof_method p = MethodOCSPDirect \<longrightarrow> ck_ocsp_url opts \<noteq> []"
    "prof_method p = MethodCRL \<longrightarrow> ck_crl_url opts \<noteq> []"
    "standalone_check read parse_url env opts = print_outcome (probe env (check_target opts ca host port))"
proof -
  note silent = that(1) and checked = that(2)
  note def = standalone_check_def[of read parse_url env opts]
  have fatal: "ce_exit (fatal m) \<noteq> 0 \<and> ce_stdout (fatal m) = []" for m by (simp add: fatal_def)
  show thesis
  proof (cases "ck_profile opts = [] \<or> ck_target opts = [] \<or> ck_ca opts = []")
    case True
    then show thesis using silent def by simp
  next
    case False
    note def = def[unfolded if_not_P[OF False]]
    show thesis
    proof (cases "read (ck_ca opts)")
      case (Inl e)
      then show thesis using silent def fatal by simp
    next
      case ca: (Inr ca)
      show thesis
      proof (cases "split_host_port parse_url (ck_target opts)")
        case (Inl e)
        then show thesis using silent def ca fatal by simp
      next
        case addr: (Inr hp)
        obtain host port where hp: "hp = (host, port)" by (cases hp)
        show thesis
        proof (cases "find (\<lambda>(p, probe). prof_name p = ck_profile opts) profile_registry")
          case None
          then show thesis using silent def ca addr hp fatal by simp
        next
          case found: (Some pp)
          obtain p probe where pp: "pp = (p, probe)" by (cases pp)
          show thesis
          proof (cases "prof_role p = RoleStatusOracle \<and> ck_leaf_sha256 opts = []
              \<or> prof_method p = MethodOCSPDirect \<and> ck_ocsp_url opts = [] \<or> prof_method p = MethodCRL \<and> ck_crl_url opts = []")
            case True
            then show thesis using silent def ca addr hp found pp fatal by (auto split: if_splits)
          next
            case False
            then show thesis
              using checked[OF ca addr[unfolded hp] found[unfolded pp]] def ca addr hp found pp by auto
          qed
        qed
      qed
    qed
  qed
qed

text \<open>A standalone check that exits with 0 ran the named profile's probe on a target with a valid port, for
  a status oracle bound to the digest of a leaf and with the URL its method needs, and printed a decision
  and reason that belong together and are no harness error; every other end prints no decision but a
  harness error.\<close>

theorem standalone_check_sound:
  "let out = standalone_check read parse_url env opts in
    if ce_exit out = 0
    then \<exists>p probe ca host port. (p, probe) \<in> set profile_registry \<and> prof_name p = ck_profile opts
      \<and> read (ck_ca opts) = Inr ca \<and> split_host_port parse_url (ck_target opts) = Inr (host, port)
      \<and> 1 \<le> port \<and> port \<le> 65535
      \<and> (prof_role p = RoleStatusOracle \<longrightarrow> ck_leaf_sha256 opts \<noteq> [])
      \<and> (prof_method p = MethodOCSPDirect \<longrightarrow> ck_ocsp_url opts \<noteq> [])
      \<and> (prof_method p = MethodCRL \<longrightarrow> ck_crl_url opts \<noteq> [])
      \<and> (let r = probe env (check_target opts ca host port); d = obs_decision (pr_observation r);
             why = obs_reason (pr_observation r)
         in pr_error r = None \<and> reason_compatible d why \<and> d \<noteq> DecisionHarnessError
            \<and> ce_stdout out = ''decision='' @ decision_text d @ '' reason='' @ reason_text why @ newline)
    else ce_stdout out = [] \<or> prefix ''decision=HARNESS_ERROR reason=HARNESS_FAILURE err='' (ce_stdout out)"
proof (cases rule: standalone_check_cases[of read parse_url env opts])
  case 1
  then show ?thesis by (simp add: Let_def)
next
  case (2 ca host port p probe)
  have registered: "(p, probe) \<in> set profile_registry" "prof_name p = ck_profile opts"
    using 2(3) by (auto simp: find_Some_iff dest: nth_mem)
  have port: "1 \<le> port" "port \<le> 65535"
    using 2(2) by (auto simp: split_host_port_def split: sum.splits if_splits)
  let ?r = "probe env (check_target opts ca host port)"
  have "sound_result (prof_method p) ?r" by (rule registered_sound[OF registered(1)])
  then have sound: "reason_compatible (obs_decision (pr_observation ?r)) (obs_reason (pr_observation ?r))"
    "pr_error ?r = None \<Longrightarrow> obs_decision (pr_observation ?r) \<noteq> DecisionHarnessError"
    by (auto simp: sound_result_def admissible_result_def outcome_def)
  show ?thesis
  proof (cases "pr_error ?r")
    case None
    then have printed: "ce_exit (print_outcome ?r) = 0" "ce_stdout (print_outcome ?r) = ''decision='' @ decision_text (obs_decision (pr_observation ?r))
      @ '' reason='' @ reason_text (obs_reason (pr_observation ?r)) @ newline"
      by (simp_all add: print_outcome_def)
    show ?thesis unfolding Let_def 2(7) if_P[OF printed(1)]
      using registered 2(1,2,4-6) port None sound printed(2) by blast
  next
    case (Some e)
    then show ?thesis unfolding Let_def 2(7) by (simp add: print_outcome_def)
  qed
qed

definition sample_web_url :: parsed_url where
  "sample_web_url = \<lparr>url_scheme = ''https'', url_host = ''web:443'', url_hostname = ''web'',
     url_has_user = False, url_raw_query = [], url_fragment = [], url_path = []\<rparr>"

definition sample_check :: command_end where
  "sample_check = standalone_check Inr (\<lambda>_. Inr sample_web_url) (sample_env OcspGood)
     \<lparr>ck_profile = ''curl-default'', ck_target = ''https://web:443'', ck_ca = ''ca.pem'', ck_ocsp_url = [],
      ck_crl_url = [], ck_leaf_sha256 = []\<rparr>"

theorem standalone_check_sound_witness:
  "\<exists>d why. reason_compatible d why \<and> d \<noteq> DecisionHarnessError
     \<and> ce_stdout sample_check = ''decision='' @ decision_text d @ '' reason='' @ reason_text why @ newline"
proof -
  have zero: "ce_exit sample_check = 0" by code_simp
  have "if ce_exit sample_check = 0 then \<exists>d why. reason_compatible d why \<and> d \<noteq> DecisionHarnessError
      \<and> ce_stdout sample_check = ''decision='' @ decision_text d @ '' reason='' @ reason_text why @ newline else True"
    using standalone_check_sound[of Inr "\<lambda>_. Inr sample_web_url" "sample_env OcspGood"
      "\<lparr>ck_profile = ''curl-default'', ck_target = ''https://web:443'', ck_ca = ''ca.pem'', ck_ocsp_url = [],
      ck_crl_url = [], ck_leaf_sha256 = []\<rparr>"]
    unfolding sample_check_def[symmetric] Let_def if_P[OF zero] by blast
  then show ?thesis unfolding if_P[OF zero] .
qed

subsection \<open>The trials of the chaos command\<close>

lemmas standard_profile_defs = openssl_ocsp_direct_profile_def curl_cert_status_profile_def
  curl_default_profile_def go_tls_default_profile_def go_tls_ocsp_profile_def
  python_requests_profile_def crl_check_profile_def

lemma chaos_enabled_profiles:
  "enabled_profiles (chaos_runner getenv proxy_url reg m) chaos_config = [openssl_ocsp_direct_profile]"
  by (simp add: enabled_profiles_def chaos_runner_def standard_profiles_code is_enabled_def chaos_config_def
      chaos_profile_def standard_profile_defs)

definition chaos_refusal :: gostring where
  "chaos_refusal = ''runner: enabled profiles must include at least one status oracle and one client executor (oracles=1 clients=0)''"

lemma chaos_roles: "validate_enabled_roles (chaos_runner getenv proxy_url reg m) chaos_config = Inl chaos_refusal"
proof -
  have "nat_text 1 = ''1''" "nat_text 0 = ''0''" by code_simp+
  then show ?thesis
    by (simp add: validate_enabled_roles_def chaos_enabled_profiles Let_def openssl_ocsp_direct_profile_def
        chaos_refusal_def)
qed

lemma chaos_enables: "enabled_names chaos_config = [chaos_profile]"
  by (simp add: enabled_names_def chaos_config_def standard_profiles_code chaos_profile_def standard_profile_defs)

lemma chaos_run_once:
  assumes "start_chaos env parse_upstream listen opts = Inr (delays, r)"
  shows "run_once w r f = Some \<lparr>co_report = None, co_error = Some chaos_refusal, co_fs = f, co_metrics = [],
    co_calls = []\<rparr>"
proof -
  obtain proxy_url reg m where r: "r = chaos_runner (su_getenv env) proxy_url reg m"
    using assms by (auto simp: start_chaos_def Let_def split: if_splits option.splits)
  have "rn_config r = Some chaos_config" by (simp add: r chaos_runner_def)
  moreover have "enabled_names chaos_config \<noteq> []" unfolding chaos_enables by simp
  ultimately have "cycle_prepare w r = Inl chaos_refusal"
    by (simp add: cycle_prepare_def r chaos_roles del: enabled_names_empty)
  then show ?thesis by (simp add: run_once_def)
qed

lemma run_trials_records:
  "run_trials sv d k st ts = (st', ts') \<Longrightarrow> \<forall>t \<in> set ts'. t \<in> set ts \<or> (\<exists>n. t = run_trial_record sv n d)"
proof (induction k arbitrary: st ts)
  case (Suc k)
  then show ?case
    using Suc.IH[of "count_trial (run_trial_record sv (length ts) d) st" "ts @ [run_trial_record sv (length ts) d]"]
    by (auto simp: Let_def)
qed auto

lemma sweep_delays_records:
  "sweep_delays ctl sv k i ds res c = (res', e, c') \<Longrightarrow>
     \<forall>t \<in> set (ds_trials res'). t \<in> set (ds_trials res) \<or> (\<exists>n d. t = run_trial_record sv n d)"
proof (induction ds arbitrary: i res c)
  case (Cons d ds)
  obtain st ts where run: "run_trials sv d k no_stats (ds_trials res) = (st, ts)" by fastforce
  consider "res' = res" | j c1 where
    "sweep_delays ctl sv k j ds \<lparr>ds_stats = (ds_stats res)(d \<mapsto> st), ds_trials = ts\<rparr> c1 = (res', e, c')"
    using Cons.prems run by (auto split: option.splits prod.splits if_splits)
  then show ?case
  proof cases
    case 2
    show ?thesis
    proof
      fix t assume "t \<in> set (ds_trials res')"
      with Cons.IH[OF 2] have "t \<in> set ts \<or> (\<exists>n d. t = run_trial_record sv n d)" by simp
      then show "t \<in> set (ds_trials res) \<or> (\<exists>n d. t = run_trial_record sv n d)"
        using run_trials_records[OF run] by blast
    qed
  qed simp
qed auto

text \<open>C38: As the chaos command configures its runner, with the direct OCSP oracle as the only enabled profile,
  no cycle passes the runner's check that a client is enabled too: every trial of a sweep, whatever the
  delays and the world, is a harness error and none is valid, so no failure can be counted.\<close>

theorem chaos_trials_never_valid:
  assumes "start_chaos env parse_upstream listen opts = Inr (delays, r)"
    and "\<forall>n d. \<exists>w f. chaos_trial w r f = Some (sv_trial sv n d)"
    and "sweep_detailed ctl sv delays (ch_trials opts) c = (res, e, c')"
  shows "\<forall>t \<in> set (ds_trials res). \<not> tr_valid t \<and> tr_harness_error t = chaos_refusal \<and> tr_decision t = []"
proof
  have failed: "sv_trial sv n d = Inl chaos_refusal" for n d
    using assms(2)[rule_format, of n d] chaos_run_once[OF assms(1)]
    by (simp add: chaos_trial_def chaos_outcome_def)
  fix t assume t: "t \<in> set (ds_trials res)"
  obtain n d where "t = run_trial_record sv n d"
  proof (cases c)
    case None
    then show thesis using assms(3) t by (auto simp: sweep_detailed_def empty_sweep_def)
  next
    case (Some c0)
    then obtain e1 c1 where "sweep_delays ctl sv (nat (ch_trials opts)) 0 delays empty_sweep c0 = (res, e1, c1)"
      using assms(3) t by (auto simp: sweep_detailed_def empty_sweep_def split: if_splits prod.splits)
    from sweep_delays_records[OF this] t that show thesis by (auto simp: empty_sweep_def)
  qed
  then show "\<not> tr_valid t \<and> tr_harness_error t = chaos_refusal \<and> tr_decision t = []"
    by (simp add: run_trial_record_def Let_def failed)
qed

definition missing_staple_doc :: yaml_manifest where
  "missing_staple_doc = revoked_staple_doc\<lparr>ym_id := ''missing_staple'',
     ym_dependencies := map (\<lambda>(name, ds). (name, [EvidenceIssuerAck])) (ym_dependencies revoked_staple_doc),
     ym_execution := \<lparr>yx_stapling = StaplingOff\<rparr>\<rparr>"

definition sample_chaos_start :: "chaos_error + int list \<times> runner" where
  "sample_chaos_start = start_chaos (sample_startup\<lparr>su_decode_scenario := \<lambda>_. Inr missing_staple_doc\<rparr>)
     (\<lambda>_. Inr \<lparr>uu_scheme = ''http'', uu_host = ''localhost:8200'', uu_has_user = False, uu_raw_query = [],
       uu_fragment = []\<rparr>) (Inr ''127.0.0.1:9'')
     \<lparr>ch_delays = ''0, 2000'', ch_trials = 2, ch_scenario = ''missing_staple''\<rparr>"

definition refused_sweep :: sweep_env where
  "refused_sweep = \<lparr>sv_clock = (\<lambda>n. Instant (int n)), sv_trial = (\<lambda>_ _. Inl chaos_refusal),
     sv_context_error = (\<lambda>_. None)\<rparr>"

lemma refused_sweep_trials:
  "length (ds_trials (fst (sweep_detailed set_delay refused_sweep [0, 2000] 2 (Some initial_fault)))) = 4"
  by code_simp

theorem chaos_trials_never_valid_witness:
  "let res = fst (sweep_detailed set_delay refused_sweep [0, 2000] 2 (Some initial_fault))
   in length (ds_trials res) = 4 \<and> (\<forall>t \<in> set (ds_trials res). \<not> tr_valid t)"
proof -
  have "case sample_chaos_start of Inl _ \<Rightarrow> False | Inr (delays, r) \<Rightarrow> delays = [0, 2000]" by code_simp
  then obtain r where r: "sample_chaos_start = Inr ([0, 2000], r)" by (auto split: sum.splits)
  have trial: "chaos_trial w r f = Some (sv_trial refused_sweep n d)" for w f n d
    using chaos_run_once[OF r[unfolded sample_chaos_start_def]]
    by (simp add: chaos_trial_def chaos_outcome_def refused_sweep_def)
  obtain res e c where run: "sweep_detailed set_delay refused_sweep [0, 2000] 2 (Some initial_fault) = (res, e, c)"
    by (metis prod.exhaust)
  have "\<forall>t \<in> set (ds_trials res). \<not> tr_valid t \<and> tr_harness_error t = chaos_refusal \<and> tr_decision t = []"
    by (rule chaos_trials_never_valid[OF r[unfolded sample_chaos_start_def]]) (use trial run in auto)
  then show ?thesis using run refused_sweep_trials by simp
qed

end
