(* ===== verification/Publication_Laws.thy ===== *)
theory Publication_Laws imports Command_Laws Evidence_Laws Cycle_Examples
begin

text \<open>
  What \<open>finalizeCycle\<close> promises, whichever sink fails: the report is printed in any case, evidence in the
  directories of the store is never overwritten, a cycle's directory gets an attestation only next to its
  own report, and a cycle finalised without an error leaves a report and an attestation that verify.
\<close>

subsection \<open>Frames of the evidence store\<close>

text \<open>Operations at the top of the root leave everything inside its directories alone.\<close>

definition inside_kept :: "fs \<Rightarrow> fs \<Rightarrow> bool" where
  "inside_kept s s' \<longleftrightarrow> (\<forall>p. slash \<in> set p \<longrightarrow> fs_nodes s' p = fs_nodes s p)"

interpretation top: run_relation inside_kept
  by unfold_locales (auto simp: inside_kept_def)

lemma top_calls:
  "preserves inside_kept (fs_sync q)" "preserves inside_kept (fs_close q)" "preserves inside_kept (fs_open_dir q)"
  "slash \<notin> set p \<Longrightarrow> preserves inside_kept (fs_write p c)" "slash \<notin> set p \<Longrightarrow> preserves inside_kept (fs_create p)"
  "slash \<notin> set p \<Longrightarrow> preserves inside_kept (fs_remove p)"
  "slash \<notin> set p \<Longrightarrow> slash \<notin> set q \<Longrightarrow> preserves inside_kept (fs_rename p q)"
  by (auto simp: fs_write_def fs_sync_def fs_close_def fs_remove_def fs_open_dir_def fs_create_def fs_rename_def
      inside_kept_def intro!: preserves_syscall)

lemma top_sync_root_dir: "preserves inside_kept (sync_root_dir q)"
  unfolding sync_root_dir_def by (intro top.keep_bind top_calls)

lemma top_open_root: "preserves inside_kept (open_evidence_root path)"
  unfolding open_evidence_root_def
  by (intro top.keep_intros; rule preserves_syscall) (auto simp: inside_kept_def split: option.splits node.splits)

text \<open>A random name is hexadecimal.\<close>

definition random_hex :: "gostring + gostring \<Rightarrow> bool" where
  "random_hex r = (case r of Inl _ \<Rightarrow> True | Inr hex \<Rightarrow> is_hex_text hex)"

lemma hex_no_slash: "is_hex_text hex \<Longrightarrow> slash \<notin> set hex"
  by (auto simp: is_hex_text_def list_all_iff is_hex_digit_def)

lemma top_temporary:
  assumes "is_hex_text hex"
  shows "join_paths [''.'', ''.evidence-'' @ hex] = ''.evidence-'' @ hex"
proof -
  let ?name = "''.evidence-'' @ hex"
  have plain: "slash \<notin> set ?name" using hex_no_slash[OF assms] by simp
  have "split_on slash (''./'' @ ?name) = [''.'', ?name]"
    using split_on_append[of slash "''.''" ?name] split_on_plain[OF plain] by simp
  then show ?thesis
    by (simp add: join_paths_def clean_def clean_components_def is_abs_def clean_component_def Let_def)
qed

lemma top_update_latest:
  assumes "random_hex rnd" and "safe_artifact_name name = latest" and "clean_evidence_relative_path latest = Inr latest"
    and "path_dir latest = ''.''" and "slash \<notin> set latest"
  shows "preserves inside_kept (update_latest_cycle_file rnd dir name contents)"
proof (cases rnd)
  case (Inl e)
  then show ?thesis
    by (auto simp: update_latest_cycle_file_def write_atomic_private_root_file_def assms
        intro!: top.keep_intros top_open_root)
next
  case (Inr hex)
  then have hex: "is_hex_text hex" using assms(1) by (simp add: random_hex_def)
  have temp: "slash \<notin> set (''.evidence-'' @ hex)" using hex_no_slash[OF hex] by simp
  note calls = top_calls(1-3) top_calls(4-6)[OF temp] top_calls(7)[OF temp assms(5)]
  have "preserves inside_kept (write_atomic_private_root_file rnd latest contents True)"
    unfolding write_atomic_private_root_file_def Let_def Inr assms(3,4) sum.case if_False top_temporary[OF hex]
      not_True_eq_False
    by (intro top.keep_intros calls top_sync_root_dir)
  then show ?thesis
    unfolding update_latest_cycle_file_def assms(2) by (intro top.keep_intros top_open_root)
qed

lemma top_latest_report: "random_hex rnd \<Longrightarrow> preserves inside_kept (update_latest_cycle_report rnd dir contents)"
  unfolding update_latest_cycle_report_def
  by (rule top_update_latest[where latest = "''last-cycle.json''"], assumption) code_simp+

lemma top_latest_attestation:
  "random_hex rnd \<Longrightarrow> preserves inside_kept (update_latest_cycle_attestation rnd dir contents)"
  unfolding update_latest_cycle_attestation_def
  by (rule top_update_latest[where latest = "''last-cycle.attestation.json''"], assumption) code_simp+

text \<open>Archiving creates no file but its own.\<close>

definition only_file :: "gostring \<Rightarrow> fs \<Rightarrow> fs \<Rightarrow> bool" where
  "only_file p s s' \<longleftrightarrow> (\<forall>q c. q \<noteq> p \<longrightarrow> fs_nodes s' q = Some (FileNode c) \<longrightarrow> fs_nodes s q = Some (FileNode c))"

interpretation only: run_relation "only_file p"
  by unfold_locales (auto simp: only_file_def)

lemma only_touched: "preserves (touches p) m \<Longrightarrow> preserves (only_file p) m"
  by (fastforce simp: preserves_def touches_def only_file_def)

lemma only_calls: "preserves (only_file p) (fs_lstat q)" "preserves (only_file p) (fs_mkdir q perm)"
  "preserves (only_file p) (fs_chmod q perm)" "preserves (only_file p) (sync_root_dir q)"
proof -
  show "preserves (only_file p) (fs_lstat q)" "preserves (only_file p) (fs_mkdir q perm)"
    "preserves (only_file p) (fs_chmod q perm)"
    by (auto simp: fs_lstat_def fs_mkdir_def fs_chmod_def only_file_def intro!: preserves_syscall)
  show "preserves (only_file p) (sync_root_dir q)"
    by (rule only_touched[OF touches_sync_root_dir])
qed

lemma only_open_root: "preserves (only_file p) (open_evidence_root path)"
  unfolding open_evidence_root_def
  by (intro only.keep_intros; rule preserves_syscall) (auto simp: only_file_def split: option.splits node.splits)

lemma only_ensure_components: "preserves (only_file p) (ensure_components parent cs)"
proof (induction parent cs rule: ensure_components.induct)
  case (2 parent c cs)
  then show ?case
    by (auto simp: Let_def ensure_component_def intro!: only.keep_intros only_calls split: option.split node.split)
qed (simp add: only.keep_return)

lemma only_ensure_dir: "preserves (only_file p) (ensure_private_root_dir path)"
  unfolding ensure_private_root_dir_def
  by (auto intro!: only.keep_intros only_calls only_ensure_components split: sum.split)

lemma only_write_new:
  assumes "clean_evidence_relative_path path = Inr p"
  shows "preserves (only_file p) (write_new_private_root_file path contents)"
  unfolding write_new_private_root_file_def assms sum.case Let_def
  by (intro only_touched touch_intros)

subsection \<open>The files of a cycle\<close>

lemma cycle_path:
  assumes "plain_component cid" and "plain_component name"
  shows "join_paths [cid, name] = cid @ slash # name"
    and "clean_evidence_relative_path (cid @ slash # name) = Inr (cid @ slash # name)"
proof -
  have ws: "[cid, name] \<noteq> []" "list_all plain_component [cid, name]" using assms by auto
  have clean: "clean (cid @ slash # name) = cid @ slash # name"
    using clean_plain[OF ws] by simp
  show "join_paths [cid, name] = cid @ slash # name"
    using join_paths_plain[of "[cid]" name] ws by simp
  have "hd (cid @ slash # name) \<noteq> slash" using plain_hd[OF ws] by simp
  moreover have "\<not> prefix ''../'' (cid @ slash # name)"
  proof
    assume "prefix ''../'' (cid @ slash # name)"
    then have "takeWhile (\<lambda>c. c \<noteq> slash) (cid @ slash # name) = ''..''"
      by (auto simp: prefix_def)
    moreover have "takeWhile (\<lambda>c. c \<noteq> slash) (cid @ slash # name) = cid"
      using assms(1) by (subst takeWhile_append2) (auto simp: plain_component_def)
    ultimately show False using assms(1) by (simp add: plain_component_def)
  qed
  moreover have "cid @ slash # name \<noteq> ''..''"
  proof
    assume "cid @ slash # name = ''..''"
    then have "slash \<in> set ''..''" by (metis in_set_conv_decomp)
    then show False by simp
  qed
  ultimately show "clean_evidence_relative_path (cid @ slash # name) = Inr (cid @ slash # name)"
    by (auto simp: clean_evidence_relative_path_def clean is_abs_def Let_def)
qed

text \<open>What archiving a cycle's file does: nothing else appears, nothing is changed, and on success it is
  stored.\<close>

definition cycle_file :: "gostring \<Rightarrow> gostring \<Rightarrow> gostring" where
  "cycle_file cid name = cid @ slash # name"

lemma archive_file:
  assumes "plain_component cid" and "plain_component (safe_artifact_name name)"
  defines "p \<equiv> cycle_file cid (safe_artifact_name name)"
  shows "preserves (only_file p) (archive_cycle_file dir cid name contents)"
    and "runs (archive_cycle_file dir cid name contents) s u s' \<Longrightarrow> fs_nodes s' p = Some (FileNode contents)"
proof -
  have p: "join_paths [cid, safe_artifact_name name] = p" "clean_evidence_relative_path p = Inr p"
    using cycle_path[OF assms(1,2)] by (simp_all add: p_def cycle_file_def)
  have written: "write_atomic_private_root_file (Inl []) p contents False = write_new_private_root_file p contents"
    by (simp add: write_atomic_private_root_file_def p(2))
  show "preserves (only_file p) (archive_cycle_file dir cid name contents)"
    unfolding archive_cycle_file_def p(1) written
    by (intro only.keep_intros only_open_root only_ensure_dir only_write_new p(2))
  show "fs_nodes s' p = Some (FileNode contents)" if "runs (archive_cycle_file dir cid name contents) s u s'"
  proof -
    from that obtain s1 where "runs (write_new_private_root_file p contents) s1 u s'"
      by (auto simp: archive_cycle_file_def p(1) written split: if_splits)
    then show ?thesis by (rule write_new_stores) (use p(2) in auto)
  qed
qed

lemma artifact_names: "safe_artifact_name ''report.json'' = ''report.json''"
  "safe_artifact_name ''attestation.json'' = ''attestation.json''"
  "plain_component ''report.json''" "plain_component ''attestation.json''"
  by code_simp+

lemmas archive_report_file =
  archive_file[where name = "''report.json''", unfolded artifact_names(1), OF _ artifact_names(3)]
lemmas archive_attestation_file =
  archive_file[where name = "''attestation.json''", unfolded artifact_names(2), OF _ artifact_names(4)]

subsection \<open>Attempts\<close>

lemma attempt_ok: "attempt what m eh = ([], s') \<longleftrightarrow> fst eh = [] \<and> runs m (snd eh) () s'"
  by (cases eh) (auto simp: attempt_def runs_def split: prod.split sum.split)

lemma attempt_fst:
  "fst (attempt what m eh) = [] \<longleftrightarrow> fst eh = [] \<and> runs m (snd eh) () (snd (attempt what m eh))"
  by (metis attempt_ok prod.collapse fst_conv)

lemma attempt_cases:
  obtains "runs m (snd eh) () (snd (attempt what m eh))" "fst (attempt what m eh) = fst eh"
  | e where "fst (attempt what m eh) = fst eh @ [what @ e]"
  by (cases eh; cases "m (snd eh)"; cases "fst (m (snd eh))") (auto simp: attempt_def runs_def)

lemma attempt_keeps: "preserves R m \<Longrightarrow> R (snd eh) (snd (attempt what m eh))"
  by (cases eh) (auto simp: attempt_def preserves_def split: prod.split sum.split; metis snd_conv)

text \<open>A relation on the evidence store, seen on the host.\<close>

definition on_store :: "(fs \<Rightarrow> fs \<Rightarrow> bool) \<Rightarrow> host \<Rightarrow> host \<Rightarrow> bool" where
  "on_store R h h' \<longleftrightarrow> R (ho_evidence h) (ho_evidence h')"

lemma on_store_keeps:
  "preserves R m \<Longrightarrow> preserves (on_store R) (on_evidence m)"
  "(\<And>s. R s s) \<Longrightarrow> preserves (on_store R) (on_out_dir m)"
  "(\<And>s. R s s) \<Longrightarrow> preserves (on_store R) (on_stdout m')"
  by (auto simp: preserves_def on_store_def on_evidence_def on_out_dir_def on_stdout_def split: prod.split)
    (metis snd_conv)

lemma runs_host [simp]:
  "runs (on_evidence m) h () h' \<longleftrightarrow> (\<exists>f. runs m (ho_evidence h) () f \<and> h' = h\<lparr>ho_evidence := f\<rparr>)"
  "runs (on_out_dir m) h () h' \<longleftrightarrow> (\<exists>f. runs m (ho_out_dir h) () f \<and> h' = h\<lparr>ho_out_dir := f\<rparr>)"
  "runs (on_stdout m') h () h' \<longleftrightarrow> (\<exists>f. runs m' (ho_stdout h) () f \<and> h' = h\<lparr>ho_stdout := f\<rparr>)"
  by (auto simp: runs_def on_evidence_def on_out_dir_def on_stdout_def split: prod.splits)

subsection \<open>Whichever sink fails\<close>

lemma attest_report_keeps:
  assumes "run_relation R"
    and "\<And>c. preserves R (on_evidence (update_latest_cycle_attestation (fe_attestation_temp env) dir c))"
    and "\<And>c. preserves R (on_out_dir (write_attestation (fe_out_suffix env) out c))"
    and "\<And>c. archived \<Longrightarrow> preserves R (on_evidence (archive_cycle_attestation dir cid c))"
  shows "R (snd eh) (snd (attest_report env dir cid key out archived json eh))"
proof -
  note r = run_relation.refl[OF assms(1)] and t = run_relation.trans[OF assms(1)]
  show ?thesis
  proof (cases "key = []")
    case True
    then show ?thesis by (simp add: attest_report_def r)
  next
    case False
    show ?thesis
    proof (cases "marshal_attestation (fe_attest env) (fe_now env) key json")
      case (Inl e)
      with False show ?thesis by (simp add: attest_report_def r)
    next
      case (Inr contents)
      let ?eh1 = "if archived then attempt ''archive cycle attestation: ''
          (on_evidence (archive_cycle_attestation dir cid contents)) eh else eh"
      let ?eh2 = "attempt ''update latest cycle attestation: ''
          (on_evidence (update_latest_cycle_attestation (fe_attestation_temp env) dir contents)) ?eh1"
      have "R (snd eh) (snd ?eh1)" using attempt_keeps[OF assms(4)] r by auto
      moreover have "R (snd ?eh1) (snd ?eh2)" by (rule attempt_keeps[OF assms(2)])
      moreover have "R (snd ?eh2) (snd (attempt ''write assurance attestation: ''
          (on_out_dir (write_attestation (fe_out_suffix env) out contents)) ?eh2))"
        by (rule attempt_keeps[OF assms(3)])
      ultimately have "R (snd eh) (snd (attempt ''write assurance attestation: ''
          (on_out_dir (write_attestation (fe_out_suffix env) out contents)) ?eh2))" using t by blast
      with False Inr show ?thesis by (simp add: attest_report_def Let_def)
    qed
  qed
qed

lemma on_store_relation: "run_relation R \<Longrightarrow> run_relation (on_store R)"
  unfolding run_relation_def on_store_def by blast

text \<open>Files in the directories of the store stay as they are, and no new file appears at \<open>p\<close>.\<close>

definition keeps_inside :: "fs \<Rightarrow> fs \<Rightarrow> bool" where
  "keeps_inside s s' \<longleftrightarrow> (\<forall>p c. slash \<in> set p \<longrightarrow> fs_nodes s p = Some (FileNode c) \<longrightarrow> fs_nodes s' p = Some (FileNode c))"

definition nothing_new :: "gostring \<Rightarrow> fs \<Rightarrow> fs \<Rightarrow> bool" where
  "nothing_new p s s' \<longleftrightarrow> (\<forall>c. fs_nodes s' p = Some (FileNode c) \<longrightarrow> fs_nodes s p = Some (FileNode c))"

interpretation inside_files: run_relation keeps_inside
  by unfold_locales (auto simp: keeps_inside_def)

interpretation unseen: run_relation "nothing_new p"
  by unfold_locales (auto simp: nothing_new_def)

lemma keeps_inside_ops:
  "preserves keeps_inside (archive_cycle_file dir cid name contents)"
  "random_hex rnd \<Longrightarrow> preserves keeps_inside (update_latest_cycle_report rnd dir contents)"
  "random_hex rnd \<Longrightarrow> preserves keeps_inside (update_latest_cycle_attestation rnd dir contents)"
proof -
  have weaker: "preserves inside_kept m \<Longrightarrow> preserves keeps_inside m"
    "preserves careful m \<Longrightarrow> preserves keeps_inside m" for m :: "unit fs_op"
    by (auto simp: preserves_def inside_kept_def keeps_inside_def careful_def keeps_files_def)
  show "preserves keeps_inside (archive_cycle_file dir cid name contents)"
    by (rule weaker(2)[OF careful_archive])
  show "random_hex rnd \<Longrightarrow> preserves keeps_inside (update_latest_cycle_report rnd dir contents)"
    "random_hex rnd \<Longrightarrow> preserves keeps_inside (update_latest_cycle_attestation rnd dir contents)"
    by (rule weaker(1), rule top_latest_report top_latest_attestation, assumption)+
qed

lemma nothing_new_ops:
  "slash \<in> set p \<Longrightarrow> random_hex rnd \<Longrightarrow> preserves (nothing_new p) (update_latest_cycle_report rnd dir contents)"
  "slash \<in> set p \<Longrightarrow> random_hex rnd \<Longrightarrow> preserves (nothing_new p) (update_latest_cycle_attestation rnd dir contents)"
  "preserves (only_file q) m \<Longrightarrow> p \<noteq> q \<Longrightarrow> preserves (nothing_new p) m"
proof -
  have weaker: "slash \<in> set p \<Longrightarrow> preserves inside_kept m' \<Longrightarrow> preserves (nothing_new p) m'" for m' :: "unit fs_op"
    by (auto simp: preserves_def inside_kept_def nothing_new_def)
  show "slash \<in> set p \<Longrightarrow> random_hex rnd \<Longrightarrow> preserves (nothing_new p) (update_latest_cycle_report rnd dir contents)"
    by (intro weaker top_latest_report)
  show "slash \<in> set p \<Longrightarrow> random_hex rnd \<Longrightarrow> preserves (nothing_new p) (update_latest_cycle_attestation rnd dir contents)"
    by (intro weaker top_latest_attestation)
  show "preserves (only_file q) m \<Longrightarrow> p \<noteq> q \<Longrightarrow> preserves (nothing_new p) m"
    unfolding preserves_def nothing_new_def only_file_def by blast
qed

lemma print_report:
  assumes "\<forall>n. so_fault out n = None" and "write_report fmt rep ''json'' json delimit out = (r, out')"
  shows "so_text out' = so_text out @ json @ (if delimit then newline else [])"
proof -
  have w: "write_out b o' = (Inr (), o'\<lparr>so_text := so_text o' @ b, so_writes := Suc (so_writes o')\<rparr>)"
    if "\<forall>n. so_fault o' n = None" for b o'
    using that by (simp add: write_out_def)
  show ?thesis
  proof (cases delimit)
    case True
    then show ?thesis using assms(2)
      unfolding write_report_def op_bind_def if_P[OF refl] w[OF assms(1)] by (auto simp: w assms(1))
  next
    case False
    then show ?thesis using assms(2)
      unfolding write_report_def op_bind_def if_P[OF refl] w[OF assms(1)] by (auto simp: op_return_def)
  qed
qed

text \<open>A report that was printed without an error arrived in full.\<close>

lemma printed_report:
  assumes "runs (write_report fmt rep ''json'' json delimit) out u out'"
  shows "so_text out' = so_text out @ json @ (if delimit then newline else [])"
proof -
  have w: "runs (write_out b) o1 v o2 \<Longrightarrow> so_text o2 = so_text o1 @ b" for b o1 v o2
    by (auto simp: runs_def write_out_def split: option.splits)
  show ?thesis using assms by (cases delimit) (auto simp: write_report_def dest!: w)
qed

text \<open>The sinks before it leave standard output alone.\<close>

lemma sinks_keep_stdout:
  "ho_stdout (snd (attempt what (on_evidence m) eh)) = ho_stdout (snd eh)"
  "ho_stdout (snd (attest_report env dir cid key out archived json eh)) = ho_stdout (snd eh)"
proof -
  define same :: "host \<Rightarrow> host \<Rightarrow> bool" where "same = (\<lambda>h h'. ho_stdout h' = ho_stdout h)"
  have r: "run_relation same" by unfold_locales (auto simp: same_def)
  have p: "preserves same (on_evidence m')" "preserves same (on_out_dir m')" for m'
    by (auto simp: same_def preserves_def on_evidence_def on_out_dir_def split: prod.split)
  show "ho_stdout (snd (attempt what (on_evidence m) eh)) = ho_stdout (snd eh)"
    using attempt_keeps[OF p(1)] by (simp add: same_def)
  show "ho_stdout (snd (attest_report env dir cid key out archived json eh)) = ho_stdout (snd eh)"
    using attest_report_keeps[OF r p(1) p(2) p(1)] by (simp add: same_def)
qed

text \<open>No file in a directory of the store changes while a cycle is finalised.\<close>

lemma finalize_keeps_inside:
  assumes "random_hex (fe_report_temp env)" and "random_hex (fe_attestation_temp env)"
  shows "on_store keeps_inside h (snd (finalize_cycle env dir report err key out output delimit h))"
proof -
  note refl = run_relation.refl[OF on_store_relation[OF inside_files.run_relation_axioms]]
    and trans = run_relation.trans[OF on_store_relation[OF inside_files.run_relation_axioms]]
  show ?thesis
  proof (cases report)
    case None
    then show ?thesis by (simp add: finalize_cycle_def refl)
  next
    case (Some rep)
    show ?thesis
    proof (cases "fe_marshal_report env rep")
      case (Inl e)
      with Some show ?thesis by (simp add: finalize_cycle_def canonical_json_def refl)
    next
      case (Inr json)
      define errs where "errs = (case err of None \<Rightarrow> [] | Some e \<Rightarrow> [e])"
      define eh1 where "eh1 = attempt ''archive cycle report: ''
         (on_evidence (archive_cycle_report dir (rep_cycle_id rep) json)) (errs, h)"
      define eh2 where "eh2 = attempt ''update latest cycle report: ''
         (on_evidence (update_latest_cycle_report (fe_report_temp env) dir json)) eh1"
      define eh3 where "eh3 = attest_report env dir (rep_cycle_id rep) key out (fst eh1 = errs) json eh2"
      have final: "finalize_cycle env dir report err key out output delimit h = attempt ''write cycle report: ''
          (on_stdout (write_report (fe_format env) rep output json delimit)) eh3"
        using Some Inr by (simp add: finalize_cycle_def canonical_json_def Let_def eh1_def eh2_def eh3_def errs_def)
      have "on_store keeps_inside (snd (errs, h)) (snd eh1)"
        unfolding eh1_def archive_cycle_report_def by (rule attempt_keeps[OF on_store_keeps(1)[OF keeps_inside_ops(1)]])
      moreover have "on_store keeps_inside (snd eh1) (snd eh2)"
        unfolding eh2_def by (rule attempt_keeps[OF on_store_keeps(1)[OF keeps_inside_ops(2)[OF assms(1)]]])
      moreover have "on_store keeps_inside (snd eh2) (snd eh3)"
        unfolding eh3_def
        by (rule attest_report_keeps[OF on_store_relation[OF inside_files.run_relation_axioms]])
          (auto simp: archive_cycle_attestation_def intro!: on_store_keeps keeps_inside_ops inside_files.refl assms)
      moreover have "on_store keeps_inside (snd eh3) (snd (finalize_cycle env dir report err key out output delimit h))"
        unfolding final by (rule attempt_keeps[OF on_store_keeps(3)[OF inside_files.refl]])
      ultimately show ?thesis using trans unfolding snd_conv by blast
    qed
  qed
qed

text \<open>C22: Whatever sinks fail, finalising a cycle changes no file inside a directory of the evidence store (it does
  replace the files of the latest cycle at the top of the store and the one of \<open>--attestation-out\<close>, also when
  archiving has failed); an attestation that was not there before appears in the cycle's own directory only next
  to the archived report of that very cycle; and if standard output works, the JSON report is printed in full.\<close>

theorem attestation_follows_report:
  assumes "finalize_cycle env dir (Some rep) err key out output delimit h = (errs, h')"
    and "fe_marshal_report env rep = Inr json" and "plain_component (rep_cycle_id rep)"
    and "random_hex (fe_report_temp env)" and "random_hex (fe_attestation_temp env)"
  shows "(\<forall>p c. slash \<in> set p \<longrightarrow> fs_nodes (ho_evidence h) p = Some (FileNode c)
        \<longrightarrow> fs_nodes (ho_evidence h') p = Some (FileNode c))
    \<and> (\<forall>b. fs_nodes (ho_evidence h') (cycle_file (rep_cycle_id rep) ''attestation.json'') = Some (FileNode b)
        \<longrightarrow> fs_nodes (ho_evidence h) (cycle_file (rep_cycle_id rep) ''attestation.json'') = Some (FileNode b)
          \<or> fs_nodes (ho_evidence h') (cycle_file (rep_cycle_id rep) ''report.json'') = Some (FileNode json))
    \<and> ((\<forall>n. so_fault (ho_stdout h) n = None) \<longrightarrow> output = ''json'' \<longrightarrow>
        so_text (ho_stdout h') = so_text (ho_stdout h) @ json @ (if delimit then newline else []))"
proof -
  let ?cid = "rep_cycle_id rep" and ?errs = "case err of None \<Rightarrow> [] | Some e \<Rightarrow> [e]"
  let ?report = "cycle_file ?cid ''report.json''" and ?att = "cycle_file ?cid ''attestation.json''"
  define eh1 where "eh1 = attempt ''archive cycle report: '' (on_evidence (archive_cycle_report dir ?cid json)) (?errs, h)"
  define eh2 where "eh2 = attempt ''update latest cycle report: ''
     (on_evidence (update_latest_cycle_report (fe_report_temp env) dir json)) eh1"
  define eh3 where "eh3 = attest_report env dir ?cid key out (fst eh1 = ?errs) json eh2"
  have final: "(errs, h') = attempt ''write cycle report: ''
      (on_stdout (write_report (fe_format env) rep output json delimit)) eh3"
    using assms(1,2) by (simp add: finalize_cycle_def canonical_json_def Let_def eh1_def eh2_def eh3_def)
  have slashes: "slash \<in> set ?att" "?att \<noteq> ?report" by (simp_all add: cycle_file_def)
  have steps: "on_store R (snd eh1) h'"
    if R: "run_relation R"
      and latest: "\<And>c. preserves R (update_latest_cycle_report (fe_report_temp env) dir c)"
        "\<And>c. preserves R (update_latest_cycle_attestation (fe_attestation_temp env) dir c)"
      and archive: "\<And>c. fst eh1 = ?errs \<Longrightarrow> preserves R (archive_cycle_attestation dir ?cid c)" for R
  proof -
    note refl = run_relation.refl[OF R] and trans = run_relation.trans[OF on_store_relation[OF R]]
    have "on_store R (snd eh1) (snd eh2)"
      unfolding eh2_def by (rule attempt_keeps[OF on_store_keeps(1)[OF latest(1)]])
    moreover have "on_store R (snd eh2) (snd eh3)"
      unfolding eh3_def
      by (rule attest_report_keeps[OF on_store_relation[OF R]])
        (auto intro!: on_store_keeps latest archive refl)
    moreover have "on_store R (snd eh3) (snd (errs, h'))"
      unfolding final by (rule attempt_keeps[OF on_store_keeps(3)[OF refl]])
    ultimately show ?thesis using trans unfolding snd_conv by blast
  qed
  have archived: "preserves (on_store R) (on_evidence (archive_cycle_report dir ?cid json))
      \<Longrightarrow> on_store R h (snd eh1)" for R
    unfolding eh1_def using attempt_keeps[of "on_store R" _ "(?errs, h)"] by simp
  have keep: "on_store keeps_inside (snd eh1) h'"
    by (rule steps[OF inside_files.run_relation_axioms])
      (auto simp: archive_cycle_attestation_def intro!: keeps_inside_ops assms(4,5))
  have kept: "on_store keeps_inside h h'"
  proof -
    have "on_store keeps_inside h (snd (finalize_cycle env dir (Some rep) err key out output delimit h))"
      by (rule finalize_keeps_inside[OF assms(4,5)])
    then show ?thesis by (simp add: assms(1))
  qed
  have attested: "fs_nodes (ho_evidence h) ?att = Some (FileNode b)
      \<or> fs_nodes (ho_evidence h') ?report = Some (FileNode json)"
    if "fs_nodes (ho_evidence h') ?att = Some (FileNode b)" for b
  proof (cases rule: attempt_cases[of "on_evidence (archive_cycle_report dir ?cid json)" "(?errs, h)" "''archive cycle report: ''"])
    case 1
    obtain f where f: "runs (archive_cycle_file dir ?cid ''report.json'' json) (ho_evidence h) () f"
      and h1: "snd eh1 = h\<lparr>ho_evidence := f\<rparr>"
      using 1(1)[folded eh1_def, unfolded runs_host archive_cycle_report_def snd_conv]
      by (elim exE conjE) (rule that)
    have "fs_nodes (ho_evidence (snd eh1)) ?report = Some (FileNode json)"
      unfolding h1 using archive_report_file(2)[OF assms(3) f] by simp
    then show ?thesis using keep by (auto simp: on_store_def keeps_inside_def cycle_file_def)
  next
    case (2 e)
    then have failed: "fst eh1 \<noteq> ?errs" by (simp add: eh1_def)
    have "on_store (nothing_new ?att) (snd eh1) h'"
      by (rule steps[OF unseen.run_relation_axioms nothing_new_ops(1)[OF slashes(1) assms(4)]
          nothing_new_ops(2)[OF slashes(1) assms(5)]]) (use failed in simp)
    moreover have "on_store (nothing_new ?att) h (snd eh1)"
      by (rule archived, rule on_store_keeps(1), unfold archive_cycle_report_def,
        rule nothing_new_ops(3)[OF archive_report_file(1)[OF assms(3)] slashes(2)])
    ultimately show ?thesis using that by (auto simp: on_store_def nothing_new_def)
  qed
  have "ho_stdout (snd eh3) = ho_stdout h"
    unfolding eh3_def eh2_def eh1_def by (simp add: sinks_keep_stdout)
  then have printed: "so_text (ho_stdout h') = so_text (ho_stdout h) @ json @ (if delimit then newline else [])"
    if "\<forall>n. so_fault (ho_stdout h) n = None" "output = ''json''"
    using final that print_report[of "ho_stdout (snd eh3)" "fe_format env" rep json delimit]
    by (cases eh3) (auto simp: attempt_def on_stdout_def split: prod.splits sum.splits)
  show ?thesis using kept attested printed by (auto simp: on_store_def keeps_inside_def)
qed

subsection \<open>A finalised cycle\<close>

lemma runs_rename: "runs (fs_rename a b) s u s' \<Longrightarrow> a \<noteq> b \<Longrightarrow> fs_nodes s' b = fs_nodes s a"
  by (auto simp: fs_rename_def) (auto simp: runs_def split: if_splits)

lemma write_attestation_stores:
  assumes "runs (write_attestation sfx path contents) s u s'"
    and "attestation_name path \<noteq> ''.assurance-attestation-'' @ sfx"
  shows "fs_nodes s' (attestation_name path) = Some (FileNode contents)"
proof -
  let ?temp = "''.assurance-attestation-'' @ sfx"
  obtain s2 s3 s4 s5 s6 s7 s8 where "runs (fs_write ?temp contents) s2 () s3" "runs (fs_sync ?temp) s3 () s4"
    "runs (fs_close ?temp) s4 () s5" "runs (fs_rename ?temp (attestation_name path)) s5 () s6"
    "runs (fs_open_dir ''.'') s6 () s7" "runs (fs_sync ''.'') s7 () s8"
    and s': "s' = snd (op_ignore (fs_remove ?temp) (snd (op_ignore (fs_close ''.'') s8)))"
    using assms(1) unfolding write_attestation_def Let_def by (auto simp del: append.simps)
  then have "fs_nodes s8 (attestation_name path) = Some (FileNode contents)"
    using runs_rename[of ?temp "attestation_name path" s5 "()" s6] assms(2) by (auto dest!: runs_calls)
  moreover have "preserves (touches ?temp) (op_ignore (fs_remove ?temp))"
    "preserves (touches ?temp) (op_ignore (fs_close ''.''))"
    by (intro touch_intros)+
  then have "touches ?temp s8 s'" unfolding s' preserves_def by (meson touch.trans)
  ultimately show ?thesis using assms(2) by (simp add: touches_def)
qed

lemma attest_report_ok:
  assumes "attest_report env dir cid key out archived json eh = ([], h')" and "key \<noteq> []" and "archived"
  obtains contents f1 f2 f3 where "marshal_attestation (fe_attest env) (fe_now env) key json = Inr contents"
    and "fst eh = []" and "runs (archive_cycle_attestation dir cid contents) (ho_evidence (snd eh)) () f1"
    and "runs (update_latest_cycle_attestation (fe_attestation_temp env) dir contents) f1 () f2"
    and "runs (write_attestation (fe_out_suffix env) out contents) (ho_out_dir (snd eh)) () f3"
    and "h' = (snd eh)\<lparr>ho_evidence := f2, ho_out_dir := f3\<rparr>"
proof (cases "marshal_attestation (fe_attest env) (fe_now env) key json")
  case (Inl e)
  then show ?thesis using assms by (simp add: attest_report_def)
next
  case (Inr contents)
  define eh1 where "eh1 = attempt ''archive cycle attestation: ''
     (on_evidence (archive_cycle_attestation dir cid contents)) eh"
  define eh2 where "eh2 = attempt ''update latest cycle attestation: ''
     (on_evidence (update_latest_cycle_attestation (fe_attestation_temp env) dir contents)) eh1"
  have "attempt ''write assurance attestation: ''
      (on_out_dir (write_attestation (fe_out_suffix env) out contents)) eh2 = ([], h')"
    using assms(1) unfolding attest_report_def Inr sum.case Let_def if_not_P[OF assms(2)] if_P[OF assms(3)]
      eh1_def eh2_def by assumption
  then have out: "fst eh2 = []" "runs (on_out_dir (write_attestation (fe_out_suffix env) out contents)) (snd eh2) () h'"
    unfolding attempt_ok by blast+
  have latest: "fst eh1 = []"
    "runs (on_evidence (update_latest_cycle_attestation (fe_attestation_temp env) dir contents)) (snd eh1) () (snd eh2)"
    using out(1) unfolding eh2_def attempt_fst by blast+
  have archive: "fst eh = []" "runs (on_evidence (archive_cycle_attestation dir cid contents)) (snd eh) () (snd eh1)"
    using latest(1) unfolding eh1_def attempt_fst by blast+
  obtain f1 where f1: "runs (archive_cycle_attestation dir cid contents) (ho_evidence (snd eh)) () f1"
    "snd eh1 = (snd eh)\<lparr>ho_evidence := f1\<rparr>"
    using archive(2) unfolding runs_host by (elim exE conjE) (rule that)
  obtain f2 where f2: "runs (update_latest_cycle_attestation (fe_attestation_temp env) dir contents) (ho_evidence (snd eh1)) () f2"
    "snd eh2 = (snd eh1)\<lparr>ho_evidence := f2\<rparr>"
    using latest(2) unfolding runs_host by (elim exE conjE) (rule that)
  obtain f3 where f3: "runs (write_attestation (fe_out_suffix env) out contents) (ho_out_dir (snd eh2)) () f3"
    "h' = (snd eh2)\<lparr>ho_out_dir := f3\<rparr>"
    using out(2) unfolding runs_host by (elim exE conjE) (rule that)
  show ?thesis
    by (rule that[OF Inr archive(1) f1(1), of f2 f3]) (use f1(2) f2 f3 in simp_all)
qed

lemma attest_report_errs: "fst (attest_report env dir cid key out archived json eh) = [] \<Longrightarrow> fst eh = []"
proof (cases "key = [] \<or> (\<exists>e. marshal_attestation (fe_attest env) (fe_now env) key json = Inl e)")
  case False
  assume ok: "fst (attest_report env dir cid key out archived json eh) = []"
  from False obtain contents where "marshal_attestation (fe_attest env) (fe_now env) key json = Inr contents"
    by (cases "marshal_attestation (fe_attest env) (fe_now env) key json") auto
  with False ok show ?thesis
    by (cases archived) (simp_all add: attest_report_def Let_def attempt_fst)
next
  case True
  assume ok: "fst (attest_report env dir cid key out archived json eh) = []"
  show ?thesis
  proof (cases "key = []")
    case True
    then show ?thesis using ok by (simp add: attest_report_def)
  next
    case False
    with True obtain e where "marshal_attestation (fe_attest env) (fe_now env) key json = Inl e" by blast
    with False ok show ?thesis by (simp add: attest_report_def)
  qed
qed

text \<open>The attestation that a cycle publishes is one that \<open>attest verify\<close> accepts.\<close>

lemma published_attestation_verifies:
  assumes "marshal_attestation env now key json = Inr contents" and "at_read_file env input = Inr contents"
    and "parse_private_key env key = Inr k" and "at_read_file env key_path = Inr public_pem"
    and "parse_public_key env public_pem = Inr (at_public_of env k)" and "signature_laws env"
    and "\<And>e. sign_json env key json now = Inr e \<Longrightarrow> envelope_codec env e" and "json_trim json = json"
    and "key_path \<noteq> []" and "input \<noteq> []"
  shows "ce_exit (attest_verify env rfc3339 key_path input) = 0
    \<and> (\<exists>e. sign_json env key json now = Inr e \<and> read_envelope env input = Inr e \<and> en_payload e = json
        \<and> verify_envelope env public_pem e = Inr ())"
proof -
  obtain e where e: "sign_json env key json now = Inr e" "marshal_envelope env e = Inr contents"
    using assms(1) by (auto simp: marshal_attestation_def)
  obtain ident where ident: "attestable env (en_payload e) ident" using marshal_signed[OF e(1)] by blast
  have payload: "en_payload e = json" using e(1) by (auto simp: sign_json_ok)
  then have "e\<lparr>en_payload := json_trim (en_payload e)\<rparr> = e" using assms(8) by simp
  with read_marshalled[OF ident e(2) assms(7)[OF e(1)] assms(2)]
  have "read_envelope env input = Inr e" by simp
  moreover have "verify_envelope env public_pem e = Inr ()"
    by (rule sign_then_verify[OF e(1) assms(3,5,6)])
  ultimately show ?thesis using assms(4,9,10) e(1) payload by (simp add: attest_verify_def)
qed

text \<open>C21: A cycle finalised without an error, with a signing key configured, had no error itself and leaves
  things that agree: the archived report is byte for byte the canonical JSON, which the JSON output has
  printed in full; the archived attestation and the file of \<open>--attestation-out\<close> are the same.  Given the archived
  attestation and the signer's public key, \<open>attest verify\<close> accepts, and what it has read and verified is the envelope
  that was signed for exactly that report, with the archived bytes as its payload.\<close>

theorem published_cycle_verifies:
  assumes "finalize_cycle env dir (Some rep) err key out output delimit h = ([], h')" and "key \<noteq> []"
    and "fe_marshal_report env rep = Inr json" and "plain_component (rep_cycle_id rep)"
    and "random_hex (fe_attestation_temp env)" and "random_hex (fe_report_temp env)"
    and "attestation_name out \<noteq> ''.assurance-attestation-'' @ fe_out_suffix env"
    and "parse_private_key (fe_attest env) key = Inr k" and "at_read_file (fe_attest env) key_path = Inr public_pem"
    and "parse_public_key (fe_attest env) public_pem = Inr (at_public_of (fe_attest env) k)"
    and "signature_laws (fe_attest env)" and "json_trim json = json" and "key_path \<noteq> []" and "input \<noteq> []"
    and "\<And>e. sign_json (fe_attest env) key json (fe_now env) = Inr e \<Longrightarrow> envelope_codec (fe_attest env) e"
    and "\<And>c. fs_nodes (ho_evidence h') (cycle_file (rep_cycle_id rep) ''attestation.json'') = Some (FileNode c)
      \<Longrightarrow> at_read_file (fe_attest env) input = Inr c"
  shows "err = None
    \<and> fs_nodes (ho_evidence h') (cycle_file (rep_cycle_id rep) ''report.json'') = Some (FileNode json)
    \<and> (\<exists>contents. fs_nodes (ho_evidence h') (cycle_file (rep_cycle_id rep) ''attestation.json'')
          = Some (FileNode contents)
        \<and> fs_nodes (ho_out_dir h') (attestation_name out) = Some (FileNode contents))
    \<and> (output = ''json'' \<longrightarrow>
        so_text (ho_stdout h') = so_text (ho_stdout h) @ json @ (if delimit then newline else []))
    \<and> ce_exit (attest_verify (fe_attest env) rfc3339 key_path input) = 0
    \<and> (\<exists>e. sign_json (fe_attest env) key json (fe_now env) = Inr e \<and> read_envelope (fe_attest env) input = Inr e
        \<and> en_payload e = json \<and> verify_envelope (fe_attest env) public_pem e = Inr ())"
proof -
  let ?cid = "rep_cycle_id rep" and ?errs = "case err of None \<Rightarrow> [] | Some e \<Rightarrow> [e]"
  let ?report = "cycle_file ?cid ''report.json''" and ?att = "cycle_file ?cid ''attestation.json''"
  define eh1 where "eh1 = attempt ''archive cycle report: '' (on_evidence (archive_cycle_report dir ?cid json)) (?errs, h)"
  define eh2 where "eh2 = attempt ''update latest cycle report: ''
     (on_evidence (update_latest_cycle_report (fe_report_temp env) dir json)) eh1"
  define eh3 where "eh3 = attest_report env dir ?cid key out (fst eh1 = ?errs) json eh2"
  have "attempt ''write cycle report: '' (on_stdout (write_report (fe_format env) rep output json delimit)) eh3
      = ([], h')"
    using assms(1,3) by (simp add: finalize_cycle_def canonical_json_def Let_def eh1_def eh2_def eh3_def)
  then have last: "fst eh3 = []" "runs (on_stdout (write_report (fe_format env) rep output json delimit)) (snd eh3) () h'"
    unfolding attempt_ok by blast+
  obtain o1 where h': "h' = (snd eh3)\<lparr>ho_stdout := o1\<rparr>"
    and o1: "runs (write_report (fe_format env) rep output json delimit) (ho_stdout (snd eh3)) () o1"
    using last(2) unfolding runs_host by (elim exE conjE) (rule that)
  have "ho_stdout (snd eh3) = ho_stdout h"
    unfolding eh3_def eh2_def eh1_def by (simp add: sinks_keep_stdout)
  then have printed: "so_text (ho_stdout h') = so_text (ho_stdout h) @ json @ (if delimit then newline else [])"
    if "output = ''json''" using printed_report[OF o1[unfolded that]] h' by simp
  have report_ok: "?errs = []" if "fst eh1 = []"
    using that unfolding eh1_def attempt_fst fst_conv by (rule conjunct1)
  have latest_ok: "fst eh1 = []" if "fst eh2 = []"
    using that unfolding eh2_def attempt_fst by (rule conjunct1)
  have eh2: "fst eh2 = []"
    using last(1) attest_report_errs[of env dir ?cid key out "fst eh1 = ?errs" json eh2] unfolding eh3_def by auto
  then have none: "fst eh1 = []" "?errs = []" using latest_ok report_ok by blast+
  obtain contents f1 f2 f3 where signed_ok: "marshal_attestation (fe_attest env) (fe_now env) key json = Inr contents"
    and arch: "runs (archive_cycle_attestation dir ?cid contents) (ho_evidence (snd eh2)) () f1"
    and latest: "runs (update_latest_cycle_attestation (fe_attestation_temp env) dir contents) f1 () f2"
    and out: "runs (write_attestation (fe_out_suffix env) out contents) (ho_out_dir (snd eh2)) () f3"
    and eh3: "snd eh3 = (snd eh2)\<lparr>ho_evidence := f2, ho_out_dir := f3\<rparr>"
  proof (rule attest_report_ok[of env dir ?cid key out True json eh2 "snd eh3"])
    show "attest_report env dir ?cid key out True json eh2 = ([], snd eh3)"
      using last(1) none unfolding eh3_def by (metis prod.collapse)
  qed (use assms(2) that in auto)
  have report1: "fs_nodes (ho_evidence (snd eh1)) ?report = Some (FileNode json)"
  proof -
    have "runs (on_evidence (archive_cycle_report dir ?cid json)) h () (snd eh1)"
      using none(1) unfolding eh1_def attempt_fst snd_conv by blast
    then obtain f where f: "runs (archive_cycle_file dir ?cid ''report.json'' json) (ho_evidence h) () f"
      and h1: "snd eh1 = h\<lparr>ho_evidence := f\<rparr>"
      unfolding runs_host archive_cycle_report_def by (elim exE conjE) (rule that)
    show ?thesis unfolding h1 using archive_report_file(2)[OF assms(4) f] by simp
  qed
  have k2: "keeps_inside (ho_evidence (snd eh1)) (ho_evidence (snd eh2))"
    using attempt_keeps[OF on_store_keeps(1)[OF keeps_inside_ops(2)[OF assms(6)]], of eh1] unfolding eh2_def on_store_def .
  have k3: "keeps_inside (ho_evidence (snd eh2)) f1"
    using keeps_inside_ops(1) arch unfolding archive_cycle_attestation_def by (rule preserves_runs)
  have k4: "keeps_inside f1 f2"
    using keeps_inside_ops(3)[OF assms(5)] latest by (rule preserves_runs)
  have att1: "fs_nodes f1 ?att = Some (FileNode contents)"
    using archive_attestation_file(2)[OF assms(4) arch[unfolded archive_cycle_attestation_def]] .
  have slashes: "slash \<in> set ?att" "slash \<in> set ?report" by (simp_all add: cycle_file_def)
  have att: "fs_nodes (ho_evidence h') ?att = Some (FileNode contents)"
    using k4 att1 slashes(1) unfolding h' eh3 keeps_inside_def by simp
  have report: "fs_nodes (ho_evidence h') ?report = Some (FileNode json)"
    using k2 k3 k4 report1 slashes(2) unfolding h' eh3 keeps_inside_def by simp
  have copy: "fs_nodes (ho_out_dir h') (attestation_name out) = Some (FileNode contents)"
    using write_attestation_stores[OF out assms(7)] unfolding h' eh3 by simp
  note verified =
    published_attestation_verifies[OF signed_ok assms(16)[OF att] assms(8,9,10,11) assms(15) assms(12,13,14), of rfc3339]
  have "err = None" using none(2) by (cases err) simp_all
  then show ?thesis using report att copy printed verified by blast
qed

subsection \<open>A concrete publication\<close>

definition sample_report :: cycle_report where
  "sample_report = initial_report sample_world tiny_runner tiny_manifest
     (run_config_snapshot_of (cw_marshal_profile_config sample_world) (cw_sha256_hex sample_world)
       (cw_build sample_world) tiny_runner tiny_config) ''d''"

definition sample_finish :: finish_env where
  "sample_finish = \<lparr>fe_attest = sample_attest_env\<lparr>at_read_file :=
       (\<lambda>path. Inr (if path = ''k.pub'' then ''K'' else ''{\"statement\":5,\"payload\":R,\"signature\":K5}''))\<rparr>,
     fe_marshal_report = (\<lambda>_. Inr ''R''), fe_format = \<lparr>rf_rfc3339 = (\<lambda>_. []), rf_latency = (\<lambda>_. [])\<rparr>,
     fe_now = Instant 5, fe_report_temp = Inr (replicate 64 (CHR ''a'')),
     fe_attestation_temp = Inr (replicate 64 (CHR ''b'')), fe_out_suffix = ''1''\<rparr>"

definition empty_directory :: fs where
  "empty_directory = \<lparr>fs_root = Some (DirNode private_dir), fs_nodes = Map.empty, fs_tick = 0, fs_fault = (\<lambda>_. None)\<rparr>"

definition empty_host :: host where
  "empty_host = \<lparr>ho_evidence = empty_directory, ho_out_dir = empty_directory,
     ho_stdout = \<lparr>so_text = [], so_writes = 0, so_fault = (\<lambda>_. None)\<rparr>\<rparr>"

definition sample_finished :: "gostring list \<times> host" where
  "sample_finished = finalize_cycle sample_finish ''e'' (Some sample_report) None ''K'' ''/o/a.json'' ''json'' False empty_host"

lemma sample_finish_sinks: "random_hex (fe_report_temp sample_finish)" "random_hex (fe_attestation_temp sample_finish)"
  "fe_out_suffix sample_finish = ''1''" "fe_now sample_finish = Instant 5" "rep_cycle_id sample_report = ''c''"
  by (simp_all add: sample_finish_def random_hex_def is_hex_text_def is_hex_digit_def list_all_iff sample_report_def
      initial_report_def sample_world_def)

lemma sample_publication_names: "plain_component (rep_cycle_id sample_report)"
  unfolding sample_finish_sinks by code_simp

lemma sample_finished_archived: "case sample_finished of (errs, h) \<Rightarrow> errs = []
    \<and> fs_nodes (ho_evidence h) ''c/attestation.json'' = Some (FileNode ''{\"statement\":5,\"payload\":R,\"signature\":K5}'')"
  by code_simp

lemma sample_archived:
  "fs_nodes (ho_evidence (snd sample_finished)) (cycle_file (rep_cycle_id sample_report) ''attestation.json'')
     = Some (FileNode ''{\"statement\":5,\"payload\":R,\"signature\":K5}'')"
  using sample_finished_archived unfolding case_prod_beta cycle_file_def sample_finish_sinks append.simps
  by (rule conjunct2)

lemma sample_finished: "finalize_cycle sample_finish ''e'' (Some sample_report) None ''K'' ''/o/a.json'' ''json''
    False empty_host = ([], snd sample_finished)"
  using sample_finished_archived unfolding sample_finished_def[symmetric] case_prod_beta
  by (elim conjE) (rule prod_eqI, simp_all only: fst_conv snd_conv)

lemma marshal_other_files: "marshal_envelope (env\<lparr>at_read_file := f\<rparr>) e = marshal_envelope env e"
  unfolding marshal_envelope_def by (simp split: sum.split)

lemma other_files: "signature_laws (env\<lparr>at_read_file := f\<rparr>) = signature_laws env"
    "envelope_codec (env\<lparr>at_read_file := f\<rparr>) e = envelope_codec env e"
  by (simp_all add: signature_laws_def envelope_codec_def marshal_other_files)

lemma sample_finish_signs:
  "sign_json (fe_attest sample_finish) ''K'' ''R'' (fe_now sample_finish) = Inr sample_envelope"
  unfolding sample_finish_sinks by code_simp

lemma sample_finish_laws: "signature_laws (fe_attest sample_finish)"
    "envelope_codec (fe_attest sample_finish) sample_envelope"
  unfolding sample_finish_def finish_env.simps other_files
  by (rule sample_signature_laws sample_envelope_codec)+

theorem attestation_follows_report_witness:
  "so_text (ho_stdout (snd sample_finished)) = ''R''
    \<and> fs_nodes (ho_evidence (snd sample_finished)) (cycle_file (rep_cycle_id sample_report) ''report.json'')
      = Some (FileNode ''R'')"
proof -
  have "fe_marshal_report sample_finish sample_report = Inr ''R''" by (simp add: sample_finish_def)
  note r = attestation_follows_report[OF sample_finished this sample_publication_names sample_finish_sinks(1,2)]
  have "\<forall>n. so_fault (ho_stdout empty_host) n = None" "so_text (ho_stdout empty_host) = []"
    "fs_nodes (ho_evidence empty_host) p = None" for p
    by (simp_all add: empty_host_def empty_directory_def)
  with r sample_archived show ?thesis by fastforce
qed

theorem published_cycle_verifies_witness:
  "ce_exit (attest_verify (fe_attest sample_finish) (\<lambda>_. []) ''k.pub'' ''a.json'') = 0
    \<and> so_text (ho_stdout (snd sample_finished)) = ''R''"
proof -
  let ?env = "fe_attest sample_finish"
  have report: "fe_marshal_report sample_finish sample_report = Inr ''R''" by (simp add: sample_finish_def)
  have name: "attestation_name ''/o/a.json'' \<noteq> ''.assurance-attestation-'' @ fe_out_suffix sample_finish"
    unfolding sample_finish_sinks by code_simp
  have keys: "parse_private_key ?env ''K'' = Inr ''K''" "parse_public_key ?env ''K'' = Inr (at_public_of ?env ''K'')"
    by code_simp+
  have reads: "at_read_file ?env ''k.pub'' = Inr ''K''"
    "at_read_file ?env ''a.json'' = Inr ''{\"statement\":5,\"payload\":R,\"signature\":K5}''"
    by (simp_all add: sample_finish_def)
  have codec: "envelope_codec ?env e" if "sign_json ?env ''K'' ''R'' (fe_now sample_finish) = Inr e" for e
    using that sample_finish_signs sample_finish_laws(2) by simp
  have archived: "at_read_file ?env ''a.json'' = Inr c"
    if "fs_nodes (ho_evidence (snd sample_finished)) (cycle_file (rep_cycle_id sample_report) ''attestation.json'')
      = Some (FileNode c)" for c
    using that sample_archived reads(2) by simp
  have "''k.pub'' \<noteq> []" "''a.json'' \<noteq> []" by simp_all
  from published_cycle_verifies[OF sample_finished _ report sample_publication_names sample_finish_sinks(2,1) name keys(1) reads(1) keys(2)
      sample_finish_laws(1) sample_trim this codec archived]
  show ?thesis by (simp add: empty_host_def)
qed

end
