(* ===== verification/Probe_Service.thy ===== *)
theory Probe_Service imports Probe_Command
begin

text \<open>
  The long-running modes: the cycles of \<open>probe run\<close> with and without \<open>--once\<close>, \<open>probe executor\<close>, the probe's own
  metrics server (\<open>internal/metrics\<close>), and how the servers end.  The ticker gives the moments of the cycles, which
  a world and a finishing environment stand for.
\<close>

subsection \<open>Cycle after cycle\<close>

text \<open>\<open>errors.Join\<close> puts each error on a line.\<close>

definition joined_errors :: "gostring list \<Rightarrow> gostring" where
  "joined_errors errs = join_with [CHR 0x0A] errs"

definition run_single :: "cycle_world \<Rightarrow> finish_env \<Rightarrow> runner \<Rightarrow> bytes \<Rightarrow> run_options \<Rightarrow> host \<Rightarrow> (command_end \<times> host) option"
where
  "run_single w env r key opts h = map_option (\<lambda>(errs, h').
     (if errs = [] then \<lparr>ce_exit = 0, ce_stdout = [], ce_message = []\<rparr>
      else fatal (''probe run: cycle error: '' @ joined_errors errs), h')) (run_cycle w env r key opts h)"

text \<open>An error of a cycle is logged and the next tick runs the next one; \<open>None\<close>: a cycle did not return.\<close>

fun run_cycles :: "runner \<Rightarrow> bytes \<Rightarrow> run_options \<Rightarrow> (cycle_world \<times> finish_env) list \<Rightarrow> gostring list \<times> host
   \<Rightarrow> (gostring list \<times> host) option" where
  "run_cycles r key opts [] lh = Some lh"
| "run_cycles r key opts ((w, env) # moments) (log, h) =
     (case run_cycle w env r key opts h of None \<Rightarrow> None
      | Some (errs, h') \<Rightarrow> run_cycles r key opts moments
          (if errs = [] then log else log @ [''probe run: cycle error: '' @ joined_errors errs], h'))"

subsection \<open>Servers\<close>

text \<open>How \<open>http.Server.Serve\<close> ends: after a shutdown, or of an error.\<close>

datatype serve_end = ServerClosed | ServeError gostring

definition serve_error :: "serve_end \<Rightarrow> gostring option" where
  "serve_error e = (case e of ServerClosed \<Rightarrow> None | ServeError t \<Rightarrow> Some t)"

record metrics_response =
  mr_status :: nat
  mr_body :: bytes

definition metrics_request :: "bytes \<Rightarrow> gostring \<Rightarrow> metrics_response option" where
  "metrics_request exposition path =
     (if path = ''/metrics'' then Some \<lparr>mr_status = 200, mr_body = exposition\<rparr>
      else if path = ''/healthz'' then Some \<lparr>mr_status = 200, mr_body = ''{\"status\":\"ok\"}''\<rparr>
      else if path = ''/readyz'' then Some \<lparr>mr_status = 200, mr_body = ''{\"status\":\"ready\"}''\<rparr>
      else None)"

definition metrics_serve :: "serve_end \<Rightarrow> gostring option" where
  "metrics_serve e = serve_error e"

text \<open>\<open>Close\<close> of the fault proxy: a shutdown that fails is followed by a forced close, so that serving ends in any
  case; both errors are reported.\<close>

definition proxy_close :: "gostring option \<Rightarrow> (bool \<Rightarrow> serve_end) \<Rightarrow> gostring option" where
  "proxy_close shutdown_error serving =
     (let forced = (shutdown_error \<noteq> None);
          errs = (case shutdown_error of None \<Rightarrow> [] | Some e \<Rightarrow> [e])
            @ (case serve_error (serving forced) of None \<Rightarrow> [] | Some e \<Rightarrow> [e])
      in if errs = [] then None else Some (joined_errors errs))"

definition cmd_executor :: "(gostring \<Rightarrow> gostring \<Rightarrow> gostring option) \<Rightarrow> gostring \<Rightarrow> gostring \<Rightarrow> command_end" where
  "cmd_executor serve listen profile_name =
     (if profile_name = [] then fatal ''executor: --profile is required''
      else case serve listen profile_name of
          Some e \<Rightarrow> fatal (''executor: '' @ e)
        | None \<Rightarrow> \<lparr>ce_exit = 0, ce_stdout = [], ce_message = []\<rparr>)"

text \<open>The subcommand of \<open>probe\<close>; \<open>None\<close> is an unknown one, with the usage text and status 2.\<close>

datatype probe_command = ProbeRun | ProbeCheck | ProbeChaos | ProbeAttest | ProbeExecutor | ProbeHelp

definition probe_main :: "gostring list \<Rightarrow> probe_command option" where
  "probe_main argv = (case argv of prog # name # args \<Rightarrow>
       if name = ''run'' then Some ProbeRun else if name = ''check'' then Some ProbeCheck
       else if name = ''chaos'' then Some ProbeChaos else if name = ''attest'' then Some ProbeAttest
       else if name = ''executor'' then Some ProbeExecutor
       else if name \<in> {''-h'', ''--help'', ''help''} then Some ProbeHelp else None
     | _ \<Rightarrow> None)"

end
