(* ===== verification/Evidence_Lifetime.thy ===== *)
theory Evidence_Lifetime imports Publication_Laws Probe_Service Cycle_Laws
begin

text \<open>
  The evidence store over the life of a probe: a cycle touches it only by operations that keep every file, and a
  sequence of cycles, however they fail, leaves what the earlier ones stored as it was.
\<close>

subsection \<open>What a cycle does to the store\<close>

text \<open>The store is handled with care and the report keeps the name of its cycle.\<close>

definition careful_cycle :: "cycle_state \<Rightarrow> cycle_state \<Rightarrow> bool" where
  "careful_cycle s s' \<longleftrightarrow> careful (cs_fs s) (cs_fs s')
     \<and> rep_cycle_id (cs_report s') = rep_cycle_id (cs_report s)"

interpretation carey: run_relation careful_cycle
  by unfold_locales (auto simp: careful_cycle_def care.refl intro: care.trans)

lemma careful_cycle_upd:
  "(\<And>rep. rep_cycle_id (f rep) = rep_cycle_id rep) \<Longrightarrow> preserves careful_cycle (upd f)"
  by (simp add: preserves_def upd_def careful_cycle_def care.refl)

lemma careful_cycle_primitives:
  "preserves careful_cycle (enter phase)" "preserves careful_cycle (count_metric e)"
  "preserves careful_cycle (count_metrics es)" "preserves careful_cycle (issuer_does call)"
  "preserves careful_cycle (arm_cleanup serial)" "preserves careful_cycle report_of"
  "preserves careful_cycle (must_return x)" "preserves careful_cycle (fail_cycle phase err)"
  by (simp_all add: preserves_def enter_def upd_def count_metric_def count_metrics_def issuer_does_def
      arm_cleanup_def report_of_def must_return_def fail_cycle_def careful_cycle_def care.refl split: option.split)

lemma careful_cycle_error: "preserves careful_cycle (error_cycle phase e)"
  unfolding error_cycle_def by (intro carey.keep_bind careful_cycle_primitives)

lemma careful_cycle_results:
  "preserves careful_cycle (or_error phase what res)" "preserves careful_cycle (unless_error phase what e)"
  by (cases res; simp add: or_error_def careful_cycle_error carey.keep_return)
    (cases e; simp add: unless_error_def careful_cycle_error carey.keep_return)

lemma careful_cycle_on_fs: "preserves careful m \<Longrightarrow> preserves careful_cycle (on_fs m)"
  by (auto simp: preserves_def on_fs_def careful_cycle_def split: prod.split) (metis snd_conv)

lemma careful_persist_all:
  assumes "\<And>r. preserves careful_snd (f r)"
  shows "careful s (snd (snd (persist_all f get put rs s)))"
proof (induction rs arbitrary: s)
  case (Cons r rs)
  obtain res ev s1 where f: "f r (get r, s) = (res, ev, s1)" by (metis prod_cases3)
  have "careful s s1" using preservesD[OF assms f] by (simp add: careful_snd_def)
  moreover have "careful s1 (snd (snd (persist_all f get put rs s1)))" by (rule Cons.IH)
  ultimately show ?case using f care.trans by (cases res) (auto split: prod.split)
qed (simp add: care.refl)

lemma careful_cycle_persists:
  "preserves careful_cycle (persist_preflight w r)" "preserves careful_cycle (persist_results w r)"
proof -
  have pre: "careful f (snd (snd (persist_preflight_evidence b64 h dir cid rs f)))" for b64 h dir cid rs f
    unfolding persist_preflight_evidence_def
    by (simp add: care.refl careful_persist_all careful_persist_command_evidence)
  have post: "careful f (snd (snd (persist_evidence b64 h dir cid rs f)))" for b64 h dir cid rs f
    unfolding persist_evidence_def
    by (simp add: care.refl careful_persist_all careful_persist_command_evidence)
  show "preserves careful_cycle (persist_preflight w r)"
    unfolding preserves_def persist_preflight_def careful_cycle_def
    by (auto split: prod.split) (metis pre snd_conv)
  show "preserves careful_cycle (persist_results w r)"
    unfolding preserves_def persist_results_def careful_cycle_def
    by (auto split: prod.split) (metis post snd_conv)
qed

lemmas careful_cycle_intros = careful_cycle_primitives careful_cycle_error careful_cycle_results careful_cycle_persists
  careful_cycle_on_fs[OF careful_persist_cycle_artifacts] carey.keep_intros

lemma careful_cycle_stages:
  "preserves careful_cycle (issue_stage w r)" "preserves careful_cycle (artifacts_stage w r m cert)"
  "preserves careful_cycle (staple_stage w r c m cert)" "preserves careful_cycle (serve_stage w r cert staple)"
  "preserves careful_cycle (revoke_stage w r cert)" "preserves careful_cycle (persist_stage w r m p)"
  "preserves careful_cycle (evaluate_stage c)" "preserves careful_cycle complete_stage"
  unfolding issue_stage_def artifacts_stage_def staple_stage_def serve_stage_def revoke_stage_def persist_stage_def
    evaluate_stage_def complete_stage_def check_harness_def check_finding_def fail_with_preflight_def
  by (intro careful_cycle_intros quiet_prod careful_cycle_upd; simp)+

lemma careful_cycle_canary: "preserves careful_cycle (canary_stage w r c m)"
  unfolding canary_stage_def by (intro careful_cycle_stages careful_cycle_intros careful_cycle_upd) simp

lemma careful_cycle_preflight: "preserves careful_cycle (preflight_stage w r c tgt)"
  unfolding preflight_stage_def fail_with_preflight_def
  by (intro careful_cycle_intros quiet_prod careful_cycle_upd; simp)

lemma careful_cycle_observe: "preserves careful_cycle (observe_stage w r c m canary observed acked)"
  unfolding observe_stage_def
  by (cases canary; cases acked) (simp only: case_prod_conv, intro careful_cycle_intros quiet_prod careful_cycle_upd;
      simp add: Let_def; intro careful_cycle_intros quiet_prod careful_cycle_upd; simp)

lemma careful_cycle_body: "preserves careful_cycle (op_bind (cycle_body w r c m) (\<lambda>_. complete_stage))"
  unfolding cycle_body_def before_revocation_def after_revocation_def
  by (intro carey.keep_bind quiet_prod careful_cycle_canary careful_cycle_preflight careful_cycle_observe
      careful_cycle_stages carey.keep_return)

lemma careful_run_once:
  assumes "run_once w r f = Some out"
  shows "careful f (co_fs out)" and "co_report out = Some rep \<Longrightarrow> rep_cycle_id rep = cw_uuid w"
    and "co_report out = None \<Longrightarrow> co_error out \<noteq> None"
proof -
  have "careful f (co_fs out) \<and> (co_report out = Some rep \<longrightarrow> rep_cycle_id rep = cw_uuid w)
    \<and> (co_report out = None \<longrightarrow> co_error out \<noteq> None)"
  proof (cases "cycle_prepare w r")
    case (Inl e)
    then show ?thesis using assms by (auto simp: run_once_def care.refl)
  next
    case (Inr p)
    obtain c m run digest where p: "p = (c, m, run, digest)" by (metis prod_cases4)
    let ?start = "cycle_start w r m run digest f"
    obtain res s where body: "op_bind (cycle_body w r c m) (\<lambda>_. complete_stage) ?start = (res, s)" by fastforce
    have "careful_cycle ?start s" using preservesD[OF careful_cycle_body body] .
    then have "careful f (cs_fs s)" "rep_cycle_id (cs_report s) = cw_uuid w"
      by (simp_all add: careful_cycle_def cycle_start_def initial_report_def)
    moreover have "cs_fs (deferred_cleanup w s) = cs_fs s"
      "rep_cycle_id (cs_report (deferred_cleanup w s)) = rep_cycle_id (cs_report s)"
      by (simp_all add: deferred_cleanup_def Let_def split: option.split)
    ultimately show ?thesis using assms body
      by (auto simp: run_once_def Inr p cycle_finish_def Let_def split: sum.splits stop.splits)
  qed
  then show "careful f (co_fs out)" "co_report out = Some rep \<Longrightarrow> rep_cycle_id rep = cw_uuid w"
    "co_report out = None \<Longrightarrow> co_error out \<noteq> None" by blast+
qed

subsection \<open>What a finalised cycle leaves\<close>

text \<open>Archiving creates a file that was not there.\<close>

lemma archive_is_new:
  assumes "plain_component cid" and "runs (archive_cycle_file dir cid ''report.json'' json) s u s'"
  shows "fs_nodes s (cycle_file cid ''report.json'') \<noteq> Some (FileNode c)"
proof
  assume old: "fs_nodes s (cycle_file cid ''report.json'') = Some (FileNode c)"
  have p: "join_paths [cid, ''report.json''] = cycle_file cid ''report.json''"
    "clean_evidence_relative_path (cycle_file cid ''report.json'') = Inr (cycle_file cid ''report.json'')"
    using cycle_path[OF assms(1) artifact_names(3)] by (simp_all add: cycle_file_def)
  from assms(2) obtain s1 s2 where open_root: "runs (open_evidence_root dir) s () s1"
    and dir: "runs (ensure_private_root_dir cid) s1 () s2"
    and new: "runs (write_new_private_root_file (cycle_file cid ''report.json'') json) s2 u s'"
    by (auto simp: archive_cycle_file_def artifact_names p write_atomic_private_root_file_def split: if_splits)
  have "careful s s2"
    using preserves_runs[OF careful_open_root open_root] preserves_runs[OF careful_ensure_private_root_dir dir]
    by (rule care.trans)
  then have "fs_nodes s2 (cycle_file cid ''report.json'') = Some (FileNode c)"
    using old by (simp add: careful_def keeps_files_def)
  then show False using write_new_stores[OF new] p(2) by fastforce
qed

lemma finalize_archives:
  assumes "finalize_cycle env dir (Some rep) err key out output delimit h = ([], h')"
    and "plain_component (rep_cycle_id rep)"
    and "random_hex (fe_report_temp env)" and "random_hex (fe_attestation_temp env)"
  obtains json where "fe_marshal_report env rep = Inr json" and "err = None"
    and "\<And>c. fs_nodes (ho_evidence h) (cycle_file (rep_cycle_id rep) ''report.json'') \<noteq> Some (FileNode c)"
    and "fs_nodes (ho_evidence h') (cycle_file (rep_cycle_id rep) ''report.json'') = Some (FileNode json)"
proof (cases "fe_marshal_report env rep")
  case (Inl e)
  with assms(1) show ?thesis by (simp add: finalize_cycle_def canonical_json_def)
next
  case (Inr json)
  let ?cid = "rep_cycle_id rep" and ?errs = "case err of None \<Rightarrow> [] | Some e \<Rightarrow> [e]"
  define eh1 where "eh1 = attempt ''archive cycle report: '' (on_evidence (archive_cycle_report dir ?cid json)) (?errs, h)"
  define eh2 where "eh2 = attempt ''update latest cycle report: ''
     (on_evidence (update_latest_cycle_report (fe_report_temp env) dir json)) eh1"
  define eh3 where "eh3 = attest_report env dir ?cid key out (fst eh1 = ?errs) json eh2"
  have final: "attempt ''write cycle report: '' (on_stdout (write_report (fe_format env) rep output json delimit)) eh3
      = ([], h')"
    using assms(1) Inr by (simp add: finalize_cycle_def canonical_json_def Let_def eh1_def eh2_def eh3_def)
  have "fst eh3 = []" using final unfolding attempt_ok by blast
  then have "fst eh2 = []"
    using attest_report_errs[of env dir ?cid key out "fst eh1 = ?errs" json eh2] unfolding eh3_def by auto
  then have one: "fst eh1 = []" unfolding eh2_def attempt_fst by (rule conjunct1)
  then have none: "?errs = []" "runs (on_evidence (archive_cycle_report dir ?cid json)) h () (snd eh1)"
    unfolding eh1_def attempt_fst fst_conv snd_conv by blast+
  obtain f where f: "runs (archive_cycle_file dir ?cid ''report.json'' json) (ho_evidence h) () f"
    and h1: "snd eh1 = h\<lparr>ho_evidence := f\<rparr>"
    using none(2) unfolding runs_host archive_cycle_report_def by (elim exE conjE) (rule that)
  have "on_store keeps_inside (snd eh1) (snd eh2)"
    unfolding eh2_def by (rule attempt_keeps[OF on_store_keeps(1)[OF keeps_inside_ops(2)[OF assms(3)]]])
  moreover have "on_store keeps_inside (snd eh2) (snd eh3)"
    unfolding eh3_def
    by (rule attest_report_keeps[OF on_store_relation[OF inside_files.run_relation_axioms]])
      (auto simp: archive_cycle_attestation_def intro!: on_store_keeps keeps_inside_ops inside_files.refl assms(4))
  moreover have "on_store keeps_inside (snd eh3) (snd ([] :: gostring list, h'))"
    unfolding final[symmetric] by (rule attempt_keeps[OF on_store_keeps(3)[OF inside_files.refl]])
  ultimately have "keeps_inside f (ho_evidence h')"
    unfolding on_store_def h1 by (auto intro: inside_files.trans)
  then have "fs_nodes (ho_evidence h') (cycle_file ?cid ''report.json'') = Some (FileNode json)"
    using archive_report_file(2)[OF assms(2) f] by (simp add: keeps_inside_def cycle_file_def)
  moreover have "err = None" using none(1) by (cases err) simp_all
  ultimately show ?thesis using that[OF Inr] archive_is_new[OF assms(2) f] by blast
qed

subsection \<open>Cycle after cycle\<close>

definition moment_names :: "cycle_world \<times> finish_env \<Rightarrow> bool" where
  "moment_names m \<longleftrightarrow> random_hex (fe_report_temp (snd m)) \<and> random_hex (fe_attestation_temp (snd m))
     \<and> plain_component (cw_uuid (fst m))"

lemma careful_inside: "careful s s' \<Longrightarrow> keeps_inside s s'"
  by (simp add: careful_def keeps_files_def keeps_inside_def)

lemma run_cycle_keeps:
  assumes "run_cycle w env r key opts h = Some (errs, h')" and "moment_names (w, env)"
  shows "on_store keeps_inside h h'"
    and "errs = [] \<Longrightarrow> (\<forall>c. fs_nodes (ho_evidence h) (cycle_file (cw_uuid w) ''report.json'') \<noteq> Some (FileNode c))
      \<and> (\<exists>rep json. fe_marshal_report env rep = Inr json \<and> rep_cycle_id rep = cw_uuid w
        \<and> fs_nodes (ho_evidence h') (cycle_file (cw_uuid w) ''report.json'') = Some (FileNode json))"
proof -
  obtain o1 where o1: "run_once w r (ho_evidence h) = Some o1"
    using assms(1) by (auto simp: run_cycle_def split: option.splits)
  let ?h1 = "h\<lparr>ho_evidence := co_fs o1\<rparr>"
  have fin: "finalize_cycle env (rn_evidence_dir r) (co_report o1) (co_error o1) key (ro_attestation_out opts)
      (ro_output opts) (\<not> ro_once opts) ?h1 = (errs, h')"
    using assms(1) by (simp add: run_cycle_def o1)
  have names: "random_hex (fe_report_temp env)" "random_hex (fe_attestation_temp env)" "plain_component (cw_uuid w)"
    using assms(2) by (simp_all add: moment_names_def)
  have first: "keeps_inside (ho_evidence h) (co_fs o1)" by (rule careful_inside[OF careful_run_once(1)[OF o1]])
  have "on_store keeps_inside ?h1 (snd (errs, h'))"
    unfolding fin[symmetric] by (rule finalize_keeps_inside[OF names(1,2)])
  then have "keeps_inside (co_fs o1) (ho_evidence h')" by (simp add: on_store_def)
  then show "on_store keeps_inside h h'" unfolding on_store_def by (rule inside_files.trans[OF first])
  show "(\<forall>c. fs_nodes (ho_evidence h) (cycle_file (cw_uuid w) ''report.json'') \<noteq> Some (FileNode c))
      \<and> (\<exists>rep json. fe_marshal_report env rep = Inr json \<and> rep_cycle_id rep = cw_uuid w
        \<and> fs_nodes (ho_evidence h') (cycle_file (cw_uuid w) ''report.json'') = Some (FileNode json))" if "errs = []"
  proof (cases "co_report o1")
    case None
    with careful_run_once(3)[OF o1] fin that show ?thesis by (auto simp: finalize_cycle_def)
  next
    case (Some rep)
    note done' = fin[unfolded Some that]
    have cid: "rep_cycle_id rep = cw_uuid w" by (rule careful_run_once(2)[OF o1 Some])
    have plain: "plain_component (rep_cycle_id rep)" using names(3) cid by simp
    obtain json where json: "fe_marshal_report env rep = Inr json"
      "\<And>c. fs_nodes (co_fs o1) (cycle_file (cw_uuid w) ''report.json'') \<noteq> Some (FileNode c)"
      "fs_nodes (ho_evidence h') (cycle_file (cw_uuid w) ''report.json'') = Some (FileNode json)"
      by (rule finalize_archives[OF done' plain names(1,2)]) (simp add: cid)
    have "fs_nodes (ho_evidence h) (cycle_file (cw_uuid w) ''report.json'') \<noteq> Some (FileNode c)" for c
    proof
      assume "fs_nodes (ho_evidence h) (cycle_file (cw_uuid w) ''report.json'') = Some (FileNode c)"
      then have "fs_nodes (co_fs o1) (cycle_file (cw_uuid w) ''report.json'') = Some (FileNode c)"
        using first by (simp add: keeps_inside_def cycle_file_def)
      with json(2) show False by blast
    qed
    with json(1,3) cid show ?thesis by blast
  qed
qed

lemma run_cycles_log: "run_cycles r key opts moments (log, h) = Some (log', h') \<Longrightarrow> \<exists>more. log' = log @ more"
proof (induction moments arbitrary: log h)
  case (Cons m moments)
  obtain w env where m: "m = (w, env)" by (cases m)
  then obtain errs h1 where "run_cycle w env r key opts h = Some (errs, h1)"
    using Cons.prems by (auto split: option.splits)
  with Cons.prems m Cons.IH show ?case by (fastforce split: if_splits)
qed simp

lemma run_cycles_keep:
  assumes "run_cycles r key opts moments (log, h) = Some (log', h')" and "\<forall>m \<in> set moments. moment_names m"
  shows "keeps_inside (ho_evidence h) (ho_evidence h')
    \<and> (log' = log \<longrightarrow> distinct (map (\<lambda>m. cw_uuid (fst m)) moments)
      \<and> (\<forall>(w, env) \<in> set moments. (\<forall>c. fs_nodes (ho_evidence h) (cycle_file (cw_uuid w) ''report.json'') \<noteq> Some (FileNode c))
        \<and> (\<exists>rep json. fe_marshal_report env rep = Inr json \<and> rep_cycle_id rep = cw_uuid w
          \<and> fs_nodes (ho_evidence h') (cycle_file (cw_uuid w) ''report.json'') = Some (FileNode json))))"
  using assms
proof (induction moments arbitrary: log h)
  case (Cons m moments)
  obtain w env where m: "m = (w, env)" by (cases m)
  obtain errs h1 where one: "run_cycle w env r key opts h = Some (errs, h1)"
    using Cons.prems(1) m by (auto split: option.splits)
  let ?log1 = "if errs = [] then log else log @ [''probe run: cycle error: '' @ joined_errors errs]"
  have rest: "run_cycles r key opts moments (?log1, h1) = Some (log', h')" using Cons.prems(1) one m by simp
  have names: "moment_names (w, env)" "\<forall>m \<in> set moments. moment_names m" using Cons.prems(2) m by simp_all
  note IH = Cons.IH[OF rest names(2)]
  have h1: "keeps_inside (ho_evidence h) (ho_evidence h1)"
    using run_cycle_keeps(1)[OF one names(1)] by (simp add: on_store_def)
  have h': "keeps_inside (ho_evidence h) (ho_evidence h')" using h1 IH inside_files.trans by blast
  show ?case
  proof (intro conjI impI h')
    assume quiet: "log' = log"
    obtain more where "log' = ?log1 @ more" using run_cycles_log[OF rest] by blast
    with quiet have errs: "errs = []" and same: "log' = ?log1" by (auto split: if_splits)
    note tail = IH[THEN conjunct2, rule_format, OF same]
    note head = run_cycle_keeps(2)[OF one names(1) errs]
    obtain rep json where head_json: "fe_marshal_report env rep = Inr json" "rep_cycle_id rep = cw_uuid w"
      "fs_nodes (ho_evidence h1) (cycle_file (cw_uuid w) ''report.json'') = Some (FileNode json)"
      using head by blast
    have kept: "fs_nodes (ho_evidence h1) (cycle_file cid ''report.json'') = Some (FileNode c)"
      if "fs_nodes (ho_evidence h) (cycle_file cid ''report.json'') = Some (FileNode c)" for cid c
      using h1 that by (simp add: keeps_inside_def cycle_file_def)
    have "fs_nodes (ho_evidence h') (cycle_file (cw_uuid w) ''report.json'') = Some (FileNode json)"
      using IH head_json(3) by (simp add: keeps_inside_def cycle_file_def)
    moreover have "cw_uuid w \<noteq> cw_uuid (fst m')" if "m' \<in> set moments" for m'
      using tail that head_json(3) by (cases m') fastforce
    ultimately show "distinct (map (\<lambda>m. cw_uuid (fst m)) (m # moments))"
      and "\<forall>(w, env) \<in> set (m # moments).
        (\<forall>c. fs_nodes (ho_evidence h) (cycle_file (cw_uuid w) ''report.json'') \<noteq> Some (FileNode c))
        \<and> (\<exists>rep json. fe_marshal_report env rep = Inr json \<and> rep_cycle_id rep = cw_uuid w
          \<and> fs_nodes (ho_evidence h') (cycle_file (cw_uuid w) ''report.json'') = Some (FileNode json))"
      using tail head head_json(1,2) kept m by fastforce+
  qed
qed (simp add: inside_files.refl)

text \<open>C23: Evidence outlives the probe's cycles: in the continuous mode, whatever the cycles do and however they and
  the sinks fail, no file in a directory of the evidence store is ever changed or removed; and if no cycle
  logged an error, every cycle has a report of its own in the archive, none of which was there before.\<close>

theorem evidence_outlives_cycles:
  assumes "run_cycles r key opts moments (log, h) = Some (log', h')" and "\<forall>m \<in> set moments. moment_names m"
  shows "(\<forall>p c. slash \<in> set p \<longrightarrow> fs_nodes (ho_evidence h) p = Some (FileNode c)
        \<longrightarrow> fs_nodes (ho_evidence h') p = Some (FileNode c))
    \<and> (log' = log \<longrightarrow> distinct (map (\<lambda>m. cw_uuid (fst m)) moments)
      \<and> (\<forall>(w, env) \<in> set moments. (\<forall>c. fs_nodes (ho_evidence h) (cycle_file (cw_uuid w) ''report.json'') \<noteq> Some (FileNode c))
        \<and> (\<exists>rep json. fe_marshal_report env rep = Inr json \<and> rep_cycle_id rep = cw_uuid w
          \<and> fs_nodes (ho_evidence h') (cycle_file (cw_uuid w) ''report.json'') = Some (FileNode json))))"
  using run_cycles_keep[OF assms] unfolding keeps_inside_def .

subsection \<open>A concrete run\<close>

definition used_host :: host where
  "used_host = empty_host\<lparr>ho_evidence := empty_directory\<lparr>fs_nodes := [''old'' \<mapsto> DirNode private_dir,
     ''old/report.json'' \<mapsto> FileNode ''R'']\<rparr>\<rparr>"

definition sample_options :: run_options where
  "sample_options = default_run_options (\<lambda>_. [])"

lemma run_cycles_return:
  assumes "\<forall>(w, env) \<in> set moments. \<forall>c. rn_config r = Some c \<longrightarrow> 0 < max_attempts c
    \<and> (\<exists>n. time_add (sscript_start (cw_staple_script w)) (max_wait c) \<le> ss_head (sscript_step (cw_staple_script w) n))"
  shows "\<exists>log' h'. run_cycles r key opts moments (log, h) = Some (log', h')"
  using assms
proof (induction moments arbitrary: log h)
  case (Cons m moments)
  obtain w env where m: "m = (w, env)" by (cases m)
  have "\<exists>out. run_once w r (ho_evidence h) = Some out"
  proof (cases "rn_config r")
    case None
    then show ?thesis by (simp add: run_once_def cycle_prepare_def)
  next
    case (Some c)
    with Cons.prems m obtain n where "0 < max_attempts c"
      "time_add (sscript_start (cw_staple_script w)) (max_wait c) \<le> ss_head (sscript_step (cw_staple_script w) n)" by auto
    with Some show ?thesis by (intro cycle_returns[of r w n]) simp
  qed
  then obtain out where "run_once w r (ho_evidence h) = Some out" by blast
  then obtain errs h1 where "run_cycle w env r key opts h = Some (errs, h1)"
    by (cases "finalize_cycle env (rn_evidence_dir r) (co_report out) (co_error out) key (ro_attestation_out opts)
        (ro_output opts) (\<not> ro_once opts) (h\<lparr>ho_evidence := co_fs out\<rparr>)") (simp add: run_cycle_def)
  with Cons.IH Cons.prems m show ?case by simp
qed simp

theorem evidence_outlives_cycles_witness:
  "\<exists>log' h'. run_cycles tiny_runner ''K'' sample_options [(sample_world, sample_finish), (sample_world, sample_finish)]
      ([], used_host) = Some (log', h')
    \<and> fs_nodes (ho_evidence h') ''old/report.json'' = Some (FileNode ''R'') \<and> log' \<noteq> []"
proof -
  let ?moments = "[(sample_world, sample_finish), (sample_world, sample_finish)]"
  obtain log' h' where run: "run_cycles tiny_runner ''K'' sample_options ?moments ([], used_host) = Some (log', h')"
    using run_cycles_return[of ?moments tiny_runner] tiny_bounds by fastforce
  have "\<forall>m \<in> set ?moments. moment_names m"
    using sample_finish_sinks sample_publication_names by (simp add: moment_names_def sample_world_def)
  note kept = evidence_outlives_cycles[OF run this]
  have "fs_nodes (ho_evidence used_host) ''old/report.json'' = Some (FileNode ''R'')"
    by (simp add: used_host_def)
  then have "fs_nodes (ho_evidence h') ''old/report.json'' = Some (FileNode ''R'')" using kept by simp
  moreover have "log' \<noteq> []" using kept by simp
  ultimately show ?thesis using run by blast
qed

end
