(* ===== verification/Probe_Run.thy ===== *)
theory Probe_Run imports Evidence_Lifetime
begin

text \<open>
  \<open>probe run\<close> from its options to its last cycle: the start, then one cycle (\<open>--once\<close>) or a cycle at once and one
  at each tick.  The first cycle and the ticks so far come with their worlds.
\<close>

datatype run_end = NotStarted startup_error | OneCycle command_end | Cycling "gostring list"

definition cmd_run :: "startup_env \<Rightarrow> run_options \<Rightarrow> cycle_world \<times> finish_env \<Rightarrow> (cycle_world \<times> finish_env) list \<Rightarrow> host
    \<Rightarrow> (run_end \<times> host) option" where
  "cmd_run env opts first ticks h =
     (case start_run env opts of
        Inl e \<Rightarrow> Some (NotStarted e, h)
      | Inr (key, r) \<Rightarrow>
        if ro_once opts
        then map_option (\<lambda>(ending, h'). (OneCycle ending, h')) (run_single (fst first) (snd first) r key opts h)
        else map_option (\<lambda>(log, h'). (Cycling log, h')) (run_cycles r key opts (first # ticks) ([], h)))"

text \<open>The clock of a cycle passes every instant.\<close>

definition clock_advances :: "cycle_world \<Rightarrow> bool" where
  "clock_advances w \<longleftrightarrow> (\<forall>t. \<exists>n. t \<le> ss_head (sscript_step (cw_staple_script w) n))"

lemma run_cycle_of_moment:
  "run_cycle w env r key opts h = Some (errs, h') \<Longrightarrow>
     run_cycles r key opts [(w, env)] ([], h)
       = Some (if errs = [] then [] else [''probe run: cycle error: '' @ joined_errors errs], h')"
  by simp

lemma started_attempts:
  assumes "start_run env opts = Inr (key, r)" and "rn_config r = Some c"
  shows "0 < max_attempts c"
proof -
  obtain c' reg m urls placed where parts: "load_run_config env (ro_config opts) = Inr c'"
    "r = run_runner (su_getenv env) c' reg m urls placed"
    by (rule start_run_parts[OF assms(1)])
  then have "c = c'" using assms(2) by (simp add: run_runner_def Let_def)
  moreover have "wf_config c'" using parts(1)
    by (auto simp: load_run_config_def load_config_wf validate_enabled_config_def split: if_splits)
  ultimately show ?thesis by (simp add: wf_config_def)
qed

lemma started_cycles_return:
  assumes "start_run env opts = Inr (key, r)" and "\<forall>m \<in> set moments. clock_advances (fst m)"
  shows "\<exists>log' h'. run_cycles r key opts moments (log, h) = Some (log', h')"
proof (rule run_cycles_return)
  show "\<forall>(w, fin) \<in> set moments. \<forall>c. rn_config r = Some c \<longrightarrow> 0 < max_attempts c
      \<and> (\<exists>n. time_add (sscript_start (cw_staple_script w)) (max_wait c) \<le> ss_head (sscript_step (cw_staple_script w) n))"
    using started_attempts[OF assms(1)] assms(2) by (fastforce simp: clock_advances_def)
qed

text \<open>C24: \<open>probe run\<close> never hangs: whatever options, files, configuration and worlds it is given, as long as the
  clock of every cycle advances it is refused, or ends after its one cycle, or has finished the cycle of
  every tick; and in each case no file in a directory of the evidence store has changed.\<close>

theorem probe_run_returns:
  assumes "\<forall>m \<in> set (first # ticks). clock_advances (fst m) \<and> moment_names m"
  shows "\<exists>ending h'. cmd_run env opts first ticks h = Some (ending, h')
    \<and> (\<forall>p c. slash \<in> set p \<longrightarrow> fs_nodes (ho_evidence h) p = Some (FileNode c)
        \<longrightarrow> fs_nodes (ho_evidence h') p = Some (FileNode c))"
proof (cases "start_run env opts")
  case (Inl e)
  then show ?thesis by (simp add: cmd_run_def)
next
  case (Inr started)
  obtain key r where started: "started = (key, r)" by (cases started)
  let ?moments = "if ro_once opts then [first] else first # ticks"
  obtain log' h' where run: "run_cycles r key opts ?moments ([], h) = Some (log', h')"
    using started_cycles_return[of env opts key r ?moments] Inr started assms by fastforce
  have "\<forall>m \<in> set ?moments. moment_names m" using assms by simp
  note kept = run_cycles_keep[OF run this, THEN conjunct1, unfolded keeps_inside_def]
  show ?thesis
  proof (cases "ro_once opts")
    case True
    obtain w fin where first: "first = (w, fin)" by (cases first)
    obtain errs where "run_cycle w fin r key opts h = Some (errs, h')"
      using run True first by (auto split: option.splits)
    then show ?thesis using kept Inr started True first by (simp add: cmd_run_def run_single_def)
  next
    case False
    then show ?thesis using kept Inr started run by (simp add: cmd_run_def)
  qed
qed

subsection \<open>A concrete run\<close>

definition ticking_world :: cycle_world where
  "ticking_world = sample_world\<lparr>cw_staple_script := (cw_staple_script sample_world)\<lparr>
     sscript_step := \<lambda>n. (sscript_step (cw_staple_script sample_world) n)\<lparr>ss_head := Instant (int n)\<rparr>\<rparr>\<rparr>"

lemma ticking: "clock_advances ticking_world"
  unfolding clock_advances_def
proof
  fix t :: gotime
  have "t \<le> Instant (int (nat (ns t)))" by (cases t) simp
  then show "\<exists>n. t \<le> ss_head (sscript_step (cw_staple_script ticking_world) n)"
    by (intro exI[of _ "nat (ns t)"]) (simp add: ticking_world_def)
qed

theorem probe_run_returns_witness:
  "\<exists>ending h'. cmd_run sample_startup (default_run_options (\<lambda>_. [])) (ticking_world, sample_finish)
      [(ticking_world, sample_finish)] used_host = Some (ending, h')
    \<and> fs_nodes (ho_evidence h') ''old/report.json'' = Some (FileNode ''R'')"
proof -
  let ?first = "(ticking_world, sample_finish)"
  have "moment_names ?first"
    using sample_finish_sinks sample_publication_names by (simp add: moment_names_def ticking_world_def sample_world_def)
  then have moments: "\<forall>m \<in> set (?first # [?first]). clock_advances (fst m) \<and> moment_names m"
    using ticking by simp
  have old: "fs_nodes (ho_evidence used_host) ''old/report.json'' = Some (FileNode ''R'')" by (simp add: used_host_def)
  from probe_run_returns[OF moments, of sample_startup "default_run_options (\<lambda>_. [])" used_host]
  obtain ending h' where run: "cmd_run sample_startup (default_run_options (\<lambda>_. [])) ?first [?first] used_host = Some (ending, h')"
    and kept: "\<forall>p c. slash \<in> set p \<longrightarrow> fs_nodes (ho_evidence used_host) p = Some (FileNode c)
      \<longrightarrow> fs_nodes (ho_evidence h') p = Some (FileNode c)" by (elim exE conjE) (rule that)
  have "fs_nodes (ho_evidence h') ''old/report.json'' = Some (FileNode ''R'')"
    using kept[rule_format, OF _ old] by simp
  with run show ?thesis by (intro exI conjI)
qed

end
