(* ===== verification/Canary_Life.thy ===== *)
theory Canary_Life imports Staple
begin

text \<open>
  The life of a canary server (\<open>internal/canary/server.go\<close>): the accept loop, the goroutine of each connection,
  and \<open>Close\<close>, as a transition system whose steps are the observable actions of the code in any interleaving.
  Connections are numbered; the wait group of the handlers is the set of those that have not called
  \<open>Done\<close>.  The deadline of a connection makes every handler's I/O end; how long it takes is left open.
\<close>

subsection \<open>The transition system\<close>

datatype accept_pc = Accepting | Registering nat | AcceptEnded

datatype close_pc = NotClosing | AwaitAcceptLoop | ClosingConnections "nat set" | AwaitHandlers | CloseReturned

record canary_life =
  cv_listening :: bool
  cv_accept :: accept_pc
  cv_seen :: "nat set"
  cv_open :: "nat set"
  cv_conns :: "nat set"
  cv_handlers :: "nat set"
  cv_close :: close_pc
  cv_close_error :: "gostring option"

definition canary_started :: canary_life where
  "canary_started = \<lparr>cv_listening = True, cv_accept = Accepting, cv_seen = {}, cv_open = {}, cv_conns = {},
     cv_handlers = {}, cv_close = NotClosing, cv_close_error = None\<rparr>"

text \<open>Any error of \<open>Accept\<close> ends the loop; a closed listener accepts nothing.  A handler's deferred calls first
  take its connection out of the set, then close it, then it is done.  \<open>Close\<close> closes the listener, waits for the
  loop, closes the connections it then finds and waits for the handlers; only its first call does, and the
  others return the error of the first.\<close>

inductive canary_step :: "canary_life \<Rightarrow> canary_life \<Rightarrow> bool" where
  accept: "cv_accept s = Accepting \<Longrightarrow> cv_listening s \<Longrightarrow> c \<notin> cv_seen s \<Longrightarrow>
    canary_step s (s\<lparr>cv_accept := Registering c, cv_seen := insert c (cv_seen s), cv_open := insert c (cv_open s)\<rparr>)"
| accept_fails: "cv_accept s = Accepting \<Longrightarrow> canary_step s (s\<lparr>cv_accept := AcceptEnded\<rparr>)"
| register: "cv_accept s = Registering c \<Longrightarrow>
    canary_step s (s\<lparr>cv_accept := Accepting, cv_conns := insert c (cv_conns s), cv_handlers := insert c (cv_handlers s)\<rparr>)"
| handler_leaves: "c \<in> cv_handlers s \<Longrightarrow> c \<in> cv_conns s \<Longrightarrow>
    canary_step s (s\<lparr>cv_conns := cv_conns s - {c}\<rparr>)"
| handler_closes: "c \<in> cv_handlers s \<Longrightarrow> c \<notin> cv_conns s \<Longrightarrow> c \<in> cv_open s \<Longrightarrow>
    canary_step s (s\<lparr>cv_open := cv_open s - {c}\<rparr>)"
| handler_done: "c \<in> cv_handlers s \<Longrightarrow> c \<notin> cv_conns s \<Longrightarrow> c \<notin> cv_open s \<Longrightarrow>
    canary_step s (s\<lparr>cv_handlers := cv_handlers s - {c}\<rparr>)"
| close_listener: "cv_close s = NotClosing \<Longrightarrow>
    canary_step s (s\<lparr>cv_listening := False, cv_close := AwaitAcceptLoop, cv_close_error := e\<rparr>)"
| close_snapshot: "cv_close s = AwaitAcceptLoop \<Longrightarrow> cv_accept s = AcceptEnded \<Longrightarrow>
    canary_step s (s\<lparr>cv_close := ClosingConnections (cv_conns s)\<rparr>)"
| close_connection: "cv_close s = ClosingConnections S \<Longrightarrow> c \<in> S \<Longrightarrow>
    canary_step s (s\<lparr>cv_close := ClosingConnections (S - {c}), cv_open := cv_open s - {c}\<rparr>)"
| close_wait: "cv_close s = ClosingConnections {} \<Longrightarrow> canary_step s (s\<lparr>cv_close := AwaitHandlers\<rparr>)"
| close_returns: "cv_close s = AwaitHandlers \<Longrightarrow> cv_handlers s = {} \<Longrightarrow> canary_step s (s\<lparr>cv_close := CloseReturned\<rparr>)"

inductive canary_reaches :: "canary_life \<Rightarrow> canary_life \<Rightarrow> bool" for s where
  here: "canary_reaches s s"
| further: "canary_reaches s t \<Longrightarrow> canary_step t u \<Longrightarrow> canary_reaches s u"

definition canary_close_value :: "canary_life \<Rightarrow> gostring option option" where
  "canary_close_value s = (if cv_close s = CloseReturned then Some (cv_close_error s) else None)"

subsection \<open>The invariant\<close>

definition registering :: "canary_life \<Rightarrow> nat set" where
  "registering s = (case cv_accept s of Registering c \<Rightarrow> {c} | _ \<Rightarrow> {})"

definition past_accept_loop :: "close_pc \<Rightarrow> bool" where
  "past_accept_loop pc \<longleftrightarrow> pc \<noteq> NotClosing \<and> pc \<noteq> AwaitAcceptLoop"

definition canary_inv :: "canary_life \<Rightarrow> bool" where
  "canary_inv s \<longleftrightarrow> finite (cv_seen s) \<and> cv_open s \<subseteq> cv_handlers s \<union> registering s \<and> cv_conns s \<subseteq> cv_handlers s
     \<and> cv_handlers s \<union> registering s \<subseteq> cv_seen s \<and> registering s \<inter> cv_handlers s = {}
     \<and> (cv_close s \<noteq> NotClosing \<longrightarrow> \<not> cv_listening s)
     \<and> (past_accept_loop (cv_close s) \<longrightarrow> cv_accept s = AcceptEnded)
     \<and> (case cv_close s of ClosingConnections S \<Rightarrow> finite S | CloseReturned \<Rightarrow> cv_handlers s = {} | _ \<Rightarrow> True)"

lemma canary_inv_start: "canary_inv canary_started"
  by (simp add: canary_inv_def canary_started_def registering_def past_accept_loop_def)

lemma canary_inv_step: "canary_step s t \<Longrightarrow> canary_inv s \<Longrightarrow> canary_inv t"
proof (induction rule: canary_step.induct)
  case (close_snapshot s)
  then show ?case by (auto simp: canary_inv_def registering_def past_accept_loop_def intro: finite_subset)
qed (auto simp: canary_inv_def registering_def past_accept_loop_def split: close_pc.splits)

lemma canary_inv_reach: "canary_reaches s t \<Longrightarrow> canary_inv s \<Longrightarrow> canary_inv t"
  by (induction rule: canary_reaches.induct) (auto dest: canary_inv_step)

lemma canary_reaches_trans: "canary_reaches t u \<Longrightarrow> canary_reaches s t \<Longrightarrow> canary_reaches s u"
  by (induction rule: canary_reaches.induct) (auto intro: canary_reaches.further)

text \<open>C29: When \<open>Close\<close> has returned, however accepting, serving and closing interleaved, the listener is closed,
  the accept loop has ended, no connection is open and no handler runs, and none of this changes again.\<close>

theorem close_leaves_nothing:
  assumes "canary_reaches canary_started s" and "cv_close s = CloseReturned"
  shows "\<not> cv_listening s \<and> cv_accept s = AcceptEnded \<and> cv_open s = {} \<and> cv_conns s = {} \<and> cv_handlers s = {}
    \<and> (\<forall>t. \<not> canary_step s t)"
proof -
  have inv: "canary_inv s" by (rule canary_inv_reach[OF assms(1) canary_inv_start])
  then have quiet: "\<not> cv_listening s" "cv_accept s = AcceptEnded" "cv_open s = {}" "cv_conns s = {}" "cv_handlers s = {}"
    using assms(2) by (auto simp: canary_inv_def past_accept_loop_def registering_def)
  moreover have "\<not> canary_step s t" for t
    using quiet assms(2) by (auto elim: canary_step.cases)
  ultimately show ?thesis by blast
qed

subsection \<open>Closing ends\<close>

text \<open>What is left to do once \<open>Close\<close> was called: the accept loop, three actions for each handler, and the
  phases of \<open>Close\<close>, which before its snapshot may still have every registered connection to close.\<close>

definition accept_work :: "accept_pc \<Rightarrow> nat" where
  "accept_work pc = (case pc of Accepting \<Rightarrow> 1 | Registering _ \<Rightarrow> 5 | AcceptEnded \<Rightarrow> 0)"

definition phase_work :: "canary_life \<Rightarrow> nat" where
  "phase_work s = (case cv_close s of NotClosing \<Rightarrow> 0 | AwaitAcceptLoop \<Rightarrow> 3 + card (cv_conns s)
     | ClosingConnections S \<Rightarrow> 2 + card S | AwaitHandlers \<Rightarrow> 1 | CloseReturned \<Rightarrow> 0)"

definition close_work :: "canary_life \<Rightarrow> nat" where
  "close_work s = accept_work (cv_accept s) + card (cv_conns s) + card (cv_open s) + card (cv_handlers s) + phase_work s"

lemma canary_finite:
  assumes "canary_inv s"
  shows "finite (cv_handlers s)" "finite (cv_conns s)" "finite (cv_open s)"
proof -
  show h: "finite (cv_handlers s)" using assms by (auto simp: canary_inv_def intro: finite_subset)
  then show "finite (cv_conns s)" using assms by (auto simp: canary_inv_def intro: finite_subset)
  have "finite (registering s)" by (simp add: registering_def split: accept_pc.split)
  with h show "finite (cv_open s)" using assms
    by (auto simp: canary_inv_def intro: finite_subset[of _ "cv_handlers s \<union> registering s"])
qed

lemma fewer: "finite A \<Longrightarrow> c \<in> A \<Longrightarrow> card (A - {c}) < card A"
  by (rule card_Diff1_less)

lemma closing_can_step:
  assumes "canary_inv s" and "cv_close s \<noteq> NotClosing" and "cv_close s \<noteq> CloseReturned"
  shows "\<exists>t. canary_step s t"
proof -
  consider "cv_accept s = Accepting" | c where "cv_accept s = Registering c"
    | c where "c \<in> cv_handlers s" | "cv_accept s = AcceptEnded" "cv_handlers s = {}"
    by (cases "cv_accept s") blast+
  then show ?thesis
  proof cases
    case (3 c)
    then show ?thesis by (cases "c \<in> cv_conns s"; cases "c \<in> cv_open s") (blast intro: canary_step.intros)+
  next
    case 4
    show ?thesis
    proof (cases "cv_close s")
      case (ClosingConnections S)
      then show ?thesis by (cases "S = {}") (blast intro: canary_step.intros)+
    qed (use 4 assms(2,3) in \<open>blast intro: canary_step.intros\<close>)+
  qed (blast intro: canary_step.intros)+
qed

text \<open>Every step is a step towards the return: a closed listener brings no new work.\<close>

lemma closing_step_decreases:
  assumes "canary_step s t" and "canary_inv s" and "cv_close s \<noteq> NotClosing"
  shows "close_work t < close_work s" and "cv_close t \<noteq> NotClosing"
proof -
  note fin = canary_finite[OF assms(2)]
  note defs = close_work_def phase_work_def
  show "close_work t < close_work s"
    using assms(1)
  proof cases
    case (accept c)
    with assms(2,3) show ?thesis by (simp add: canary_inv_def)
  next
    case (register c)
    then have "c \<notin> cv_handlers s" "c \<notin> cv_conns s" using assms(2) by (auto simp: canary_inv_def registering_def)
    with register fin show ?thesis by (simp add: defs accept_work_def split: close_pc.split)
  next
    case (handler_leaves c)
    with fewer[OF fin(2), of c] show ?thesis by (simp add: defs split: close_pc.split)
  next
    case (handler_closes c)
    with fewer[OF fin(3), of c] show ?thesis by (simp add: defs split: close_pc.split)
  next
    case (handler_done c)
    with fewer[OF fin(1), of c] show ?thesis by (simp add: defs split: close_pc.split)
  next
    case (close_connection S c)
    then have "finite S" using assms(2) by (simp add: canary_inv_def)
    from fewer[OF this close_connection(3)] card_Diff1_le[of "cv_open s" c] close_connection show ?thesis
      by (simp add: defs)
  qed (use assms(3) in \<open>simp_all add: defs accept_work_def split: close_pc.split\<close>)
  show "cv_close t \<noteq> NotClosing" using assms(1,3) by cases simp_all
qed

lemma closing_reaches:
  assumes "canary_inv s" and "cv_close s \<noteq> NotClosing"
  shows "\<exists>t. canary_reaches s t \<and> cv_close t = CloseReturned"
  using assms
proof (induction "close_work s" arbitrary: s rule: less_induct)
  case less
  show ?case
  proof (cases "cv_close s = CloseReturned")
    case True
    then show ?thesis by (intro exI[of _ s]) (simp add: canary_reaches.here)
  next
    case False
    from closing_can_step[OF less.prems False] obtain t where step: "canary_step s t" by blast
    note t = step closing_step_decreases[OF step less.prems]
    from less.hyps[OF t(2) canary_inv_step[OF t(1) less.prems(1)] t(3)] obtain u where
      "canary_reaches t u" "cv_close u = CloseReturned" by blast
    moreover have "canary_reaches s t" using canary_reaches.further[OF canary_reaches.here t(1)] .
    ultimately show ?thesis using canary_reaches_trans by blast
  qed
qed

text \<open>C30: \<open>Close\<close> always completes: once it has been called, whatever connections are being accepted or served,
  its return can be reached, some step can always be taken before it, and every step of any goroutine brings
  it nearer, so that no interleaving runs for ever.\<close>

theorem close_completes:
  assumes "canary_reaches canary_started s" and "cv_close s \<noteq> NotClosing"
  shows "(\<exists>t. canary_reaches s t \<and> cv_close t = CloseReturned)
    \<and> (cv_close s = CloseReturned \<or> (\<exists>t. canary_step s t))
    \<and> (\<forall>t. canary_step s t \<longrightarrow> close_work t < close_work s \<and> cv_close t \<noteq> NotClosing)"
  using closing_reaches closing_can_step closing_step_decreases canary_inv_reach[OF assms(1) canary_inv_start] assms(2)
  by blast

subsection \<open>Waiting for the server\<close>

text \<open>\<open>WaitReachable\<close>: \<open>gone n\<close> is the context's error at the \<open>n\<close>th try, \<open>dials n\<close> whether that try connects;
  \<open>None\<close> waits forever.\<close>

partial_function (option) wait_reachable :: "(nat \<Rightarrow> gostring option) \<Rightarrow> (nat \<Rightarrow> bool) \<Rightarrow> nat \<Rightarrow> gostring option option" where
  "wait_reachable gone dials n = (case gone n of Some e \<Rightarrow> Some (Some e)
     | None \<Rightarrow> if dials n then Some None else wait_reachable gone dials (Suc n))"

lemma wait_reachable_ends:
  assumes "gone m \<noteq> None \<or> dials m" and "n \<le> m"
  shows "\<exists>k. n \<le> k \<and> k \<le> m \<and> (\<forall>i. n \<le> i \<and> i < k \<longrightarrow> gone i = None \<and> \<not> dials i)
    \<and> (gone k \<noteq> None \<or> dials k) \<and> wait_reachable gone dials n = Some (gone k)"
  using assms(2)
proof (induction "m - n" arbitrary: n)
  case 0
  then have "n = m" by simp
  then show ?case using assms(1)
    by (intro exI[of _ n]) (subst wait_reachable.simps, auto split: option.split)
next
  case (Suc d)
  show ?case
  proof (cases "gone n \<noteq> None \<or> dials n")
    case True
    then show ?thesis using Suc.prems
      by (intro exI[of _ n]) (subst wait_reachable.simps, auto split: option.split)
  next
    case False
    have "d = m - Suc n" "Suc n \<le> m" using Suc.hyps(2) by simp_all
    from Suc.hyps(1)[OF this] obtain k where k: "Suc n \<le> k" "k \<le> m"
      "\<forall>i. Suc n \<le> i \<and> i < k \<longrightarrow> gone i = None \<and> \<not> dials i" "gone k \<noteq> None \<or> dials k"
      "wait_reachable gone dials (Suc n) = Some (gone k)" by blast
    have "\<forall>i. n \<le> i \<and> i < k \<longrightarrow> gone i = None \<and> \<not> dials i"
      using k(3) False by (metis Suc_leI le_neq_implies_less)
    moreover have "wait_reachable gone dials n = Some (gone k)"
      using False k(5) by (subst wait_reachable.simps) simp
    ultimately show ?thesis using k(1,2,4) by (intro exI[of _ k]) simp
  qed
qed

subsection \<open>A server that is closed while it accepts\<close>

lemma sample_canary_run:
  defines "s1 \<equiv> canary_started\<lparr>cv_accept := Registering 0, cv_seen := {0}, cv_open := {0}\<rparr>"
  shows "canary_reaches canary_started (s1\<lparr>cv_listening := False, cv_close := AwaitAcceptLoop, cv_close_error := None\<rparr>)"
proof -
  have "canary_step canary_started s1"
    using canary_step.accept[of canary_started 0] by (simp add: canary_started_def s1_def)
  moreover have "canary_step s1 (s1\<lparr>cv_listening := False, cv_close := AwaitAcceptLoop, cv_close_error := None\<rparr>)"
    by (rule canary_step.close_listener) (simp add: s1_def canary_started_def)
  ultimately show ?thesis by (blast intro: canary_reaches.intros)
qed

theorem close_completes_witness:
  "\<exists>s t. canary_reaches canary_started s \<and> cv_open s = {0} \<and> canary_reaches s t \<and> cv_close t = CloseReturned"
proof -
  let ?s = "canary_started\<lparr>cv_accept := Registering 0, cv_seen := {0}, cv_open := {0},
    cv_listening := False, cv_close := AwaitAcceptLoop, cv_close_error := None\<rparr>"
  have run: "canary_reaches canary_started ?s" using sample_canary_run by simp
  from close_completes[OF run] obtain t where "canary_reaches ?s t" "cv_close t = CloseReturned" by auto
  with run show ?thesis by (intro exI[of _ ?s] exI[of _ t]) simp
qed

theorem close_leaves_nothing_witness:
  "\<exists>s. canary_reaches canary_started s \<and> cv_close s = CloseReturned \<and> cv_open s = {} \<and> cv_handlers s = {}"
proof -
  let ?s = "canary_started\<lparr>cv_accept := Registering 0, cv_seen := {0}, cv_open := {0},
    cv_listening := False, cv_close := AwaitAcceptLoop, cv_close_error := None\<rparr>"
  have run: "canary_reaches canary_started ?s" using sample_canary_run by simp
  obtain t where "canary_reaches ?s t" and closed: "cv_close t = CloseReturned"
    using closing_reaches[OF canary_inv_reach[OF run canary_inv_start]] by auto
  then have "canary_reaches canary_started t" using canary_reaches_trans[OF _ run] by blast
  from close_leaves_nothing[OF this closed] this closed show ?thesis by blast
qed

end
