(* ===== verification/Token_Loop.thy ===== *)
theory Token_Loop imports Go_Time Go_Strings
begin

text \<open>
  AppRole logins and the goroutine that keeps a token alive, which \<open>internal/issuer/vault.go\<close> and
  \<open>internal/vaultauth/vaultauth.go\<close> share up to their messages: a lifetime watcher renews the token until its
  maximum lifetime, then the loop logs in again, every ten seconds until that succeeds.  Vault's client is a
  parameter; \<open>'t\<close> is the secret of a login.  The loop is a machine that reacts to what its channels, its
  timer and Vault answer.
\<close>

subsection \<open>Logging in\<close>

record 't vault_api =
  va_new_client :: "gostring \<Rightarrow> gostring option"
  va_approle :: "gostring \<Rightarrow> gostring \<Rightarrow> gostring option"
  va_login :: "gostring \<Rightarrow> gostring \<Rightarrow> gostring + 't option"

datatype login_error = NoVaultClient gostring | BadAppRole gostring | LoginRefused gostring | NoAuthInfo

definition approle_login :: "'t vault_api \<Rightarrow> gostring \<Rightarrow> gostring \<Rightarrow> gostring \<Rightarrow> login_error + 't" where
  "approle_login api addr role_id secret_id =
     (case va_new_client api addr of Some e \<Rightarrow> Inl (NoVaultClient e)
      | None \<Rightarrow>
     (case va_approle api role_id secret_id of Some e \<Rightarrow> Inl (BadAppRole e)
      | None \<Rightarrow>
     (case va_login api role_id secret_id of
        Inl e \<Rightarrow> Inl (LoginRefused e)
      | Inr None \<Rightarrow> Inl NoAuthInfo
      | Inr (Some auth) \<Rightarrow> Inr auth)))"

subsection \<open>Keeping the token\<close>

datatype token_pc = CreateWatcher | Watching | Authenticate | WaitToRetry | LoopEnded

record 't token_keeper =
  tk_pc :: token_pc
  tk_secret :: 't
  tk_cancelled :: bool
  tk_log :: "gostring list"

text \<open>\<open>TakeDone\<close> is the choice of the branch of \<open>ctx.Done()\<close>, which needs the context to be cancelled; a
  renewal carries the lease of its secret, if it has one.\<close>

datatype 't token_event = Cancel | TakeDone | WatcherMade "gostring option" | Renewal "int option"
  | WatchEnded "gostring option" | LoginAnswer "gostring + 't option" | RetryTimer

record token_texts =
  tt_renewed :: "int \<Rightarrow> gostring"
  tt_stopped :: "gostring \<Rightarrow> gostring"
  tt_no_watcher :: "gostring \<Rightarrow> gostring"
  tt_login_failed :: "gostring \<Rightarrow> gostring"

definition issuer_texts :: token_texts where
  "issuer_texts = \<lparr>
     tt_renewed = (\<lambda>n. ''issuer: token renewed, lease duration='' @ int_text n @ ''s''),
     tt_stopped = (\<lambda>e. ''issuer: token renewal stopped: '' @ e @ ''; re-authenticating''),
     tt_no_watcher = (\<lambda>e. ''issuer: failed to create token watcher: '' @ e @ ''; re-authenticating''),
     tt_login_failed = (\<lambda>e. ''issuer: AppRole re-authentication failed: '' @ e)\<rparr>"

definition vaultauth_texts :: token_texts where
  "vaultauth_texts = \<lparr>
     tt_renewed = (\<lambda>n. ''vaultauth: token renewed, new lease duration: '' @ int_text n @ ''s''),
     tt_stopped = (\<lambda>e. ''vaultauth: token renewal stopped: '' @ e @ ''; re-authenticating''),
     tt_no_watcher = (\<lambda>e. ''vaultauth: failed to create lifetime watcher: '' @ e @ ''; re-authenticating''),
     tt_login_failed = (\<lambda>e. ''vaultauth: AppRole re-authentication failed: '' @ e)\<rparr>"

definition token_log :: "gostring \<Rightarrow> 't token_keeper \<Rightarrow> 't token_keeper" where
  "token_log text s = s\<lparr>tk_log := tk_log s @ [text]\<rparr>"

definition token_start :: "'t \<Rightarrow> 't token_keeper" where
  "token_start secret = \<lparr>tk_pc = CreateWatcher, tk_secret = secret, tk_cancelled = False, tk_log = []\<rparr>"

text \<open>\<open>None\<close>: what the loop is doing does not react to the event.  \<open>ctx.Err()\<close> is looked at before a
  login; a cancellation while Vault answers one cannot be told from one right after the answer, and counts as that.\<close>

fun token_step :: "token_texts \<Rightarrow> 't token_keeper \<Rightarrow> 't token_event \<Rightarrow> 't token_keeper option" where
  "token_step tx s Cancel = Some (s\<lparr>tk_cancelled := True\<rparr>)"
| "token_step tx s TakeDone =
     (if tk_cancelled s \<and> tk_pc s \<in> {Watching, Authenticate, WaitToRetry} then Some (s\<lparr>tk_pc := LoopEnded\<rparr>) else None)"
| "token_step tx s (WatcherMade err) =
     (if tk_pc s = CreateWatcher
      then Some (case err of None \<Rightarrow> s\<lparr>tk_pc := Watching\<rparr>
        | Some e \<Rightarrow> token_log (tt_no_watcher tx e) (s\<lparr>tk_pc := Authenticate\<rparr>))
      else None)"
| "token_step tx s (Renewal lease) =
     (if tk_pc s = Watching
      then Some (case lease of None \<Rightarrow> s | Some n \<Rightarrow> token_log (tt_renewed tx n) s) else None)"
| "token_step tx s (WatchEnded err) =
     (if tk_pc s = Watching
      then Some ((case err of None \<Rightarrow> s | Some e \<Rightarrow> token_log (tt_stopped tx e) s)\<lparr>tk_pc := Authenticate\<rparr>)
      else None)"
| "token_step tx s (LoginAnswer r) =
     (if tk_pc s = Authenticate \<and> \<not> tk_cancelled s
      then Some (case r of
          Inr (Some secret) \<Rightarrow> s\<lparr>tk_secret := secret, tk_pc := CreateWatcher\<rparr>
        | Inr None \<Rightarrow> token_log (tt_login_failed tx ''login returned no auth info'') (s\<lparr>tk_pc := WaitToRetry\<rparr>)
        | Inl e \<Rightarrow> token_log (tt_login_failed tx e) (s\<lparr>tk_pc := WaitToRetry\<rparr>))
      else None)"
| "token_step tx s RetryTimer =
     (if tk_pc s = WaitToRetry then Some (s\<lparr>tk_pc := Authenticate\<rparr>) else None)"

definition retry_delay :: duration where
  "retry_delay = 10 * second"

fun token_run :: "token_texts \<Rightarrow> 't token_keeper \<Rightarrow> 't token_event list \<Rightarrow> 't token_keeper option" where
  "token_run tx s [] = Some s"
| "token_run tx s (e # es) = (case token_step tx s e of None \<Rightarrow> None | Some s' \<Rightarrow> token_run tx s' es)"

text \<open>What the goroutine of a login starts with.\<close>

definition issuer_login_text :: "login_error \<Rightarrow> gostring" where
  "issuer_login_text err = (case err of
       NoVaultClient e \<Rightarrow> ''issuer: creating vault client: '' @ e
     | BadAppRole e \<Rightarrow> ''issuer: configuring approle auth: '' @ e
     | LoginRefused e \<Rightarrow> ''issuer: approle login: '' @ e
     | NoAuthInfo \<Rightarrow> ''issuer: approle login returned no auth info'')"

definition vaultauth_login_text :: "login_error \<Rightarrow> gostring" where
  "vaultauth_login_text err = (case err of
       NoVaultClient e \<Rightarrow> ''creating vault client: '' @ e
     | BadAppRole e \<Rightarrow> ''configuring approle auth: '' @ e
     | LoginRefused e \<Rightarrow> ''approle login: '' @ e
     | NoAuthInfo \<Rightarrow> ''approle login returned no auth info'')"

definition issuer_login :: "'t vault_api \<Rightarrow> gostring \<Rightarrow> gostring \<Rightarrow> gostring \<Rightarrow> gostring + 't token_keeper" where
  "issuer_login api addr role_id secret_id =
     (case approle_login api addr role_id secret_id of
        Inl err \<Rightarrow> Inl (issuer_login_text err) | Inr auth \<Rightarrow> Inr (token_start auth))"

record env_creds =
  ec_role_id :: gostring
  ec_secret_id :: gostring

definition vaultauth_login :: "'t vault_api \<Rightarrow> gostring \<Rightarrow> env_creds \<Rightarrow> gostring + 't token_keeper" where
  "vaultauth_login api addr creds =
     (case approle_login api addr (ec_role_id creds) (ec_secret_id creds) of
        Inl err \<Rightarrow> Inl (vaultauth_login_text err) | Inr auth \<Rightarrow> Inr (token_start auth))"

subsection \<open>Laws\<close>

lemma token_run_append:
  "token_run tx s (es @ fs) = Option.bind (token_run tx s es) (\<lambda>t. token_run tx t fs)"
  by (induction es arbitrary: s) (auto split: option.split)

lemma token_run_invariant:
  assumes "token_run tx s es = Some t" and "P s"
    and "\<And>s e t. P s \<Longrightarrow> token_step tx s e = Some t \<Longrightarrow> P t"
  shows "P t"
  using assms(1,2) by (induction es arbitrary: s) (auto split: option.splits intro: assms(3))

lemma token_log_simps [simp]: "tk_pc (token_log x s) = tk_pc s" "tk_secret (token_log x s) = tk_secret s"
  "tk_cancelled (token_log x s) = tk_cancelled s"
  by (simp_all add: token_log_def)

text \<open>The secrets that logins of a run returned, the last one first.\<close>

fun secrets_from :: "'t list \<Rightarrow> 't token_event list \<Rightarrow> 't list" where
  "secrets_from acc [] = acc"
| "secrets_from acc (LoginAnswer (Inr (Some secret)) # es) = secrets_from (secret # acc) es"
| "secrets_from acc (_ # es) = secrets_from acc es"

text \<open>A login that did not give a secret.\<close>

fun failed_login :: "'t token_event \<Rightarrow> bool" where
  "failed_login (LoginAnswer (Inl _)) = True"
| "failed_login (LoginAnswer (Inr None)) = True"
| "failed_login _ = False"

text \<open>What a run has seen so far: the secrets, and whether it was cancelled.\<close>

record 't seen =
  sn_secrets :: "'t list"
  sn_cancelled :: bool

fun see :: "'t seen \<Rightarrow> 't token_event \<Rightarrow> 't seen" where
  "see n e = n\<lparr>sn_secrets := secrets_from (sn_secrets n) [e], sn_cancelled := (sn_cancelled n \<or> e = Cancel)\<rparr>"

definition token_inv :: "'t seen \<Rightarrow> 't token_keeper \<Rightarrow> bool" where
  "token_inv n s \<longleftrightarrow> sn_secrets n \<noteq> [] \<and> tk_secret s = hd (sn_secrets n) \<and> tk_cancelled s = sn_cancelled n
     \<and> (tk_pc s = LoopEnded \<longrightarrow> sn_cancelled n)"

lemma token_inv_step: "token_step tx s e = Some t \<Longrightarrow> token_inv n s \<Longrightarrow> token_inv (see n e) t"
  by (cases "(tx, s, e)" rule: token_step.cases)
    (auto simp: token_inv_def split: if_splits option.splits sum.splits)

lemma token_inv_run: "token_run tx s es = Some t \<Longrightarrow> token_inv n s \<Longrightarrow> token_inv (foldl see n es) t"
proof (induction es arbitrary: s n)
  case (Cons e es)
  then show ?case by (auto split: option.splits dest: token_inv_step)
qed simp

lemma secrets_from_fold: "secrets_from acc (e # es) = secrets_from (secrets_from acc [e]) es"
  by (cases "(acc, [e])" rule: secrets_from.cases) auto

lemma seen_run: "sn_secrets (foldl see n es) = secrets_from (sn_secrets n) es"
    "sn_cancelled (foldl see n es) \<longleftrightarrow> sn_cancelled n \<or> Cancel \<in> set es"
proof -
  show "sn_secrets (foldl see n es) = secrets_from (sn_secrets n) es"
  proof (induction es arbitrary: n)
    case (Cons e es)
    then show ?case using secrets_from_fold[of "sn_secrets n" e es] by simp
  qed simp
qed (induction es arbitrary: n, auto)+

text \<open>What the loop is doing is determined by its latest event other than the cancellation.\<close>

fun ends_watch :: "'t token_event \<Rightarrow> bool" where
  "ends_watch (WatcherMade (Some _)) = True"
| "ends_watch (WatchEnded _) = True"
| "ends_watch RetryTimer = True"
| "ends_watch _ = False"

fun keeps_watching :: "'t token_event \<Rightarrow> bool" where
  "keeps_watching (WatcherMade None) = True"
| "keeps_watching (Renewal _) = True"
| "keeps_watching _ = False"

definition latest :: "('t token_event \<Rightarrow> bool) \<Rightarrow> 't token_event list \<Rightarrow> bool" where
  "latest P es \<longleftrightarrow> (let seen = filter (\<lambda>e. e \<noteq> Cancel) es in seen \<noteq> [] \<and> P (last seen))"

lemma latest_snoc: "latest P (es @ [e]) = (if e = Cancel then latest P es else P e)"
  by (simp add: latest_def Let_def)

definition stage_of :: "'t token_event list \<Rightarrow> token_pc \<Rightarrow> bool" where
  "stage_of es pc \<longleftrightarrow> (case pc of
       CreateWatcher \<Rightarrow> \<not> latest (\<lambda>_. True) es \<or> latest (\<lambda>e. \<exists>secret. e = LoginAnswer (Inr (Some secret))) es
     | Watching \<Rightarrow> latest keeps_watching es | Authenticate \<Rightarrow> latest ends_watch es
     | WaitToRetry \<Rightarrow> latest failed_login es | LoopEnded \<Rightarrow> latest (\<lambda>e. e = TakeDone) es)"

lemma stage_step:
  assumes "token_step tx s e = Some t" and "stage_of es (tk_pc s)"
  shows "stage_of (es @ [e]) (tk_pc t)"
  using assms
  by (cases "(tx, s, e)" rule: token_step.cases)
    (auto simp: stage_of_def latest_snoc split: if_splits option.splits sum.splits token_pc.splits)

lemma stage_run: "token_run tx (token_start auth) es = Some s \<Longrightarrow> stage_of es (tk_pc s)"
proof (induction es arbitrary: s rule: rev_induct)
  case Nil
  then show ?case by (auto simp: token_start_def stage_of_def latest_def)
next
  case (snoc e es)
  then obtain u where "token_run tx (token_start auth) es = Some u" "token_step tx u e = Some s"
    by (auto simp: token_run_append bind_eq_Some_conv split: option.splits)
  then show ?case using snoc.IH stage_step by blast
qed

lemma run_split:
  assumes "token_run tx s (es1 @ e # es2) = Some t"
  obtains u v where "token_run tx s es1 = Some u" and "token_step tx u e = Some v" and "token_run tx v es2 = Some t"
  using assms by (auto simp: token_run_append bind_eq_Some_conv split: option.splits)

text \<open>C28: The token loop, in any run.  It logs in only when the latest thing it saw (cancellation apart) was the end
  of a watch, a watcher that could not be made, or the retry timer, so never while it watches a token, and never
  once its context is cancelled; it waits for the retry timer only after a failed login, so that the
  timer lies between a failed login and the next one; it makes a watcher only at the start and after a
  successful login, and the secret it holds is that login's; it ends only when its context is cancelled.\<close>

theorem token_loop_discipline:
  assumes "token_run tx (token_start auth) es = Some s"
  shows "(\<forall>es1 r es2. es = es1 @ LoginAnswer r # es2 \<longrightarrow> latest ends_watch es1 \<and> Cancel \<notin> set es1)
    \<and> (\<forall>es1 es2. es = es1 @ RetryTimer # es2 \<longrightarrow> latest failed_login es1)
    \<and> (\<forall>es1 err es2. es = es1 @ WatcherMade err # es2 \<longrightarrow> filter (\<lambda>e. e \<noteq> Cancel) es1 = []
        \<or> latest (\<lambda>e. \<exists>secret. e = LoginAnswer (Inr (Some secret))) es1)
    \<and> tk_secret s = hd (secrets_from [auth] es)
    \<and> (tk_pc s = LoopEnded \<longrightarrow> Cancel \<in> set es)"
proof -
  define n :: "'a seen" where "n = \<lparr>sn_secrets = [auth], sn_cancelled = False\<rparr>"
  have start: "token_inv n (token_start auth)" by (simp add: token_inv_def n_def token_start_def)
  then have inv: "token_inv (foldl see n es) s" by (rule token_inv_run[OF assms])
  have login: "latest ends_watch es1 \<and> Cancel \<notin> set es1" if es: "es = es1 @ LoginAnswer r # es2" for es1 r es2
  proof -
    obtain u v where run: "token_run tx (token_start auth) es1 = Some u" and step: "token_step tx u (LoginAnswer r) = Some v"
      using run_split[OF assms[unfolded es]] by blast
    have at: "tk_pc u = Authenticate" "\<not> tk_cancelled u" using step by (auto split: if_splits)
    moreover have "token_inv (foldl see n es1) u" by (rule token_inv_run[OF run start])
    ultimately have "Cancel \<notin> set es1" unfolding token_inv_def seen_run by (auto simp: n_def)
    then show ?thesis using stage_run[OF run] at by (simp add: stage_of_def)
  qed
  have timer: "latest failed_login es1" if es: "es = es1 @ RetryTimer # es2" for es1 es2
  proof -
    obtain u v where run: "token_run tx (token_start auth) es1 = Some u" and step: "token_step tx u RetryTimer = Some v"
      using run_split[OF assms[unfolded es]] by blast
    then show ?thesis using stage_run[OF run] by (auto simp: stage_of_def split: if_splits)
  qed
  have watcher: "filter (\<lambda>e. e \<noteq> Cancel) es1 = [] \<or> latest (\<lambda>e. \<exists>secret. e = LoginAnswer (Inr (Some secret))) es1"
    if es: "es = es1 @ WatcherMade err # es2" for es1 err es2
  proof -
    obtain u v where run: "token_run tx (token_start auth) es1 = Some u" and step: "token_step tx u (WatcherMade err) = Some v"
      using run_split[OF assms[unfolded es]] by blast
    then have "tk_pc u = CreateWatcher" by (auto split: if_splits)
    with stage_run[OF run] show ?thesis by (auto simp: stage_of_def latest_def Let_def)
  qed
  have "tk_secret s = hd (secrets_from [auth] es)" "tk_pc s = LoopEnded \<longrightarrow> Cancel \<in> set es"
    using inv unfolding token_inv_def seen_run by (auto simp: n_def)
  with login timer watcher show ?thesis by blast
qed

text \<open>The loop recovers: unless it was cancelled, however it got where it is, when Vault answers the next login
  with a secret and gives a watcher the loop watches that secret.\<close>

theorem token_loop_recovers:
  assumes "token_run tx (token_start auth) es = Some s" and "Cancel \<notin> set es"
  shows "\<exists>es' s'. token_run tx s es' = Some s' \<and> tk_pc s' = Watching \<and> tk_secret s' = fresh
    \<and> length es' \<le> 5"
proof -
  have inv: "tk_pc s \<noteq> LoopEnded" "\<not> tk_cancelled s"
  proof -
    define n :: "'a seen" where "n = \<lparr>sn_secrets = [auth], sn_cancelled = False\<rparr>"
    have "token_inv n (token_start auth)" by (simp add: token_inv_def n_def token_start_def)
    then have "token_inv (foldl see n es) s" by (rule token_inv_run[OF assms(1)])
    then show "tk_pc s \<noteq> LoopEnded" "\<not> tk_cancelled s" using assms(2)
      unfolding token_inv_def seen_run by (auto simp: n_def)
  qed
  define login where "login = [LoginAnswer (Inr (Some fresh)), WatcherMade None]"
  have watched: "\<exists>s'. token_run tx u login = Some s' \<and> tk_pc s' = Watching \<and> tk_secret s' = fresh"
    if "tk_pc u = Authenticate" "\<not> tk_cancelled u" for u
    using that by (simp add: login_def)
  show ?thesis
  proof (cases "tk_pc s")
    case CreateWatcher
    with inv show ?thesis
      by (intro exI[of _ "WatcherMade (Some []) # login"]) (auto simp: login_def)
  next
    case Watching
    with inv show ?thesis by (intro exI[of _ "WatchEnded None # login"]) (auto simp: login_def)
  next
    case Authenticate
    with inv watched[of s] show ?thesis by (intro exI[of _ login]) (auto simp: login_def)
  next
    case WaitToRetry
    with inv show ?thesis by (intro exI[of _ "RetryTimer # login"]) (auto simp: login_def)
  qed (use inv in simp)
qed

definition sample_token_events :: "nat token_event list" where
  "sample_token_events = [WatcherMade None, Renewal None, WatchEnded (Some ''expired''), LoginAnswer (Inl ''down''),
     RetryTimer, LoginAnswer (Inr (Some 2)), WatcherMade None, Cancel, TakeDone]"

theorem token_loop_discipline_witness:
  "\<exists>s. token_run issuer_texts (token_start (1::nat)) sample_token_events = Some s
     \<and> tk_pc s = LoopEnded \<and> tk_secret s = hd (secrets_from [1] sample_token_events)
     \<and> secrets_from [1] sample_token_events = [2, 1] \<and> latest failed_login (take 4 sample_token_events)"
proof -
  have "map_option tk_pc (token_run issuer_texts (token_start (1::nat)) sample_token_events) = Some LoopEnded"
    by code_simp
  then obtain s where run: "token_run issuer_texts (token_start (1::nat)) sample_token_events = Some s"
    and ended: "tk_pc s = LoopEnded" unfolding map_option_eq_Some by (elim exE conjE) (rule that)
  have "secrets_from [1] sample_token_events = [2, 1]" by (simp add: sample_token_events_def)
  moreover have "tk_secret s = hd (secrets_from [1] sample_token_events)"
    using token_loop_discipline[OF run] by blast
  moreover have "latest failed_login (take 4 sample_token_events)"
    by (rule token_loop_discipline[OF run, THEN conjunct2, THEN conjunct1, rule_format, of _ "drop 5 sample_token_events"])
      (simp add: sample_token_events_def)
  ultimately show ?thesis using run ended by (intro exI[of _ s] conjI)
qed

theorem token_loop_recovers_witness:
  "\<exists>es' s'. token_run issuer_texts (token_start (1::nat)) es' = Some s' \<and> tk_pc s' = Watching \<and> tk_secret s' = 7"
  using token_loop_recovers[of issuer_texts "1::nat" "[]" "token_start 1" 7] by auto

end
