(* ===== verification/Demo_Api.thy ===== *)
theory Demo_Api imports Issuer Token_Loop "HOL-Library.Signed_Division"
begin

text \<open>
  The identity loop of \<open>demo-api\<close>: the credentials file, issuing and installing a client certificate, the
  controller that renews it, what the service logs of its secret, and \<open>/whoami\<close>.  Vault, PEM and X.509 are
  parameters.  The controller is a machine that reacts to the clock, its timers, Vault's answers and the
  context; it and the handlers share the certificate under a lock, so a handler sees the state between two steps.
\<close>

subsection \<open>Credentials\<close>

text \<open>\<open>strings.SplitN(line, sep, 2)\<close>, when it gives two parts.\<close>

definition split_pair :: "char \<Rightarrow> gostring \<Rightarrow> (gostring \<times> gostring) option" where
  "split_pair sep s = (case dropWhile (\<lambda>c. c \<noteq> sep) s of
       [] \<Rightarrow> None | _ # rest \<Rightarrow> Some (takeWhile (\<lambda>c. c \<noteq> sep) s, rest))"

definition env_line :: "env_creds \<Rightarrow> gostring \<Rightarrow> env_creds" where
  "env_line creds raw =
     (let line = trim_space raw in
      if line = [] \<or> hd line = CHR ''#'' then creds
      else case split_pair (CHR ''='') line of None \<Rightarrow> creds
        | Some (key, v) \<Rightarrow>
          if key = ''VAULT_ROLE_ID'' then creds\<lparr>ec_role_id := v\<rparr>
          else if key = ''VAULT_SECRET_ID'' then creds\<lparr>ec_secret_id := v\<rparr>
          else creds)"

definition load_env_file :: "(gostring \<Rightarrow> gostring + bytes) \<Rightarrow> gostring \<Rightarrow> gostring + env_creds" where
  "load_env_file read path =
     (case read path of Inl e \<Rightarrow> Inl (''reading approle env file: '' @ e)
      | Inr data \<Rightarrow>
        let creds = foldl env_line \<lparr>ec_role_id = [], ec_secret_id = []\<rparr> (split_on (CHR 0x0A) data) in
        if ec_role_id creds = [] \<or> ec_secret_id creds = []
        then Inl (''approle env file '' @ path @ '' missing VAULT_ROLE_ID or VAULT_SECRET_ID'')
        else Inr creds)"

subsection \<open>The client certificate\<close>

record client_leaf =
  lf_common_name :: gostring
  lf_not_after :: gotime

record cert_state =
  ct_common_name :: gostring
  ct_not_after :: gotime
  ct_cert_pem :: gostring
  ct_key_pem :: gostring

definition no_certificate :: cert_state where
  "no_certificate = \<lparr>ct_common_name = [], ct_not_after = 0, ct_cert_pem = [], ct_key_pem = []\<rparr>"

definition cert_get :: "cert_state \<Rightarrow> gostring \<times> gotime \<times> bool" where
  "cert_get c = (ct_common_name c, ct_not_after c, \<not> is_zero (ct_not_after c))"

record demo_env =
  dm_pem_decode :: "gostring \<Rightarrow> bytes option"
  dm_parse_certificate :: "bytes \<Rightarrow> gostring + client_leaf"
  dm_duration_text :: "duration \<Rightarrow> gostring"

text \<open>Vault's answer: an error, or a secret, which may be nil; its data may be nil too and is then empty.\<close>

type_synonym vault_answer = "gostring + (gostring \<rightharpoonup> vault_value) option"

text \<open>Reading the data of a nil secret panics.\<close>

datatype issue_end = IssueOk cert_state | IssueError gostring | IssuePanic

definition issue_certificate :: "demo_env \<Rightarrow> vault_answer \<Rightarrow> issue_end" where
  "issue_certificate env answer =
     (case answer of Inl e \<Rightarrow> IssueError e
      | Inr None \<Rightarrow> IssuePanic
      | Inr (Some data) \<Rightarrow>
        let cert_pem = string_of (data ''certificate''); key_pem = string_of (data ''private_key'') in
        (case dm_pem_decode env cert_pem of
           None \<Rightarrow> IssueError ''issueCertificate: could not decode certificate PEM''
         | Some der \<Rightarrow>
           (case dm_parse_certificate env der of Inl e \<Rightarrow> IssueError e
            | Inr leaf \<Rightarrow> IssueOk \<lparr>ct_common_name = lf_common_name leaf, ct_not_after = lf_not_after leaf,
                ct_cert_pem = cert_pem, ct_key_pem = key_pem\<rparr>)))"

subsection \<open>The renewal controller\<close>

datatype renewal_pc = CheckCertificate | SleepUntilDue duration | TryRenewal duration | BackOff duration
  | RenewalStopped | ServiceCrashed

record demo_state =
  dp_pc :: renewal_pc
  dp_cert :: cert_state
  dp_expiry_gauge :: int
  dp_renewals :: nat
  dp_failures :: nat
  dp_log :: "gostring list"

definition install :: "cert_state \<Rightarrow> demo_state \<Rightarrow> demo_state" where
  "install c s = s\<lparr>dp_cert := c, dp_expiry_gauge := unix_seconds (ct_not_after c)\<rparr>"

definition demo_log :: "gostring \<Rightarrow> demo_state \<Rightarrow> demo_state" where
  "demo_log text s = s\<lparr>dp_log := dp_log s @ [text]\<rparr>"

text \<open>\<open>time.Until(notAfter) * 2 / 3\<close>, which may overflow, but never less than a minute.\<close>

definition renewal_wait :: "gotime \<Rightarrow> gotime \<Rightarrow> duration" where
  "renewal_wait not_after now =
     (let wait = duration_times (time_sub not_after now) 2 sdiv 3 in if wait < minute then minute else wait)"

definition min_delay :: "duration \<Rightarrow> duration \<Rightarrow> duration" where
  "min_delay a b = (if a < b then a else b)"

definition next_backoff :: "duration \<Rightarrow> duration \<Rightarrow> duration" where
  "next_backoff backoff remaining =
     (if remaining \<le> 0 then second
      else if remaining < 5 * minute then min_delay backoff (15 * second)
      else min_delay (duration_times backoff 2) minute)"

text \<open>\<open>ClockRead\<close> is the reading that the next wait is computed from; an answer to a renewal comes with the
  reading after it.\<close>

datatype renewal_event = ClockRead gotime | TimerFired | ContextDone | Answer vault_answer gotime

fun renewal_step :: "demo_env \<Rightarrow> demo_state \<Rightarrow> renewal_event \<Rightarrow> demo_state option" where
  "renewal_step env s (ClockRead now) =
     (case dp_pc s of
        CheckCertificate \<Rightarrow>
          (case cert_get (dp_cert s) of (_, not_after, ok) \<Rightarrow>
             Some (s\<lparr>dp_pc := (if ok then SleepUntilDue (renewal_wait not_after now) else RenewalStopped)\<rparr>))
      | _ \<Rightarrow> None)"
| "renewal_step env s TimerFired =
     (case dp_pc s of SleepUntilDue _ \<Rightarrow> Some (s\<lparr>dp_pc := TryRenewal second\<rparr>)
      | BackOff b \<Rightarrow> Some (s\<lparr>dp_pc := TryRenewal b\<rparr>) | _ \<Rightarrow> None)"
| "renewal_step env s ContextDone =
     (case dp_pc s of SleepUntilDue _ \<Rightarrow> Some (s\<lparr>dp_pc := RenewalStopped\<rparr>)
      | BackOff b \<Rightarrow> Some (s\<lparr>dp_pc := RenewalStopped\<rparr>) | _ \<Rightarrow> None)"
| "renewal_step env s (Answer answer now) =
     (case dp_pc s of
        TryRenewal backoff \<Rightarrow>
          (let s = s\<lparr>dp_renewals := Suc (dp_renewals s)\<rparr> in
           Some (case issue_certificate env answer of
               IssuePanic \<Rightarrow> s\<lparr>dp_pc := ServiceCrashed\<rparr>
             | IssueOk c \<Rightarrow> demo_log ''demo-api: certificate renewed'' (install c s)\<lparr>dp_pc := CheckCertificate\<rparr>
             | IssueError e \<Rightarrow>
               (demo_log (''demo-api: certificate renewal failed; retrying in '' @ dm_duration_text env backoff
                   @ '': '' @ e) (s\<lparr>dp_failures := Suc (dp_failures s)\<rparr>))
                 \<lparr>dp_pc := BackOff (next_backoff backoff (time_sub (ct_not_after (dp_cert s)) now))\<rparr>))
      | _ \<Rightarrow> None)"

fun renewal_run :: "demo_env \<Rightarrow> demo_state \<Rightarrow> renewal_event list \<Rightarrow> demo_state option" where
  "renewal_run env s [] = Some s"
| "renewal_run env s (e # es) = (case renewal_step env s e of None \<Rightarrow> None | Some t \<Rightarrow> renewal_run env t es)"

subsection \<open>Starting the service\<close>

text \<open>The KV secret is read once, and only its presence is logged.\<close>

definition kv_log :: "vault_answer \<Rightarrow> gostring" where
  "kv_log answer = (case answer of
       Inl e \<Rightarrow> ''demo-api: WARNING: could not read kv/data/demo-api/config: '' @ e
     | Inr (Some data) \<Rightarrow> (if data ''data'' \<noteq> None then ''demo-api: secret loaded (kv/data/demo-api/config present)''
         else ''demo-api: WARNING: kv/data/demo-api/config returned no data'')
     | Inr None \<Rightarrow> ''demo-api: WARNING: kv/data/demo-api/config returned no data'')"

record 't demo_world =
  dw_getenv :: "gostring \<Rightarrow> gostring"
  dw_read_file :: "gostring \<Rightarrow> gostring + bytes"
  dw_api :: "'t vault_api"
  dw_kv :: vault_answer
  dw_first_issue :: vault_answer

definition demo_getenv :: "(gostring \<Rightarrow> gostring) \<Rightarrow> gostring \<Rightarrow> gostring \<Rightarrow> gostring" where
  "demo_getenv getenv key def = (if getenv key \<noteq> [] then getenv key else def)"

datatype 't demo_boot = BootFatal gostring | BootPanic | BootServing gostring "'t token_keeper" demo_state

text \<open>\<open>main\<close>, up to the listener: the address it listens on, the token loop and the controller it started, with
  the log so far.\<close>

definition demo_main :: "demo_env \<Rightarrow> 't demo_world \<Rightarrow> 't demo_boot" where
  "demo_main env w =
     (let vault_addr = demo_getenv (dw_getenv w) ''VAULT_ADDR'' ''http://vault:8200'';
          env_file = demo_getenv (dw_getenv w) ''VAULT_APPROLE_ENV_FILE'' ''/run/secrets/demo-api.env'';
          listen = demo_getenv (dw_getenv w) ''DEMO_API_LISTEN'' '':8000'' in
      case load_env_file (dw_read_file w) env_file of
        Inl e \<Rightarrow> BootFatal (''demo-api: '' @ e)
      | Inr creds \<Rightarrow>
     (case vaultauth_login (dw_api w) vault_addr creds of
        Inl e \<Rightarrow> BootFatal (''demo-api: vault login failed: '' @ e)
      | Inr tokens \<Rightarrow>
     (case issue_certificate env (dw_first_issue w) of
        IssueError e \<Rightarrow> BootFatal (''demo-api: initial cert issuance failed: '' @ e)
      | IssuePanic \<Rightarrow> BootPanic
      | IssueOk c \<Rightarrow> BootServing listen tokens (install c
          \<lparr>dp_pc = CheckCertificate, dp_cert = no_certificate, dp_expiry_gauge = 0, dp_renewals = 0, dp_failures = 0,
           dp_log = [''demo-api: approle login succeeded'', kv_log (dw_kv w), ''demo-api: listening on '' @ listen]\<rparr>))))"

subsection \<open>Handlers and metrics\<close>

record demo_response =
  dr_status :: nat
  dr_content_type :: gostring
  dr_body :: gostring

definition demo_json :: "nat \<Rightarrow> (gostring \<times> gostring) list \<Rightarrow> demo_response" where
  "demo_json status pairs = \<lparr>dr_status = status, dr_content_type = ''application/json'',
     dr_body = ''{'' @ join_with '','' (map (\<lambda>(k, v). quote_text k @ '':'' @ v) pairs) @ ''}'' @ [CHR 0x0A]\<rparr>"

text \<open>\<open>json_string\<close> encodes a string; \<open>rfc3339\<close> formats a time in UTC.\<close>

definition whoami :: "(gostring \<Rightarrow> gostring) \<Rightarrow> (gotime \<Rightarrow> gostring) \<Rightarrow> demo_state \<Rightarrow> demo_response" where
  "whoami json_string rfc3339 s =
     (case cert_get (dp_cert s) of (cn, not_after, ok) \<Rightarrow>
        if \<not> ok then demo_json 503 [(''error'', json_string ''no certificate issued yet'')]
        else demo_json 200 [(''common_name'', json_string cn), (''not_after'', json_string (rfc3339 not_after))])"

definition healthz :: "(gostring \<Rightarrow> gostring) \<Rightarrow> demo_response" where
  "healthz json_string = demo_json 200 [(''status'', json_string ''ok'')]"

text \<open>The TTL of a token as its lookup shows it, a number to parse or a \<open>float64\<close>; the gauge keeps its value
  when there is nothing to set.\<close>

datatype 'f ttl_value = TtlNumber gostring | TtlFloat 'f | TtlOther

definition token_ttl :: "(gostring \<Rightarrow> 'f option) \<Rightarrow> gostring + 'f ttl_value option \<Rightarrow> 'f \<Rightarrow> 'f" where
  "token_ttl parse_float answer gauge = (case answer of
       Inr (Some (TtlNumber n)) \<Rightarrow> (case parse_float n of Some f \<Rightarrow> f | None \<Rightarrow> gauge)
     | Inr (Some (TtlFloat f)) \<Rightarrow> f
     | _ \<Rightarrow> gauge)"

end
