(* ===== verification/Demo_Api_Laws.thy ===== *)
theory Demo_Api_Laws imports Demo_Api
begin

text \<open>
  What the identity loop promises: the credentials file is read back, renewal is never given up while the
  context lives, retries stay within their bounds and accelerate towards the expiry, and \<open>/whoami\<close> and the
  metrics always show the certificate that was issued last.
\<close>

subsection \<open>The credentials file\<close>

lemma split_pair_key: "sep \<notin> set key \<Longrightarrow> split_pair sep (key @ sep # v) = Some (key, v)"
proof -
  assume "sep \<notin> set key"
  then have "dropWhile (\<lambda>c. c \<noteq> sep) (key @ sep # v) = sep # v"
    "takeWhile (\<lambda>c. c \<noteq> sep) (key @ sep # v) = key"
    by (subst dropWhile_append2, auto) (subst takeWhile_append2, auto)
  then show ?thesis by (simp add: split_pair_def)
qed

lemma trim_space_id:
  assumes "s \<noteq> []" and "\<not> is_space (hd s)" and "\<not> is_space (last s)"
  shows "trim_space s = s"
proof -
  have "dropWhile is_space s = s" using assms(1,2) by (cases s) auto
  moreover have "dropWhile is_space (rev s) = rev s"
    using assms(1,3) by (cases "rev s") (auto simp: last_rev[symmetric] hd_rev)
  ultimately show ?thesis by (simp add: trim_space_def)
qed

lemma env_line_key:
  assumes "key \<noteq> []" and "\<not> is_space (hd key)" and "hd key \<noteq> CHR ''#''" and "CHR ''='' \<notin> set key"
    and "v \<noteq> []" and "\<not> is_space (last v)"
  shows "env_line creds (key @ CHR ''='' # v) = (if key = ''VAULT_ROLE_ID'' then creds\<lparr>ec_role_id := v\<rparr>
     else if key = ''VAULT_SECRET_ID'' then creds\<lparr>ec_secret_id := v\<rparr> else creds)"
proof -
  have "trim_space (key @ CHR ''='' # v) = key @ CHR ''='' # v"
    using assms by (intro trim_space_id) simp_all
  then show ?thesis using assms(1,3) split_pair_key[OF assms(4), of v]
    by (simp add: env_line_def Let_def)
qed

text \<open>Lines that set nothing: blank ones, comments, other keys.\<close>

definition inert_line :: "gostring \<Rightarrow> bool" where
  "inert_line line \<longleftrightarrow> CHR 0x0A \<notin> set line \<and> (\<forall>creds. env_line creds line = creds)"

lemma inert_lines: "\<forall>l \<in> set ls. inert_line l \<Longrightarrow> foldl env_line creds ls = creds"
  by (induction ls arbitrary: creds) (auto simp: inert_line_def)

text \<open>The credentials file that Terraform writes is read back: whatever comments, blank lines and other
  variables surround them, and whatever signs the values contain, the role and secret ids are those of the file.\<close>

theorem env_file_roundtrip:
  assumes "read path = Inr (join_with [CHR 0x0A]
      (pre @ [''VAULT_ROLE_ID='' @ role] @ mid @ [''VAULT_SECRET_ID='' @ secret] @ post))"
    and "\<forall>l \<in> set (pre @ mid @ post). inert_line l"
    and "role \<noteq> []" and "\<not> is_space (last role)" and "CHR 0x0A \<notin> set role"
    and "secret \<noteq> []" and "\<not> is_space (last secret)" and "CHR 0x0A \<notin> set secret"
  shows "load_env_file read path = Inr \<lparr>ec_role_id = role, ec_secret_id = secret\<rparr>"
proof -
  let ?ls = "pre @ [''VAULT_ROLE_ID='' @ role] @ mid @ [''VAULT_SECRET_ID='' @ secret] @ post"
  have "split_on (CHR 0x0A) (join_with [CHR 0x0A] ?ls) = ?ls"
    using assms(2,5,8) by (intro split_join) (auto simp: inert_line_def)
  moreover have "foldl env_line \<lparr>ec_role_id = [], ec_secret_id = []\<rparr> ?ls = \<lparr>ec_role_id = role, ec_secret_id = secret\<rparr>"
    using assms(2) env_line_key[of "''VAULT_ROLE_ID''" role] env_line_key[of "''VAULT_SECRET_ID''" secret] assms(3,4,6,7)
    by (simp add: inert_lines is_space_def)
  ultimately show ?thesis using assms(1,3,6) by (simp add: load_env_file_def Let_def)
qed

subsection \<open>When the certificate is renewed\<close>

lemma time_sub_range: "time_sub t u \<le> 2 ^ 63 - 1" "- (2 ^ 63) \<le> time_sub t u"
  by (simp_all add: time_sub_def max_duration_def min_duration_def)

lemma double_small: "- (2 ^ 62) \<le> d \<Longrightarrow> d < 2 ^ 62 \<Longrightarrow> duration_times d 2 = 2 * d"
  by (simp add: duration_times_def wrap64_id min_duration_def max_duration_def)

lemma double_overflow:
  assumes "2 ^ 62 \<le> d" and "d \<le> 2 ^ 63 - 1"
  shows "duration_times d 2 = 2 * d - 2 ^ 64"
proof -
  have "(2 * d + 2 ^ 63) mod 2 ^ 64 = (2 * d + 2 ^ 63 - 2 ^ 64) mod (2 :: int) ^ 64"
    by (rule minus_mod_self2[symmetric])
  also have "\<dots> = 2 * d + 2 ^ 63 - 2 ^ 64"
    using assms by (intro mod_pos_pos_trivial) simp_all
  finally show ?thesis by (simp add: duration_times_def wrap64_def mult.commute)
qed

lemma third_nonneg: "0 \<le> x \<Longrightarrow> x sdiv 3 = x div (3 :: int)"
  by (simp add: signed_divide_int_def sgn_if)

lemma third_nonpos: "x \<le> 0 \<Longrightarrow> x sdiv 3 \<le> (0 :: int)"
  by (auto simp: signed_divide_int_def sgn_if pos_imp_zdiv_nonneg_iff)

lemma two_thirds: "0 < d \<Longrightarrow> 2 * d div 3 < (d :: int)"
  by presburger

lemma wait_exact:
  assumes "minute < time_sub not_after now" and "time_sub not_after now < 2 ^ 62"
  shows "renewal_wait not_after now = max minute (2 * time_sub not_after now div 3)"
  using assms by (simp add: renewal_wait_def double_small third_nonneg Let_def max_def)

lemma wait_overflow:
  assumes "2 ^ 62 \<le> time_sub not_after now"
  shows "renewal_wait not_after now = minute"
proof -
  have "duration_times (time_sub not_after now) 2 \<le> 0"
    unfolding double_overflow[OF assms time_sub_range(1)] using time_sub_range(1)[of not_after now] by simp
  from third_nonpos[OF this] show ?thesis by (simp add: renewal_wait_def Let_def)
qed

lemma wait_at_least: "minute \<le> renewal_wait not_after now"
  by (simp add: renewal_wait_def Let_def)

lemma wait_in_time:
  assumes "minute < time_sub not_after now"
  shows "renewal_wait not_after now < time_sub not_after now"
proof (cases "2 ^ 62 \<le> time_sub not_after now")
  case True
  then show ?thesis using assms by (simp add: wait_overflow)
next
  case False
  then have "renewal_wait not_after now = max minute (2 * time_sub not_after now div 3)"
    by (intro wait_exact[OF assms]) simp
  then show ?thesis using assms two_thirds[of "time_sub not_after now"] by simp
qed

lemma backoff_bounds:
  assumes "second \<le> backoff" and "backoff \<le> minute"
  shows "second \<le> next_backoff backoff remaining" and "next_backoff backoff remaining \<le> minute"
    and "remaining < 5 * minute \<Longrightarrow> next_backoff backoff remaining \<le> 15 * second"
    and "remaining \<le> 0 \<Longrightarrow> next_backoff backoff remaining = second"
  using assms by (simp_all add: next_backoff_def min_delay_def double_small)

lemma backoff_doubles:
  assumes "second \<le> backoff" and "backoff \<le> minute" and "5 * minute \<le> remaining"
  shows "next_backoff backoff remaining = min (2 * backoff) minute"
  using assms by (simp add: next_backoff_def min_delay_def double_small min_def)

lemma wait_facts:
  "minute \<le> renewal_wait not_after now
    \<and> (minute < time_sub not_after now \<longrightarrow> renewal_wait not_after now < time_sub not_after now)
    \<and> (3 * minute \<le> 2 * time_sub not_after now \<longrightarrow> time_sub not_after now < 2 ^ 62
        \<longrightarrow> renewal_wait not_after now = 2 * time_sub not_after now div 3)
    \<and> (2 ^ 62 \<le> time_sub not_after now \<longrightarrow> renewal_wait not_after now = minute)"
proof (intro conjI impI)
  show "renewal_wait not_after now = 2 * time_sub not_after now div 3"
    if "3 * minute \<le> 2 * time_sub not_after now" "time_sub not_after now < 2 ^ 62"
    using that by (subst wait_exact) (simp_all add: max_def)
qed (assumption | rule wait_at_least wait_in_time wait_overflow)+

subsection \<open>The life of the service\<close>

text \<open>The certificate issued last in a run, and the answers that were errors.\<close>

fun last_issued :: "demo_env \<Rightarrow> cert_state \<Rightarrow> renewal_event list \<Rightarrow> cert_state" where
  "last_issued env c [] = c"
| "last_issued env c (Answer a now # es) =
     last_issued env (case issue_certificate env a of IssueOk c' \<Rightarrow> c' | _ \<Rightarrow> c) es"
| "last_issued env c (_ # es) = last_issued env c es"

fun is_answer :: "renewal_event \<Rightarrow> bool" where
  "is_answer (Answer _ _) = True"
| "is_answer _ = False"

fun failed_answer :: "demo_env \<Rightarrow> renewal_event \<Rightarrow> bool" where
  "failed_answer env (Answer a _) = (case issue_certificate env a of IssueError _ \<Rightarrow> True | _ \<Rightarrow> False)"
| "failed_answer env _ = False"

definition renewal_inv :: "demo_state \<Rightarrow> bool" where
  "renewal_inv s \<longleftrightarrow> dp_expiry_gauge s = unix_seconds (ct_not_after (dp_cert s))
     \<and> (case dp_pc s of SleepUntilDue w \<Rightarrow> minute \<le> w | TryRenewal b \<Rightarrow> second \<le> b \<and> b \<le> minute
        | BackOff b \<Rightarrow> second \<le> b \<and> b \<le> minute | _ \<Rightarrow> True)"

lemma demo_log_simps [simp]: "dp_pc (demo_log x s) = dp_pc s" "dp_cert (demo_log x s) = dp_cert s"
  "dp_expiry_gauge (demo_log x s) = dp_expiry_gauge s" "dp_renewals (demo_log x s) = dp_renewals s"
  "dp_failures (demo_log x s) = dp_failures s"
  by (simp_all add: demo_log_def)

lemma renewal_inv_step: "renewal_step env s e = Some t \<Longrightarrow> renewal_inv s \<Longrightarrow> renewal_inv t"
  by (cases "(env, s, e)" rule: renewal_step.cases)
    (auto simp: renewal_inv_def cert_get_def install_def Let_def renewal_wait_def backoff_bounds
      split: if_splits renewal_pc.splits issue_end.splits)

lemma renewal_inv_run: "renewal_run env s es = Some t \<Longrightarrow> renewal_inv s \<Longrightarrow> renewal_inv t"
  by (induction es arbitrary: s) (auto split: option.splits dest: renewal_inv_step)

lemma renewal_counts: "renewal_run env s es = Some t \<Longrightarrow>
    dp_cert t = last_issued env (dp_cert s) es
    \<and> dp_renewals t = dp_renewals s + length (filter is_answer es)
    \<and> dp_failures t = dp_failures s + length (filter (failed_answer env) es)"
proof (induction es arbitrary: s)
  case (Cons e es)
  then obtain u where u: "renewal_step env s e = Some u" "renewal_run env u es = Some t"
    by (auto split: option.splits)
  from Cons.IH[OF u(2)] u(1) show ?case
    by (cases "(env, s, e)" rule: renewal_step.cases)
      (auto simp: cert_get_def install_def Let_def split: renewal_pc.splits issue_end.splits)
qed simp

lemma renewal_stops: "renewal_run env s es = Some t \<Longrightarrow> dp_pc s \<notin> {RenewalStopped, ServiceCrashed} \<Longrightarrow>
    (dp_pc t = RenewalStopped \<longrightarrow> ContextDone \<in> set es \<or> is_zero (ct_not_after (dp_cert t)))
    \<and> (dp_pc t = ServiceCrashed \<longrightarrow> (\<exists>now. Answer (Inr None) now \<in> set es))"
proof (induction es arbitrary: s)
  case (Cons e es)
  then obtain u where u: "renewal_step env s e = Some u" "renewal_run env u es = Some t"
    by (auto split: option.splits)
  show ?case
  proof (cases "dp_pc u \<in> {RenewalStopped, ServiceCrashed}")
    case False
    with Cons.IH[OF u(2)] show ?thesis by auto
  next
    case True
    have stuck: "renewal_step env u e' = None" for e'
      using True by (cases e') (auto split: renewal_pc.splits)
    then have "es = []" "t = u" using u(2) by (cases es; auto)+
    then show ?thesis using True Cons.prems(2) u(1)
      by (cases "(env, s, e)" rule: renewal_step.cases)
        (auto simp: cert_get_def install_def Let_def issue_certificate_def
          split: if_splits renewal_pc.splits issue_end.splits sum.splits option.splits)
  qed
qed simp

lemma boot_serving:
  assumes "demo_main env w = BootServing listen tokens s"
  shows "renewal_inv s" "dp_pc s = CheckCertificate" "dp_renewals s = 0" "dp_failures s = 0"
    and "issue_certificate env (dw_first_issue w) = IssueOk (dp_cert s)"
  using assms by (auto simp: demo_main_def Let_def renewal_inv_def install_def split: sum.splits issue_end.splits)

text \<open>C27: However a run of the service interleaves timers, answers and failures, what it holds is the certificate
  issued last, with the gauge of its expiry; every attempt and every failed one is counted; the controller stops
  only when the context ended (or a certificate has no expiry), and the process dies only of a nil secret.\<close>

theorem renewal_never_abandoned:
  assumes "demo_main env w = BootServing listen tokens s0" and "renewal_run env s0 es = Some s"
  shows "dp_cert s = last_issued env (dp_cert s0) es
    \<and> dp_expiry_gauge s = unix_seconds (ct_not_after (dp_cert s))
    \<and> dp_renewals s = length (filter is_answer es) \<and> dp_failures s = length (filter (failed_answer env) es)
    \<and> (dp_pc s = RenewalStopped \<longrightarrow> ContextDone \<in> set es \<or> is_zero (ct_not_after (dp_cert s)))
    \<and> (dp_pc s = ServiceCrashed \<longrightarrow> (\<exists>now. Answer (Inr None) now \<in> set es))"
  using renewal_counts[OF assms(2)] renewal_inv_run[OF assms(2) boot_serving(1)[OF assms(1)]]
    renewal_stops[OF assms(2)] boot_serving(2-4)[OF assms(1)]
  by (simp add: renewal_inv_def)

text \<open>C32: The delays of the renewal controller, at any step of any run of the service.  It sleeps for at least a
  minute, and less than the time its certificate is still valid whenever that is more than a minute: two
  thirds of it, from a minute and a half up to the 146 years beyond which doubling it overflows and a minute
  is chosen.  The first attempt after a sleep starts with a backoff of a second; a failed attempt is retried
  within one second and one minute: within 15 seconds in the last five minutes, every second after expiry,
  and else after twice the backoff before, up to a minute.\<close>

theorem renewal_delays:
  assumes "demo_main env w = BootServing listen tokens s0" and "renewal_run env s0 es = Some s"
    and "renewal_step env s e = Some t"
  shows "case dp_pc t of
      SleepUntilDue wait \<Rightarrow> (\<exists>now. e = ClockRead now \<and> (let left = time_sub (ct_not_after (dp_cert t)) now in
        minute \<le> wait \<and> (minute < left \<longrightarrow> wait < left)
        \<and> (3 * minute \<le> 2 * left \<longrightarrow> left < 2 ^ 62 \<longrightarrow> wait = 2 * left div 3) \<and> (2 ^ 62 \<le> left \<longrightarrow> wait = minute)))
    | TryRenewal b \<Rightarrow> e = TimerFired \<and> second \<le> b \<and> b \<le> minute
        \<and> (dp_pc s = BackOff b \<or> (\<exists>wait. dp_pc s = SleepUntilDue wait) \<and> b = second)
    | BackOff b \<Rightarrow> (\<exists>a now b0. e = Answer a now \<and> dp_pc s = TryRenewal b0
        \<and> (let left = time_sub (ct_not_after (dp_cert t)) now in
          second \<le> b \<and> b \<le> minute \<and> (left < 5 * minute \<longrightarrow> b \<le> 15 * second) \<and> (left \<le> 0 \<longrightarrow> b = second)
          \<and> (5 * minute \<le> left \<longrightarrow> b = min (2 * b0) minute)))
    | _ \<Rightarrow> True"
proof -
  have inv: "renewal_inv s" by (rule renewal_inv_run[OF assms(2) boot_serving(1)[OF assms(1)]])
  show ?thesis
  proof (cases "dp_pc t")
    case (SleepUntilDue wait)
    then obtain now where now: "e = ClockRead now" "wait = renewal_wait (ct_not_after (dp_cert t)) now"
      using assms(3) by (cases "(env, s, e)" rule: renewal_step.cases)
        (auto simp: cert_get_def install_def Let_def split: if_splits renewal_pc.splits issue_end.splits)
    show ?thesis unfolding SleepUntilDue renewal_pc.case Let_def
      using now wait_facts[of "ct_not_after (dp_cert t)" now] by (intro exI[of _ now]) simp
  next
    case (TryRenewal b)
    then have "e = TimerFired" "dp_pc s = BackOff b \<or> (\<exists>wait. dp_pc s = SleepUntilDue wait) \<and> b = second"
      using assms(3) by (cases "(env, s, e)" rule: renewal_step.cases;
        auto simp: cert_get_def install_def Let_def split: if_splits renewal_pc.splits issue_end.splits)+
    moreover from this have "second \<le> b \<and> b \<le> minute" using inv by (auto simp: renewal_inv_def)
    ultimately show ?thesis by (simp add: TryRenewal)
  next
    case (BackOff b)
    then obtain a now b0 where b: "e = Answer a now" "dp_pc s = TryRenewal b0"
      "b = next_backoff b0 (time_sub (ct_not_after (dp_cert t)) now)"
      using assms(3) by (cases "(env, s, e)" rule: renewal_step.cases)
        (auto simp: cert_get_def install_def Let_def split: if_splits renewal_pc.splits issue_end.splits)
    then have "second \<le> b0" "b0 \<le> minute" using inv by (simp_all add: renewal_inv_def)
    note bounds = backoff_bounds[OF this, of "time_sub (ct_not_after (dp_cert t)) now"]
      backoff_doubles[OF this, of "time_sub (ct_not_after (dp_cert t)) now"]
    show ?thesis unfolding BackOff renewal_pc.case Let_def b(3)
      by (intro exI[of _ a] exI[of _ now] exI[of _ b0] conjI impI b(1,2) bounds)
  qed simp_all
qed

text \<open>A certificate that parses expires at some time.\<close>

lemma issued_leaf: "issue_certificate env a = IssueOk c \<Longrightarrow>
    \<exists>der leaf. dm_parse_certificate env der = Inr leaf
      \<and> ct_common_name c = lf_common_name leaf \<and> ct_not_after c = lf_not_after leaf"
  by (auto simp: issue_certificate_def Let_def split: sum.splits option.splits) metis

lemma last_issued_expires:
  assumes "\<forall>der leaf. dm_parse_certificate env der = Inr leaf \<longrightarrow> lf_not_after leaf \<noteq> 0"
  shows "ct_not_after c \<noteq> 0 \<Longrightarrow> ct_not_after (last_issued env c es) \<noteq> 0"
proof (induction es arbitrary: c)
  case (Cons e es)
  have "ct_not_after c' \<noteq> 0" if "issue_certificate env a = IssueOk c'" for a c'
    using issued_leaf[OF that] assms by metis
  with Cons show ?case by (cases e) (auto split: issue_end.split)
qed simp

text \<open>From its start on the service identifies itself: \<open>/whoami\<close> answers 200 with the name and the expiry of
  the certificate that was issued last, never with a mixture of two and never that there is none.\<close>

theorem whoami_shows_last_certificate:
  assumes "demo_main env w = BootServing listen tokens s0" and "renewal_run env s0 es = Some s"
    and "\<forall>der leaf. dm_parse_certificate env der = Inr leaf \<longrightarrow> lf_not_after leaf \<noteq> 0"
  shows "\<exists>c. c = last_issued env (dp_cert s0) es \<and> whoami json_string rfc3339 s =
      demo_json 200 [(''common_name'', json_string (ct_common_name c)),
        (''not_after'', json_string (rfc3339 (ct_not_after c)))]"
proof -
  have "ct_not_after (dp_cert s0) \<noteq> 0"
    using issued_leaf[OF boot_serving(5)[OF assms(1)]] assms(3) by metis
  then have "ct_not_after (last_issued env (dp_cert s0) es) \<noteq> 0" by (rule last_issued_expires[OF assms(3)])
  moreover have "dp_cert s = last_issued env (dp_cert s0) es" using renewal_counts[OF assms(2)] by blast
  ultimately show ?thesis by (simp add: whoami_def cert_get_def)
qed

text \<open>The secret itself never reaches the log: what is logged depends on its presence only.\<close>

lemma kv_log_hides_secret:
  "(data ''data'' = None \<longleftrightarrow> data' ''data'' = None) \<Longrightarrow> kv_log (Inr (Some data)) = kv_log (Inr (Some data'))"
  by (simp add: kv_log_def)

subsection \<open>A run\<close>

definition sample_demo_env :: demo_env where
  "sample_demo_env = \<lparr>dm_pem_decode = (\<lambda>s. if s = [] then None else Some s),
     dm_parse_certificate = (\<lambda>d. Inr \<lparr>lf_common_name = d, lf_not_after = Instant (24 * hour)\<rparr>),
     dm_duration_text = (\<lambda>_. ''1s'')\<rparr>"

definition sample_demo_world :: "nat demo_world" where
  "sample_demo_world = \<lparr>dw_getenv = (\<lambda>_. []),
     dw_read_file = (\<lambda>_. Inr (''VAULT_ROLE_ID=r'' @ [CHR 0x0A] @ ''VAULT_SECRET_ID=s=1'' @ [CHR 0x0A])),
     dw_api = \<lparr>va_new_client = (\<lambda>_. None), va_approle = (\<lambda>_ _. None), va_login = (\<lambda>_ _. Inr (Some 1))\<rparr>,
     dw_kv = Inr None, dw_first_issue = Inr (Some [''certificate'' \<mapsto> VString ''A''])\<rparr>"

definition sample_demo_start :: demo_state where
  "sample_demo_start = install \<lparr>ct_common_name = ''A'', ct_not_after = Instant (24 * hour), ct_cert_pem = ''A'',
       ct_key_pem = []\<rparr>
     \<lparr>dp_pc = CheckCertificate, dp_cert = no_certificate, dp_expiry_gauge = 0, dp_renewals = 0, dp_failures = 0,
      dp_log = [''demo-api: approle login succeeded'', kv_log (Inr None), ''demo-api: listening on :8000'']\<rparr>"

definition sample_demo_events :: "renewal_event list" where
  "sample_demo_events = [ClockRead 0, TimerFired, Answer (Inl ''down'') (Instant (23 * hour)), TimerFired,
     Answer (Inr (Some [''certificate'' \<mapsto> VString ''B''])) (Instant (23 * hour)), ClockRead (Instant hour)]"

lemma sample_demo_file:
  "load_env_file (dw_read_file sample_demo_world) f = Inr \<lparr>ec_role_id = ''r'', ec_secret_id = ''s=1''\<rparr>"
  by (simp add: sample_demo_world_def load_env_file_def) code_simp

lemma sample_demo_boot:
  "demo_main sample_demo_env sample_demo_world = BootServing '':8000'' (token_start 1) sample_demo_start"
proof -
  have "vaultauth_login (dw_api sample_demo_world) a \<lparr>ec_role_id = ''r'', ec_secret_id = ''s=1''\<rparr> = Inr (token_start 1)" for a
    by (simp add: vaultauth_login_def approle_login_def sample_demo_world_def)
  moreover have "issue_certificate sample_demo_env (dw_first_issue sample_demo_world)
      = IssueOk \<lparr>ct_common_name = ''A'', ct_not_after = Instant (24 * hour), ct_cert_pem = ''A'', ct_key_pem = []\<rparr>"
    by (simp add: issue_certificate_def Let_def sample_demo_env_def sample_demo_world_def)
  ultimately show ?thesis
    unfolding demo_main_def Let_def sample_demo_file sample_demo_start_def demo_getenv_def
    by (simp add: sample_demo_world_def)
qed

lemma sample_demo_run:
  "map_option (\<lambda>s. (length (filter is_answer sample_demo_events), length (filter (failed_answer sample_demo_env) sample_demo_events),
       ct_common_name (last_issued sample_demo_env (dp_cert sample_demo_start) sample_demo_events)))
     (renewal_run sample_demo_env sample_demo_start sample_demo_events) = Some (2, 1, ''B'')"
  by code_simp

theorem env_file_roundtrip_witness:
  "load_env_file (dw_read_file sample_demo_world) ''f'' = Inr \<lparr>ec_role_id = ''r'', ec_secret_id = ''s=1''\<rparr>"
  by (rule env_file_roundtrip[where pre = "[]" and mid = "[]" and post = "[[]]"])
    (auto simp: sample_demo_world_def inert_line_def env_line_def trim_space_def is_space_def)

theorem renewal_never_abandoned_witness:
  "\<exists>s. renewal_run sample_demo_env sample_demo_start sample_demo_events = Some s
     \<and> dp_renewals s = 2 \<and> dp_failures s = 1 \<and> ct_common_name (dp_cert s) = ''B''"
proof -
  obtain s where "renewal_run sample_demo_env sample_demo_start sample_demo_events = Some s"
    using sample_demo_run by (cases "renewal_run sample_demo_env sample_demo_start sample_demo_events") simp_all
  then show ?thesis using renewal_never_abandoned[OF sample_demo_boot] sample_demo_run by fastforce
qed

theorem whoami_shows_last_certificate_witness:
  "\<exists>s. renewal_run sample_demo_env sample_demo_start sample_demo_events = Some s
     \<and> dr_status (whoami quote_text (\<lambda>_. ''t'') s) = 200"
proof -
  obtain s where run: "renewal_run sample_demo_env sample_demo_start sample_demo_events = Some s"
    using sample_demo_run by (cases "renewal_run sample_demo_env sample_demo_start sample_demo_events") simp_all
  have "\<forall>der leaf. dm_parse_certificate sample_demo_env der = Inr leaf \<longrightarrow> lf_not_after leaf \<noteq> 0"
    by (auto simp: sample_demo_env_def)
  from whoami_shows_last_certificate[OF sample_demo_boot run this, of quote_text "\<lambda>_. ''t''"] run show ?thesis
    by (auto simp: demo_json_def)
qed

theorem renewal_delays_witness:
  "\<exists>s t. renewal_run sample_demo_env sample_demo_start [ClockRead 0, TimerFired] = Some s
     \<and> renewal_step sample_demo_env s (Answer (Inl ''down'') (Instant (23 * hour))) = Some t
     \<and> dp_pc t = BackOff (2 * second)"
proof -
  let ?e = "Answer (Inl ''down'') (Instant (23 * hour))"
  have code: "(case renewal_run sample_demo_env sample_demo_start [ClockRead 0, TimerFired] of None \<Rightarrow> False
      | Some s \<Rightarrow> (case renewal_step sample_demo_env s ?e of None \<Rightarrow> False
        | Some t \<Rightarrow> dp_pc s = TryRenewal second \<and> time_sub (ct_not_after (dp_cert t)) (Instant (23 * hour)) = hour
            \<and> (case dp_pc t of BackOff b \<Rightarrow> True | _ \<Rightarrow> False)))" by code_simp
  then obtain s t b where run: "renewal_run sample_demo_env sample_demo_start [ClockRead 0, TimerFired] = Some s"
    and step: "renewal_step sample_demo_env s ?e = Some t" and pc: "dp_pc s = TryRenewal second" "dp_pc t = BackOff b"
    and left: "time_sub (ct_not_after (dp_cert t)) (Instant (23 * hour)) = hour"
    by (auto split: option.splits renewal_pc.splits)
  have "b = min (2 * second) minute"
    using renewal_delays[OF sample_demo_boot run step] pc left by (simp add: Let_def)
  then show ?thesis using run step pc(2) by (intro exI[of _ s] exI[of _ t] conjI) simp_all
qed

end
