(* ===== verification/Server_Life.thy ===== *)
theory Server_Life imports Probe_Service Executor Demo_Api
begin

text \<open>
  How the HTTP servers live and end: the metrics server of \<open>probe run\<close>, the executor, the demo API and the fault
  proxy.  All of them serve in one goroutine and shut down in another, and differ in what the code that owns the
  server waits for.  What \<open>net/http\<close> does is documented: \<open>Shutdown\<close> closes the listener and waits for the requests
  in flight or for its context, and \<open>Serve\<close> returns \<open>ErrServerClosed\<close> as soon as \<open>Shutdown\<close> is called.
\<close>

subsection \<open>What each owner waits for\<close>

text \<open>The blocking operations on its server that the owner goes through before it ends.\<close>

datatype owner_wait = AwaitCancel | AwaitServing | AwaitShutdown

text \<open>The continuous mode of \<open>probe run\<close> serves metrics in a goroutine of its own and returns once its context is
  done.  \<open>executor.Serve\<close> and \<open>main\<close> of the demo API call \<open>Shutdown\<close> in a goroutine that nobody waits for and
  end when \<open>ListenAndServe\<close> has returned.  \<open>Close\<close> of the proxy calls \<open>Shutdown\<close> itself and then receives from
  \<open>done\<close>.\<close>

definition metrics_owner :: "owner_wait list" where
  "metrics_owner = [AwaitCancel]"

definition executor_owner :: "owner_wait list" where
  "executor_owner = [AwaitServing]"

definition demo_owner :: "owner_wait list" where
  "demo_owner = [AwaitServing]"

definition proxy_owner :: "owner_wait list" where
  "proxy_owner = [AwaitShutdown, AwaitServing]"

subsection \<open>The transition system\<close>

text \<open>The call of \<open>Shutdown\<close>, and whether it returned an error.\<close>

datatype shutdown_pc = AwaitContext | Draining | ShutdownDone "gostring option"

text \<open>\<open>sl_cancelled\<close>: the context is done, or \<open>Close\<close> of the proxy was called; \<open>sl_owner\<close> is what the owner still
  has to wait for.\<close>

record server_life =
  sl_accepting :: bool
  sl_seen :: "nat set"
  sl_flight :: "nat set"
  sl_answered :: "nat set"
  sl_cancelled :: bool
  sl_shutdown :: shutdown_pc
  sl_served :: "serve_end option"
  sl_owner :: "owner_wait list"

definition server_started :: "owner_wait list \<Rightarrow> server_life" where
  "server_started owner = \<lparr>sl_accepting = True, sl_seen = {}, sl_flight = {}, sl_answered = {}, sl_cancelled = False,
     sl_shutdown = AwaitContext, sl_served = None, sl_owner = owner\<rparr>"

fun wait_over :: "owner_wait \<Rightarrow> server_life \<Rightarrow> bool" where
  "wait_over AwaitCancel s = sl_cancelled s"
| "wait_over AwaitServing s = (sl_served s \<noteq> None)"
| "wait_over AwaitShutdown s = (case sl_shutdown s of ShutdownDone _ \<Rightarrow> True | _ \<Rightarrow> False)"

definition owner_ended :: "server_life \<Rightarrow> bool" where
  "owner_ended s \<longleftrightarrow> sl_owner s = []"

text \<open>Nothing happens after the owner has ended: the process exits, or the proxy has cut its connections.\<close>

inductive server_step :: "server_life \<Rightarrow> server_life \<Rightarrow> bool" where
  request: "\<not> owner_ended s \<Longrightarrow> sl_accepting s \<Longrightarrow> q \<notin> sl_seen s \<Longrightarrow>
    server_step s (s\<lparr>sl_seen := insert q (sl_seen s), sl_flight := insert q (sl_flight s)\<rparr>)"
| answer: "\<not> owner_ended s \<Longrightarrow> q \<in> sl_flight s \<Longrightarrow>
    server_step s (s\<lparr>sl_flight := sl_flight s - {q}, sl_answered := insert q (sl_answered s)\<rparr>)"
| cancel: "\<not> owner_ended s \<Longrightarrow> server_step s (s\<lparr>sl_cancelled := True\<rparr>)"
| shutdown: "\<not> owner_ended s \<Longrightarrow> sl_cancelled s \<Longrightarrow> sl_shutdown s = AwaitContext \<Longrightarrow>
    server_step s (s\<lparr>sl_shutdown := Draining, sl_accepting := False\<rparr>)"
| drained: "\<not> owner_ended s \<Longrightarrow> sl_shutdown s = Draining \<Longrightarrow> sl_flight s = {} \<Longrightarrow>
    server_step s (s\<lparr>sl_shutdown := ShutdownDone None\<rparr>)"
| deadline: "\<not> owner_ended s \<Longrightarrow> sl_shutdown s = Draining \<Longrightarrow>
    server_step s (s\<lparr>sl_shutdown := ShutdownDone (Some e)\<rparr>)"
| served_closed: "\<not> owner_ended s \<Longrightarrow> sl_served s = None \<Longrightarrow> sl_shutdown s \<noteq> AwaitContext \<Longrightarrow>
    server_step s (s\<lparr>sl_served := Some ServerClosed\<rparr>)"
| served_error: "\<not> owner_ended s \<Longrightarrow> sl_served s = None \<Longrightarrow> sl_shutdown s = AwaitContext \<Longrightarrow>
    server_step s (s\<lparr>sl_served := Some (ServeError e), sl_accepting := False\<rparr>)"
| owner_moves: "sl_owner s = w # ws \<Longrightarrow> wait_over w s \<Longrightarrow> server_step s (s\<lparr>sl_owner := ws\<rparr>)"

abbreviation server_reach :: "owner_wait list \<Rightarrow> server_life \<Rightarrow> bool" where
  "server_reach owner \<equiv> server_step\<^sup>*\<^sup>* (server_started owner)"

text \<open>Requests that were accepted and will not be answered.\<close>

definition abandoned :: "server_life \<Rightarrow> nat set" where
  "abandoned s = (if owner_ended s then sl_flight s else {})"

subsection \<open>What the owners report\<close>

definition executor_serve :: "executor_env \<Rightarrow> serve_end \<Rightarrow> gostring \<Rightarrow> gostring \<Rightarrow> gostring option" where
  "executor_serve env ending listen name =
     (case select_executor env name of Inl e \<Rightarrow> Some e | Inr _ \<Rightarrow> serve_error ending)"

definition demo_end :: "serve_end \<Rightarrow> gostring option" where
  "demo_end ending = map_option (\<lambda>e. ''demo-api: server error: '' @ e) (serve_error ending)"

text \<open>The drift agent's server has no shutdown: every end of serving is an error.\<close>

definition agent_serve_end :: "gostring \<Rightarrow> int \<times> gostring" where
  "agent_serve_end e = (1, ''serve: '' @ e)"

text \<open>The result of an owner that has ended; inside, \<open>None\<close> is no error.\<close>

definition demo_result :: "server_life \<Rightarrow> gostring option option" where
  "demo_result s = (if owner_ended s then map_option demo_end (sl_served s) else None)"

definition executor_result :: "executor_env \<Rightarrow> gostring \<Rightarrow> gostring \<Rightarrow> server_life \<Rightarrow> gostring option option" where
  "executor_result env listen name s =
     (if owner_ended s then map_option (\<lambda>ending. executor_serve env ending listen name) (sl_served s) else None)"

definition proxy_result :: "server_life \<Rightarrow> gostring option option" where
  "proxy_result s = (if owner_ended s
     then (case (sl_shutdown s, sl_served s) of
         (ShutdownDone err, Some ending) \<Rightarrow> Some (proxy_close err (\<lambda>_. ending)) | _ \<Rightarrow> None)
     else None)"

subsection \<open>Laws\<close>

definition server_inv :: "server_life \<Rightarrow> bool" where
  "server_inv s \<longleftrightarrow> sl_seen s = sl_flight s \<union> sl_answered s \<and> sl_flight s \<inter> sl_answered s = {}
     \<and> (sl_shutdown s \<noteq> AwaitContext \<longrightarrow> sl_cancelled s \<and> \<not> sl_accepting s)
     \<and> (sl_served s = Some ServerClosed \<longrightarrow> sl_shutdown s \<noteq> AwaitContext)
     \<and> (sl_shutdown s = ShutdownDone None \<longrightarrow> sl_flight s = {})
     \<and> (sl_served s \<noteq> None \<longrightarrow> \<not> sl_accepting s)"

lemma server_inv_start: "server_inv (server_started owner)"
  by (simp add: server_inv_def server_started_def)

lemma server_inv_step: "server_step s t \<Longrightarrow> server_inv s \<Longrightarrow> server_inv t"
  by (induction rule: server_step.induct) (auto simp: server_inv_def)

lemma server_inv_reach: "server_reach owner s \<Longrightarrow> server_inv s"
  by (induction rule: rtranclp_induct) (auto intro: server_inv_start server_inv_step)

text \<open>A wait that is over stays over, so the owner has been through all it is not waiting for any more.\<close>

lemma wait_over_step: "server_step s t \<Longrightarrow> wait_over w s \<Longrightarrow> wait_over w t"
  by (induction rule: server_step.induct; cases w) (auto split: shutdown_pc.splits)

lemma owner_waited:
  "server_reach owner s \<Longrightarrow> \<exists>passed. owner = passed @ sl_owner s \<and> (\<forall>w \<in> set passed. wait_over w s)"
proof (induction rule: rtranclp_induct)
  case base
  then show ?case by (simp add: server_started_def)
next
  case (step s t)
  then obtain passed where passed: "owner = passed @ sl_owner s" "\<forall>w \<in> set passed. wait_over w s" by blast
  have kept: "\<forall>w \<in> set passed. wait_over w t" using passed(2) wait_over_step[OF step(2)] by blast
  show ?case using step(2)
  proof cases
    case (owner_moves w ws)
    then have "wait_over w t" using wait_over_step[OF step(2)] by blast
    then show ?thesis using kept passed(1) owner_moves by (intro exI[of _ "passed @ [w]"]) auto
  qed (use kept passed(1) in \<open>auto intro!: exI[of _ passed]\<close>)
qed

lemma owner_done: "server_reach owner s \<Longrightarrow> owner_ended s \<Longrightarrow> w \<in> set owner \<Longrightarrow> wait_over w s"
  using owner_waited[of owner s] by (auto simp: owner_ended_def)

text \<open>\<open>Close\<close> without an error has seen every accepted request answered.\<close>

lemma proxy_ends:
  assumes "server_reach proxy_owner s" and "owner_ended s"
  obtains res where "proxy_result s = Some res" and "res = None \<Longrightarrow> sl_answered s = sl_seen s"
proof -
  have "wait_over AwaitShutdown s" "wait_over AwaitServing s"
    by (rule owner_done[OF assms], simp add: proxy_owner_def)+
  then obtain err ending where s: "sl_shutdown s = ShutdownDone err" "sl_served s = Some ending"
    by (auto split: shutdown_pc.splits)
  show thesis
  proof (rule that)
    show "proxy_result s = Some (proxy_close err (\<lambda>_. ending))" using assms(2) s by (simp add: proxy_result_def)
    assume "proxy_close err (\<lambda>_. ending) = None"
    then have "err = None" by (cases err) (simp_all add: proxy_close_def Let_def)
    then show "sl_answered s = sl_seen s" using server_inv_reach[OF assms(1)] s(1) by (simp add: server_inv_def)
  qed
qed

text \<open>A run in which one request is in flight when the context ends, and serving has ended.\<close>

definition busy_at_shutdown :: "owner_wait list \<Rightarrow> server_life" where
  "busy_at_shutdown owner = (server_started owner)\<lparr>sl_accepting := False, sl_seen := {0}, sl_flight := {0},
     sl_cancelled := True, sl_shutdown := Draining, sl_served := Some ServerClosed\<rparr>"

lemma busy_reachable:
  assumes "owner \<noteq> []"
  shows "server_reach owner (busy_at_shutdown owner)"
proof -
  let ?s0 = "server_started owner"
  let ?s1 = "?s0\<lparr>sl_seen := {0}, sl_flight := {0}\<rparr>"
  let ?s2 = "?s1\<lparr>sl_cancelled := True\<rparr>"
  let ?s3 = "?s2\<lparr>sl_shutdown := Draining, sl_accepting := False\<rparr>"
  note defs = server_started_def owner_ended_def assms
  have "server_step ?s0 ?s1" using server_step.request[of ?s0 0] by (simp add: defs)
  moreover have "server_step ?s1 ?s2" by (rule server_step.cancel) (simp add: defs)
  moreover have "server_step ?s2 ?s3" by (rule server_step.shutdown) (simp_all add: defs)
  moreover have "server_step ?s3 (?s3\<lparr>sl_served := Some ServerClosed\<rparr>)"
    by (rule server_step.served_closed) (simp_all add: defs)
  moreover have "?s3\<lparr>sl_served := Some ServerClosed\<rparr> = busy_at_shutdown owner"
    by (simp add: busy_at_shutdown_def server_started_def)
  ultimately show ?thesis by (metis (no_types, lifting) converse_rtranclp_into_rtranclp rtranclp.rtrancl_refl)
qed

text \<open>An owner that waits only for the context or for serving can end there.\<close>

lemma ends_busy:
  assumes "w \<noteq> AwaitShutdown"
  obtains t where "server_reach [w] t" and "owner_ended t" and "abandoned t \<noteq> {}" and "sl_served t = Some ServerClosed"
    and "sl_shutdown t = Draining"
proof -
  let ?s = "busy_at_shutdown [w]"
  have "wait_over w ?s" using assms by (cases w) (simp_all add: busy_at_shutdown_def)
  then have "server_step ?s (?s\<lparr>sl_owner := []\<rparr>)"
    by (rule server_step.owner_moves[rotated]) (simp add: busy_at_shutdown_def server_started_def)
  then have "server_reach [w] (?s\<lparr>sl_owner := []\<rparr>)"
    using busy_reachable[of "[w]"] by (simp add: rtranclp.rtrancl_into_rtrancl)
  then show thesis by (rule that) (simp_all add: busy_at_shutdown_def abandoned_def owner_ended_def)
qed



end
