(* ===== verification/Spec2Isabelle.thy ===== *)
theory Spec2Isabelle imports Probe_Config Scenario_Laws Executor Evidence_Laws Cycle_Examples Baseline_Chain
  Drift_Agent_Laws Drift_Service_Laws Attestation_Laws Chaos_Report_Laws Command_Laws Probe_Run
  Canary_Life Demo_Api_Laws Server_Life
begin

text \<open>
  pki-sentinel measures whether TLS clients notice that a certificate has been revoked, and watches the
  trust stores of hosts; a small API shows a renewed client identity.  This development models the Go code of
  all three programs.

  \<^bold>\<open>The program.\<close>  The revocation probe (\<open>src/services/revocation-probe\<close>) runs cycles: it issues a canary
  certificate from Vault, serves it, checks before the revocation that every enabled profile sees what its
  scenario expects, revokes the certificate, polls the status oracles and the clients (each client after the
  evidence it waits for is published), stores the evidence, and evaluates a report, which it archives, signs
  and prints.  Profiles may run in their own containers behind an HTTP executor.  The chaos command delays
  the OCSP responder and repeats cycles.  The drift agent (\<open>src/services/truststore-drift-agent\<close>) compares
  the roots of a host with a signed baseline and keeps a rollback state under a lock.  The demo API
  (\<open>src/services/demo-api\<close>) logs in to Vault and renews the certificate it shows.

  \<^bold>\<open>Conventions.\<close>  A function returning \<open>(T, error)\<close> is a value of \<open>error + T\<close>; an operation on shared state
  that keeps what a failed call has done is \<open>op\<close> of \<open>Effects\<close>.  Strings and byte slices are lists of
  characters, Go's \<open>int\<close> of a counter is \<open>nat\<close> or \<open>int\<close>, a \<open>time.Duration\<close> is an \<open>int\<close> of nanoseconds
  whose sums and products wrap at 64 bits (\<open>Go_Time\<close>), key usage and baseline sequence numbers are
  \<open>64 word\<close>.  A loop without a bound is \<open>run_loop\<close>, whose \<open>None\<close> is a loop that never returns; no model uses
  fuel.  Everything outside the repository (decoders, hashes, signatures, Vault, sockets, processes, files,
  the clock, goroutine schedules) is a field of an environment record, and what a theorem needs of it is
  a named hypothesis (\<open>signature_laws\<close>, \<open>envelope_codec\<close>, \<open>state_codec\<close>, \<open>pem_advances\<close>).

  \<^bold>\<open>Shared theories.\<close>  \<open>Prelude\<close> (results, loops, sorting), \<open>Go_Strings\<close>, \<open>Go_Time\<close>, \<open>Paths\<close>
  (\<open>path/filepath\<close>), \<open>Effects\<close> (operations and the locales \<open>run_relation\<close> and \<open>exit_relations\<close>, by which
  every relation that all runs respect is proved once and interpreted for each), \<open>Json_Tokens\<close> (the token
  decoder of \<open>encoding/json\<close>), \<open>Go_Keys\<close>.

  \<^bold>\<open>The probe.\<close>
  \<^item> \<open>Domain\<close>: the types of \<open>internal/profiles/profile.go\<close>.  \<open>Status_Policy\<close>, \<open>Probes\<close>, \<open>Probe_Laws\<close>: the
    status rules and the seven profiles of \<open>registry.go\<close>; the oracles are exact, and every profile is sound.
  \<^item> \<open>Probe_Config\<close>: \<open>internal/config\<close>.  \<open>Scenarios\<close>, \<open>Scenario_Laws\<close>: \<open>internal/scenarios\<close>; \<open>build\<close> accepts
    exactly the valid documents, in any order of their maps.
  \<^item> \<open>Executor\<close>: both sides of \<open>internal/executor\<close>; the guards of the server and the transparency of remote
    execution.
  \<^item> \<open>Runner_State\<close>, \<open>Poll\<close>, \<open>Preflight\<close>, \<open>Barriers\<close>, \<open>Timeline\<close>, \<open>Observe\<close>, \<open>Staple\<close>, \<open>Cycle\<close>: the runner
    (\<open>internal/runner/runner.go\<close>, \<open>runconfig.go\<close>) with \<open>internal/metrics\<close> as emitted values and the parts of
    \<open>internal/canary\<close> and \<open>internal/issuer\<close> (\<open>Issuer\<close>) it needs.  The goroutines of the observation phase are
    the step relation \<open>observe_step\<close>; \<open>Observe_Laws\<close> shows that every interleaving ends, ends in the results
    of the phase as a function, and lets no client probe before its evidence.  \<open>Poll_Laws\<close> and \<open>Cycle_Laws\<close>
    show what a poll and a cycle do on every exit: the revocation discipline, the verdict, termination.
  \<^item> \<open>Evidence_Store\<close>, \<open>Evidence_Laws\<close>: \<open>internal/runner/evidence.go\<close> over a file system whose every call may
    fail; the store is write-once (locale \<open>write_once_store\<close>), confined, and durable on success.
  \<^item> \<open>Json_Duplicates\<close>, \<open>Json_Laws\<close>, \<open>Attestation\<close>, \<open>Attestation_Laws\<close>: \<open>internal/attestation\<close>; the duplicate
    key checkers are exact, signed reports verify after they are read back, and verification accepts
    exactly the envelopes that describe and sign their payload.
  \<^item> \<open>Chaos\<close>, \<open>Chaos_Laws\<close>: \<open>internal/chaos\<close>; the records and counts of a sweep agree, and the proxy is
    restored (locale \<open>delay_controller\<close>).  \<open>Chaos_Report\<close>, \<open>Chaos_Report_Laws\<close>: the failure rates as \<open>float64\<close>
    values, the CSV files and the end of the chaos command; the rates printed are the exact ones up to rounding.
  \<^item> \<open>Probe_Command\<close>, \<open>Command_Laws\<close>: \<open>cmd/probe/main.go\<close>; a probe that starts has a well-formed runner, what
    a standalone check prints, and why the trials of the chaos command cannot succeed as it is configured.
    \<open>Publication_Laws\<close>: what a cycle publishes agrees and verifies, whichever sink fails.  \<open>Probe_Service\<close>:
    the single and the continuous mode, the executor command, the metrics server and the end of the proxy.
    \<open>Evidence_Lifetime\<close>: no cycle ever changes stored evidence, and clean cycles have reports of their own.
    \<open>Probe_Run\<close>: the command from its options to its last cycle; it never hangs.
  \<^item> \<open>Canary_Life\<close>: the accept loop, the handlers and \<open>Close\<close> of \<open>internal/canary\<close> as the step relation
    \<open>canary_step\<close>; a close that returned left nothing behind, and every close completes
    in every schedule.
  \<^item> \<open>Server_Life\<close>: how the HTTP servers of the three programs serve, shut down and end, as the step relation
    \<open>server_step\<close>, given what each owner waits for; the proxy's \<open>Close\<close> reports no error only if every request was
    answered, the other owners can end in the middle of a request.
  \<^item> \<open>Token_Loop\<close>: AppRole logins and the loop that keeps a token alive, which \<open>internal/issuer\<close> and the demo
    API's \<open>internal/vaultauth\<close> share; \<open>Streams\<close>: output that may fail.

  \<^bold>\<open>The drift agent\<close> (\<open>truststore-drift-agent/main.go\<close>).  \<open>Trust_Store\<close>: certificates, baselines, the
  enumeration of the store.  \<open>Drift\<close>, \<open>Drift_Laws\<close>: the comparison and what it counts, in closed form.
  \<open>Baseline_State\<close>, \<open>Baseline_Laws\<close>: the rollback state, its lock and its atomic replacement; whatever call
  fails, the state is kept or replaced by the accepted baseline's.  \<open>Baseline_Chain\<close>: any number of agents on
  one state, as the step relation \<open>agent_step\<close>; the baselines written form a hash chain, and the transaction
  refines an agent.  \<open>Drift_Agent\<close>, \<open>Drift_Agent_Laws\<close>: the commands; a silent check is sound, and a baseline
  verifies and checks silently on the store it was made from.  \<open>Drift_Service\<close>, \<open>Drift_Service_Laws\<close>: the
  commands with their files and output; the signing key is stable, a published baseline verifies, a check
  reports what it decides, and \<open>serve\<close> answers from its latest scan.

  \<^bold>\<open>The demo API\<close> (\<open>demo-api/main.go\<close>, \<open>internal/vaultauth\<close>).  \<open>Demo_Api\<close>, \<open>Demo_Api_Laws\<close>: the credentials
  file, issuing a client certificate, the renewal controller as a machine of its events (\<open>renewal_step\<close>), the
  start of the service and its handlers; renewal is never abandoned and its delays are bounded.

  \<^bold>\<open>Not modelled.\<close>  The HTTP and TLS stacks below the handlers and the life of the servers (routing, timeouts of
  connections, the bytes of a hijacked connection); the Prometheus registry behind the emitted values; flag parsing and usage texts, signals, and log lines
  that nothing reads; the fallback of the state lock on platforms without \<open>flock\<close>.  Tickers and timers are
  sequences of moments or events.
\<close>

end
